(* ===== verification/Go_Prelude.thy ===== *)
theory Go_Prelude
  imports Complex_Main "HOL-Library.Word"
begin

text \<open>
  The vocabulary every component shares.

  \<^item> The fixed-width arrays of the Go code: \<open>types.Hash\<close> and \<open>[32]byte\<close> are
    \<^typ>\<open>256 word\<close>, \<open>ethcommon.Address\<close> is \<^typ>\<open>160 word\<close>, a slice of bytes is a
    list of \<^typ>\<open>8 word\<close>.
  \<^item> Go's \<open>error\<close> values: sentinels made with \<open>errors.New\<close>, plain \<open>fmt.Errorf\<close> errors, and
    errors that wrap another one with the verb \<open>%w\<close>, with \<open>Error()\<close>, \<open>errors.Is\<close> and
    \<open>strings.Contains\<close> on them.
  \<^item> Effectful code: a computation maps a state to an outcome and a state. The outcome is a
    value, an error, a panic, or \<open>Block\<close> (the goroutine waits on a channel on which nothing
    arrives any more in the modelled sequence of inputs). The state survives an error, as the
    mutations made before an early \<open>return err\<close> do in Go.
  \<^item> A weakest-precondition calculus for those computations, whose rules are collected in
    \<open>wp_rules\<close>, and the invariant-preservation rules \<open>keeps_rules\<close>.
\<close>

unbundle bit_operations_syntax

section \<open>Bytes, hashes and addresses\<close>

type_synonym byte = "8 word"
type_synonym bytes = "8 word list"
type_synonym hash = "256 word"
type_synonym address = "160 word"
type_synonym uint64 = "64 word"
type_synonym int32 = "32 word"

text \<open>The slice \<open>h[:]\<close> of a 32-byte array, most significant byte first.\<close>

definition hash_bytes :: "hash \<Rightarrow> bytes" where
  "hash_bytes h = map (\<lambda>i. ucast (drop_bit (8 * (31 - i)) h)) [0..<32]"

lemma length_hash_bytes [simp]: "length (hash_bytes h) = 32"
  by (simp add: hash_bytes_def)

lemma hash_bytes_nth:
  "i < 32 \<Longrightarrow> hash_bytes h ! i = ucast (drop_bit (8 * (31 - i)) h)"
  by (simp add: hash_bytes_def)

lemma bit_hash_bytes:
  assumes "n < 256"
  shows "bit h n \<longleftrightarrow> bit (hash_bytes h ! (31 - n div 8)) (n mod 8)"
proof -
  have i: "31 - n div 8 < 32" by simp
  have "8 * (31 - (31 - n div 8)) = 8 * (n div 8)" using assms by simp
  moreover have "8 * (n div 8) + n mod 8 = n" by simp
  moreover have "n mod 8 < 8" by simp
  ultimately show ?thesis using assms
    by (simp add: hash_bytes_nth [OF i] bit_simps)
qed

lemma hash_bytes_inject [simp]: "hash_bytes h = hash_bytes h' \<longleftrightarrow> h = h'"
proof
  assume eq: "hash_bytes h = hash_bytes h'"
  show "h = h'"
  proof (rule bit_word_eqI)
    fix n assume "n < LENGTH(256)"
    then have "n < 256" by simp
    then show "bit h n \<longleftrightarrow> bit h' n"
      using eq by (simp add: bit_hash_bytes [of n h] bit_hash_bytes [of n h'])
  qed
qed simp

text \<open>\<open>common.Reverse\<close> turns the little-endian encoding of a scalar into the big-endian one.\<close>

definition Reverse :: "bytes \<Rightarrow> bytes" where
  "Reverse s = map (\<lambda>i. s ! (length s - i - 1)) [0..<length s]"

lemma Reverse_eq_rev: "Reverse s = rev s"
  by (rule nth_equalityI) (auto simp: Reverse_def rev_nth)

text \<open>A byte string \<open>[]byte(s)\<close> of an ASCII string.\<close>

definition string_bytes :: "string \<Rightarrow> bytes" where
  "string_bytes s = map (\<lambda>c. of_nat (of_char c)) s"

lemma length_string_bytes [simp]: "length (string_bytes s) = length s"
  by (simp add: string_bytes_def)

lemma byte_of_char_inject: "(of_nat (of_char c) :: byte) = of_nat (of_char d) \<longleftrightarrow> c = d"
proof -
  have "of_char c < (256 :: nat)" "of_char d < (256 :: nat)" by simp_all
  then have "unat (of_nat (of_char c) :: byte) = of_char c"
    "unat (of_nat (of_char d) :: byte) = of_char d"
    by (simp_all add: unat_of_nat)
  then show ?thesis by (metis of_char_eq_iff)
qed

lemma string_bytes_inject [simp]: "string_bytes s = string_bytes t \<longleftrightarrow> s = t"
  unfolding string_bytes_def
  by (rule inj_map_eq_map) (auto simp: inj_def byte_of_char_inject)

section \<open>Go errors\<close>

text \<open>
  \<open>Sentinel name text\<close> is the package variable \<open>name\<close> made with \<open>errors.New(text)\<close>: Go compares
  such errors by identity, so the name is part of the value. \<open>Errorf text\<close> is an error made with
  \<open>fmt.Errorf\<close> (or \<open>errors.New\<close>) in place, and \<open>Wrapf a e b\<close> one whose format string has \<open>%w\<close>:
  \<open>a\<close> is the text before the verb and \<open>b\<close> the text after it. Verbs that print hashes, numbers
  and addresses are kept as written in the format string.
\<close>

datatype goerr =
    Sentinel string string
  | Errorf string
  | Wrapf string goerr string

primrec error_text :: "goerr \<Rightarrow> string" where
  "error_text (Sentinel n t) = t"
| "error_text (Errorf t) = t"
| "error_text (Wrapf a e b) = a @ error_text e @ b"

primrec unwraps_to :: "goerr \<Rightarrow> goerr \<Rightarrow> bool" where
  "unwraps_to (Sentinel n t) target = (target = Sentinel n t)"
| "unwraps_to (Errorf t) target = (target = Errorf t)"
| "unwraps_to (Wrapf a e b) target = (target = Wrapf a e b \<or> unwraps_to e target)"

text \<open>\<open>errors.Is(err, target)\<close>; \<open>None\<close> is Go's \<open>nil\<close>.\<close>

definition errors_Is :: "goerr option \<Rightarrow> goerr option \<Rightarrow> bool" where
  "errors_Is err target =
     (case err of None \<Rightarrow> target = None
      | Some e \<Rightarrow> (case target of None \<Rightarrow> False | Some t \<Rightarrow> unwraps_to e t))"

lemma unwraps_to_refl [simp]: "unwraps_to e e"
  by (cases e) auto

lemma errors_Is_Some [simp]: "errors_Is (Some e) (Some t) = unwraps_to e t"
  by (simp add: errors_Is_def)

lemma errors_Is_None [simp]:
  "errors_Is None None" "\<not> errors_Is (Some e) None" "\<not> errors_Is None (Some t)"
  by (simp_all add: errors_Is_def)

text \<open>\<open>strings.Contains(s, substr)\<close>.\<close>

fun is_prefix :: "string \<Rightarrow> string \<Rightarrow> bool" where
  "is_prefix [] ys = True"
| "is_prefix (x # xs) [] = False"
| "is_prefix (x # xs) (y # ys) = (x = y \<and> is_prefix xs ys)"

fun contains :: "string \<Rightarrow> string \<Rightarrow> bool" where
  "contains [] sub = (sub = [])"
| "contains (y # ys) sub = (is_prefix sub (y # ys) \<or> contains ys sub)"

lemma is_prefix_append: "is_prefix xs ys \<Longrightarrow> is_prefix xs (ys @ zs)"
  by (induction xs ys rule: is_prefix.induct) auto

lemma is_prefix_self: "is_prefix xs (xs @ ys)"
  by (induction xs) auto

lemma contains_append_left: "contains ys sub \<Longrightarrow> contains (xs @ ys) sub"
  by (induction xs) auto

lemma contains_append_right: "contains xs sub \<Longrightarrow> contains (xs @ ys) sub"
proof (induction xs)
  case Nil
  then show ?case by (cases ys) auto
next
  case (Cons x xs)
  then show ?case using is_prefix_append [of sub "x # xs" ys] by auto
qed

lemma contains_self: "contains sub sub"
  using is_prefix_self [of sub "[]"] by (cases sub) auto

lemma contains_wrapped: "contains (error_text e) sub \<Longrightarrow> contains (error_text (Wrapf a e b)) sub"
  by (simp add: contains_append_left contains_append_right)

section \<open>Computations\<close>

text \<open>A pure function that returns \<open>(T, error)\<close>.\<close>

type_synonym 'a result = "goerr + 'a"

datatype 'a outcome = Ok 'a | Err goerr | Panic string | Block

text \<open>Sequencing of stateless code that may return an error or panic.\<close>

primrec obind :: "'a outcome \<Rightarrow> ('a \<Rightarrow> 'b outcome) \<Rightarrow> 'b outcome" where
  "obind (Ok x) k = k x"
| "obind (Err e) k = Err e"
| "obind (Panic p) k = Panic p"
| "obind Block k = Block"

lemma obind_eq_Ok: "obind m k = Ok y \<longleftrightarrow> (\<exists>x. m = Ok x \<and> k x = Ok y)"
  by (cases m) auto

text \<open>\<open>if err != nil { panic(err) }\<close>.\<close>

primrec panic_on_err :: "'a outcome \<Rightarrow> 'a outcome" where
  "panic_on_err (Ok x) = Ok x"
| "panic_on_err (Err e) = Panic (error_text e)"
| "panic_on_err (Panic p) = Panic p"
| "panic_on_err Block = Block"

text \<open>A stateless outcome used inside a computation.\<close>

definition lift :: "'a outcome \<Rightarrow> 's \<Rightarrow> 'a outcome \<times> 's" where
  "lift r = (\<lambda>s. (r, s))"

type_synonym ('s, 'a) go = "'s \<Rightarrow> 'a outcome \<times> 's"

definition ret :: "'a \<Rightarrow> ('s, 'a) go" where
  "ret x = (\<lambda>s. (Ok x, s))"

definition fail :: "goerr \<Rightarrow> ('s, 'a) go" where
  "fail e = (\<lambda>s. (Err e, s))"

definition panic :: "string \<Rightarrow> ('s, 'a) go" where
  "panic m = (\<lambda>s. (Panic m, s))"

definition block :: "('s, 'a) go" where
  "block = (\<lambda>s. (Block, s))"

definition gets :: "('s \<Rightarrow> 'a) \<Rightarrow> ('s, 'a) go" where
  "gets f = (\<lambda>s. (Ok (f s), s))"

definition modify :: "('s \<Rightarrow> 's) \<Rightarrow> ('s, unit) go" where
  "modify f = (\<lambda>s. (Ok (), f s))"

text \<open>\<open>x, err := m; if err != nil { return err }\<close> followed by the rest.\<close>

definition bnd :: "('s, 'a) go \<Rightarrow> ('a \<Rightarrow> ('s, 'b) go) \<Rightarrow> ('s, 'b) go" where
  "bnd m k = (\<lambda>s. case m s of
       (Ok x, s') \<Rightarrow> k x s'
     | (Err e, s') \<Rightarrow> (Err e, s')
     | (Panic p, s') \<Rightarrow> (Panic p, s')
     | (Block, s') \<Rightarrow> (Block, s'))"

abbreviation andthen :: "('s, 'a) go \<Rightarrow> ('s, 'b) go \<Rightarrow> ('s, 'b) go" where
  "andthen m n \<equiv> bnd m (\<lambda>_. n)"

text \<open>\<open>x, err := m\<close> where the code goes on to inspect \<open>err\<close>: \<open>Inl err\<close> or \<open>Inr x\<close>.\<close>

definition attempt :: "('s, 'a) go \<Rightarrow> ('s, goerr + 'a) go" where
  "attempt m = (\<lambda>s. case m s of
       (Ok x, s') \<Rightarrow> (Ok (Inr x), s')
     | (Err e, s') \<Rightarrow> (Ok (Inl e), s')
     | (Panic p, s') \<Rightarrow> (Panic p, s')
     | (Block, s') \<Rightarrow> (Block, s'))"

text \<open>\<open>if err != nil { return fmt.Errorf("a%wb", err) }\<close>.\<close>

definition wrapping :: "string \<Rightarrow> string \<Rightarrow> ('s, 'a) go \<Rightarrow> ('s, 'a) go" where
  "wrapping a b m = (\<lambda>s. case m s of
       (Err e, s') \<Rightarrow> (Err (Wrapf a e b), s')
     | r \<Rightarrow> r)"

text \<open>\<open>if err := m; err != nil { log.Warnf(...) }\<close>: the error is only logged.\<close>

definition ignore_err :: "('s, 'a) go \<Rightarrow> ('s, unit) go" where
  "ignore_err m = bnd (attempt m) (\<lambda>_. ret ())"

text \<open>
  \<open>defer d()\<close> around a body \<open>m\<close>: the deferred function runs when the body returns or panics, and
  the function's own result is the body's, unless the deferred function itself panics or blocks.
\<close>

definition deferred :: "('s, 'a) go \<Rightarrow> ('s, unit) go \<Rightarrow> ('s, 'a) go" where
  "deferred m d = (\<lambda>s. case m s of
       (Block, s') \<Rightarrow> (Block, s')
     | (r, s') \<Rightarrow> (case d s' of
           (Panic p, s'') \<Rightarrow> (Panic p, s'')
         | (Block, s'') \<Rightarrow> (Block, s'')
         | (_, s'') \<Rightarrow> (r, s'')))"

definition unless :: "bool \<Rightarrow> ('s, unit) go \<Rightarrow> ('s, unit) go" where
  "unless b m = (if b then ret () else m)"

section \<open>Weakest preconditions\<close>

definition wp :: "('s, 'a) go \<Rightarrow> ('a outcome \<Rightarrow> 's \<Rightarrow> bool) \<Rightarrow> 's \<Rightarrow> bool" where
  "wp m Q s = (case m s of (r, s') \<Rightarrow> Q r s')"

named_theorems wp_rules

lemma wp_ret [wp_rules]: "wp (ret x) Q s = Q (Ok x) s"
  by (simp add: wp_def ret_def)

lemma wp_fail [wp_rules]: "wp (fail e) Q s = Q (Err e) s"
  by (simp add: wp_def fail_def)

lemma wp_panic [wp_rules]: "wp (panic p) Q s = Q (Panic p) s"
  by (simp add: wp_def panic_def)

lemma wp_block [wp_rules]: "wp block Q s = Q Block s"
  by (simp add: wp_def block_def)

lemma wp_gets [wp_rules]: "wp (gets f) Q s = Q (Ok (f s)) s"
  by (simp add: wp_def gets_def)

lemma wp_modify [wp_rules]: "wp (modify f) Q s = Q (Ok ()) (f s)"
  by (simp add: wp_def modify_def)

lemma wp_lift [wp_rules]: "wp (lift r) Q s = Q r s"
  by (simp add: wp_def lift_def)

lemma wp_bnd [wp_rules]:
  "wp (bnd m k) Q s = wp m (\<lambda>r s'. case r of
       Ok x \<Rightarrow> wp (k x) Q s' | Err e \<Rightarrow> Q (Err e) s'
     | Panic p \<Rightarrow> Q (Panic p) s' | Block \<Rightarrow> Q Block s') s"
  by (auto simp: wp_def bnd_def split: prod.splits outcome.splits)

lemma wp_attempt [wp_rules]:
  "wp (attempt m) Q s = wp m (\<lambda>r s'. case r of
       Ok x \<Rightarrow> Q (Ok (Inr x)) s' | Err e \<Rightarrow> Q (Ok (Inl e)) s'
     | Panic p \<Rightarrow> Q (Panic p) s' | Block \<Rightarrow> Q Block s') s"
  by (auto simp: wp_def attempt_def split: prod.splits outcome.splits)

lemma wp_wrapping [wp_rules]:
  "wp (wrapping a b m) Q s = wp m (\<lambda>r s'. case r of
       Err e \<Rightarrow> Q (Err (Wrapf a e b)) s' | _ \<Rightarrow> Q r s') s"
  by (auto simp: wp_def wrapping_def split: prod.splits outcome.splits)

lemma wp_deferred [wp_rules]:
  "wp (deferred m d) Q s = wp m (\<lambda>r s'. case r of
       Block \<Rightarrow> Q Block s'
     | _ \<Rightarrow> wp d (\<lambda>r' s''. case r' of
           Panic p \<Rightarrow> Q (Panic p) s'' | Block \<Rightarrow> Q Block s'' | _ \<Rightarrow> Q r s'') s') s"
  by (auto simp: wp_def deferred_def split: prod.splits outcome.splits)

lemma wp_if [wp_rules]: "wp (if b then m else n) Q s = (if b then wp m Q s else wp n Q s)"
  by simp

lemma wp_mono: "wp m Q s \<Longrightarrow> (\<And>r s'. Q r s' \<Longrightarrow> Q' r s') \<Longrightarrow> wp m Q' s"
  by (auto simp: wp_def split: prod.splits)

lemma wp_run: "wp m Q s \<Longrightarrow> m s = (r, s') \<Longrightarrow> Q r s'"
  by (simp add: wp_def)

lemma wp_iff_run: "wp m Q s \<longleftrightarrow> (\<forall>r s'. m s = (r, s') \<longrightarrow> Q r s')"
  by (auto simp: wp_def split: prod.splits)

lemma wp_conj: "wp m Q s \<Longrightarrow> wp m Q' s \<Longrightarrow> wp m (\<lambda>r s'. Q r s' \<and> Q' r s') s"
  by (auto simp: wp_def split: prod.splits)

section \<open>Invariants of computations\<close>

text \<open>\<open>keeps I m\<close>: whatever the outcome, \<open>m\<close> leads from a state with \<open>I\<close> to a state with \<open>I\<close>.\<close>

definition keeps :: "('s \<Rightarrow> bool) \<Rightarrow> ('s, 'a) go \<Rightarrow> bool" where
  "keeps I m = (\<forall>s. I s \<longrightarrow> I (snd (m s)))"

named_theorems keeps_rules

lemma keepsI: "(\<And>s. I s \<Longrightarrow> I (snd (m s))) \<Longrightarrow> keeps I m"
  by (simp add: keeps_def)

lemma keepsD: "keeps I m \<Longrightarrow> m s = (r, s') \<Longrightarrow> I s \<Longrightarrow> I s'"
  unfolding keeps_def by (metis snd_conv)

lemma keeps_ret [keeps_rules]: "keeps I (ret x)"
  by (simp add: keeps_def ret_def)

lemma keeps_fail [keeps_rules]: "keeps I (fail e)"
  by (simp add: keeps_def fail_def)

lemma keeps_panic [keeps_rules]: "keeps I (panic p)"
  by (simp add: keeps_def panic_def)

lemma keeps_block [keeps_rules]: "keeps I block"
  by (simp add: keeps_def block_def)

lemma keeps_gets [keeps_rules]: "keeps I (gets f)"
  by (simp add: keeps_def gets_def)

lemma keeps_lift [keeps_rules]: "keeps I (lift r)"
  by (simp add: keeps_def lift_def)

lemma keeps_modify: "(\<And>s. I s \<Longrightarrow> I (f s)) \<Longrightarrow> keeps I (modify f)"
  by (simp add: keeps_def modify_def)

lemma keeps_bnd [keeps_rules]: "keeps I m \<Longrightarrow> (\<And>x. keeps I (k x)) \<Longrightarrow> keeps I (bnd m k)"
  by (fastforce simp: keeps_def bnd_def split: prod.splits outcome.splits dest: spec)

lemma keeps_attempt [keeps_rules]: "keeps I m \<Longrightarrow> keeps I (attempt m)"
  by (fastforce simp: keeps_def attempt_def split: prod.splits outcome.splits dest: spec)

lemma keeps_wrapping [keeps_rules]: "keeps I m \<Longrightarrow> keeps I (wrapping a b m)"
  by (fastforce simp: keeps_def wrapping_def split: prod.splits outcome.splits dest: spec)

lemma keeps_ignore_err [keeps_rules]: "keeps I m \<Longrightarrow> keeps I (ignore_err m)"
  by (simp add: ignore_err_def keeps_rules)

lemma keeps_deferred [keeps_rules]: "keeps I m \<Longrightarrow> keeps I d \<Longrightarrow> keeps I (deferred m d)"
  by (fastforce simp: keeps_def deferred_def split: prod.splits outcome.splits dest: spec)

lemma keeps_unless [keeps_rules]: "keeps I m \<Longrightarrow> keeps I (unless b m)"
  by (simp add: unless_def keeps_rules)

lemma keeps_if [keeps_rules]: "keeps I m \<Longrightarrow> keeps I n \<Longrightarrow> keeps I (if b then m else n)"
  by simp

lemma keeps_case_sum [keeps_rules]:
  "(\<And>e. keeps I (f e)) \<Longrightarrow> (\<And>x. keeps I (g x)) \<Longrightarrow> keeps I (case v of Inl e \<Rightarrow> f e | Inr x \<Rightarrow> g x)"
  by (simp split: sum.split)

lemma keeps_case_option [keeps_rules]:
  "keeps I f \<Longrightarrow> (\<And>x. keeps I (g x)) \<Longrightarrow> keeps I (case v of None \<Rightarrow> f | Some x \<Rightarrow> g x)"
  by (simp split: option.split)

lemma keeps_case_prod [keeps_rules]:
  "(\<And>a b. keeps I (f a b)) \<Longrightarrow> keeps I (case v of (a, b) \<Rightarrow> f a b)"
  by (simp split: prod.split)

named_theorems run_Ok

text \<open>When a computation returns normally.\<close>

lemma bnd_Ok [run_Ok]: "bnd m k s = (Ok y, s'') \<longleftrightarrow> (\<exists>x s'. m s = (Ok x, s') \<and> k x s' = (Ok y, s''))"
  by (auto simp: bnd_def split: prod.splits outcome.splits)

lemma lift_Ok [run_Ok]: "lift r s = (Ok x, s') \<longleftrightarrow> r = Ok x \<and> s' = s"
  by (auto simp: lift_def)

lemma gets_Ok [run_Ok]: "gets f s = (Ok x, s') \<longleftrightarrow> x = f s \<and> s' = s"
  by (auto simp: gets_def)

lemma ret_Ok [run_Ok]: "ret a s = (Ok x, s') \<longleftrightarrow> x = a \<and> s' = s"
  by (auto simp: ret_def)

lemma modify_Ok [run_Ok]: "modify f s = (Ok x, s') \<longleftrightarrow> s' = f s"
  by (auto simp: modify_def)

lemma wrapping_Ok [run_Ok]: "wrapping a b m s = (Ok x, s') \<longleftrightarrow> m s = (Ok x, s')"
  by (auto simp: wrapping_def split: prod.splits outcome.splits)

lemma fail_Ok: "fail e s = (Ok x, s') \<longleftrightarrow> False"
  by (simp add: fail_def)

lemma attempt_Ok: "attempt m s = (Ok r, s') \<longleftrightarrow>
    (\<exists>x. m s = (Ok x, s') \<and> r = Inr x) \<or> (\<exists>e. m s = (Err e, s') \<and> r = Inl e)"
  by (auto simp: attempt_def split: prod.splits outcome.splits)

section \<open>Invariants along a run\<close>

lemma keeps_wp: "keeps I m \<longleftrightarrow> (\<forall>s. I s \<longrightarrow> wp m (\<lambda>_. I) s)"
  by (simp add: keeps_def wp_def case_prod_beta)

lemma keeps_snd: "keeps I m \<Longrightarrow> I s \<Longrightarrow> I (snd (m s))"
  by (simp add: keeps_def)

lemma keeps_gets_bnd: "(\<And>s. I s \<Longrightarrow> keeps I (k (f s))) \<Longrightarrow> keeps I (bnd (gets f) k)"
  by (simp add: keeps_def bnd_def gets_def)

lemma keeps_bnd_weak:
  assumes "keeps I m" "\<And>s x s'. I s \<Longrightarrow> m s = (Ok x, s') \<Longrightarrow> J s'" "\<And>x. keeps J (k x)" "\<And>s. J s \<Longrightarrow> I s"
  shows "keeps I (bnd m k)"
proof (rule keepsI)
  fix s assume s: "I s"
  obtain r s' where run: "m s = (r, s')" by force
  have "I s'" using keepsD [OF assms(1) run s] .
  moreover have "I (snd (k x s'))" if "r = Ok x" for x
    using assms(2) [OF s] run that assms(3,4) by (auto simp: keeps_def)
  ultimately show "I (snd (bnd m k s))" using run by (cases r) (simp_all add: bnd_def)
qed

lemma wp_bnd_keeps:
  assumes "keeps I m" "I s" "\<And>x s'. m s = (Ok x, s') \<Longrightarrow> I s' \<Longrightarrow> wp (k x) (\<lambda>_. I) s'"
  shows "wp (bnd m k) (\<lambda>_. I) s"
proof -
  obtain r s' where run: "m s = (r, s')" by force
  with keepsD [OF assms(1) run assms(2)] assms(3) show ?thesis
    by (cases r) (auto simp: wp_def bnd_def)
qed

lemma wp_keeps: "keeps I m \<Longrightarrow> I s \<Longrightarrow> wp m (\<lambda>_. I) s"
  by (simp add: keeps_wp)

lemma wp_wrapping_state: "wp m (\<lambda>_. I) s \<Longrightarrow> wp (wrapping a b m) (\<lambda>_. I) s"
  by (simp add: wp_def wrapping_def split: prod.splits outcome.split)

end
