(* ===== verification/Swap_Status.thy ===== *)
theory Swap_Status
  imports Go_Prelude
begin

text \<open>
  The status of a swap (\<open>common/types/status.go\<close>): the stages as a datatype with the source's
  constants, the text encoding used by the JSON codecs of the database and of the RPC server, and
  \<open>IsOngoing\<close>, on which the swap manager's division into ongoing and past swaps rests.
\<close>

datatype Status =
    UnknownStatus
  | ExpectingKeys
  | KeysExchanged
  | ETHLocked
  | XMRLocked
  | ContractReady
  | SweepingXMR
  | CompletedSuccess
  | CompletedRefund
  | CompletedAbort

definition unknownString :: string where
  "unknownString = ''unknown''"

definition NewStatus :: "string \<Rightarrow> Status" where
  "NewStatus str =
     (if str = ''ExpectingKeys'' then ExpectingKeys
      else if str = ''KeysExchanged'' then KeysExchanged
      else if str = ''ETHLocked'' then ETHLocked
      else if str = ''XMRLocked'' then XMRLocked
      else if str = ''ContractReady'' then ContractReady
      else if str = ''SweepingXMR'' then SweepingXMR
      else if str = ''Success'' then CompletedSuccess
      else if str = ''Refunded'' then CompletedRefund
      else if str = ''Aborted'' then CompletedAbort
      else UnknownStatus)"

fun Status_String :: "Status \<Rightarrow> string" where
  "Status_String ExpectingKeys = ''ExpectingKeys''"
| "Status_String KeysExchanged = ''KeysExchanged''"
| "Status_String ETHLocked = ''ETHLocked''"
| "Status_String XMRLocked = ''XMRLocked''"
| "Status_String ContractReady = ''ContractReady''"
| "Status_String SweepingXMR = ''SweepingXMR''"
| "Status_String CompletedSuccess = ''Success''"
| "Status_String CompletedRefund = ''Refunded''"
| "Status_String CompletedAbort = ''Aborted''"
| "Status_String UnknownStatus = unknownString"

text \<open>\<open>UnmarshalText\<close> returns the status it assigns through its pointer receiver.\<close>

definition Status_UnmarshalText :: "string \<Rightarrow> Status result" where
  "Status_UnmarshalText data =
     (let newStatus = NewStatus data in
      if newStatus = UnknownStatus then Inl (Errorf (''unknown status '' @ data))
      else Inr newStatus)"

definition Status_MarshalText :: "Status \<Rightarrow> string result" where
  "Status_MarshalText s =
     (let textStr = Status_String s in
      if textStr = unknownString then Inl (Errorf ''unknown status %d'')
      else Inr textStr)"

fun Status_Description :: "Status \<Rightarrow> string" where
  "Status_Description ExpectingKeys = ''keys have not yet been exchanged''"
| "Status_Description KeysExchanged = ''keys have been exchanged, but no value has been locked''"
| "Status_Description ETHLocked =
     ''the ETH provider has locked their ether, but no XMR has been locked''"
| "Status_Description XMRLocked = ''both the XMR and ETH providers have locked their funds''"
| "Status_Description ContractReady = ''the locked ether is ready to be claimed''"
| "Status_Description SweepingXMR = ''the XMR is being swept back into the primary wallet''"
| "Status_Description CompletedSuccess =
     ''the locked funds have been claimed and the swap has completed successfully''"
| "Status_Description CompletedRefund =
     ''the locked funds have been refunded and the swap has completed''"
| "Status_Description CompletedAbort = ''the swap was aborted before any funds were locked''"
| "Status_Description UnknownStatus = unknownString"

fun IsOngoing :: "Status \<Rightarrow> bool outcome" where
  "IsOngoing ExpectingKeys = Ok True"
| "IsOngoing KeysExchanged = Ok True"
| "IsOngoing ETHLocked = Ok True"
| "IsOngoing XMRLocked = Ok True"
| "IsOngoing ContractReady = Ok True"
| "IsOngoing SweepingXMR = Ok True"
| "IsOngoing UnknownStatus = Panic ''swap should not have UnknownStatus''"
| "IsOngoing CompletedSuccess = Ok False"
| "IsOngoing CompletedRefund = Ok False"
| "IsOngoing CompletedAbort = Ok False"

text \<open>The two answers of \<open>IsOngoing\<close> as predicates, for statements and invariants.\<close>

abbreviation ongoing_status :: "Status \<Rightarrow> bool" where
  "ongoing_status s \<equiv> IsOngoing s = Ok True"

abbreviation completed_status :: "Status \<Rightarrow> bool" where
  "completed_status s \<equiv> IsOngoing s = Ok False"

lemma IsOngoing_cases:
  obtains (ongoing) "ongoing_status s" | (completed) "completed_status s" | (unknown) "s = UnknownStatus"
  by (cases s) auto

lemma ongoing_not_unknown: "ongoing_status s \<Longrightarrow> s \<noteq> UnknownStatus"
  by auto

lemma completed_status_iff:
  "completed_status s \<longleftrightarrow> s = CompletedSuccess \<or> s = CompletedRefund \<or> s = CompletedAbort"
  by (cases s) auto

lemma NewStatus_String: "NewStatus (Status_String s) = s"
  by (cases s) (simp_all add: NewStatus_def unknownString_def)

lemma Status_String_NewStatus: "NewStatus t \<noteq> UnknownStatus \<Longrightarrow> Status_String (NewStatus t) = t"
  by (simp add: NewStatus_def split: if_splits)

lemma Status_String_unknown: "Status_String s = unknownString \<longleftrightarrow> s = UnknownStatus"
  by (cases s) (simp_all add: unknownString_def)

text \<open>
  The text form of a status round trips exactly. A text decodes to a status if and only if
  that status encodes to that very text, so every status the database can write is read back, and
  nothing else is accepted.
\<close>

theorem Status_text_roundtrip:
  "Status_UnmarshalText txt = Inr s \<longleftrightarrow> Status_MarshalText s = Inr txt"
proof -
  have "Status_UnmarshalText txt = Inr s \<longleftrightarrow> NewStatus txt = s \<and> s \<noteq> UnknownStatus"
    by (auto simp: Status_UnmarshalText_def Let_def)
  also have "\<dots> \<longleftrightarrow> Status_String s = txt \<and> s \<noteq> UnknownStatus"
    using NewStatus_String Status_String_NewStatus by metis
  also have "\<dots> \<longleftrightarrow> Status_MarshalText s = Inr txt"
    by (auto simp: Status_MarshalText_def Let_def Status_String_unknown)
  finally show ?thesis .
qed

end
