(* ===== verification/Apd.thy ===== *)
theory Apd
  imports Go_Prelude
begin

text \<open>
  The interface of the decimal library \<open>github.com/cockroachdb/apd/v3\<close>. The struct \<open>apd.Decimal\<close>
  has public fields that the repository reads and writes, so it is a record here; the library's
  operations are code outside the repository, so they are the fields of a record \<^term>\<open>A\<close> that every
  definition that calls the library takes as an argument. What the library documents about them is
  stated in \<open>apd_laws\<close>, relative to the rational number \<open>dval\<close> a decimal stands for.
\<close>

datatype form = Finite | Infinite | NaNSignaling | NaN

record decimal =
  Form :: form
  Negative :: bool
  Exponent :: int32
  Coeff :: nat

record apd =
  apd_Reduce :: "decimal \<Rightarrow> decimal"
  apd_IsZero :: "decimal \<Rightarrow> bool"
  apd_NumDigits :: "decimal \<Rightarrow> int"
  apd_Cmp :: "decimal \<Rightarrow> decimal \<Rightarrow> int"
  apd_Text :: "decimal \<Rightarrow> string"
  apd_NewWithBigInt :: "int \<Rightarrow> int32 \<Rightarrow> decimal"
  apd_NewFromString :: "string \<Rightarrow> decimal result"
  apd_UnmarshalText :: "string \<Rightarrow> decimal result"
  apd_Add :: "nat \<Rightarrow> decimal \<Rightarrow> decimal \<Rightarrow> decimal result"
  apd_Mul :: "nat \<Rightarrow> decimal \<Rightarrow> decimal \<Rightarrow> decimal result"
  apd_Quo :: "nat \<Rightarrow> decimal \<Rightarrow> decimal \<Rightarrow> decimal result"
  apd_RoundToIntegralValue :: "nat \<Rightarrow> decimal \<Rightarrow> decimal result"
  apd_Quantize :: "nat \<Rightarrow> decimal \<Rightarrow> int32 \<Rightarrow> decimal result"

text \<open>The zero value \<open>new(apd.Decimal)\<close>.\<close>

definition new_decimal :: decimal where
  "new_decimal = \<lparr>Form = Finite, Negative = False, Exponent = 0, Coeff = 0\<rparr>"

text \<open>The number a finite decimal stands for.\<close>

definition dval :: "decimal \<Rightarrow> rat" where
  "dval d = (if Negative d then - 1 else 1) * of_nat (Coeff d) * 10 powi (sint (Exponent d))"

text \<open>The number of decimal digits of a coefficient; zero has one digit.\<close>

fun numDigits :: "nat \<Rightarrow> nat" where
  "numDigits n = (if n < 10 then 1 else Suc (numDigits (n div 10)))"

declare numDigits.simps [simp del]

text \<open>
  The library bounds exponents by 100000 in absolute value when it decodes text and when it rounds.
  The laws are stated for finite decimals whose exponent is twice as far from the bounds of
  \<open>int32\<close> as that, with coefficients of at most that many digits.
\<close>

definition exponentBound :: int where
  "exponentBound = 200000"

definition apd_ok :: "decimal \<Rightarrow> bool" where
  "apd_ok d \<longleftrightarrow> Form d = Finite \<and> \<bar>sint (Exponent d)\<bar> \<le> exponentBound \<and>
     int (numDigits (Coeff d)) \<le> exponentBound"

definition reduced :: "decimal \<Rightarrow> bool" where
  "reduced d \<longleftrightarrow> Coeff d mod 10 \<noteq> 0 \<or> (Coeff d = 0 \<and> Exponent d = 0)"

text \<open>
  \<open>Reduce\<close>: removes all trailing zeros. \<open>IsZero\<close>, \<open>NumDigits\<close>, \<open>Cmp\<close>: as documented for finite
  decimals. \<open>NewWithBigInt\<close>: the decimal with the given coefficient and exponent. \<open>Mul\<close> is exact
  when the product fits the precision, and \<open>RoundToIntegralValue\<close> and \<open>Quantize\<close> to exponent 0 are
  exact on integers that fit it.
\<close>

definition apd_laws :: "apd \<Rightarrow> bool" where
  "apd_laws A \<longleftrightarrow>
     (\<forall>d. apd_ok d \<longrightarrow> Form (apd_Reduce A d) = Finite \<and> reduced (apd_Reduce A d) \<and>
        dval (apd_Reduce A d) = dval d \<and> \<bar>sint (Exponent (apd_Reduce A d))\<bar> \<le> 2 * exponentBound) \<and>
     (\<forall>d. apd_IsZero A d \<longleftrightarrow> Form d = Finite \<and> Coeff d = 0) \<and>
     (\<forall>d. Form d = Finite \<longrightarrow> apd_NumDigits A d = int (numDigits (Coeff d))) \<and>
     (\<forall>x y. Form x = Finite \<longrightarrow> Form y = Finite \<longrightarrow>
        apd_Cmp A x y = (if dval x < dval y then - 1 else if dval x = dval y then 0 else 1)) \<and>
     (\<forall>i e. apd_NewWithBigInt A i e =
        \<lparr>Form = Finite, Negative = (i < 0), Exponent = e, Coeff = nat \<bar>i\<bar>\<rparr>) \<and>
     (\<forall>p x y. int p \<le> exponentBound \<longrightarrow> apd_ok x \<longrightarrow> apd_ok y \<longrightarrow>
        \<bar>sint (Exponent x) + sint (Exponent y)\<bar> \<le> 100000 \<longrightarrow> numDigits (Coeff x * Coeff y) \<le> p \<longrightarrow>
        (\<exists>z. apd_Mul A p x y = Inr z \<and> apd_ok z \<and> dval z = dval x * dval y)) \<and>
     (\<forall>p d n. int p \<le> exponentBound \<longrightarrow> apd_ok d \<longrightarrow> dval d = of_int n \<longrightarrow> \<bar>n\<bar> < 10 ^ p \<longrightarrow>
        (\<exists>z. apd_RoundToIntegralValue A p d = Inr z \<and> apd_ok z \<and> dval z = dval d \<and>
           0 \<le> sint (Exponent z) \<and> sint (Exponent z) \<le> max 0 (sint (Exponent d)))) \<and>
     (\<forall>p d n. int p \<le> exponentBound \<longrightarrow> apd_ok d \<longrightarrow> dval d = of_int n \<longrightarrow> \<bar>n\<bar> < 10 ^ p \<longrightarrow>
        (\<exists>z. apd_Quantize A p d 0 = Inr z \<and> Form z = Finite \<and> Exponent z = 0 \<and> dval z = dval d))"

section \<open>A reference implementation\<close>

text \<open>
  Operations that satisfy the laws, to evaluate the code on concrete amounts. Where the laws say
  nothing (inexact results, texts), they are chosen as simple as possible.
\<close>

fun strip_zeros :: "nat \<Rightarrow> nat \<times> nat" where
  "strip_zeros c = (if c = 0 \<or> c mod 10 \<noteq> 0 then (c, 0)
     else let (c', n) = strip_zeros (c div 10) in (c', Suc n))"

declare strip_zeros.simps [simp del]

definition ref_Reduce :: "decimal \<Rightarrow> decimal" where
  "ref_Reduce d =
     (if Form d \<noteq> Finite then d
      else if Coeff d = 0 then new_decimal
      else let (c, n) = strip_zeros (Coeff d) in d\<lparr>Coeff := c, Exponent := Exponent d + of_nat n\<rparr>)"

text \<open>The integer nearest to a decimal, halves away from zero, as a decimal with exponent 0.\<close>

definition ref_integral :: "decimal \<Rightarrow> decimal" where
  "ref_integral d =
     (let e = sint (Exponent d); k = nat (- e) in
      if 0 \<le> e then d\<lparr>Coeff := Coeff d * 10 ^ nat e, Exponent := 0\<rparr>
      else d\<lparr>Coeff := (2 * Coeff d + 10 ^ k) div (2 * 10 ^ k), Exponent := 0\<rparr>)"

definition ref_Quantize :: "nat \<Rightarrow> decimal \<Rightarrow> decimal result" where
  "ref_Quantize p d =
     (let z = ref_integral d in
      if Coeff z < 10 ^ p then Inr z else Inl (Errorf ''invalid operation''))"

definition ref_Mul :: "nat \<Rightarrow> decimal \<Rightarrow> decimal \<Rightarrow> decimal result" where
  "ref_Mul p x y =
     (if numDigits (Coeff x * Coeff y) \<le> p
      then Inr \<lparr>Form = Finite, Negative = (Negative x \<noteq> Negative y),
                Exponent = Exponent x + Exponent y, Coeff = Coeff x * Coeff y\<rparr>
      else Inl (Errorf ''inexact''))"

lemma numDigits_pos: "0 < numDigits n"
  by (simp add: numDigits.simps [of n])

lemma numDigits_le_iff: "0 < p \<Longrightarrow> numDigits n \<le> p \<longleftrightarrow> n < 10 ^ p"
proof (induction p arbitrary: n)
  case (Suc p)
  show ?case
  proof (cases "n < 10")
    case True
    have "n < 10 * 10 ^ p" by (rule less_le_trans [OF True]) simp
    with True show ?thesis by (simp add: numDigits.simps [of n])
  next
    case False
    then have "numDigits n \<le> Suc p \<longleftrightarrow> numDigits (n div 10) \<le> p" by (simp add: numDigits.simps [of n])
    also have "\<dots> \<longleftrightarrow> n div 10 < 10 ^ p"
    proof (cases "p = 0")
      case True
      then show ?thesis using False numDigits_pos [of "n div 10"] by simp
    qed (use Suc.IH in simp)
    also have "\<dots> \<longleftrightarrow> n < 10 ^ Suc p" by (simp add: less_mult_imp_div_less div_less_iff_less_mult mult.commute)
    finally show ?thesis .
  qed
qed simp

lemma strip_zeros:
  "0 < c \<Longrightarrow> strip_zeros c = (c', n) \<Longrightarrow> c = c' * 10 ^ n \<and> c' mod 10 \<noteq> 0 \<and> 0 < c' \<and> n < numDigits c"
proof (induction c arbitrary: c' n rule: strip_zeros.induct)
  case (1 c)
  show ?case
  proof (cases "c mod 10 = 0")
    case False
    with 1 show ?thesis by (auto simp: strip_zeros.simps [of c] numDigits_pos)
  next
    case True
    with 1(2) have c10: "10 \<le> c" "c = c div 10 * 10" by auto
    obtain d m where d: "strip_zeros (c div 10) = (d, m)" by fastforce
    with 1(3) True 1(2) have n: "n = Suc m" "c' = d" by (auto simp: strip_zeros.simps [of c])
    have "c div 10 = d * 10 ^ m \<and> d mod 10 \<noteq> 0 \<and> 0 < d \<and> m < numDigits (c div 10)"
      using 1(1) [OF _ _ d] c10 True 1(2) by (auto simp: div_greater_zero_iff)
    moreover have "numDigits c = Suc (numDigits (c div 10))" using c10 by (simp add: numDigits.simps [of c])
    ultimately show ?thesis using c10 n by simp
  qed
qed

lemma sint_small: "- (2 ^ 31) \<le> i \<Longrightarrow> i < 2 ^ 31 \<Longrightarrow> sint (of_int i :: int32) = i"
  by (simp add: signed_take_bit_int_eq_self signed_of_int)

lemma sint_add_small:
  assumes "\<bar>sint (e :: int32) + i\<bar> < 2 ^ 31"
  shows "sint (e + of_int i) = sint e + i"
proof -
  have "e + of_int i = of_int (sint e + i)" by simp
  also have "sint \<dots> = sint e + i" using assms by (intro sint_small) auto
  finally show ?thesis .
qed

lemma ref_Reduce_ok:
  assumes ok: "apd_ok d"
  shows "Form (ref_Reduce d) = Finite \<and> reduced (ref_Reduce d) \<and> dval (ref_Reduce d) = dval d \<and>
    \<bar>sint (Exponent (ref_Reduce d))\<bar> \<le> 2 * exponentBound"
proof (cases "Coeff d = 0")
  case True
  with ok show ?thesis
    by (simp add: ref_Reduce_def apd_ok_def new_decimal_def reduced_def dval_def exponentBound_def)
next
  case False
  obtain c n where cn: "strip_zeros (Coeff d) = (c, n)" by fastforce
  have *: "Coeff d = c * 10 ^ n" "c mod 10 \<noteq> 0" "n < numDigits (Coeff d)"
    using strip_zeros [OF _ cn] False by auto
  have "\<bar>sint (Exponent d) + int n\<bar> < 2 ^ 31" using *(3) ok by (auto simp: apd_ok_def exponentBound_def)
  then have e: "sint (Exponent d + of_nat n) = sint (Exponent d) + int n"
    using sint_add_small [of "Exponent d" "int n"] by simp
  have "(10::rat) powi (sint (Exponent d) + int n) = 10 powi (sint (Exponent d)) * 10 ^ n"
    by (simp add: power_int_add)
  moreover have "\<bar>sint (Exponent d) + int n\<bar> \<le> 2 * exponentBound"
    using *(3) ok by (auto simp: apd_ok_def exponentBound_def)
  ultimately show ?thesis using * e False ok cn
    by (simp add: ref_Reduce_def apd_ok_def reduced_def dval_def)
qed

lemma ref_Mul_ok:
  assumes "int p \<le> exponentBound" "apd_ok x" "apd_ok y"
    and e: "\<bar>sint (Exponent x) + sint (Exponent y)\<bar> \<le> 100000" and p: "numDigits (Coeff x * Coeff y) \<le> p"
  shows "\<exists>z. ref_Mul p x y = Inr z \<and> apd_ok z \<and> dval z = dval x * dval y"
proof -
  have "sint (Exponent x + of_int (sint (Exponent y))) = sint (Exponent x) + sint (Exponent y)"
    by (rule sint_add_small) (use e in simp)
  then have s: "sint (Exponent x + Exponent y) = sint (Exponent x) + sint (Exponent y)" by simp
  show ?thesis using assms s
    by (auto simp: ref_Mul_def apd_ok_def dval_def exponentBound_def power_int_add)
qed

lemma ref_integral_ok:
  assumes ok: "apd_ok d" and n: "dval d = of_int n"
  shows "Form (ref_integral d) = Finite" "Exponent (ref_integral d) = 0"
    "int (Coeff (ref_integral d)) = \<bar>n\<bar>" "dval (ref_integral d) = dval d"
proof -
  show F: "Form (ref_integral d) = Finite" and E: "Exponent (ref_integral d) = 0"
    using ok by (auto simp: ref_integral_def apd_ok_def Let_def)
  have C: "dval (ref_integral d) = dval d"
  proof (cases "0 \<le> sint (Exponent d)")
    case True
    then have "(10::rat) powi sint (Exponent d) = 10 ^ nat (sint (Exponent d))"
      by (simp add: power_int_def)
    with True show ?thesis by (simp add: ref_integral_def dval_def)
  next
    case False
    define k where "k = nat (- sint (Exponent d))"
    with False have e: "(10::rat) powi sint (Exponent d) = 1 / 10 ^ k"
      by (simp add: power_int_def inverse_eq_divide power_one_over)
    have "\<bar>dval d\<bar> = rat_of_nat (Coeff d) / 10 ^ k" unfolding dval_def e by (simp add: abs_mult)
    then have "rat_of_nat (Coeff d) = \<bar>rat_of_int n\<bar> * 10 ^ k" using n by (simp add: field_simps)
    also have "\<dots> = of_nat (nat \<bar>n\<bar> * 10 ^ k)" by simp
    finally have c: "Coeff d = nat \<bar>n\<bar> * 10 ^ k" by (simp only: of_nat_eq_iff)
    have "(2 * Coeff d + 10 ^ k) div (2 * 10 ^ k) = (10 ^ k + nat \<bar>n\<bar> * (2 * 10 ^ k)) div (2 * 10 ^ k)"
      by (simp add: c algebra_simps)
    also have "\<dots> = nat \<bar>n\<bar>" by (subst div_mult_self1) auto
    finally have "Coeff (ref_integral d) = nat \<bar>n\<bar>"
      using False by (simp add: ref_integral_def k_def Let_def)
    with False c e show ?thesis by (simp add: dval_def ref_integral_def Let_def)
  qed
  then show "dval (ref_integral d) = dval d" .
  have "dval (ref_integral d) = (if Negative d then - 1 else 1) * of_nat (Coeff (ref_integral d))"
    using E by (simp add: dval_def ref_integral_def Let_def)
  then have "rat_of_int \<bar>n\<bar> = rat_of_int (int (Coeff (ref_integral d)))"
    using C n by (auto split: if_splits simp flip: of_int_abs)
  then show "int (Coeff (ref_integral d)) = \<bar>n\<bar>" by (simp only: of_int_eq_iff)
qed

lemma ref_Quantize_ok:
  assumes p: "int p \<le> exponentBound" and ok: "apd_ok d" and n: "dval d = of_int n" "\<bar>n\<bar> < 10 ^ p"
  shows "\<exists>z. ref_Quantize p d = Inr z \<and> apd_ok z \<and> Exponent z = 0 \<and> dval z = dval d"
proof -
  note r = ref_integral_ok [OF ok n(1)]
  have c: "Coeff (ref_integral d) < 10 ^ p"
    using n(2) r(3) by (metis of_nat_less_iff of_nat_numeral of_nat_power)
  have "numDigits (Coeff (ref_integral d)) \<le> max 1 p"
    using c by (subst numDigits_le_iff) (auto simp: max_def not_le)
  with p have "int (numDigits (Coeff (ref_integral d))) \<le> exponentBound"
    by (auto simp: exponentBound_def max_def split: if_splits)
  with c r show ?thesis by (simp add: ref_Quantize_def apd_ok_def exponentBound_def Let_def)
qed

definition ref_apd :: apd where
  "ref_apd = \<lparr>
     apd_Reduce = ref_Reduce,
     apd_IsZero = (\<lambda>d. Form d = Finite \<and> Coeff d = 0),
     apd_NumDigits = (\<lambda>d. int (numDigits (Coeff d))),
     apd_Cmp = (\<lambda>x y. if dval x < dval y then - 1 else if dval x = dval y then 0 else 1),
     apd_Text = (\<lambda>d. []),
     apd_NewWithBigInt = (\<lambda>i e. \<lparr>Form = Finite, Negative = (i < 0), Exponent = e, Coeff = nat \<bar>i\<bar>\<rparr>),
     apd_NewFromString = (\<lambda>s. Inl (Errorf ''parse'')),
     apd_UnmarshalText = (\<lambda>s. Inl (Errorf ''parse'')),
     apd_Add = (\<lambda>p x y. Inl (Errorf ''inexact'')),
     apd_Mul = ref_Mul,
     apd_Quo = (\<lambda>p x y. Inl (Errorf ''inexact'')),
     apd_RoundToIntegralValue = ref_Quantize,
     apd_Quantize = (\<lambda>p d e. ref_Quantize p d)\<rparr>"

lemma ref_apd_laws: "apd_laws ref_apd"
  unfolding apd_laws_def
proof (intro conjI, goal_cases)
  case 1
  then show ?case using ref_Reduce_ok by (simp add: ref_apd_def)
next
  case 6
  then show ?case using ref_Mul_ok by (simp add: ref_apd_def)
next
  case 7
  show ?case unfolding ref_apd_def apd.select_convs using ref_Quantize_ok by (metis max.cobounded1 order_refl signed_0)
next
  case 8
  show ?case unfolding ref_apd_def apd.select_convs using ref_Quantize_ok apd_ok_def by metis
qed (simp_all add: ref_apd_def)

end
