(* ===== verification/Coins.thy ===== *)
theory Coins
  imports Apd
begin

text \<open>
  Coin amounts (package \<open>coins\<close>): piconero, wei and ERC20 amounts, exchange rates, and the
  validation of decimal inputs. \<open>PiconeroAmount\<close>, \<open>WeiAmount\<close> and \<open>ExchangeRate\<close> are casts of
  \<open>apd.Decimal\<close>, so they are synonyms of \<^typ>\<open>decimal\<close>. Functions that mutate a decimal through
  its pointer return the mutated decimal; functions that panic return an \<^typ>\<open>'a outcome\<close>.
\<close>

type_synonym PiconeroAmount = decimal
type_synonym WeiAmount = decimal
type_synonym ExchangeRate = decimal

definition NumEtherDecimals :: "8 word" where "NumEtherDecimals = 18"
definition NumMoneroDecimals :: "8 word" where "NumMoneroDecimals = 12"
definition MaxExchangeRateDecimals :: "8 word" where "MaxExchangeRateDecimals = 6"
definition MaxCoinPrecision :: nat where "MaxCoinPrecision = 100"
definition RelayerFeeWei :: int where "RelayerFeeWei = 10000000000000000"

definition errNegativePiconeros :: goerr where
  "errNegativePiconeros =
     Sentinel ''errNegativePiconeros'' ''negative piconero values are not supported''"

definition errNegativeWei :: goerr where
  "errNegativeWei = Sentinel ''errNegativeWei'' ''negative Wei values are not supported''"

definition ErrInvalidCoin :: goerr where
  "ErrInvalidCoin = Sentinel ''ErrInvalidCoin'' ''invalid ProvidesCoin''"

section \<open>Exponents and rounding\<close>

definition increaseExponent :: "decimal \<Rightarrow> 8 word \<Rightarrow> decimal outcome" where
  "increaseExponent n delta =
     (let delta32 = (ucast delta :: int32); e = Exponent n; n' = n\<lparr>Exponent := e + delta32\<rparr> in
      if sint (Exponent n') < sint e then Panic ''overflow'' else Ok n')"

definition decreaseExponent :: "decimal \<Rightarrow> 8 word \<Rightarrow> decimal outcome" where
  "decreaseExponent n delta =
     (let delta32 = (ucast delta :: int32); e = Exponent n; n' = n\<lparr>Exponent := e - delta32\<rparr> in
      if sint (Exponent n') > sint e then Panic ''underflow'' else Ok n')"

definition of_result :: "'a result \<Rightarrow> 'a outcome" where
  "of_result r = (case r of Inl e \<Rightarrow> Err e | Inr x \<Rightarrow> Ok x)"

lemma of_result_simps [simp]: "of_result (Inl e) = Err e" "of_result (Inr x) = Ok x"
  by (simp_all add: of_result_def)

definition roundToDecimalPlace :: "apd \<Rightarrow> decimal \<Rightarrow> 8 word \<Rightarrow> decimal outcome" where
  "roundToDecimalPlace A n decimalPlace =
     obind (increaseExponent n decimalPlace) (\<lambda>result.
     obind (of_result (apd_RoundToIntegralValue A MaxCoinPrecision result)) (\<lambda>result.
     obind (decreaseExponent result decimalPlace) (\<lambda>result.
     Ok (apd_Reduce A result))))"

text \<open>\<open>NumDecimals\<close> reduces its argument in place: the pair is the result and the reduced argument.\<close>

definition NumDecimals :: "apd \<Rightarrow> decimal \<Rightarrow> int32 \<times> decimal" where
  "NumDecimals A val =
     (let val' = apd_Reduce A val in
      if sint (Exponent val') \<ge> 0 then (0, val') else (- Exponent val', val'))"

definition ExceedsDecimals :: "apd \<Rightarrow> decimal \<Rightarrow> 8 word \<Rightarrow> bool \<times> decimal" where
  "ExceedsDecimals A val maxDecimals =
     (let (n, val') = NumDecimals A val in (sint n > sint (ucast maxDecimals :: int32), val'))"

text \<open>
  \<open>calcAltNumeratorAmount\<close>: the suggested amount, and the denominator it reduces in place. The
  addition of the exponent and the decimals is done in \<open>int32\<close>.
\<close>

definition calcAltNumeratorAmount ::
    "apd \<Rightarrow> 8 word \<Rightarrow> 8 word \<Rightarrow> decimal \<Rightarrow> decimal \<Rightarrow> (decimal option \<times> decimal) outcome" where
  "calcAltNumeratorAmount A numeratorDecimals resultDecimals denominator unroundedResult =
     (let denominator' = apd_Reduce A denominator;
          roundingPrecision = Exponent denominator' + (ucast numeratorDecimals :: int32) in
      if sint roundingPrecision < 0 \<or> sint roundingPrecision > 255 then Ok (None, denominator')
      else
        let roundingPrecision' =
              (if sint roundingPrecision > sint (ucast resultDecimals :: int32)
               then ucast resultDecimals else roundingPrecision) in
        (case roundToDecimalPlace A unroundedResult (ucast roundingPrecision') of
           Err e \<Rightarrow> Ok (None, denominator')
         | Panic p \<Rightarrow> Panic p
         | Block \<Rightarrow> Block
         | Ok roundedResult \<Rightarrow>
             (case apd_Mul A MaxCoinPrecision roundedResult denominator' of
                Inl e \<Rightarrow> Ok (None, denominator')
              | Inr closestAltResult \<Rightarrow>
                  let c = apd_Reduce A closestAltResult in
                  if apd_IsZero A c then Ok (None, denominator') else Ok (Some c, denominator'))))"

section \<open>Input validation\<close>

text \<open>The error, if any, and the value after the in-place reduction.\<close>

definition ValidatePositive ::
    "apd \<Rightarrow> string \<Rightarrow> 8 word \<Rightarrow> decimal option \<Rightarrow> goerr option \<times> decimal option" where
  "ValidatePositive A jsonFieldName maxDecimals v =
     (case v of
        None \<Rightarrow> (Some (Errorf (jsonFieldName @ '' is not set'')), None)
      | Some d \<Rightarrow>
          if apd_IsZero A d then (Some (Errorf (jsonFieldName @ '' must be non-zero'')), Some d)
          else if Negative d then (Some (Errorf (jsonFieldName @ '' cannot be negative'')), Some d)
          else if Form d \<noteq> Finite then (Some (Errorf (jsonFieldName @ '' must be finite'')), Some d)
          else
            let d' = apd_Reduce A d in
            if apd_NumDigits A d' > int MaxCoinPrecision
            then (Some (Errorf (jsonFieldName @ '' has too many digits'')), Some d')
            else if sint (Exponent d') < sint (- (ucast maxDecimals :: int32))
            then (Some (Errorf (jsonFieldName @ '' has too many decimal points'')), Some d')
            else (None, Some d'))"

section \<open>Piconero and wei amounts\<close>

text \<open>\<open>fmt.Sprintf("%d", n)\<close> and \<open>strconv.ParseUint(s, 10, 64)\<close>.\<close>

fun show_nat :: "nat \<Rightarrow> string" where
  "show_nat n =
     (if n < 10 then [char_of (48 + n)] else show_nat (n div 10) @ [char_of (48 + n mod 10)])"

declare show_nat.simps [simp del]

fun parse_digits :: "nat \<Rightarrow> string \<Rightarrow> nat option" where
  "parse_digits acc [] = Some acc"
| "parse_digits acc (c # cs) =
     (let n = (of_char c :: nat) in
      if 48 \<le> n \<and> n \<le> 57 then parse_digits (acc * 10 + (n - 48)) cs else None)"

definition ParseUint64 :: "string \<Rightarrow> uint64 result" where
  "ParseUint64 s =
     (if s = [] then Inl (Errorf ''invalid syntax'')
      else case parse_digits 0 s of
        None \<Rightarrow> Inl (Errorf ''invalid syntax'')
      | Some n \<Rightarrow> if n < 2 ^ 64 then Inr (of_nat n) else Inl (Errorf ''value out of range''))"

definition NewPiconeroAmount :: "apd \<Rightarrow> uint64 \<Rightarrow> PiconeroAmount outcome" where
  "NewPiconeroAmount A amount =
     panic_on_err (of_result (apd_NewFromString A (show_nat (unat amount))))"

definition PiconeroAmount_String :: "apd \<Rightarrow> PiconeroAmount \<Rightarrow> string" where
  "PiconeroAmount_String A a = apd_Text A a"

definition PiconeroAmount_Uint64 :: "apd \<Rightarrow> PiconeroAmount \<Rightarrow> uint64 result" where
  "PiconeroAmount_Uint64 A a =
     (if Negative a
      then Inl (Errorf (''cannot convert '' @ PiconeroAmount_String A a @ '' to unsigned''))
      else ParseUint64 (PiconeroAmount_String A a))"

definition PiconeroAmount_UnmarshalText :: "apd \<Rightarrow> string \<Rightarrow> PiconeroAmount result" where
  "PiconeroAmount_UnmarshalText A b =
     (case apd_UnmarshalText A b of
        Inl e \<Rightarrow> Inl e
      | Inr a \<Rightarrow> if Negative a then Inl errNegativePiconeros else Inr a)"

definition MoneroToPiconero :: "apd \<Rightarrow> decimal \<Rightarrow> PiconeroAmount outcome" where
  "MoneroToPiconero A xmrAmt =
     obind (increaseExponent xmrAmt NumMoneroDecimals) (\<lambda>pnAmt.
     panic_on_err (roundToDecimalPlace A pnAmt 0))"

definition PiconeroAmount_Cmp :: "apd \<Rightarrow> PiconeroAmount \<Rightarrow> PiconeroAmount \<Rightarrow> int" where
  "PiconeroAmount_Cmp A a other = apd_Cmp A a other"

definition PiconeroAmount_CmpU64 :: "apd \<Rightarrow> PiconeroAmount \<Rightarrow> uint64 \<Rightarrow> int outcome" where
  "PiconeroAmount_CmpU64 A a other =
     obind (NewPiconeroAmount A other) (\<lambda>o'. Ok (PiconeroAmount_Cmp A a o'))"

definition AsMonero :: "apd \<Rightarrow> PiconeroAmount \<Rightarrow> decimal outcome" where
  "AsMonero A a =
     obind (decreaseExponent a NumMoneroDecimals) (\<lambda>xmrAmt. Ok (apd_Reduce A xmrAmt))"

definition AsMoneroString :: "apd \<Rightarrow> PiconeroAmount \<Rightarrow> string outcome" where
  "AsMoneroString A a = obind (AsMonero A a) (\<lambda>x. Ok (apd_Text A x))"

definition FmtPiconeroAsXMR :: "apd \<Rightarrow> uint64 \<Rightarrow> string outcome" where
  "FmtPiconeroAsXMR A piconeros = obind (NewPiconeroAmount A piconeros) (AsMoneroString A)"

definition NewWeiAmount :: "apd \<Rightarrow> int \<Rightarrow> WeiAmount" where
  "NewWeiAmount A amount = apd_NewWithBigInt A amount 0"

definition WeiAmount_Cmp :: "apd \<Rightarrow> WeiAmount \<Rightarrow> WeiAmount \<Rightarrow> int" where
  "WeiAmount_Cmp A a b = apd_Cmp A a b"

definition WeiAmount_UnmarshalText :: "apd \<Rightarrow> string \<Rightarrow> WeiAmount result" where
  "WeiAmount_UnmarshalText A b =
     (case apd_UnmarshalText A b of
        Inl e \<Rightarrow> Inl e
      | Inr a \<Rightarrow> if Negative a then Inl errNegativeWei else Inr a)"

definition EtherToWei :: "apd \<Rightarrow> decimal \<Rightarrow> WeiAmount outcome" where
  "EtherToWei A ethAmt =
     obind (increaseExponent ethAmt NumEtherDecimals) (\<lambda>weiAmt.
     panic_on_err (roundToDecimalPlace A weiAmt 0))"

text \<open>\<open>new(big.Int).SetBytes(x.Coeff.Bytes())\<close> is the absolute value of the coefficient.\<close>

definition WeiAmount_BigInt :: "apd \<Rightarrow> WeiAmount \<Rightarrow> int outcome" where
  "WeiAmount_BigInt A a =
     obind (panic_on_err (of_result (apd_Quantize A MaxCoinPrecision a 0)))
       (\<lambda>wholeWeiVal. Ok (int (Coeff wholeWeiVal)))"

definition AsEther :: "apd \<Rightarrow> WeiAmount \<Rightarrow> decimal outcome" where
  "AsEther A a =
     obind (decreaseExponent a NumEtherDecimals) (\<lambda>ether. Ok (apd_Reduce A ether))"

definition AsEtherString :: "apd \<Rightarrow> WeiAmount \<Rightarrow> string outcome" where
  "AsEtherString A a = obind (AsEther A a) (\<lambda>x. Ok (apd_Text A x))"

definition FmtWeiAsETH :: "apd \<Rightarrow> int \<Rightarrow> string outcome" where
  "FmtWeiAsETH A wei = AsEtherString A (NewWeiAmount A wei)"

definition RelayerFeeETH :: "apd \<Rightarrow> decimal outcome" where
  "RelayerFeeETH A = AsEther A (NewWeiAmount A RelayerFeeWei)"

section \<open>ERC20 amounts and the asset-amount interface\<close>

record ERC20TokenInfo =
  Address :: address
  TokenNumDecimals :: "8 word"
  Name :: string
  Symbol :: string

definition NewERC20TokenInfo :: "address \<Rightarrow> 8 word \<Rightarrow> string \<Rightarrow> string \<Rightarrow> ERC20TokenInfo" where
  "NewERC20TokenInfo a decimals nm symbol =
     \<lparr>Address = a, TokenNumDecimals = decimals, Name = nm, Symbol = symbol\<rparr>"

record ERC20TokenAmount =
  Amount :: decimal
  TokenInfo :: ERC20TokenInfo

definition NewERC20TokenAmountFromBigInt ::
    "apd \<Rightarrow> int \<Rightarrow> ERC20TokenInfo \<Rightarrow> ERC20TokenAmount outcome" where
  "NewERC20TokenAmountFromBigInt A amount token =
     obind (decreaseExponent (new_decimal\<lparr>Coeff := nat \<bar>amount\<bar>\<rparr>) (TokenNumDecimals token))
       (\<lambda>asDecimal. Ok \<lparr>Amount = apd_Reduce A asDecimal, TokenInfo = token\<rparr>)"

definition NewTokenAmountFromDecimals ::
    "apd \<Rightarrow> decimal \<Rightarrow> ERC20TokenInfo \<Rightarrow> ERC20TokenAmount outcome" where
  "NewTokenAmountFromDecimals A amount token =
     (let (exceeds, amount') = ExceedsDecimals A amount (TokenNumDecimals token) in
      if exceeds then
        obind (panic_on_err (roundToDecimalPlace A amount' (TokenNumDecimals token)))
          (\<lambda>roundedAmt. Ok \<lparr>Amount = roundedAmt, TokenInfo = token\<rparr>)
      else Ok \<lparr>Amount = amount', TokenInfo = token\<rparr>)"

definition ERC20TokenAmount_BigInt :: "apd \<Rightarrow> ERC20TokenAmount \<Rightarrow> int outcome" where
  "ERC20TokenAmount_BigInt A a =
     obind (increaseExponent (Amount a) (TokenNumDecimals (TokenInfo a))) (\<lambda>wholeTokenUnits.
     obind (panic_on_err (of_result (apd_Quantize A MaxCoinPrecision wholeTokenUnits 0)))
       (\<lambda>wholeTokenUnits. Ok (int (Coeff wholeTokenUnits))))"

text \<open>
  The interface \<open>EthAssetAmount\<close> has two implementations, \<open>*WeiAmount\<close> and \<open>*ERC20TokenAmount\<close>;
  a value of the interface type is one or the other, and a method call dispatches on it.
  \<open>strconv.Quote\<close> on the token symbol is only used in log and error texts and is kept as a
  surrounding pair of quotes.
\<close>

datatype EthAssetAmount = Wei WeiAmount | ERC20 ERC20TokenAmount

definition NewEthAssetAmount ::
    "apd \<Rightarrow> decimal \<Rightarrow> ERC20TokenInfo option \<Rightarrow> EthAssetAmount outcome" where
  "NewEthAssetAmount A amount token =
     (case token of
        None \<Rightarrow> obind (EtherToWei A amount) (\<lambda>w. Ok (Wei w))
      | Some t \<Rightarrow> obind (NewTokenAmountFromDecimals A amount t) (\<lambda>x. Ok (ERC20 x)))"

primrec BigInt :: "apd \<Rightarrow> EthAssetAmount \<Rightarrow> int outcome" where
  "BigInt A (Wei w) = WeiAmount_BigInt A w"
| "BigInt A (ERC20 t) = ERC20TokenAmount_BigInt A t"

primrec AsStd :: "apd \<Rightarrow> EthAssetAmount \<Rightarrow> decimal outcome" where
  "AsStd A (Wei w) = AsEther A w"
| "AsStd A (ERC20 t) = Ok (Amount t)"

primrec AsStdString :: "apd \<Rightarrow> EthAssetAmount \<Rightarrow> string outcome" where
  "AsStdString A (Wei w) = AsEtherString A w"
| "AsStdString A (ERC20 t) = Ok (apd_Text A (Amount t))"

primrec StdSymbol :: "EthAssetAmount \<Rightarrow> string" where
  "StdSymbol (Wei w) = ''ETH''"
| "StdSymbol (ERC20 t) = [CHR 0x22] @ Symbol (TokenInfo t) @ [CHR 0x22]"

primrec IsToken :: "EthAssetAmount \<Rightarrow> bool" where
  "IsToken (Wei w) = False"
| "IsToken (ERC20 t) = True"

primrec NumStdDecimals :: "EthAssetAmount \<Rightarrow> 8 word" where
  "NumStdDecimals (Wei w) = NumEtherDecimals"
| "NumStdDecimals (ERC20 t) = TokenNumDecimals (TokenInfo t)"

primrec TokenAddress :: "EthAssetAmount \<Rightarrow> address" where
  "TokenAddress (Wei w) = 0"
| "TokenAddress (ERC20 t) = Address (TokenInfo t)"

section \<open>Exchange rates\<close>

definition CalcExchangeRate :: "apd \<Rightarrow> decimal \<Rightarrow> decimal \<Rightarrow> ExchangeRate outcome" where
  "CalcExchangeRate A xmrPrice ethPrice =
     obind (of_result (apd_Quo A MaxCoinPrecision xmrPrice ethPrice)) (\<lambda>rate.
     roundToDecimalPlace A rate MaxExchangeRateDecimals)"

definition ExchangeRate_UnmarshalText :: "apd \<Rightarrow> string \<Rightarrow> ExchangeRate result" where
  "ExchangeRate_UnmarshalText A b =
     (case apd_UnmarshalText A b of
        Inl e \<Rightarrow> Inl e
      | Inr r \<Rightarrow> (case ValidatePositive A ''exchangeRate'' MaxExchangeRateDecimals (Some r) of
            (Some e, _) \<Rightarrow> Inl e
          | (None, r') \<Rightarrow> Inr (the r')))"

text \<open>
  \<open>ToXMR\<close>: when the quotient has too many decimals the error text carries a suggested amount, which
  the computation of the suggestion may fail to find; it may also panic in \<open>roundToDecimalPlace\<close>.
\<close>

definition ToXMR :: "apd \<Rightarrow> ExchangeRate \<Rightarrow> EthAssetAmount \<Rightarrow> decimal outcome" where
  "ToXMR A r ethAssetAmt =
     obind (AsStd A ethAssetAmt) (\<lambda>std.
     obind (of_result (apd_Quo A MaxCoinPrecision std r)) (\<lambda>xmrAmt.
     let (exceeds, xmrAmt') = ExceedsDecimals A xmrAmt NumMoneroDecimals in
     if exceeds then
       obind (AsStdString A ethAssetAmt) (\<lambda>stdStr.
       let errMsg = stdStr @ '' '' @ StdSymbol ethAssetAmt @ '' / '' @ apd_Text A r @
                    '' exceeds XMR's 12 decimal precision'' in
       obind (calcAltNumeratorAmount A (NumStdDecimals ethAssetAmt) NumMoneroDecimals r xmrAmt')
         (\<lambda>(suggestedAltAmt, _). Err (Errorf (case suggestedAltAmt of
              None \<Rightarrow> errMsg | Some a \<Rightarrow> errMsg @ '', try '' @ apd_Text A a))))
     else Ok xmrAmt'))"

definition ToETH :: "apd \<Rightarrow> ExchangeRate \<Rightarrow> decimal \<Rightarrow> decimal result" where
  "ToETH A r xmrAmount =
     (case apd_Mul A MaxCoinPrecision xmrAmount r of
        Inl e \<Rightarrow> Inl e
      | Inr ethAmt \<Rightarrow>
          let (exceeds, ethAmt') = ExceedsDecimals A ethAmt NumEtherDecimals in
          if exceeds
          then Inl (Errorf (apd_Text A xmrAmount @ '' XMR * '' @ apd_Text A r @
                            '' exceeds ETH's 18 decimal precision''))
          else Inr ethAmt')"

definition ToERC20Amount :: "apd \<Rightarrow> ExchangeRate \<Rightarrow> decimal \<Rightarrow> ERC20TokenInfo \<Rightarrow> decimal outcome" where
  "ToERC20Amount A r xmrAmount token =
     obind (of_result (apd_Mul A MaxCoinPrecision xmrAmount r)) (\<lambda>erc20Amount.
     let (exceeds, erc20Amount') = ExceedsDecimals A erc20Amount (TokenNumDecimals token) in
     if exceeds
     then Err (Errorf (apd_Text A xmrAmount @ '' XMR * '' @ apd_Text A r @
                       '' exceeds token's %d decimal precision''))
     else obind (NewTokenAmountFromDecimals A erc20Amount' token) (\<lambda>t. Ok (Amount t)))"

section \<open>Coins a participant provides\<close>

text \<open>\<open>ProvidesCoin\<close> is a string type: values other than the two constants exist.\<close>

type_synonym ProvidesCoin = string

definition ProvidesXMR :: ProvidesCoin where "ProvidesXMR = ''XMR''"
definition ProvidesETH :: ProvidesCoin where "ProvidesETH = ''ETH''"

definition NewProvidesCoin :: "string \<Rightarrow> ProvidesCoin result" where
  "NewProvidesCoin s =
     (if s = ''XMR'' \<or> s = ''xmr'' then Inr ProvidesXMR
      else if s = ''ETH'' \<or> s = ''eth'' then Inr ProvidesETH
      else Inl ErrInvalidCoin)"

definition ProvidesCoin_MarshalText :: "ProvidesCoin \<Rightarrow> string result" where
  "ProvidesCoin_MarshalText c =
     (if c = ProvidesXMR \<or> c = ProvidesETH then Inr c
      else Inl (Errorf (''cannot marshal ProvidesCoin '' @ c)))"

definition ProvidesCoin_UnmarshalText :: "string \<Rightarrow> ProvidesCoin result" where
  "ProvidesCoin_UnmarshalText data = NewProvidesCoin data"

section \<open>Exact arithmetic\<close>

lemma powi_eq_coeff:
  assumes eq: "rat_of_nat a * 10 powi f = of_nat c * 10 powi e" and "f \<le> e"
  shows "a = c * 10 ^ nat (e - f)"
proof -
  define P where "P = (10::rat) powi f"
  have "e = f + int (nat (e - f))" using assms(2) by simp
  then have "(10::rat) powi e = P * 10 ^ nat (e - f)"
    unfolding P_def by (metis power_int_add power_int_of_nat zero_neq_numeral)
  with eq have "rat_of_nat a * P = of_nat (c * 10 ^ nat (e - f)) * P" unfolding P_def [symmetric] by simp
  moreover have "P \<noteq> 0" by (simp add: P_def)
  ultimately show ?thesis by (simp only: mult_cancel_right of_nat_eq_iff) simp
qed

text \<open>A reduced decimal has the smallest coefficient and the largest exponent of its value.\<close>

lemma dval_abs: "\<bar>dval d\<bar> = of_nat (Coeff d) * 10 powi sint (Exponent d)"
  by (simp add: dval_def abs_mult)

lemma reduced_least:
  assumes red: "reduced d" and v: "\<bar>dval d\<bar> = of_nat c * 10 powi e" and c: "0 < c"
  shows "e \<le> sint (Exponent d) \<and> c = Coeff d * 10 ^ nat (sint (Exponent d) - e)"
proof -
  let ?f = "sint (Exponent d)"
  have eq: "rat_of_nat (Coeff d) * 10 powi ?f = of_nat c * 10 powi e"
    using v by (simp only: dval_abs)
  have "e \<le> ?f"
  proof (rule ccontr)
    assume lt: "\<not> e \<le> ?f"
    then have k: "Coeff d = c * 10 ^ nat (e - ?f)" by (intro powi_eq_coeff [OF eq]) simp
    obtain j where "nat (e - ?f) = Suc j" using lt by (cases "nat (e - ?f)") auto
    with k c have "Coeff d mod 10 = 0" "Coeff d \<noteq> 0" by auto
    with red show False by (simp add: reduced_def)
  qed
  then show ?thesis using powi_eq_coeff [OF eq [symmetric]] by blast
qed

lemma reduced_coeff_le: "reduced d \<Longrightarrow> \<bar>dval d\<bar> = of_nat c * 10 powi e \<Longrightarrow> 0 < c \<Longrightarrow> Coeff d \<le> c"
  using reduced_least [of d c e] by simp

lemma dval_zero [simp]: "dval d = 0 \<longleftrightarrow> Coeff d = 0"
  by (simp add: dval_def)

lemma dval_pos: "0 < dval d \<longleftrightarrow> Coeff d \<noteq> 0 \<and> \<not> Negative d"
proof -
  have p: "0 < (10::rat) powi sint (Exponent d)" by simp
  show ?thesis
    by (cases "Coeff d = 0"; cases "Negative d") (use p in \<open>simp_all add: dval_def not_less less_imp_le\<close>)
qed

text \<open>A reduced decimal times \<open>10 ^ k\<close> is an integer just when it has at most \<open>k\<close> decimals.\<close>

lemma reduced_decimals:
  assumes red: "reduced d"
  shows "dval d * 10 ^ k \<in> \<int> \<longleftrightarrow> - int k \<le> sint (Exponent d)"
proof
  assume "dval d * 10 ^ k \<in> \<int>"
  then obtain n where n: "dval d * 10 ^ k = of_int n" by (auto elim: Ints_cases)
  show "- int k \<le> sint (Exponent d)"
  proof (cases "n = 0")
    case True
    with n red show ?thesis by (auto simp: reduced_def)
  next
    case False
    have "\<bar>dval d\<bar> * 10 ^ k = \<bar>rat_of_int n\<bar>" using arg_cong [OF n, of abs] by (simp add: abs_mult)
    also have "\<dots> = of_nat (nat \<bar>n\<bar>)" by simp
    finally have "\<bar>dval d\<bar> = of_nat (nat \<bar>n\<bar>) * 10 powi (- int k)"
      by (simp add: power_int_minus field_simps)
    from reduced_least [OF red this] False show ?thesis by simp
  qed
next
  assume "- int k \<le> sint (Exponent d)"
  then have "sint (Exponent d) + int k = int (nat (sint (Exponent d) + int k))" by simp
  then have "(10::rat) powi sint (Exponent d) * 10 ^ k = 10 ^ nat (sint (Exponent d) + int k)"
    by (metis power_int_add power_int_of_nat zero_neq_numeral)
  then have "dval d * 10 ^ k = (if Negative d then - 1 else 1) * of_nat (Coeff d) * 10 ^ nat (sint (Exponent d) + int k)"
    by (simp add: dval_def mult.assoc)
  then show "dval d * 10 ^ k \<in> \<int>" by auto
qed

lemma apd_laws_Reduce:
  assumes "apd_laws A" "apd_ok d"
  shows "Form (apd_Reduce A d) = Finite" "reduced (apd_Reduce A d)" "dval (apd_Reduce A d) = dval d"
    "\<bar>sint (Exponent (apd_Reduce A d))\<bar> \<le> 2 * exponentBound"
  using assms by (auto simp: apd_laws_def)

lemma sint_neg_small: "\<bar>sint (e::int32)\<bar> < 2 ^ 31 \<Longrightarrow> sint (- e) = - sint e"
  using sint_small [of "- sint e"] by simp

text \<open>\<open>NumDecimals\<close> reduces its argument without changing its value and returns the least number of decimal places
  that represents it.\<close>

theorem NumDecimals_least:
  assumes "apd_laws A" "apd_ok d" "NumDecimals A d = (n, d')"
  shows "dval d' = dval d \<and> 0 \<le> sint n \<and> (\<forall>k. dval d * 10 ^ k \<in> \<int> \<longleftrightarrow> sint n \<le> int k)"
proof -
  note r = apd_laws_Reduce [OF assms(1,2)]
  let ?e = "Exponent (apd_Reduce A d)"
  have neg: "sint (- ?e) = - sint ?e" using r(4) by (intro sint_neg_small) (simp add: exponentBound_def)
  have k: "dval d * 10 ^ k \<in> \<int> \<longleftrightarrow> - int k \<le> sint ?e" for k using reduced_decimals [OF r(2)] r(3) by simp
  have n: "n = (if 0 \<le> sint ?e then 0 else - ?e)" "d' = apd_Reduce A d"
    using assms(3) by (auto simp: NumDecimals_def Let_def split: if_splits)
  show ?thesis
  proof (cases "0 \<le> sint ?e")
    case True
    then have "- int k \<le> sint ?e" for k by (rule order_trans [rotated]) simp
    with True n k r(3) show ?thesis by simp
  next
    case False
    with n k neg r(3) show ?thesis by (auto simp: minus_le_iff)
  qed
qed

lemma sint_ucast_8: "sint (ucast (b::8 word) :: int32) = uint b"
proof -
  have "uint b < 256" using unsigned_less [where 'a = int, of b] by simp
  moreover have "- 2147483648 \<le> uint b" by (rule order_trans [OF _ unsigned_greater_eq]) simp
  ultimately have "signed_take_bit 31 (uint b) = uint b" by (intro signed_take_bit_int_eq_self) simp_all
  then show ?thesis by (simp add: signed_ucast_eq)
qed

lemma ExceedsDecimals_iff:
  assumes "apd_laws A" "apd_ok d"
  shows "fst (ExceedsDecimals A d m) \<longleftrightarrow> dval d * 10 ^ unat m \<notin> \<int>"
    "snd (ExceedsDecimals A d m) = apd_Reduce A d"
proof -
  note r = apd_laws_Reduce [OF assms]
  have "sint (- Exponent (apd_Reduce A d)) = - sint (Exponent (apd_Reduce A d))"
    using r(4) by (intro sint_neg_small) (simp add: exponentBound_def)
  then show "fst (ExceedsDecimals A d m) \<longleftrightarrow> dval d * 10 ^ unat m \<notin> \<int>"
    using reduced_decimals [OF r(2), of "unat m"] r(3) order_trans [of "- uint m" 0 "sint (Exponent (apd_Reduce A d))"]
    by (auto simp: ExceedsDecimals_def NumDecimals_def Let_def sint_ucast_8)
  show "snd (ExceedsDecimals A d m) = apd_Reduce A d"
    by (simp add: ExceedsDecimals_def NumDecimals_def Let_def)
qed

text \<open>A decimal input passes \<open>ValidatePositive\<close> just when it is positive and can be written with at most
  100 significant digits and at most \<open>maxDecimals\<close> decimal places; what it then holds is the same number.\<close>

theorem ValidatePositive_accepts:
  assumes "apd_laws A" "apd_ok d"
  shows "fst (ValidatePositive A field m (Some d)) = None \<longleftrightarrow>
      (\<exists>c e. dval d = of_nat c * 10 powi e \<and> 0 < c \<and> c < 10 ^ 100 \<and> - int (unat m) \<le> e)"
proof -
  note r = apd_laws_Reduce [OF assms]
  let ?d = "apd_Reduce A d"
  have m: "sint (- (ucast m :: int32)) = - int (unat m)"
    using sint_neg_small [of "ucast m :: int32"] sint_ucast_8 [of m] unsigned_less [where 'a = int, of m] by simp
  have z: "apd_IsZero A d \<longleftrightarrow> Coeff d = 0" "apd_NumDigits A ?d = int (numDigits (Coeff ?d))"
    using assms r(1) by (auto simp: apd_laws_def apd_ok_def)
  have L: "fst (ValidatePositive A field m (Some d)) = None \<longleftrightarrow>
      0 < dval d \<and> Coeff ?d < 10 ^ 100 \<and> - int (unat m) \<le> sint (Exponent ?d)"
    using assms(2) z m numDigits_le_iff [of 100 "Coeff ?d"]
    by (auto simp: ValidatePositive_def dval_pos apd_ok_def Let_def MaxCoinPrecision_def)
  have pos: "0 < dval d \<Longrightarrow> dval d = of_nat (Coeff ?d) * 10 powi sint (Exponent ?d)"
    using dval_abs [of ?d] r(3) by simp
  have nz: "0 < dval d \<Longrightarrow> 0 < Coeff ?d" using r(3) dval_pos [of ?d] by simp
  show ?thesis
  proof
    assume "fst (ValidatePositive A field m (Some d)) = None"
    with L pos nz show "\<exists>c e. dval d = of_nat c * 10 powi e \<and> 0 < c \<and> c < 10 ^ 100 \<and> - int (unat m) \<le> e"
      by (intro exI [of _ "Coeff ?d"] exI [of _ "sint (Exponent ?d)"]) auto
  next
    assume "\<exists>c e. dval d = of_nat c * 10 powi e \<and> 0 < c \<and> c < 10 ^ 100 \<and> - int (unat m) \<le> e"
    then obtain c e where ce: "dval d = of_nat c * 10 powi e" "0 < c" "c < 10 ^ 100" "- int (unat m) \<le> e" by blast
    then have p: "0 < dval d" "\<bar>dval ?d\<bar> = of_nat c * 10 powi e" by (simp_all add: r(3))
    have "Coeff ?d < 10 ^ 100" by (rule le_less_trans [OF reduced_coeff_le [OF r(2) p(2) ce(2)] ce(3)])
    moreover have "- int (unat m) \<le> sint (Exponent ?d)"
      using reduced_least [OF r(2) p(2) ce(2)] ce(4) by linarith
    ultimately show "fst (ValidatePositive A field m (Some d)) = None" using L p(1) by blast
  qed
qed

definition demo_amount :: decimal where
  "demo_amount = \<lparr>Form = Finite, Negative = False, Exponent = - 5, Coeff = 1500\<rparr>"

lemma demo_amount_ok: "apd_ok demo_amount"
  by (simp add: apd_ok_def demo_amount_def exponentBound_def numDigits.simps)

theorem NumDecimals_least_witness:
  "apd_laws ref_apd \<and> apd_ok demo_amount \<and>
   NumDecimals ref_apd demo_amount = (3, demo_amount\<lparr>Exponent := - 3, Coeff := 15\<rparr>) \<and>
   (\<forall>k. dval demo_amount * 10 ^ k \<in> \<int> \<longleftrightarrow> sint (3::int32) \<le> int k)"
proof (intro conjI)
  show n: "NumDecimals ref_apd demo_amount = (3, demo_amount\<lparr>Exponent := - 3, Coeff := 15\<rparr>)"
    by (simp add: NumDecimals_def ref_apd_def ref_Reduce_def demo_amount_def strip_zeros.simps Let_def)
  show "\<forall>k. dval demo_amount * 10 ^ k \<in> \<int> \<longleftrightarrow> sint (3::int32) \<le> int k"
    using NumDecimals_least [OF ref_apd_laws demo_amount_ok n] by blast
qed (simp_all add: ref_apd_laws demo_amount_ok)

theorem ValidatePositive_accepts_witness:
  "fst (ValidatePositive ref_apd ''amount'' 12 (Some demo_amount)) = None \<and>
   fst (ValidatePositive ref_apd ''amount'' 2 (Some demo_amount)) \<noteq> None \<and>
   (\<exists>c e. dval demo_amount = of_nat c * 10 powi e \<and> 0 < c \<and> c < 10 ^ 100 \<and> - int (unat (12::8 word)) \<le> e)"
proof (intro conjI)
  show a: "fst (ValidatePositive ref_apd ''amount'' 12 (Some demo_amount)) = None"
    by (simp add: ValidatePositive_def ref_apd_def ref_Reduce_def demo_amount_def strip_zeros.simps Let_def
        numDigits.simps MaxCoinPrecision_def)
  show "fst (ValidatePositive ref_apd ''amount'' 2 (Some demo_amount)) \<noteq> None"
    by (simp add: ValidatePositive_def ref_apd_def ref_Reduce_def demo_amount_def strip_zeros.simps Let_def
        numDigits.simps MaxCoinPrecision_def)
  show "\<exists>c e. dval demo_amount = of_nat c * 10 powi e \<and> 0 < c \<and> c < 10 ^ 100 \<and> - int (unat (12::8 word)) \<le> e"
    using ValidatePositive_accepts [OF ref_apd_laws demo_amount_ok, of "''amount''" 12] a by blast
qed

text \<open>Decimals small enough that no operation of the package leaves the range of the library.\<close>

definition apd_small :: "decimal \<Rightarrow> bool" where
  "apd_small d \<longleftrightarrow> Form d = Finite \<and> \<bar>sint (Exponent d)\<bar> \<le> 100000 \<and> numDigits (Coeff d) \<le> 100000"

lemma apd_small_ok: "apd_small d \<Longrightarrow> apd_ok d"
  by (auto simp: apd_small_def apd_ok_def exponentBound_def)

lemma uint_8_bounds: "0 \<le> uint (b::8 word) \<and> uint b < 256"
  using unsigned_less [where 'a = int, of b] by simp

lemma powi_uint: "(10::rat) powi uint (b::8 word) = 10 ^ unat b"
  using power_int_of_nat [of "10::rat" "unat b"] by simp

lemma increaseExponent_Ok:
  assumes "\<bar>sint (Exponent n)\<bar> \<le> 2 * exponentBound"
  shows "\<exists>n'. increaseExponent n b = Ok n' \<and> Form n' = Form n \<and> Coeff n' = Coeff n \<and> Negative n' = Negative n \<and>
    sint (Exponent n') = sint (Exponent n) + uint b \<and> dval n' = dval n * 10 ^ unat b"
proof -
  have e: "sint (Exponent n + ucast b) = sint (Exponent n) + uint b"
  proof -
    have "\<bar>sint (Exponent n) + uint b\<bar> < 2147483648"
      using assms uint_8_bounds [of b] unfolding exponentBound_def by linarith
    then show ?thesis
      using sint_add_small [of "Exponent n" "sint (ucast b :: int32)"] unfolding sint_ucast_8 by simp
  qed
  have "(10::rat) powi (sint (Exponent n) + uint b) = 10 powi (sint (Exponent n)) * 10 ^ unat b"
    by (simp add: power_int_add powi_uint)
  with e show ?thesis by (simp add: increaseExponent_def dval_def Let_def)
qed

lemma decreaseExponent_Ok:
  assumes "\<bar>sint (Exponent n)\<bar> \<le> 2 * exponentBound"
  shows "\<exists>n'. decreaseExponent n b = Ok n' \<and> Form n' = Form n \<and> Coeff n' = Coeff n \<and> Negative n' = Negative n \<and>
    sint (Exponent n') = sint (Exponent n) - uint b \<and> dval n = dval n' * 10 ^ unat b"
proof -
  have e: "sint (Exponent n - ucast b) = sint (Exponent n) - uint b"
  proof -
    have "\<bar>sint (Exponent n) - uint b\<bar> < 2147483648"
      using assms uint_8_bounds [of b] unfolding exponentBound_def by linarith
    then show ?thesis
      using sint_add_small [of "Exponent n" "- sint (ucast b :: int32)"] unfolding sint_ucast_8 by simp
  qed
  have "(10::rat) powi (sint (Exponent n)) = 10 powi (sint (Exponent n) - uint b) * 10 ^ unat b"
    using power_int_add [of "10::rat" "sint (Exponent n) - uint b" "uint b"] by (simp add: powi_uint)
  with e show ?thesis by (simp add: decreaseExponent_def dval_def Let_def)
qed

lemma apd_laws_Round:
  assumes "apd_laws A" "apd_ok d" "dval d = of_int i" "\<bar>i\<bar> < 10 ^ 100"
  shows "\<exists>z. apd_RoundToIntegralValue A MaxCoinPrecision d = Inr z \<and> apd_ok z \<and> dval z = dval d \<and>
    0 \<le> sint (Exponent z) \<and> sint (Exponent z) \<le> max 0 (sint (Exponent d))"
proof -
  have "int MaxCoinPrecision \<le> exponentBound" "\<bar>i\<bar> < 10 ^ MaxCoinPrecision"
    using assms(4) by (simp_all add: MaxCoinPrecision_def exponentBound_def)
  with assms(1-3) show ?thesis unfolding apd_laws_def by blast
qed

lemma apd_laws_Quantize:
  assumes "apd_laws A" "apd_ok d" "dval d = of_int i" "0 \<le> i" "i < 10 ^ 100"
  shows "\<exists>z. apd_Quantize A MaxCoinPrecision d 0 = Inr z \<and> int (Coeff z) = i"
proof -
  have "int MaxCoinPrecision \<le> exponentBound" "\<bar>i\<bar> < 10 ^ MaxCoinPrecision"
    using assms(4,5) by (simp_all add: MaxCoinPrecision_def exponentBound_def)
  with assms(1-3) obtain z where z: "apd_Quantize A MaxCoinPrecision d 0 = Inr z" "Exponent z = 0" "dval z = of_int i"
    unfolding apd_laws_def by metis
  have "rat_of_int (int (Coeff z)) = of_int i" using dval_abs [of z] z assms(4) by simp
  then have "int (Coeff z) = i" by (simp only: of_int_eq_iff)
  with z show ?thesis by simp
qed

lemma roundToDecimalPlace_exact:
  assumes A: "apd_laws A" and d: "Form d = Finite" "\<bar>sint (Exponent d)\<bar> \<le> 150000" "numDigits (Coeff d) \<le> 100000"
    and i: "dval d * 10 ^ unat b = of_int i" "\<bar>i\<bar> < 10 ^ 100"
  shows "\<exists>z. roundToDecimalPlace A d b = Ok z \<and> Form z = Finite \<and> reduced z \<and> dval z = dval d"
proof -
  obtain d1 where d1: "increaseExponent d b = Ok d1" "Form d1 = Finite" "Coeff d1 = Coeff d"
      "sint (Exponent d1) = sint (Exponent d) + uint b" "dval d1 = of_int i"
    using increaseExponent_Ok [of d b] d i by (auto simp: exponentBound_def)
  have "\<bar>sint (Exponent d1)\<bar> \<le> 200000" using d(2) d1(4) uint_8_bounds [of b] by linarith
  with d d1 have "apd_ok d1" by (simp add: apd_ok_def exponentBound_def)
  then obtain d2 where d2: "apd_RoundToIntegralValue A MaxCoinPrecision d1 = Inr d2" "apd_ok d2" "dval d2 = dval d1"
      "0 \<le> sint (Exponent d2)" "sint (Exponent d2) \<le> max 0 (sint (Exponent d1))"
    using apd_laws_Round [OF A _ d1(5) i(2)] by blast
  obtain d3 where d3: "decreaseExponent d2 b = Ok d3" "Form d3 = Finite" "Coeff d3 = Coeff d2"
      "sint (Exponent d3) = sint (Exponent d2) - uint b" "dval d2 = dval d3 * 10 ^ unat b"
    using decreaseExponent_Ok [of d2 b] d2 by (auto simp: exponentBound_def apd_ok_def)
  have "\<bar>sint (Exponent d3)\<bar> \<le> 200000" using d2(4,5) d3(4) d1(4) d(2) uint_8_bounds [of b] by linarith
  with d2 d3 have "apd_ok d3" by (simp add: apd_ok_def exponentBound_def)
  moreover have "dval d3 = dval d" using d3(5) d2(3) d1(5) i(1) by simp
  ultimately show ?thesis
    using apd_laws_Reduce [OF A] by (simp add: roundToDecimalPlace_def d1(1) d2(1) d3(1))
qed

text \<open>A reduced decimal below \<open>10 ^ 100\<close> in units of \<open>10 ^ e\<close> stays in the range of the library.\<close>

lemma reduced_bounds:
  assumes red: "reduced d" and v: "\<bar>dval d\<bar> = of_nat c * 10 powi e" and c: "c < 10 ^ 100"
  shows "Coeff d \<le> c \<and> (0 < c \<longrightarrow> e \<le> sint (Exponent d) \<and> sint (Exponent d) < e + 100) \<and>
    (c = 0 \<longrightarrow> Exponent d = 0) \<and> numDigits (Coeff d) \<le> 100"
proof (cases "c = 0")
  case True
  with v red have "Coeff d = 0" "Exponent d = 0" by (auto simp: reduced_def)
  with True show ?thesis by (simp add: numDigits.simps)
next
  case False
  let ?k = "nat (sint (Exponent d) - e)"
  have l: "e \<le> sint (Exponent d)" "c = Coeff d * 10 ^ ?k" using reduced_least [OF red v] False by auto
  have cf: "0 < Coeff d" using False l(2) by (cases "Coeff d = 0") auto
  have "10 ^ ?k \<le> c" by (subst l(2)) (use cf in simp)
  then have "(10::nat) ^ ?k < 10 ^ 100" using c by (rule le_less_trans)
  then have "?k < 100" by (rule power_less_imp_less_exp [rotated]) simp
  moreover have "Coeff d \<le> c" using reduced_coeff_le [OF red v] False by simp
  moreover from this c have "numDigits (Coeff d) \<le> 100" by (subst numDigits_le_iff) simp_all
  ultimately show ?thesis using l(1) False by simp
qed

lemma reduced_integer_small:
  assumes "Form d = Finite" "reduced d" "dval d = of_int i" "\<bar>i\<bar> < 10 ^ 100"
  shows "apd_small d \<and> 0 \<le> sint (Exponent d) \<and> sint (Exponent d) < 100"
proof -
  have v: "\<bar>dval d\<bar> = of_nat (nat \<bar>i\<bar>) * 10 powi 0" by (simp add: assms(3))
  have i: "nat \<bar>i\<bar> < 10 ^ 100" using assms(4) by (simp add: nat_less_iff)
  have b: "0 \<le> sint (Exponent d) \<and> sint (Exponent d) < 100 \<and> numDigits (Coeff d) \<le> 100"
    using reduced_bounds [OF assms(2) v i] by (cases "nat \<bar>i\<bar> = 0") auto
  have "\<bar>sint (Exponent d)\<bar> \<le> 100000" "numDigits (Coeff d) \<le> 100000" using b by linarith+
  then show ?thesis using b assms(1) by (simp only: apd_small_def simp_thms)
qed

text \<open>Shifting an amount by its number of decimals: the shared part of the conversions to whole units.\<close>

lemma to_units_exact:
  assumes A: "apd_laws A" and d: "apd_small d" and i: "dval d * 10 ^ unat b = of_int i" "\<bar>i\<bar> < 10 ^ 100"
  shows "\<exists>w. obind (increaseExponent d b) (\<lambda>x. panic_on_err (roundToDecimalPlace A x 0)) = Ok w \<and>
    apd_small w \<and> 0 \<le> sint (Exponent w) \<and> sint (Exponent w) < 100 \<and> dval w = of_int i"
proof -
  obtain d1 where d1: "increaseExponent d b = Ok d1" "Form d1 = Finite" "Coeff d1 = Coeff d"
      "sint (Exponent d1) = sint (Exponent d) + uint b" "dval d1 = of_int i"
    using increaseExponent_Ok [of d b] d i by (auto simp: exponentBound_def apd_small_def)
  have "\<bar>sint (Exponent d1)\<bar> \<le> 150000" using d d1(4) uint_8_bounds [of b] unfolding apd_small_def by linarith
  then obtain z where z: "roundToDecimalPlace A d1 0 = Ok z" "Form z = Finite" "reduced z" "dval z = of_int i"
    using roundToDecimalPlace_exact [OF A d1(2), of 0 i] d d1 i by (auto simp: apd_small_def)
  then show ?thesis using reduced_integer_small [OF z(2,3,4) i(2)] by (simp add: d1(1))
qed

lemma from_units_exact:
  assumes A: "apd_laws A" and w: "apd_small w"
  shows "\<exists>x. obind (decreaseExponent w b) (\<lambda>x. Ok (apd_Reduce A x)) = Ok x \<and> dval x * 10 ^ unat b = dval w"
proof -
  obtain d1 where d1: "decreaseExponent w b = Ok d1" "Form d1 = Finite" "Coeff d1 = Coeff w"
      "sint (Exponent d1) = sint (Exponent w) - uint b" "dval w = dval d1 * 10 ^ unat b"
    using decreaseExponent_Ok [of w b] w by (auto simp: exponentBound_def apd_small_def)
  have "\<bar>sint (Exponent d1)\<bar> \<le> 200000" using w d1(4) uint_8_bounds [of b] unfolding apd_small_def by linarith
  then have "apd_ok d1" using w d1 by (simp add: apd_ok_def exponentBound_def apd_small_def)
  then show ?thesis using apd_laws_Reduce(3) [OF A] d1 by simp
qed

text \<open>An ether amount with at most 18 decimals converts to wei, to the big integer handed to the contract and back
  to ether without loss, and no step panics.\<close>

theorem EtherToWei_exact:
  assumes "apd_laws A" "apd_small d" "dval d * 10 ^ 18 = of_int i" "0 \<le> i" "i < 10 ^ 100"
  shows "\<exists>w x. EtherToWei A d = Ok w \<and> dval w = of_int i \<and> WeiAmount_BigInt A w = Ok i \<and>
    AsEther A w = Ok x \<and> dval x = dval d"
proof -
  have "dval d * 10 ^ unat NumEtherDecimals = of_int i" using assms(3) by (simp add: NumEtherDecimals_def)
  then obtain w where w: "EtherToWei A d = Ok w" "apd_small w" "dval w = of_int i"
    using to_units_exact [OF assms(1,2), of NumEtherDecimals i] assms(4,5) by (auto simp: EtherToWei_def)
  obtain x where x: "AsEther A w = Ok x" "dval x * 10 ^ unat NumEtherDecimals = dval w"
    using from_units_exact [OF assms(1) w(2)] unfolding AsEther_def by blast
  obtain z where "apd_Quantize A MaxCoinPrecision w 0 = Inr z" "int (Coeff z) = i"
    using apd_laws_Quantize [OF assms(1) apd_small_ok [OF w(2)] w(3) assms(4,5)] by blast
  then have "WeiAmount_BigInt A w = Ok i" by (simp add: WeiAmount_BigInt_def)
  moreover have "dval x = dval d" using x(2) w(3) assms(3) by (simp add: NumEtherDecimals_def)
  ultimately show ?thesis using w x(1) by blast
qed

text \<open>A monero amount with at most 12 decimals converts to piconeros and back without loss, and no step panics.\<close>

theorem MoneroToPiconero_exact:
  assumes "apd_laws A" "apd_small d" "dval d * 10 ^ 12 = of_int i" "\<bar>i\<bar> < 10 ^ 100"
  shows "\<exists>p x. MoneroToPiconero A d = Ok p \<and> dval p = of_int i \<and> AsMonero A p = Ok x \<and> dval x = dval d"
proof -
  have "dval d * 10 ^ unat NumMoneroDecimals = of_int i" using assms(3) by (simp add: NumMoneroDecimals_def)
  then obtain w where w: "MoneroToPiconero A d = Ok w" "apd_small w" "dval w = of_int i"
    using to_units_exact [OF assms(1,2), of NumMoneroDecimals i] assms(4) by (auto simp: MoneroToPiconero_def)
  obtain x where x: "AsMonero A w = Ok x" "dval x * 10 ^ unat NumMoneroDecimals = dval w"
    using from_units_exact [OF assms(1) w(2)] unfolding AsMonero_def by blast
  then have "dval x = dval d" using w(3) assms(3) by (simp add: NumMoneroDecimals_def)
  then show ?thesis using w x(1) by blast
qed

lemma demo_amount_small: "apd_small demo_amount"
  by (simp add: apd_small_def demo_amount_def numDigits.simps)

lemma demo_amount_value: "dval demo_amount = 3 / 200"
  by (simp add: dval_def demo_amount_def power_int_def power_divide)

theorem EtherToWei_exact_witness:
  "\<exists>w x. EtherToWei ref_apd demo_amount = Ok w \<and> dval w = 15000000000000000 \<and>
     WeiAmount_BigInt ref_apd w = Ok 15000000000000000 \<and> AsEther ref_apd w = Ok x \<and> dval x = 3 / 200"
  using EtherToWei_exact [OF ref_apd_laws demo_amount_small, of 15000000000000000]
  by (simp add: demo_amount_value)

theorem MoneroToPiconero_exact_witness:
  "\<exists>p x. MoneroToPiconero ref_apd demo_amount = Ok p \<and> dval p = 15000000000 \<and>
     AsMonero ref_apd p = Ok x \<and> dval x = 3 / 200"
  using MoneroToPiconero_exact [OF ref_apd_laws demo_amount_small, of 15000000000]
  by (simp add: demo_amount_value)

text \<open>A token amount read from the contract as whole token units and written back is the same number of units,
  for every number of decimals a token can declare; no step panics.\<close>

theorem ERC20_units_roundtrip:
  assumes "apd_laws A" "0 \<le> n" "n < 10 ^ 100"
  shows "\<exists>t. NewERC20TokenAmountFromBigInt A n token = Ok t \<and> TokenInfo t = token \<and>
    dval (Amount t) * 10 ^ unat (TokenNumDecimals token) = of_int n \<and> ERC20TokenAmount_BigInt A t = Ok n"
proof -
  let ?b = "TokenNumDecimals token" and ?w = "new_decimal\<lparr>Coeff := nat \<bar>n\<bar>\<rparr>"
  have nat: "nat \<bar>n\<bar> < 10 ^ 100" using assms(2,3) by (simp add: nat_less_iff)
  have w: "sint (Exponent ?w) = 0" "Form ?w = Finite" "dval ?w = of_int n"
    using assms(2) by (simp_all add: new_decimal_def dval_def)
  obtain d1 where d1: "decreaseExponent ?w ?b = Ok d1" "Form d1 = Finite" "Coeff d1 = nat \<bar>n\<bar>"
      "sint (Exponent d1) = - uint ?b" "of_int n = dval d1 * 10 ^ unat ?b"
    using decreaseExponent_Ok [of ?w ?b] w by (auto simp: exponentBound_def new_decimal_def)
  have "numDigits (nat \<bar>n\<bar>) \<le> 100" using nat by (subst numDigits_le_iff) simp_all
  then have ok: "apd_ok d1" using d1 uint_8_bounds [of ?b] by (simp add: apd_ok_def exponentBound_def)
  note r = apd_laws_Reduce [OF assms(1) ok]
  let ?r = "apd_Reduce A d1"
  have "\<bar>dval ?r\<bar> = of_nat (nat \<bar>n\<bar>) * 10 powi (- uint ?b)" using dval_abs [of d1] d1(3,4) r(3) by simp
  note rb = reduced_bounds [OF r(2) this nat]
  have "\<bar>sint (Exponent ?r)\<bar> \<le> 1000" using rb uint_8_bounds [of ?b]
    by (cases "nat \<bar>n\<bar> = 0") (simp, linarith)
  moreover obtain u where u: "increaseExponent ?r ?b = Ok u" "Form u = Finite" "Coeff u = Coeff ?r"
      "sint (Exponent u) = sint (Exponent ?r) + uint ?b" "dval u = of_int n"
    using increaseExponent_Ok [of ?r ?b] r d1(5) by auto
  ultimately have "\<bar>sint (Exponent u)\<bar> \<le> 100000" using uint_8_bounds [of ?b] by linarith
  then have "apd_ok u" using u rb by (auto simp: apd_ok_def exponentBound_def)
  then obtain z where "apd_Quantize A MaxCoinPrecision u 0 = Inr z" "int (Coeff z) = n"
    using apd_laws_Quantize [OF assms(1) _ u(5) assms(2,3)] by blast
  then show ?thesis using d1(1,5) r(3) u(1)
    by (simp add: NewERC20TokenAmountFromBigInt_def ERC20TokenAmount_BigInt_def)
qed

theorem ERC20_units_roundtrip_witness:
  "\<exists>t. NewERC20TokenAmountFromBigInt ref_apd 123450 (NewERC20TokenInfo 7 6 ''Tether'' ''USDT'') = Ok t \<and>
     dval (Amount t) * 1000000 = 123450 \<and> ERC20TokenAmount_BigInt ref_apd t = Ok 123450"
  using ERC20_units_roundtrip [OF ref_apd_laws, of 123450 "NewERC20TokenInfo 7 6 ''Tether'' ''USDT''"]
  by (auto simp: NewERC20TokenInfo_def)

text \<open>The product of an XMR amount with at most 12 decimals and an exchange rate with at most 6 never exceeds ether's
  18 decimals: \<open>ToETH\<close> returns exactly the product, as long as it fits the precision of 100 digits.\<close>

theorem ToETH_exact:
  assumes "apd_laws A" "apd_small x" "apd_small r" "\<bar>sint (Exponent x) + sint (Exponent r)\<bar> \<le> 100000"
    and "numDigits (Coeff x * Coeff r) \<le> 100" "dval x * 10 ^ 12 \<in> \<int>" "dval r * 10 ^ 6 \<in> \<int>"
  shows "\<exists>e. ToETH A r x = Inr e \<and> dval e = dval x * dval r"
proof -
  have "int MaxCoinPrecision \<le> exponentBound" "numDigits (Coeff x * Coeff r) \<le> MaxCoinPrecision"
    using assms(5) by (simp_all add: MaxCoinPrecision_def exponentBound_def)
  moreover have "\<forall>p x y. int p \<le> exponentBound \<longrightarrow> apd_ok x \<longrightarrow> apd_ok y \<longrightarrow>
        \<bar>sint (Exponent x) + sint (Exponent y)\<bar> \<le> 100000 \<longrightarrow> numDigits (Coeff x * Coeff y) \<le> p \<longrightarrow>
        (\<exists>z. apd_Mul A p x y = Inr z \<and> apd_ok z \<and> dval z = dval x * dval y)"
    using assms(1) unfolding apd_laws_def by (elim conjE) assumption
  ultimately obtain z where z: "apd_Mul A MaxCoinPrecision x r = Inr z" "apd_ok z" "dval z = dval x * dval r"
    using apd_small_ok [OF assms(2)] apd_small_ok [OF assms(3)] assms(4) by meson
  have "(dval x * 10 ^ 12) * (dval r * 10 ^ 6) \<in> \<int>" using assms(6,7) by (rule Ints_mult)
  also have "(dval x * 10 ^ 12) * (dval r * 10 ^ 6) = dval z * 10 ^ unat NumEtherDecimals"
    by (simp add: z(3) NumEtherDecimals_def)
  finally have "ExceedsDecimals A z NumEtherDecimals = (False, apd_Reduce A z)"
    using ExceedsDecimals_iff [OF assms(1) z(2), of NumEtherDecimals]
    by (cases "ExceedsDecimals A z NumEtherDecimals") simp
  then show ?thesis using apd_laws_Reduce(3) [OF assms(1) z(2)] z by (simp add: ToETH_def)
qed

theorem ToETH_exact_witness:
  "\<exists>e. ToETH ref_apd demo_amount demo_amount = Inr e \<and> dval e = 9 / 40000"
  using ToETH_exact [OF ref_apd_laws demo_amount_small demo_amount_small]
  by (simp add: demo_amount_value) (simp add: demo_amount_def numDigits.simps)

end
