(* ===== verification/Store.thy ===== *)
theory Store
  imports Go_Prelude "HOL-Library.AList"
begin

text \<open>
  Persistence primitives: the validated JSON codecs of \<open>common/vjson\<close> and the key-value store.

  The reflective JSON encoder and the validator package are parameters, gathered in a \<open>codec\<close> per
  encoded type. The store is \<open>github.com/ChainSafe/chaindb\<close>, outside the repository, so its
  operations are the fields of a record \<^term>\<open>C\<close> over an abstract store state; each operation names
  the table by the prefix given to \<open>chaindb.NewTable\<close>. What the code relies on is \<open>chaindb_laws\<close>.
  An iterator is the list of entries it visits.
\<close>

section \<open>Validated JSON\<close>

record 'v codec =
  validate_Struct :: "'v \<Rightarrow> goerr option"
  json_Marshal :: "'v \<Rightarrow> bytes result"
  json_Unmarshal :: "bytes \<Rightarrow> 'v result"

definition MarshalStruct :: "'v codec \<Rightarrow> 'v \<Rightarrow> bytes result" where
  "MarshalStruct J v =
     (case validate_Struct J v of Some e \<Rightarrow> Inl e | None \<Rightarrow> json_Marshal J v)"

definition UnmarshalStruct :: "'v codec \<Rightarrow> bytes \<Rightarrow> 'v result" where
  "UnmarshalStruct J jsonData =
     (case json_Unmarshal J jsonData of
        Inl e \<Rightarrow> Inl e
      | Inr v \<Rightarrow> (case validate_Struct J v of Some e \<Rightarrow> Inl e | None \<Rightarrow> Inr v))"

text \<open>What is relied on: decoding an encoded value gives that value back.\<close>

definition codec_law :: "'v codec \<Rightarrow> bool" where
  "codec_law J \<longleftrightarrow> (\<forall>v b. json_Marshal J v = Inr b \<longrightarrow> json_Unmarshal J b = Inr v)"

lemma UnmarshalStruct_MarshalStruct:
  "codec_law J \<Longrightarrow> MarshalStruct J v = Inr b \<Longrightarrow> UnmarshalStruct J b = Inr v"
  by (auto simp: codec_law_def MarshalStruct_def UnmarshalStruct_def split: option.splits)

section \<open>The key-value store\<close>

record 'k chaindb =
  cd_Put :: "string \<Rightarrow> bytes \<Rightarrow> bytes \<Rightarrow> ('k, unit) go"
  cd_Get :: "string \<Rightarrow> bytes \<Rightarrow> ('k, bytes) go"
  cd_Has :: "string \<Rightarrow> bytes \<Rightarrow> ('k, bool) go"
  cd_Del :: "string \<Rightarrow> bytes \<Rightarrow> ('k, unit) go"
  cd_Flush :: "string \<Rightarrow> ('k, unit) go"
  cd_Close :: "string \<Rightarrow> ('k, unit) go"
  cd_Iter :: "string \<Rightarrow> 'k \<Rightarrow> (bytes \<times> bytes) list"

definition ErrKeyNotFound :: goerr where
  "ErrKeyNotFound = Sentinel ''ErrKeyNotFound'' ''Key not found''"

text \<open>What a table holds, as observed through \<open>Get\<close>.\<close>

definition content :: "'k chaindb \<Rightarrow> 'k \<Rightarrow> string \<Rightarrow> bytes \<Rightarrow> bytes option" where
  "content C k p key = (case fst (cd_Get C p key k) of Ok v \<Rightarrow> Some v | _ \<Rightarrow> None)"

definition idLength :: nat where
  "idLength = 32"

text \<open>
  \<open>Get\<close> and \<open>Has\<close> do not change the store and report a missing key by \<open>ErrKeyNotFound\<close> and \<open>false\<close>;
  a successful \<open>Put\<close> or \<open>Del\<close> changes one key of one table, a failed one changes nothing;
  \<open>Flush\<close> changes no entry; an iterator visits every entry of its table once, and what it may
  visit after them has keys longer than an identifier.
\<close>

definition Get_law :: "'k chaindb \<Rightarrow> bool" where
  "Get_law C \<longleftrightarrow> (\<forall>p key k.
     ((\<exists>v. fst (cd_Get C p key k) = Ok v) \<or> fst (cd_Get C p key k) = Err ErrKeyNotFound) \<and>
     content C (snd (cd_Get C p key k)) = content C k)"

definition Has_law :: "'k chaindb \<Rightarrow> bool" where
  "Has_law C \<longleftrightarrow> (\<forall>p key k. fst (cd_Has C p key k) = Ok (content C k p key \<noteq> None) \<and>
     content C (snd (cd_Has C p key k)) = content C k)"

text \<open>A write either succeeds and has the given effect on its table, or fails without effect.\<close>

definition write_law :: "'k chaindb \<Rightarrow> ('k, unit) go \<Rightarrow> string \<Rightarrow>
    ((bytes \<Rightarrow> bytes option) \<Rightarrow> bytes \<Rightarrow> bytes option) \<Rightarrow> bool" where
  "write_law C m p f \<longleftrightarrow> (\<forall>k. case m k of
       (Ok _, k') \<Rightarrow> content C k' = (content C k)(p := f (content C k p))
     | (Err _, k') \<Rightarrow> content C k' = content C k
     | (Panic _, k') \<Rightarrow> False
     | (Block, k') \<Rightarrow> False)"

definition Iter_law :: "'k chaindb \<Rightarrow> bool" where
  "Iter_law C \<longleftrightarrow> (\<forall>p k. (\<forall>key v. content C k p key = Some v \<longrightarrow> length key \<le> idLength) \<longrightarrow>
     distinct (map fst (takeWhile (\<lambda>(key, v). length key \<le> idLength) (cd_Iter C p k))) \<and>
     map_of (takeWhile (\<lambda>(key, v). length key \<le> idLength) (cd_Iter C p k)) = content C k p)"

definition chaindb_laws :: "'k chaindb \<Rightarrow> bool" where
  "chaindb_laws C \<longleftrightarrow> Get_law C \<and> Has_law C \<and> Iter_law C \<and>
     (\<forall>p key v. write_law C (cd_Put C p key v) p (\<lambda>t. t(key \<mapsto> v))) \<and>
     (\<forall>p key. write_law C (cd_Del C p key) p (\<lambda>t. t(key := None))) \<and>
     (\<forall>p. write_law C (cd_Flush C p) p (\<lambda>t. t))"

lemma wp_write:
  assumes "write_law C m p f"
    and "\<And>k'. content C k' = (content C k)(p := f (content C k p)) \<Longrightarrow> Q (Ok ()) k'"
    and "\<And>e k'. content C k' = content C k \<Longrightarrow> Q (Err e) k'"
  shows "wp m Q k"
proof (cases "m k")
  case (Pair r k')
  then show ?thesis
    using assms(2,3) spec [OF assms(1) [unfolded write_law_def], of k]
    by (cases r) (simp_all add: wp_def)
qed

lemma wp_Put:
  assumes "chaindb_laws C"
    and "\<And>k'. content C k' = (content C k)(p := (content C k p)(key \<mapsto> v)) \<Longrightarrow> Q (Ok ()) k'"
    and "\<And>e k'. content C k' = content C k \<Longrightarrow> Q (Err e) k'"
  shows "wp (cd_Put C p key v) Q k"
  using assms by (intro wp_write [of C _ p "\<lambda>t. t(key \<mapsto> v)"]) (simp_all add: chaindb_laws_def)

lemma wp_Del:
  assumes "chaindb_laws C"
    and "\<And>k'. content C k' = (content C k)(p := (content C k p)(key := None)) \<Longrightarrow> Q (Ok ()) k'"
    and "\<And>e k'. content C k' = content C k \<Longrightarrow> Q (Err e) k'"
  shows "wp (cd_Del C p key) Q k"
  using assms by (intro wp_write [of C _ p "\<lambda>t. t(key := None)"]) (simp_all add: chaindb_laws_def)

lemma wp_Flush:
  assumes "chaindb_laws C"
    and "\<And>k'. content C k' = content C k \<Longrightarrow> Q (Ok ()) k'"
    and "\<And>e k'. content C k' = content C k \<Longrightarrow> Q (Err e) k'"
  shows "wp (cd_Flush C p) Q k"
proof (rule wp_write)
  show "write_law C (cd_Flush C p) p (\<lambda>t. t)" using assms(1) by (simp add: chaindb_laws_def)
qed (use assms in simp_all)

lemma Get_result:
  assumes "chaindb_laws C"
  shows "fst (cd_Get C p key k) =
    (case content C k p key of Some v \<Rightarrow> Ok v | None \<Rightarrow> Err ErrKeyNotFound)"
proof -
  have "(\<exists>v. fst (cd_Get C p key k) = Ok v) \<or> fst (cd_Get C p key k) = Err ErrKeyNotFound"
    using assms by (simp add: chaindb_laws_def Get_law_def)
  then show ?thesis by (auto simp: content_def)
qed

lemma wp_Get:
  assumes "chaindb_laws C"
    and "\<And>v k'. content C k p key = Some v \<Longrightarrow> content C k' = content C k \<Longrightarrow> Q (Ok v) k'"
    and "\<And>k'. content C k p key = None \<Longrightarrow> content C k' = content C k \<Longrightarrow> Q (Err ErrKeyNotFound) k'"
  shows "wp (cd_Get C p key) Q k"
proof -
  have "content C (snd (cd_Get C p key k)) = content C k"
    using assms(1) by (simp add: chaindb_laws_def Get_law_def)
  then show ?thesis
    using assms(2,3) Get_result [OF assms(1), of p key k]
    by (auto simp: wp_def split: prod.splits option.splits)
qed

lemma wp_Has:
  assumes "chaindb_laws C"
    and "\<And>k'. content C k' = content C k \<Longrightarrow> Q (Ok (content C k p key \<noteq> None)) k'"
  shows "wp (cd_Has C p key) Q k"
proof -
  have "fst (cd_Has C p key k) = Ok (content C k p key \<noteq> None)"
    "content C (snd (cd_Has C p key k)) = content C k"
    using assms(1) by (simp_all add: chaindb_laws_def Has_law_def)
  then show ?thesis using assms(2) by (cases "cd_Has C p key k") (simp add: wp_def)
qed

lemma Iter_entries:
  assumes "chaindb_laws C" "\<And>key v. content C k p key = Some v \<Longrightarrow> length key \<le> idLength"
  shows "distinct (map fst (takeWhile (\<lambda>(key, v). length key \<le> idLength) (cd_Iter C p k)))"
    and "map_of (takeWhile (\<lambda>(key, v). length key \<le> idLength) (cd_Iter C p k)) = content C k p"
proof -
  have "\<forall>key v. content C k p key = Some v \<longrightarrow> length key \<le> idLength"
    using assms(2) by blast
  moreover have "Iter_law C" using assms(1) by (simp add: chaindb_laws_def)
  ultimately show
    "distinct (map fst (takeWhile (\<lambda>(key, v). length key \<le> idLength) (cd_Iter C p k)))"
    "map_of (takeWhile (\<lambda>(key, v). length key \<le> idLength) (cd_Iter C p k)) = content C k p"
    unfolding Iter_law_def by blast+
qed

section \<open>A store in memory\<close>

text \<open>
  A store that satisfies the laws, used to evaluate the code on concrete inputs: the entries of all
  tables in one association list, with a flag that makes every write fail.
\<close>

record memstore =
  entries :: "((string \<times> bytes) \<times> bytes) list"
  readonly :: bool

definition mem_write :: "(((string \<times> bytes) \<times> bytes) list \<Rightarrow> ((string \<times> bytes) \<times> bytes) list) \<Rightarrow>
    (memstore, unit) go" where
  "mem_write f = (\<lambda>k. if readonly k then (Err (Errorf ''read only''), k)
     else (Ok (), k\<lparr>entries := f (entries k)\<rparr>))"

fun mem_table :: "string \<Rightarrow> ((string \<times> bytes) \<times> bytes) list \<Rightarrow> (bytes \<times> bytes) list" where
  "mem_table p [] = []"
| "mem_table p (((q, key), v) # es) = (if q = p then (key, v) # mem_table p es else mem_table p es)"

definition memdb :: "memstore chaindb" where
  "memdb = \<lparr>
     cd_Put = (\<lambda>p key v. mem_write (AList.update (p, key) v)),
     cd_Get = (\<lambda>p key k. (case map_of (entries k) (p, key) of
                 Some v \<Rightarrow> Ok v | None \<Rightarrow> Err ErrKeyNotFound, k)),
     cd_Has = (\<lambda>p key k. (Ok (map_of (entries k) (p, key) \<noteq> None), k)),
     cd_Del = (\<lambda>p key. mem_write (AList.delete (p, key))),
     cd_Flush = (\<lambda>p. ret ()),
     cd_Close = (\<lambda>p. ret ()),
     cd_Iter = (\<lambda>p k. mem_table p (AList.clearjunk (entries k)))\<rparr>"

lemma content_memdb: "content memdb k p key = map_of (entries k) (p, key)"
  by (simp add: content_def memdb_def split: option.split)

lemma map_of_mem_table: "map_of (mem_table p es) key = map_of es (p, key)"
  by (induction p es rule: mem_table.induct) auto

lemma set_mem_table: "(key, v) \<in> set (mem_table p es) \<longleftrightarrow> ((p, key), v) \<in> set es"
  by (induction p es rule: mem_table.induct) auto

lemma distinct_mem_table: "distinct (map fst es) \<Longrightarrow> distinct (map fst (mem_table p es))"
  by (induction p es rule: mem_table.induct) (force simp: set_mem_table image_iff)+

lemma memdb_Iter: "Iter_law memdb"
  unfolding Iter_law_def
proof (intro allI impI)
  fix p k assume short: "\<forall>key v. content memdb k p key = Some v \<longrightarrow> length key \<le> idLength"
  let ?es = "AList.clearjunk (entries k)"
  have it: "cd_Iter memdb p k = mem_table p ?es" by (simp add: memdb_def)
  have "length key \<le> idLength" if "(key, v) \<in> set (mem_table p ?es)" for key v
  proof -
    have "((p, key), v) \<in> set ?es" using that by (simp add: set_mem_table)
    then have "map_of (entries k) (p, key) = Some v"
      by (metis map_of_clearjunk map_of_eq_Some_iff distinct_clearjunk)
    then show ?thesis using short by (simp add: content_memdb)
  qed
  then have all: "takeWhile (\<lambda>(key, v). length key \<le> idLength) (mem_table p ?es) = mem_table p ?es"
    by (auto simp: takeWhile_eq_all_conv)
  have "map_of (mem_table p ?es) = content memdb k p"
    by (rule ext) (simp add: map_of_mem_table content_memdb map_of_clearjunk)
  moreover have "distinct (map fst (mem_table p ?es))"
    by (rule distinct_mem_table) (rule distinct_clearjunk)
  ultimately show "distinct (map fst (takeWhile (\<lambda>(key, v). length key \<le> idLength) (cd_Iter memdb p k))) \<and>
     map_of (takeWhile (\<lambda>(key, v). length key \<le> idLength) (cd_Iter memdb p k)) = content memdb k p"
    unfolding it all by simp
qed

lemma memdb_writes:
  "write_law memdb (cd_Put memdb p key v) p (\<lambda>t. t(key \<mapsto> v))"
  "write_law memdb (cd_Del memdb p key) p (\<lambda>t. t(key := None))"
  "write_law memdb (cd_Flush memdb p) p (\<lambda>t. t)"
proof -
  have ops: "cd_Put memdb p key v = mem_write (AList.update (p, key) v)"
    "cd_Del memdb p key = mem_write (AList.delete (p, key))" "cd_Flush memdb p = ret ()"
    by (simp_all add: memdb_def)
  show "write_law memdb (cd_Put memdb p key v) p (\<lambda>t. t(key \<mapsto> v))"
    "write_law memdb (cd_Del memdb p key) p (\<lambda>t. t(key := None))"
    "write_law memdb (cd_Flush memdb p) p (\<lambda>t. t)"
    unfolding ops
    by (simp_all add: write_law_def mem_write_def ret_def fun_eq_iff content_memdb
        update_conv' delete_conv')
qed

lemma memdb_laws: "chaindb_laws memdb"
proof -
  have "Get_law memdb" "Has_law memdb"
    by (auto simp: Get_law_def Has_law_def memdb_def content_def split: option.splits)
  then show ?thesis by (simp add: chaindb_laws_def memdb_Iter memdb_writes)
qed

text \<open>A codec for finitely many values, which encodes a value as its position.\<close>

primrec position :: "'v \<Rightarrow> 'v list \<Rightarrow> nat option" where
  "position v [] = None"
| "position v (x # xs) = (if x = v then Some 0 else map_option Suc (position v xs))"

definition enum_codec :: "'v list \<Rightarrow> 'v codec" where
  "enum_codec vs = \<lparr>validate_Struct = (\<lambda>v. None),
     json_Marshal = (\<lambda>v. case position v vs of None \<Rightarrow> Inl (Errorf ''unknown value'') | Some n \<Rightarrow> Inr [of_nat n]),
     json_Unmarshal = (\<lambda>b. case b of [x] \<Rightarrow> if unat x < length vs then Inr (vs ! unat x) else Inl (Errorf ''bad code'')
       | _ \<Rightarrow> Inl (Errorf ''bad code''))\<rparr>"

lemma position_nth: "position v vs = Some n \<Longrightarrow> n < length vs \<and> vs ! n = v"
  by (induction vs arbitrary: n) (auto split: if_splits)

lemma enum_codec_law: "length vs \<le> 256 \<Longrightarrow> codec_law (enum_codec vs)"
proof -
  assume l: "length vs \<le> 256"
  have "unat (of_nat n :: byte) = n" if "n < length vs" for n
    using that l by (simp add: unat_of_nat)
  then show ?thesis using position_nth [of _ vs]
    by (fastforce simp: codec_law_def enum_codec_def split: option.splits)
qed

text \<open>The values of a table whose entries decode, for tables keyed by the identifiers of their values.\<close>

definition decoded_with :: "(bytes \<Rightarrow> 'v option) \<Rightarrow> (bytes \<times> bytes) list \<Rightarrow> 'v list" where
  "decoded_with dec es = concat (map (\<lambda>(key, v). case dec v of None \<Rightarrow> [] | Some i \<Rightarrow> [i]) es)"

lemma decoded_with_simps [simp]:
  "decoded_with dec [] = []"
  "decoded_with dec ((key, v) # es) =
     (case dec v of None \<Rightarrow> decoded_with dec es | Some i \<Rightarrow> i # decoded_with dec es)"
  by (simp_all add: decoded_with_def split: option.split)

lemma set_decoded_with: "i \<in> set (decoded_with dec es) \<longleftrightarrow> (\<exists>key v. (key, v) \<in> set es \<and> dec v = Some i)"
proof -
  have "i \<in> set (case d of None \<Rightarrow> [] | Some j \<Rightarrow> [j]) \<longleftrightarrow> d = Some i" for d
    by (cases d) auto
  then show ?thesis by (auto simp: decoded_with_def)
qed

lemma decoded_with_table:
  assumes "distinct (map fst es)" "map_of es = t"
    and keyed: "\<And>key v i. t key = Some v \<Longrightarrow> dec v = Some i \<Longrightarrow> key = hash_bytes (idf i)"
  shows "distinct (map idf (decoded_with dec es))"
    and "i \<in> set (decoded_with dec es) \<longleftrightarrow> (\<exists>v. t (hash_bytes (idf i)) = Some v \<and> dec v = Some i)"
proof -
  have mem: "(key, v) \<in> set es \<longleftrightarrow> t key = Some v" for key v
    using assms(1,2) by (metis map_of_eq_Some_iff)
  show "i \<in> set (decoded_with dec es) \<longleftrightarrow> (\<exists>v. t (hash_bytes (idf i)) = Some v \<and> dec v = Some i)"
    using keyed by (auto simp: set_decoded_with mem)
  have "distinct (map idf (decoded_with dec xs))" if "set xs \<subseteq> set es" "distinct (map fst xs)" for xs
    using that
  proof (induction xs)
    case (Cons x xs)
    obtain key v where x: "x = (key, v)" by (cases x)
    show ?case
    proof (cases "dec v")
      case (Some i)
      have "idf i \<notin> idf ` set (decoded_with dec xs)"
      proof
        assume "idf i \<in> idf ` set (decoded_with dec xs)"
        then obtain j key' v' where j: "idf j = idf i" "(key', v') \<in> set xs" "dec v' = Some j"
          by (auto simp: set_decoded_with)
        then have "key' = hash_bytes (idf j)" "key = hash_bytes (idf i)"
          using keyed [of key' v' j] keyed [of key v i] Cons.prems(1) x Some mem by auto
        with j(1,2) Cons.prems(2) x show False by force
      qed
      with Cons Some show ?thesis by (simp add: x)
    qed (use Cons x in simp)
  qed simp
  then show "distinct (map idf (decoded_with dec es))" using assms(1) by blast
qed

end
