(* ===== verification/Offer_Types.thy ===== *)
theory Offer_Types
  imports Coins Store
begin

text \<open>
  The shared types of \<open>common/types\<close>: Ethereum assets, hashes, offers and trading pairs. The hash
  function, the address formatting of go-ethereum and the version comparison of the semver package
  are code outside the repository: they are the fields of the record \<^term>\<open>L\<close>. Pointer fields that
  may be nil are options.
\<close>

record lib =
  sha3_Sum256 :: "bytes \<Rightarrow> hash"
  Address_Hex :: "address \<Rightarrow> string"
  IsHexAddress :: "string \<Rightarrow> bool"
  HexToAddress :: "string \<Rightarrow> address"
  GreaterThan :: "string \<Rightarrow> string \<Rightarrow> bool"

section \<open>Assets and hashes\<close>

type_synonym EthAsset = address

definition EthAssetETH :: EthAsset where
  "EthAssetETH = 0"

definition EthAsset_IsETH :: "EthAsset \<Rightarrow> bool" where
  "EthAsset_IsETH asset = (asset = EthAssetETH)"

definition EthAsset_IsToken :: "EthAsset \<Rightarrow> bool" where
  "EthAsset_IsToken asset = (asset \<noteq> EthAssetETH)"

definition EthAsset_String :: "lib \<Rightarrow> EthAsset \<Rightarrow> string" where
  "EthAsset_String L asset =
     (if EthAsset_IsETH asset then ''ETH'' else ''ERC20@'' @ Address_Hex L asset)"

definition EthAsset_MarshalText :: "lib \<Rightarrow> EthAsset \<Rightarrow> string" where
  "EthAsset_MarshalText L asset =
     (if EthAsset_IsETH asset then ''ETH'' else Address_Hex L asset)"

text \<open>\<open>strings.TrimPrefix\<close>.\<close>

definition TrimPrefix :: "string \<Rightarrow> string \<Rightarrow> string" where
  "TrimPrefix s prefix = (if is_prefix prefix s then drop (length prefix) s else s)"

definition EthAsset_UnmarshalText :: "lib \<Rightarrow> string \<Rightarrow> EthAsset result" where
  "EthAsset_UnmarshalText L input =
     (if input = ''ETH'' then Inr EthAssetETH
      else
        let inputStr = TrimPrefix input ''ERC20@'' in
        if IsHexAddress L inputStr then Inr (HexToAddress L inputStr)
        else Inl (Errorf (''invalid asset value '' @ inputStr)))"

definition EmptyHash :: hash where
  "EmptyHash = 0"

definition IsHashZero :: "hash \<Rightarrow> bool" where
  "IsHashZero h = (h = EmptyHash)"

section \<open>Offers\<close>

record Offer =
  OfferVersion :: string
  ID :: hash
  Provides :: ProvidesCoin
  MinAmount :: "decimal option"
  MaxAmount :: "decimal option"
  ExchangeRate :: "ExchangeRate option"
  EthAsset :: EthAsset
  OfferNonce :: uint64

record OfferExtra =
  UseRelayer :: bool

definition NewOfferExtra :: "bool \<Rightarrow> OfferExtra" where
  "NewOfferExtra forceUseRelayer = \<lparr>UseRelayer = forceUseRelayer\<rparr>"

definition CurOfferVersion :: string where
  "CurOfferVersion = ''1.0.0''"

definition maxOfferValue :: decimal where
  "maxOfferValue = new_decimal\<lparr>Coeff := 1, Exponent := 3\<rparr>"

definition errOfferVersionMissing :: goerr where
  "errOfferVersionMissing =
     Sentinel ''errOfferVersionMissing'' ''required version field missing in offer''"

definition errOfferIDNotSet :: goerr where
  "errOfferIDNotSet = Sentinel ''errOfferIDNotSet'' ''offerID is not set''"

definition errExchangeRateNil :: goerr where
  "errExchangeRateNil = Sentinel ''errExchangeRateNil'' ''exchangeRate is not set''"

definition errMinGreaterThanMax :: goerr where
  "errMinGreaterThanMax =
     Sentinel ''errMinGreaterThanMax'' ''minAmount must be less than or equal to maxAmount''"

text \<open>Dereferencing a nil pointer panics.\<close>

definition deref :: "'a option \<Rightarrow> 'a outcome" where
  "deref p = (case p of None \<Rightarrow> Panic ''nil pointer dereference'' | Some x \<Rightarrow> Ok x)"

lemma deref_simps [simp]: "deref None = Panic ''nil pointer dereference''" "deref (Some x) = Ok x"
  by (simp_all add: deref_def)

definition Offer_hash :: "lib \<Rightarrow> apd \<Rightarrow> Offer \<Rightarrow> hash outcome" where
  "Offer_hash L A off =
     obind (deref (MinAmount off)) (\<lambda>minA.
     obind (deref (MaxAmount off)) (\<lambda>maxA.
     obind (deref (ExchangeRate off)) (\<lambda>rate.
     Ok (sha3_Sum256 L (string_bytes (
        OfferVersion off @ Provides off @ '','' @ apd_Text A minA @ '','' @ apd_Text A maxA @ '','' @
        apd_Text A rate @ '','' @ EthAsset_String L (EthAsset off) @ '','' @
        show_nat (unat (OfferNonce off))))))))"

definition Offer_setID :: "lib \<Rightarrow> apd \<Rightarrow> Offer \<Rightarrow> Offer outcome" where
  "Offer_setID L A off =
     (if \<not> IsHashZero (ID off) then Panic ''offer ID is already set''
      else obind (Offer_hash L A off) (\<lambda>h. Ok (off\<lparr>ID := h\<rparr>)))"

text \<open>\<open>NewOffer\<close>; the random nonce is an argument.\<close>

definition NewOffer :: "lib \<Rightarrow> apd \<Rightarrow> uint64 \<Rightarrow> ProvidesCoin \<Rightarrow> decimal \<Rightarrow> decimal \<Rightarrow>
    ExchangeRate \<Rightarrow> EthAsset \<Rightarrow> Offer outcome" where
  "NewOffer L A n coin minAmount maxAmount exRate ethAsset =
     Offer_setID L A \<lparr>OfferVersion = CurOfferVersion, ID = 0, Provides = coin,
        MinAmount = Some (apd_Reduce A minAmount), MaxAmount = Some (apd_Reduce A maxAmount),
        ExchangeRate = Some (apd_Reduce A exRate), EthAsset = ethAsset, OfferNonce = n\<rparr>"

definition Offer_IsSet :: "Offer \<Rightarrow> bool" where
  "Offer_IsSet off \<longleftrightarrow> \<not> IsHashZero (ID off) \<and> Provides off \<noteq> [] \<and> MinAmount off \<noteq> None \<and>
     MaxAmount off \<noteq> None \<and> ExchangeRate off \<noteq> None"

text \<open>
  \<open>validate\<close> returns the offer with its amounts reduced in place, as the calls of
  \<open>ValidatePositive\<close> leave them; on an error the caller discards the offer.
\<close>

definition Offer_validate :: "lib \<Rightarrow> apd \<Rightarrow> Offer \<Rightarrow> Offer outcome" where
  "Offer_validate L A off =
     (if IsHashZero (ID off) then Err errOfferIDNotSet
      else case ValidatePositive A ''minAmount'' NumMoneroDecimals (MinAmount off) of
        (Some e, _) \<Rightarrow> Err e
      | (None, minAmount) \<Rightarrow> (case ValidatePositive A ''maxAmount'' NumMoneroDecimals (MaxAmount off) of
        (Some e, _) \<Rightarrow> Err e
      | (None, maxAmount) \<Rightarrow>
        let off' = off\<lparr>MinAmount := minAmount, MaxAmount := maxAmount\<rparr> in
        if apd_Cmp A (the minAmount) (the maxAmount) > 0 then Err errMinGreaterThanMax
        else (case ExchangeRate off of
          None \<Rightarrow> Err errExchangeRateNil
        | Some rate \<Rightarrow>
          obind (of_result (ToETH A rate (the minAmount))) (\<lambda>minAmtAsETH.
          obind (RelayerFeeETH A) (\<lambda>fee.
          if apd_Cmp A minAmtAsETH fee \<le> 0
          then Err (Errorf ''min amount must be greater than %s ETH when converted'')
          else if apd_Cmp A (the maxAmount) maxOfferValue > 0
          then Err (Errorf ''%s XMR exceeds max offer amount of %s XMR'')
          else obind (Offer_hash L A off') (\<lambda>h.
            if ID off \<noteq> h then Err (Errorf ''hash of offer fields does not match offer ID'')
            else Ok off'))))))"

text \<open>
  The codec of the plain struct (\<open>_Offer\<close>, the type without the custom JSON methods) is \<open>J\<close>;
  \<open>json_Version\<close> decodes only the version field. \<open>MarshalJSON\<close> returns the validated offer next to
  the bytes. The \<open>json\<close> package reports an error of a custom method by wrapping it.
\<close>

definition Offer_MarshalJSON :: "lib \<Rightarrow> apd \<Rightarrow> Offer codec \<Rightarrow> Offer \<Rightarrow> (Offer \<times> bytes) outcome" where
  "Offer_MarshalJSON L A J off =
     obind (Offer_validate L A off) (\<lambda>off'.
     obind (of_result (MarshalStruct J off')) (\<lambda>b. Ok (off', b)))"

definition Offer_UnmarshalJSON :: "lib \<Rightarrow> apd \<Rightarrow> Offer codec \<Rightarrow> bytes \<Rightarrow> Offer outcome" where
  "Offer_UnmarshalJSON L A J data =
     obind (of_result (UnmarshalStruct J data)) (Offer_validate L A)"

text \<open>\<open>vjson.MarshalStruct(offer)\<close> and \<open>vjson.UnmarshalStruct(data, o)\<close> through those methods.\<close>

definition vjson_MarshalOffer :: "lib \<Rightarrow> apd \<Rightarrow> Offer codec \<Rightarrow> Offer \<Rightarrow> (Offer \<times> bytes) outcome" where
  "vjson_MarshalOffer L A J off =
     (case validate_Struct J off of
        Some e \<Rightarrow> Err e
      | None \<Rightarrow> (case Offer_MarshalJSON L A J off of
            Err e \<Rightarrow> Err (Wrapf ''json: error calling MarshalJSON for type *types.Offer: '' e [])
          | r \<Rightarrow> r))"

definition vjson_UnmarshalOffer :: "lib \<Rightarrow> apd \<Rightarrow> Offer codec \<Rightarrow> bytes \<Rightarrow> Offer outcome" where
  "vjson_UnmarshalOffer L A J data =
     obind (Offer_UnmarshalJSON L A J data) (\<lambda>off.
     case validate_Struct J off of Some e \<Rightarrow> Err e | None \<Rightarrow> Ok off)"

definition UnmarshalOffer ::
    "lib \<Rightarrow> apd \<Rightarrow> (bytes \<Rightarrow> string option result) \<Rightarrow> Offer codec \<Rightarrow> bytes \<Rightarrow> Offer outcome" where
  "UnmarshalOffer L A json_Version J jsonData =
     (case json_Version jsonData of
        Inl e \<Rightarrow> Err e
      | Inr None \<Rightarrow> Err errOfferVersionMissing
      | Inr (Some v) \<Rightarrow>
          if GreaterThan L v CurOfferVersion
          then Err (Errorf ''offer version %q not supported, latest is %q'')
          else vjson_UnmarshalOffer L A J jsonData)"

section \<open>Trading pairs\<close>

record Pair =
  ReportedLiquidityXMR :: decimal
  PairEthAsset :: EthAsset
  PairToken :: ERC20TokenInfo
  Offers :: uint64
  Verified :: bool

definition NewPair :: "EthAsset \<Rightarrow> Pair" where
  "NewPair a = \<lparr>ReportedLiquidityXMR = new_decimal, PairEthAsset = a,
      PairToken = \<lparr>Address = 0, TokenNumDecimals = 0, Name = [], Symbol = []\<rparr>, Offers = 0, Verified = False\<rparr>"

definition Pair_AddOffer :: "apd \<Rightarrow> Pair \<Rightarrow> Offer \<Rightarrow> Pair outcome" where
  "Pair_AddOffer A pair off =
     obind (deref (MaxAmount off)) (\<lambda>maxAmount.
     obind (of_result (apd_Add A MaxCoinPrecision (ReportedLiquidityXMR pair) maxAmount)) (\<lambda>sum.
     Ok (pair\<lparr>ReportedLiquidityXMR := sum, Offers := Offers pair + 1\<rparr>)))"

section \<open>Properties of offers\<close>

text \<open>What a validated offer satisfies, read off the checks of \<open>validate\<close>.\<close>

lemma Offer_validate_Ok:
  assumes "Offer_validate L A off = Ok off'"
  obtains minA maxA rate eth fee where
    "ID off \<noteq> 0" "ID off' = ID off" "EthAsset off' = EthAsset off"
    "MinAmount off' = Some minA" "MaxAmount off' = Some maxA" "ExchangeRate off' = Some rate"
    "apd_Cmp A minA maxA \<le> 0" "ToETH A rate minA = Inr eth" "RelayerFeeETH A = Ok fee"
    "apd_Cmp A eth fee > 0" "apd_Cmp A maxA maxOfferValue \<le> 0" "Offer_hash L A off' = Ok (ID off')"
proof -
  from assms obtain minA maxA where
      id: "\<not> IsHashZero (ID off)"
      and mi: "ValidatePositive A ''minAmount'' NumMoneroDecimals (MinAmount off) = (None, minA)"
      and ma: "ValidatePositive A ''maxAmount'' NumMoneroDecimals (MaxAmount off) = (None, maxA)"
    by (auto simp: Offer_validate_def split: if_splits prod.splits option.splits)
  from mi ma obtain a b where ab: "minA = Some a" "maxA = Some b"
    by (auto simp: ValidatePositive_def Let_def split: option.splits if_splits)
  from assms id mi ma ab obtain rate where rate: "ExchangeRate off = Some rate"
    by (auto simp: Offer_validate_def Let_def split: if_splits option.splits)
  let ?off = "off\<lparr>MinAmount := Some a, MaxAmount := Some b\<rparr>"
  obtain eth fee h where
      calls: "ToETH A rate a = Inr eth" "RelayerFeeETH A = Ok fee" "Offer_hash L A ?off = Ok h"
    using assms id mi ma ab rate
    by (cases "ToETH A rate a"; cases "RelayerFeeETH A"; cases "Offer_hash L A ?off")
      (simp_all add: Offer_validate_def Let_def split: if_splits)
  have "apd_Cmp A a b \<le> 0" "apd_Cmp A eth fee > 0" "apd_Cmp A b maxOfferValue \<le> 0" "h = ID off"
    and off': "off' = ?off"
    using assms id mi ma ab rate calls
    by (simp_all add: Offer_validate_def Let_def split: if_splits)
  then show thesis
    using id rate calls
    by (intro that [of a b rate eth fee]) (simp_all add: IsHashZero_def EmptyHash_def)
qed

text \<open>
  Reducing a positive decimal leaves it positive, and reducing it again changes nothing; this holds
  for exponents of any size.
\<close>

definition reduce_law :: "apd \<Rightarrow> bool" where
  "reduce_law A \<longleftrightarrow> (\<forall>d. Form d = Finite \<and> \<not> apd_IsZero A d \<and> \<not> Negative d \<longrightarrow>
     Form (apd_Reduce A d) = Finite \<and> \<not> apd_IsZero A (apd_Reduce A d) \<and> \<not> Negative (apd_Reduce A d) \<and>
     apd_Reduce A (apd_Reduce A d) = apd_Reduce A d)"

lemma ref_reduce_law: "reduce_law ref_apd"
  unfolding reduce_law_def
proof (intro allI impI, goal_cases)
  case (1 d)
  then have d: "Form d = Finite" "0 < Coeff d" "\<not> Negative d" by (auto simp: ref_apd_def)
  obtain c n where cn: "strip_zeros (Coeff d) = (c, n)" by fastforce
  have c: "c mod 10 \<noteq> 0" "0 < c" using strip_zeros [OF d(2) cn] by auto
  then have "strip_zeros c = (c, 0)" by (simp add: strip_zeros.simps [of c])
  with c d cn show ?case by (simp add: ref_apd_def ref_Reduce_def)
qed

lemma ValidatePositive_Ok:
  assumes "reduce_law A" "ValidatePositive A f m v = (None, v')"
  shows "\<exists>d. v = Some d \<and> v' = Some (apd_Reduce A d) \<and> ValidatePositive A f' m v' = (None, v')"
proof (cases v)
  case (Some d)
  with assms(2) have d: "\<not> apd_IsZero A d" "\<not> Negative d" "Form d = Finite" "v' = Some (apd_Reduce A d)"
      "\<not> int MaxCoinPrecision < apd_NumDigits A (apd_Reduce A d)"
      "\<not> sint (Exponent (apd_Reduce A d)) < sint (- (ucast m :: int32))"
    by (auto simp: ValidatePositive_def Let_def split: if_splits)
  moreover have "Form (apd_Reduce A d) = Finite" "\<not> apd_IsZero A (apd_Reduce A d)" "\<not> Negative (apd_Reduce A d)"
      "apd_Reduce A (apd_Reduce A d) = apd_Reduce A d"
    using assms(1) d by (simp_all add: reduce_law_def)
  ultimately show ?thesis by (simp add: ValidatePositive_def Some Let_def)
qed (use assms in \<open>simp add: ValidatePositive_def\<close>)

text \<open>An offer that validates, validates again to itself.\<close>

lemma Offer_validate_idem:
  assumes A: "reduce_law A" and v: "Offer_validate L A off = Ok off'"
  shows "Offer_validate L A off' = Ok off'" "ID off' = ID off" "OfferVersion off' = OfferVersion off"
proof -
  from v obtain minA maxA where
      id: "\<not> IsHashZero (ID off)"
      and mi: "ValidatePositive A ''minAmount'' NumMoneroDecimals (MinAmount off) = (None, minA)"
      and ma: "ValidatePositive A ''maxAmount'' NumMoneroDecimals (MaxAmount off) = (None, maxA)"
    by (auto simp: Offer_validate_def split: if_splits prod.splits option.splits)
  have off': "off' = off\<lparr>MinAmount := minA, MaxAmount := maxA\<rparr>"
    using v id mi ma
    by (auto simp: Offer_validate_def Let_def obind_eq_Ok split: if_splits option.splits)
  have idem: "ValidatePositive A ''minAmount'' NumMoneroDecimals minA = (None, minA)"
      "ValidatePositive A ''maxAmount'' NumMoneroDecimals maxA = (None, maxA)"
    using ValidatePositive_Ok [OF A mi] ValidatePositive_Ok [OF A ma] by auto
  have fields: "MinAmount off' = minA" "MaxAmount off' = maxA" "ID off' = ID off" "ExchangeRate off' = ExchangeRate off"
      "off'\<lparr>MinAmount := minA, MaxAmount := maxA\<rparr> = off'"
    by (simp_all add: off')
  have "Offer_validate L A off' = Offer_validate L A off"
    unfolding Offer_validate_def [of L A off'] fields idem
    unfolding Offer_validate_def [of L A off] mi ma off' by (simp add: Let_def)
  with v off' show "Offer_validate L A off' = Ok off'" "ID off' = ID off" "OfferVersion off' = OfferVersion off"
    by simp_all
qed

definition offer_codec_law :: "(bytes \<Rightarrow> string option result) \<Rightarrow> Offer codec \<Rightarrow> bool" where
  "offer_codec_law json_Version J \<longleftrightarrow> codec_law J \<and>
     (\<forall>off b. json_Marshal J off = Inr b \<longrightarrow> json_Version b = Inr (Some (OfferVersion off)))"

definition storable_offer :: "lib \<Rightarrow> Offer \<Rightarrow> bool" where
  "storable_offer L off \<longleftrightarrow> \<not> GreaterThan L (OfferVersion off) CurOfferVersion"

lemma UnmarshalOffer_MarshalOffer:
  assumes "offer_codec_law jv J" "reduce_law A" "storable_offer L off" "vjson_MarshalOffer L A J off = Ok (off', b)"
  shows "UnmarshalOffer L A jv J b = Ok off' \<and> ID off' = ID off"
proof -
  have m: "Offer_MarshalJSON L A J off = Ok (off', b)"
    using assms(4) by (auto simp: vjson_MarshalOffer_def split: option.splits outcome.splits)
  then obtain v: "Offer_validate L A off = Ok off'" and s: "MarshalStruct J off' = Inr b"
    by (cases "Offer_validate L A off"; cases "MarshalStruct J (case Offer_validate L A off of Ok x \<Rightarrow> x)")
      (auto simp: Offer_MarshalJSON_def)
  note idem = Offer_validate_idem [OF assms(2) v]
  have "validate_Struct J off' = None" "json_Marshal J off' = Inr b" "UnmarshalStruct J b = Inr off'"
    using s UnmarshalStruct_MarshalStruct [OF _ s] assms(1)
    by (auto simp: MarshalStruct_def offer_codec_law_def split: option.splits)
  with idem assms(1,3) show ?thesis
    by (simp add: UnmarshalOffer_def vjson_UnmarshalOffer_def Offer_UnmarshalJSON_def offer_codec_law_def storable_offer_def)
qed

end
