(* ===== verification/Swap_Info.thy ===== *)
theory Swap_Info
  imports Swap_Status Offer_Types
begin

text \<open>
  The record of a swap (\<open>protocol/swap/types.go\<close>) and its JSON decoding. Times are nanoseconds
  since the epoch; each call of \<open>time.Now()\<close> is an argument. The codec \<^term>\<open>J\<close> is that of the plain
  struct, and \<open>json_Version\<close> decodes only the version field. Locking of the struct is not modelled:
  each function is one critical section.
\<close>

type_synonym go_time = int

record Info =
  Info_Version :: "string option"
  PeerID :: string
  OfferID :: hash
  Info_Provides :: ProvidesCoin
  ProvidedAmount :: decimal
  ExpectedAmount :: decimal
  RelayerFee :: "decimal option"
  Info_ExchangeRate :: ExchangeRate
  Info_EthAsset :: EthAsset
  Info_Status :: Status
  LastStatusUpdateTime :: go_time
  MoneroStartHeight :: uint64
  StartTime :: go_time
  EndTime :: "go_time option"
  Info_Timeout1 :: "go_time option"
  Info_Timeout2 :: "go_time option"

definition CurInfoVersion :: string where
  "CurInfoVersion = ''0.3.0''"

definition errInfoVersionMissing :: goerr where
  "errInfoVersionMissing =
     Sentinel ''errInfoVersionMissing'' ''required 'version' field missing in swap Info''"

definition NewInfo :: "go_time \<Rightarrow> go_time \<Rightarrow> string \<Rightarrow> hash \<Rightarrow> ProvidesCoin \<Rightarrow> decimal \<Rightarrow> decimal \<Rightarrow>
    ExchangeRate \<Rightarrow> EthAsset \<Rightarrow> Status \<Rightarrow> uint64 \<Rightarrow> Info" where
  "NewInfo now now' peerID offerID provides providedAmount expectedAmount exchangeRate ethAsset
     status moneroStartHeight =
     \<lparr>Info_Version = Some CurInfoVersion, PeerID = peerID, OfferID = offerID,
      Info_Provides = provides, ProvidedAmount = providedAmount, ExpectedAmount = expectedAmount,
      RelayerFee = None, Info_ExchangeRate = exchangeRate, Info_EthAsset = ethAsset,
      Info_Status = status, LastStatusUpdateTime = now, MoneroStartHeight = moneroStartHeight,
      StartTime = now', EndTime = None, Info_Timeout1 = None, Info_Timeout2 = None\<rparr>"

definition SetStatus :: "go_time \<Rightarrow> Status \<Rightarrow> Info \<Rightarrow> Info" where
  "SetStatus now s i = i\<lparr>Info_Status := s, LastStatusUpdateTime := now\<rparr>"

definition SetTimeouts :: "go_time \<Rightarrow> go_time \<Rightarrow> Info \<Rightarrow> Info" where
  "SetTimeouts t1 t2 i = i\<lparr>Info_Timeout1 := Some t1, Info_Timeout2 := Some t2\<rparr>"

definition MarkSwapComplete :: "go_time \<Rightarrow> Info \<Rightarrow> Info" where
  "MarkSwapComplete now i = i\<lparr>EndTime := Some now\<rparr>"

definition SetRelayerFee :: "decimal \<Rightarrow> Info \<Rightarrow> Info" where
  "SetRelayerFee f i = i\<lparr>RelayerFee := Some f\<rparr>"

definition IsTaker :: "Info \<Rightarrow> bool" where
  "IsTaker i \<longleftrightarrow> Info_Provides i = ProvidesETH"

definition Info_UnmarshalJSON ::
    "lib \<Rightarrow> (bytes \<Rightarrow> string option result) \<Rightarrow> Info codec \<Rightarrow> bytes \<Rightarrow> Info result" where
  "Info_UnmarshalJSON L json_Version J jsonData =
     (case json_Version jsonData of
        Inl e \<Rightarrow> Inl e
      | Inr None \<Rightarrow> Inl errInfoVersionMissing
      | Inr (Some v) \<Rightarrow>
          if GreaterThan L v CurInfoVersion
          then Inl (Errorf ''info version %q not supported, latest is %q'')
          else UnmarshalStruct J jsonData)"

definition UnmarshalInfo ::
    "lib \<Rightarrow> (bytes \<Rightarrow> string option result) \<Rightarrow> Info codec \<Rightarrow> bytes \<Rightarrow> Info result" where
  "UnmarshalInfo L json_Version J jsonData = Info_UnmarshalJSON L json_Version J jsonData"

definition DeepCopy ::
    "lib \<Rightarrow> (bytes \<Rightarrow> string option result) \<Rightarrow> Info codec \<Rightarrow> Info \<Rightarrow> Info result" where
  "DeepCopy L json_Version J i =
     (case json_Marshal J i of
        Inl e \<Rightarrow> Inl e
      | Inr jsonData \<Rightarrow> Info_UnmarshalJSON L json_Version J jsonData)"

text \<open>
  What is relied on of the JSON and version packages: the encoding carries the version, and decodes
  to what was encoded. An info is \<open>storable\<close> if its version is one this code still reads.
\<close>

definition info_codec_law :: "(bytes \<Rightarrow> string option result) \<Rightarrow> Info codec \<Rightarrow> bool" where
  "info_codec_law json_Version J \<longleftrightarrow> codec_law J \<and>
     (\<forall>i b. json_Marshal J i = Inr b \<longrightarrow> json_Version b = Inr (Info_Version i))"

definition storable :: "lib \<Rightarrow> Info \<Rightarrow> bool" where
  "storable L i \<longleftrightarrow> (\<exists>v. Info_Version i = Some v \<and> \<not> GreaterThan L v CurInfoVersion)"

lemma SetStatus_simps [simp]:
  "Info_Status (SetStatus now s i) = s" "OfferID (SetStatus now s i) = OfferID i"
  "Info_Version (SetStatus now s i) = Info_Version i" "EndTime (SetStatus now s i) = EndTime i"
  "LastStatusUpdateTime (SetStatus now s i) = now"
  "Info_Provides (SetStatus now s i) = Info_Provides i"
  "Info_EthAsset (SetStatus now s i) = Info_EthAsset i"
  "ExpectedAmount (SetStatus now s i) = ExpectedAmount i"
  "ProvidedAmount (SetStatus now s i) = ProvidedAmount i"
  "Info_Timeout1 (SetStatus now s i) = Info_Timeout1 i"
  "Info_Timeout2 (SetStatus now s i) = Info_Timeout2 i"
  "MoneroStartHeight (SetStatus now s i) = MoneroStartHeight i"
  "PeerID (SetStatus now s i) = PeerID i"
  by (simp_all add: SetStatus_def)

lemma storable_SetStatus [simp]: "storable L (SetStatus now s i) = storable L i"
  by (simp add: storable_def)

lemma storable_EndTime [simp]: "storable L (i\<lparr>EndTime := t\<rparr>) = storable L i"
  by (simp add: storable_def)

lemma UnmarshalInfo_MarshalStruct:
  assumes "info_codec_law jv J" "storable L i" "MarshalStruct J i = Inr b"
  shows "UnmarshalInfo L jv J b = Inr i"
proof -
  have "json_Marshal J i = Inr b"
    using assms(3) by (auto simp: MarshalStruct_def split: option.splits)
  with assms show ?thesis
    by (auto simp: UnmarshalInfo_def Info_UnmarshalJSON_def info_codec_law_def storable_def
        UnmarshalStruct_MarshalStruct)
qed

lemma DeepCopy_same:
  assumes "info_codec_law jv J" "storable L i" "validate_Struct J i = None" "json_Marshal J i = Inr b"
  shows "DeepCopy L jv J i = Inr i"
  using UnmarshalInfo_MarshalStruct [OF assms(1,2), of b] assms(3,4)
  by (simp add: DeepCopy_def UnmarshalInfo_def MarshalStruct_def)

end
