(* ===== verification/Swap_Manager.thy ===== *)
theory Swap_Manager
  imports Swap_Info
begin

text \<open>
  The swap manager (\<open>protocol/swap/swap_manager.go\<close>) and the status channels
  (\<open>status_manager.go\<close>). The maps \<open>ongoing\<close> and \<open>past\<close> hold pointers to \<^typ>\<open>Info\<close> structs that the
  running swaps mutate, so the model has an explicit heap: an entry of a map is an address. The
  database the manager uses is an interface, a record of operations over an abstract state; what the
  manager relies on is the locale \<open>swap_database\<close>, which the daemon's database interprets.
\<close>

section \<open>The interfaces\<close>

record 'd swapdb =
  sdb_PutSwap :: "Info \<Rightarrow> ('d, unit) go"
  sdb_HasSwap :: "hash \<Rightarrow> ('d, bool) go"
  sdb_GetSwap :: "hash \<Rightarrow> ('d, Info) go"
  sdb_GetAllSwaps :: "('d, Info list) go"

definition errNoSwapWithOfferID :: goerr where
  "errNoSwapWithOfferID =
     Sentinel ''errNoSwapWithOfferID'' ''unable to find swap with given offer ID''"

type_synonym ptr = nat

record 'd manager =
  mgr_db :: 'd
  heap :: "ptr \<Rightarrow> Info"
  next_ptr :: ptr
  ongoing :: "hash \<Rightarrow> ptr option"
  past :: "hash \<Rightarrow> ptr option"
  statusChannels :: "hash \<Rightarrow> nat option"
  chan_buf :: "nat \<Rightarrow> Status list"
  next_chan :: nat

section \<open>The manager\<close>

text \<open>A call of the database from the manager.\<close>

definition call_db :: "('d, 'a) go \<Rightarrow> ('d manager, 'a) go" where
  "call_db f = (\<lambda>m. case f (mgr_db m) of (r, d) \<Rightarrow> (r, m\<lparr>mgr_db := d\<rparr>))"

text \<open>A freshly decoded struct is a new object.\<close>

definition alloc :: "Info \<Rightarrow> ('d manager, ptr) go" where
  "alloc i = (\<lambda>m. (Ok (next_ptr m),
     m\<lparr>heap := (heap m)(next_ptr m := i), next_ptr := Suc (next_ptr m)\<rparr>))"

text \<open>The loop of \<open>NewManager\<close> over the stored swaps.\<close>

primrec load_ongoing :: "Info list \<Rightarrow> ('d manager, unit) go" where
  "load_ongoing [] = ret ()"
| "load_ongoing (s # rest) =
     bnd (lift (IsOngoing (Info_Status s))) (\<lambda>og.
     if \<not> og then load_ongoing rest
     else bnd (alloc s) (\<lambda>p.
       andthen (modify (\<lambda>m. m\<lparr>ongoing := (ongoing m)(OfferID s \<mapsto> p)\<rparr>)) (load_ongoing rest)))"

definition empty_manager :: "'d \<Rightarrow> 'd manager" where
  "empty_manager d = \<lparr>mgr_db = d, heap = (\<lambda>_. undefined), next_ptr = 0, ongoing = Map.empty,
     past = Map.empty, statusChannels = Map.empty, chan_buf = (\<lambda>_. []), next_chan = 0\<rparr>"

definition NewManager :: "'d swapdb \<Rightarrow> 'd \<Rightarrow> unit outcome \<times> 'd manager" where
  "NewManager D d =
     bnd (call_db (sdb_GetAllSwaps D)) load_ongoing (empty_manager d)"

definition AddSwap :: "'d swapdb \<Rightarrow> ptr \<Rightarrow> ('d manager, unit) go" where
  "AddSwap D p =
     bnd (gets (\<lambda>m. heap m p)) (\<lambda>info.
     bnd (lift (IsOngoing (Info_Status info))) (\<lambda>og.
     andthen (modify (\<lambda>m. if og then m\<lparr>ongoing := (ongoing m)(OfferID info \<mapsto> p)\<rparr>
                      else m\<lparr>past := (past m)(OfferID info \<mapsto> p)\<rparr>))
       (call_db (sdb_PutSwap D info))))"

definition WriteSwapToDB :: "'d swapdb \<Rightarrow> ptr \<Rightarrow> ('d manager, unit) go" where
  "WriteSwapToDB D p = bnd (gets (\<lambda>m. heap m p)) (\<lambda>info. call_db (sdb_PutSwap D info))"

text \<open>
  \<open>GetPastIDs\<close>: the keys of \<open>past\<close> and the identifiers of the stored swaps that are not ongoing. Go
  returns them in the random order of a map iteration, so the result is a set.
\<close>

primrec completed_ids :: "Info list \<Rightarrow> ('d manager, hash set) go" where
  "completed_ids [] = ret {}"
| "completed_ids (s # rest) =
     bnd (lift (IsOngoing (Info_Status s))) (\<lambda>og.
     bnd (completed_ids rest) (\<lambda>ids. ret (if og then ids else insert (OfferID s) ids)))"

definition GetPastIDs :: "'d swapdb \<Rightarrow> ('d manager, hash set) go" where
  "GetPastIDs D =
     bnd (gets (\<lambda>m. dom (past m))) (\<lambda>ids.
     bnd (call_db (sdb_GetAllSwaps D)) (\<lambda>stored.
     bnd (completed_ids stored) (\<lambda>ids'. ret (ids \<union> ids'))))"

text \<open>
  \<open>getSwapFromDB\<close>. The source calls \<open>errors.Is(chaindb.ErrKeyNotFound, err)\<close>, with the sentinel as
  the error and the database's error as the target.
\<close>

definition getSwapFromDB :: "'d swapdb \<Rightarrow> hash \<Rightarrow> ('d manager, ptr) go" where
  "getSwapFromDB D i =
     bnd (attempt (call_db (sdb_GetSwap D i))) (\<lambda>r.
     let err = (case r of Inl e \<Rightarrow> Some e | Inr _ \<Rightarrow> None) in
     if errors_Is (Some ErrKeyNotFound) err then fail errNoSwapWithOfferID
     else case r of Inl e \<Rightarrow> fail e | Inr s \<Rightarrow> alloc s)"

definition GetPastSwap :: "'d swapdb \<Rightarrow> hash \<Rightarrow> ('d manager, ptr) go" where
  "GetPastSwap D i =
     bnd (gets (\<lambda>m. past m i)) (\<lambda>has.
     case has of
       Some p \<Rightarrow> ret p
     | None \<Rightarrow>
         bnd (getSwapFromDB D i) (\<lambda>p.
         bnd (gets (\<lambda>m. OfferID (heap m p))) (\<lambda>oid.
         andthen (modify (\<lambda>m. m\<lparr>past := (past m)(oid \<mapsto> p)\<rparr>)) (ret p))))"

definition GetOngoingSwap :: "hash \<Rightarrow> ('d manager, ptr) go" where
  "GetOngoingSwap offerID =
     bnd (gets (\<lambda>m. ongoing m offerID)) (\<lambda>has.
     case has of None \<Rightarrow> fail errNoSwapWithOfferID | Some p \<Rightarrow> ret p)"

definition GetOngoingSwapSnapshot :: "(Info \<Rightarrow> Info result) \<Rightarrow> hash \<Rightarrow> ('d manager, Info) go" where
  "GetOngoingSwapSnapshot copy offerID =
     bnd (GetOngoingSwap offerID) (\<lambda>p.
     bnd (gets (\<lambda>m. heap m p)) (\<lambda>info. lift (of_result (copy info))))"

text \<open>
  The two listings iterate over the map \<open>ongoing\<close>, in an order that Go leaves open: the argument
  \<open>order\<close> is the sequence of keys the iteration visits.
\<close>

primrec GetOngoingSwapOfferIDs :: "hash list \<Rightarrow> ('d manager, hash list) go" where
  "GetOngoingSwapOfferIDs [] = ret []"
| "GetOngoingSwapOfferIDs (k # order) =
     bnd (GetOngoingSwap k) (\<lambda>p.
     bnd (gets (\<lambda>m. OfferID (heap m p))) (\<lambda>oid.
     bnd (GetOngoingSwapOfferIDs order) (\<lambda>ids. ret (oid # ids))))"

primrec GetOngoingSwapsSnapshot ::
    "(Info \<Rightarrow> Info result) \<Rightarrow> hash list \<Rightarrow> ('d manager, Info list) go" where
  "GetOngoingSwapsSnapshot copy [] = ret []"
| "GetOngoingSwapsSnapshot copy (k # order) =
     bnd (GetOngoingSwapSnapshot copy k) (\<lambda>sc.
     bnd (GetOngoingSwapsSnapshot copy order) (\<lambda>swaps. ret (sc # swaps)))"

text \<open>\<open>CompleteOngoingSwap\<close>; \<open>now\<close> is the wall time the call reads.\<close>

definition CompleteOngoingSwap :: "'d swapdb \<Rightarrow> go_time \<Rightarrow> ptr \<Rightarrow> ('d manager, unit) go" where
  "CompleteOngoingSwap D now p =
     bnd (gets (\<lambda>m. (ongoing m (OfferID (heap m p)), heap m p))) (\<lambda>(has, info).
     if has = None then fail errNoSwapWithOfferID
     else
       andthen (modify (\<lambda>m. m\<lparr>heap := (heap m)(p := info\<lparr>EndTime := Some now\<rparr>),
                  past := (past m)(OfferID info \<mapsto> p),
                  ongoing := (ongoing m)(OfferID info := None)\<rparr>))
         (call_db (sdb_PutSwap D (info\<lparr>EndTime := Some now\<rparr>))))"

definition HasOngoingSwap :: "hash \<Rightarrow> ('d manager, bool) go" where
  "HasOngoingSwap i = gets (\<lambda>m. ongoing m i \<noteq> None)"

section \<open>Status channels\<close>

definition statusChSize :: nat where
  "statusChSize = 6"

definition getStatusChan :: "hash \<Rightarrow> ('d manager, nat) go" where
  "getStatusChan offerID = (\<lambda>m. case statusChannels m offerID of
       Some ch \<Rightarrow> (Ok ch, m)
     | None \<Rightarrow> (Ok (next_chan m), m\<lparr>statusChannels := (statusChannels m)(offerID \<mapsto> next_chan m),
         chan_buf := (chan_buf m)(next_chan m := []), next_chan := Suc (next_chan m)\<rparr>))"

definition DeleteStatusChan :: "hash \<Rightarrow> ('d manager, unit) go" where
  "DeleteStatusChan offerID =
     modify (\<lambda>m. m\<lparr>statusChannels := (statusChannels m)(offerID := None)\<rparr>)"

text \<open>A send on a buffered channel blocks when the buffer is full; a receive takes the oldest.\<close>

definition chan_send :: "nat \<Rightarrow> Status \<Rightarrow> ('d manager, unit) go" where
  "chan_send ch s = (\<lambda>m. if length (chan_buf m ch) < statusChSize
     then (Ok (), m\<lparr>chan_buf := (chan_buf m)(ch := chan_buf m ch @ [s])\<rparr>) else (Block, m))"

definition chan_recv :: "nat \<Rightarrow> ('d manager, Status) go" where
  "chan_recv ch = (\<lambda>m. case chan_buf m ch of
       [] \<Rightarrow> (Block, m)
     | s # rest \<Rightarrow> (Ok s, m\<lparr>chan_buf := (chan_buf m)(ch := rest)\<rparr>))"

definition PushNewStatus :: "hash \<Rightarrow> Status \<Rightarrow> ('d manager, unit) go" where
  "PushNewStatus offerID status =
     bnd (getStatusChan offerID) (\<lambda>ch.
     andthen (chan_send ch status)
       (bnd (lift (IsOngoing status)) (\<lambda>og. if \<not> og then DeleteStatusChan offerID else ret ())))"

section \<open>What the manager relies on\<close>

text \<open>
  \<open>stored d\<close> is what the database holds, by swap identifier; \<open>good\<close> are the infos it can store. A
  write that reports an error may or may not have taken effect.
\<close>

locale swap_database =
  fixes D :: "'d swapdb"
    and invar :: "'d \<Rightarrow> bool"
    and stored :: "'d \<Rightarrow> hash \<Rightarrow> Info option"
    and good :: "Info \<Rightarrow> bool"
  assumes stored_id: "invar d \<Longrightarrow> stored d h = Some i \<Longrightarrow> OfferID i = h"
    and put: "invar d \<Longrightarrow> good i \<Longrightarrow> wp (sdb_PutSwap D i) (\<lambda>r d'. invar d' \<and>
      (r = Ok () \<and> stored d' = (stored d)(OfferID i \<mapsto> i) \<or>
       (\<exists>e. r = Err e) \<and> (stored d' = stored d \<or> stored d' = (stored d)(OfferID i \<mapsto> i)))) d"
    and get: "invar d \<Longrightarrow> wp (sdb_GetSwap D h) (\<lambda>r d'. invar d' \<and> stored d' = stored d \<and>
      (case stored d h of Some i \<Rightarrow> r = Ok i | None \<Rightarrow> \<exists>e. r = Err e)) d"
    and get_all: "invar d \<Longrightarrow> wp (sdb_GetAllSwaps D) (\<lambda>r d'. invar d' \<and> stored d' = stored d \<and>
      ((\<exists>is. r = Ok is \<and> distinct (map OfferID is) \<and>
          (\<forall>i. i \<in> set is \<longleftrightarrow> stored d (OfferID i) = Some i)) \<or> (\<exists>e. r = Err e))) d"
    and has: "invar d \<Longrightarrow> wp (sdb_HasSwap D h) (\<lambda>r d'. invar d' \<and> stored d' = stored d \<and>
      (\<exists>b. r = Ok b \<and> (stored d h \<noteq> None \<longrightarrow> b))) d"

text \<open>The swap an entry of \<open>ongoing\<close> or \<open>past\<close> points to.\<close>

definition ongoing_info :: "'d manager \<Rightarrow> hash \<Rightarrow> Info option" where
  "ongoing_info m h = map_option (heap m) (ongoing m h)"

definition past_info :: "'d manager \<Rightarrow> hash \<Rightarrow> Info option" where
  "past_info m h = map_option (heap m) (past m h)"

text \<open>The swaps of a database that have not completed.\<close>

definition ongoing_part :: "(hash \<Rightarrow> Info option) \<Rightarrow> hash \<Rightarrow> Info option" where
  "ongoing_part st h = (case st h of
     Some i \<Rightarrow> if ongoing_status (Info_Status i) then Some i else None | None \<Rightarrow> None)"

text \<open>Every pointer of the two maps is allocated and points to a swap with the key as its identifier.\<close>

definition manager_wf :: "'d manager \<Rightarrow> bool" where
  "manager_wf m \<longleftrightarrow> (\<forall>h p. ongoing m h = Some p \<or> past m h = Some p \<longrightarrow>
     p < next_ptr m \<and> OfferID (heap m p) = h)"

lemma wp_call_db: "wp (call_db f) Q m = wp f (\<lambda>r d. Q r (m\<lparr>mgr_db := d\<rparr>)) (mgr_db m)"
  by (simp add: wp_def call_db_def split: prod.split)

lemma wp_alloc: "wp (alloc i) Q m = Q (Ok (next_ptr m))
    (m\<lparr>heap := (heap m)(next_ptr m := i), next_ptr := Suc (next_ptr m)\<rparr>)"
  by (simp add: wp_def alloc_def)

lemmas mgr_wp = wp_rules wp_call_db wp_alloc

lemma alloc_ongoing_info:
  assumes "manager_wf m"
  shows "ongoing_info (m\<lparr>heap := (heap m)(next_ptr m := s), next_ptr := Suc (next_ptr m),
      ongoing := (ongoing m)(h \<mapsto> next_ptr m)\<rparr>) = (ongoing_info m)(h \<mapsto> s)"
proof
  fix k
  have "ongoing m k = Some p \<Longrightarrow> p \<noteq> next_ptr m" for p
    using assms by (auto simp: manager_wf_def)
  then show "ongoing_info (m\<lparr>heap := (heap m)(next_ptr m := s), next_ptr := Suc (next_ptr m),
      ongoing := (ongoing m)(h \<mapsto> next_ptr m)\<rparr>) k = ((ongoing_info m)(h \<mapsto> s)) k"
    by (cases "ongoing m k") (auto simp: ongoing_info_def)
qed

lemma load_ongoing_Ok:
  assumes "load_ongoing is m = (Ok (), m')" "manager_wf m"
  shows "manager_wf m' \<and> past m' = past m \<and> mgr_db m' = mgr_db m \<and>
    ongoing_info m' = ongoing_info m ++ map_of (rev (map (\<lambda>i. (OfferID i, i))
        (filter (\<lambda>i. ongoing_status (Info_Status i)) is)))"
  using assms
proof (induction "is" arbitrary: m)
  case Nil
  then show ?case by (simp add: ret_def)
next
  case (Cons s rest)
  show ?case
  proof (cases rule: IsOngoing_cases [of "Info_Status s"])
    case completed
    then show ?thesis using Cons by (simp add: bnd_def lift_def)
  next
    case unknown
    then show ?thesis using Cons.prems by (simp add: bnd_def lift_def)
  next
    case ongoing
    let ?m = "m\<lparr>heap := (heap m)(next_ptr m := s), next_ptr := Suc (next_ptr m),
      ongoing := (ongoing m)(OfferID s \<mapsto> next_ptr m)\<rparr>"
    have run: "load_ongoing rest ?m = (Ok (), m')"
      using Cons.prems(1) ongoing by (simp add: bnd_def lift_def alloc_def modify_def)
    have wf: "manager_wf ?m"
      using Cons.prems(2) by (auto simp: manager_wf_def less_Suc_eq)
    let ?X = "map (\<lambda>i. (OfferID i, i)) (filter (\<lambda>i. ongoing_status (Info_Status i)) rest)"
    have "ongoing_info m' = ongoing_info ?m ++ map_of (rev ?X)"
      using Cons.IH [OF run wf] by blast
    also have "\<dots> = (ongoing_info m)(OfferID s \<mapsto> s) ++ map_of (rev ?X)"
      by (simp only: alloc_ongoing_info [OF Cons.prems(2)])
    also have "\<dots> = ongoing_info m ++ map_of (rev ?X @ [(OfferID s, s)])"
      by (rule ext) (simp add: map_add_def split: option.split)
    finally have "ongoing_info m' = ongoing_info m ++ map_of (rev (map (\<lambda>i. (OfferID i, i))
        (filter (\<lambda>i. ongoing_status (Info_Status i)) (s # rest))))"
      using ongoing by simp
    moreover have "manager_wf m'" "past m' = past m" "mgr_db m' = mgr_db m"
      using Cons.IH [OF run wf] by simp_all
    ultimately show ?thesis by blast
  qed
qed

lemma map_of_ongoing_part:
  assumes "distinct (map OfferID is)" "\<And>i. i \<in> set is \<longleftrightarrow> st (OfferID i) = Some i"
    and "\<And>h i. st h = Some i \<Longrightarrow> OfferID i = h"
  shows "map_of (rev (map (\<lambda>i. (OfferID i, i)) (filter (\<lambda>i. ongoing_status (Info_Status i)) is))) =
    ongoing_part st"
proof
  fix h
  let ?xs = "rev (map (\<lambda>i. (OfferID i, i)) (filter (\<lambda>i. ongoing_status (Info_Status i)) is))"
  have "distinct (map fst ?xs)"
    using assms(1) by (simp add: rev_map [symmetric] comp_def distinct_map_filter)
  then have "map_of ?xs h = Some i \<longleftrightarrow> (h, i) \<in> set ?xs" for i
    by (simp add: map_of_eq_Some_iff)
  moreover have "(h, i) \<in> set ?xs \<longleftrightarrow> ongoing_part st h = Some i" for i
  proof -
    have "(h, i) \<in> set ?xs \<longleftrightarrow> OfferID i = h \<and> st h = Some i \<and> ongoing_status (Info_Status i)"
      using assms(2) [of i] by auto
    also have "\<dots> \<longleftrightarrow> st h = Some i \<and> ongoing_status (Info_Status i)"
      using assms(3) [of h i] by blast
    also have "\<dots> \<longleftrightarrow> ongoing_part st h = Some i"
      by (cases "st h") (auto simp: ongoing_part_def)
    finally show ?thesis .
  qed
  ultimately show "map_of ?xs h = ongoing_part st h"
    by (cases "ongoing_part st h"; cases "map_of ?xs h") auto
qed

context swap_database
begin

text \<open>A restart restores exactly the swaps of the database that have not completed.\<close>

lemma NewManager_restores:
  assumes "invar d" "NewManager D d = (Ok (), m)"
  shows "manager_wf m \<and> past m = Map.empty \<and> ongoing_info m = ongoing_part (stored d) \<and>
    invar (mgr_db m) \<and> stored (mgr_db m) = stored d"
proof -
  have wf0: "manager_wf (empty_manager d')" "ongoing_info (empty_manager d') = Map.empty"
      "past (empty_manager d') = Map.empty" for d' :: 'd
    by (auto simp: manager_wf_def empty_manager_def ongoing_info_def)
  obtain r d' where r: "sdb_GetAllSwaps D d = (r, d')" by fastforce
  with wp_run [OF get_all [OF assms(1)]] have inv: "invar d'" "stored d' = stored d" and
      cases: "(\<exists>is. r = Ok is \<and> distinct (map OfferID is) \<and>
          (\<forall>i. i \<in> set is \<longleftrightarrow> stored d (OfferID i) = Some i)) \<or> (\<exists>e. r = Err e)"
    by blast+
  have em: "(empty_manager d)\<lparr>mgr_db := d'\<rparr> = empty_manager d'" "mgr_db (empty_manager d) = d"
      "mgr_db (empty_manager d') = d'"
    by (simp_all add: empty_manager_def)
  have run: "NewManager D d = (case r of Ok is \<Rightarrow> load_ongoing is (empty_manager d')
      | Err e \<Rightarrow> (Err e, empty_manager d') | Panic p \<Rightarrow> (Panic p, empty_manager d')
      | Block \<Rightarrow> (Block, empty_manager d'))"
    by (simp add: NewManager_def bnd_def call_db_def em r split: outcome.split)
  with assms(2) cases obtain "is" where
      "distinct (map OfferID is)" "\<And>i. i \<in> set is \<longleftrightarrow> stored d (OfferID i) = Some i"
      and load: "load_ongoing is (empty_manager d') = (Ok (), m)" by auto
  with map_of_ongoing_part [of "is" "stored d"] stored_id [OF assms(1)]
    load_ongoing_Ok [OF load wf0(1)]
  show ?thesis by (simp add: wf0 em inv)
qed

text \<open>What \<open>AddSwap\<close> and \<open>CompleteOngoingSwap\<close> do when they succeed.\<close>

lemma AddSwap_Ok:
  assumes "invar (mgr_db m)" "good (heap m p)" "AddSwap D p m = (Ok (), m')"
  shows "invar (mgr_db m') \<and> stored (mgr_db m') = (stored (mgr_db m))(OfferID (heap m p) \<mapsto> heap m p) \<and>
    heap m' = heap m \<and>
    (ongoing_status (Info_Status (heap m p)) \<and> ongoing m' = (ongoing m)(OfferID (heap m p) \<mapsto> p) \<and>
       past m' = past m \<or>
     completed_status (Info_Status (heap m p)) \<and> past m' = (past m)(OfferID (heap m p) \<mapsto> p) \<and>
       ongoing m' = ongoing m)"
proof -
  let ?i = "heap m p"
  obtain r d' where r: "sdb_PutSwap D ?i (mgr_db m) = (r, d')" by fastforce
  have og: "IsOngoing (Info_Status ?i) = Ok True \<or> IsOngoing (Info_Status ?i) = Ok False" and "r = Ok ()"
    using assms(3) r
    by (cases rule: IsOngoing_cases [of "Info_Status ?i"];
        cases r; simp add: AddSwap_def bnd_def gets_def lift_def modify_def call_db_def)+
  moreover have "invar d'" "stored d' = (stored (mgr_db m))(OfferID ?i \<mapsto> ?i)"
    using wp_run [OF put [OF assms(1,2)] r] \<open>r = Ok ()\<close> by auto
  ultimately show ?thesis
    using assms(3) r by (auto simp: AddSwap_def bnd_def gets_def lift_def modify_def call_db_def)
qed

lemma CompleteOngoingSwap_Ok:
  assumes "invar (mgr_db m)" "good ((heap m p)\<lparr>EndTime := Some now\<rparr>)"
    and "CompleteOngoingSwap D now p m = (Ok (), m')"
  defines "i \<equiv> (heap m p)\<lparr>EndTime := Some now\<rparr>"
  shows "ongoing m (OfferID i) \<noteq> None \<and> invar (mgr_db m') \<and>
    stored (mgr_db m') = (stored (mgr_db m))(OfferID i \<mapsto> i) \<and> heap m' = (heap m)(p := i) \<and>
    ongoing m' = (ongoing m)(OfferID i := None) \<and> past m' = (past m)(OfferID i \<mapsto> p)"
proof -
  obtain r d' where r: "sdb_PutSwap D i (mgr_db m) = (r, d')" by fastforce
  have "r = Ok ()" and has: "ongoing m (OfferID (heap m p)) \<noteq> None"
    using assms(3) r unfolding i_def
    by (cases r; auto simp: CompleteOngoingSwap_def bnd_def gets_def modify_def call_db_def fail_def
        split: if_splits)+
  moreover have "invar d'" "stored d' = (stored (mgr_db m))(OfferID i \<mapsto> i)"
    using wp_run [OF put [OF assms(1,2), folded i_def] r] \<open>r = Ok ()\<close> by auto
  ultimately show ?thesis
    using assms(3) r unfolding i_def
    by (auto simp: CompleteOngoingSwap_def bnd_def gets_def modify_def call_db_def split: if_splits)
qed

lemma restart_after_AddSwap:
  assumes "invar (mgr_db m)" "good (heap m p)" "AddSwap D p m = (Ok (), m')"
    and "ongoing_status (Info_Status (heap m p))" "NewManager D (mgr_db m') = (Ok (), m'')"
  shows "ongoing_info m'' (OfferID (heap m p)) = Some (heap m p)"
proof -
  have "invar (mgr_db m')" "stored (mgr_db m') (OfferID (heap m p)) = Some (heap m p)"
    using AddSwap_Ok [OF assms(1-3)] by auto
  with NewManager_restores [OF _ assms(5)] assms(4) show ?thesis by (simp add: ongoing_part_def)
qed

lemma restart_after_CompleteOngoingSwap:
  assumes "invar (mgr_db m)" "good ((heap m p)\<lparr>EndTime := Some now\<rparr>)"
    and "CompleteOngoingSwap D now p m = (Ok (), m')"
    and "completed_status (Info_Status (heap m p))" "NewManager D (mgr_db m') = (Ok (), m'')"
  shows "ongoing m'' (OfferID (heap m p)) = None"
proof -
  let ?i = "(heap m p)\<lparr>EndTime := Some now\<rparr>"
  have "invar (mgr_db m')" "stored (mgr_db m') (OfferID ?i) = Some ?i"
    using CompleteOngoingSwap_Ok [OF assms(1-3)] by auto
  with NewManager_restores [OF _ assms(5)] assms(4)
  have "ongoing_info m'' (OfferID ?i) = None" by (simp add: ongoing_part_def)
  then show ?thesis by (simp add: ongoing_info_def)
qed

text \<open>A swap of the database that is not in \<open>past\<close> is returned and cached as past, whatever its status.\<close>

lemma GetPastSwap_stored:
  assumes "invar (mgr_db m)" "past m h = None" "stored (mgr_db m) h = Some i"
  shows "\<exists>m'. GetPastSwap D h m = (Ok (next_ptr m), m') \<and> heap m' (next_ptr m) = i \<and>
    past m' = (past m)(h \<mapsto> next_ptr m) \<and> ongoing m' = ongoing m"
proof -
  obtain r d' where r: "sdb_GetSwap D h (mgr_db m) = (r, d')" by fastforce
  have "r = Ok i" using wp_run [OF get [OF assms(1)] r] assms(3) by simp
  moreover have "OfferID i = h" using stored_id assms(1,3) by blast
  ultimately show ?thesis
    using r assms(2)
    by (simp add: GetPastSwap_def getSwapFromDB_def bnd_def gets_def attempt_def call_db_def alloc_def
        modify_def ret_def errors_Is_def)
qed

end

section \<open>Invariants of the manager\<close>

text \<open>
  Well-formed pointers, and status channels: an identifier's channel is allocated and its own, and
  no buffer exceeds the channel's capacity.
\<close>

definition manager_inv :: "'d manager \<Rightarrow> bool" where
  "manager_inv m \<longleftrightarrow> manager_wf m \<and>
     (\<forall>h ch. statusChannels m h = Some ch \<longrightarrow> ch < next_chan m) \<and>
     (\<forall>h h' ch. statusChannels m h = Some ch \<longrightarrow> statusChannels m h' = Some ch \<longrightarrow> h = h') \<and>
     (\<forall>ch. length (chan_buf m ch) \<le> statusChSize)"

text \<open>
  The states a manager goes through: the calls of its methods in any order, with any outcome, between
  which swap processes create and update their infos and subscribers read the status channels.
\<close>

inductive mgr_reachable :: "'d swapdb \<Rightarrow> 'd manager \<Rightarrow> bool" for D where
  mgr_start: "NewManager D d = (Ok (), m) \<Longrightarrow> mgr_reachable D m"
| mgr_NewInfo: "mgr_reachable D m \<Longrightarrow> alloc i m = (r, m') \<Longrightarrow> mgr_reachable D m'"
| mgr_mutate: "mgr_reachable D m \<Longrightarrow> OfferID i = OfferID (heap m p) \<Longrightarrow>
    mgr_reachable D (m\<lparr>heap := (heap m)(p := i)\<rparr>)"
| mgr_AddSwap: "mgr_reachable D m \<Longrightarrow> p < next_ptr m \<Longrightarrow> AddSwap D p m = (r, m') \<Longrightarrow> mgr_reachable D m'"
| mgr_Write: "mgr_reachable D m \<Longrightarrow> WriteSwapToDB D p m = (r, m') \<Longrightarrow> mgr_reachable D m'"
| mgr_Complete: "mgr_reachable D m \<Longrightarrow> p < next_ptr m \<Longrightarrow>
    CompleteOngoingSwap D now p m = (r, m') \<Longrightarrow> mgr_reachable D m'"
| mgr_GetPastSwap: "mgr_reachable D m \<Longrightarrow> GetPastSwap D h m = (rp, m') \<Longrightarrow> mgr_reachable D m'"
| mgr_GetPastIDs: "mgr_reachable D m \<Longrightarrow> GetPastIDs D m = (rs, m') \<Longrightarrow> mgr_reachable D m'"
| mgr_GetStatusChan: "mgr_reachable D m \<Longrightarrow> getStatusChan h m = (rc, m') \<Longrightarrow> mgr_reachable D m'"
| mgr_DeleteStatusChan: "mgr_reachable D m \<Longrightarrow> DeleteStatusChan h m = (r, m') \<Longrightarrow> mgr_reachable D m'"
| mgr_PushNewStatus: "mgr_reachable D m \<Longrightarrow> PushNewStatus h st m = (r, m') \<Longrightarrow> mgr_reachable D m'"
| mgr_recv: "mgr_reachable D m \<Longrightarrow> chan_recv ch m = (rst, m') \<Longrightarrow> mgr_reachable D m'"

lemma keeps_call_db [keeps_rules]: "(\<And>m d. I m \<Longrightarrow> I (m\<lparr>mgr_db := d\<rparr>)) \<Longrightarrow> keeps I (call_db f)"
  by (simp add: keeps_def call_db_def split: prod.split)

lemma manager_inv_db [simp]: "manager_inv (m\<lparr>mgr_db := d\<rparr>) = manager_inv m"
  by (simp add: manager_inv_def manager_wf_def)

lemma keeps_alloc: "keeps manager_inv (alloc i)"
  by (rule keepsI) (auto simp: alloc_def manager_inv_def manager_wf_def less_Suc_eq)

lemma AddSwap_inv:
  assumes "manager_inv m" "p < next_ptr m"
  shows "manager_inv (snd (AddSwap D p m))"
  using assms
  by (auto simp: AddSwap_def bnd_def gets_def lift_def modify_def call_db_def manager_inv_def
      manager_wf_def split: prod.splits outcome.splits)

lemma CompleteOngoingSwap_inv:
  assumes "manager_inv m" "p < next_ptr m"
  shows "manager_inv (snd (CompleteOngoingSwap D now p m))"
  using assms
  by (auto simp: CompleteOngoingSwap_def bnd_def gets_def modify_def call_db_def fail_def
      manager_inv_def manager_wf_def split: prod.splits outcome.splits)

lemma GetPastSwap_inv:
  assumes "manager_inv m"
  shows "manager_inv (snd (GetPastSwap D h m))"
  using assms
  by (auto simp: GetPastSwap_def getSwapFromDB_def bnd_def gets_def attempt_def modify_def call_db_def
      fail_def ret_def alloc_def Let_def manager_inv_def manager_wf_def less_Suc_eq
      split: prod.splits outcome.splits option.splits)

lemma keeps_completed_ids [keeps_rules]: "keeps I (completed_ids is)"
  by (induction "is") (auto intro!: keeps_rules)

lemma keeps_getStatusChan: "keeps manager_inv (getStatusChan h)"
  by (rule keepsI)
    (auto simp: getStatusChan_def manager_inv_def manager_wf_def less_Suc_eq split: option.splits)

lemma keeps_DeleteStatusChan: "keeps manager_inv (DeleteStatusChan h)"
  unfolding DeleteStatusChan_def
  by (rule keeps_modify) (auto simp: manager_inv_def manager_wf_def)

lemma keeps_chan_send: "keeps manager_inv (chan_send ch st)"
  by (rule keepsI) (auto simp: chan_send_def manager_inv_def manager_wf_def)

lemma keeps_chan_recv: "keeps manager_inv (chan_recv ch)"
proof (rule keepsI)
  fix m assume inv: "manager_inv m"
  then have "length (chan_buf m ch) \<le> statusChSize" by (simp add: manager_inv_def)
  then show "manager_inv (snd (chan_recv ch m))"
    using inv by (cases "chan_buf m ch") (auto simp: chan_recv_def manager_inv_def manager_wf_def)
qed

lemma keeps_load_ongoing: "keeps manager_inv (load_ongoing is :: ('d manager, unit) go)"
proof (induction "is")
  case (Cons s rest)
  let ?add = "bnd (alloc s) (\<lambda>p. modify (\<lambda>m. m\<lparr>ongoing := (ongoing m)(OfferID s \<mapsto> p)\<rparr>))
    :: ('d manager, unit) go"
  have "keeps manager_inv ?add"
    by (rule keepsI) (auto simp: bnd_def alloc_def modify_def manager_inv_def manager_wf_def less_Suc_eq)
  moreover have "bnd (alloc s) (\<lambda>p. andthen (modify (\<lambda>m. m\<lparr>ongoing := (ongoing m)(OfferID s \<mapsto> p)\<rparr>))
      (load_ongoing rest)) = andthen ?add (load_ongoing rest)"
    by (simp add: fun_eq_iff bnd_def alloc_def modify_def)
  ultimately have "keeps manager_inv (bnd (alloc s) (\<lambda>p. andthen
      (modify (\<lambda>m. m\<lparr>ongoing := (ongoing m)(OfferID s \<mapsto> p)\<rparr>)) (load_ongoing rest))
      :: ('d manager, unit) go)"
    using Cons by (simp add: keeps_bnd)
  with Cons show ?case by (auto intro!: keeps_bnd [OF keeps_lift])
qed (simp add: keeps_rules)

lemma keeps_PushNewStatus: "keeps manager_inv (PushNewStatus h st)"
  unfolding PushNewStatus_def
  by (intro keeps_rules keeps_getStatusChan keeps_chan_send keeps_DeleteStatusChan)

lemma mgr_reachable_inv: "mgr_reachable D m \<Longrightarrow> manager_inv m"
proof (induction rule: mgr_reachable.induct)
  case (mgr_start d m)
  have "manager_inv (empty_manager d)" by (simp add: manager_inv_def manager_wf_def empty_manager_def)
  moreover have "keeps manager_inv (bnd (call_db (sdb_GetAllSwaps D)) load_ongoing)"
    by (intro keeps_rules keeps_load_ongoing) simp
  ultimately have "manager_inv (snd (NewManager D d))"
    unfolding NewManager_def keeps_def by blast
  with mgr_start show ?case by simp
next
  case (mgr_mutate m i p)
  then show ?case by (auto simp: manager_inv_def manager_wf_def)
next
  case (mgr_AddSwap m p r m')
  then show ?case using AddSwap_inv by (metis snd_conv)
next
  case (mgr_Complete m p now r m')
  then show ?case using CompleteOngoingSwap_inv by (metis snd_conv)
next
  case (mgr_GetPastSwap m h rp m')
  then show ?case using GetPastSwap_inv by (metis snd_conv)
next
  case (mgr_Write m p r m')
  moreover have "keeps manager_inv (WriteSwapToDB D p)"
    unfolding WriteSwapToDB_def by (intro keeps_rules) simp
  ultimately show ?case using keepsD by metis
next
  case (mgr_GetPastIDs m rs m')
  moreover have "keeps manager_inv (GetPastIDs D)"
    unfolding GetPastIDs_def by (intro keeps_rules) simp
  ultimately show ?case using keepsD by metis
qed (metis keepsD keeps_alloc keeps_getStatusChan keeps_DeleteStatusChan keeps_PushNewStatus keeps_chan_recv)+

section \<open>Status channels\<close>

primrec push_all :: "hash \<Rightarrow> Status list \<Rightarrow> ('d manager, unit) go" where
  "push_all h [] = ret ()"
| "push_all h (s # ss) = andthen (PushNewStatus h s) (push_all h ss)"

definition pending_statuses :: "'d manager \<Rightarrow> hash \<Rightarrow> Status list" where
  "pending_statuses m h = (case statusChannels m h of None \<Rightarrow> [] | Some ch \<Rightarrow> chan_buf m ch)"

lemma PushNewStatus_ongoing:
  assumes "length (pending_statuses m h) < statusChSize" "ongoing_status s"
  shows "\<exists>m'. PushNewStatus h s m = (Ok (), m') \<and> pending_statuses m' h = pending_statuses m h @ [s]"
  using assms
  by (auto simp: PushNewStatus_def bnd_def getStatusChan_def chan_send_def lift_def ret_def
      pending_statuses_def statusChSize_def split: option.splits)

lemma push_all_ongoing:
  "length (pending_statuses m h) + length ss \<le> statusChSize \<Longrightarrow> \<forall>s\<in>set ss. ongoing_status s \<Longrightarrow>
    \<exists>m'. push_all h ss m = (Ok (), m') \<and> pending_statuses m' h = pending_statuses m h @ ss"
proof (induction ss arbitrary: m)
  case Nil
  then show ?case by (simp add: ret_def)
next
  case (Cons s ss)
  then obtain m' where "PushNewStatus h s m = (Ok (), m')" "pending_statuses m' h = pending_statuses m h @ [s]"
    using PushNewStatus_ongoing [of m h s] by auto
  with Cons show ?case using Cons.IH [of m'] by (auto simp: bnd_def)
qed

lemma PushNewStatus_completed:
  assumes "length (pending_statuses m h) < statusChSize" "completed_status s"
  shows "\<exists>m'. PushNewStatus h s m = (Ok (), m') \<and> statusChannels m' h = None"
  using assms
  by (auto simp: PushNewStatus_def bnd_def getStatusChan_def chan_send_def lift_def DeleteStatusChan_def modify_def
      pending_statuses_def statusChSize_def split: option.splits)

lemma push_all_append: "push_all h (ss @ ts) = andthen (push_all h ss) (push_all h ts)"
proof (induction ss)
  case (Cons s ss)
  show ?case
    by (simp add: Cons fun_eq_iff bnd_def split: prod.split outcome.split)
qed (simp add: fun_eq_iff bnd_def ret_def)

text \<open>
  C36: a swap that goes through at most five ongoing statuses and then completes never blocks on its
  status channel, even when nobody reads it, and its channel is removed at the end. The bound is
  tight: after six unread statuses the next push blocks.
\<close>

theorem status_pushes_return:
  assumes "pending_statuses m h = []" "\<forall>s\<in>set ss. ongoing_status s" "completed_status final"
  shows "(length ss \<le> 5 \<longrightarrow> (\<exists>m'. push_all h (ss @ [final]) m = (Ok (), m') \<and> statusChannels m' h = None)) \<and>
    (length ss = 6 \<longrightarrow> (\<exists>m'. push_all h (ss @ [final]) m = (Block, m')))"
proof (intro conjI impI)
  assume l: "length ss \<le> 5"
  then obtain m1 where m1: "push_all h ss m = (Ok (), m1)" "pending_statuses m1 h = ss"
    using push_all_ongoing [of m h ss] assms by (auto simp: statusChSize_def)
  then obtain m2 where "PushNewStatus h final m1 = (Ok (), m2)" "statusChannels m2 h = None"
    using PushNewStatus_completed [of m1 h final] assms(3) l by (auto simp: statusChSize_def)
  with m1 show "\<exists>m'. push_all h (ss @ [final]) m = (Ok (), m') \<and> statusChannels m' h = None"
    by (simp add: push_all_append bnd_def ret_def)
next
  assume l: "length ss = 6"
  then obtain m1 where m1: "push_all h ss m = (Ok (), m1)" "pending_statuses m1 h = ss"
    using push_all_ongoing [of m h ss] assms by (auto simp: statusChSize_def)
  with l obtain ch where "statusChannels m1 h = Some ch" "chan_buf m1 ch = ss"
    by (auto simp: pending_statuses_def split: option.splits)
  with m1 l show "\<exists>m'. push_all h (ss @ [final]) m = (Block, m')"
    by (simp add: push_all_append bnd_def PushNewStatus_def getStatusChan_def chan_send_def statusChSize_def)
qed

theorem status_pushes_return_witness:
  "(\<exists>m'. push_all 7 [KeysExchanged, ETHLocked, XMRLocked, ContractReady, SweepingXMR, CompletedSuccess]
      (empty_manager ()) = (Ok (), m') \<and> statusChannels m' 7 = None) \<and>
   (\<exists>m'. push_all 7 [ExpectingKeys, KeysExchanged, ETHLocked, XMRLocked, ContractReady, SweepingXMR, CompletedSuccess]
      (empty_manager ()) = (Block, m'))"
  using status_pushes_return [of "empty_manager ()" 7 "[KeysExchanged, ETHLocked, XMRLocked, ContractReady, SweepingXMR]"
      CompletedSuccess]
    status_pushes_return [of "empty_manager ()" 7
      "[ExpectingKeys, KeysExchanged, ETHLocked, XMRLocked, ContractReady, SweepingXMR]" CompletedSuccess]
  by (simp add: pending_statuses_def empty_manager_def)

text \<open>
  C35: in every reachable state of the manager, whatever its callers do and whichever database calls
  fail, the swaps in the ongoing and past maps are stored under their own identifiers, two
  identifiers never share a status channel, and no channel holds more than its capacity.
\<close>

theorem manager_invariant:
  assumes "mgr_reachable D m"
  shows "manager_wf m \<and> inj_on (statusChannels m) (dom (statusChannels m)) \<and>
    (\<forall>ch. length (chan_buf m ch) \<le> statusChSize)"
  using mgr_reachable_inv [OF assms] by (auto simp: manager_inv_def inj_on_def dom_def)

definition no_db :: "unit swapdb" where
  "no_db = \<lparr>sdb_PutSwap = (\<lambda>i. ret ()), sdb_HasSwap = (\<lambda>h. ret False), sdb_GetSwap = (\<lambda>h. fail (Errorf ''none'')),
     sdb_GetAllSwaps = ret []\<rparr>"

theorem manager_invariant_witness:
  "manager_wf (snd (PushNewStatus 7 KeysExchanged (empty_manager ()))) \<and>
   inj_on (statusChannels (snd (PushNewStatus 7 KeysExchanged (empty_manager ())))) {7}"
proof -
  let ?m = "snd (PushNewStatus 7 KeysExchanged (empty_manager ()))"
  have "NewManager no_db () = (Ok (), empty_manager ())"
    by (simp add: NewManager_def no_db_def bnd_def call_db_def ret_def empty_manager_def)
  then have "mgr_reachable no_db (empty_manager ())" by (rule mgr_reachable.mgr_start)
  then have "mgr_reachable no_db ?m" by (rule mgr_reachable.mgr_PushNewStatus) (simp add: prod_eq_iff)
  from manager_invariant [OF this] show ?thesis by simp
qed

end
