(* ===== verification/Offer_Manager.thy ===== *)
theory Offer_Manager
  imports Offer_Types Store
begin

text \<open>
  The maker's offers (\<open>protocol/xmrmaker/offers/offer_manager.go\<close>): the in-memory map of offers that
  can be taken, over the part of the database it uses. What the manager relies on is the locale
  \<open>offer_database\<close>, which the daemon's offer table interprets.

  The map holds pointers that the manager never writes through after an offer is added, so offers
  are kept by value; \<open>PutOffer\<close> returns the offer as marshalling left it, because the manager
  caches the pointer it passed.
\<close>

section \<open>Definitions\<close>

record 'd offerdb =
  odb_PutOffer :: "Offer \<Rightarrow> ('d, Offer) go"
  odb_DeleteOffer :: "hash \<Rightarrow> ('d, unit) go"
  odb_GetAllOffers :: "('d, Offer list) go"
  odb_ClearAllOffers :: "('d, unit) go"

definition errOfferDoesNotExist :: goerr where
  "errOfferDoesNotExist = Sentinel ''errOfferDoesNotExist'' ''offer with given ID does not exist''"

record offerWithExtra =
  om_offer :: Offer
  om_extra :: OfferExtra

record 'd offerManager =
  offers :: "hash \<rightharpoonup> offerWithExtra"
  om_db :: 'd

definition on_db :: "('d, 'a) go \<Rightarrow> ('d offerManager, 'a) go" where
  "on_db f = (\<lambda>m. case f (om_db m) of (r, d) \<Rightarrow> (r, m\<lparr>om_db := d\<rparr>))"

primrec load_offers :: "Offer list \<Rightarrow> (hash \<rightharpoonup> offerWithExtra) \<Rightarrow> (hash \<rightharpoonup> offerWithExtra)" where
  "load_offers [] f = f"
| "load_offers (off # rest) f =
     load_offers rest (f(ID off \<mapsto> \<lparr>om_offer = off, om_extra = NewOfferExtra False\<rparr>))"

definition NewOfferManager :: "'d offerdb \<Rightarrow> 'd \<Rightarrow> unit outcome \<times> 'd offerManager" where
  "NewOfferManager D d =
     bnd (on_db (odb_GetAllOffers D)) (\<lambda>savedOffers.
     modify (\<lambda>m. m\<lparr>offers := load_offers savedOffers Map.empty\<rparr>))
     \<lparr>offers = Map.empty, om_db = d\<rparr>"

definition om_GetOffer :: "hash \<Rightarrow> ('d offerManager, Offer \<times> OfferExtra) go" where
  "om_GetOffer i =
     bnd (gets (\<lambda>m. offers m i)) (\<lambda>r. case r of
       None \<Rightarrow> fail errOfferDoesNotExist
     | Some oe \<Rightarrow> ret (om_offer oe, om_extra oe))"

definition om_AddOffer :: "'d offerdb \<Rightarrow> Offer \<Rightarrow> bool \<Rightarrow> ('d offerManager, OfferExtra) go" where
  "om_AddOffer D off useRelayer =
     bnd (gets (\<lambda>m. offers m (ID off))) (\<lambda>r. case r of
       Some oe \<Rightarrow> ret (om_extra oe)
     | None \<Rightarrow>
         bnd (on_db (odb_PutOffer D off)) (\<lambda>off'.
         let extra = NewOfferExtra useRelayer in
         andthen (modify (\<lambda>m. m\<lparr>offers := (offers m)(ID off \<mapsto> \<lparr>om_offer = off', om_extra = extra\<rparr>)\<rparr>))
           (ret extra)))"

definition om_TakeOffer :: "hash \<Rightarrow> ('d offerManager, Offer \<times> OfferExtra) go" where
  "om_TakeOffer i =
     bnd (gets (\<lambda>m. offers m i)) (\<lambda>r. case r of
       None \<Rightarrow> fail errOfferDoesNotExist
     | Some oe \<Rightarrow> andthen (modify (\<lambda>m. m\<lparr>offers := (offers m)(i := None)\<rparr>)) (ret (om_offer oe, om_extra oe)))"

text \<open>\<open>GetOffers\<close>: the order of the returned slice is unspecified, so the result is a set.\<close>

definition om_GetOffers :: "('d offerManager, Offer set) go" where
  "om_GetOffers = gets (\<lambda>m. om_offer ` ran (offers m))"

definition om_ClearAllOffers :: "'d offerdb \<Rightarrow> ('d offerManager, unit) go" where
  "om_ClearAllOffers D =
     andthen (on_db (odb_ClearAllOffers D)) (modify (\<lambda>m. m\<lparr>offers := Map.empty\<rparr>))"

definition om_DeleteOffer :: "'d offerdb \<Rightarrow> hash \<Rightarrow> ('d offerManager, unit) go" where
  "om_DeleteOffer D i =
     andthen (modify (\<lambda>m. m\<lparr>offers := (offers m)(i := None)\<rparr>))
       (bnd (attempt (on_db (odb_DeleteOffer D i))) (\<lambda>r. case r of
          Inl err \<Rightarrow> if \<not> errors_Is (Some ErrKeyNotFound) (Some err) then fail err else ret ()
        | Inr _ \<Rightarrow> ret ()))"

primrec om_ClearOfferIDs :: "'d offerdb \<Rightarrow> hash list \<Rightarrow> ('d offerManager, unit) go" where
  "om_ClearOfferIDs D [] = ret ()"
| "om_ClearOfferIDs D (i # ids) = andthen (om_DeleteOffer D i) (om_ClearOfferIDs D ids)"

definition om_NumOffers :: "('d offerManager, nat) go" where
  "om_NumOffers = gets (\<lambda>m. card (dom (offers m)))"

section \<open>What the manager relies on\<close>

text \<open>
  \<open>stored d\<close> is what the database holds, by offer identifier; \<open>good\<close> are the offers of a version
  the database reads back. Storing an offer keeps its identifier. A write that fails may have taken
  effect; clearing the table may fail half way.
\<close>

locale offer_database =
  fixes D :: "'d offerdb"
    and invar :: "'d \<Rightarrow> bool"
    and stored :: "'d \<Rightarrow> hash \<Rightarrow> Offer option"
    and good :: "Offer \<Rightarrow> bool"
  assumes stored_id: "invar d \<Longrightarrow> stored d h = Some off \<Longrightarrow> ID off = h"
    and put: "invar d \<Longrightarrow> good off \<Longrightarrow> wp (odb_PutOffer D off) (\<lambda>r d'. invar d' \<and>
      ((\<exists>off'. r = Ok off' \<and> ID off' = ID off \<and> stored d' = (stored d)(ID off \<mapsto> off')) \<or>
       (\<forall>off'. r \<noteq> Ok off') \<and> (\<forall>h. h \<noteq> ID off \<longrightarrow> stored d' h = stored d h))) d"
    and delete: "invar d \<Longrightarrow> wp (odb_DeleteOffer D h) (\<lambda>r d'. invar d' \<and>
      (r = Ok () \<and> stored d' = (stored d)(h := None) \<or> (\<exists>e. r = Err e) \<and> stored d' = stored d)) d"
    and get_all: "invar d \<Longrightarrow> wp (odb_GetAllOffers D) (\<lambda>r d'. invar d' \<and> stored d' = stored d \<and>
      (\<forall>os. r = Ok os \<longrightarrow> distinct (map ID os) \<and> (\<forall>off. off \<in> set os \<longleftrightarrow> stored d (ID off) = Some off))) d"
    and clear: "invar d \<Longrightarrow> wp (odb_ClearAllOffers D) (\<lambda>r d'. invar d' \<and>
      (r = Ok () \<longrightarrow> stored d' = Map.empty) \<and> (\<forall>h off. stored d' h = Some off \<longrightarrow> stored d h = Some off)) d"

text \<open>
  Every offer in memory is kept under its own identifier and is also in the database. The second
  part can be broken only by a \<open>ClearAllOffers\<close> that fails half way, so it is stated for the runs in
  which that does not happen.
\<close>

definition om_backed :: "('d \<Rightarrow> hash \<Rightarrow> Offer option) \<Rightarrow> 'd offerManager \<Rightarrow> bool" where
  "om_backed stored m \<longleftrightarrow>
     (\<forall>h oe. offers m h = Some oe \<longrightarrow> ID (om_offer oe) = h \<and> stored (om_db m) h = Some (om_offer oe))"

definition om_ok :: "('d \<Rightarrow> bool) \<Rightarrow> ('d \<Rightarrow> hash \<Rightarrow> Offer option) \<Rightarrow> 'd offerManager \<Rightarrow> bool" where
  "om_ok invar stored m \<longleftrightarrow> invar (om_db m) \<and> om_backed stored m"

text \<open>The calls of the manager's methods, in any order.\<close>

inductive om_reachable :: "'d offerdb \<Rightarrow> ('d \<Rightarrow> bool) \<Rightarrow> (Offer \<Rightarrow> bool) \<Rightarrow> 'd offerManager \<Rightarrow> bool"
  for D invar good where
  om_start: "invar d \<Longrightarrow> NewOfferManager D d = (Ok (), m) \<Longrightarrow> om_reachable D invar good m"
| om_Add: "om_reachable D invar good m \<Longrightarrow> good off \<Longrightarrow> om_AddOffer D off useRelayer m = (r, m') \<Longrightarrow>
    om_reachable D invar good m'"
| om_Take: "om_reachable D invar good m \<Longrightarrow> om_TakeOffer h m = (ro, m') \<Longrightarrow> om_reachable D invar good m'"
| om_Delete: "om_reachable D invar good m \<Longrightarrow> om_DeleteOffer D h m = (ru, m') \<Longrightarrow> om_reachable D invar good m'"
| om_ClearIDs: "om_reachable D invar good m \<Longrightarrow> om_ClearOfferIDs D ids m = (ru, m') \<Longrightarrow> om_reachable D invar good m'"
| om_ClearAll: "om_reachable D invar good m \<Longrightarrow> om_ClearAllOffers D m = (Ok (), m') \<Longrightarrow> om_reachable D invar good m'"

lemma wp_on_db: "wp (on_db f) Q m = wp f (\<lambda>r d. Q r (m\<lparr>om_db := d\<rparr>)) (om_db m)"
  by (simp add: wp_def on_db_def split: prod.split)

lemma load_offers_out: "h \<notin> ID ` set os \<Longrightarrow> load_offers os f h = f h"
  by (induction os arbitrary: f) auto

lemma load_offers_in:
  "distinct (map ID os) \<Longrightarrow> off \<in> set os \<Longrightarrow>
    load_offers os f (ID off) = Some \<lparr>om_offer = off, om_extra = NewOfferExtra False\<rparr>"
  by (induction os arbitrary: f) (auto simp: load_offers_out)

context offer_database
begin

text \<open>A restart offers exactly what the database holds, with the relayer flag reset.\<close>

lemma NewOfferManager_restores:
  assumes "invar d" "NewOfferManager D d = (Ok (), m)"
  shows "invar (om_db m) \<and> stored (om_db m) = stored d \<and>
    offers m = (\<lambda>h. map_option (\<lambda>off. \<lparr>om_offer = off, om_extra = NewOfferExtra False\<rparr>) (stored d h))"
proof -
  obtain r d' where r: "odb_GetAllOffers D d = (r, d')" by fastforce
  with assms(2) obtain os where os: "r = Ok os" "m = \<lparr>offers = load_offers os Map.empty, om_db = d'\<rparr>"
    by (cases r) (auto simp: NewOfferManager_def bnd_def on_db_def modify_def)
  from wp_run [OF get_all [OF assms(1)] r] os(1) have g: "invar d'" "stored d' = stored d" "distinct (map ID os)"
      "\<And>off. off \<in> set os \<longleftrightarrow> stored d (ID off) = Some off" by auto
  have "load_offers os Map.empty h = map_option (\<lambda>off. \<lparr>om_offer = off, om_extra = NewOfferExtra False\<rparr>) (stored d h)" for h
  proof (cases "stored d h")
    case None
    then have "h \<notin> ID ` set os" using g(4) by auto
    then show ?thesis using None by (simp add: load_offers_out)
  next
    case (Some off)
    then have "ID off = h" using stored_id [OF assms(1)] by blast
    then show ?thesis using load_offers_in [OF g(3), of off] g(4) Some by simp
  qed
  with g os show ?thesis by auto
qed

lemma AddOffer_ok:
  assumes "om_ok invar stored m" "good off" "om_AddOffer D off u m = (r, m')"
  shows "om_ok invar stored m' \<and> (\<forall>x. r = Ok x \<longrightarrow> offers m' (ID off) \<noteq> None)"
proof (cases "offers m (ID off)")
  case (Some oe)
  with assms show ?thesis by (simp add: om_AddOffer_def bnd_def gets_def ret_def)
next
  case None
  obtain q d where q: "odb_PutOffer D off (om_db m) = (q, d)" by fastforce
  have inv: "invar (om_db m)" "om_backed stored m" using assms(1) by (simp_all add: om_ok_def)
  note p = wp_run [OF put [OF inv(1) assms(2)] q]
  show ?thesis
  proof (cases "\<exists>off'. q = Ok off'")
    case True
    then obtain off' where off': "q = Ok off'" "ID off' = ID off" "stored d = (stored (om_db m))(ID off \<mapsto> off')"
      using p by auto
    with None q assms(3) have "m' = m\<lparr>om_db := d, offers := (offers m)(ID off \<mapsto>
        \<lparr>om_offer = off', om_extra = NewOfferExtra u\<rparr>)\<rparr>"
      by (auto simp: om_AddOffer_def bnd_def gets_def ret_def on_db_def modify_def Let_def)
    with p off' inv show ?thesis by (auto simp: om_ok_def om_backed_def)
  next
    case False
    with None q assms(3) have m': "m' = m\<lparr>om_db := d\<rparr>" "\<forall>x. r \<noteq> Ok x"
      by (cases q; auto simp: om_AddOffer_def bnd_def gets_def on_db_def)+
    have "invar d" "\<forall>h. h \<noteq> ID off \<longrightarrow> stored d h = stored (om_db m) h" using p False by auto
    moreover have "h \<noteq> ID off" if "offers m h = Some oe" for h oe using None that by auto
    ultimately show ?thesis using m' inv by (simp add: om_ok_def om_backed_def)
  qed
qed

lemma TakeOffer_ok: "om_ok invar stored m \<Longrightarrow> om_TakeOffer h m = (r, m') \<Longrightarrow> om_ok invar stored m' \<and> om_db m' = om_db m"
  by (auto simp: om_TakeOffer_def bnd_def gets_def fail_def modify_def ret_def om_ok_def om_backed_def
      split: option.splits if_splits)

lemma keeps_DeleteOffer: "keeps (om_ok invar stored) (om_DeleteOffer D h)"
proof (rule keepsI)
  fix m assume ok: "om_ok invar stored m"
  then have inv: "invar (om_db m)" "om_backed stored m" by (simp_all add: om_ok_def)
  obtain q d where q: "odb_DeleteOffer D h (om_db m) = (q, d)" by fastforce
  have "invar d" "stored d = (stored (om_db m))(h := None) \<or> stored d = stored (om_db m)" "q = Ok () \<or> (\<exists>e. q = Err e)"
    using wp_run [OF delete [OF inv(1)] q] by auto
  then show "om_ok invar stored (snd (om_DeleteOffer D h m))" using inv q
    by (auto simp: om_DeleteOffer_def bnd_def modify_def attempt_def on_db_def fail_def ret_def om_ok_def om_backed_def
        split: if_splits)
qed

lemma keeps_ClearOfferIDs: "keeps (om_ok invar stored) (om_ClearOfferIDs D ids)"
  by (induction ids) (auto intro!: keeps_rules keeps_DeleteOffer)

lemma ClearAllOffers_ok:
  assumes "om_ok invar stored m" "om_ClearAllOffers D m = (Ok (), m')"
  shows "om_ok invar stored m'"
proof -
  obtain q d where q: "odb_ClearAllOffers D (om_db m) = (q, d)" by fastforce
  have "invar d" using wp_run [OF clear q] assms(1) by (simp add: om_ok_def)
  moreover from q assms(2) have "m' = m\<lparr>om_db := d, offers := Map.empty\<rparr>"
    by (cases q) (auto simp: om_ClearAllOffers_def bnd_def on_db_def modify_def)
  ultimately show ?thesis by (simp add: om_ok_def om_backed_def)
qed

lemma om_reachable_ok: "om_reachable D invar good m \<Longrightarrow> om_ok invar stored m"
proof (induction rule: om_reachable.induct)
  case (om_start d m)
  then show ?case using NewOfferManager_restores [of d m] stored_id
    by (auto simp: om_ok_def om_backed_def)
next
  case (om_Delete m h ru m')
  then show ?case using keepsD [OF keeps_DeleteOffer] by blast
next
  case (om_ClearIDs m ids ru m')
  then show ?case using keepsD [OF keeps_ClearOfferIDs] by blast
qed (use AddOffer_ok TakeOffer_ok ClearAllOffers_ok in blast)+

lemma taken_offer_restored:
  assumes "om_reachable D invar good m" "om_TakeOffer h m = (Ok (off, extra), m')"
    and "NewOfferManager D (om_db m') = (Ok (), m'')"
  shows "offers m' h = None \<and> offers m'' h = Some \<lparr>om_offer = off, om_extra = NewOfferExtra False\<rparr>"
proof -
  have ok: "om_ok invar stored m" using om_reachable_ok [OF assms(1)] .
  have m': "om_db m' = om_db m" "offers m' h = None"
      "offers m h = Some \<lparr>om_offer = off, om_extra = extra\<rparr>"
    using assms(2) by (auto simp: om_TakeOffer_def bnd_def gets_def fail_def modify_def ret_def split: option.splits)
  then have "stored (om_db m) h = Some off" "invar (om_db m)"
    using ok by (auto simp: om_ok_def om_backed_def)
  then show ?thesis using NewOfferManager_restores [OF _ assms(3)] m' by simp
qed

end

end
