(* ===== verification/Swap_Creator.thy ===== *)
theory Swap_Creator
  imports Go_Prelude
begin

text \<open>
  The contract \<open>ethereum/contracts/SwapCreator.sol\<close> (with \<open>Secp256k1.sol\<close>), one definition per
  Solidity function. A call is evaluated against the contract's storage, the ledger of balances and
  the message (sender, value, block timestamp); it either reverts, and then nothing has happened, or
  gives the new state. Solidity's checked arithmetic reverts on overflow. Keccak-256 and \<open>ecrecover\<close>
  are EVM builtins and the tokens are other contracts: they are the fields of the record \<^term>\<open>E\<close>.
  A token call that succeeds is taken to return without calling back into this contract.
\<close>

section \<open>Data\<close>

datatype Stage = INVALID | PENDING | READY | COMPLETED

record Swap =
  owner :: address
  claimer :: address
  claimCommitment :: hash
  refundCommitment :: hash
  timeout1 :: "256 word"
  timeout2 :: "256 word"
  asset :: address
  amount :: "256 word"
  nonce :: "256 word"

record RelaySwap =
  swap_of :: Swap
  fee :: "256 word"
  relayerHash :: hash
  swapCreator :: address

datatype event =
    New hash hash hash "256 word" "256 word" address "256 word"
  | Ready hash
  | Claimed hash hash
  | Refunded hash hash

datatype revert_reason =
    ZeroValue | InvalidSwapKey | InvalidClaimer | InvalidTimeout | InvalidValue
  | SwapAlreadyExists | SwapNotPending | OnlySwapOwner | OnlySwapClaimer | InvalidSwap
  | SwapCompleted | TooEarlyToClaim | TooLateToClaim | NotTimeToRefund | InvalidSecret
  | InvalidSignature | InvalidContractAddress | InvalidRelayerAddress
  | ArithmeticOverflow | TransferFailed

text \<open>Balances by asset (the zero address is the native currency) and holder.\<close>

type_synonym ledger = "address \<Rightarrow> address \<Rightarrow> nat"

record evm =
  keccak256 :: "bytes \<Rightarrow> hash"
  ecrecover :: "hash \<Rightarrow> 8 word \<Rightarrow> hash \<Rightarrow> hash \<Rightarrow> address"
  token_transfer :: "ledger \<Rightarrow> address \<Rightarrow> address \<Rightarrow> address \<Rightarrow> nat \<Rightarrow> ledger option"
  accepts_ether :: "address \<Rightarrow> nat \<Rightarrow> bool"

record contract =
  this :: address
  swaps :: "hash \<Rightarrow> Stage"
  logs :: "event list"
  balances :: ledger

record msg =
  sender :: address
  msg_value :: "256 word"
  timestamp :: "256 word"

type_synonym 'a call_result = "revert_reason + 'a"

section \<open>EVM primitives\<close>

text \<open>\<open>abi.encode\<close> of a struct of static types: the fields, each padded to 32 bytes.\<close>

definition abi_word :: "('a :: len) word \<Rightarrow> bytes" where
  "abi_word w = hash_bytes (ucast w)"

definition abi_encode_Swap :: "Swap \<Rightarrow> bytes" where
  "abi_encode_Swap s =
     abi_word (owner s) @ abi_word (claimer s) @ abi_word (claimCommitment s) @
     abi_word (refundCommitment s) @ abi_word (timeout1 s) @ abi_word (timeout2 s) @
     abi_word (asset s) @ abi_word (amount s) @ abi_word (nonce s)"

definition abi_encode_RelaySwap :: "RelaySwap \<Rightarrow> bytes" where
  "abi_encode_RelaySwap r =
     abi_encode_Swap (swap_of r) @ abi_word (fee r) @ abi_word (relayerHash r) @
     abi_word (swapCreator r)"

text \<open>\<open>abi.encodePacked(_relayer, _salt)\<close>: 20 bytes and 4 bytes.\<close>

definition encodePacked_relayer :: "address \<Rightarrow> 32 word \<Rightarrow> bytes" where
  "encodePacked_relayer relayer salt = drop 12 (abi_word relayer) @ drop 28 (abi_word salt)"

definition swapID_of :: "evm \<Rightarrow> Swap \<Rightarrow> hash" where
  "swapID_of E s = keccak256 E (abi_encode_Swap s)"

definition move :: "ledger \<Rightarrow> address \<Rightarrow> address \<Rightarrow> address \<Rightarrow> nat \<Rightarrow> ledger option" where
  "move l a from to v =
     (if l a from < v then None
      else let l' = l(a := (l a)(from := l a from - v)) in Some (l'(a := (l' a)(to := l' a to + v))))"

text \<open>\<open>to.transfer(v)\<close> of native currency, and \<open>safeTransfer\<close>/\<open>safeTransferFrom\<close> of a token.\<close>

definition ether_transfer :: "evm \<Rightarrow> ledger \<Rightarrow> address \<Rightarrow> address \<Rightarrow> nat \<Rightarrow> ledger option" where
  "ether_transfer E l from to v = (if accepts_ether E to v then move l 0 from to v else None)"

definition pay :: "evm \<Rightarrow> contract \<Rightarrow> address \<Rightarrow> address \<Rightarrow> nat \<Rightarrow> contract call_result" where
  "pay E c a to v =
     (case (if a = 0 then ether_transfer E (balances c) (this c) to v
            else token_transfer E (balances c) a (this c) to v) of
        None \<Rightarrow> Inl TransferFailed
      | Some l \<Rightarrow> Inr (c\<lparr>balances := l\<rparr>))"

definition emit :: "event \<Rightarrow> contract \<Rightarrow> contract" where
  "emit e c = c\<lparr>logs := logs c @ [e]\<rparr>"

definition set_stage :: "hash \<Rightarrow> Stage \<Rightarrow> contract \<Rightarrow> contract" where
  "set_stage h st c = c\<lparr>swaps := (swaps c)(h := st)\<rparr>"

definition add_overflows :: "256 word \<Rightarrow> 256 word \<Rightarrow> bool" where
  "add_overflows a b \<longleftrightarrow> unat a + unat b \<ge> 2 ^ 256"

section \<open>Secp256k1.sol\<close>

definition gx :: "256 word" where
  "gx = 0x79BE667EF9DCBBAC55A06295CE870B07029BFCDB2DCE28D959F2815B16F81798"

definition group_order :: "256 word" where
  "group_order = 0xFFFFFFFFFFFFFFFFFFFFFFFFFFFFFFFEBAAEDCE6AF48A03BBFD25E8CD0364141"

definition mulmod :: "256 word \<Rightarrow> 256 word \<Rightarrow> 256 word \<Rightarrow> 256 word" where
  "mulmod a b k = of_nat ((unat a * unat b) mod unat k)"

definition mulVerify :: "evm \<Rightarrow> 256 word \<Rightarrow> 256 word \<Rightarrow> bool" where
  "mulVerify E scalar qKeccak =
     (let qRes = ecrecover E 0 27 gx (mulmod scalar gx group_order) in
      (ucast qKeccak :: 160 word) = qRes)"

definition verifySecret :: "evm \<Rightarrow> hash \<Rightarrow> hash \<Rightarrow> unit call_result" where
  "verifySecret E secret hashedPubkey =
     (if \<not> mulVerify E secret hashedPubkey then Inl InvalidSecret else Inr ())"

section \<open>SwapCreator.sol\<close>

definition newSwap :: "evm \<Rightarrow> contract \<Rightarrow> msg \<Rightarrow> hash \<Rightarrow> hash \<Rightarrow> address \<Rightarrow> 256 word \<Rightarrow> 256 word \<Rightarrow>
    address \<Rightarrow> 256 word \<Rightarrow> 256 word \<Rightarrow> (hash \<times> contract) call_result" where
  "newSwap E c0 m cCommitment rCommitment clm d1 d2 a v n =
     (case move (balances c0) 0 (sender m) (this c0) (unat (msg_value m)) of
        None \<Rightarrow> Inl TransferFailed
      | Some l0 \<Rightarrow>
        let c = c0\<lparr>balances := l0\<rparr> in
        if v = 0 then Inl ZeroValue
        else (case (if a = 0
                    then (if v \<noteq> msg_value m then Inl InvalidValue else Inr c)
                    else (case token_transfer E (balances c) a (sender m) (this c) (unat v) of
                            None \<Rightarrow> Inl TransferFailed
                          | Some l \<Rightarrow> Inr (c\<lparr>balances := l\<rparr>))) of
          Inl e \<Rightarrow> Inl e
        | Inr c \<Rightarrow>
          if cCommitment = 0 \<or> rCommitment = 0 then Inl InvalidSwapKey
          else if clm = 0 then Inl InvalidClaimer
          else if d1 = 0 \<or> d2 = 0 then Inl InvalidTimeout
          else if add_overflows (timestamp m) d1 \<or> add_overflows (timestamp m + d1) d2
          then Inl ArithmeticOverflow
          else
            let s = \<lparr>owner = sender m, claimer = clm, claimCommitment = cCommitment,
                     refundCommitment = rCommitment, timeout1 = timestamp m + d1,
                     timeout2 = timestamp m + d1 + d2, asset = a, amount = v, nonce = n\<rparr>;
                i = swapID_of E s in
            if swaps c i \<noteq> INVALID then Inl SwapAlreadyExists
            else Inr (i, set_stage i PENDING (emit (New i cCommitment rCommitment (timeout1 s)
                         (timeout2 s) (asset s) (amount s)) c))))"

definition setReady :: "evm \<Rightarrow> contract \<Rightarrow> msg \<Rightarrow> Swap \<Rightarrow> contract call_result" where
  "setReady E c m s =
     (let i = swapID_of E s in
      if swaps c i \<noteq> PENDING then Inl SwapNotPending
      else if owner s \<noteq> sender m then Inl OnlySwapOwner
      else Inr (emit (Ready i) (set_stage i READY c)))"

text \<open>The internal function \<open>_claim\<close>.\<close>

definition claim_internal :: "evm \<Rightarrow> contract \<Rightarrow> msg \<Rightarrow> Swap \<Rightarrow> hash \<Rightarrow> contract call_result" where
  "claim_internal E c m s secret =
     (let i = swapID_of E s; swapStage = swaps c i in
      if swapStage = INVALID then Inl InvalidSwap
      else if swapStage = COMPLETED then Inl SwapCompleted
      else if timestamp m < timeout1 s \<and> swapStage \<noteq> READY then Inl TooEarlyToClaim
      else if timestamp m \<ge> timeout2 s then Inl TooLateToClaim
      else (case verifySecret E secret (claimCommitment s) of
          Inl e \<Rightarrow> Inl e
        | Inr _ \<Rightarrow> Inr (set_stage i COMPLETED (emit (Claimed i secret) c))))"

definition claim :: "evm \<Rightarrow> contract \<Rightarrow> msg \<Rightarrow> Swap \<Rightarrow> hash \<Rightarrow> contract call_result" where
  "claim E c m s secret =
     (if sender m \<noteq> claimer s then Inl OnlySwapClaimer
      else case claim_internal E c m s secret of
          Inl e \<Rightarrow> Inl e
        | Inr c' \<Rightarrow> pay E c' (asset s) (claimer s) (unat (amount s)))"

definition claimRelayer :: "evm \<Rightarrow> contract \<Rightarrow> msg \<Rightarrow> RelaySwap \<Rightarrow> hash \<Rightarrow> address \<Rightarrow> 32 word \<Rightarrow>
    8 word \<Rightarrow> hash \<Rightarrow> hash \<Rightarrow> contract call_result" where
  "claimRelayer E c m rs secret relayer salt v r sg =
     (let signer = ecrecover E (keccak256 E (abi_encode_RelaySwap rs)) v r sg; s = swap_of rs in
      if signer \<noteq> claimer s then Inl InvalidSignature
      else if this c \<noteq> swapCreator rs then Inl InvalidContractAddress
      else if keccak256 E (encodePacked_relayer relayer salt) \<noteq> relayerHash rs
      then Inl InvalidRelayerAddress
      else case claim_internal E c m s secret of
          Inl e \<Rightarrow> Inl e
        | Inr c' \<Rightarrow>
            if amount s < fee rs then Inl ArithmeticOverflow
            else (case pay E c' (asset s) (claimer s) (unat (amount s - fee rs)) of
                Inl e \<Rightarrow> Inl e
              | Inr c'' \<Rightarrow> pay E c'' (asset s) relayer (unat (fee rs))))"

definition refund :: "evm \<Rightarrow> contract \<Rightarrow> msg \<Rightarrow> Swap \<Rightarrow> hash \<Rightarrow> contract call_result" where
  "refund E c m s secret =
     (let i = swapID_of E s; swapStage = swaps c i in
      if swapStage = INVALID then Inl InvalidSwap
      else if swapStage = COMPLETED then Inl SwapCompleted
      else if owner s \<noteq> sender m then Inl OnlySwapOwner
      else if timestamp m < timeout2 s \<and> (timestamp m > timeout1 s \<or> swapStage = READY)
      then Inl NotTimeToRefund
      else (case verifySecret E secret (refundCommitment s) of
          Inl e \<Rightarrow> Inl e
        | Inr _ \<Rightarrow>
            pay E (set_stage i COMPLETED (emit (Refunded i secret) c))
              (asset s) (owner s) (unat (amount s))))"

section \<open>Transactions\<close>

datatype tx =
    Tx_newSwap msg hash hash address "256 word" "256 word" address "256 word" "256 word"
  | Tx_setReady msg Swap
  | Tx_claim msg Swap hash
  | Tx_claimRelayer msg RelaySwap hash address "32 word" "8 word" hash hash
  | Tx_refund msg Swap hash

primrec exec :: "evm \<Rightarrow> contract \<Rightarrow> tx \<Rightarrow> contract call_result" where
  "exec E c (Tx_newSwap m ck rk clm d1 d2 a v n) =
     map_sum id snd (newSwap E c m ck rk clm d1 d2 a v n)"
| "exec E c (Tx_setReady m s) = setReady E c m s"
| "exec E c (Tx_claim m s secret) = claim E c m s secret"
| "exec E c (Tx_claimRelayer m rs secret relayer salt v r sg) =
     claimRelayer E c m rs secret relayer salt v r sg"
| "exec E c (Tx_refund m s secret) = refund E c m s secret"

text \<open>A reverted transaction leaves the state as it was.\<close>

definition apply_tx :: "evm \<Rightarrow> contract \<Rightarrow> tx \<Rightarrow> contract" where
  "apply_tx E c t = (case exec E c t of Inl e \<Rightarrow> c | Inr c' \<Rightarrow> c')"

definition run_txs :: "evm \<Rightarrow> contract \<Rightarrow> tx list \<Rightarrow> contract" where
  "run_txs E c ts = foldl (apply_tx E) c ts"

definition deployed :: "address \<Rightarrow> ledger \<Rightarrow> contract" where
  "deployed a l = \<lparr>this = a, swaps = (\<lambda>_. INVALID), logs = [], balances = l\<rparr>"

section \<open>Stages and events\<close>

lemma pay_frame:
  "pay E c a to v = Inr c' \<Longrightarrow> swaps c' = swaps c \<and> logs c' = logs c \<and> this c' = this c"
  by (auto simp: pay_def split: option.splits)

lemma set_stage_simps [simp]:
  "swaps (set_stage i st c) = (swaps c)(i := st)" "logs (set_stage i st c) = logs c"
  "this (set_stage i st c) = this c" "balances (set_stage i st c) = balances c"
  by (simp_all add: set_stage_def)

lemma emit_simps [simp]:
  "swaps (emit e c) = swaps c" "logs (emit e c) = logs c @ [e]"
  "this (emit e c) = this c" "balances (emit e c) = balances c"
  by (simp_all add: emit_def)

primrec event_id :: "event \<Rightarrow> hash" where
  "event_id (New i ck rk t1 t2 a v) = i"
| "event_id (Ready i) = i"
| "event_id (Claimed i s) = i"
| "event_id (Refunded i s) = i"

text \<open>The stage transitions of one swap, with the event each one emits.\<close>

inductive stage_event :: "hash \<Rightarrow> Stage \<Rightarrow> event \<Rightarrow> Stage \<Rightarrow> bool" for i where
  stage_New: "stage_event i INVALID (New i ck rk t1 t2 a v) PENDING"
| stage_Ready: "stage_event i PENDING (Ready i) READY"
| stage_Claimed: "st = PENDING \<or> st = READY \<Longrightarrow> stage_event i st (Claimed i s) COMPLETED"
| stage_Refunded: "st = PENDING \<or> st = READY \<Longrightarrow> stage_event i st (Refunded i s) COMPLETED"

inductive_cases stage_eventE: "stage_event i st e st'"

lemma stage_event_id: "stage_event i st e st' \<Longrightarrow> event_id e = i"
  by (auto elim: stage_eventE)

text \<open>What a successful transaction does to the stages: one swap moves by one transition.\<close>

definition one_transition :: "contract \<Rightarrow> contract \<Rightarrow> bool" where
  "one_transition c c' \<longleftrightarrow> (\<exists>i e st'. stage_event i (swaps c i) e st' \<and>
     swaps c' = (swaps c)(i := st') \<and> logs c' = logs c @ [e] \<and> this c' = this c)"

lemma not_invalid_completed: "st \<noteq> INVALID \<Longrightarrow> st \<noteq> COMPLETED \<Longrightarrow> st = PENDING \<or> st = READY"
  by (cases st) auto

lemma claim_internal_iff:
  "claim_internal E c m s secret = Inr c' \<longleftrightarrow>
     (swaps c (swapID_of E s) = READY \<or>
        swaps c (swapID_of E s) = PENDING \<and> timeout1 s \<le> timestamp m) \<and>
     timestamp m < timeout2 s \<and> mulVerify E secret (claimCommitment s) \<and>
     c' = set_stage (swapID_of E s) COMPLETED (emit (Claimed (swapID_of E s) secret) c)"
  by (cases "swaps c (swapID_of E s)")
    (auto simp: claim_internal_def verifySecret_def Let_def not_less not_le)

lemma refund_iff:
  "refund E c m s secret = Inr c' \<longleftrightarrow>
     sender m = owner s \<and> mulVerify E secret (refundCommitment s) \<and>
     (swaps c (swapID_of E s) = PENDING \<and> timestamp m \<le> timeout1 s \<or>
      (swaps c (swapID_of E s) = PENDING \<or> swaps c (swapID_of E s) = READY) \<and>
        timeout2 s \<le> timestamp m) \<and>
     pay E (set_stage (swapID_of E s) COMPLETED (emit (Refunded (swapID_of E s) secret) c))
       (asset s) (owner s) (unat (amount s)) = Inr c'"
  by (cases "swaps c (swapID_of E s)")
    (auto simp: refund_def verifySecret_def Let_def not_less not_le)

lemma newSwap_Inr:
  assumes "newSwap E c m ck rk clm d1 d2 a v n = Inr (i, c')"
  defines "s \<equiv> \<lparr>owner = sender m, claimer = clm, claimCommitment = ck,
       refundCommitment = rk, timeout1 = timestamp m + d1,
       timeout2 = timestamp m + d1 + d2, asset = a, amount = v, nonce = n\<rparr>"
  obtains l0 l where
    "move (balances c) 0 (sender m) (this c) (unat (msg_value m)) = Some l0"
    "a = 0 \<Longrightarrow> v = msg_value m \<and> l = l0"
    "a \<noteq> 0 \<Longrightarrow> token_transfer E l0 a (sender m) (this c) (unat v) = Some l"
    "v \<noteq> 0" "ck \<noteq> 0" "rk \<noteq> 0" "clm \<noteq> 0" "d1 \<noteq> 0" "d2 \<noteq> 0"
    "\<not> add_overflows (timestamp m) d1" "\<not> add_overflows (timestamp m + d1) d2"
    "i = swapID_of E s" "swaps c i = INVALID"
    "c' = set_stage i PENDING (emit (New i ck rk (timeout1 s) (timeout2 s) a v) (c\<lparr>balances := l\<rparr>))"
  using assms unfolding newSwap_def
  by (auto simp: Let_def split: option.splits if_splits)

lemma exec_one_transition: "exec E c t = Inr c' \<Longrightarrow> one_transition c c'"
proof (cases t)
  case (Tx_newSwap m ck rk clm d1 d2 a v n)
  assume "exec E c t = Inr c'"
  then obtain i where "newSwap E c m ck rk clm d1 d2 a v n = Inr (i, c')"
    by (cases "newSwap E c m ck rk clm d1 d2 a v n") (auto simp: Tx_newSwap)
  then show ?thesis
    by (elim newSwap_Inr) (auto simp: one_transition_def intro!: exI stage_New)
next
  case (Tx_setReady m s)
  assume "exec E c t = Inr c'"
  then show ?thesis
    by (auto simp: Tx_setReady setReady_def Let_def one_transition_def intro!: exI stage_Ready
        split: if_splits)
next
  case (Tx_claim m s secret)
  assume "exec E c t = Inr c'"
  then show ?thesis
    by (auto simp: Tx_claim claim_def claim_internal_iff one_transition_def dest!: pay_frame
        intro!: exI stage_Claimed split: if_splits sum.splits)
next
  case (Tx_claimRelayer m rs secret relayer salt v r sg)
  assume "exec E c t = Inr c'"
  then show ?thesis
    by (auto simp: Tx_claimRelayer claimRelayer_def claim_internal_iff one_transition_def Let_def
        dest!: pay_frame intro!: exI stage_Claimed split: if_splits sum.splits)
next
  case (Tx_refund m s secret)
  assume "exec E c t = Inr c'"
  then show ?thesis
    by (auto simp: Tx_refund refund_iff one_transition_def dest!: pay_frame
        intro!: exI stage_Refunded)
qed

text \<open>The events of one swap, and the paths through the stage machine.\<close>

definition history :: "hash \<Rightarrow> event list \<Rightarrow> event list" where
  "history i es = filter (\<lambda>e. event_id e = i) es"

inductive stage_path :: "hash \<Rightarrow> Stage \<Rightarrow> event list \<Rightarrow> bool" for i where
  path_start: "stage_path i INVALID []"
| path_step: "stage_path i st h \<Longrightarrow> stage_event i st e st' \<Longrightarrow> stage_path i st' (h @ [e])"

definition follows_stages :: "contract \<Rightarrow> bool" where
  "follows_stages c \<longleftrightarrow> (\<forall>i. stage_path i (swaps c i) (history i (logs c)))"

lemma one_transition_follows:
  assumes "one_transition c c'" "follows_stages c"
  shows "follows_stages c'"
proof -
  from assms(1) obtain j e st' where j: "stage_event j (swaps c j) e st'"
      "swaps c' = (swaps c)(j := st')" "logs c' = logs c @ [e]"
    by (auto simp: one_transition_def)
  then have "stage_path i (swaps c' i) (history i (logs c'))" for i
    using assms(2) stage_event_id [OF j(1)]
    by (cases "i = j") (auto simp: follows_stages_def history_def intro: path_step)
  then show ?thesis by (simp add: follows_stages_def)
qed

lemma apply_tx_cases:
  obtains (reverted) "apply_tx E c t = c" | (executed) "exec E c t = Inr (apply_tx E c t)"
  by (cases "exec E c t") (auto simp: apply_tx_def)

lemma run_txs_invariant:
  assumes "I c" "\<And>c t c'. t \<in> set ts \<Longrightarrow> I c \<Longrightarrow> exec E c t = Inr c' \<Longrightarrow> I c'"
  shows "I (run_txs E c ts)"
  using assms
proof (induction ts arbitrary: c)
  case Nil
  then show ?case by (simp add: run_txs_def)
next
  case (Cons t ts)
  have "I (apply_tx E c t)"
    using Cons.prems by (cases rule: apply_tx_cases [of E c t]) auto
  then have "I (run_txs E (apply_tx E c t) ts)"
    by (rule Cons.IH) (use Cons.prems(2) in auto)
  then show ?case by (simp add: run_txs_def)
qed

lemma run_follows_stages: "follows_stages (run_txs E (deployed a l) ts)"
proof (rule run_txs_invariant)
  show "follows_stages (deployed a l)"
    by (simp add: follows_stages_def deployed_def history_def path_start)
qed (blast intro: one_transition_follows exec_one_transition)

lemma stage_path_shape:
  assumes "stage_path i st h"
  shows "(st = INVALID \<and> h = []) \<or>
    (\<exists>ck rk t1 t2 a v.
       (st = PENDING \<and> h = [New i ck rk t1 t2 a v]) \<or>
       (st = READY \<and> h = [New i ck rk t1 t2 a v, Ready i]) \<or>
       (st = COMPLETED \<and> (\<exists>s fin. (fin = Claimed i s \<or> fin = Refunded i s) \<and>
          (h = [New i ck rk t1 t2 a v, fin] \<or> h = [New i ck rk t1 t2 a v, Ready i, fin]))))"
  using assms by induction (auto elim!: stage_eventE)

section \<open>Solvency\<close>

text \<open>The part of an asset that belongs to swaps that are not completed.\<close>

primrec owed_by :: "(hash \<Rightarrow> Stage) \<Rightarrow> address \<Rightarrow> event \<Rightarrow> nat" where
  "owed_by st b (New i ck rk t1 t2 a v) = (if a = b \<and> st i \<noteq> COMPLETED then unat v else 0)"
| "owed_by st b (Ready i) = 0"
| "owed_by st b (Claimed i s) = 0"
| "owed_by st b (Refunded i s) = 0"

definition owed :: "contract \<Rightarrow> address \<Rightarrow> nat" where
  "owed c b = sum_list (map (owed_by (swaps c) b) (logs c))"

text \<open>A token that moves exactly the requested amount (no fee on transfer, no rebasing).\<close>

definition standard_tokens :: "evm \<Rightarrow> bool" where
  "standard_tokens E \<longleftrightarrow>
     (\<forall>l a from to v l'. token_transfer E l a from to v = Some l' \<longrightarrow> move l a from to v = Some l')"

primrec tx_swap :: "tx \<Rightarrow> Swap" where
  "tx_swap (Tx_newSwap m ck rk clm d1 d2 a v n) =
     \<lparr>owner = sender m, claimer = clm, claimCommitment = ck, refundCommitment = rk,
      timeout1 = timestamp m + d1, timeout2 = timestamp m + d1 + d2, asset = a, amount = v, nonce = n\<rparr>"
| "tx_swap (Tx_setReady m s) = s"
| "tx_swap (Tx_claim m s secret) = s"
| "tx_swap (Tx_claimRelayer m rs secret relayer salt v r sg) = swap_of rs"
| "tx_swap (Tx_refund m s secret) = s"

primrec tx_msg :: "tx \<Rightarrow> msg" where
  "tx_msg (Tx_newSwap m ck rk clm d1 d2 a v n) = m"
| "tx_msg (Tx_setReady m s) = m"
| "tx_msg (Tx_claim m s secret) = m"
| "tx_msg (Tx_claimRelayer m rs secret relayer salt v r sg) = m"
| "tx_msg (Tx_refund m s secret) = m"

text \<open>
  Every swap announced in the logs is one of \<open>S\<close>, and what the contract holds covers what it owes.
\<close>

definition announced :: "evm \<Rightarrow> Swap set \<Rightarrow> contract \<Rightarrow> bool" where
  "announced E S c \<longleftrightarrow> (\<forall>i ck rk t1 t2 a v. New i ck rk t1 t2 a v \<in> set (logs c) \<longrightarrow>
     (\<exists>s\<in>S. swapID_of E s = i \<and> claimCommitment s = ck \<and> refundCommitment s = rk \<and>
        timeout1 s = t1 \<and> timeout2 s = t2 \<and> asset s = a \<and> amount s = v))"

definition solvent :: "evm \<Rightarrow> Swap set \<Rightarrow> contract \<Rightarrow> bool" where
  "solvent E S c \<longleftrightarrow> follows_stages c \<and> announced E S c \<and> (\<forall>b. owed c b \<le> balances c b (this c))"

lemma move_Some:
  assumes "move l a from to v = Some l'"
  shows "l a from \<le> l' a from + v" and "b \<noteq> a \<Longrightarrow> l' b = l b"
    and "x \<noteq> from \<Longrightarrow> l b x \<le> l' b x" and "from \<noteq> to \<Longrightarrow> l' a to = l a to + v"
  using assms by (auto simp: move_def Let_def split: if_splits)

lemma pay_move:
  assumes "standard_tokens E" "pay E c a to v = Inr c'"
  obtains l where "move (balances c) a (this c) to v = Some l" "c' = c\<lparr>balances := l\<rparr>"
  using assms
  by (auto simp: pay_def ether_transfer_def standard_tokens_def split: option.splits if_splits)

lemma pay_balance:
  assumes "standard_tokens E" "pay E c a to v = Inr c'"
  shows "balances c b (this c) \<le> balances c' b (this c) + (if b = a then v else 0)"
  using assms(2)
  by (elim pay_move [OF assms(1)]) (auto dest: move_Some(1,2))

lemma sum_list_split:
  "sum_list (map f xs) = sum_list (map f (filter P xs)) + (sum_list (map f (filter (\<lambda>x. \<not> P x) xs)) :: nat)"
  by (induction xs) auto

lemma owed_split:
  "owed c b = sum_list (map (owed_by (swaps c) b) (history i (logs c))) +
     sum_list (map (owed_by (swaps c) b) (filter (\<lambda>e. event_id e \<noteq> i) (logs c)))"
  unfolding owed_def history_def by (rule sum_list_split)

lemma owed_other:
  "sum_list (map (owed_by (st(i := x)) b) (filter (\<lambda>e. event_id e \<noteq> i) es)) =
   sum_list (map (owed_by st b) (filter (\<lambda>e. event_id e \<noteq> i) es))"
proof -
  have "owed_by (st(i := x)) b e = owed_by st b e" if "event_id e \<noteq> i" for e
    using that by (cases e) auto
  then show ?thesis by (intro arg_cong [of _ _ sum_list] map_cong) auto
qed

lemma stage_path_New:
  "stage_path i st h \<Longrightarrow> st = PENDING \<or> st = READY \<Longrightarrow>
    \<exists>ck rk t1 t2 a v. (h = [New i ck rk t1 t2 a v] \<or> h = [New i ck rk t1 t2 a v, Ready i])"
  by (drule stage_path_shape) auto

text \<open>Completing a swap releases exactly its amount of its asset.\<close>

lemma owed_completed:
  assumes "solvent E S c" "inj_on (swapID_of E) S" "s \<in> S"
    and stage: "swaps c (swapID_of E s) = PENDING \<or> swaps c (swapID_of E s) = READY"
    and fin: "\<And>st b. owed_by st b fin = 0" "event_id fin = swapID_of E s"
  shows "owed (set_stage (swapID_of E s) COMPLETED (emit fin c)) b +
    (if b = asset s then unat (amount s) else 0) = owed c b"
proof -
  let ?i = "swapID_of E s"
  have "stage_path ?i (swaps c ?i) (history ?i (logs c))"
    using assms(1) by (simp add: solvent_def follows_stages_def)
  from stage_path_New [OF this stage] obtain ck rk t1 t2 a v where
    h: "history ?i (logs c) = [New ?i ck rk t1 t2 a v] \<or>
        history ?i (logs c) = [New ?i ck rk t1 t2 a v, Ready ?i]" by blast
  then have "New ?i ck rk t1 t2 a v \<in> set (history ?i (logs c))" by auto
  then have "New ?i ck rk t1 t2 a v \<in> set (logs c)" by (simp add: history_def)
  then obtain s' where "s' \<in> S" "swapID_of E s' = ?i" "asset s' = a" "amount s' = v"
    using assms(1) by (fastforce simp: solvent_def announced_def)
  with assms(2,3) have av: "a = asset s" "v = amount s" by (auto dest: inj_onD)
  have "history ?i (logs c @ [fin]) = history ?i (logs c) @ [fin]"
    "filter (\<lambda>e. event_id e \<noteq> ?i) (logs c @ [fin]) = filter (\<lambda>e. event_id e \<noteq> ?i) (logs c)"
    using fin(2) by (simp_all add: history_def)
  then show ?thesis
    using h stage fin(1)
    by (auto simp: owed_split [where i = ?i] owed_other av)
qed

lemma solvent_completed:
  assumes "solvent E S c" "inj_on (swapID_of E) S" "s \<in> S"
    and "swaps c (swapID_of E s) = PENDING \<or> swaps c (swapID_of E s) = READY"
    and "fin = Claimed (swapID_of E s) secret \<or> fin = Refunded (swapID_of E s) secret"
    and c1: "c1 = set_stage (swapID_of E s) COMPLETED (emit fin c)"
    and "one_transition c c'" "swaps c' = swaps c1" "logs c' = logs c1" "this c' = this c"
    and bal: "\<And>b. balances c b (this c) \<le>
      balances c' b (this c) + (if b = asset s then unat (amount s) else 0)"
  shows "solvent E S c'"
proof -
  have fin: "owed_by st b fin = 0" "event_id fin = swapID_of E s" for st b
    using assms(5) by auto
  have "owed c' b \<le> balances c' b (this c')" for b
  proof -
    have "owed c' b + (if b = asset s then unat (amount s) else 0) = owed c b"
      using owed_completed [OF assms(1-4) fin, of b] assms(8,9) by (simp add: owed_def c1)
    moreover have "owed c b \<le> balances c b (this c)" using assms(1) by (simp add: solvent_def)
    ultimately show ?thesis using bal [of b] assms(10) by (auto split: if_splits)
  qed
  moreover have "announced E S c'"
    using assms(1,5,9) by (auto simp: solvent_def announced_def c1)
  ultimately show ?thesis
    using assms(1,7) one_transition_follows by (auto simp: solvent_def)
qed

lemma claim_internal_solvent:
  assumes "solvent E S c" "inj_on (swapID_of E) S" "s \<in> S"
    and "claim_internal E c m s secret = Inr c1" "one_transition c c'"
    and "swaps c' = swaps c1" "logs c' = logs c1" "this c' = this c"
    and "\<And>b. balances c b (this c) \<le>
      balances c' b (this c) + (if b = asset s then unat (amount s) else 0)"
  shows "solvent E S c'"
  using assms by (intro solvent_completed [OF assms(1-3), of "Claimed (swapID_of E s) secret" secret c1])
    (auto simp: claim_internal_iff)

lemma exec_newSwap_solvent:
  assumes "standard_tokens E" "solvent E S c" "sender m \<noteq> this c"
    and new: "newSwap E c m ck rk clm d1 d2 a v n = Inr (i, c')"
    and s: "tx_swap (Tx_newSwap m ck rk clm d1 d2 a v n) \<in> S"
    and tr: "one_transition c c'"
  shows "solvent E S c'"
  using new
proof (rule newSwap_Inr)
  fix l0 l
  let ?s = "tx_swap (Tx_newSwap m ck rk clm d1 d2 a v n)"
  assume l0: "move (balances c) 0 (sender m) (this c) (unat (msg_value m)) = Some l0"
    and eth: "a = 0 \<Longrightarrow> v = msg_value m \<and> l = l0"
    and tok: "a \<noteq> 0 \<Longrightarrow> token_transfer E l0 a (sender m) (this c) (unat v) = Some l"
    and i: "i = swapID_of E \<lparr>owner = sender m, claimer = clm, claimCommitment = ck,
       refundCommitment = rk, timeout1 = timestamp m + d1,
       timeout2 = timestamp m + d1 + d2, asset = a, amount = v, nonce = n\<rparr>"
    and inv: "swaps c i = INVALID"
    and c': "c' = set_stage i PENDING (emit (New i ck rk
       (timeout1 \<lparr>owner = sender m, claimer = clm, claimCommitment = ck,
       refundCommitment = rk, timeout1 = timestamp m + d1,
       timeout2 = timestamp m + d1 + d2, asset = a, amount = v, nonce = n\<rparr>)
       (timeout2 \<lparr>owner = sender m, claimer = clm, claimCommitment = ck,
       refundCommitment = rk, timeout1 = timestamp m + d1,
       timeout2 = timestamp m + d1 + d2, asset = a, amount = v, nonce = n\<rparr>) a v)
       (c\<lparr>balances := l\<rparr>))"
  have "stage_path i INVALID (history i (logs c))"
    using assms(2) inv by (metis solvent_def follows_stages_def)
  then have "history i (logs c) = []" by (auto dest: stage_path_shape)
  then have none: "filter (\<lambda>e. event_id e \<noteq> i) (logs c) = logs c"
    by (auto simp: history_def filter_empty_conv filter_id_conv)
  have ow: "owed c' b = owed c b + (if b = a then unat v else 0)" for b
    using owed_other [of "swaps c" i PENDING b "logs c"] none by (auto simp: owed_def c')
  have mv: "move l0 a (sender m) (this c) (unat v) = Some l" if "a \<noteq> 0"
    using assms(1) tok [OF that] by (auto simp: standard_tokens_def)
  have l0_ge: "balances c b (this c) \<le> l0 b (this c)" for b
    using move_Some(3) [OF l0] assms(3) by simp
  have bal: "balances c b (this c) + (if b = a then unat v else 0) \<le> l b (this c)" for b
  proof (cases "a = 0")
    case True
    then show ?thesis using eth l0_ge [of b] move_Some(4) [OF l0 assms(3)] by auto
  next
    case False
    then show ?thesis
      using l0_ge [of b] move_Some(4) [OF mv [OF False] assms(3)]
        move_Some(2) [OF mv [OF False], of b] by (cases "b = a") auto
  qed
  have "owed c' b \<le> balances c' b (this c')" for b
  proof -
    have "owed c b \<le> balances c b (this c)" using assms(2) by (simp add: solvent_def)
    moreover have "balances c' b (this c') = l b (this c)" by (simp add: c')
    ultimately show ?thesis using bal [of b] ow [of b] by simp
  qed
  moreover have "announced E S c'"
    using assms(2) s by (auto simp: solvent_def announced_def c' i)
  ultimately show ?thesis using assms(2) tr one_transition_follows by (auto simp: solvent_def)
qed

lemma exec_solvent:
  assumes "standard_tokens E" "inj_on (swapID_of E) S"
    and "solvent E S c" "tx_swap t \<in> S" "sender (tx_msg t) \<noteq> this c" "exec E c t = Inr c'"
  shows "solvent E S c'"
proof -
  have tr: "one_transition c c'" using assms(6) by (rule exec_one_transition)
  show ?thesis
  proof (cases t)
    case (Tx_newSwap m ck rk clm d1 d2 a v n)
    with assms(6) obtain i where "newSwap E c m ck rk clm d1 d2 a v n = Inr (i, c')"
      by (cases "newSwap E c m ck rk clm d1 d2 a v n") auto
    with assms tr show ?thesis
      by (intro exec_newSwap_solvent [of E S c m ck rk clm d1 d2 a v n i c']) (simp_all add: Tx_newSwap)
  next
    case (Tx_setReady m s)
    let ?i = "swapID_of E s"
    from assms(6) have c': "c' = emit (Ready ?i) (set_stage ?i READY c)" and "swaps c ?i = PENDING"
      by (auto simp: Tx_setReady setReady_def Let_def split: if_splits)
    have "owed_by ((swaps c)(?i := READY)) b e = owed_by (swaps c) b e" for b e
      using \<open>swaps c ?i = PENDING\<close> by (cases e) auto
    then have "owed_by ((swaps c)(?i := READY)) b = owed_by (swaps c) b" for b
      by (simp add: fun_eq_iff)
    then have "owed c' b = owed c b" for b by (simp add: owed_def c')
    with assms(3) tr one_transition_follows show ?thesis
      by (auto simp: solvent_def announced_def c')
  next
    case (Tx_claim m s secret)
    with assms(6) obtain c1 where c1: "claim_internal E c m s secret = Inr c1"
        and p: "pay E c1 (asset s) (claimer s) (unat (amount s)) = Inr c'"
      by (auto simp: claim_def split: if_splits sum.splits)
    have "this c1 = this c" "balances c1 = balances c" using c1 by (auto simp: claim_internal_iff)
    with pay_frame [OF p] pay_balance [OF assms(1) p] show ?thesis
      using assms(4) Tx_claim
      by (intro claim_internal_solvent [OF assms(3,2) _ c1 tr]) auto
  next
    case (Tx_claimRelayer m rs secret relayer salt v r sg)
    let ?s = "swap_of rs"
    from Tx_claimRelayer assms(6) obtain c1 c2 where c1: "claim_internal E c m ?s secret = Inr c1"
        and p1: "pay E c1 (asset ?s) (claimer ?s) (unat (amount ?s - fee rs)) = Inr c2"
        and p2: "pay E c2 (asset ?s) relayer (unat (fee rs)) = Inr c'"
        and f: "fee rs \<le> amount ?s"
      by (auto simp: claimRelayer_def Let_def split: if_splits sum.splits)
    have am: "unat (amount ?s - fee rs) + unat (fee rs) = unat (amount ?s)"
      using f by (simp add: unat_sub word_le_nat_alt)
    have "this c1 = this c" "balances c1 = balances c" using c1 by (auto simp: claim_internal_iff)
    moreover have "balances c1 b (this c1) \<le> balances c' b (this c1) +
        (if b = asset ?s then unat (amount ?s) else 0)" for b
      using pay_balance [OF assms(1) p1, of b] pay_balance [OF assms(1) p2, of b] pay_frame [OF p1] am
      by (auto split: if_splits)
    ultimately show ?thesis
      using pay_frame [OF p1] pay_frame [OF p2] assms(4) Tx_claimRelayer
      by (intro claim_internal_solvent [OF assms(3,2) _ c1 tr]) auto
  next
    case (Tx_refund m s secret)
    let ?c1 = "set_stage (swapID_of E s) COMPLETED (emit (Refunded (swapID_of E s) secret) c)"
    from Tx_refund assms(6) have p: "pay E ?c1 (asset s) (owner s) (unat (amount s)) = Inr c'"
        and st: "swaps c (swapID_of E s) = PENDING \<or> swaps c (swapID_of E s) = READY"
      by (auto simp: refund_iff)
    show ?thesis
      using assms(4) pay_frame [OF p] pay_balance [OF assms(1) p]
      by (intro solvent_completed [OF assms(3,2) _ st _ refl tr, of "Refunded (swapID_of E s) secret" secret])
        (simp_all add: Tx_refund)
  qed
qed

lemma exec_this: "exec E c t = Inr c' \<Longrightarrow> this c' = this c"
  by (drule exec_one_transition) (auto simp: one_transition_def)

lemma run_solvent:
  assumes "standard_tokens E" "inj_on (swapID_of E) (tx_swap ` set ts)"
    and "\<And>t. t \<in> set ts \<Longrightarrow> sender (tx_msg t) \<noteq> a"
  shows "solvent E (tx_swap ` set ts) (run_txs E (deployed a l) ts) \<and>
    this (run_txs E (deployed a l) ts) = a"
proof (rule run_txs_invariant)
  show "solvent E (tx_swap ` set ts) (deployed a l) \<and> this (deployed a l) = a"
    by (simp add: solvent_def follows_stages_def deployed_def history_def path_start announced_def owed_def)
next
  fix c t c'
  assume "t \<in> set ts" "solvent E (tx_swap ` set ts) c \<and> this c = a" "exec E c t = Inr c'"
  then show "solvent E (tx_swap ` set ts) c' \<and> this c' = a"
    using assms exec_solvent [of E "tx_swap ` set ts" c t c'] exec_this by auto
qed

section \<open>Logged secrets\<close>

definition secrets_verified :: "evm \<Rightarrow> Swap set \<Rightarrow> contract \<Rightarrow> bool" where
  "secrets_verified E S c \<longleftrightarrow> (\<forall>i x.
     (Claimed i x \<in> set (logs c) \<longrightarrow>
        (\<exists>s\<in>S. swapID_of E s = i \<and> mulVerify E x (claimCommitment s))) \<and>
     (Refunded i x \<in> set (logs c) \<longrightarrow>
        (\<exists>s\<in>S. swapID_of E s = i \<and> mulVerify E x (refundCommitment s))))"

lemma exec_secrets_verified:
  assumes "secrets_verified E S c" "tx_swap t \<in> S" "exec E c t = Inr c'"
  shows "secrets_verified E S c'"
proof (cases t)
  case (Tx_newSwap m ck rk clm d1 d2 a v n)
  with assms(3) obtain i where "newSwap E c m ck rk clm d1 d2 a v n = Inr (i, c')"
    by (cases "newSwap E c m ck rk clm d1 d2 a v n") auto
  with assms(1) show ?thesis by (elim newSwap_Inr) (simp add: secrets_verified_def)
next
  case (Tx_setReady m s)
  with assms(1,3) show ?thesis
    by (auto simp: setReady_def Let_def secrets_verified_def split: if_splits)
next
  case (Tx_claim m s secret)
  with assms show ?thesis
    by (auto simp: claim_def claim_internal_iff secrets_verified_def dest!: pay_frame
        split: if_splits sum.splits)
next
  case (Tx_claimRelayer m rs secret relayer salt v r sg)
  with assms show ?thesis
    by (auto simp: claimRelayer_def claim_internal_iff secrets_verified_def Let_def dest!: pay_frame
        split: if_splits sum.splits)
next
  case (Tx_refund m s secret)
  with assms show ?thesis
    by (auto simp: refund_iff secrets_verified_def dest!: pay_frame)
qed

lemma run_secrets_verified: "secrets_verified E (tx_swap ` set ts) (run_txs E (deployed a l) ts)"
  by (rule run_txs_invariant)
    (auto simp: secrets_verified_def deployed_def dest: exec_secrets_verified [of E "tx_swap ` set ts", rotated 2])

section \<open>A concrete chain\<close>

text \<open>
  A chain to evaluate the contract on: every swap hashes to 7, every secret recovers to address 1,
  tokens move exactly what is asked, and every address accepts ether.
\<close>

definition demo_evm :: evm where
  "demo_evm = \<lparr>keccak256 = (\<lambda>_. 7), ecrecover = (\<lambda>_ _ _ _. 1), token_transfer = move,
     accepts_ether = (\<lambda>_ _. True)\<rparr>"

definition demo_msg :: "address \<Rightarrow> 256 word \<Rightarrow> 256 word \<Rightarrow> msg" where
  "demo_msg a v t = \<lparr>sender = a, msg_value = v, timestamp = t\<rparr>"

definition demo_swap :: Swap where
  "demo_swap = \<lparr>owner = 3, claimer = 5, claimCommitment = 1, refundCommitment = 1,
     timeout1 = 110, timeout2 = 120, asset = 0, amount = 50, nonce = 0\<rparr>"

definition demo_new :: tx where
  "demo_new = Tx_newSwap (demo_msg 3 50 100) 1 1 5 10 10 0 50 0"

definition demo_ledger :: ledger where
  "demo_ledger = (\<lambda>a x. if a = 0 \<and> x = 3 then 80 else 0)"

lemma demo_simps [simp]:
  "swapID_of demo_evm s = 7" "mulVerify demo_evm x 1" "sender (demo_msg a v t) = a"
  "msg_value (demo_msg a v t) = v" "timestamp (demo_msg a v t) = t"
  "standard_tokens demo_evm" "accepts_ether demo_evm y n" "tx_swap demo_new = demo_swap" "tx_msg demo_new = demo_msg 3 50 100"
  by (simp_all add: demo_evm_def swapID_of_def mulVerify_def demo_msg_def standard_tokens_def
      demo_new_def demo_swap_def)

lemma demo_swap_simps [simp]:
  "owner demo_swap = 3" "claimer demo_swap = 5" "claimCommitment demo_swap = 1"
  "refundCommitment demo_swap = 1" "timeout1 demo_swap = 110" "timeout2 demo_swap = 120"
  "asset demo_swap = 0" "amount demo_swap = 50"
  by (simp_all add: demo_swap_def)

lemma demo_new_run:
  "run_txs demo_evm (deployed 9 demo_ledger) [demo_new] =
    \<lparr>this = 9, swaps = (\<lambda>_. INVALID)(7 := PENDING), logs = [New 7 1 1 110 120 0 50],
     balances = demo_ledger(0 := (demo_ledger 0)(3 := 30, 9 := 50))\<rparr>"
  by (simp add: run_txs_def apply_tx_def demo_new_def newSwap_def deployed_def demo_ledger_def move_def
      Let_def add_overflows_def set_stage_def emit_def fun_eq_iff)

section \<open>Properties of the contract\<close>

text \<open>
  C3: in every state the contract can reach, each swap has gone through the stages in order:
  its events in the log are none, or New, or New and Ready, or one of these followed by exactly one
  final Claimed or Refunded event, and its stage is the one these events say. So a swap is created
  at most once, and is claimed or refunded at most once and never both.
\<close>

theorem swap_history:
  fixes E a l ts i
  defines "c \<equiv> run_txs E (deployed a l) ts"
  shows "(swaps c i = INVALID \<and> history i (logs c) = []) \<or>
    (\<exists>ck rk t1 t2 b v.
       (swaps c i = PENDING \<and> history i (logs c) = [New i ck rk t1 t2 b v]) \<or>
       (swaps c i = READY \<and> history i (logs c) = [New i ck rk t1 t2 b v, Ready i]) \<or>
       (swaps c i = COMPLETED \<and> (\<exists>s fin. (fin = Claimed i s \<or> fin = Refunded i s) \<and>
          (history i (logs c) = [New i ck rk t1 t2 b v, fin] \<or>
           history i (logs c) = [New i ck rk t1 t2 b v, Ready i, fin]))))"
proof -
  have "stage_path i (swaps c i) (history i (logs c))"
    using run_follows_stages [of E a l ts] by (simp add: follows_stages_def c_def)
  then show ?thesis by (rule stage_path_shape)
qed

text \<open>
  C4: the contract is solvent. In every state reached by a sequence of transactions, none sent by
  the contract itself, whose swaps do not collide under the hash and whose tokens move what they are
  asked to, the contract holds of every asset at least the sum of the amounts of the swaps in that
  asset that are neither claimed nor refunded.
\<close>

theorem solvency:
  assumes "standard_tokens E" "inj_on (swapID_of E) (tx_swap ` set ts)"
    and "\<forall>t\<in>set ts. sender (tx_msg t) \<noteq> a"
  shows "owed (run_txs E (deployed a l) ts) b \<le> balances (run_txs E (deployed a l) ts) b a"
  using run_solvent [of E ts a l] assms by (auto simp: solvent_def)

theorem solvency_witness:
  "owed (run_txs demo_evm (deployed 9 demo_ledger) [demo_new]) 0 = 50 \<and>
   owed (run_txs demo_evm (deployed 9 demo_ledger) [demo_new]) 0
     \<le> balances (run_txs demo_evm (deployed 9 demo_ledger) [demo_new]) 0 9"
proof
  show "owed (run_txs demo_evm (deployed 9 demo_ledger) [demo_new]) 0 = 50"
    by (simp add: demo_new_run owed_def)
  show "owed (run_txs demo_evm (deployed 9 demo_ledger) [demo_new]) 0
     \<le> balances (run_txs demo_evm (deployed 9 demo_ledger) [demo_new]) 0 9"
    by (rule solvency) simp_all
qed

text \<open>What an uncompleted swap locks is in the contract.\<close>

lemma uncompleted_held:
  assumes "standard_tokens E" "inj_on (swapID_of E) (tx_swap ` set ts)" "\<forall>t\<in>set ts. sender (tx_msg t) \<noteq> a"
    and "c = run_txs E (deployed a l) ts" "s \<in> tx_swap ` set ts"
    and "swaps c (swapID_of E s) = PENDING \<or> swaps c (swapID_of E s) = READY"
  shows "unat (amount s) \<le> balances c (asset s) a" and "this c = a"
proof -
  have sol: "solvent E (tx_swap ` set ts) c" "this c = a"
    using run_solvent [of E ts a l] assms(1-4) by auto
  then show "this c = a" by simp
  have "unat (amount s) \<le> owed c (asset s)"
    using owed_completed [OF sol(1) assms(2,5,6), of "Refunded (swapID_of E s) 0" "asset s"] by simp
  also have "\<dots> \<le> balances c (asset s) a" using sol by (simp add: solvent_def)
  finally show "unat (amount s) \<le> balances c (asset s) a" .
qed

text \<open>What an uncompleted swap whose amount the contract holds pays to the party entitled to it.\<close>

lemma refund_pays:
  assumes "unat (amount s) \<le> balances c (asset s) (this c)"
    and "swaps c (swapID_of E s) = PENDING \<or> swaps c (swapID_of E s) = READY"
    and "asset s = 0" "sender m = owner s" "owner s \<noteq> this c" "timeout2 s \<le> timestamp m"
    and "mulVerify E secret (refundCommitment s)" "accepts_ether E (owner s) (unat (amount s))"
  shows "\<exists>c'. refund E c m s secret = Inr c' \<and>
    balances c' 0 (owner s) = balances c 0 (owner s) + unat (amount s)"
proof -
  let ?c1 = "set_stage (swapID_of E s) COMPLETED (emit (Refunded (swapID_of E s) secret) c)"
  obtain l' where l': "move (balances c) 0 (this c) (owner s) (unat (amount s)) = Some l'"
    using assms(1,3) by (auto simp: move_def Let_def)
  then have "pay E ?c1 0 (owner s) (unat (amount s)) = Inr (?c1\<lparr>balances := l'\<rparr>)"
    using assms(8) by (simp add: pay_def ether_transfer_def)
  then have "refund E c m s secret = Inr (?c1\<lparr>balances := l'\<rparr>)"
    using assms(2-4,6,7) by (auto simp: refund_iff)
  moreover have "l' 0 (owner s) = balances c 0 (owner s) + unat (amount s)"
    using move_Some(4) [OF l'] assms(5) by simp
  ultimately show ?thesis by auto
qed

lemma claim_pays:
  assumes "unat (amount s) \<le> balances c (asset s) (this c)"
    and "swaps c (swapID_of E s) = READY \<or> swaps c (swapID_of E s) = PENDING \<and> timeout1 s \<le> timestamp m"
    and "asset s = 0" "sender m = claimer s" "claimer s \<noteq> this c" "timestamp m < timeout2 s"
    and "mulVerify E secret (claimCommitment s)" "accepts_ether E (claimer s) (unat (amount s))"
  shows "\<exists>c'. claim E c m s secret = Inr c' \<and>
    balances c' 0 (claimer s) = balances c 0 (claimer s) + unat (amount s)"
proof -
  let ?c1 = "set_stage (swapID_of E s) COMPLETED (emit (Claimed (swapID_of E s) secret) c)"
  obtain l' where l': "move (balances c) 0 (this c) (claimer s) (unat (amount s)) = Some l'"
    using assms(1,3) by (auto simp: move_def Let_def)
  then have "pay E ?c1 0 (claimer s) (unat (amount s)) = Inr (?c1\<lparr>balances := l'\<rparr>)"
    using assms(8) by (simp add: pay_def ether_transfer_def)
  moreover have "claim_internal E c m s secret = Inr ?c1"
    using assms(2,6,7) by (auto simp: claim_internal_iff)
  ultimately have "claim E c m s secret = Inr (?c1\<lparr>balances := l'\<rparr>)"
    using assms(3,4) by (simp add: claim_def)
  moreover have "l' 0 (claimer s) = balances c 0 (claimer s) + unat (amount s)"
    using move_Some(4) [OF l'] assms(5) by simp
  ultimately show ?thesis by auto
qed





text \<open>
  C11: the claim and refund windows overlap in one point only. If in the same state and at the same
  block timestamp both a claim and a refund of a swap would succeed, then the swap is pending and
  the timestamp is exactly timeout 1.
\<close>

theorem claim_refund_windows:
  assumes "claim E c m s secret = Inr c1" "refund E c m' s secret' = Inr c2"
    and "timestamp m' = timestamp m"
  shows "swaps c (swapID_of E s) = PENDING \<and> timestamp m = timeout1 s"
proof -
  obtain c0 where "claim_internal E c m s secret = Inr c0"
    using assms(1) by (auto simp: claim_def split: if_splits sum.splits)
  with assms(2,3) show ?thesis by (auto simp: claim_internal_iff refund_iff)
qed

theorem claim_refund_windows_witness:
  "\<exists>c1 c2. claim demo_evm (run_txs demo_evm (deployed 9 demo_ledger) [demo_new])
        (demo_msg 5 0 110) demo_swap 4 = Inr c1 \<and>
     refund demo_evm (run_txs demo_evm (deployed 9 demo_ledger) [demo_new])
        (demo_msg 3 0 110) demo_swap 4 = Inr c2 \<and>
     swaps (run_txs demo_evm (deployed 9 demo_ledger) [demo_new]) (swapID_of demo_evm demo_swap) = PENDING \<and>
     timestamp (demo_msg 5 0 110) = timeout1 demo_swap"
proof -
  let ?c = "run_txs demo_evm (deployed 9 demo_ledger) [demo_new]"
  obtain c1 where c1: "claim demo_evm ?c (demo_msg 5 0 110) demo_swap 4 = Inr c1"
    by (simp add: demo_new_run claim_def claim_internal_def Let_def verifySecret_def pay_def
        ether_transfer_def move_def set_stage_def emit_def)
  obtain c2 where c2: "refund demo_evm ?c (demo_msg 3 0 110) demo_swap 4 = Inr c2"
    by (simp add: demo_new_run refund_def Let_def verifySecret_def pay_def
        ether_transfer_def move_def set_stage_def emit_def)
  show ?thesis using claim_refund_windows [OF c1 c2] c1 c2 by simp
qed

text \<open>
  C12: an event reveals a valid secret. Every Claimed event in a reachable log carries a secret that
  verifies against the claim commitment of a swap with that identifier, and every Refunded event one
  that verifies against the refund commitment; this is what lets the counterparty learn the key
  share it needs on the other chain.
\<close>

theorem logged_secrets:
  "secrets_verified E (tx_swap ` set ts) (run_txs E (deployed a l) ts)"
  by (rule run_secrets_verified)

end
