(* ===== verification/Mcrypto.thy ===== *)
theory Mcrypto
  imports Go_Prelude
begin

text \<open>
  Keys and addresses (packages \<open>crypto/monero\<close>, \<open>crypto/secp256k1\<close>, \<open>dleq\<close>) and the key handling
  shared by both parties (\<open>protocol/common.go\<close>, \<open>GetClaimKeypair\<close> of \<open>protocol/claim_monero.go\<close>).
  Scalars and points of ed25519 are represented by their canonical 32-byte encodings; the curve
  arithmetic, Keccak-256 and the proof system are code outside the repository and are the fields of
  the record \<^term>\<open>K\<close>.
\<close>

section \<open>Keys\<close>

record crypt =
  ed_SetCanonicalBytes :: "bytes \<Rightarrow> bytes result"
  ed_ScalarBaseMult :: "bytes \<Rightarrow> bytes"
  ed_PointSetBytes :: "bytes \<Rightarrow> bytes result"
  ed_PointAdd :: "bytes \<Rightarrow> bytes \<Rightarrow> bytes"
  ed_ScalarAdd :: "bytes \<Rightarrow> bytes \<Rightarrow> bytes"
  Keccak256 :: "bytes \<Rightarrow> hash"
  dleq_Check :: "bytes \<Rightarrow> ((nat \<times> nat) \<times> bytes) result"

type_synonym PrivateSpendKey = bytes
type_synonym PrivateViewKey = bytes
type_synonym PublicKey = bytes

record PrivateKeyPair =
  SpendKey :: PrivateSpendKey
  ViewKey :: PrivateViewKey

record PublicKeyPair =
  PubSpendKey :: PublicKey
  PubViewKey :: PublicKey

definition errInvalidInput :: goerr where
  "errInvalidInput = Sentinel ''errInvalidInput'' ''input is not 32 bytes''"

definition privateKeySize :: nat where
  "privateKeySize = 32"

definition NewPrivateKeyPair ::
    "PrivateSpendKey option \<Rightarrow> PrivateViewKey option \<Rightarrow> PrivateKeyPair outcome" where
  "NewPrivateKeyPair sk vk =
     (case (sk, vk) of
        (Some s, Some v) \<Rightarrow> Ok \<lparr>SpendKey = s, ViewKey = v\<rparr>
      | _ \<Rightarrow> Panic ''NewPrivateKeyPair requires a key pair'')"

definition NewPrivateKeyPairFromBytes :: "crypt \<Rightarrow> bytes \<Rightarrow> bytes \<Rightarrow> PrivateKeyPair result" where
  "NewPrivateKeyPairFromBytes K skBytes vkBytes =
     (if length skBytes \<noteq> privateKeySize \<or> length vkBytes \<noteq> privateKeySize then Inl errInvalidInput
      else case ed_SetCanonicalBytes K skBytes of
        Inl e \<Rightarrow> Inl e
      | Inr sk \<Rightarrow> (case ed_SetCanonicalBytes K vkBytes of
            Inl e \<Rightarrow> Inl e
          | Inr vk \<Rightarrow> Inr \<lparr>SpendKey = sk, ViewKey = vk\<rparr>))"

definition NewPrivateSpendKey :: "crypt \<Rightarrow> bytes \<Rightarrow> PrivateSpendKey result" where
  "NewPrivateSpendKey K b =
     (if length b \<noteq> privateKeySize then Inl errInvalidInput else ed_SetCanonicalBytes K b)"

definition Public :: "crypt \<Rightarrow> bytes \<Rightarrow> PublicKey" where
  "Public K k = ed_ScalarBaseMult K k"

definition PublicKeyPair_of :: "crypt \<Rightarrow> PrivateKeyPair \<Rightarrow> PublicKeyPair" where
  "PublicKeyPair_of K kp = \<lparr>PubSpendKey = Public K (SpendKey kp), PubViewKey = Public K (ViewKey kp)\<rparr>"

definition NewPublicKeyFromBytes :: "crypt \<Rightarrow> bytes \<Rightarrow> PublicKey result" where
  "NewPublicKeyFromBytes K b = ed_PointSetBytes K b"

definition NewPublicKeyPair :: "PublicKey \<Rightarrow> PublicKey \<Rightarrow> PublicKeyPair" where
  "NewPublicKeyPair sk vk = \<lparr>PubSpendKey = sk, PubViewKey = vk\<rparr>"

text \<open>\<open>big.Int.SetBytes\<close> and \<open>big.Int.Bytes\<close>: big endian, without leading zeros.\<close>

definition be_nat :: "bytes \<Rightarrow> nat" where
  "be_nat bs = foldl (\<lambda>a b. a * 256 + unat b) 0 bs"

fun be_bytes :: "nat \<Rightarrow> bytes" where
  "be_bytes n = (if n = 0 then [] else be_bytes (n div 256) @ [of_nat (n mod 256)])"

declare be_bytes.simps [simp del]

definition curveOrder :: nat where
  "curveOrder = 0x1000000000000000000000000000000014def9dea2f79cd65812631a5cf5d3ed"

definition scReduce32 :: "hash \<Rightarrow> bytes" where
  "scReduce32 s =
     (let scalar = be_nat (Reverse (hash_bytes s));
          reduced = Reverse (be_bytes (scalar mod curveOrder)) in
      take 32 (reduced @ replicate 32 0))"

definition View :: "crypt \<Rightarrow> PrivateSpendKey \<Rightarrow> PrivateViewKey result" where
  "View K k = ed_SetCanonicalBytes K (scReduce32 (Keccak256 K k))"

definition AsPrivateKeyPair :: "crypt \<Rightarrow> PrivateSpendKey \<Rightarrow> PrivateKeyPair result" where
  "AsPrivateKeyPair K k =
     (case View K k of Inl e \<Rightarrow> Inl e | Inr vk \<Rightarrow> Inr \<lparr>SpendKey = k, ViewKey = vk\<rparr>)"

definition SumPublicKeys :: "crypt \<Rightarrow> PublicKey \<Rightarrow> PublicKey \<Rightarrow> PublicKey" where
  "SumPublicKeys K a b = ed_PointAdd K a b"

definition SumSpendAndViewKeys :: "crypt \<Rightarrow> PublicKeyPair \<Rightarrow> PublicKeyPair \<Rightarrow> PublicKeyPair" where
  "SumSpendAndViewKeys K a b =
     \<lparr>PubSpendKey = SumPublicKeys K (PubSpendKey a) (PubSpendKey b),
      PubViewKey = SumPublicKeys K (PubViewKey a) (PubViewKey b)\<rparr>"

definition SumPrivateSpendKeys :: "crypt \<Rightarrow> PrivateSpendKey \<Rightarrow> PrivateSpendKey \<Rightarrow> PrivateSpendKey" where
  "SumPrivateSpendKeys K a b = ed_ScalarAdd K a b"

definition SumPrivateViewKeys :: "crypt \<Rightarrow> PrivateViewKey \<Rightarrow> PrivateViewKey \<Rightarrow> PrivateViewKey" where
  "SumPrivateViewKeys K a b = ed_ScalarAdd K a b"

text \<open>The keys \<open>NewPrivateKeyPair\<close> gets here are never nil.\<close>

definition GetClaimKeypair :: "crypt \<Rightarrow> PrivateSpendKey \<Rightarrow> PrivateSpendKey \<Rightarrow>
    PrivateViewKey \<Rightarrow> PrivateViewKey \<Rightarrow> PrivateKeyPair" where
  "GetClaimKeypair K skA skB vkA vkB =
     (let skAB = SumPrivateSpendKeys K skA skB; vkAB = SumPrivateViewKeys K vkA vkB in
      \<lparr>SpendKey = skAB, ViewKey = vkAB\<rparr>)"

section \<open>Secp256k1 keys and discrete-log equality proofs\<close>

record Secp256k1PublicKey =
  secp_x :: hash
  secp_y :: hash

text \<open>A coordinate of more than 32 bytes is a slice-bounds panic.\<close>

definition NewPublicKeyFromBigInt :: "nat \<Rightarrow> nat \<Rightarrow> Secp256k1PublicKey outcome" where
  "NewPublicKeyFromBigInt x y =
     (if x \<ge> 2 ^ 256 \<or> y \<ge> 2 ^ 256 then Panic ''slice bounds out of range''
      else Ok \<lparr>secp_x = of_nat x, secp_y = of_nat y\<rparr>)"

definition Secp256k1_Bytes :: "Secp256k1PublicKey \<Rightarrow> bytes" where
  "Secp256k1_Bytes k = hash_bytes (secp_x k) @ hash_bytes (secp_y k)"

definition Secp256k1_Keccak256 :: "crypt \<Rightarrow> Secp256k1PublicKey \<Rightarrow> hash" where
  "Secp256k1_Keccak256 K k = Keccak256 K (Secp256k1_Bytes k)"

record Proof =
  proof_secret :: bytes
  proof_data :: bytes

definition NewProofWithoutSecret :: "bytes \<Rightarrow> Proof" where
  "NewProofWithoutSecret p = \<lparr>proof_secret = replicate 32 0, proof_data = p\<rparr>"

definition Proof_Secret :: "Proof \<Rightarrow> bytes" where
  "Proof_Secret p = Reverse (proof_secret p)"

record VerifyResult =
  Secp256k1PublicKey_of :: Secp256k1PublicKey
  Ed25519PublicKey :: PublicKey

text \<open>
  \<open>GoDLEq.Verify\<close>: \<open>dleq_Check\<close> stands for deserialising and verifying the proof and parsing its
  secp256k1 commitment; it gives the coordinates of that point and the encoding of the other one.
\<close>

definition GoDLEq_Verify :: "crypt \<Rightarrow> Proof \<Rightarrow> VerifyResult outcome" where
  "GoDLEq_Verify K p =
     (case dleq_Check K (proof_data p) of
        Inl e \<Rightarrow> Err e
      | Inr ((x, y), b) \<Rightarrow>
          obind (NewPublicKeyFromBigInt x y) (\<lambda>secp.
          case NewPublicKeyFromBytes K b of
            Inl e \<Rightarrow> Err e
          | Inr ed \<Rightarrow> Ok \<lparr>Secp256k1PublicKey_of = secp, Ed25519PublicKey = ed\<rparr>))"

record KeysAndProof =
  DLEqProof :: Proof
  KP_Secp256k1PublicKey :: Secp256k1PublicKey
  KP_PrivateKeyPair :: PrivateKeyPair
  KP_PublicKeyPair :: PublicKeyPair

text \<open>\<open>GenerateKeysAndProof\<close>; what \<open>Prove\<close> generated is an argument.\<close>

definition GenerateKeysAndProof :: "crypt \<Rightarrow> Proof result \<Rightarrow> KeysAndProof outcome" where
  "GenerateKeysAndProof K proved =
     (case proved of
        Inl e \<Rightarrow> Err e
      | Inr prf \<Rightarrow>
          obind (GoDLEq_Verify K prf) (\<lambda>res.
          case NewPrivateSpendKey K (Reverse (Proof_Secret prf)) of
            Inl e \<Rightarrow> Err (Wrapf ''failed to create private spend key: '' e [])
          | Inr sk \<Rightarrow> (case AsPrivateKeyPair K sk of
              Inl e \<Rightarrow> Err e
            | Inr kp \<Rightarrow> Ok \<lparr>DLEqProof = prf, KP_Secp256k1PublicKey = Secp256k1PublicKey_of res,
                 KP_PrivateKeyPair = kp, KP_PublicKeyPair = PublicKeyPair_of K kp\<rparr>)))"

definition errInvalidSecp256k1Key :: goerr where
  "errInvalidSecp256k1Key = Sentinel ''errInvalidSecp256k1Key''
     ''secp256k1 public key resulting from proof verification does not match key sent''"

definition errInvalidEd25519Key :: goerr where
  "errInvalidEd25519Key = Sentinel ''errInvalidEd25519Key''
     ''ed25519 public key resulting from proof verification does not match key sent''"

definition VerifyKeysAndProof ::
    "crypt \<Rightarrow> bytes \<Rightarrow> Secp256k1PublicKey \<Rightarrow> PublicKey \<Rightarrow> VerifyResult outcome" where
  "VerifyKeysAndProof K proofData secp256k1Pub ed25519Pub =
     obind (GoDLEq_Verify K (NewProofWithoutSecret proofData)) (\<lambda>res.
     if Secp256k1_Bytes (Secp256k1PublicKey_of res) \<noteq> Secp256k1_Bytes secp256k1Pub
     then Err errInvalidSecp256k1Key
     else if Ed25519PublicKey res \<noteq> ed25519Pub then Err errInvalidEd25519Key
     else Ok \<lparr>Secp256k1PublicKey_of = secp256k1Pub, Ed25519PublicKey = ed25519Pub\<rparr>)"

section \<open>Monero addresses\<close>

datatype Environment = Undefined | Mainnet | Stagenet | Development | Bootnode

datatype Network = NetMainnet | NetStagenet | NetTestnet

datatype AddressType = Standard | Subaddress

text \<open>The decoded form of an address: prefix, spend key, view key and checksum, 69 bytes.\<close>

type_synonym MoneroAddress = bytes

definition netPrefixStdAddrMainnet :: byte where "netPrefixStdAddrMainnet = 18"
definition netPrefixSubAddrMainnet :: byte where "netPrefixSubAddrMainnet = 42"
definition netPrefixStdAddrStagenet :: byte where "netPrefixStdAddrStagenet = 24"
definition netPrefixSubAddrStagenet :: byte where "netPrefixSubAddrStagenet = 36"
definition netPrefixStdAddrTestnet :: byte where "netPrefixStdAddrTestnet = 53"
definition netPrefixSubAddrTestnet :: byte where "netPrefixSubAddrTestnet = 63"

lemmas netPrefix_defs = netPrefixStdAddrMainnet_def netPrefixSubAddrMainnet_def
  netPrefixStdAddrStagenet_def netPrefixSubAddrStagenet_def netPrefixStdAddrTestnet_def
  netPrefixSubAddrTestnet_def

definition errAddressNotInitialized :: goerr where
  "errAddressNotInitialized = Sentinel ''errAddressNotInitialized'' ''monero address is not initialized''"

definition errChecksumMismatch :: goerr where
  "errChecksumMismatch = Sentinel ''errChecksumMismatch'' ''invalid address checksum''"

definition errInvalidPrefixGotMainnet :: goerr where
  "errInvalidPrefixGotMainnet = Sentinel ''errInvalidPrefixGotMainnet''
     ''invalid monero address: expected stagenet, got mainnet''"

definition errInvalidPrefixGotStagenet :: goerr where
  "errInvalidPrefixGotStagenet = Sentinel ''errInvalidPrefixGotStagenet''
     ''invalid monero address: expected mainnet, got stagenet''"

definition errInvalidPrefixGotTestnet :: goerr where
  "errInvalidPrefixGotTestnet = Sentinel ''errInvalidPrefixGotTestnet''
     ''invalid monero address: monero testnet not yet supported''"

definition Address_Network :: "MoneroAddress \<Rightarrow> Network outcome" where
  "Address_Network a =
     (if a ! 0 = netPrefixStdAddrMainnet \<or> a ! 0 = netPrefixSubAddrMainnet then Ok NetMainnet
      else if a ! 0 = netPrefixStdAddrStagenet \<or> a ! 0 = netPrefixSubAddrStagenet then Ok NetStagenet
      else if a ! 0 = netPrefixStdAddrTestnet \<or> a ! 0 = netPrefixSubAddrTestnet then Ok NetTestnet
      else Panic ''address has invalid network prefix'')"

definition Address_Type :: "MoneroAddress \<Rightarrow> AddressType outcome" where
  "Address_Type a =
     (if a ! 0 = netPrefixStdAddrMainnet \<or> a ! 0 = netPrefixStdAddrStagenet \<or>
         a ! 0 = netPrefixStdAddrTestnet then Ok Standard
      else if a ! 0 = netPrefixSubAddrTestnet \<or> a ! 0 = netPrefixSubAddrStagenet \<or>
         a ! 0 = netPrefixSubAddrMainnet then Ok Subaddress
      else Panic ''address has invalid network prefix'')"

definition getChecksum :: "crypt \<Rightarrow> bytes \<Rightarrow> bytes" where
  "getChecksum K data = take 4 (hash_bytes (Keccak256 K data))"

definition validateDecoded :: "crypt \<Rightarrow> MoneroAddress \<Rightarrow> goerr option" where
  "validateDecoded K a =
     (if getChecksum K (take 65 a) \<noteq> take 4 (drop 65 a) then Some errChecksumMismatch
      else if a ! 0 = netPrefixStdAddrMainnet \<or> a ! 0 = netPrefixSubAddrMainnet \<or>
         a ! 0 = netPrefixStdAddrStagenet \<or> a ! 0 = netPrefixSubAddrStagenet \<or>
         a ! 0 = netPrefixStdAddrTestnet \<or> a ! 0 = netPrefixSubAddrTestnet then None
      else Some (Errorf ''monero address has unknown network prefix %d''))"

definition Address_Equal :: "MoneroAddress \<Rightarrow> MoneroAddress option \<Rightarrow> bool" where
  "Address_Equal a b = (case b of None \<Rightarrow> False | Some b' \<Rightarrow> a = b')"

definition ValidateEnv :: "MoneroAddress option \<Rightarrow> Environment \<Rightarrow> unit outcome" where
  "ValidateEnv a env =
     (case a of
        None \<Rightarrow> Err errAddressNotInitialized
      | Some a \<Rightarrow>
          if a = replicate 69 0 then Err errAddressNotInitialized
          else obind (Address_Network a) (\<lambda>n. case n of
              NetMainnet \<Rightarrow> if env \<noteq> Mainnet \<and> env \<noteq> Development then Err errInvalidPrefixGotMainnet else Ok ()
            | NetStagenet \<Rightarrow> if env \<noteq> Stagenet then Err errInvalidPrefixGotStagenet else Ok ()
            | NetTestnet \<Rightarrow> Err errInvalidPrefixGotTestnet))"

text \<open>\<open>copy(dst[i:j], src)\<close> into a zeroed array: at most \<open>n\<close> bytes, the rest stays zero.\<close>

definition copy_n :: "nat \<Rightarrow> bytes \<Rightarrow> bytes" where
  "copy_n n src = take n (src @ replicate n 0)"

definition PublicKeyPair_Address :: "crypt \<Rightarrow> Environment \<Rightarrow> PublicKeyPair \<Rightarrow> MoneroAddress outcome" where
  "PublicKeyPair_Address K env kp =
     obind (case env of
        Mainnet \<Rightarrow> Ok netPrefixStdAddrMainnet
      | Development \<Rightarrow> Ok netPrefixStdAddrMainnet
      | Stagenet \<Rightarrow> Ok netPrefixStdAddrStagenet
      | _ \<Rightarrow> Panic ''unhandled env'') (\<lambda>prefix.
     let body = [prefix] @ copy_n 32 (PubSpendKey kp) @ copy_n 32 (PubViewKey kp) in
     Ok (body @ getChecksum K body))"

section \<open>Properties\<close>

text \<open>Scalar multiplication of the base point is a homomorphism.\<close>

definition base_mult_law :: "crypt \<Rightarrow> bool" where
  "base_mult_law K \<longleftrightarrow> (\<forall>a b. ed_ScalarBaseMult K (ed_ScalarAdd K a b) =
     ed_PointAdd K (ed_ScalarBaseMult K a) (ed_ScalarBaseMult K b))"

lemma copy_n_full: "length bs = n \<Longrightarrow> copy_n n bs = bs"
  by (simp add: copy_n_def)

lemma length_getChecksum [simp]: "length (getChecksum K b) = 4"
  by (simp add: getChecksum_def)

lemma le_value_append:
  "be_nat (rev (xs @ ys)) = be_nat (rev xs) + 256 ^ length xs * be_nat (rev ys)"
proof -
  have fold: "foldl (\<lambda>a b. a * 256 + unat b) c bs = c * 256 ^ length bs + be_nat bs"
    for c and bs :: bytes
  proof (induction bs arbitrary: c)
    case Nil
    then show ?case by (simp add: be_nat_def)
  next
    case (Cons b bs)
    show ?case
      using Cons [of "c * 256 + unat b"] Cons [of "unat b"]
      by (simp add: be_nat_def algebra_simps)
  qed
  show ?thesis
    using fold [of "be_nat (rev ys)" "rev xs"] by (simp add: be_nat_def algebra_simps)
qed

lemma be_nat_snoc: "be_nat (bs @ [b]) = be_nat bs * 256 + unat b"
  by (simp add: be_nat_def)

lemma be_nat_be_bytes: "be_nat (be_bytes n) = n"
proof (induction n rule: be_bytes.induct)
  case (1 n)
  show ?case
  proof (cases "n = 0")
    case True
    then show ?thesis by (simp add: be_bytes.simps be_nat_def)
  next
    case False
    have "unat (of_nat (n mod 256) :: byte) = n mod 256" by (simp add: unat_of_nat)
    with False 1 show ?thesis
      by (simp add: be_bytes.simps [of n] be_nat_snoc)
  qed
qed

lemma length_be_bytes: "n < 256 ^ k \<Longrightarrow> length (be_bytes n) \<le> k"
proof (induction k arbitrary: n)
  case 0
  then show ?case by (simp add: be_bytes.simps)
next
  case (Suc k)
  have "n div 256 < 256 ^ k" using Suc.prems by (simp add: less_mult_imp_div_less mult.commute)
  with Suc.IH show ?case by (simp add: be_bytes.simps [of n])
qed

text \<open>Between 32-byte slices and arrays: \<open>copy(h[:], b)\<close> for a slice of 32 bytes.\<close>

definition bytes_hash :: "bytes \<Rightarrow> hash" where
  "bytes_hash bs = of_nat (be_nat bs)"

lemma be_nat_less: "be_nat bs < 256 ^ length bs"
proof (induction bs rule: rev_induct)
  case (snoc b bs)
  have "unat b < 256" using unsigned_less [where 'a = nat, of b] by simp
  with snoc show ?case by (simp add: be_nat_snoc)
qed (simp add: be_nat_def)

lemma be_nat_inject: "length xs = length ys \<Longrightarrow> be_nat xs = be_nat ys \<longleftrightarrow> xs = ys"
proof (induction xs arbitrary: ys rule: rev_induct)
  case (snoc x xs)
  obtain zs z where ys: "ys = zs @ [z]" "length zs = length xs"
    using snoc.prems by (cases ys rule: rev_cases) auto
  have "unat x < 256" "unat z < 256" using unsigned_less [where 'a = nat, of x] unsigned_less [where 'a = nat, of z] by simp_all
  then have "(be_nat xs * 256 + unat x) div 256 = be_nat xs" "(be_nat xs * 256 + unat x) mod 256 = unat x"
    "(be_nat zs * 256 + unat z) div 256 = be_nat zs" "(be_nat zs * 256 + unat z) mod 256 = unat z"
    by simp_all
  then have "be_nat xs * 256 + unat x = be_nat zs * 256 + unat z \<longleftrightarrow>
      be_nat xs = be_nat zs \<and> unat x = unat z"
    by metis
  moreover have "unat x = unat z \<longleftrightarrow> x = z" using unsigned_word_eqI by blast
  ultimately show ?case using snoc.IH [of zs] ys by (simp add: be_nat_snoc)
qed simp

lemma be_nat_hash_bytes: "be_nat (hash_bytes h) = unat h"
proof -
  have "be_nat (map (\<lambda>i. ucast (drop_bit (8 * (31 - i)) h)) [0..<k]) = unat h div 256 ^ (32 - k)"
    if "k \<le> 32" for k
    using that
  proof (induction k)
    case 0
    have "unat h < 2 ^ 256" using unsigned_less [where 'a = nat, of h] by simp
    then show ?case by (simp add: be_nat_def)
  next
    case (Suc k)
    let ?n = "unat h div 256 ^ (31 - k)"
    have "unat (ucast (drop_bit (8 * (31 - k)) h) :: byte) = (unat h div 2 ^ (8 * (31 - k))) mod 256"
      by (simp add: unsigned_ucast_eq unat_drop_bit_eq take_bit_eq_mod flip: drop_bit_eq_div)
    also have "(2 :: nat) ^ (8 * (31 - k)) = 256 ^ (31 - k)"
      by (simp add: power_mult)
    finally have b: "unat (ucast (drop_bit (8 * (31 - k)) h) :: byte) = ?n mod 256" .
    have "32 - k = Suc (31 - k)" using Suc.prems by simp
    then have "unat h div 256 ^ (32 - k) = ?n div 256"
      by (simp only: power_Suc2 div_mult2_eq)
    then show ?case using Suc b by (simp add: be_nat_snoc)
  qed
  from this [of 32] show ?thesis by (simp add: hash_bytes_def)
qed

lemma bytes_hash_hash_bytes [simp]: "bytes_hash (hash_bytes h) = h"
  by (simp add: bytes_hash_def be_nat_hash_bytes)

lemma hash_bytes_bytes_hash: "length bs = 32 \<Longrightarrow> hash_bytes (bytes_hash bs) = bs"
proof -
  assume len: "length bs = 32"
  have "be_nat bs < 2 ^ 256" using be_nat_less [of bs] len by simp
  then have "be_nat (hash_bytes (bytes_hash bs)) = be_nat bs"
    by (simp add: be_nat_hash_bytes bytes_hash_def unat_of_nat)
  with len show ?thesis by (simp add: be_nat_inject)
qed

lemma be_nat_zeros: "be_nat (replicate n 0) = 0"
  by (induction n) (simp_all add: be_nat_def)

text \<open>
  The reduction used for view keys is the remainder modulo the curve order. The little-endian
  value of the 32 result bytes is the little-endian value of the input modulo the order, so the
  result is always a canonical scalar.
\<close>

theorem scReduce32_mod:
  "length (scReduce32 s) = 32 \<and>
   be_nat (rev (scReduce32 s)) = be_nat (rev (hash_bytes s)) mod curveOrder"
proof -
  let ?n = "be_nat (rev (hash_bytes s)) mod curveOrder"
  let ?r = "rev (be_bytes ?n)"
  have "?n < curveOrder" by (simp add: curveOrder_def)
  also have "curveOrder < 256 ^ 32" by (simp add: curveOrder_def)
  finally have len: "length ?r \<le> 32" using length_be_bytes by simp
  then have eq: "scReduce32 s = ?r @ replicate (32 - length ?r) 0"
    by (simp add: scReduce32_def Let_def Reverse_eq_rev)
  have "be_nat (rev (?r @ replicate (32 - length ?r) 0)) = ?n"
    unfolding le_value_append [of ?r] by (simp add: be_nat_be_bytes be_nat_zeros)
  with len eq show ?thesis by simp
qed


text \<open>A group in which the law holds: byte strings with componentwise addition.\<close>

definition demo_crypt :: crypt where
  "demo_crypt = \<lparr>ed_SetCanonicalBytes = Inr, ed_ScalarBaseMult = (\<lambda>b. b), ed_PointSetBytes = Inr,
     ed_PointAdd = map2 (+), ed_ScalarAdd = map2 (+), Keccak256 = (\<lambda>b. of_nat (be_nat b)),
     dleq_Check = (\<lambda>b. Inr ((be_nat b, be_nat b), b))\<rparr>"


lemma PublicKeyPair_Address_Ok:
  assumes "length (PubSpendKey kp) = 32" "length (PubViewKey kp) = 32"
    and "env = Mainnet \<or> env = Stagenet \<or> env = Development"
  obtains prefix where
    "prefix = (if env = Stagenet then netPrefixStdAddrStagenet else netPrefixStdAddrMainnet)"
    "PublicKeyPair_Address K env kp = Ok ((prefix # PubSpendKey kp @ PubViewKey kp) @
       getChecksum K (prefix # PubSpendKey kp @ PubViewKey kp))"
  using assms by (auto simp: PublicKeyPair_Address_def Let_def copy_n_full)

text \<open>
  The address of a key pair is well formed and determines the keys. In every environment a
  daemon runs in, the computed address passes the checksum and prefix validation, is a standard
  address valid for that environment, and two key pairs have the same address only if they are the
  same.
\<close>

lemma address_valid_injective:
  assumes "env = Mainnet \<or> env = Stagenet \<or> env = Development"
    and "length (PubSpendKey kp) = 32" "length (PubViewKey kp) = 32"
    and "length (PubSpendKey kp') = 32" "length (PubViewKey kp') = 32"
  shows "\<exists>a. PublicKeyPair_Address K env kp = Ok a \<and> length a = 69 \<and>
    validateDecoded K a = None \<and> ValidateEnv (Some a) env = Ok () \<and> Address_Type a = Ok Standard \<and>
    (PublicKeyPair_Address K env kp' = Ok a \<longleftrightarrow> kp' = kp)"
proof -
  obtain p where p: "p = (if env = Stagenet then netPrefixStdAddrStagenet else netPrefixStdAddrMainnet)"
    and a: "PublicKeyPair_Address K env kp = Ok ((p # PubSpendKey kp @ PubViewKey kp) @
       getChecksum K (p # PubSpendKey kp @ PubViewKey kp))"
    using PublicKeyPair_Address_Ok [OF assms(2,3,1), of K] by blast
  obtain p' where p': "p' = (if env = Stagenet then netPrefixStdAddrStagenet else netPrefixStdAddrMainnet)"
    and a': "PublicKeyPair_Address K env kp' = Ok ((p' # PubSpendKey kp' @ PubViewKey kp') @
       getChecksum K (p' # PubSpendKey kp' @ PubViewKey kp'))"
    using PublicKeyPair_Address_Ok [OF assms(4,5,1), of K] by blast
  let ?body = "p # PubSpendKey kp @ PubViewKey kp"
  have len: "length ?body = 65" using assms by simp
  have "p \<noteq> 0" by (simp add: p netPrefix_defs)
  then have "?body @ getChecksum K ?body \<noteq> replicate 69 0"
    by (metis Cons_eq_appendI list.sel(1) hd_replicate zero_neq_numeral)
  moreover have "validateDecoded K (?body @ getChecksum K ?body) = None"
    using len by (auto simp: validateDecoded_def p)
  moreover have "Address_Network (?body @ getChecksum K ?body) =
      Ok (if env = Stagenet then NetStagenet else NetMainnet)"
    "Address_Type (?body @ getChecksum K ?body) = Ok Standard"
    by (auto simp: Address_Network_def Address_Type_def p netPrefix_defs)
  moreover have "PublicKeyPair_Address K env kp' = Ok (?body @ getChecksum K ?body) \<longleftrightarrow> kp' = kp"
  proof
    assume eq: "PublicKeyPair_Address K env kp' = Ok (?body @ getChecksum K ?body)"
    then have "PubSpendKey kp' @ PubViewKey kp' = PubSpendKey kp @ PubViewKey kp"
      using a' assms by (simp add: p p')
    then show "kp' = kp" using assms by (simp add: append_eq_append_conv)
  qed (use a in simp)
  ultimately show ?thesis
    using a len assms(1) by (auto simp: ValidateEnv_def)
qed

lemma address_valid_injective_example:
  "\<exists>a. PublicKeyPair_Address demo_crypt Stagenet \<lparr>PubSpendKey = replicate 32 1, PubViewKey = replicate 32 2\<rparr> = Ok a \<and>
    length a = 69 \<and> validateDecoded demo_crypt a = None \<and> ValidateEnv (Some a) Stagenet = Ok () \<and>
    Address_Type a = Ok Standard \<and>
    (PublicKeyPair_Address demo_crypt Stagenet \<lparr>PubSpendKey = replicate 32 3, PubViewKey = replicate 32 2\<rparr> = Ok a \<longleftrightarrow>
     \<lparr>PubSpendKey = replicate 32 3, PubViewKey = replicate 32 2\<rparr> =
       \<lparr>PubSpendKey = replicate 32 (1::byte), PubViewKey = replicate 32 2\<rparr>)"
  by (rule address_valid_injective) simp_all

end
