(* ===== verification/Eth_Contracts.thy ===== *)
theory Eth_Contracts
  imports Swap_Creator Mcrypto
begin

text \<open>
  The Go side of the contract (\<open>ethereum/utils.go\<close>, the event checks of \<open>protocol/utils.go\<close> and the
  swap structs of the generated bindings): the swap identifier, the hash a claimer signs for a
  relayer, and the reading of event logs. \<open>*big.Int\<close> fields are unbounded integers. The ABI encoder,
  Keccak-256 and the event topics come from go-ethereum and the parsed ABI: they are the fields of
  the record \<^term>\<open>G\<close>.
\<close>

section \<open>Data\<close>

record SwapCreatorSwap =
  Owner :: address
  Claimer :: address
  ClaimCommitment :: hash
  RefundCommitment :: hash
  Timeout1 :: int
  Timeout2 :: int
  Asset :: address
  Value :: int
  Nonce :: int

record SwapCreatorRelaySwap =
  RelaySwap_Swap :: SwapCreatorSwap
  Fee :: int
  RelayerHash :: hash
  SwapCreator :: address

datatype abi_value = AbiAddress address | AbiBytes32 hash | AbiUint256 int

record Log =
  Log_Address :: address
  Topics :: "hash list"
  Data :: bytes
  Removed :: bool

record ethlib =
  abi_Pack :: "abi_value list \<Rightarrow> bytes result"
  Keccak256Hash :: "bytes \<Rightarrow> hash"
  claimedTopic :: hash
  refundedTopic :: hash
  readyTopic :: hash
  newTopic :: hash
  abi_Unpack_New :: "bytes \<Rightarrow> abi_value list result"

section \<open>Operations\<close>

definition StageInvalid :: byte where "StageInvalid = 0"
definition StagePending :: byte where "StagePending = 1"
definition StageReady :: byte where "StageReady = 2"
definition StageCompleted :: byte where "StageCompleted = 3"

lemmas Stage_defs = StageInvalid_def StagePending_def StageReady_def StageCompleted_def

definition StageToString :: "byte \<Rightarrow> string" where
  "StageToString stage =
     (if stage = StageInvalid then ''Invalid''
      else if stage = StagePending then ''Pending''
      else if stage = StageReady then ''Ready''
      else if stage = StageCompleted then ''Completed''
      else ''UnknownStageValue(%d)'')"

definition swap_args :: "SwapCreatorSwap \<Rightarrow> abi_value list" where
  "swap_args s =
     [AbiAddress (Owner s), AbiAddress (Claimer s), AbiBytes32 (ClaimCommitment s),
      AbiBytes32 (RefundCommitment s), AbiUint256 (Timeout1 s), AbiUint256 (Timeout2 s),
      AbiAddress (Asset s), AbiUint256 (Value s), AbiUint256 (Nonce s)]"

definition SwapID :: "ethlib \<Rightarrow> SwapCreatorSwap \<Rightarrow> hash outcome" where
  "SwapID G s =
     (case abi_Pack G (swap_args s) of
        Inl e \<Rightarrow> Panic (''failed to pack arguments: '' @ error_text e)
      | Inr args \<Rightarrow> Ok (Keccak256Hash G args))"

definition RelaySwap_Hash :: "ethlib \<Rightarrow> SwapCreatorRelaySwap \<Rightarrow> hash outcome" where
  "RelaySwap_Hash G s =
     (case abi_Pack G (swap_args (RelaySwap_Swap s) @
          [AbiUint256 (Fee s), AbiBytes32 (RelayerHash s), AbiAddress (SwapCreator s)]) of
        Inl e \<Rightarrow> Panic (''failed to pack arguments: '' @ error_text e)
      | Inr args \<Rightarrow> Ok (Keccak256Hash G args))"

definition GetSecretFromLog :: "ethlib \<Rightarrow> crypt \<Rightarrow> Log \<Rightarrow> hash \<Rightarrow> PrivateSpendKey result" where
  "GetSecretFromLog G K lg eventTopic =
     (if eventTopic \<noteq> claimedTopic G \<and> eventTopic \<noteq> refundedTopic G
      then Inl (Errorf ''invalid event, must be one of Claimed or Refunded'')
      else if length (Topics lg) < 3 then Inl (Errorf ''log had not enough parameters'')
      else
        let s = Topics lg ! 2 in
        if s = 0 then Inl (Errorf ''got zero secret key from contract'')
        else NewPrivateSpendKey K (Reverse (hash_bytes s)))"

definition CheckIfLogIDMatches :: "ethlib \<Rightarrow> Log \<Rightarrow> hash \<Rightarrow> hash \<Rightarrow> bool result" where
  "CheckIfLogIDMatches G lg eventTopic i =
     (if eventTopic \<noteq> claimedTopic G \<and> eventTopic \<noteq> refundedTopic G
      then Inl (Errorf ''invalid event, must be one of Claimed or Refunded'')
      else if length (Topics lg) < 2 then Inl (Errorf ''log had not enough parameters'')
      else Inr (hash_bytes (Topics lg ! 1) = hash_bytes i))"

text \<open>
  \<open>GetIDFromLog\<close> and \<open>GetTimeoutsFromLog\<close>: reading topic 0 of a log without topics, or a result of
  another type than asserted, panics.
\<close>

definition GetIDFromLog :: "ethlib \<Rightarrow> Log \<Rightarrow> hash outcome" where
  "GetIDFromLog G lg =
     (if Topics lg = [] then Panic ''index out of range''
      else if Topics lg ! 0 \<noteq> newTopic G then Err (Errorf ''wrong log topic'')
      else case abi_Unpack_New G (Data lg) of
        Inl e \<Rightarrow> Err e
      | Inr res \<Rightarrow>
          (case res of
             [] \<Rightarrow> Err (Errorf ''log didn't have enough parameters'')
           | AbiBytes32 i # _ \<Rightarrow> Ok i
           | _ \<Rightarrow> Panic ''interface conversion''))"

definition GetTimeoutsFromLog :: "ethlib \<Rightarrow> Log \<Rightarrow> (int \<times> int) outcome" where
  "GetTimeoutsFromLog G lg =
     (if Topics lg = [] then Panic ''index out of range''
      else if Topics lg ! 0 \<noteq> newTopic G then Err (Errorf ''wrong log topic'')
      else case abi_Unpack_New G (Data lg) of
        Inl e \<Rightarrow> Err e
      | Inr res \<Rightarrow>
          if length res < 5 then Err (Errorf ''log didn't have enough parameters'')
          else (case (res ! 3, res ! 4) of
             (AbiUint256 t1, AbiUint256 t2) \<Rightarrow> Ok (t1, t2)
           | _ \<Rightarrow> Panic ''interface conversion''))"

definition errLogMissingParams :: goerr where
  "errLogMissingParams = Sentinel ''errLogMissingParams'' ''log didn't have enough topics''"

definition errInvalidEventTopic :: goerr where
  "errInvalidEventTopic =
     Sentinel ''errInvalidEventTopic'' ''log did not have correct event as first topic''"

definition ErrLogNotForUs :: goerr where
  "ErrLogNotForUs = Sentinel ''ErrLogNotForUs'' ''found log that isn't for our swap''"

definition CheckSwapID :: "Log \<Rightarrow> hash \<Rightarrow> hash \<Rightarrow> goerr option" where
  "CheckSwapID lg eventNameTopic contractSwapID =
     (if length (Topics lg) < 2 then Some errLogMissingParams
      else if Topics lg ! 0 \<noteq> eventNameTopic then Some errInvalidEventTopic
      else if Topics lg ! 1 \<noteq> contractSwapID then Some ErrLogNotForUs
      else None)"

lemma CheckSwapID_None:
  "CheckSwapID lg t i = None \<longleftrightarrow> length (Topics lg) \<ge> 2 \<and> Topics lg ! 0 = t \<and> Topics lg ! 1 = i"
  by (auto simp: CheckSwapID_def not_less)

section \<open>Agreement with the contract\<close>

text \<open>The contract's view of a swap: the numbers reduced to 256 bits.\<close>

definition contract_swap :: "SwapCreatorSwap \<Rightarrow> Swap" where
  "contract_swap s =
     \<lparr>owner = Owner s, claimer = Claimer s, claimCommitment = ClaimCommitment s,
      refundCommitment = RefundCommitment s, timeout1 = of_int (Timeout1 s),
      timeout2 = of_int (Timeout2 s), asset = Asset s, amount = of_int (Value s),
      nonce = of_int (Nonce s)\<rparr>"

definition contract_relay_swap :: "SwapCreatorRelaySwap \<Rightarrow> RelaySwap" where
  "contract_relay_swap r =
     \<lparr>swap_of = contract_swap (RelaySwap_Swap r), fee = of_int (Fee r),
      relayerHash = RelayerHash r, swapCreator = SwapCreator r\<rparr>"

text \<open>The ABI specification for static arguments: each value is padded to 32 bytes.\<close>

primrec abi_encode_value :: "abi_value \<Rightarrow> bytes" where
  "abi_encode_value (AbiAddress a) = abi_word a"
| "abi_encode_value (AbiBytes32 h) = hash_bytes h"
| "abi_encode_value (AbiUint256 n) = hash_bytes (of_int n)"

primrec abi_in_range :: "abi_value \<Rightarrow> bool" where
  "abi_in_range (AbiAddress a) = True"
| "abi_in_range (AbiBytes32 h) = True"
| "abi_in_range (AbiUint256 n) = (0 \<le> n \<and> n < 2 ^ 256)"

definition abi_Pack_law :: "ethlib \<Rightarrow> bool" where
  "abi_Pack_law G \<longleftrightarrow>
     (\<forall>vs. list_all abi_in_range vs \<longrightarrow> abi_Pack G vs = Inr (concat (map abi_encode_value vs)))"

lemma abi_word_256 [simp]: "abi_word (w :: 256 word) = hash_bytes w"
  by (simp add: abi_word_def)

lemma contract_hashes:
  assumes "abi_Pack_law G" "Keccak256Hash G = keccak256 E"
    and "\<forall>n\<in>{Timeout1 s, Timeout2 s, Value s, Nonce s, Fee r}. 0 \<le> n \<and> n < 2 ^ 256"
    and "RelaySwap_Swap r = s"
  shows "SwapID G s = Ok (swapID_of E (contract_swap s)) \<and>
    RelaySwap_Hash G r = Ok (keccak256 E (abi_encode_RelaySwap (contract_relay_swap r)))"
proof -
  have "abi_Pack G (swap_args s) = Inr (concat (map abi_encode_value (swap_args s)))"
    "abi_Pack G (swap_args s @ [AbiUint256 (Fee r), AbiBytes32 (RelayerHash r), AbiAddress (SwapCreator r)]) =
      Inr (concat (map abi_encode_value (swap_args s @
        [AbiUint256 (Fee r), AbiBytes32 (RelayerHash r), AbiAddress (SwapCreator r)])))"
    using assms(1,3) by (simp_all add: abi_Pack_law_def swap_args_def)
  then show ?thesis
    using assms(2,4)
    by (simp add: SwapID_def RelaySwap_Hash_def swap_args_def swapID_of_def abi_encode_Swap_def
        contract_swap_def contract_relay_swap_def abi_encode_RelaySwap_def)
qed

text \<open>
  C37: the daemon and the contract agree on swap identifiers. For a swap whose numbers fit 256 bits,
  the identifier the Go code computes is the one under which the contract stores the swap's stage,
  and likewise the hash of a relay swap is the one whose signature \<open>claimRelayer\<close> checks.
\<close>

theorem SwapID_agrees:
  assumes "abi_Pack_law G" "Keccak256Hash G = keccak256 E"
    and "\<forall>n\<in>{Timeout1 s, Timeout2 s, Value s, Nonce s, Fee r}. 0 \<le> n \<and> n < 2 ^ 256"
    and "RelaySwap_Swap r = s"
  shows "SwapID G s = Ok (swapID_of E (contract_swap s)) \<and>
    RelaySwap_Hash G r = Ok (keccak256 E (abi_encode_RelaySwap (contract_relay_swap r)))"
  by (rule contract_hashes [OF assms])

text \<open>A go-ethereum instance that follows the specification, over a given hash function.\<close>

definition demo_eth :: "(bytes \<Rightarrow> hash) \<Rightarrow> ethlib" where
  "demo_eth h = \<lparr>abi_Pack = (\<lambda>vs. Inr (concat (map abi_encode_value vs))), Keccak256Hash = h,
     claimedTopic = 101, refundedTopic = 102, readyTopic = 103, newTopic = 104,
     abi_Unpack_New = (\<lambda>b. Inr [])\<rparr>"

definition demo_go_swap :: SwapCreatorSwap where
  "demo_go_swap = \<lparr>Owner = 3, Claimer = 5, ClaimCommitment = 1, RefundCommitment = 1,
     Timeout1 = 110, Timeout2 = 120, Asset = 0, Value = 50, Nonce = 0\<rparr>"

theorem SwapID_agrees_witness:
  "SwapID (demo_eth (keccak256 demo_evm)) demo_go_swap =
     Ok (swapID_of demo_evm (contract_swap demo_go_swap)) \<and>
   RelaySwap_Hash (demo_eth (keccak256 demo_evm))
       \<lparr>RelaySwap_Swap = demo_go_swap, Fee = 1, RelayerHash = 2, SwapCreator = 9\<rparr> =
     Ok (keccak256 demo_evm (abi_encode_RelaySwap (contract_relay_swap
       \<lparr>RelaySwap_Swap = demo_go_swap, Fee = 1, RelayerHash = 2, SwapCreator = 9\<rparr>)))"
  by (rule SwapID_agrees) (simp_all add: abi_Pack_law_def demo_eth_def demo_go_swap_def)

text \<open>The log entry of a contract event with indexed arguments.\<close>

primrec event_topics :: "ethlib \<Rightarrow> event \<Rightarrow> hash list" where
  "event_topics G (New i ck rk t1 t2 a v) = [newTopic G]"
| "event_topics G (Ready i) = [readyTopic G, i]"
| "event_topics G (Claimed i s) = [claimedTopic G, i, s]"
| "event_topics G (Refunded i s) = [refundedTopic G, i, s]"

text \<open>
  C38: a key share survives the trip through the contract. When a party reveals its private spend
  key, byte-reversed, as the secret of a claim or refund, the other party reads exactly that key
  back from the event's log, for every non-zero 32-byte key that is a canonical scalar.
\<close>

theorem secret_roundtrip:
  assumes "length sk = 32" "ed_SetCanonicalBytes K sk = Inr sk" "bytes_hash (Reverse sk) \<noteq> 0"
    and "Topics lg = event_topics G (Claimed i (bytes_hash (Reverse sk))) \<and> t = claimedTopic G \<or>
         Topics lg = event_topics G (Refunded i (bytes_hash (Reverse sk))) \<and> t = refundedTopic G"
  shows "GetSecretFromLog G K lg t = Inr sk \<and> CheckSwapID lg t i = None \<and>
    CheckIfLogIDMatches G lg t i = Inr True"
  using assms(4)
  by (elim disjE conjE)
    (use assms(1-3) in \<open>simp_all add: GetSecretFromLog_def CheckSwapID_def CheckIfLogIDMatches_def
      NewPrivateSpendKey_def privateKeySize_def Reverse_eq_rev hash_bytes_bytes_hash\<close>)

theorem secret_roundtrip_witness:
  "GetSecretFromLog (demo_eth (\<lambda>_. 0)) demo_crypt
     \<lparr>Log_Address = 9, Topics = [101, 7, bytes_hash (Reverse (1 # replicate 31 0))], Data = [], Removed = False\<rparr> 101 =
     Inr (1 # replicate 31 0) \<and>
   CheckSwapID \<lparr>Log_Address = 9, Topics = [101, 7, bytes_hash (Reverse (1 # replicate 31 0))], Data = [], Removed = False\<rparr> 101 7 = None \<and>
   CheckIfLogIDMatches (demo_eth (\<lambda>_. 0))
     \<lparr>Log_Address = 9, Topics = [101, 7, bytes_hash (Reverse (1 # replicate 31 0))], Data = [], Removed = False\<rparr> 101 7 = Inr True"
  by (rule secret_roundtrip)
    (simp_all add: demo_crypt_def demo_eth_def bytes_hash_def Reverse_eq_rev be_nat_snoc be_nat_zeros)

end
