(* ===== verification/Database.thy ===== *)
theory Database
  imports Swap_Manager Offer_Manager Eth_Contracts
begin

text \<open>
  The daemon's database (package \<open>db\<close>): the offer and swap tables of \<open>database.go\<close> and the recovery
  table of \<open>recovery_db.go\<close>, over the key-value store \<^term>\<open>C\<close> and the codecs \<^term>\<open>Z\<close>. Each function
  is a computation on the store's state. The swap table interprets the interface \<open>swap_database\<close> of
  the swap manager, the offer table the interface \<open>offer_database\<close> of the offer manager.
\<close>

section \<open>Data\<close>

record EthereumSwapInfo =
  StartNumber :: int
  EthInfo_SwapID :: hash
  EthInfo_Swap :: SwapCreatorSwap
  SwapCreatorAddr :: address

record counterpartyKeys =
  PublicSpendKey :: PublicKey
  PrivateViewKey_of :: PrivateViewKey

record codecs =
  z_lib :: lib
  z_apd :: apd
  z_version :: "bytes \<Rightarrow> string option result"
  z_offer :: "Offer codec"
  z_info :: "Info codec"
  z_extra :: "OfferExtra codec"
  z_ethinfo :: "EthereumSwapInfo codec"
  z_spendkey :: "PrivateSpendKey codec"
  z_cpkeys :: "counterpartyKeys codec"

definition offerPrefix :: string where "offerPrefix = ''offer''"
definition swapPrefix :: string where "swapPrefix = ''swap''"
definition recoveryPrefix :: string where "recoveryPrefix = ''recv''"

lemma prefixes_distinct [simp]:
  "offerPrefix \<noteq> swapPrefix" "swapPrefix \<noteq> offerPrefix" "offerPrefix \<noteq> recoveryPrefix"
  "recoveryPrefix \<noteq> offerPrefix" "swapPrefix \<noteq> recoveryPrefix" "recoveryPrefix \<noteq> swapPrefix"
  by (simp_all add: offerPrefix_def swapPrefix_def recoveryPrefix_def)

section \<open>database.go\<close>

definition Database_Close :: "'k chaindb \<Rightarrow> ('k, unit) go" where
  "Database_Close C =
     andthen (cd_Close C offerPrefix)
       (andthen (cd_Close C swapPrefix) (cd_Close C recoveryPrefix))"

text \<open>\<open>PutOffer\<close> returns the offer as the validation during marshalling left it.\<close>

definition PutOffer :: "'k chaindb \<Rightarrow> codecs \<Rightarrow> Offer \<Rightarrow> ('k, Offer) go" where
  "PutOffer C Z off =
     bnd (lift (vjson_MarshalOffer (z_lib Z) (z_apd Z) (z_offer Z) off)) (\<lambda>(off', val).
     andthen (cd_Put C offerPrefix (hash_bytes (ID off)) val)
       (andthen (cd_Flush C offerPrefix) (ret off')))"

definition DeleteOffer :: "'k chaindb \<Rightarrow> hash \<Rightarrow> ('k, unit) go" where
  "DeleteOffer C i = cd_Del C offerPrefix (hash_bytes i)"

definition decode_offer :: "codecs \<Rightarrow> bytes \<Rightarrow> Offer outcome" where
  "decode_offer Z val = UnmarshalOffer (z_lib Z) (z_apd Z) (z_version Z) (z_offer Z) val"

definition GetOffer :: "'k chaindb \<Rightarrow> codecs \<Rightarrow> hash \<Rightarrow> ('k, Offer) go" where
  "GetOffer C Z i =
     bnd (cd_Get C offerPrefix (hash_bytes i)) (\<lambda>val. lift (decode_offer Z val))"

definition purgeInvalidOffer :: "'k chaindb \<Rightarrow> bytes \<Rightarrow> ('k, unit) go" where
  "purgeInvalidOffer C i =
     andthen (cd_Del C offerPrefix i)
       (bnd (attempt (cd_Get C swapPrefix i)) (\<lambda>r.
        case r of
          Inl err \<Rightarrow> if errors_Is (Some ErrKeyNotFound) (Some err) then ret () else fail err
        | Inr _ \<Rightarrow> cd_Del C swapPrefix i))"

fun collect_offers :: "'k chaindb \<Rightarrow> codecs \<Rightarrow> (bytes \<times> bytes) list \<Rightarrow> ('k, Offer list) go" where
  "collect_offers C Z [] = ret []"
| "collect_offers C Z ((i, encodedOffer) # rest) =
     (if length i > idLength then ret []
      else case decode_offer Z encodedOffer of
          Err e \<Rightarrow> andthen (purgeInvalidOffer C i) (collect_offers C Z rest)
        | Ok off \<Rightarrow> bnd (collect_offers C Z rest) (\<lambda>offers. ret (off # offers))
        | Panic p \<Rightarrow> panic p
        | Block \<Rightarrow> block)"

definition GetAllOffers :: "'k chaindb \<Rightarrow> codecs \<Rightarrow> ('k, Offer list) go" where
  "GetAllOffers C Z = bnd (gets (cd_Iter C offerPrefix)) (collect_offers C Z)"

primrec delete_all :: "'k chaindb \<Rightarrow> (bytes \<times> bytes) list \<Rightarrow> ('k, unit) go" where
  "delete_all C [] = ret ()"
| "delete_all C (e # rest) = andthen (cd_Del C offerPrefix (fst e)) (delete_all C rest)"

definition ClearAllOffers :: "'k chaindb \<Rightarrow> ('k, unit) go" where
  "ClearAllOffers C = bnd (gets (cd_Iter C offerPrefix)) (delete_all C)"

definition PutSwap :: "'k chaindb \<Rightarrow> codecs \<Rightarrow> Info \<Rightarrow> ('k, unit) go" where
  "PutSwap C Z s =
     bnd (lift (of_result (MarshalStruct (z_info Z) s))) (\<lambda>val.
     andthen (cd_Put C swapPrefix (hash_bytes (OfferID s)) val) (cd_Flush C swapPrefix))"

definition HasSwap :: "'k chaindb \<Rightarrow> hash \<Rightarrow> ('k, bool) go" where
  "HasSwap C i = cd_Has C swapPrefix (hash_bytes i)"

text \<open>\<open>vjson.UnmarshalStruct\<close> on an \<open>Info\<close> goes through its \<open>UnmarshalJSON\<close> and validates once more.\<close>

definition decode_info :: "codecs \<Rightarrow> bytes \<Rightarrow> Info result" where
  "decode_info Z val = UnmarshalInfo (z_lib Z) (z_version Z) (z_info Z) val"

definition GetSwap :: "'k chaindb \<Rightarrow> codecs \<Rightarrow> hash \<Rightarrow> ('k, Info) go" where
  "GetSwap C Z i =
     bnd (cd_Get C swapPrefix (hash_bytes i)) (\<lambda>val.
     case decode_info Z val of
       Inl e \<Rightarrow> fail e
     | Inr s \<Rightarrow> (case validate_Struct (z_info Z) s of Some e \<Rightarrow> fail e | None \<Rightarrow> ret s))"

fun collect_swaps :: "'k chaindb \<Rightarrow> codecs \<Rightarrow> (bytes \<times> bytes) list \<Rightarrow> ('k, Info list) go" where
  "collect_swaps C Z [] = ret []"
| "collect_swaps C Z ((i, encodedSwap) # rest) =
     (if length i > idLength then ret []
      else case decode_info Z encodedSwap of
          Inl e \<Rightarrow> andthen (cd_Del C swapPrefix i) (collect_swaps C Z rest)
        | Inr s \<Rightarrow> bnd (collect_swaps C Z rest) (\<lambda>swaps. ret (s # swaps)))"

definition GetAllSwaps :: "'k chaindb \<Rightarrow> codecs \<Rightarrow> ('k, Info list) go" where
  "GetAllSwaps C Z = bnd (gets (cd_Iter C swapPrefix)) (collect_swaps C Z)"

section \<open>recovery\_db.go\<close>

definition contractSwapInfoPrefix :: string where "contractSwapInfoPrefix = ''ethinfo''"
definition swapPrivateKeyPrefix :: string where "swapPrivateKeyPrefix = ''privkey''"
definition counterpartySwapPrivateKeyPrefix :: string where "counterpartySwapPrivateKeyPrefix = ''cspriv''"
definition relayerInfoPrefix :: string where "relayerInfoPrefix = ''relayer''"
definition counterpartySwapKeysPrefix :: string where "counterpartySwapKeysPrefix = ''cskeys''"
definition newSwapTxHashPrefix :: string where "newSwapTxHashPrefix = ''newswap''"

lemmas recovery_prefix_defs = contractSwapInfoPrefix_def swapPrivateKeyPrefix_def
  counterpartySwapPrivateKeyPrefix_def relayerInfoPrefix_def counterpartySwapKeysPrefix_def
  newSwapTxHashPrefix_def

definition getRecoveryDBKey :: "hash \<Rightarrow> string \<Rightarrow> bytes" where
  "getRecoveryDBKey i additional = hash_bytes i @ string_bytes additional"

text \<open>The two halves every pair of functions of the recovery database shares.\<close>

definition recovery_put :: "'k chaindb \<Rightarrow> bytes \<Rightarrow> bytes \<Rightarrow> ('k, unit) go" where
  "recovery_put C key val = andthen (cd_Put C recoveryPrefix key val) (cd_Flush C recoveryPrefix)"

definition recovery_put_struct :: "'k chaindb \<Rightarrow> 'v codec \<Rightarrow> hash \<Rightarrow> string \<Rightarrow> 'v \<Rightarrow> ('k, unit) go" where
  "recovery_put_struct C J i prefix v =
     bnd (lift (of_result (MarshalStruct J v))) (\<lambda>val. recovery_put C (getRecoveryDBKey i prefix) val)"

definition recovery_get_struct :: "'k chaindb \<Rightarrow> 'v codec \<Rightarrow> hash \<Rightarrow> string \<Rightarrow> ('k, 'v) go" where
  "recovery_get_struct C J i prefix =
     bnd (cd_Get C recoveryPrefix (getRecoveryDBKey i prefix)) (\<lambda>val. lift (of_result (UnmarshalStruct J val)))"

definition PutSwapRelayerInfo :: "'k chaindb \<Rightarrow> codecs \<Rightarrow> hash \<Rightarrow> OfferExtra \<Rightarrow> ('k, unit) go" where
  "PutSwapRelayerInfo C Z i info = recovery_put_struct C (z_extra Z) i relayerInfoPrefix info"

definition GetSwapRelayerInfo :: "'k chaindb \<Rightarrow> codecs \<Rightarrow> hash \<Rightarrow> ('k, OfferExtra) go" where
  "GetSwapRelayerInfo C Z i = recovery_get_struct C (z_extra Z) i relayerInfoPrefix"

definition PutContractSwapInfo :: "'k chaindb \<Rightarrow> codecs \<Rightarrow> hash \<Rightarrow> EthereumSwapInfo \<Rightarrow> ('k, unit) go" where
  "PutContractSwapInfo C Z i info = recovery_put_struct C (z_ethinfo Z) i contractSwapInfoPrefix info"

definition GetContractSwapInfo :: "'k chaindb \<Rightarrow> codecs \<Rightarrow> hash \<Rightarrow> ('k, EthereumSwapInfo) go" where
  "GetContractSwapInfo C Z i = recovery_get_struct C (z_ethinfo Z) i contractSwapInfoPrefix"

definition PutSwapPrivateKey :: "'k chaindb \<Rightarrow> codecs \<Rightarrow> hash \<Rightarrow> PrivateSpendKey \<Rightarrow> ('k, unit) go" where
  "PutSwapPrivateKey C Z i sk = recovery_put_struct C (z_spendkey Z) i swapPrivateKeyPrefix sk"

definition GetSwapPrivateKey :: "'k chaindb \<Rightarrow> codecs \<Rightarrow> hash \<Rightarrow> ('k, PrivateSpendKey) go" where
  "GetSwapPrivateKey C Z i = recovery_get_struct C (z_spendkey Z) i swapPrivateKeyPrefix"

definition PutCounterpartySwapPrivateKey ::
    "'k chaindb \<Rightarrow> codecs \<Rightarrow> hash \<Rightarrow> PrivateSpendKey \<Rightarrow> ('k, unit) go" where
  "PutCounterpartySwapPrivateKey C Z i sk =
     recovery_put_struct C (z_spendkey Z) i counterpartySwapPrivateKeyPrefix sk"

definition GetCounterpartySwapPrivateKey ::
    "'k chaindb \<Rightarrow> codecs \<Rightarrow> hash \<Rightarrow> ('k, PrivateSpendKey) go" where
  "GetCounterpartySwapPrivateKey C Z i =
     recovery_get_struct C (z_spendkey Z) i counterpartySwapPrivateKeyPrefix"

definition PutCounterpartySwapKeys ::
    "'k chaindb \<Rightarrow> codecs \<Rightarrow> hash \<Rightarrow> PublicKey \<Rightarrow> PrivateViewKey \<Rightarrow> ('k, unit) go" where
  "PutCounterpartySwapKeys C Z i sk vk =
     recovery_put_struct C (z_cpkeys Z) i counterpartySwapKeysPrefix
       \<lparr>PublicSpendKey = sk, PrivateViewKey_of = vk\<rparr>"

definition GetCounterpartySwapKeys ::
    "'k chaindb \<Rightarrow> codecs \<Rightarrow> hash \<Rightarrow> ('k, PublicKey \<times> PrivateViewKey) go" where
  "GetCounterpartySwapKeys C Z i =
     bnd (recovery_get_struct C (z_cpkeys Z) i counterpartySwapKeysPrefix) (\<lambda>info.
     ret (PublicSpendKey info, PrivateViewKey_of info))"

definition PutNewSwapTxHash :: "'k chaindb \<Rightarrow> hash \<Rightarrow> hash \<Rightarrow> ('k, unit) go" where
  "PutNewSwapTxHash C i txHash =
     recovery_put C (getRecoveryDBKey i newSwapTxHashPrefix) (hash_bytes txHash)"

definition GetNewSwapTxHash :: "'k chaindb \<Rightarrow> hash \<Rightarrow> ('k, hash) go" where
  "GetNewSwapTxHash C i =
     bnd (cd_Get C recoveryPrefix (getRecoveryDBKey i newSwapTxHashPrefix)) (\<lambda>val.
     ret (bytes_hash (copy_n 32 val)))"

text \<open>The exported \<open>DeleteSwap\<close> does nothing; the unexported \<open>deleteSwap\<close> is not called.\<close>

definition DeleteSwap :: "hash \<Rightarrow> ('k, unit) go" where
  "DeleteSwap i = ret ()"

primrec delete_keys :: "'k chaindb \<Rightarrow> bytes list \<Rightarrow> ('k, unit) go" where
  "delete_keys C [] = ret ()"
| "delete_keys C (key # keys) = andthen (cd_Del C recoveryPrefix key) (delete_keys C keys)"

definition deleteSwap_unused :: "'k chaindb \<Rightarrow> hash \<Rightarrow> ('k, unit) go" where
  "deleteSwap_unused C i = delete_keys C
     [getRecoveryDBKey i relayerInfoPrefix, getRecoveryDBKey i contractSwapInfoPrefix,
      getRecoveryDBKey i swapPrivateKeyPrefix, getRecoveryDBKey i counterpartySwapPrivateKeyPrefix,
      getRecoveryDBKey i counterpartySwapKeysPrefix, getRecoveryDBKey i newSwapTxHashPrefix]"

definition recovery_close :: "'k chaindb \<Rightarrow> ('k, unit) go" where
  "recovery_close C = cd_Close C recoveryPrefix"

section \<open>The swap table implements the manager's interface\<close>

definition swap_ops :: "'k chaindb \<Rightarrow> codecs \<Rightarrow> 'k swapdb" where
  "swap_ops C Z = \<lparr>sdb_PutSwap = PutSwap C Z, sdb_HasSwap = HasSwap C, sdb_GetSwap = GetSwap C Z,
     sdb_GetAllSwaps = GetAllSwaps C Z\<rparr>"

text \<open>The entries of the swap table that decode.\<close>

definition stored_swap :: "'k chaindb \<Rightarrow> codecs \<Rightarrow> 'k \<Rightarrow> hash \<Rightarrow> Info option" where
  "stored_swap C Z k h = (case content C k swapPrefix (hash_bytes h) of
     None \<Rightarrow> None | Some v \<Rightarrow> (case decode_info Z v of Inl e \<Rightarrow> None | Inr i \<Rightarrow> Some i))"

text \<open>
  The store and the codec keep their laws, every key of the swap table is an identifier, and an entry
  that decodes is stored under its own identifier.
\<close>

definition swap_invar :: "'k chaindb \<Rightarrow> codecs \<Rightarrow> 'k \<Rightarrow> bool" where
  "swap_invar C Z k \<longleftrightarrow> chaindb_laws C \<and> info_codec_law (z_version Z) (z_info Z) \<and>
     (\<forall>key v. content C k swapPrefix key = Some v \<longrightarrow> (\<exists>h. key = hash_bytes h)) \<and>
     (\<forall>h i. stored_swap C Z k h = Some i \<longrightarrow> OfferID i = h)"

lemma stored_swap_cong:
  "content C k' swapPrefix = content C k swapPrefix \<Longrightarrow> stored_swap C Z k' = stored_swap C Z k"
  by (simp add: fun_eq_iff stored_swap_def)

lemma swap_invar_cong:
  "content C k' swapPrefix = content C k swapPrefix \<Longrightarrow> swap_invar C Z k' = swap_invar C Z k"
  by (simp add: swap_invar_def stored_swap_cong [of C k' k])

lemma stored_swap_put:
  assumes "content C k' = (content C k)(swapPrefix := (content C k swapPrefix)(hash_bytes h \<mapsto> v))"
    and "decode_info Z v = Inr i"
  shows "stored_swap C Z k' = (stored_swap C Z k)(h \<mapsto> i)"
  using assms by (simp add: fun_eq_iff stored_swap_def)

lemma swap_invar_put:
  assumes "swap_invar C Z k" "OfferID i = h" "decode_info Z v = Inr i"
    and "content C k' = (content C k)(swapPrefix := (content C k swapPrefix)(hash_bytes h \<mapsto> v))"
  shows "swap_invar C Z k'"
  using assms unfolding swap_invar_def stored_swap_put [OF assms(4,3)]
  by (auto split: if_splits)

lemma PutSwap_wp:
  assumes "swap_invar C Z k" "storable (z_lib Z) i"
  shows "wp (PutSwap C Z i) (\<lambda>r k'. swap_invar C Z k' \<and>
      (r = Ok () \<and> stored_swap C Z k' = (stored_swap C Z k)(OfferID i \<mapsto> i) \<or>
       (\<exists>e. r = Err e) \<and> (stored_swap C Z k' = stored_swap C Z k \<or>
          stored_swap C Z k' = (stored_swap C Z k)(OfferID i \<mapsto> i)))) k"
proof (cases "MarshalStruct (z_info Z) i")
  case (Inl e)
  then show ?thesis using assms(1) by (simp add: PutSwap_def wp_rules)
next
  case (Inr v)
  have laws: "chaindb_laws C" using assms(1) by (simp add: swap_invar_def)
  have dec: "decode_info Z v = Inr i"
    using assms UnmarshalInfo_MarshalStruct [OF _ assms(2) Inr] by (simp add: decode_info_def swap_invar_def)
  show ?thesis
    unfolding PutSwap_def Inr
  proof (simp add: wp_rules, rule wp_Put [OF laws], goal_cases)
    case (1 k')
    note put = 1
    have "swap_invar C Z k'" "stored_swap C Z k' = (stored_swap C Z k)(OfferID i \<mapsto> i)"
      using swap_invar_put [OF assms(1) refl dec put] stored_swap_put [OF put dec] by auto
    note put_ok = this
    show ?case
    proof (simp, rule wp_Flush [OF laws], goal_cases)
      case (1 k'')
      then show ?case
        using put_ok swap_invar_cong [of C k'' k'] stored_swap_cong [of C k'' k'] by simp
    next
      case (2 e k'')
      then show ?case
        using put_ok swap_invar_cong [of C k'' k'] stored_swap_cong [of C k'' k'] by simp
    qed
  next
    case (2 e k')
    then show ?case using assms(1) by (simp add: swap_invar_cong [of C k' k] stored_swap_cong [of C k' k])
  qed
qed

lemma decode_info_valid: "decode_info Z v = Inr i \<Longrightarrow> validate_Struct (z_info Z) i = None"
  by (auto simp: decode_info_def UnmarshalInfo_def Info_UnmarshalJSON_def UnmarshalStruct_def
      split: sum.splits option.splits if_splits)

lemma GetSwap_wp:
  assumes "swap_invar C Z k"
  shows "wp (GetSwap C Z h) (\<lambda>r k'. swap_invar C Z k' \<and> stored_swap C Z k' = stored_swap C Z k \<and>
      (case stored_swap C Z k h of Some i \<Rightarrow> r = Ok i | None \<Rightarrow> \<exists>e. r = Err e)) k"
  unfolding GetSwap_def
proof (simp add: wp_rules, rule wp_Get, goal_cases)
  case 1
  then show ?case using assms by (simp add: swap_invar_def)
next
  case (2 v k')
  then show ?case using assms
    by (auto simp: wp_rules stored_swap_def swap_invar_cong [of C k' k] stored_swap_cong [of C k' k]
        decode_info_valid split: sum.splits)
next
  case (3 k')
  then show ?case using assms
    by (simp add: stored_swap_def swap_invar_cong [of C k' k] stored_swap_cong [of C k' k])
qed

text \<open>Deleting an entry that does not decode changes no stored swap.\<close>

lemma delete_undecodable:
  assumes "swap_invar C Z k" "content C k swapPrefix key = Some v" "decode_info Z v = Inl e"
    and "content C k' = (content C k)(swapPrefix := (content C k swapPrefix)(key := None))"
  shows "swap_invar C Z k' \<and> stored_swap C Z k' = stored_swap C Z k"
proof -
  have "stored_swap C Z k' h = stored_swap C Z k h" for h
    using assms(2-4) by (auto simp: stored_swap_def)
  then have "stored_swap C Z k' = stored_swap C Z k" by blast
  then show ?thesis using assms(1,4) by (auto simp: swap_invar_def split: if_splits)
qed

definition info_of :: "codecs \<Rightarrow> bytes \<Rightarrow> Info option" where
  "info_of Z v = (case decode_info Z v of Inl e \<Rightarrow> None | Inr i \<Rightarrow> Some i)"

abbreviation decoded :: "codecs \<Rightarrow> (bytes \<times> bytes) list \<Rightarrow> Info list" where
  "decoded Z \<equiv> decoded_with (info_of Z)"

lemma info_of_simps [simp]:
  "decode_info Z v = Inl e \<Longrightarrow> info_of Z v = None" "decode_info Z v = Inr i \<Longrightarrow> info_of Z v = Some i"
  "info_of Z v = Some i \<longleftrightarrow> decode_info Z v = Inr i"
  by (simp_all add: info_of_def split: sum.splits)

lemma collect_swaps_wp:
  assumes "swap_invar C Z k" "distinct (map fst es)"
    and "\<And>key v. (key, v) \<in> set es \<Longrightarrow> length key \<le> idLength \<and> content C k swapPrefix key = Some v"
    and "rest = [] \<or> length (fst (hd rest)) > idLength"
  shows "wp (collect_swaps C Z (es @ rest)) (\<lambda>r k'. swap_invar C Z k' \<and>
      stored_swap C Z k' = stored_swap C Z k \<and> (r = Ok (decoded Z es) \<or> (\<exists>e. r = Err e))) k"
  using assms
proof (induction es arbitrary: k)
  case Nil
  then show ?case by (cases rest) (auto simp: wp_rules)
next
  case (Cons e es)
  obtain key v where e: "e = (key, v)" by (cases e)
  have laws: "chaindb_laws C" using Cons.prems(1) by (simp add: swap_invar_def)
  have kv: "\<not> idLength < length key" "content C k swapPrefix key = Some v"
    using Cons.prems(3) [of key v] by (auto simp: e)
  show ?case
  proof (cases "decode_info Z v")
    case (Inr i)
    have "wp (collect_swaps C Z (es @ rest)) (\<lambda>r k'. swap_invar C Z k' \<and>
        stored_swap C Z k' = stored_swap C Z k \<and> (r = Ok (decoded Z es) \<or> (\<exists>e. r = Err e))) k"
      using Cons.prems by (intro Cons.IH) auto
    then have "wp (collect_swaps C Z (es @ rest)) (\<lambda>r k'. case r of
          Ok x \<Rightarrow> swap_invar C Z k' \<and> stored_swap C Z k' = stored_swap C Z k \<and> i # x = decoded Z (e # es)
        | Err er \<Rightarrow> swap_invar C Z k' \<and> stored_swap C Z k' = stored_swap C Z k
        | Panic p \<Rightarrow> False | Block \<Rightarrow> False) k"
      by (rule wp_mono) (auto simp: e Inr)
    then show ?thesis using kv(1) Inr
      by (auto simp: e wp_rules elim!: wp_mono split: outcome.splits)
  next
    case (Inl er)
    have "wp (collect_swaps C Z (es @ rest)) (\<lambda>r k''. swap_invar C Z k'' \<and>
        stored_swap C Z k'' = stored_swap C Z k \<and> (r = Ok (decoded Z (e # es)) \<or> (\<exists>e. r = Err e))) k'"
      if k': "content C k' = (content C k)(swapPrefix := (content C k swapPrefix)(key := None))" for k'
    proof -
      have inv: "swap_invar C Z k'" "stored_swap C Z k' = stored_swap C Z k"
        using delete_undecodable [OF Cons.prems(1) kv(2) Inl k'] by auto
      have "decoded Z (e # es) = decoded Z es" by (simp add: e Inl)
      moreover have "key' \<noteq> key" if "(key', v') \<in> set es" for key' v'
        using Cons.prems(2) that by (force simp: e)
      ultimately show ?thesis
        using Cons.IH [OF inv(1)] Cons.prems(2-4) inv(2) by (fastforce simp: k' e)
    qed
    note after_delete = this
    show ?thesis
    proof (simp add: e Inl kv(1) wp_rules, rule wp_Del [OF laws], goal_cases)
      case (1 k')
      then show ?case using after_delete [of k'] Inl by (simp add: e)
    next
      case (2 er k')
      then show ?case
        using Cons.prems(1) by (simp add: swap_invar_cong [of C k' k] stored_swap_cong [of C k' k])
    qed
  qed
qed

lemma entries_split:
  "xs = takeWhile P xs @ dropWhile P xs \<and> (dropWhile P xs = [] \<or> \<not> P (hd (dropWhile P xs)))"
proof -
  have "\<not> P (hd (dropWhile P xs))" if "dropWhile P xs \<noteq> []"
    using that by (rule hd_dropWhile)
  then show ?thesis by (metis takeWhile_dropWhile_id)
qed

lemma decoded_stored:
  assumes "swap_invar C Z k" "distinct (map fst es)" "map_of es = content C k swapPrefix"
  shows "distinct (map OfferID (decoded Z es))"
    and "i \<in> set (decoded Z es) \<longleftrightarrow> stored_swap C Z k (OfferID i) = Some i"
proof -
  have keyed: "key = hash_bytes (OfferID i)"
    if c: "content C k swapPrefix key = Some v" and i: "info_of Z v = Some i" for key v i
  proof -
    obtain h where h: "key = hash_bytes h" using assms(1) c unfolding swap_invar_def by blast
    with c i have "stored_swap C Z k h = Some i" by (simp add: stored_swap_def)
    with assms(1) h show ?thesis by (simp add: swap_invar_def)
  qed
  show "distinct (map OfferID (decoded Z es))"
    by (rule decoded_with_table(1) [OF assms(2,3)]) (rule keyed)
  show "i \<in> set (decoded Z es) \<longleftrightarrow> stored_swap C Z k (OfferID i) = Some i"
    using decoded_with_table(2) [where dec = "info_of Z" and idf = OfferID and i = i, OF assms(2,3)] keyed
    by (auto simp: stored_swap_def split: option.splits sum.splits)
qed

lemma GetAllSwaps_wp:
  assumes "swap_invar C Z k"
  shows "wp (GetAllSwaps C Z) (\<lambda>r k'. swap_invar C Z k' \<and> stored_swap C Z k' = stored_swap C Z k \<and>
      ((\<exists>is. r = Ok is \<and> distinct (map OfferID is) \<and>
          (\<forall>i. i \<in> set is \<longleftrightarrow> stored_swap C Z k (OfferID i) = Some i)) \<or> (\<exists>e. r = Err e))) k"
proof -
  have laws: "chaindb_laws C" using assms by (simp add: swap_invar_def)
  let ?P = "\<lambda>(key, v). length key \<le> idLength"
  let ?es = "takeWhile ?P (cd_Iter C swapPrefix k)" and ?rest = "dropWhile ?P (cd_Iter C swapPrefix k)"
  have short: "length key \<le> idLength" if "content C k swapPrefix key = Some v" for key v
    using assms that by (auto simp: swap_invar_def idLength_def)
  have es: "distinct (map fst ?es)" "map_of ?es = content C k swapPrefix"
    using Iter_entries [of C k swapPrefix, OF laws short] by auto
  have in_es: "length key \<le> idLength \<and> content C k swapPrefix key = Some v" if "(key, v) \<in> set ?es" for key v
  proof -
    have "map_of ?es key = Some v" using that es(1) by (simp add: map_of_eq_Some_iff)
    then show ?thesis using that es(2) by (auto dest: set_takeWhileD)
  qed
  have "?rest = [] \<or> length (fst (hd ?rest)) > idLength"
    using entries_split [of "cd_Iter C swapPrefix k" ?P] by (auto simp: case_prod_beta not_le)
  from collect_swaps_wp [OF assms es(1) in_es this]
  have "wp (collect_swaps C Z (cd_Iter C swapPrefix k)) (\<lambda>r k'. swap_invar C Z k' \<and>
      stored_swap C Z k' = stored_swap C Z k \<and> (r = Ok (decoded Z ?es) \<or> (\<exists>e. r = Err e))) k"
    by simp
  moreover have "distinct (map OfferID (decoded Z ?es)) \<and>
      (\<forall>i. i \<in> set (decoded Z ?es) \<longleftrightarrow> stored_swap C Z k (OfferID i) = Some i)"
    using decoded_stored [OF assms es] by blast
  ultimately have "wp (collect_swaps C Z (cd_Iter C swapPrefix k)) (\<lambda>r k'. swap_invar C Z k' \<and>
      stored_swap C Z k' = stored_swap C Z k \<and>
      ((\<exists>is. r = Ok is \<and> distinct (map OfferID is) \<and>
          (\<forall>i. i \<in> set is \<longleftrightarrow> stored_swap C Z k (OfferID i) = Some i)) \<or> (\<exists>e. r = Err e))) k"
    by (elim wp_mono) blast
  then show ?thesis by (simp add: GetAllSwaps_def wp_rules)
qed

lemma HasSwap_wp:
  assumes "swap_invar C Z k"
  shows "wp (HasSwap C h) (\<lambda>r k'. swap_invar C Z k' \<and> stored_swap C Z k' = stored_swap C Z k \<and>
      (\<exists>b. r = Ok b \<and> (stored_swap C Z k h \<noteq> None \<longrightarrow> b))) k"
  unfolding HasSwap_def
proof (rule wp_Has, goal_cases)
  case 1
  then show ?case using assms by (simp add: swap_invar_def)
next
  case (2 k')
  then show ?case using assms
    by (auto simp: stored_swap_def swap_invar_cong [of C k' k] stored_swap_cong [of C k' k] split: option.splits)
qed

interpretation swaps_db: swap_database "swap_ops C Z" "swap_invar C Z" "stored_swap C Z" "storable (z_lib Z)"
  for C :: "'k chaindb" and Z :: codecs
proof (unfold_locales, goal_cases)
  case (1 d h i)
  then show ?case by (simp add: swap_invar_def)
next
  case (2 d i)
  then show ?case using PutSwap_wp [of C Z d i] by (simp add: swap_ops_def)
next
  case (3 d h)
  then show ?case using GetSwap_wp [of C Z d h] by (simp add: swap_ops_def)
next
  case (4 d)
  then show ?case using GetAllSwaps_wp [of C Z d] by (simp add: swap_ops_def)
next
  case (5 d h)
  then show ?case using HasSwap_wp [of C Z d h] by (simp add: swap_ops_def)
qed

section \<open>The offer table\<close>

definition offer_ops :: "'k chaindb \<Rightarrow> codecs \<Rightarrow> 'k offerdb" where
  "offer_ops C Z = \<lparr>odb_PutOffer = PutOffer C Z, odb_DeleteOffer = DeleteOffer C,
     odb_GetAllOffers = GetAllOffers C Z, odb_ClearAllOffers = ClearAllOffers C\<rparr>"

definition stored_offer :: "'k chaindb \<Rightarrow> codecs \<Rightarrow> 'k \<Rightarrow> hash \<Rightarrow> Offer option" where
  "stored_offer C Z k h = (case content C k offerPrefix (hash_bytes h) of
     None \<Rightarrow> None | Some v \<Rightarrow> (case decode_offer Z v of Ok off \<Rightarrow> Some off | _ \<Rightarrow> None))"

definition offer_invar :: "'k chaindb \<Rightarrow> codecs \<Rightarrow> 'k \<Rightarrow> bool" where
  "offer_invar C Z k \<longleftrightarrow> chaindb_laws C \<and> offer_codec_law (z_version Z) (z_offer Z) \<and> reduce_law (z_apd Z) \<and>
     (\<forall>key v. content C k offerPrefix key = Some v \<longrightarrow> (\<exists>h. key = hash_bytes h)) \<and>
     (\<forall>h off. stored_offer C Z k h = Some off \<longrightarrow> ID off = h)"

lemma stored_offer_cong:
  "content C k' offerPrefix = content C k offerPrefix \<Longrightarrow> stored_offer C Z k' = stored_offer C Z k"
  by (simp add: fun_eq_iff stored_offer_def)

lemma offer_invar_cong:
  "content C k' offerPrefix = content C k offerPrefix \<Longrightarrow> offer_invar C Z k' = offer_invar C Z k"
  by (simp add: offer_invar_def stored_offer_cong [of C k' k])

lemma stored_offer_put:
  assumes "content C k' = (content C k)(offerPrefix := (content C k offerPrefix)(hash_bytes h \<mapsto> v))"
    and "decode_offer Z v = Ok off"
  shows "stored_offer C Z k' = (stored_offer C Z k)(h \<mapsto> off)"
  using assms by (simp add: fun_eq_iff stored_offer_def)

lemma offer_invar_put:
  assumes "offer_invar C Z k" "ID off = h" "decode_offer Z v = Ok off"
    and "content C k' = (content C k)(offerPrefix := (content C k offerPrefix)(hash_bytes h \<mapsto> v))"
  shows "offer_invar C Z k'"
  using assms unfolding offer_invar_def stored_offer_put [OF assms(4,3)]
  by (auto split: if_splits)

lemma offer_delete:
  assumes "offer_invar C Z k"
    and "content C k' = (content C k)(offerPrefix := (content C k offerPrefix)(key := None))"
  shows "offer_invar C Z k' \<and>
    (\<forall>h. stored_offer C Z k' h = (if key = hash_bytes h then None else stored_offer C Z k h))"
proof -
  have st: "stored_offer C Z k' h = (if key = hash_bytes h then None else stored_offer C Z k h)" for h
    using assms(2) by (auto simp: stored_offer_def)
  moreover have "offer_invar C Z k'"
    using assms unfolding offer_invar_def st by (auto split: if_splits)
  ultimately show ?thesis by blast
qed

lemma PutOffer_wp:
  assumes "offer_invar C Z k" "storable_offer (z_lib Z) off"
  shows "wp (PutOffer C Z off) (\<lambda>r k'. offer_invar C Z k' \<and>
      ((\<exists>off'. r = Ok off' \<and> ID off' = ID off \<and> stored_offer C Z k' = (stored_offer C Z k)(ID off \<mapsto> off')) \<or>
       (\<forall>off'. r \<noteq> Ok off') \<and> (\<forall>h. h \<noteq> ID off \<longrightarrow> stored_offer C Z k' h = stored_offer C Z k h))) k"
proof (cases "vjson_MarshalOffer (z_lib Z) (z_apd Z) (z_offer Z) off")
  case (Ok p)
  obtain off' v where p: "p = (off', v)" by (cases p)
  have laws: "chaindb_laws C" using assms(1) by (simp add: offer_invar_def)
  have "UnmarshalOffer (z_lib Z) (z_apd Z) (z_version Z) (z_offer Z) v = Ok off' \<and> ID off' = ID off"
    using Ok p assms(1)
    by (intro UnmarshalOffer_MarshalOffer [OF _ _ assms(2)]) (simp_all add: offer_invar_def)
  then have dec: "decode_offer Z v = Ok off'" "ID off' = ID off" by (simp_all add: decode_offer_def)
  show ?thesis
    unfolding PutOffer_def Ok p
  proof (simp add: wp_rules, rule wp_Put [OF laws], goal_cases)
    case (1 k')
    have put: "offer_invar C Z k'" "stored_offer C Z k' = (stored_offer C Z k)(ID off \<mapsto> off')"
      using offer_invar_put [OF assms(1) dec(2,1) 1] stored_offer_put [OF 1 dec(1)] by auto
    show ?case
    proof (simp add: wp_rules, rule wp_Flush [OF laws], goal_cases)
      case (1 k'')
      then show ?case
        using put dec offer_invar_cong [of C k'' k'] stored_offer_cong [of C k'' k'] by (simp add: wp_rules)
    next
      case (2 e k'')
      then show ?case
        using put offer_invar_cong [of C k'' k'] stored_offer_cong [of C k'' k'] by simp
    qed
  next
    case (2 e k')
    then show ?case using assms(1) by (simp add: offer_invar_cong [of C k' k] stored_offer_cong [of C k' k])
  qed
qed (use assms(1) in \<open>simp_all add: PutOffer_def wp_rules\<close>)

lemma DeleteOffer_wp:
  assumes "offer_invar C Z k"
  shows "wp (DeleteOffer C h) (\<lambda>r k'. offer_invar C Z k' \<and>
      (r = Ok () \<and> stored_offer C Z k' = (stored_offer C Z k)(h := None) \<or>
       (\<exists>e. r = Err e) \<and> stored_offer C Z k' = stored_offer C Z k)) k"
  unfolding DeleteOffer_def
proof (rule wp_Del, goal_cases)
  case 1
  then show ?case using assms by (simp add: offer_invar_def)
next
  case (2 k')
  then show ?case using offer_delete [OF assms 2] by (auto simp: fun_eq_iff)
next
  case (3 e k')
  then show ?case using assms by (simp add: offer_invar_cong [of C k' k] stored_offer_cong [of C k' k])
qed

text \<open>Purging an entry that does not decode changes no stored offer; it may delete an entry of the swap table.\<close>

lemma purge_wp:
  assumes "offer_invar C Z k" "content C k offerPrefix key = Some v" "\<forall>off. decode_offer Z v \<noteq> Ok off"
  shows "wp (purgeInvalidOffer C key) (\<lambda>r k'. offer_invar C Z k' \<and> stored_offer C Z k' = stored_offer C Z k \<and>
     (r = Ok () \<longrightarrow> content C k' offerPrefix = (content C k offerPrefix)(key := None))) k"
proof -
  have laws: "chaindb_laws C" using assms(1) by (simp add: offer_invar_def)
  have undecodable: "stored_offer C Z k h = None" if "key = hash_bytes h" for h
    using assms(2,3) that by (auto simp: stored_offer_def split: outcome.splits)
  show ?thesis
    unfolding purgeInvalidOffer_def
  proof (simp add: wp_rules, rule wp_Del [OF laws], goal_cases)
    case (1 k1)
    note k1 = 1
    have inv: "offer_invar C Z k1" "stored_offer C Z k1 = stored_offer C Z k"
      using offer_delete [OF assms(1) k1] undecodable by (auto simp: fun_eq_iff)
    have same: "offer_invar C Z k2 \<and> stored_offer C Z k2 = stored_offer C Z k \<and>
        content C k2 offerPrefix = (content C k offerPrefix)(key := None)"
      if "content C k2 offerPrefix = content C k1 offerPrefix" for k2
      using that inv k1 offer_invar_cong [of C k2 k1] stored_offer_cong [of C k2 k1] by simp
    show ?case
    proof (simp add: wp_rules, rule wp_Get [OF laws], goal_cases)
      case (1 w k2)
      show ?case
      proof (simp, rule wp_Del [OF laws], goal_cases)
        case (1 k3)
        then show ?case using same [of k3] \<open>content C k2 = content C k1\<close> by simp
      next
        case (2 e k3)
        then show ?case using same [of k3] \<open>content C k2 = content C k1\<close> by simp
      qed
    next
      case (2 k2)
      then show ?case using same [of k2] by (simp add: wp_rules)
    qed
  next
    case (2 e k')
    then show ?case using assms(1) by (simp add: offer_invar_cong [of C k' k] stored_offer_cong [of C k' k])
  qed
qed

definition offer_of :: "codecs \<Rightarrow> bytes \<Rightarrow> Offer option" where
  "offer_of Z v = (case decode_offer Z v of Ok off \<Rightarrow> Some off | _ \<Rightarrow> None)"

lemma stored_offer_of: "stored_offer C Z k h = Option.bind (content C k offerPrefix (hash_bytes h)) (offer_of Z)"
  by (simp add: stored_offer_def offer_of_def split: option.split)

lemma collect_offers_wp:
  assumes "offer_invar C Z k" "distinct (map fst es)"
    and "\<And>key v. (key, v) \<in> set es \<Longrightarrow> length key \<le> idLength \<and> content C k offerPrefix key = Some v"
    and "rest = [] \<or> length (fst (hd rest)) > idLength"
  shows "wp (collect_offers C Z (es @ rest)) (\<lambda>r k'. offer_invar C Z k' \<and>
      stored_offer C Z k' = stored_offer C Z k \<and> (\<forall>os. r = Ok os \<longrightarrow> os = decoded_with (offer_of Z) es)) k"
  using assms
proof (induction es arbitrary: k)
  case Nil
  then show ?case by (cases rest) (auto simp: wp_rules)
next
  case (Cons e es)
  obtain key v where e: "e = (key, v)" by (cases e)
  have kv: "\<not> idLength < length key" "content C k offerPrefix key = Some v"
    using Cons.prems(3) [of key v] by (auto simp: e)
  show ?case
  proof (cases "decode_offer Z v")
    case (Ok off)
    have "wp (collect_offers C Z (es @ rest)) (\<lambda>r k'. offer_invar C Z k' \<and>
        stored_offer C Z k' = stored_offer C Z k \<and> (\<forall>os. r = Ok os \<longrightarrow> os = decoded_with (offer_of Z) es)) k"
      using Cons.prems by (intro Cons.IH) auto
    moreover have "offer_of Z v = Some off" by (simp add: offer_of_def Ok)
    ultimately show ?thesis using kv(1) Ok
      by (auto simp: e wp_rules elim!: wp_mono split: outcome.splits)
  next
    case (Err er)
    have after: "wp (collect_offers C Z (es @ rest)) (\<lambda>r k''. offer_invar C Z k'' \<and>
        stored_offer C Z k'' = stored_offer C Z k \<and> (\<forall>os. r = Ok os \<longrightarrow> os = decoded_with (offer_of Z) (e # es))) k'"
      if k': "offer_invar C Z k'" "stored_offer C Z k' = stored_offer C Z k"
        "content C k' offerPrefix = (content C k offerPrefix)(key := None)" for k'
    proof -
      have "offer_of Z v = None" by (simp add: offer_of_def Err)
      then have dec: "decoded_with (offer_of Z) (e # es) = decoded_with (offer_of Z) es" by (simp add: e)
      have "key' \<noteq> key" if "(key', v') \<in> set es" for key' v'
        using Cons.prems(2) that by (force simp: e)
      then have "length key' \<le> idLength \<and> content C k' offerPrefix key' = Some v'" if "(key', v') \<in> set es" for key' v'
        using Cons.prems(3) [of key' v'] that k'(3) by auto
      from Cons.IH [OF k'(1) _ this Cons.prems(4)] Cons.prems(2) show ?thesis
        by (simp add: dec k'(2))
    qed
    have "wp (purgeInvalidOffer C key) (\<lambda>r k'. offer_invar C Z k' \<and> stored_offer C Z k' = stored_offer C Z k \<and>
       (r = Ok () \<longrightarrow> content C k' offerPrefix = (content C k offerPrefix)(key := None))) k"
      using purge_wp [OF Cons.prems(1) kv(2)] Err by simp
    then have "wp (purgeInvalidOffer C key) (\<lambda>r k'. case r of
          Ok u \<Rightarrow> wp (collect_offers C Z (es @ rest)) (\<lambda>r k''. offer_invar C Z k'' \<and>
            stored_offer C Z k'' = stored_offer C Z k \<and> (\<forall>os. r = Ok os \<longrightarrow> os = decoded_with (offer_of Z) (e # es))) k'
        | _ \<Rightarrow> offer_invar C Z k' \<and> stored_offer C Z k' = stored_offer C Z k) k"
      by (rule wp_mono) (use after in \<open>auto split: outcome.splits\<close>)
    then show ?thesis using kv(1) Err
      by (auto simp: e wp_rules elim!: wp_mono split: outcome.splits)
  qed (use Cons.prems(1) kv(1) in \<open>simp_all add: e wp_rules\<close>)
qed

lemma GetAllOffers_wp:
  assumes "offer_invar C Z k"
  shows "wp (GetAllOffers C Z) (\<lambda>r k'. offer_invar C Z k' \<and> stored_offer C Z k' = stored_offer C Z k \<and>
      (\<forall>os. r = Ok os \<longrightarrow> distinct (map ID os) \<and>
         (\<forall>off. off \<in> set os \<longleftrightarrow> stored_offer C Z k (ID off) = Some off))) k"
proof -
  have laws: "chaindb_laws C" using assms by (simp add: offer_invar_def)
  let ?P = "\<lambda>(key, v). length key \<le> idLength"
  let ?es = "takeWhile ?P (cd_Iter C offerPrefix k)" and ?rest = "dropWhile ?P (cd_Iter C offerPrefix k)"
  have short: "length key \<le> idLength" if "content C k offerPrefix key = Some v" for key v
    using assms that by (auto simp: offer_invar_def idLength_def)
  have es: "distinct (map fst ?es)" "map_of ?es = content C k offerPrefix"
    using Iter_entries [of C k offerPrefix, OF laws short] by auto
  have in_es: "length key \<le> idLength \<and> content C k offerPrefix key = Some v" if "(key, v) \<in> set ?es" for key v
  proof -
    have "map_of ?es key = Some v" using that es(1) by (simp add: map_of_eq_Some_iff)
    then show ?thesis using that es(2) by (auto dest: set_takeWhileD)
  qed
  have "?rest = [] \<or> length (fst (hd ?rest)) > idLength"
    using entries_split [of "cd_Iter C offerPrefix k" ?P] by (auto simp: case_prod_beta not_le)
  from collect_offers_wp [OF assms es(1) in_es this]
  have "wp (collect_offers C Z (cd_Iter C offerPrefix k)) (\<lambda>r k'. offer_invar C Z k' \<and>
      stored_offer C Z k' = stored_offer C Z k \<and> (\<forall>os. r = Ok os \<longrightarrow> os = decoded_with (offer_of Z) ?es)) k"
    by simp
  moreover have "key = hash_bytes (ID off)"
    if c: "content C k offerPrefix key = Some v" and off: "offer_of Z v = Some off" for key v off
  proof -
    obtain h where h: "key = hash_bytes h" using assms c unfolding offer_invar_def by blast
    then have "stored_offer C Z k h = Some off" using c off by (simp add: stored_offer_of)
    then show ?thesis using assms h unfolding offer_invar_def by blast
  qed
  note dt = decoded_with_table [where dec = "offer_of Z" and idf = ID, OF es this]
  have "distinct (map ID (decoded_with (offer_of Z) ?es))"
      "\<And>off. off \<in> set (decoded_with (offer_of Z) ?es) \<longleftrightarrow> stored_offer C Z k (ID off) = Some off"
    using dt by (auto simp: stored_offer_of bind_eq_Some_conv)
  ultimately have "wp (collect_offers C Z (cd_Iter C offerPrefix k)) (\<lambda>r k'. offer_invar C Z k' \<and>
      stored_offer C Z k' = stored_offer C Z k \<and> (\<forall>os. r = Ok os \<longrightarrow> distinct (map ID os) \<and>
         (\<forall>off. off \<in> set os \<longleftrightarrow> stored_offer C Z k (ID off) = Some off))) k"
    by (elim wp_mono) auto
  then show ?thesis by (simp add: GetAllOffers_def wp_rules)
qed

lemma delete_all_wp:
  assumes "offer_invar C Z k"
  shows "wp (delete_all C es) (\<lambda>r k'. offer_invar C Z k' \<and>
      (r = Ok () \<longrightarrow> (\<forall>h. hash_bytes h \<in> fst ` set es \<longrightarrow> stored_offer C Z k' h = None)) \<and>
      (\<forall>h off. stored_offer C Z k' h = Some off \<longrightarrow> stored_offer C Z k h = Some off)) k"
  using assms
proof (induction es arbitrary: k)
  case Nil
  then show ?case by (simp add: wp_rules)
next
  case (Cons e es)
  have laws: "chaindb_laws C" using Cons.prems by (simp add: offer_invar_def)
  show ?case
  proof (simp add: wp_rules, rule wp_Del [OF laws], goal_cases)
    case (1 k1)
    note d = offer_delete [OF Cons.prems 1]
    have "wp (delete_all C es) (\<lambda>r k'. offer_invar C Z k' \<and>
        (r = Ok () \<longrightarrow> (\<forall>h. hash_bytes h \<in> fst ` set es \<longrightarrow> stored_offer C Z k' h = None)) \<and>
        (\<forall>h off. stored_offer C Z k' h = Some off \<longrightarrow> stored_offer C Z k1 h = Some off)) k1"
      using Cons.IH d by blast
    then have "wp (delete_all C es) (\<lambda>r k'. offer_invar C Z k' \<and>
        (r = Ok () \<longrightarrow> (\<forall>h. hash_bytes h = fst e \<or> hash_bytes h \<in> fst ` set es \<longrightarrow> stored_offer C Z k' h = None)) \<and>
        (\<forall>h off. stored_offer C Z k' h = Some off \<longrightarrow> stored_offer C Z k h = Some off)) k1"
    proof (rule wp_mono, goal_cases)
      case (1 r k')
      have sub: "stored_offer C Z k h = Some off \<and> hash_bytes h \<noteq> fst e" if "stored_offer C Z k' h = Some off" for h off
        using 1 d that by (metis option.distinct(1))
      have "stored_offer C Z k' h = None" if "hash_bytes h = fst e" for h
        using sub [of h] that by (cases "stored_offer C Z k' h") auto
      then show ?case using 1(1) sub by blast
    qed
    then show ?case by simp
  next
    case (2 er k1)
    then show ?case using Cons.prems by (simp add: offer_invar_cong [of C k1 k] stored_offer_cong [of C k1 k])
  qed
qed

lemma ClearAllOffers_wp:
  assumes "offer_invar C Z k"
  shows "wp (ClearAllOffers C) (\<lambda>r k'. offer_invar C Z k' \<and> (r = Ok () \<longrightarrow> stored_offer C Z k' = Map.empty) \<and>
      (\<forall>h off. stored_offer C Z k' h = Some off \<longrightarrow> stored_offer C Z k h = Some off)) k"
proof -
  have laws: "chaindb_laws C" using assms by (simp add: offer_invar_def)
  let ?P = "\<lambda>(key, v). length key \<le> idLength" and ?it = "cd_Iter C offerPrefix k"
  have short: "length key \<le> idLength" if "content C k offerPrefix key = Some v" for key v
    using assms that by (auto simp: offer_invar_def idLength_def)
  have tw: "map_of (takeWhile ?P ?it) = content C k offerPrefix"
    using Iter_entries [of C k offerPrefix, OF laws short] by auto
  have all: "hash_bytes h \<in> fst ` set ?it" if "stored_offer C Z k h = Some off" for h off
  proof -
    from that obtain v where "content C k offerPrefix (hash_bytes h) = Some v"
      by (auto simp: stored_offer_of bind_eq_Some_conv)
    with tw have "(hash_bytes h, v) \<in> set (takeWhile ?P ?it)" by (metis map_of_SomeD)
    then show ?thesis by (force dest: set_takeWhileD)
  qed
  from delete_all_wp [OF assms, of ?it] have "wp (delete_all C ?it) (\<lambda>r k'. offer_invar C Z k' \<and>
      (r = Ok () \<longrightarrow> stored_offer C Z k' = Map.empty) \<and>
      (\<forall>h off. stored_offer C Z k' h = Some off \<longrightarrow> stored_offer C Z k h = Some off)) k"
  proof (elim wp_mono, goal_cases)
    case (1 r k')
    have "stored_offer C Z k' h = None" if "r = Ok ()" for h
      using 1 all [of h] that by (metis not_Some_eq)
    with 1 show ?case by auto
  qed
  then show ?thesis by (simp add: ClearAllOffers_def wp_rules)
qed

interpretation offers_db: offer_database "offer_ops C Z" "offer_invar C Z" "stored_offer C Z" "storable_offer (z_lib Z)"
  for C :: "'k chaindb" and Z :: codecs
proof (unfold_locales, goal_cases)
  case (1 d h off)
  then show ?case by (simp add: offer_invar_def)
next
  case (2 d off)
  then show ?case using PutOffer_wp [of C Z d off] by (simp add: offer_ops_def)
next
  case (3 d h)
  then show ?case using DeleteOffer_wp [of C Z d h] by (simp add: offer_ops_def)
next
  case (4 d)
  then show ?case using GetAllOffers_wp [of C Z d] by (simp add: offer_ops_def)
next
  case (5 d)
  then show ?case using ClearAllOffers_wp [of C Z d] by (simp add: offer_ops_def)
qed


section \<open>The recovery table\<close>

lemma getRecoveryDBKey_inject [simp]:
  "getRecoveryDBKey i p = getRecoveryDBKey j q \<longleftrightarrow> i = j \<and> p = q"
  by (simp add: getRecoveryDBKey_def append_eq_append_conv)

text \<open>Everything the recovery table holds for a swap, as its readers return it.\<close>

record recovery_view =
  rv_relayer :: "OfferExtra outcome"
  rv_ethinfo :: "EthereumSwapInfo outcome"
  rv_privkey :: "PrivateSpendKey outcome"
  rv_cspriv :: "PrivateSpendKey outcome"
  rv_cskeys :: "(PublicKey \<times> PrivateViewKey) outcome"
  rv_newswap :: "hash outcome"

definition recovered :: "'k chaindb \<Rightarrow> codecs \<Rightarrow> 'k \<Rightarrow> hash \<Rightarrow> recovery_view" where
  "recovered C Z k i =
     \<lparr>rv_relayer = fst (GetSwapRelayerInfo C Z i k), rv_ethinfo = fst (GetContractSwapInfo C Z i k),
      rv_privkey = fst (GetSwapPrivateKey C Z i k), rv_cspriv = fst (GetCounterpartySwapPrivateKey C Z i k),
      rv_cskeys = fst (GetCounterpartySwapKeys C Z i k), rv_newswap = fst (GetNewSwapTxHash C i k)\<rparr>"

lemma fst_bnd_Get:
  assumes "chaindb_laws C"
  shows "fst (bnd (cd_Get C p key) (\<lambda>v. lift (f v)) k) =
    (case content C k p key of Some v \<Rightarrow> f v | None \<Rightarrow> Err ErrKeyNotFound)"
  using Get_result [OF assms, of p key k]
  by (cases "cd_Get C p key k") (auto simp: bnd_def lift_def split: option.splits)

lemma get_struct_result:
  assumes "chaindb_laws C"
  shows "fst (recovery_get_struct C J i p k) =
    (case content C k recoveryPrefix (getRecoveryDBKey i p) of
       Some v \<Rightarrow> of_result (UnmarshalStruct J v) | None \<Rightarrow> Err ErrKeyNotFound)"
  unfolding recovery_get_struct_def by (rule fst_bnd_Get [OF assms])

lemma fst_bnd_ret: "fst (bnd m (\<lambda>x. ret (f x)) k) = map_outcome f (fst (m k))"
  by (simp add: bnd_def ret_def split: prod.split outcome.split)

lemma recovered_content:
  assumes "chaindb_laws C"
  shows "recovered C Z k i = (let c = (\<lambda>p. content C k recoveryPrefix (getRecoveryDBKey i p));
      rd = (\<lambda>J p. case c p of Some v \<Rightarrow> of_result (UnmarshalStruct J v) | None \<Rightarrow> Err ErrKeyNotFound) in
     \<lparr>rv_relayer = case c relayerInfoPrefix of Some v \<Rightarrow> of_result (UnmarshalStruct (z_extra Z) v) | None \<Rightarrow> Err ErrKeyNotFound,
      rv_ethinfo = case c contractSwapInfoPrefix of Some v \<Rightarrow> of_result (UnmarshalStruct (z_ethinfo Z) v) | None \<Rightarrow> Err ErrKeyNotFound,
      rv_privkey = rd (z_spendkey Z) swapPrivateKeyPrefix,
      rv_cspriv = rd (z_spendkey Z) counterpartySwapPrivateKeyPrefix,
      rv_cskeys = map_outcome (\<lambda>info. (PublicSpendKey info, PrivateViewKey_of info))
        (case c counterpartySwapKeysPrefix of Some v \<Rightarrow> of_result (UnmarshalStruct (z_cpkeys Z) v) | None \<Rightarrow> Err ErrKeyNotFound),
      rv_newswap = case c newSwapTxHashPrefix of Some v \<Rightarrow> Ok (bytes_hash (copy_n 32 v)) | None \<Rightarrow> Err ErrKeyNotFound\<rparr>)"
proof -
  have "fst (GetNewSwapTxHash C i k) = (case content C k recoveryPrefix (getRecoveryDBKey i newSwapTxHashPrefix) of
      Some v \<Rightarrow> Ok (bytes_hash (copy_n 32 v)) | None \<Rightarrow> Err ErrKeyNotFound)"
    using fst_bnd_Get [OF assms, of recoveryPrefix "getRecoveryDBKey i newSwapTxHashPrefix"
        "\<lambda>v. Ok (bytes_hash (copy_n 32 v))" k]
    by (simp add: GetNewSwapTxHash_def ret_def lift_def)
  then show ?thesis
    by (simp add: recovered_def GetSwapRelayerInfo_def GetContractSwapInfo_def GetSwapPrivateKey_def
        GetCounterpartySwapPrivateKey_def GetCounterpartySwapKeys_def get_struct_result [OF assms]
        fst_bnd_ret Let_def)
qed

lemma recovery_put_Ok:
  assumes "chaindb_laws C" "recovery_put C key v k = (Ok (), k')"
  shows "content C k' = (content C k)(recoveryPrefix := (content C k recoveryPrefix)(key \<mapsto> v))"
proof -
  have "wp (recovery_put C key v) (\<lambda>r k'. r = Ok () \<longrightarrow>
      content C k' = (content C k)(recoveryPrefix := (content C k recoveryPrefix)(key \<mapsto> v))) k"
    unfolding recovery_put_def
    by (simp add: wp_rules, rule wp_Put [OF assms(1)]) (auto intro!: wp_Flush [OF assms(1)])
  then show ?thesis using assms(2) by (simp add: wp_iff_run)
qed

lemma recovery_put_struct_Ok:
  assumes "chaindb_laws C" "codec_law J" "recovery_put_struct C J i p v k = (Ok (), k')"
  obtains b where "UnmarshalStruct J b = Inr v"
    "content C k' = (content C k)(recoveryPrefix := (content C k recoveryPrefix)(getRecoveryDBKey i p \<mapsto> b))"
proof (cases "MarshalStruct J v")
  case (Inl e)
  with assms(3) show thesis by (simp add: recovery_put_struct_def bnd_def lift_def)
next
  case (Inr b)
  with assms(3) have "recovery_put C (getRecoveryDBKey i p) b k = (Ok (), k')"
    by (simp add: recovery_put_struct_def bnd_def lift_def)
  from recovery_put_Ok [OF assms(1) this] UnmarshalStruct_MarshalStruct [OF assms(2) Inr] that
  show thesis by blast
qed

definition recovery_codecs :: "codecs \<Rightarrow> bool" where
  "recovery_codecs Z \<longleftrightarrow> codec_law (z_extra Z) \<and> codec_law (z_ethinfo Z) \<and> codec_law (z_spendkey Z) \<and>
     codec_law (z_cpkeys Z)"

text \<open>
  C34: what is written for recovery is what is read back, and nothing else changes. A successful
  write of any of the six kinds of recovery data changes the recovered data of that swap in that
  kind only, to the value written, and leaves every other swap's recovery data as it was; the keys
  under which the kinds and the swaps are stored never collide.
\<close>

theorem recovery_puts:
  assumes "chaindb_laws C" "recovery_codecs Z"
  shows "(PutSwapRelayerInfo C Z i extra k = (Ok (), k1) \<longrightarrow>
      recovered C Z k1 = (recovered C Z k)(i := (recovered C Z k i)\<lparr>rv_relayer := Ok extra\<rparr>)) \<and>
    (PutContractSwapInfo C Z i eth k = (Ok (), k2) \<longrightarrow>
      recovered C Z k2 = (recovered C Z k)(i := (recovered C Z k i)\<lparr>rv_ethinfo := Ok eth\<rparr>)) \<and>
    (PutSwapPrivateKey C Z i sk k = (Ok (), k3) \<longrightarrow>
      recovered C Z k3 = (recovered C Z k)(i := (recovered C Z k i)\<lparr>rv_privkey := Ok sk\<rparr>)) \<and>
    (PutCounterpartySwapPrivateKey C Z i sk k = (Ok (), k4) \<longrightarrow>
      recovered C Z k4 = (recovered C Z k)(i := (recovered C Z k i)\<lparr>rv_cspriv := Ok sk\<rparr>)) \<and>
    (PutCounterpartySwapKeys C Z i pk vk k = (Ok (), k5) \<longrightarrow>
      recovered C Z k5 = (recovered C Z k)(i := (recovered C Z k i)\<lparr>rv_cskeys := Ok (pk, vk)\<rparr>)) \<and>
    (PutNewSwapTxHash C i tx k = (Ok (), k6) \<longrightarrow>
      recovered C Z k6 = (recovered C Z k)(i := (recovered C Z k i)\<lparr>rv_newswap := Ok tx\<rparr>))"
proof -
  note laws = assms(1) and rc = recovered_content [OF assms(1)]
  note cl = assms(2) [unfolded recovery_codecs_def]
  have tx: "bytes_hash (copy_n 32 (hash_bytes tx)) = tx" by (simp add: copy_n_full)
  show ?thesis
    unfolding PutSwapRelayerInfo_def PutContractSwapInfo_def PutSwapPrivateKey_def
      PutCounterpartySwapPrivateKey_def PutCounterpartySwapKeys_def PutNewSwapTxHash_def
  proof (intro conjI impI ext, goal_cases)
    case (1 j)
    obtain b where "UnmarshalStruct (z_extra Z) b = Inr extra" "content C k1 = (content C k)(recoveryPrefix :=
        (content C k recoveryPrefix)(getRecoveryDBKey i relayerInfoPrefix \<mapsto> b))"
      using recovery_put_struct_Ok [OF laws _ 1] cl by blast
    then show ?case by (simp add: rc Let_def recovery_prefix_defs)
  next
    case (2 j)
    obtain b where "UnmarshalStruct (z_ethinfo Z) b = Inr eth" "content C k2 = (content C k)(recoveryPrefix :=
        (content C k recoveryPrefix)(getRecoveryDBKey i contractSwapInfoPrefix \<mapsto> b))"
      using recovery_put_struct_Ok [OF laws _ 2] cl by blast
    then show ?case by (simp add: rc Let_def recovery_prefix_defs)
  next
    case (3 j)
    obtain b where "UnmarshalStruct (z_spendkey Z) b = Inr sk" "content C k3 = (content C k)(recoveryPrefix :=
        (content C k recoveryPrefix)(getRecoveryDBKey i swapPrivateKeyPrefix \<mapsto> b))"
      using recovery_put_struct_Ok [OF laws _ 3] cl by blast
    then show ?case by (simp add: rc Let_def recovery_prefix_defs)
  next
    case (4 j)
    obtain b where "UnmarshalStruct (z_spendkey Z) b = Inr sk" "content C k4 = (content C k)(recoveryPrefix :=
        (content C k recoveryPrefix)(getRecoveryDBKey i counterpartySwapPrivateKeyPrefix \<mapsto> b))"
      using recovery_put_struct_Ok [OF laws _ 4] cl by blast
    then show ?case by (simp add: rc Let_def recovery_prefix_defs)
  next
    case (5 j)
    obtain b where "UnmarshalStruct (z_cpkeys Z) b = Inr \<lparr>PublicSpendKey = pk, PrivateViewKey_of = vk\<rparr>"
      "content C k5 = (content C k)(recoveryPrefix :=
        (content C k recoveryPrefix)(getRecoveryDBKey i counterpartySwapKeysPrefix \<mapsto> b))"
      using recovery_put_struct_Ok [OF laws _ 5] cl by blast
    then show ?case by (simp add: rc Let_def recovery_prefix_defs)
  next
    case (6 j)
    from recovery_put_Ok [OF laws 6] show ?case
      by (simp add: rc Let_def recovery_prefix_defs tx)
  qed
qed

section \<open>The daemon's swap manager over its database\<close>

text \<open>
  C31: a restart restores exactly the swaps that have not completed. The manager that \<open>NewManager\<close>
  builds from the database holds, under its own identifier, every stored swap whose status is an
  ongoing one, and no other; no completed swap is loaded.
\<close>

theorem restart_restores_ongoing:
  assumes "swap_invar C Z k" "NewManager (swap_ops C Z) k = (Ok (), m)"
  shows "ongoing_info m = ongoing_part (stored_swap C Z k) \<and> past m = Map.empty \<and> manager_wf m \<and>
    stored_swap C Z (mgr_db m) = stored_swap C Z k"
  using swaps_db.NewManager_restores [OF assms] by blast

text \<open>
  A swap that was added is not lost by a crash. After \<open>AddSwap\<close> returned without error for a swap
  in an ongoing status, a manager started on the same database has that swap, unchanged, among its
  ongoing swaps.
\<close>

theorem added_swap_survives_restart:
  assumes "swap_invar C Z (mgr_db m)" "storable (z_lib Z) (heap m p)" "ongoing_status (Info_Status (heap m p))"
    and "AddSwap (swap_ops C Z) p m = (Ok (), m')" "NewManager (swap_ops C Z) (mgr_db m') = (Ok (), m'')"
  shows "ongoing_info m'' (OfferID (heap m p)) = Some (heap m p)"
  using swaps_db.restart_after_AddSwap [OF assms(1,2,4,3,5)] .

text \<open>
  C32: a completed swap stays completed. After \<open>CompleteOngoingSwap\<close> returned without error for a swap
  in a completed status, the swap has left the ongoing map, and a manager started on the same database
  does not run it again but returns it, with its end time, as a past swap.
\<close>

theorem completed_swap_not_restored:
  assumes "swap_invar C Z (mgr_db m)" "storable (z_lib Z) (heap m p)" "completed_status (Info_Status (heap m p))"
    and "CompleteOngoingSwap (swap_ops C Z) now p m = (Ok (), m')"
    and "NewManager (swap_ops C Z) (mgr_db m') = (Ok (), m'')"
  shows "ongoing m' (OfferID (heap m p)) = None \<and> ongoing m'' (OfferID (heap m p)) = None \<and>
    (\<exists>q m3. GetPastSwap (swap_ops C Z) (OfferID (heap m p)) m'' = (Ok q, m3) \<and>
       heap m3 q = MarkSwapComplete now (heap m p))"
proof -
  let ?i = "(heap m p)\<lparr>EndTime := Some now\<rparr>"
  have st: "storable (z_lib Z) ?i" using assms(2) by simp
  note c = swaps_db.CompleteOngoingSwap_Ok [OF assms(1) st assms(4)]
  then have inv: "swap_invar C Z (mgr_db m')" "stored_swap C Z (mgr_db m') (OfferID ?i) = Some ?i" by auto
  note r = swaps_db.NewManager_restores [OF inv(1) assms(5)]
  have "\<exists>m3. GetPastSwap (swap_ops C Z) (OfferID ?i) m'' = (Ok (next_ptr m''), m3) \<and> heap m3 (next_ptr m'') = ?i"
    using swaps_db.GetPastSwap_stored [of C Z m'' "OfferID ?i" ?i] r inv by auto
  then show ?thesis
    using c swaps_db.restart_after_CompleteOngoingSwap [OF assms(1) st assms(4,3,5)]
    by (auto simp: MarkSwapComplete_def)
qed

text \<open>
  \<open>GetPastSwap\<close> does not look at the status of what it finds in the database. For a swap that is
  stored and still ongoing it returns that swap as a past one and caches it in the map of past swaps,
  while the swap stays in the map of ongoing ones.
\<close>

theorem past_lookup_of_ongoing_swap:
  assumes "swap_invar C Z (mgr_db m)" "stored_swap C Z (mgr_db m) h = Some i" "ongoing_status (Info_Status i)"
    and "past m h = None" "ongoing m h = Some p"
  shows "\<exists>q m'. GetPastSwap (swap_ops C Z) h m = (Ok q, m') \<and> heap m' q = i \<and> past m' h = Some q \<and>
    ongoing m' h = Some p"
  using swaps_db.GetPastSwap_stored [OF assms(1,4,2)] assms(5) by auto

section \<open>A concrete swap\<close>

definition demo_lib :: lib where
  "demo_lib = \<lparr>sha3_Sum256 = (\<lambda>b. of_nat (length b)), Address_Hex = (\<lambda>a. []), IsHexAddress = (\<lambda>s. True),
     HexToAddress = (\<lambda>s. 0), GreaterThan = (\<lambda>a b. False)\<rparr>"

definition demo_info :: Info where
  "demo_info = NewInfo 100 100 ''peer'' 7 ProvidesETH demo_amount demo_amount demo_amount 0 ExpectingKeys 5000"

definition demo_done :: Info where
  "demo_done = SetStatus 200 CompletedSuccess demo_info"

definition demo_codecs :: codecs where
  "demo_codecs = \<lparr>z_lib = demo_lib, z_apd = ref_apd, z_version = (\<lambda>b. Inr (Some CurInfoVersion)),
     z_offer = enum_codec [], z_info = enum_codec [demo_info, demo_done, MarkSwapComplete 300 demo_done],
     z_extra = enum_codec [NewOfferExtra True], z_ethinfo = enum_codec [], z_spendkey = enum_codec [replicate 32 1],
     z_cpkeys = enum_codec []\<rparr>"

definition demo_store :: memstore where
  "demo_store = \<lparr>entries = [], readonly = False\<rparr>"

definition demo_ops :: "memstore swapdb" where
  "demo_ops = swap_ops memdb demo_codecs"

definition demo_swap_entry :: "byte \<Rightarrow> memstore" where
  "demo_swap_entry b = \<lparr>entries = [((swapPrefix, hash_bytes 7), [b])], readonly = False\<rparr>"

definition demo_manager :: "memstore manager" where
  "demo_manager = snd (alloc demo_info (empty_manager demo_store))"

definition demo_added :: "memstore manager" where
  "demo_added = snd (AddSwap demo_ops 0 demo_manager)"

lemma demo_infos_distinct:
  "demo_info \<noteq> demo_done" "demo_info \<noteq> MarkSwapComplete t demo_done" "demo_done \<noteq> MarkSwapComplete t demo_done"
proof -
  have "Info_Status demo_info \<noteq> Info_Status demo_done" "EndTime demo_info \<noteq> EndTime (MarkSwapComplete t demo_done)"
    "EndTime demo_done \<noteq> EndTime (MarkSwapComplete t demo_done)"
    by (simp_all add: demo_done_def demo_info_def NewInfo_def MarkSwapComplete_def)
  then show "demo_info \<noteq> demo_done" "demo_info \<noteq> MarkSwapComplete t demo_done" "demo_done \<noteq> MarkSwapComplete t demo_done"
    by metis+
qed

lemma demo_marshal:
  "MarshalStruct (z_info demo_codecs) demo_info = Inr [0]" "MarshalStruct (z_info demo_codecs) demo_done = Inr [1]"
  "MarshalStruct (z_info demo_codecs) (MarkSwapComplete 300 demo_done) = Inr [2]"
  using demo_infos_distinct by (simp_all add: MarshalStruct_def demo_codecs_def enum_codec_def)

lemma demo_info_law: "info_codec_law (z_version demo_codecs) (z_info demo_codecs)"
proof -
  have "Info_Version i = Some CurInfoVersion" if "json_Marshal (z_info demo_codecs) i = Inr b" for i b
  proof -
    have "i \<in> set [demo_info, demo_done, MarkSwapComplete 300 demo_done]"
      using that by (auto simp: demo_codecs_def enum_codec_def split: option.splits if_splits)
    then show ?thesis by (auto simp: demo_done_def demo_info_def NewInfo_def MarkSwapComplete_def)
  qed
  moreover have "codec_law (z_info demo_codecs)" by (simp add: demo_codecs_def enum_codec_law)
  ultimately show ?thesis by (simp add: info_codec_law_def demo_codecs_def)
qed

lemma demo_storable:
  "storable (z_lib demo_codecs) demo_info" "storable (z_lib demo_codecs) demo_done"
  by (simp_all add: storable_def demo_codecs_def demo_lib_def demo_info_def demo_done_def NewInfo_def)

lemma demo_decode:
  "decode_info demo_codecs [0] = Inr demo_info" "decode_info demo_codecs [2] = Inr (MarkSwapComplete 300 demo_done)"
  using UnmarshalInfo_MarshalStruct [OF demo_info_law demo_storable(1) demo_marshal(1)]
    UnmarshalInfo_MarshalStruct [OF demo_info_law _ demo_marshal(3)] demo_storable(2)
  by (simp_all add: decode_info_def MarkSwapComplete_def)

lemma demo_content:
  "content memdb (demo_swap_entry b) p key = (if p = swapPrefix \<and> key = hash_bytes 7 then Some [b] else None)"
  "content memdb demo_store p key = None"
  by (auto simp: content_memdb demo_swap_entry_def demo_store_def)

lemma demo_invar:
  "swap_invar memdb demo_codecs demo_store" "swap_invar memdb demo_codecs (demo_swap_entry 0)"
  by (auto simp: swap_invar_def memdb_laws demo_info_law demo_content stored_swap_def demo_decode
      demo_info_def NewInfo_def split: if_splits)

lemma demo_restart:
  "NewManager demo_ops (demo_swap_entry 0) = (Ok (), snd (NewManager demo_ops (demo_swap_entry 0)))"
  "NewManager demo_ops (demo_swap_entry 2) = (Ok (), snd (NewManager demo_ops (demo_swap_entry 2)))"
  by (simp_all add: NewManager_def demo_ops_def swap_ops_def bnd_def call_db_def empty_manager_def GetAllSwaps_def
      gets_def memdb_def demo_swap_entry_def ret_def idLength_def demo_decode lift_def alloc_def modify_def
      demo_info_def demo_done_def NewInfo_def MarkSwapComplete_def SetStatus_def)

lemma demo_manager_simps:
  "mgr_db demo_manager = demo_store" "heap demo_manager 0 = demo_info"
  by (simp_all add: demo_manager_def alloc_def empty_manager_def)

lemma demo_PutSwap:
  "PutSwap memdb demo_codecs demo_info demo_store = (Ok (), demo_swap_entry 0)"
  "PutSwap memdb demo_codecs (MarkSwapComplete 300 demo_done) (demo_swap_entry 0) = (Ok (), demo_swap_entry 2)"
  using demo_marshal
  by (simp_all add: PutSwap_def bnd_def lift_def memdb_def mem_write_def demo_store_def demo_swap_entry_def ret_def)
    (simp_all add: demo_done_def demo_info_def NewInfo_def MarkSwapComplete_def)

lemma demo_AddSwap: "AddSwap demo_ops 0 demo_manager = (Ok (), demo_added)"
  and demo_added_simps: "mgr_db demo_added = demo_swap_entry 0" "ongoing demo_added 7 = Some 0" "past demo_added = Map.empty"
  using demo_PutSwap(1) demo_manager_simps
  by (simp_all add: demo_added_def AddSwap_def bnd_def gets_def lift_def modify_def call_db_def demo_ops_def swap_ops_def)
    (simp_all add: demo_info_def NewInfo_def demo_manager_def alloc_def empty_manager_def)

lemma demo_info_simps [simp]:
  "OfferID demo_info = 7" "Info_Status demo_info = ExpectingKeys" "OfferID demo_done = 7" "Info_Status demo_done = CompletedSuccess"
  by (simp_all add: demo_done_def demo_info_def NewInfo_def)

theorem restart_restores_ongoing_witness:
  "ongoing_info (snd (NewManager demo_ops (demo_swap_entry 0))) 7 = Some demo_info"
  using restart_restores_ongoing [OF demo_invar(2) demo_restart(1) [unfolded demo_ops_def]]
  by (simp add: demo_ops_def ongoing_part_def stored_swap_def demo_content demo_decode)

theorem added_swap_survives_restart_witness:
  "ongoing_info (snd (NewManager demo_ops (mgr_db demo_added))) (OfferID demo_info) = Some demo_info"
  using added_swap_survives_restart [OF _ _ _ demo_AddSwap [unfolded demo_ops_def], of "snd (NewManager demo_ops (mgr_db demo_added))"]
    demo_invar(1) demo_storable(1) demo_restart(1)
  by (simp add: demo_manager_simps demo_added_simps demo_ops_def)

definition demo_completed :: "memstore manager" where
  "demo_completed = snd (CompleteOngoingSwap demo_ops 300 0 (demo_added\<lparr>heap := (heap demo_added)(0 := demo_done)\<rparr>))"

lemma demo_Complete:
  "CompleteOngoingSwap demo_ops 300 0 (demo_added\<lparr>heap := (heap demo_added)(0 := demo_done)\<rparr>) = (Ok (), demo_completed)"
  and demo_completed_db: "mgr_db demo_completed = demo_swap_entry 2"
  using demo_PutSwap(2) demo_added_simps
  by (simp_all add: demo_completed_def CompleteOngoingSwap_def bnd_def gets_def modify_def call_db_def demo_ops_def
      swap_ops_def MarkSwapComplete_def)

theorem completed_swap_not_restored_witness:
  "ongoing (snd (NewManager demo_ops (mgr_db demo_completed))) 7 = None"
  using completed_swap_not_restored [OF _ _ _ demo_Complete [unfolded demo_ops_def],
      of "snd (NewManager demo_ops (mgr_db demo_completed))"] demo_invar(2) demo_storable(2) demo_restart(2)
  by (simp add: demo_added_simps demo_ops_def demo_completed_db)

theorem past_lookup_of_ongoing_swap_witness:
  "\<exists>q m'. GetPastSwap demo_ops 7 demo_added = (Ok q, m') \<and> heap m' q = demo_info \<and> past m' 7 = Some q \<and>
     ongoing m' 7 = Some 0"
  using past_lookup_of_ongoing_swap [of memdb demo_codecs demo_added 7 demo_info 0] demo_invar(2)
  by (simp add: demo_added_simps demo_ops_def stored_swap_def demo_content demo_decode)

theorem recovery_puts_witness:
  "recovered memdb demo_codecs (snd (PutSwapPrivateKey memdb demo_codecs 7 (replicate 32 1) demo_store)) =
     (recovered memdb demo_codecs demo_store)
       (7 := (recovered memdb demo_codecs demo_store 7)\<lparr>rv_privkey := Ok (replicate 32 1)\<rparr>)"
proof -
  have "recovery_codecs demo_codecs" by (simp add: recovery_codecs_def demo_codecs_def enum_codec_law)
  moreover have "fst (PutSwapPrivateKey memdb demo_codecs 7 (replicate 32 1) demo_store) = Ok ()"
    by (simp add: PutSwapPrivateKey_def recovery_put_struct_def recovery_put_def demo_codecs_def MarshalStruct_def
        enum_codec_def bnd_def lift_def memdb_def mem_write_def demo_store_def ret_def)
  ultimately show ?thesis
    using recovery_puts [OF memdb_laws, of demo_codecs] by (metis prod.collapse)
qed

section \<open>A concrete offer\<close>

definition demo_whole :: "nat \<Rightarrow> int32 \<Rightarrow> decimal" where
  "demo_whole c e = \<lparr>Form = Finite, Negative = False, Exponent = e, Coeff = c\<rparr>"

definition demo_offer :: Offer where
  "demo_offer = \<lparr>OfferVersion = CurOfferVersion, ID = 17, Provides = ProvidesXMR, MinAmount = Some (demo_whole 3 0),
     MaxAmount = Some (demo_whole 7 0), ExchangeRate = Some (demo_whole 3 (- 1)), EthAsset = EthAssetETH, OfferNonce = 7\<rparr>"

definition demo_offer_codecs :: codecs where
  "demo_offer_codecs = demo_codecs\<lparr>z_version := (\<lambda>b. Inr (Some CurOfferVersion)), z_offer := enum_codec [demo_offer],
     z_info := enum_codec []\<rparr>"

lemma demo_whole_value: "dval (demo_whole c e) = of_nat c * 10 powi sint e"
  by (simp add: demo_whole_def dval_def)

lemma demo_whole_Reduce: "c mod 10 \<noteq> 0 \<Longrightarrow> ref_Reduce (demo_whole c e) = demo_whole c e"
  by (cases "c = 0") (auto simp: ref_Reduce_def demo_whole_def strip_zeros.simps)

lemma demo_ValidatePositive:
  "ValidatePositive ref_apd f NumMoneroDecimals (Some (demo_whole 3 0)) = (None, Some (demo_whole 3 0))"
  "ValidatePositive ref_apd f NumMoneroDecimals (Some (demo_whole 7 0)) = (None, Some (demo_whole 7 0))"
  by (simp_all add: ValidatePositive_def ref_apd_def demo_whole_Reduce Let_def)
    (simp_all add: demo_whole_def numDigits.simps MaxCoinPrecision_def NumMoneroDecimals_def)

lemma demo_fee: "RelayerFeeETH ref_apd = Ok (demo_whole (Suc 0) (- 2))"
  by (simp add: RelayerFeeETH_def AsEther_def NewWeiAmount_def RelayerFeeWei_def decreaseExponent_def NumEtherDecimals_def
      ref_apd_def ref_Reduce_def strip_zeros.simps demo_whole_def Let_def)

lemma demo_ToETH: "ToETH ref_apd (demo_whole 3 (- 1)) (demo_whole 3 0) = Inr (demo_whole 9 (- 1))"
  by (simp add: ToETH_def ref_apd_def ref_Mul_def ref_Reduce_def strip_zeros.simps demo_whole_def Let_def
      ExceedsDecimals_def NumDecimals_def NumEtherDecimals_def numDigits.simps MaxCoinPrecision_def)

lemma demo_hash: "Offer_hash demo_lib ref_apd demo_offer = Ok 17"
  by (simp add: Offer_hash_def demo_offer_def demo_lib_def ref_apd_def string_bytes_def EthAsset_String_def EthAsset_IsETH_def
      CurOfferVersion_def ProvidesXMR_def show_nat.simps)

lemma demo_Cmp:
  "apd_Cmp ref_apd (demo_whole 3 0) (demo_whole 7 0) = - 1" "apd_Cmp ref_apd (demo_whole 9 (- 1)) (demo_whole (Suc 0) (- 2)) = 1"
  "apd_Cmp ref_apd (demo_whole 7 0) maxOfferValue = - 1"
proof -
  have mv: "maxOfferValue = demo_whole 1 3" by (simp add: maxOfferValue_def new_decimal_def demo_whole_def)
  show "apd_Cmp ref_apd (demo_whole 3 0) (demo_whole 7 0) = - 1" "apd_Cmp ref_apd (demo_whole 9 (- 1)) (demo_whole (Suc 0) (- 2)) = 1"
    "apd_Cmp ref_apd (demo_whole 7 0) maxOfferValue = - 1"
    by (simp_all add: mv ref_apd_def demo_whole_value power_int_def power_divide)
qed

lemma demo_offer_valid: "Offer_validate demo_lib ref_apd demo_offer = Ok demo_offer"
proof -
  have off: "demo_offer\<lparr>MinAmount := Some (demo_whole 3 0), MaxAmount := Some (demo_whole 7 0)\<rparr> = demo_offer"
    by (simp add: demo_offer_def)
  have fields: "\<not> IsHashZero 17" "MinAmount demo_offer = Some (demo_whole 3 0)"
      "MaxAmount demo_offer = Some (demo_whole 7 0)" "ExchangeRate demo_offer = Some (demo_whole 3 (- 1))" "ID demo_offer = 17"
    by (simp_all add: demo_offer_def IsHashZero_def EmptyHash_def)
  show ?thesis
    by (simp add: Offer_validate_def fields demo_ValidatePositive demo_Cmp demo_ToETH demo_fee demo_hash off Let_def)
qed

lemma demo_PutOffer:
  "PutOffer memdb demo_offer_codecs demo_offer demo_store =
     (Ok demo_offer, \<lparr>entries = [((offerPrefix, hash_bytes 17), [0])], readonly = False\<rparr>)"
proof -
  have "vjson_MarshalOffer demo_lib ref_apd (enum_codec [demo_offer]) demo_offer = Ok (demo_offer, [0])"
    by (simp add: vjson_MarshalOffer_def Offer_MarshalJSON_def demo_offer_valid MarshalStruct_def enum_codec_def)
  moreover have "ID demo_offer = 17" by (simp add: demo_offer_def)
  ultimately show ?thesis
    by (simp add: PutOffer_def demo_offer_codecs_def demo_codecs_def bnd_def lift_def memdb_def mem_write_def demo_store_def ret_def)
qed

lemma demo_offer_decode: "decode_offer demo_offer_codecs [0] = Ok demo_offer"
  by (simp add: decode_offer_def demo_offer_codecs_def demo_codecs_def UnmarshalOffer_def vjson_UnmarshalOffer_def
      Offer_UnmarshalJSON_def UnmarshalStruct_def enum_codec_def demo_offer_valid)
    (simp add: demo_lib_def)

definition demo_offers :: "memstore offerdb" where
  "demo_offers = offer_ops memdb demo_offer_codecs"

definition demo_om :: "memstore offerManager" where
  "demo_om = \<lparr>offers = [17 \<mapsto> \<lparr>om_offer = demo_offer, om_extra = NewOfferExtra True\<rparr>],
     om_db = \<lparr>entries = [((offerPrefix, hash_bytes 17), [0])], readonly = False\<rparr>\<rparr>"

lemma demo_om_reachable:
  "om_reachable demo_offers (offer_invar memdb demo_offer_codecs) (storable_offer (z_lib demo_offer_codecs)) demo_om"
proof (rule om_reachable.om_Add [OF om_reachable.om_start])
  have "offer_codec_law (\<lambda>b. Inr (Some CurOfferVersion)) (enum_codec [demo_offer])"
    using enum_codec_law [of "[demo_offer]"]
    by (auto simp: offer_codec_law_def enum_codec_def demo_offer_def split: if_splits)
  then show "offer_invar memdb demo_offer_codecs demo_store"
    by (simp add: offer_invar_def memdb_laws demo_offer_codecs_def demo_codecs_def ref_reduce_law demo_content stored_offer_def)
  show "NewOfferManager demo_offers demo_store = (Ok (), \<lparr>offers = Map.empty, om_db = demo_store\<rparr>)"
    by (simp add: NewOfferManager_def demo_offers_def offer_ops_def GetAllOffers_def memdb_def demo_store_def bnd_def on_db_def
        gets_def ret_def modify_def)
  show "storable_offer (z_lib demo_offer_codecs) demo_offer"
    by (simp add: storable_offer_def demo_offer_codecs_def demo_codecs_def demo_lib_def)
  show "om_AddOffer demo_offers demo_offer True \<lparr>offers = Map.empty, om_db = demo_store\<rparr> = (Ok (NewOfferExtra True), demo_om)"
    using demo_PutOffer by (simp add: om_AddOffer_def bnd_def gets_def on_db_def demo_offers_def offer_ops_def modify_def
        ret_def Let_def demo_om_def) (simp add: demo_offer_def)
qed


end
