(* ===== verification/Eth_Client.thy ===== *)
theory Eth_Client
  imports Eth_Contracts Swap_Info
begin

text \<open>
  The daemon's Ethereum side: the wallet client of \<open>ethereum/extethclient\<close>, the waiting loops of
  \<open>ethereum/block\<close>, the contract code check and the log filter of \<open>ethereum/watcher\<close>. The JSON-RPC
  client of go-ethereum, the generated contract bindings, the context and the clock are the fields
  of the record \<^term>\<open>N\<close>: operations over an abstract state of the outside world, about which nothing
  is assumed. The state of a computation is a record with at least the world and the client's own
  fields; \<open>query\<close> runs an operation of the node on the world.
\<close>

section \<open>Data\<close>

record Header =
  Header_Number :: int
  Header_Time :: uint64

record Receipt =
  Receipt_TxHash :: hash
  Receipt_Status :: uint64
  Receipt_Logs :: "Log list"
  BlockNumber :: int

record Transaction =
  Tx_Hash :: hash
  Tx_To :: "address option"
  Tx_Data :: bytes
  Tx_GasPrice :: int
  Tx_Nonce :: uint64

record TransactOpts =
  Opts_From :: address
  Opts_Value :: "int option"
  Opts_GasPrice :: "int option"
  Opts_GasLimit :: uint64

record LegacyTx =
  Legacy_Nonce :: uint64
  Legacy_To :: address
  Legacy_Value :: int
  Legacy_Gas :: uint64
  Legacy_GasPrice :: int

text \<open>A message call (\<open>ethereum.CallMsg\<close>); the fee caps and the access list are never set.\<close>

record CallMsg =
  Msg_From :: address
  Msg_To :: "address option"
  Msg_Gas :: uint64
  Msg_GasPrice :: "int option"
  Msg_Value :: "int option"
  Msg_Data :: bytes

text \<open>The arguments of the contract's \<open>newSwap\<close>.\<close>

record newSwapArgs =
  ns_claimCommitment :: hash
  ns_refundCommitment :: hash
  ns_claimer :: address
  ns_timeout1 :: int
  ns_timeout2 :: int
  ns_asset :: address
  ns_value :: int
  ns_nonce :: int

record 'w node =
  n_clock :: "'w \<Rightarrow> go_time"
  n_ctx_Err :: "'w \<Rightarrow> goerr option"
  n_sleep :: "int \<Rightarrow> ('w, unit) go"
  n_BalanceAt :: "address \<Rightarrow> ('w, int) go"
  n_SuggestGasPrice :: "('w, int) go"
  n_NonceAt :: "address \<Rightarrow> ('w, uint64) go"
  n_CodeAt :: "address \<Rightarrow> ('w, bytes) go"
  n_ChainID :: "('w, int) go"
  n_HeaderByNumber :: "('w, Header) go"
  n_TransactionReceipt :: "hash \<Rightarrow> ('w, Receipt) go"
  n_TransactionByHash :: "hash \<Rightarrow> ('w, Transaction \<times> bool) go"
  n_TransactionInBlock :: "Receipt \<Rightarrow> ('w, Transaction) go"
  n_TransactionToMessage :: "Transaction \<Rightarrow> int \<Rightarrow> CallMsg result"
  n_CallContract :: "CallMsg \<Rightarrow> int option \<Rightarrow> ('w, bytes) go"
  n_FilterLogs :: "int option \<Rightarrow> address \<Rightarrow> hash option \<Rightarrow> ('w, Log list) go"
  n_NewTransactor :: "bytes \<Rightarrow> int \<Rightarrow> address result"
  n_SignTx :: "LegacyTx \<Rightarrow> int \<Rightarrow> bytes option \<Rightarrow> hash outcome"
  n_SendTransaction :: "hash \<Rightarrow> ('w, unit) go"
  erc20_BalanceOf :: "address \<Rightarrow> address \<Rightarrow> ('w, int) go"
  erc20_Name :: "address \<Rightarrow> ('w, string) go"
  erc20_Symbol :: "address \<Rightarrow> ('w, string) go"
  erc20_Decimals :: "address \<Rightarrow> ('w, 8 word) go"
  erc20_Allowance :: "address \<Rightarrow> address \<Rightarrow> address \<Rightarrow> ('w, int) go"
  erc20_Approve :: "address \<Rightarrow> TransactOpts \<Rightarrow> address \<Rightarrow> int \<Rightarrow> ('w, hash) go"
  sc_Swaps :: "address \<Rightarrow> hash \<Rightarrow> ('w, byte) go"
  sc_NewSwap :: "address \<Rightarrow> TransactOpts \<Rightarrow> newSwapArgs \<Rightarrow> ('w, hash) go"
  sc_SetReady :: "address \<Rightarrow> TransactOpts \<Rightarrow> SwapCreatorSwap \<Rightarrow> ('w, hash) go"
  sc_Claim :: "address \<Rightarrow> TransactOpts \<Rightarrow> SwapCreatorSwap \<Rightarrow> hash \<Rightarrow> ('w, hash) go"
  sc_Refund :: "address \<Rightarrow> TransactOpts \<Rightarrow> SwapCreatorSwap \<Rightarrow> hash \<Rightarrow> ('w, hash) go"
  sc_ClaimRelayer :: "address \<Rightarrow> TransactOpts \<Rightarrow> SwapCreatorRelaySwap \<Rightarrow> hash \<Rightarrow> address \<Rightarrow> 32 word \<Rightarrow>
    8 word \<Rightarrow> hash \<Rightarrow> hash \<Rightarrow> ('w, hash) go"
  expectedSwapCreatorBytecode :: bytes

record ethClient =
  ethPrivKey :: "bytes option"
  ethAddress :: address
  gasPrice :: "int option"
  gasLimit :: uint64
  chainID :: int

record 'w host =
  world :: 'w
  ethc :: ethClient

definition query :: "('w, 'a) go \<Rightarrow> (('w, 'z) host_scheme, 'a) go" where
  "query f = (\<lambda>s. case f (world s) of (r, w) \<Rightarrow> (r, s\<lparr>world := w\<rparr>))"

lemma wp_query [wp_rules]: "wp (query f) Q s = wp f (\<lambda>r w. Q r (s\<lparr>world := w\<rparr>)) (world s)"
  by (simp add: wp_def query_def split: prod.split)

text \<open>The error values the code compares with.\<close>

definition ethereum_NotFound :: goerr where
  "ethereum_NotFound = Sentinel ''ethereum.NotFound'' ''not found''"

definition errReceiptTimeOut :: goerr where
  "errReceiptTimeOut = Sentinel ''errReceiptTimeOut'' ''failed to get receipt, timed out''"

definition errInvalidSwapCreatorContract :: goerr where
  "errInvalidSwapCreatorContract = Sentinel ''errInvalidSwapCreatorContract''
     ''given contract address does not contain correct SwapCreator code''"

section \<open>Waiting (package block)\<close>

text \<open>\<open>ErrorFromBlock\<close> always returns an error.\<close>

definition ErrorFromBlock :: "'w node \<Rightarrow> Receipt \<Rightarrow> (('w, 'z) host_scheme, goerr) go" where
  "ErrorFromBlock N receipt =
     bnd (attempt (wrapping ''unable to determine error in mined block, '' []
       (bnd (query (n_TransactionInBlock N receipt)) (\<lambda>tx.
        bnd (query (n_ChainID N)) (\<lambda>cid.
        lift (of_result (n_TransactionToMessage N tx cid))))))) (\<lambda>m. case m of
       Inl e \<Rightarrow> ret e
     | Inr msg \<Rightarrow>
         bnd (attempt (query (n_CallContract N msg (Some (BlockNumber receipt))))) (\<lambda>r. case r of
           Inl e \<Rightarrow> ret e
         | Inr _ \<Rightarrow> ret (Errorf ''unable to determine error in mined block'')))"

definition maxRetries :: nat where "maxRetries = 360"
definition receiptSleepDuration :: int where "receiptSleepDuration = 2000000000"

text \<open>The loop of \<open>WaitForReceipt\<close>; the argument counts the retries that are left.\<close>

primrec wait_receipt :: "'w node \<Rightarrow> hash \<Rightarrow> nat \<Rightarrow> (('w, 'z) host_scheme, Receipt) go" where
  "wait_receipt N txHash 0 = fail errReceiptTimeOut"
| "wait_receipt N txHash (Suc i) =
     bnd (gets (\<lambda>s. n_ctx_Err N (world s))) (\<lambda>ce. case ce of
       Some e \<Rightarrow> fail e
     | None \<Rightarrow>
         bnd (attempt (query (n_TransactionReceipt N txHash))) (\<lambda>r. case r of
           Inl e \<Rightarrow> andthen (query (n_sleep N receiptSleepDuration)) (wait_receipt N txHash i)
         | Inr receipt \<Rightarrow>
             if Receipt_Status receipt \<noteq> 1
             then bnd (ErrorFromBlock N receipt) (\<lambda>e.
                    fail (Wrapf ''failed transaction included in block (%s): '' e []))
             else ret receipt))"

definition WaitForReceipt :: "'w node \<Rightarrow> hash \<Rightarrow> (('w, 'z) host_scheme, Receipt) go" where
  "WaitForReceipt N txHash = wait_receipt N txHash maxRetries"

text \<open>
  \<open>WaitForEthBlockAfterTimestamp\<close>: the loop has no bound in the source, so it has the number of
  ticks of its timer as an argument and blocks when they are used up.
\<close>

primrec wait_block :: "'w node \<Rightarrow> go_time \<Rightarrow> nat \<Rightarrow> (('w, 'z) host_scheme, Header) go" where
  "wait_block N ts 0 = block"
| "wait_block N ts (Suc ticks) =
     bnd (gets (\<lambda>s. n_ctx_Err N (world s))) (\<lambda>ce. case ce of
       Some e \<Rightarrow> fail e
     | None \<Rightarrow>
         bnd (query (n_HeaderByNumber N)) (\<lambda>header.
         if (of_int (ts div 1000000000) :: uint64) \<le> Header_Time header then ret header
         else wait_block N ts ticks))"

definition WaitForEthBlockAfterTimestamp ::
    "'w node \<Rightarrow> go_time \<Rightarrow> nat \<Rightarrow> (('w, 'z) host_scheme, Header) go" where
  "WaitForEthBlockAfterTimestamp N ts ticks =
     bnd (gets (\<lambda>s. ts - n_clock N (world s))) (\<lambda>d.
     let timeDelta = (if d < 0 then 0 else d) in
     andthen (query (n_sleep N timeDelta)) (wait_block N ts ticks))"

section \<open>Contract code (check\_swap\_creator\_contract.go)\<close>

definition CheckSwapCreatorContractCode :: "'w node \<Rightarrow> address \<Rightarrow> (('w, 'z) host_scheme, unit) go" where
  "CheckSwapCreatorContractCode N contractAddr =
     bnd (wrapping ''failed to get code at %s: '' [] (query (n_CodeAt N contractAddr))) (\<lambda>code.
     if length code \<noteq> length (expectedSwapCreatorBytecode N)
     then fail (Wrapf ''length mismatch: '' errInvalidSwapCreatorContract [])
     else if expectedSwapCreatorBytecode N \<noteq> code then fail errInvalidSwapCreatorContract
     else ret ())"

section \<open>The wallet client (package extethclient)\<close>

definition HasPrivateKey :: "('w, 'z) host_scheme \<Rightarrow> bool" where
  "HasPrivateKey s \<longleftrightarrow> ethPrivKey (ethc s) \<noteq> None"

definition eth_Address :: "('w, 'z) host_scheme \<Rightarrow> address" where
  "eth_Address s = ethAddress (ethc s)"

definition SetAddress :: "address \<Rightarrow> (('w, 'z) host_scheme, unit) go" where
  "SetAddress addr = (\<lambda>s. if HasPrivateKey s
     then panic ''SetAddress should not have been invoked when using an external signer'' s
     else modify (\<lambda>s. s\<lparr>ethc := (ethc s)\<lparr>ethAddress := addr\<rparr>\<rparr>) s)"

definition Balance :: "apd \<Rightarrow> 'w node \<Rightarrow> (('w, 'z) host_scheme, WeiAmount) go" where
  "Balance A N =
     bnd (gets eth_Address) (\<lambda>addr. bnd (query (n_BalanceAt N addr)) (\<lambda>bal. ret (NewWeiAmount A bal)))"

definition SuggestGasPrice :: "'w node \<Rightarrow> (('w, 'z) host_scheme, int) go" where
  "SuggestGasPrice N =
     bnd (gets (\<lambda>s. gasPrice (ethc s))) (\<lambda>p. case p of
       Some g \<Rightarrow> ret g | None \<Rightarrow> query (n_SuggestGasPrice N))"

definition erc20Info :: "'w node \<Rightarrow> address \<Rightarrow> (('w, 'z) host_scheme, ERC20TokenInfo) go" where
  "erc20Info N tokenAddr =
     bnd (query (erc20_Name N tokenAddr)) (\<lambda>name.
     bnd (query (erc20_Symbol N tokenAddr)) (\<lambda>symbol.
     bnd (query (erc20_Decimals N tokenAddr)) (\<lambda>decimals.
     ret (NewERC20TokenInfo tokenAddr decimals name symbol))))"

definition ERC20Balance ::
    "apd \<Rightarrow> 'w node \<Rightarrow> address \<Rightarrow> (('w, 'z) host_scheme, ERC20TokenAmount) go" where
  "ERC20Balance A N tokenAddr =
     bnd (gets eth_Address) (\<lambda>addr.
     bnd (query (erc20_BalanceOf N tokenAddr addr)) (\<lambda>bal.
     bnd (erc20Info N tokenAddr) (\<lambda>tokenInfo.
     lift (NewERC20TokenAmountFromBigInt A bal tokenInfo))))"

definition ERC20Info :: "'w node \<Rightarrow> address \<Rightarrow> (('w, 'z) host_scheme, ERC20TokenInfo) go" where
  "ERC20Info N tokenAddr = erc20Info N tokenAddr"

definition SetGasPrice :: "uint64 \<Rightarrow> (('w, 'z) host_scheme, unit) go" where
  "SetGasPrice p = modify (\<lambda>s. s\<lparr>ethc := (ethc s)\<lparr>gasPrice := (if p = 0 then None else Some (uint p))\<rparr>\<rparr>)"

definition SetGasLimit :: "uint64 \<Rightarrow> (('w, 'z) host_scheme, unit) go" where
  "SetGasLimit l = modify (\<lambda>s. s\<lparr>ethc := (ethc s)\<lparr>gasLimit := l\<rparr>\<rparr>)"

definition TxOpts :: "'w node \<Rightarrow> (('w, 'z) host_scheme, TransactOpts) go" where
  "TxOpts N =
     bnd (gets ethc) (\<lambda>c. case ethPrivKey c of
       None \<Rightarrow> panic ''TxOpts() should not have been invoked when using an external signer''
     | Some key \<Rightarrow> (case n_NewTransactor N key (chainID c) of
         Inl e \<Rightarrow> fail e
       | Inr from \<Rightarrow> ret \<lparr>Opts_From = from, Opts_Value = None, Opts_GasPrice = gasPrice c,
           Opts_GasLimit = gasLimit c\<rparr>))"

text \<open>
  \<open>time.Unix(sec, 0)\<close>, in nanoseconds since 1970. A \<open>Time\<close> holds the seconds since the year 1 in 64 bits,
  so both the conversion to \<open>int64\<close> and the addition of the offset wrap.
\<close>

definition unixToInternal :: int where "unixToInternal = 62135596800"

definition time_Unix :: "int \<Rightarrow> go_time" where
  "time_Unix sec = (sint (of_int (sec + unixToInternal) :: 64 word) - unixToInternal) * 1000000000"

text \<open>\<open>t.Sub(u)\<close> and \<open>d.Abs()\<close> saturate at the bounds of \<open>int64\<close>.\<close>

definition time_Sub :: "go_time \<Rightarrow> go_time \<Rightarrow> int" where
  "time_Sub t u = max (- (2 ^ 63)) (min (2 ^ 63 - 1) (t - u))"

definition duration_Abs :: "int \<Rightarrow> int" where
  "duration_Abs d = (if d \<ge> 0 then d else if d = - (2 ^ 63) then 2 ^ 63 - 1 else - d)"

definition LatestBlockTimestamp :: "'w node \<Rightarrow> (('w, 'z) host_scheme, go_time) go" where
  "LatestBlockTimestamp N =
     bnd (query (n_HeaderByNumber N)) (\<lambda>hdr. ret (time_Unix (uint (Header_Time hdr))))"

definition WaitForTimestamp :: "'w node \<Rightarrow> go_time \<Rightarrow> nat \<Rightarrow> (('w, 'z) host_scheme, unit) go" where
  "WaitForTimestamp N ts ticks = andthen (WaitForEthBlockAfterTimestamp N ts ticks) (ret ())"

definition isContractAddress :: "'w node \<Rightarrow> address \<Rightarrow> (('w, 'z) host_scheme, bool) go" where
  "isContractAddress N addr = bnd (query (n_CodeAt N addr)) (\<lambda>bytecode. ret (length bytecode > 0))"

record transferConfig =
  destAddr :: address
  transfer_amount :: WeiAmount
  transfer_gasLimit :: uint64
  transfer_gasPrice :: WeiAmount
  transfer_nonce :: uint64

definition transfer :: "apd \<Rightarrow> 'w node \<Rightarrow> transferConfig \<Rightarrow> (('w, 'z) host_scheme, Receipt) go" where
  "transfer A N cfg =
     bnd (lift (WeiAmount_BigInt A (transfer_amount cfg))) (\<lambda>v.
     bnd (lift (WeiAmount_BigInt A (transfer_gasPrice cfg))) (\<lambda>gp.
     let tx = \<lparr>Legacy_Nonce = transfer_nonce cfg, Legacy_To = destAddr cfg, Legacy_Value = v,
               Legacy_Gas = transfer_gasLimit cfg, Legacy_GasPrice = gp\<rparr> in
     bnd (query (n_ChainID N)) (\<lambda>cid.
     bnd (gets (\<lambda>s. ethPrivKey (ethc s))) (\<lambda>pk.
     bnd (wrapping ''failed to sign tx: '' [] (lift (n_SignTx N tx cid pk))) (\<lambda>txHash.
     andthen (wrapping ''failed to send transfer transaction: '' [] (query (n_SendTransaction N txHash)))
       (wrapping ''failed waiting for txID %s receipt: '' [] (WaitForReceipt N txHash)))))))"

definition TxGas :: uint64 where "TxGas = 21000"

definition Transfer ::
    "apd \<Rightarrow> 'w node \<Rightarrow> address \<Rightarrow> WeiAmount \<Rightarrow> uint64 option \<Rightarrow> (('w, 'z) host_scheme, Receipt) go" where
  "Transfer A N to amt gl =
     bnd (gets eth_Address) (\<lambda>self.
     bnd (wrapping ''failed to get nonce: '' [] (query (n_NonceAt N self))) (\<lambda>nonce.
     bnd (wrapping ''failed to get gas price: '' [] (query (n_SuggestGasPrice N))) (\<lambda>gp.
     bnd (wrapping ''failed to determine if dest address is contract: '' []
       (isContractAddress N to)) (\<lambda>isContract.
     bnd (if \<not> isContract then ret TxGas
          else (case gl of
              None \<Rightarrow> fail (Errorf ''gas limit is required when transferring to a contract'')
            | Some l \<Rightarrow> ret l)) (\<lambda>limit.
     transfer A N \<lparr>destAddr = to, transfer_amount = amt, transfer_gasLimit = limit,
       transfer_gasPrice = NewWeiAmount A gp, transfer_nonce = nonce\<rparr>)))))"

definition Sweep :: "apd \<Rightarrow> 'w node \<Rightarrow> address \<Rightarrow> (('w, 'z) host_scheme, Receipt) go" where
  "Sweep A N to =
     bnd (gets eth_Address) (\<lambda>self.
     bnd (wrapping ''failed to get nonce: '' [] (query (n_NonceAt N self))) (\<lambda>nonce.
     bnd (wrapping ''failed to get gas price: '' [] (query (n_SuggestGasPrice N))) (\<lambda>gp.
     bnd (wrapping ''failed to determine if dest address is contract: '' []
       (isContractAddress N to)) (\<lambda>isContract.
     if isContract then fail (Errorf ''sweeping to contract addresses is not currently supported'')
     else
       bnd (wrapping ''failed to determine balance: '' [] (Balance A N)) (\<lambda>bal.
       let fees = NewWeiAmount A (gp * uint TxGas) in
       if WeiAmount_Cmp A bal fees \<le> 0
       then fail (Errorf ''balance of %s ETH too small for fees (%d gas * %s gas-price = %s ETH'')
       else
         bnd (lift (WeiAmount_BigInt A bal)) (\<lambda>b.
         bnd (lift (WeiAmount_BigInt A fees)) (\<lambda>f.
         transfer A N \<lparr>destAddr = to, transfer_amount = NewWeiAmount A (b - f),
           transfer_gasLimit = TxGas, transfer_gasPrice = NewWeiAmount A gp,
           transfer_nonce = nonce\<rparr>)))))))"

definition CancelTxWithNonce ::
    "apd \<Rightarrow> 'w node \<Rightarrow> uint64 \<Rightarrow> int \<Rightarrow> (('w, 'z) host_scheme, Receipt) go" where
  "CancelTxWithNonce A N n gp =
     bnd (gets eth_Address) (\<lambda>self.
     transfer A N \<lparr>destAddr = self, transfer_amount = NewWeiAmount A 0, transfer_gasLimit = TxGas,
       transfer_gasPrice = NewWeiAmount A gp, transfer_nonce = n\<rparr>)"

text \<open>The chain each environment runs on; a client for another chain is not created.\<close>

definition validateChainID :: "Environment \<Rightarrow> int \<Rightarrow> unit outcome" where
  "validateChainID env cid =
     (case env of
        Mainnet \<Rightarrow> if cid \<noteq> 1 then Err (Errorf ''expected Mainnet chain ID (%d), but found %s'') else Ok ()
      | Stagenet \<Rightarrow>
          if cid \<noteq> 11155111 then Err (Errorf ''expected Sepolia chain ID (%d), but found %s'') else Ok ()
      | Development \<Rightarrow>
          if cid \<noteq> 1337 then Err (Errorf ''expected Ganache chain ID (%d), but found %s'') else Ok ()
      | _ \<Rightarrow> Panic ''unhandled environment type'')"

section \<open>Log filters (package watcher)\<close>

text \<open>
  An \<open>EventFilter\<close>: the contract and event it looks for, the block it reads from next, and whether its
  context is cancelled. \<open>EventFilter_tick\<close> is one round of the loop that \<open>Start\<close> runs: the logs it puts on
  its channel, and whether the loop ends.
\<close>

record EventFilter =
  ef_contract :: address
  ef_topic :: hash
  ef_fromBlock :: int
  ef_stopped :: bool

definition NewEventFilter :: "address \<Rightarrow> int \<Rightarrow> hash \<Rightarrow> EventFilter" where
  "NewEventFilter c fromBlock topic =
     \<lparr>ef_contract = c, ef_topic = topic, ef_fromBlock = fromBlock, ef_stopped = False\<rparr>"

definition EventFilter_Stop :: "EventFilter \<Rightarrow> EventFilter" where
  "EventFilter_Stop f = f\<lparr>ef_stopped := True\<rparr>"

definition ethrpc_ErrClientQuit :: goerr where
  "ethrpc_ErrClientQuit = Sentinel ''ErrClientQuit'' ''client is closed''"

primrec select_logs :: "hash \<Rightarrow> Log list \<Rightarrow> Log list outcome" where
  "select_logs topic [] = Ok []"
| "select_logs topic (l # ls) =
     (case Topics l of
        [] \<Rightarrow> Panic ''index out of range''
      | t0 # _ \<Rightarrow>
          if t0 \<noteq> topic \<or> Removed l then select_logs topic ls
          else obind (select_logs topic ls) (\<lambda>rest. Ok (l # rest)))"

definition EventFilter_tick ::
    "'w node \<Rightarrow> EventFilter \<Rightarrow> (('w, 'z) host_scheme, EventFilter \<times> Log list \<times> bool) go" where
  "EventFilter_tick N f =
     (if ef_stopped f then ret (f, [], True)
      else
        bnd (attempt (query (n_HeaderByNumber N))) (\<lambda>r. case r of
          Inl err \<Rightarrow> ret (f, [], errors_Is (Some err) (Some ethrpc_ErrClientQuit))
        | Inr currHeader \<Rightarrow>
            if Header_Number currHeader \<le> ef_fromBlock f then ret (f, [], False)
            else
              bnd (attempt (query (n_FilterLogs N (Some (ef_fromBlock f)) (ef_contract f) None))) (\<lambda>r2. case r2 of
                Inl _ \<Rightarrow> ret (f, [], False)
              | Inr found_logs \<Rightarrow>
                  bnd (lift (select_logs (ef_topic f) found_logs)) (\<lambda>found.
                  ret (f\<lparr>ef_fromBlock := Header_Number currHeader\<rparr>, found, False)))))"

section \<open>What calls of the node leave alone\<close>

text \<open>
  A property that does not depend on the outside world is kept by every operation that only talks to
  the node: waiting for receipts and blocks, reading balances and the transaction settings.
\<close>

locale world_invariant =
  fixes I :: "('w, 'z) host_scheme \<Rightarrow> bool"
  assumes world_irrelevant: "I s \<Longrightarrow> I (s\<lparr>world := w\<rparr>)"

begin

lemma query_keeps: "keeps I (query f)"
  using world_irrelevant by (auto intro!: keepsI simp: query_def split: prod.split)

lemma ErrorFromBlock_keeps: "keeps I (ErrorFromBlock N r)"
  unfolding ErrorFromBlock_def by (intro keeps_rules query_keeps)

lemma wait_receipt_keeps: "keeps I (wait_receipt N h n)"
  by (induction n) (auto intro!: keeps_rules query_keeps ErrorFromBlock_keeps)

lemma WaitForReceipt_keeps: "keeps I (WaitForReceipt N h)"
  unfolding WaitForReceipt_def by (rule wait_receipt_keeps)

lemma CheckSwapCreatorContractCode_keeps: "keeps I (CheckSwapCreatorContractCode N a)"
  unfolding CheckSwapCreatorContractCode_def by (intro keeps_rules query_keeps)

lemma TxOpts_keeps: "keeps I (TxOpts N)"
  unfolding TxOpts_def by (intro keeps_rules)

lemma SuggestGasPrice_keeps: "keeps I (SuggestGasPrice N)"
  unfolding SuggestGasPrice_def by (intro keeps_rules query_keeps)

lemma Balance_keeps: "keeps I (Balance A N)"
  unfolding Balance_def by (intro keeps_rules query_keeps)

lemma ERC20Info_keeps: "keeps I (ERC20Info N t)"
  unfolding ERC20Info_def erc20Info_def by (intro keeps_rules query_keeps)

lemma ERC20Balance_keeps: "keeps I (ERC20Balance A N t)"
  unfolding ERC20Balance_def by (intro keeps_rules query_keeps ERC20Info_keeps [unfolded ERC20Info_def])

lemma LatestBlockTimestamp_keeps: "keeps I (LatestBlockTimestamp N)"
  unfolding LatestBlockTimestamp_def by (intro keeps_rules query_keeps)

lemmas node_keeps = query_keeps WaitForReceipt_keeps CheckSwapCreatorContractCode_keeps TxOpts_keeps
  SuggestGasPrice_keeps Balance_keeps ERC20Info_keeps ERC20Balance_keeps LatestBlockTimestamp_keeps
  ErrorFromBlock_keeps

end

interpretation client: world_invariant "\<lambda>s. ethc s = c" for c
  by unfold_locales simp

lemma query_Ok [run_Ok]: "query f s = (Ok x, s') \<longleftrightarrow> (\<exists>w. f (world s) = (Ok x, w) \<and> s' = s\<lparr>world := w\<rparr>)"
  by (auto simp: query_def split: prod.splits)

lemma query_run: "query f s = (r, s') \<Longrightarrow> \<exists>w. s' = s\<lparr>world := w\<rparr>"
  by (auto simp: query_def split: prod.splits)

text \<open>What a successful check has seen.\<close>

lemma CheckSwapCreatorContractCode_Ok:
  "CheckSwapCreatorContractCode N a s = (Ok x, s') \<Longrightarrow>
     fst (n_CodeAt N a (world s)) = Ok (expectedSwapCreatorBytecode N)"
  by (auto simp: CheckSwapCreatorContractCode_def run_Ok fail_def split: if_splits)

lemma wait_receipt_Ok:
  "wait_receipt N h n s = (Ok r, s') \<Longrightarrow>
     \<exists>w. fst (n_TransactionReceipt N h w) = Ok r \<and> Receipt_Status r = 1"
proof (induction n arbitrary: s)
  case 0
  then show ?case by (simp add: fail_Ok)
next
  case (Suc n)
  obtain r1 s1 where run: "query (n_TransactionReceipt N h) s = (r1, s1)" by force
  have "n_ctx_Err N (world s) = None"
    using Suc.prems by (cases "n_ctx_Err N (world s)") (simp_all add: bnd_Ok gets_Ok fail_Ok)
  with Suc.prems run consider s2 where "wait_receipt N h n s2 = (Ok r, s')"
    | "r1 = Ok r" "Receipt_Status r = 1"
    by (auto simp: bnd_Ok gets_Ok attempt_Ok fail_Ok ret_Ok split: if_splits)
  then show ?case
  proof cases
    case 1
    then show ?thesis by (rule Suc.IH)
  next
    case 2
    with run show ?thesis by (auto simp: query_def split: prod.splits intro!: exI [of _ "world s"])
  qed
qed

end
