(* ===== verification/Swap_Backend.thy ===== *)
theory Swap_Backend
  imports Database Eth_Client
begin

text \<open>
  What both parties of a swap run on: the backend (\<open>protocol/backend/backend.go\<close>), the transaction
  senders (\<open>protocol/txsender\<close>), the messages of \<open>net/message\<close> that the swap protocol uses, and the
  claiming of Monero (\<open>protocol/claim_monero.go\<close>). The swap manager, the recovery database and the
  Ethereum client are the models of the other theories; the Monero wallet and the network host are
  interfaces, records of operations over the outside world. The state of a computation is a
  \<open>daemon\<close> record; its field \<open>trace\<close> records, newest first, every action that leaves the daemon
  (a transaction, a transfer of XMR, a message) together with the database at that moment. The trace
  is not read by any modelled function.
\<close>

section \<open>Messages\<close>

record SendKeysMessage =
  SK_OfferID :: hash
  SK_ProvidedAmount :: "decimal option"
  SK_PublicSpendKey :: "PublicKey option"
  SK_PrivateViewKey :: "PrivateViewKey option"
  SK_DLEqProof :: bytes
  SK_Secp256k1PublicKey :: "Secp256k1PublicKey option"
  SK_EthAddress :: address

record NotifyETHLocked =
  NL_Address :: address
  NL_TxHash :: hash
  NL_ContractSwapID :: hash
  NL_ContractSwap :: SwapCreatorSwap

record RelayClaimRequest =
  RC_OfferID :: "hash option"
  RC_RelaySwap :: SwapCreatorRelaySwap
  RC_Secret :: bytes
  RC_Signature :: bytes

datatype message = SendKeys SendKeysMessage | ETHLockedMessage NotifyETHLocked | OtherMessage

section \<open>The backend's state\<close>

record XmrBalance =
  Wallet_Balance :: uint64
  UnlockedBalance :: uint64

record 'w wallet =
  xmr_PrimaryAddress :: MoneroAddress
  xmr_GetHeight :: "('w, uint64) go"
  xmr_GetBalance :: "('w, XmrBalance) go"
  xmr_Transfer :: "MoneroAddress \<Rightarrow> PiconeroAmount \<Rightarrow> uint64 \<Rightarrow> ('w, string) go"
  xmr_SweepAll :: "MoneroAddress \<Rightarrow> uint64 \<Rightarrow> ('w, string list) go"
  xmr_CreateViewOnlyWallet :: "PrivateViewKey \<Rightarrow> MoneroAddress \<Rightarrow> uint64 \<Rightarrow> ('w, nat) go"
  xmr_CreateSpendWallet :: "PrivateKeyPair \<Rightarrow> uint64 \<Rightarrow> ('w, nat) go"
  wal_GetBalance :: "nat \<Rightarrow> ('w, XmrBalance) go"
  wal_SweepAll :: "nat \<Rightarrow> MoneroAddress \<Rightarrow> uint64 \<Rightarrow> ('w, string list) go"
  wal_Close :: "nat \<Rightarrow> ('w, unit) go"
  wal_CloseAndRemoveWallet :: "nat \<Rightarrow> ('w, unit) go"

record 'w netsender =
  net_SendSwapMessage :: "message \<Rightarrow> hash \<Rightarrow> ('w, unit) go"
  net_DeleteOngoingSwap :: "hash \<Rightarrow> ('w, unit) go"
  net_CloseProtocolStream :: "hash \<Rightarrow> ('w, unit) go"
  net_DiscoverRelayers :: "('w, string list) go"
  net_QueryRelayerAddress :: "string \<Rightarrow> ('w, hash) go"
  net_SubmitRelayRequest :: "string \<Rightarrow> RelayClaimRequest \<Rightarrow> ('w, hash) go"

datatype pack_arg =
    PackValue abi_value
  | PackSwap SwapCreatorSwap
  | PackRelaySwap SwapCreatorRelaySwap
  | PackUint32 "32 word"
  | PackUint8 "8 word"

text \<open>The third-party code and random sources that the components below call.\<close>

record 'w extern =
  x_Prove :: "('w, Proof) go"
  x_GenerateNewSwapNonce :: "('w, int) go"
  x_rand_salt :: "('w, 32 word) go"
  x_Pack :: "string \<Rightarrow> pack_arg list \<Rightarrow> bytes result"
  x_sign_and_submit :: "address \<Rightarrow> bytes \<Rightarrow> decimal option \<Rightarrow> ('w, hash) go"
  x_UnpackNewSwap :: "bytes \<Rightarrow> newSwapArgs result"
  x_TxSender :: "Transaction \<Rightarrow> address result"
  x_KeyAddress :: "bytes \<Rightarrow> address"
  x_Sign :: "hash \<Rightarrow> bytes \<Rightarrow> bytes result"
  x_Ecrecover :: "hash \<Rightarrow> bytes \<Rightarrow> bytes result"
  x_PubkeyAddress :: "bytes \<Rightarrow> address result"

record ('w, 'k) backend =
  b_env :: Environment
  b_swapCreatorAddr :: address
  b_node :: "'w node"
  b_wallet :: "'w wallet"
  b_net :: "'w netsender"
  b_extern :: "'w extern"
  b_chaindb :: "'k chaindb"
  b_codecs :: codecs
  b_crypt :: crypt
  b_ethlib :: ethlib

text \<open>Actions that leave the daemon.\<close>

datatype action =
    NewSwapTx address "int option" newSwapArgs
  | SetReadyTx address SwapCreatorSwap
  | ClaimTx address SwapCreatorSwap hash
  | RefundTx address SwapCreatorSwap hash
  | ClaimRelayerTx address SwapCreatorRelaySwap hash address
  | ApproveTx address address int
  | ExternalTx address bytes
  | XmrTransfer MoneroAddress PiconeroAmount
  | XmrSweep PrivateKeyPair MoneroAddress
  | SwapMessage message hash
  | RelayRequest string RelayClaimRequest

record ('w, 'k) daemon = "'w host" +
  mgr :: "'k manager"
  perSwapXMRDepositAddr :: "hash \<rightharpoonup> MoneroAddress"
  relayerHashes :: "hash \<rightharpoonup> 32 word"
  swapTimeout :: int
  trace :: "(action \<times> 'k) list"

definition on_mgr :: "('k manager, 'a) go \<Rightarrow> (('w, 'k, 'z) daemon_scheme, 'a) go" where
  "on_mgr f = (\<lambda>s. case f (mgr s) of (r, m) \<Rightarrow> (r, s\<lparr>mgr := m\<rparr>))"

definition recovery :: "('k, 'a) go \<Rightarrow> (('w, 'k, 'z) daemon_scheme, 'a) go" where
  "recovery f = on_mgr (call_db f)"

definition perform :: "action \<Rightarrow> ('w, 'a) go \<Rightarrow> (('w, 'k, 'z) daemon_scheme, 'a) go" where
  "perform a f = (\<lambda>s. query f (s\<lparr>trace := (a, mgr_db (mgr s)) # trace s\<rparr>))"

lemma wp_on_mgr [wp_rules]: "wp (on_mgr f) Q s = wp f (\<lambda>r m. Q r (s\<lparr>mgr := m\<rparr>)) (mgr s)"
  by (simp add: wp_def on_mgr_def split: prod.split)

lemma wp_recovery [wp_rules]:
  "wp (recovery f) Q s = wp f (\<lambda>r k. Q r (s\<lparr>mgr := (mgr s)\<lparr>mgr_db := k\<rparr>\<rparr>)) (mgr_db (mgr s))"
  by (simp add: recovery_def wp_on_mgr wp_call_db)

lemma wp_perform [wp_rules]:
  "wp (perform a f) Q s =
     wp f (\<lambda>r w. Q r (s\<lparr>trace := (a, mgr_db (mgr s)) # trace s, world := w\<rparr>)) (world s)"
  by (simp add: wp_def perform_def query_def split: prod.split)

abbreviation b_apd :: "('w, 'k) backend \<Rightarrow> apd" where
  "b_apd B \<equiv> z_apd (b_codecs B)"

abbreviation b_swapdb :: "('w, 'k) backend \<Rightarrow> 'k swapdb" where
  "b_swapdb B \<equiv> swap_ops (b_chaindb B) (b_codecs B)"

definition now :: "('w, 'k) backend \<Rightarrow> ('w, 'z) host_scheme \<Rightarrow> go_time" where
  "now B s = n_clock (b_node B) (world s)"

section \<open>The backend (backend.go)\<close>

definition XMRDepositAddress ::
    "('w, 'k) backend \<Rightarrow> hash option \<Rightarrow> ('w, 'k, 'z) daemon_scheme \<Rightarrow> MoneroAddress" where
  "XMRDepositAddress B offerID s =
     (case offerID of
        Some i \<Rightarrow> (case perSwapXMRDepositAddr s i of
            Some addr \<Rightarrow> addr | None \<Rightarrow> xmr_PrimaryAddress (b_wallet B))
      | None \<Rightarrow> xmr_PrimaryAddress (b_wallet B))"

definition SetXMRDepositAddress ::
    "MoneroAddress \<Rightarrow> hash \<Rightarrow> (('w, 'k, 'z) daemon_scheme, unit) go" where
  "SetXMRDepositAddress addr offerID =
     modify (\<lambda>s. s\<lparr>perSwapXMRDepositAddr := (perSwapXMRDepositAddr s)(offerID \<mapsto> addr)\<rparr>)"

definition ClearXMRDepositAddress :: "hash \<Rightarrow> (('w, 'k, 'z) daemon_scheme, unit) go" where
  "ClearXMRDepositAddress offerID =
     modify (\<lambda>s. s\<lparr>perSwapXMRDepositAddr := (perSwapXMRDepositAddr s)(offerID := None)\<rparr>)"

definition SetSwapTimeout :: "int \<Rightarrow> (('w, 'k, 'z) daemon_scheme, unit) go" where
  "SetSwapTimeout timeout = modify (\<lambda>s. s\<lparr>swapTimeout := timeout\<rparr>)"

definition info_copy :: "('w, 'k) backend \<Rightarrow> Info \<Rightarrow> Info result" where
  "info_copy B = DeepCopy (z_lib (b_codecs B)) (z_version (b_codecs B)) (z_info (b_codecs B))"

text \<open>\<open>HasOngoingSwapAsTaker\<close>; \<open>order\<close> is the order in which the map of ongoing swaps is read.\<close>

definition HasOngoingSwapAsTaker ::
    "('w, 'k) backend \<Rightarrow> hash list \<Rightarrow> string \<Rightarrow> (('w, 'k, 'z) daemon_scheme, unit) go" where
  "HasOngoingSwapAsTaker B order remotePeer =
     bnd (on_mgr (GetOngoingSwapsSnapshot (info_copy B) order)) (\<lambda>swaps.
     if \<exists>i\<in>set swaps. PeerID i = remotePeer \<and> IsTaker i then ret ()
     else fail (Errorf ''do not have an ongoing swap with peer %s as taker''))"

definition address_bytes :: "address \<Rightarrow> bytes" where
  "address_bytes a = drop 12 (abi_word a)"

definition salt_bytes :: "32 word \<Rightarrow> bytes" where
  "salt_bytes sa = map (\<lambda>i. ucast (drop_bit (8 * (3 - i)) sa)) [0..<4]"

definition GetRelayerAddressHash :: "('w, 'k) backend \<Rightarrow> (('w, 'k, 'z) daemon_scheme, hash) go" where
  "GetRelayerAddressHash B =
     bnd (gets eth_Address) (\<lambda>addr.
     bnd (query (x_rand_salt (b_extern B))) (\<lambda>salt.
     let h = Keccak256Hash (b_ethlib B) (address_bytes addr @ salt_bytes salt) in
     andthen (modify (\<lambda>s. s\<lparr>relayerHashes := (relayerHashes s)(h \<mapsto> salt)\<rparr>)) (ret h)))"

definition clearRelayerAddressHash :: "hash \<Rightarrow> (('w, 'k, 'z) daemon_scheme, unit) go" where
  "clearRelayerAddressHash h = modify (\<lambda>s. s\<lparr>relayerHashes := (relayerHashes s)(h := None)\<rparr>)"

definition TransferXMR ::
    "('w, 'k) backend \<Rightarrow> MoneroAddress \<Rightarrow> PiconeroAmount \<Rightarrow> (('w, 'k, 'z) daemon_scheme, string) go" where
  "TransferXMR B to amt = perform (XmrTransfer to amt) (xmr_Transfer (b_wallet B) to amt 1)"

definition SweepXMR ::
    "('w, 'k) backend \<Rightarrow> MoneroAddress \<Rightarrow> (('w, 'k, 'z) daemon_scheme, string list) go" where
  "SweepXMR B to = query (xmr_SweepAll (b_wallet B) to 1)"

definition TransferETH :: "('w, 'k) backend \<Rightarrow> address \<Rightarrow> WeiAmount \<Rightarrow> uint64 option \<Rightarrow>
    (('w, 'k, 'z) daemon_scheme, Receipt) go" where
  "TransferETH B to amt gl = Transfer (b_apd B) (b_node B) to amt gl"

definition SweepETH :: "('w, 'k) backend \<Rightarrow> address \<Rightarrow> (('w, 'k, 'z) daemon_scheme, Receipt) go" where
  "SweepETH B to = Sweep (b_apd B) (b_node B) to"

definition SwapTimeoutFromEnv :: "Environment \<Rightarrow> int outcome" where
  "SwapTimeoutFromEnv env =
     (case env of
        Mainnet \<Rightarrow> Ok 3600000000000
      | Stagenet \<Rightarrow> Ok 3600000000000
      | Development \<Rightarrow> Ok 120000000000
      | _ \<Rightarrow> Panic ''invalid environment'')"

definition AssetSymbol :: "('w, 'k) backend \<Rightarrow> EthAsset \<Rightarrow> (('w, 'k, 'z) daemon_scheme, string) go" where
  "AssetSymbol B ea =
     (if ea \<noteq> EthAssetETH
      then bnd (wrapping ''failed to get ERC20 info: '' [] (ERC20Info (b_node B) ea))
             (\<lambda>tokenInfo. ret ([CHR 0x22] @ Symbol tokenInfo @ [CHR 0x22]))
      else ret ''ETH'')"

section \<open>Transaction senders (package txsender)\<close>

text \<open>
  A sender with the daemon's private key has the address of the contract it approves transfers for,
  the contract it calls and the token contract; an external sender has the contract and token
  addresses. The wallet lock around a method is the atomicity of its computation. The external
  signer's answer, or the time-out of waiting for it, is \<open>x_sign_and_submit\<close>.
\<close>

datatype Sender =
    PrivateKeySender address address "address option"
  | ExternalSender address address

definition NewTxSender :: "('w, 'k) backend \<Rightarrow> address \<Rightarrow> ('w, 'k, 'z) daemon_scheme \<Rightarrow> Sender" where
  "NewTxSender B token s =
     (if \<not> HasPrivateKey s then ExternalSender (b_swapCreatorAddr B) token
      else PrivateKeySender (b_swapCreatorAddr B) (b_swapCreatorAddr B)
             (if token = EthAssetETH then None else Some token))"

primrec SetSwapCreator :: "address \<Rightarrow> Sender \<Rightarrow> Sender" where
  "SetSwapCreator c (PrivateKeySender sa sc erc) = PrivateKeySender sa c erc"
| "SetSwapCreator c (ExternalSender ca ea) = ExternalSender ca ea"

primrec SetSwapCreatorAddr :: "address \<Rightarrow> Sender \<Rightarrow> Sender" where
  "SetSwapCreatorAddr addr (PrivateKeySender sa sc erc) = PrivateKeySender sa sc erc"
| "SetSwapCreatorAddr addr (ExternalSender ca ea) = ExternalSender addr ea"

definition approveNoChecks :: "('w, 'k) backend \<Rightarrow> address \<Rightarrow> address \<Rightarrow> EthAssetAmount \<Rightarrow>
    (('w, 'k, 'z) daemon_scheme, unit) go" where
  "approveNoChecks B token spender amt =
     bnd (TxOpts (b_node B)) (\<lambda>txOpts.
     bnd (lift (BigInt (b_apd B) amt)) (\<lambda>v.
     bnd (wrapping ''token approve tx for %s %s creation failed, '' []
       (perform (ApproveTx token spender v) (erc20_Approve (b_node B) token txOpts spender v))) (\<lambda>tx.
     andthen (wrapping ''approveNoChecks tx %s failed waiting for receipt, '' []
       (WaitForReceipt (b_node B) tx)) (ret ()))))"

definition approveTransferFrom :: "('w, 'k) backend \<Rightarrow> address option \<Rightarrow> address \<Rightarrow> EthAssetAmount \<Rightarrow>
    (('w, 'k, 'z) daemon_scheme, unit) go" where
  "approveTransferFrom B erc spender amt =
     (if \<not> IsToken amt then panic ''this function should only be called with a token asset''
      else
        bnd (lift (AsStd (b_apd B) amt)) (\<lambda>std.
        if Coeff std = 0
        then fail (Errorf ''approveContractToTransfer can not be called with a zero amount'')
        else
          bnd (ERC20Balance (b_apd B) (b_node B) (TokenAddress amt)) (\<lambda>bal.
          if apd_Cmp (b_apd B) (Amount bal) std < 0
          then fail (Errorf ''balance of %s %s is under the %s swap amount'')
          else (case erc of
              None \<Rightarrow> panic ''nil pointer dereference''
            | Some token \<Rightarrow>
                bnd (gets eth_Address) (\<lambda>self.
                bnd (query (erc20_Allowance (b_node B) token self spender)) (\<lambda>allowedAmtBI.
                bnd (lift (NewERC20TokenAmountFromBigInt (b_apd B) allowedAmtBI (TokenInfo bal))) (\<lambda>allowedAmt.
                if apd_Cmp (b_apd B) std (Amount allowedAmt) \<le> 0 then ret ()
                else
                  andthen
                    (if Coeff (Amount allowedAmt) \<noteq> 0
                     then bnd (lift (NewTokenAmountFromDecimals (b_apd B) new_decimal (TokenInfo bal)))
                            (\<lambda>zeroTokenAmt. approveNoChecks B token spender (ERC20 zeroTokenAmt))
                     else ret ())
                    (approveNoChecks B token spender amt))))))))"

text \<open>\<open>saveTx\<close> is the callback of \<open>NewSwap\<close> that stores the transaction hash.\<close>

definition privateKeySender_NewSwap :: "('w, 'k) backend \<Rightarrow> address \<Rightarrow> address \<Rightarrow> address option \<Rightarrow> hash \<Rightarrow> hash \<Rightarrow>
    address \<Rightarrow> int \<Rightarrow> int \<Rightarrow> EthAssetAmount \<Rightarrow> (hash \<Rightarrow> (('w, 'k, 'z) daemon_scheme, unit) go) \<Rightarrow>
    (('w, 'k, 'z) daemon_scheme, Receipt) go" where
  "privateKeySender_NewSwap B sa sc erc cCommitment rCommitment clm timeoutDuration n amt saveTx =
     bnd (lift (BigInt (b_apd B) amt)) (\<lambda>v.
     andthen (if IsToken amt then approveTransferFrom B erc sa amt else ret ())
       (bnd (TxOpts (b_node B)) (\<lambda>opts0.
        let opts = (if \<not> IsToken amt then opts0\<lparr>Opts_Value := Some v\<rparr> else opts0);
            args = \<lparr>ns_claimCommitment = cCommitment, ns_refundCommitment = rCommitment,
                    ns_claimer = clm, ns_timeout1 = timeoutDuration, ns_timeout2 = timeoutDuration,
                    ns_asset = TokenAddress amt, ns_value = v, ns_nonce = n\<rparr> in
        bnd (wrapping ''new_swap tx creation failed, '' []
          (perform (NewSwapTx sc (Opts_Value opts) args) (sc_NewSwap (b_node B) sc opts args))) (\<lambda>tx.
        andthen (saveTx tx)
          (wrapping ''NewSwap tx %s failed waiting for receipt, '' [] (WaitForReceipt (b_node B) tx))))))"

definition ExternalSender_NewSwap :: "('w, 'k) backend \<Rightarrow> address \<Rightarrow> hash \<Rightarrow> hash \<Rightarrow> address \<Rightarrow> int \<Rightarrow> int \<Rightarrow>
    EthAssetAmount \<Rightarrow> (hash \<Rightarrow> (('w, 'k, 'z) daemon_scheme, unit) go) \<Rightarrow>
    (('w, 'k, 'z) daemon_scheme, Receipt) go" where
  "ExternalSender_NewSwap B ca cCommitment rCommitment clm timeoutDuration n amt saveTx =
     (if IsToken amt then fail (Errorf ''external sender does not support ERC20 token swaps'')
      else
        bnd (lift (BigInt (b_apd B) amt)) (\<lambda>v.
        bnd (lift (of_result (x_Pack (b_extern B) ''new_swap''
          [PackValue (AbiBytes32 cCommitment), PackValue (AbiBytes32 rCommitment),
           PackValue (AbiAddress clm), PackValue (AbiUint256 timeoutDuration),
           PackValue (AbiAddress (TokenAddress amt)), PackValue (AbiUint256 v),
           PackValue (AbiUint256 n)]))) (\<lambda>input.
        bnd (lift (AsStd (b_apd B) amt)) (\<lambda>std.
        bnd (perform (ExternalTx ca input) (x_sign_and_submit (b_extern B) ca input (Some std))) (\<lambda>tx.
        andthen (saveTx tx) (WaitForReceipt (b_node B) tx))))))"

definition sendAndReceive ::
    "('w, 'k) backend \<Rightarrow> bytes \<Rightarrow> address \<Rightarrow> (('w, 'k, 'z) daemon_scheme, Receipt) go" where
  "sendAndReceive B input to =
     bnd (perform (ExternalTx to input) (x_sign_and_submit (b_extern B) to input None)) (\<lambda>tx.
     WaitForReceipt (b_node B) tx)"

definition privateKeySender_SetReady ::
    "('w, 'k) backend \<Rightarrow> address \<Rightarrow> SwapCreatorSwap \<Rightarrow> (('w, 'k, 'z) daemon_scheme, Receipt) go" where
  "privateKeySender_SetReady B sc sw =
     bnd (TxOpts (b_node B)) (\<lambda>opts.
     bnd (wrapping ''set_ready tx creation failed, '' []
       (perform (SetReadyTx sc sw) (sc_SetReady (b_node B) sc opts sw))) (\<lambda>tx.
     wrapping ''set_ready failed, '' [] (WaitForReceipt (b_node B) tx)))"

definition ExternalSender_SetReady ::
    "('w, 'k) backend \<Rightarrow> address \<Rightarrow> SwapCreatorSwap \<Rightarrow> (('w, 'k, 'z) daemon_scheme, Receipt) go" where
  "ExternalSender_SetReady B ca sw =
     bnd (lift (of_result (x_Pack (b_extern B) ''set_ready'' [PackSwap sw]))) (\<lambda>input.
     sendAndReceive B input ca)"

definition privateKeySender_Claim ::
    "('w, 'k) backend \<Rightarrow> address \<Rightarrow> SwapCreatorSwap \<Rightarrow> hash \<Rightarrow> (('w, 'k, 'z) daemon_scheme, Receipt) go" where
  "privateKeySender_Claim B sc sw secret =
     bnd (TxOpts (b_node B)) (\<lambda>opts.
     bnd (wrapping ''claim tx creation failed, '' []
       (perform (ClaimTx sc sw secret) (sc_Claim (b_node B) sc opts sw secret))) (\<lambda>tx.
     wrapping ''claim failed, '' [] (WaitForReceipt (b_node B) tx)))"

definition ExternalSender_Claim ::
    "('w, 'k) backend \<Rightarrow> address \<Rightarrow> SwapCreatorSwap \<Rightarrow> hash \<Rightarrow> (('w, 'k, 'z) daemon_scheme, Receipt) go" where
  "ExternalSender_Claim B ca sw secret =
     bnd (lift (of_result (x_Pack (b_extern B) ''claim'' [PackSwap sw, PackValue (AbiBytes32 secret)])))
       (\<lambda>input. sendAndReceive B input ca)"

definition privateKeySender_Refund ::
    "('w, 'k) backend \<Rightarrow> address \<Rightarrow> SwapCreatorSwap \<Rightarrow> hash \<Rightarrow> (('w, 'k, 'z) daemon_scheme, Receipt) go" where
  "privateKeySender_Refund B sc sw secret =
     bnd (TxOpts (b_node B)) (\<lambda>opts.
     bnd (wrapping ''refund tx creation failed, '' []
       (perform (RefundTx sc sw secret) (sc_Refund (b_node B) sc opts sw secret))) (\<lambda>tx.
     wrapping ''refund failed, '' [] (WaitForReceipt (b_node B) tx)))"

definition ExternalSender_Refund ::
    "('w, 'k) backend \<Rightarrow> address \<Rightarrow> SwapCreatorSwap \<Rightarrow> hash \<Rightarrow> (('w, 'k, 'z) daemon_scheme, Receipt) go" where
  "ExternalSender_Refund B ca sw secret =
     bnd (lift (of_result (x_Pack (b_extern B) ''refund'' [PackSwap sw, PackValue (AbiBytes32 secret)])))
       (\<lambda>input. sendAndReceive B input ca)"

text \<open>The interface \<open>Sender\<close>: the method of the sender at hand.\<close>

primrec sender_NewSwap :: "('w, 'k) backend \<Rightarrow> Sender \<Rightarrow> hash \<Rightarrow> hash \<Rightarrow> address \<Rightarrow> int \<Rightarrow> int \<Rightarrow>
    EthAssetAmount \<Rightarrow> (hash \<Rightarrow> (('w, 'k, 'z) daemon_scheme, unit) go) \<Rightarrow>
    (('w, 'k, 'z) daemon_scheme, Receipt) go" where
  "sender_NewSwap B (PrivateKeySender sa sc erc) = privateKeySender_NewSwap B sa sc erc"
| "sender_NewSwap B (ExternalSender ca ea) = ExternalSender_NewSwap B ca"

primrec sender_SetReady ::
    "('w, 'k) backend \<Rightarrow> Sender \<Rightarrow> SwapCreatorSwap \<Rightarrow> (('w, 'k, 'z) daemon_scheme, Receipt) go" where
  "sender_SetReady B (PrivateKeySender sa sc erc) = privateKeySender_SetReady B sc"
| "sender_SetReady B (ExternalSender ca ea) = ExternalSender_SetReady B ca"

primrec sender_Claim :: "('w, 'k) backend \<Rightarrow> Sender \<Rightarrow> SwapCreatorSwap \<Rightarrow> hash \<Rightarrow>
    (('w, 'k, 'z) daemon_scheme, Receipt) go" where
  "sender_Claim B (PrivateKeySender sa sc erc) = privateKeySender_Claim B sc"
| "sender_Claim B (ExternalSender ca ea) = ExternalSender_Claim B ca"

primrec sender_Refund :: "('w, 'k) backend \<Rightarrow> Sender \<Rightarrow> SwapCreatorSwap \<Rightarrow> hash \<Rightarrow>
    (('w, 'k, 'z) daemon_scheme, Receipt) go" where
  "sender_Refund B (PrivateKeySender sa sc erc) = privateKeySender_Refund B sc"
| "sender_Refund B (ExternalSender ca ea) = ExternalSender_Refund B ca"

text \<open>The first log that a parser accepts; the error is that of the last one.\<close>

primrec first_log :: "(Log \<Rightarrow> 'a outcome) \<Rightarrow> Log \<Rightarrow> Log list \<Rightarrow> 'a outcome" where
  "first_log f l [] = f l"
| "first_log f l (l' # ls) = (case f l of Err e \<Rightarrow> first_log f l' ls | r \<Rightarrow> r)"

section \<open>Claiming Monero (claim\_monero.go)\<close>

text \<open>The swap's \<open>Info\<close> is the object \<open>p\<close> of the manager's heap.\<close>

definition info_at :: "ptr \<Rightarrow> ('w, 'k, 'z) daemon_scheme \<Rightarrow> Info" where
  "info_at p s = heap (mgr s) p"

definition set_info :: "ptr \<Rightarrow> (Info \<Rightarrow> Info) \<Rightarrow> (('w, 'k, 'z) daemon_scheme, unit) go" where
  "set_info p f = modify (\<lambda>s. s\<lparr>mgr := (mgr s)\<lparr>heap := (heap (mgr s))(p := f (heap (mgr s) p))\<rparr>\<rparr>)"

text \<open>\<open>info.SetStatus(s)\<close> followed by \<open>PushNewStatus\<close> on the swap's channel.\<close>

definition updateStatus :: "('w, 'k) backend \<Rightarrow> ptr \<Rightarrow> Status \<Rightarrow> (('w, 'k, 'z) daemon_scheme, unit) go" where
  "updateStatus B p status =
     bnd (gets (now B)) (\<lambda>t.
     andthen (set_info p (SetStatus t status))
       (bnd (gets (\<lambda>s. OfferID (info_at p s))) (\<lambda>i. on_mgr (PushNewStatus i status))))"

definition setSweepStatus :: "('w, 'k) backend \<Rightarrow> ptr \<Rightarrow> (('w, 'k, 'z) daemon_scheme, unit) go" where
  "setSweepStatus B p =
     andthen (updateStatus B p SweepingXMR)
       (wrapping ''failed to write swap to db: '' [] (on_mgr (WriteSwapToDB (b_swapdb B) p)))"

definition SweepToSelfConfirmations :: uint64 where "SweepToSelfConfirmations = 2"

definition MinSpendConfirmations :: uint64 where "MinSpendConfirmations = 10"

definition ClaimMonero :: "('w, 'k) backend \<Rightarrow> ptr \<Rightarrow> PrivateKeyPair \<Rightarrow> MoneroAddress option \<Rightarrow> bool \<Rightarrow>
    (('w, 'k, 'z) daemon_scheme, unit) go" where
  "ClaimMonero B p kpAB depositAddr noTransferBack =
     bnd (gets (\<lambda>s. MoneroStartHeight (info_at p s))) (\<lambda>height.
     bnd (query (xmr_CreateSpendWallet (b_wallet B) kpAB height)) (\<lambda>wal.
     bnd (lift (PublicKeyPair_Address (b_crypt B) (b_env B) (PublicKeyPair_of (b_crypt B) kpAB))) (\<lambda>addr.
     if noTransferBack then query (wal_Close (b_wallet B) wal)
     else deferred
       (bnd (lift (ValidateEnv depositAddr (b_env B))) (\<lambda>_.
        andthen (setSweepStatus B p)
          (case depositAddr of
             None \<Rightarrow> panic ''nil pointer dereference''
           | Some to \<Rightarrow>
               andthen (wrapping ''failed to send funds to deposit account: '' []
                 (perform (XmrSweep kpAB to)
                   (wal_SweepAll (b_wallet B) wal to SweepToSelfConfirmations))) (ret ()))))
       (query (wal_CloseAndRemoveWallet (b_wallet B) wal)))))"

lemma on_mgr_Ok [run_Ok]: "on_mgr f s = (Ok x, s') \<longleftrightarrow> (\<exists>m. f (mgr s) = (Ok x, m) \<and> s' = s\<lparr>mgr := m\<rparr>)"
  by (auto simp: on_mgr_def split: prod.splits)

lemma recovery_Ok: "recovery f s = (Ok x, s') \<longleftrightarrow>
    (\<exists>k. f (mgr_db (mgr s)) = (Ok x, k) \<and> s' = s\<lparr>mgr := (mgr s)\<lparr>mgr_db := k\<rparr>\<rparr>)"
  by (auto simp: recovery_def on_mgr_def call_db_def split: prod.splits)

lemma query_frame: "query f s = (r, s') \<Longrightarrow> mgr s' = mgr s \<and> trace s' = trace s"
  by (auto simp: query_def split: prod.splits)

lemma first_log_Ok: "first_log f l ls = Ok x \<Longrightarrow> \<exists>l'\<in>set (l # ls). f l' = Ok x"
  by (induction ls arbitrary: l) (auto split: outcome.splits)

lemma set_info_Ok: "set_info p f s = (Ok x, s') \<longleftrightarrow>
    s' = s\<lparr>mgr := (mgr s)\<lparr>heap := (heap (mgr s))(p := f (heap (mgr s) p))\<rparr>\<rparr>"
  by (simp add: set_info_def modify_Ok)

end
