(* ===== verification/Xmr_Taker.thy ===== *)
theory Xmr_Taker
  imports Swap_Backend
begin

text \<open>
  One swap of the party that provides ETH and receives XMR (\<open>protocol/xmrtaker\<close>: \<open>swap_state.go\<close>,
  \<open>event.go\<close>, \<open>message_handler.go\<close>, \<open>claim.go\<close>, \<open>watcher.go\<close>). The event loop handles one event at
  a time, so a handler is one computation on the daemon's state and the state of the swap.

  \<^item> Channels that are only ever closed are flags; closing one twice panics.
  \<^item> An event's error channel is unbuffered and its sender receives from it once: \<open>reply\<close> holds what
    was received, and a second send blocks the event loop for ever.
  \<^item> \<open>tryRefund\<close> reads the event channel itself while it waits for timeout 2. What arrives in that
    time, in order, is the field \<open>arrivals\<close>; with nothing left to arrive it blocks.
  \<^item> A \<open>go\<close> statement adds to the list of routines; the routines are separate definitions that
    deliver their events to the loop.
\<close>

section \<open>Events (event.go)\<close>

datatype TakerEventType =
    EventKeysReceivedType
  | EventXMRLockedType
  | EventETHClaimedType
  | EventShouldRefundType
  | TakerEventExitType
  | TakerEventNoneType

datatype TakerEvent =
    EventKeysReceived SendKeysMessage
  | EventXMRLocked
  | EventETHClaimed PrivateSpendKey
  | EventShouldRefund
  | TakerEventExit

fun taker_nextExpectedEventFromStatus :: "Status \<Rightarrow> TakerEventType" where
  "taker_nextExpectedEventFromStatus ExpectingKeys = EventKeysReceivedType"
| "taker_nextExpectedEventFromStatus ETHLocked = EventXMRLockedType"
| "taker_nextExpectedEventFromStatus ContractReady = EventETHClaimedType"
| "taker_nextExpectedEventFromStatus _ = TakerEventExitType"

fun taker_getStatus :: "TakerEventType \<Rightarrow> Status" where
  "taker_getStatus EventXMRLockedType = ETHLocked"
| "taker_getStatus EventETHClaimedType = ContractReady"
| "taker_getStatus _ = UnknownStatus"

primrec TakerEvent_Type :: "TakerEvent \<Rightarrow> TakerEventType" where
  "TakerEvent_Type (EventKeysReceived m) = EventKeysReceivedType"
| "TakerEvent_Type EventXMRLocked = EventXMRLockedType"
| "TakerEvent_Type (EventETHClaimed sk) = EventETHClaimedType"
| "TakerEvent_Type EventShouldRefund = EventShouldRefundType"
| "TakerEvent_Type TakerEventExit = TakerEventExitType"

section \<open>The swap's state (swap\_state.go)\<close>

datatype taker_routine =
    checkForXMRLock_routine
  | T1_routine
  | T2_routine
  | Exit_routine

datatype arrival = EventArrives TakerEvent | WaitReturns "goerr option"

record taker_swap =
  t_sender :: Sender
  t_noTransferBack :: bool
  t_info :: ptr
  t_providedAmount :: EthAssetAmount
  t_dleqProof :: "Proof option"
  t_secp256k1Pub :: "Secp256k1PublicKey option"
  t_privkeys :: "PrivateKeyPair option"
  t_pubkeys :: "PublicKeyPair option"
  xmrmakerPublicSpendKey :: "PublicKey option"
  xmrmakerPrivateViewKey :: "PrivateViewKey option"
  xmrmakerSecp256k1PublicKey :: "Secp256k1PublicKey option"
  xmrmakerAddress :: address
  walletScanHeight :: uint64
  t_contractSwapID :: hash
  t_contractSwap :: "SwapCreatorSwap option"
  t_t1 :: go_time
  t_t2 :: go_time
  t_nextExpectedEvent :: TakerEventType
  fundsLocked :: bool
  t_cancelled :: bool
  xmrLockedCh_closed :: bool
  claimedCh_closed :: bool
  t_done_closed :: bool
  t_routines :: "taker_routine list"

record ('w, 'k) taker = "('w, 'k) daemon" +
  ts :: taker_swap
  reply :: "goerr option option"
  txHashCh :: "hash option"
  arrivals :: "arrival list"

definition set_ts :: "(taker_swap \<Rightarrow> taker_swap) \<Rightarrow> (('w, 'k, 'z) taker_scheme, unit) go" where
  "set_ts f = modify (\<lambda>s. s\<lparr>ts := f (ts s)\<rparr>)"

definition get_ts :: "(taker_swap \<Rightarrow> 'a) \<Rightarrow> (('w, 'k, 'z) taker_scheme, 'a) go" where
  "get_ts f = gets (\<lambda>s. f (ts s))"

abbreviation taker_info :: "('w, 'k, 'z) taker_scheme \<Rightarrow> Info" where
  "taker_info s \<equiv> info_at (t_info (ts s)) s"

abbreviation taker_OfferID :: "('w, 'k, 'z) taker_scheme \<Rightarrow> hash" where
  "taker_OfferID s \<equiv> OfferID (taker_info s)"

abbreviation spawn_t :: "taker_routine \<Rightarrow> (('w, 'k, 'z) taker_scheme, unit) go" where
  "spawn_t r \<equiv> set_ts (\<lambda>t. t\<lparr>t_routines := r # t_routines t\<rparr>)"

text \<open>A send on the error channel of the event that is being handled, and the deferred close.\<close>

definition send_errCh :: "goerr \<Rightarrow> (('w, 'k, 'z) taker_scheme, unit) go" where
  "send_errCh e = (\<lambda>s. if reply s = None then (Ok (), s\<lparr>reply := Some (Some e)\<rparr>) else (Block, s))"

definition close_errCh :: "(('w, 'k, 'z) taker_scheme, unit) go" where
  "close_errCh = modify (\<lambda>s. if reply s = None then s\<lparr>reply := Some None\<rparr> else s)"

definition revertSwapCompleted :: string where
  "revertSwapCompleted = ''swap is already completed''"

definition errSwapCompleted :: goerr where
  "errSwapCompleted = Sentinel ''errSwapCompleted'' ''swap is already completed''"
definition errRefundSwapCompleted :: goerr where
  "errRefundSwapCompleted = Wrapf ''cannot refund, '' errSwapCompleted []"
definition errRefundInvalid :: goerr where
  "errRefundInvalid = Sentinel ''errRefundInvalid'' ''cannot refund, swap does not exist''"
definition errNoClaimLogsFound :: goerr where
  "errNoClaimLogsFound = Sentinel ''errNoClaimLogsFound'' ''no Claimed logs found''"
definition errUnexpectedMessageType :: goerr where
  "errUnexpectedMessageType = Sentinel ''errUnexpectedMessageType'' ''unexpected message type''"
definition errUnexpectedEventType :: goerr where
  "errUnexpectedEventType = Sentinel ''errUnexpectedEventType'' ''unexpected event type''"
definition errMissingKeys :: goerr where
  "errMissingKeys = Sentinel ''errMissingKeys'' ''did not receive XMRMaker's public spend or private view key''"
definition errMissingProvidedAmount :: goerr where
  "errMissingProvidedAmount = Sentinel ''errMissingProvidedAmount'' ''did not receive provided amount''"
definition errMissingAddress :: goerr where
  "errMissingAddress = Sentinel ''errMissingAddress'' ''did not receive XMRMaker's address''"
definition errSwapInstantiationNoLogs :: goerr where
  "errSwapInstantiationNoLogs = Sentinel ''errSwapInstantiationNoLogs'' ''expected 1 log, got 0''"

section \<open>Status\<close>

definition taker_updateStatus :: "('w, 'k) backend \<Rightarrow> Status \<Rightarrow> (('w, 'k, 'z) taker_scheme, unit) go" where
  "taker_updateStatus B status = bnd (get_ts t_info) (\<lambda>p. updateStatus B p status)"

definition taker_clearNextExpectedEvent ::
    "('w, 'k) backend \<Rightarrow> Status \<Rightarrow> (('w, 'k, 'z) taker_scheme, unit) go" where
  "taker_clearNextExpectedEvent B status =
     andthen (set_ts (\<lambda>t. t\<lparr>t_nextExpectedEvent := TakerEventNoneType\<rparr>)) (taker_updateStatus B status)"

definition taker_setNextExpectedEvent ::
    "('w, 'k) backend \<Rightarrow> TakerEventType \<Rightarrow> (('w, 'k, 'z) taker_scheme, unit) go" where
  "taker_setNextExpectedEvent B e =
     bnd (get_ts t_nextExpectedEvent) (\<lambda>cur.
     if cur = TakerEventNoneType then panic ''cannot set next expected event to EventNoneType''
     else if e = cur then panic ''cannot set next expected event to same as current''
     else
       andthen (set_ts (\<lambda>t. t\<lparr>t_nextExpectedEvent := e\<rparr>))
         (let status = taker_getStatus e in
          if status = UnknownStatus then panic ''status corresponding to event cannot be UnknownStatus''
          else
            andthen (taker_updateStatus B status)
              (bnd (get_ts t_info) (\<lambda>p. on_mgr (WriteSwapToDB (b_swapdb B) p)))))"

section \<open>Locking, setting ready and refunding\<close>

definition taker_setTimeouts :: "int \<Rightarrow> int \<Rightarrow> (('w, 'k, 'z) taker_scheme, unit) go" where
  "taker_setTimeouts t1 t2 =
     andthen (set_ts (\<lambda>t. t\<lparr>t_t1 := time_Unix t1, t_t2 := time_Unix t2\<rparr>))
       (bnd (get_ts t_info) (\<lambda>p. set_info p (SetTimeouts (time_Unix t1) (time_Unix t2))))"

definition taker_getSecret :: "taker_swap \<Rightarrow> hash outcome" where
  "taker_getSecret t =
     (case t_dleqProof t of
        None \<Rightarrow> (case t_privkeys t of
            None \<Rightarrow> Panic ''nil pointer dereference''
          | Some kp \<Rightarrow> if length (SpendKey kp) < 32 then Panic ''cannot convert slice to array''
              else Ok (bytes_hash (take 32 (Reverse (SpendKey kp)))))
      | Some prf \<Rightarrow> Ok (bytes_hash (copy_n 32 (Proof_Secret prf))))"

definition setXMRMakerKeys :: "('w, 'k) backend \<Rightarrow> PublicKey \<Rightarrow> PrivateViewKey \<Rightarrow> Secp256k1PublicKey \<Rightarrow>
    (('w, 'k, 'z) taker_scheme, unit) go" where
  "setXMRMakerKeys B sk vk secp =
     andthen (set_ts (\<lambda>t. t\<lparr>xmrmakerPublicSpendKey := Some sk, xmrmakerPrivateViewKey := Some vk,
         xmrmakerSecp256k1PublicKey := Some secp\<rparr>))
       (bnd (gets taker_OfferID) (\<lambda>i.
        recovery (PutCounterpartySwapKeys (b_chaindb B) (b_codecs B) i sk vk)))"

definition lockAndWaitForReceipt :: "('w, 'k) backend \<Rightarrow> hash \<Rightarrow> hash \<Rightarrow> int \<Rightarrow>
    (('w, 'k, 'z) taker_scheme, Receipt) go" where
  "lockAndWaitForReceipt B cmtXMRMaker cmtXMRTaker n =
     bnd (gets (\<lambda>s. (ts s, swapTimeout s))) (\<lambda>(t, timeout).
     wrapping ''failed to instantiate swap on-chain: '' []
       (sender_NewSwap B (t_sender t) cmtXMRMaker cmtXMRTaker (xmrmakerAddress t)
          (timeout div 1000000000) n (t_providedAmount t)
          (\<lambda>txHash. bnd (gets taker_OfferID) (\<lambda>i.
             wrapping ''failed to write newSwap tx hash to db: '' []
               (recovery (PutNewSwapTxHash (b_chaindb B) i txHash))))))"

text \<open>The part of \<open>lockAsset\<close> after the receipt has arrived.\<close>

definition lock_recorded :: "('w, 'k) backend \<Rightarrow> taker_swap \<Rightarrow> hash \<Rightarrow> hash \<Rightarrow> int \<Rightarrow> Receipt \<Rightarrow>
    (('w, 'k, 'z) taker_scheme, Receipt) go" where
  "lock_recorded B t cmtXMRMaker cmtXMRTaker n receipt =
     (case Receipt_Logs receipt of
        [] \<Rightarrow> fail errSwapInstantiationNoLogs
      | l # ls \<Rightarrow>
          bnd (attempt (lift (first_log (GetIDFromLog (b_ethlib B)) l ls))) (\<lambda>r. case r of
            Inl e \<Rightarrow> andthen (set_ts (\<lambda>t. t\<lparr>t_contractSwapID := 0\<rparr>))
              (fail (Wrapf ''swap ID not found in transaction receipt's logs: '' e []))
          | Inr swapID \<Rightarrow>
              andthen (set_ts (\<lambda>t. t\<lparr>t_contractSwapID := swapID\<rparr>))
              (bnd (wrapping ''timeouts not found in transaction receipt's logs: '' []
                     (lift (first_log (GetTimeoutsFromLog (b_ethlib B)) l ls))) (\<lambda>(t1, t2).
               andthen (set_ts (\<lambda>t. t\<lparr>fundsLocked := True\<rparr>))
               (andthen (taker_setTimeouts t1 t2)
               (bnd (gets (\<lambda>s. (eth_Address s, Info_EthAsset (taker_info s), taker_OfferID s))) (\<lambda>(self, ea, i).
                bnd (lift (BigInt (b_apd B) (t_providedAmount t))) (\<lambda>v.
                let sw = \<lparr>Owner = self, Claimer = xmrmakerAddress t, ClaimCommitment = cmtXMRMaker,
                          RefundCommitment = cmtXMRTaker, Timeout1 = t1, Timeout2 = t2, Asset = ea,
                          Value = v, Nonce = n\<rparr> in
                andthen (set_ts (\<lambda>t. t\<lparr>t_contractSwap := Some sw\<rparr>))
                (andthen (recovery (PutContractSwapInfo (b_chaindb B) (b_codecs B) i
                   \<lparr>StartNumber = BlockNumber receipt, EthInfo_SwapID = swapID, EthInfo_Swap = sw,
                    SwapCreatorAddr = b_swapCreatorAddr B\<rparr>)) (ret receipt))))))))))"

definition lockAsset :: "('w, 'k) backend \<Rightarrow> (('w, 'k, 'z) taker_scheme, Receipt) go" where
  "lockAsset B =
     bnd (get_ts id) (\<lambda>t.
     if xmrmakerPublicSpendKey t = None \<or> xmrmakerPrivateViewKey t = None
     then panic ''counterparty's keys aren't set''
     else (case (t_secp256k1Pub t, xmrmakerSecp256k1PublicKey t) of
       (Some ours, Some theirs) \<Rightarrow>
         let cmtXMRTaker = Secp256k1_Keccak256 (b_crypt B) ours;
             cmtXMRMaker = Secp256k1_Keccak256 (b_crypt B) theirs in
         bnd (query (x_GenerateNewSwapNonce (b_extern B))) (\<lambda>n.
         bnd (lockAndWaitForReceipt B cmtXMRMaker cmtXMRTaker n) (\<lambda>receipt.
         lock_recorded B t cmtXMRMaker cmtXMRTaker n receipt))
     | _ \<Rightarrow> panic ''nil pointer dereference''))"

text \<open>\<open>setReady\<close>; when the stage is already completed it starts a routine that sends \<open>EventExit\<close>.\<close>

definition taker_setReady :: "('w, 'k) backend \<Rightarrow> (('w, 'k, 'z) taker_scheme, unit) go" where
  "taker_setReady B =
     bnd (get_ts id) (\<lambda>t.
     bnd (query (sc_Swaps (b_node B) (b_swapCreatorAddr B) (t_contractSwapID t))) (\<lambda>stage.
     if stage \<noteq> StagePending then
       (if stage = StageReady then ret ()
        else if stage = StageCompleted then spawn_t Exit_routine
        else fail (Errorf ''cannot set contract to ready when swap stage is %s''))
     else (case t_contractSwap t of
         None \<Rightarrow> panic ''nil pointer dereference''
       | Some sw \<Rightarrow>
           bnd (attempt (sender_SetReady B (t_sender t) sw)) (\<lambda>r. case r of
             Inr _ \<Rightarrow> ret ()
           | Inl e \<Rightarrow>
               if contains (error_text e) revertSwapCompleted
               then bnd (gets (\<lambda>s. Info_Status (taker_info s))) (\<lambda>st.
                      bnd (lift (IsOngoing st)) (\<lambda>og. if \<not> og then ret () else fail e))
               else fail e))))"

definition taker_refund :: "('w, 'k) backend \<Rightarrow> (('w, 'k, 'z) taker_scheme, Receipt) go" where
  "taker_refund B =
     bnd (get_ts id) (\<lambda>t.
     bnd (lift (taker_getSecret t)) (\<lambda>secret.
     case t_contractSwap t of
       None \<Rightarrow> panic ''nil pointer dereference''
     | Some sw \<Rightarrow>
         bnd (sender_Refund B (t_sender t) sw secret) (\<lambda>receipt.
         andthen (taker_clearNextExpectedEvent B CompletedRefund) (ret receipt))))"

text \<open>The loop of \<open>tryRefund\<close> that reads the event channel and waits for timeout 2.\<close>

primrec wait_to_refund :: "('w, 'k) backend \<Rightarrow> arrival list \<Rightarrow> (('w, 'k, 'z) taker_scheme, Receipt) go" where
  "wait_to_refund B [] = block"
| "wait_to_refund B (a # rest) =
     (case a of
        WaitReturns None \<Rightarrow> taker_refund B
      | WaitReturns (Some e) \<Rightarrow> fail (Wrapf ''failed to wait for T2: '' e [])
      | EventArrives e \<Rightarrow> (case e of
          EventShouldRefund \<Rightarrow> taker_refund B
        | EventETHClaimed sk \<Rightarrow> fail (Errorf revertSwapCompleted)
        | TakerEventExit \<Rightarrow> wait_to_refund B rest
        | _ \<Rightarrow> panic ''got unexpected event while waiting for Claimed/T2: %s''))"

definition tryRefund :: "('w, 'k) backend \<Rightarrow> (('w, 'k, 'z) taker_scheme, Receipt) go" where
  "tryRefund B =
     bnd (get_ts id) (\<lambda>t.
     bnd (query (sc_Swaps (b_node B) (b_swapCreatorAddr B) (t_contractSwapID t))) (\<lambda>stage.
     if stage = StageInvalid then fail (Wrapf [] errRefundInvalid '': contract swap ID: %s'')
     else if stage = StageCompleted then fail errRefundSwapCompleted
     else if stage \<noteq> StagePending \<and> stage \<noteq> StageReady then panic ''Unhandled stage value''
     else
       let isReady = (stage = StageReady) in
       bnd (LatestBlockTimestamp (b_node B)) (\<lambda>now_ts.
       bnd (if now_ts < t_t1 t \<and> \<not> isReady then attempt (taker_refund B)
            else ret (Inl (Errorf []))) (\<lambda>r. case r of
         Inr receipt \<Rightarrow> ret receipt
       | Inl _ \<Rightarrow>
           if now_ts > t_t2 t then taker_refund B
           else bnd (gets arrivals) (\<lambda>as. wait_to_refund B as)))))"

section \<open>Claiming XMR (claim.go)\<close>

primrec find_claimed :: "ethlib \<Rightarrow> hash \<Rightarrow> Log list \<Rightarrow> Log option" where
  "find_claimed G i [] = None"
| "find_claimed G i (l # ls) =
     (case CheckIfLogIDMatches G l (claimedTopic G) i of
        Inr True \<Rightarrow> Some l
      | _ \<Rightarrow> find_claimed G i ls)"

definition filterForClaim :: "('w, 'k) backend \<Rightarrow> (('w, 'k, 'z) taker_scheme, PrivateSpendKey) go" where
  "filterForClaim B =
     bnd (wrapping ''failed to filter logs: '' []
       (query (n_FilterLogs (b_node B) None (b_swapCreatorAddr B) (Some (claimedTopic (b_ethlib B)))))) (\<lambda>logs.
     if logs = [] then fail errNoClaimLogsFound
     else
       bnd (get_ts t_contractSwapID) (\<lambda>i.
       case find_claimed (b_ethlib B) i logs of
         None \<Rightarrow> fail errNoClaimLogsFound
       | Some l \<Rightarrow> wrapping ''failed to get secret from log: '' []
           (lift (of_result (GetSecretFromLog (b_ethlib B) (b_crypt B) l (claimedTopic (b_ethlib B)))))))"

definition close_claimedCh :: "(('w, 'k, 'z) taker_scheme, unit) go" where
  "close_claimedCh =
     bnd (get_ts claimedCh_closed) (\<lambda>c. if c then panic ''close of closed channel''
     else set_ts (\<lambda>t. t\<lparr>claimedCh_closed := True\<rparr>))"

definition taker_claimMonero ::
    "('w, 'k) backend \<Rightarrow> PrivateSpendKey \<Rightarrow> (('w, 'k, 'z) taker_scheme, MoneroAddress) go" where
  "taker_claimMonero B skB =
     bnd (gets (\<lambda>s. Info_Status (taker_info s))) (\<lambda>st.
     bnd (lift (IsOngoing st)) (\<lambda>og.
     if \<not> og then fail errSwapCompleted
     else
       bnd (gets taker_OfferID) (\<lambda>i.
       andthen (recovery (PutCounterpartySwapPrivateKey (b_chaindb B) (b_codecs B) i skB))
         (bnd (gets (\<lambda>s. (ts s, XMRDepositAddress B (Some i) s))) (\<lambda>(t, addr).
          let depositAddr = (if t_noTransferBack t then None else Some addr) in
          case (t_privkeys t, xmrmakerPrivateViewKey t) of
            (Some kp, Some vk) \<Rightarrow>
              let kpAB = GetClaimKeypair (b_crypt B) skB (SpendKey kp) vk (ViewKey kp) in
              andthen (ClaimMonero B (t_info t) kpAB depositAddr (t_noTransferBack t))
                (andthen close_claimedCh
                  (lift (PublicKeyPair_Address (b_crypt B) (b_env B) (PublicKeyPair_of (b_crypt B) kpAB))))
          | _ \<Rightarrow> panic ''nil pointer dereference'')))))"

definition tryClaim :: "('w, 'k) backend \<Rightarrow> (('w, 'k, 'z) taker_scheme, unit) go" where
  "tryClaim B =
     bnd (gets (\<lambda>s. Info_Status (taker_info s))) (\<lambda>st.
     bnd (lift (IsOngoing st)) (\<lambda>og.
     if \<not> og then ret ()
     else
       bnd (filterForClaim B) (\<lambda>skA.
       bnd (taker_claimMonero B skA) (\<lambda>_. taker_clearNextExpectedEvent B CompletedSuccess))))"

section \<open>Leaving the swap\<close>

definition close_done :: "(('w, 'k, 'z) taker_scheme, unit) go" where
  "close_done =
     bnd (get_ts t_done_closed) (\<lambda>c. if c then panic ''close of closed channel''
     else set_ts (\<lambda>t. t\<lparr>t_done_closed := True\<rparr>))"

definition taker_exit_deferred :: "('w, 'k) backend \<Rightarrow> (('w, 'k, 'z) taker_scheme, unit) go" where
  "taker_exit_deferred B =
     bnd (gets (\<lambda>s. (taker_OfferID s, t_info (ts s)))) (\<lambda>(i, p).
     andthen (query (net_CloseProtocolStream (b_net B) i))
       (bnd (gets (now B)) (\<lambda>tm.
        bnd (attempt (on_mgr (CompleteOngoingSwap (b_swapdb B) tm p))) (\<lambda>r. case r of
          Inl _ \<Rightarrow> ret ()
        | Inr _ \<Rightarrow>
            andthen (query (net_DeleteOngoingSwap (b_net B) i))
              (andthen (ignore_err (recovery (DeleteSwap i)))
                (andthen (set_ts (\<lambda>t. t\<lparr>t_cancelled := True\<rparr>)) close_done))))))"

definition taker_exit_body :: "('w, 'k) backend \<Rightarrow> (('w, 'k, 'z) taker_scheme, unit) go" where
  "taker_exit_body B =
     bnd (get_ts t_nextExpectedEvent) (\<lambda>ev.
     case ev of
       EventKeysReceivedType \<Rightarrow> taker_clearNextExpectedEvent B CompletedAbort
     | TakerEventNoneType \<Rightarrow> ret ()
     | EventShouldRefundType \<Rightarrow>
         andthen (taker_clearNextExpectedEvent B CompletedAbort) (fail errUnexpectedEventType)
     | TakerEventExitType \<Rightarrow>
         andthen (taker_clearNextExpectedEvent B CompletedAbort) (fail errUnexpectedEventType)
     | _ \<Rightarrow>
         bnd (attempt (tryRefund B)) (\<lambda>r. case r of
           Inr receipt \<Rightarrow> taker_clearNextExpectedEvent B CompletedRefund
         | Inl err \<Rightarrow>
             if errors_Is (Some err) (Some errRefundSwapCompleted) \<or>
                contains (error_text err) revertSwapCompleted
             then bnd (attempt (tryClaim B)) (\<lambda>r2. case r2 of
                 Inr _ \<Rightarrow> ret ()
               | Inl err2 \<Rightarrow>
                   if errors_Is (Some err2) (Some errNoClaimLogsFound)
                   then taker_clearNextExpectedEvent B CompletedRefund
                   else fail (Wrapf ''failed to claim even though swap was completed on-chain: '' err2 []))
             else fail (Wrapf ''failed to refund: '' err [])))"

definition taker_exit :: "('w, 'k) backend \<Rightarrow> (('w, 'k, 'z) taker_scheme, unit) go" where
  "taker_exit B = deferred (taker_exit_body B) (taker_exit_deferred B)"

section \<open>Message and event handlers\<close>

definition taker_handleSendKeysMessage ::
    "('w, 'k) backend \<Rightarrow> SendKeysMessage \<Rightarrow> (('w, 'k, 'z) taker_scheme, message) go" where
  "taker_handleSendKeysMessage B msg =
     bnd (gets taker_info) (\<lambda>info.
     case SK_ProvidedAmount msg of
       None \<Rightarrow> fail errMissingProvidedAmount
     | Some provided \<Rightarrow>
       if apd_Cmp (b_apd B) provided (ExpectedAmount info) < 0
       then fail (Errorf ''provided amount is not the same as expected: got %s, expected %s'')
       else (case (SK_PublicSpendKey msg, SK_PrivateViewKey msg) of
         (Some sk, Some vk) \<Rightarrow>
           if SK_EthAddress msg = 0 then fail errMissingAddress
           else (case SK_Secp256k1PublicKey msg of
             None \<Rightarrow> panic ''nil pointer dereference''
           | Some secp \<Rightarrow>
             bnd (lift (VerifyKeysAndProof (b_crypt B) (SK_DLEqProof msg) secp sk)) (\<lambda>res.
             andthen (set_ts (\<lambda>t. t\<lparr>xmrmakerAddress := SK_EthAddress msg\<rparr>))
             (andthen (AssetSymbol B (Info_EthAsset info))
             (andthen (wrapping ''failed to set xmrmaker keys: '' []
               (setXMRMakerKeys B (Ed25519PublicKey res) vk (Secp256k1PublicKey_of res)))
             (bnd (wrapping ''failed to lock ethereum asset in contract: '' [] (lockAsset B)) (\<lambda>receipt.
              andthen (spawn_t T1_routine)
              (andthen (spawn_t checkForXMRLock_routine)
              (bnd (get_ts id) (\<lambda>t. case t_contractSwap t of
                 None \<Rightarrow> panic ''nil pointer dereference''
               | Some sw \<Rightarrow> ret (ETHLockedMessage \<lparr>NL_Address = b_swapCreatorAddr B,
                   NL_TxHash = Receipt_TxHash receipt, NL_ContractSwapID = t_contractSwapID t,
                   NL_ContractSwap = sw\<rparr>))))))))))
       | _ \<Rightarrow> fail errMissingKeys))"

definition handleEventKeysReceived ::
    "('w, 'k) backend \<Rightarrow> SendKeysMessage \<Rightarrow> (('w, 'k, 'z) taker_scheme, unit) go" where
  "handleEventKeysReceived B msg =
     bnd (taker_handleSendKeysMessage B msg) (\<lambda>resp.
     bnd (gets taker_OfferID) (\<lambda>i.
     andthen (perform (SwapMessage resp i) (net_SendSwapMessage (b_net B) resp i))
       (query (net_CloseProtocolStream (b_net B) i))))"

definition handleEventETHClaimed ::
    "('w, 'k) backend \<Rightarrow> PrivateSpendKey \<Rightarrow> (('w, 'k, 'z) taker_scheme, unit) go" where
  "handleEventETHClaimed B sk =
     andthen (taker_claimMonero B sk) (taker_clearNextExpectedEvent B CompletedSuccess)"

definition handleEventShouldRefund :: "('w, 'k) backend \<Rightarrow> (('w, 'k, 'z) taker_scheme, unit) go" where
  "handleEventShouldRefund B =
     bnd (gets (\<lambda>s. Info_Status (taker_info s))) (\<lambda>st.
     bnd (lift (IsOngoing st)) (\<lambda>og.
     if \<not> og then ret ()
     else
       bnd (attempt (taker_refund B)) (\<lambda>r. case r of
         Inl e \<Rightarrow> if \<not> contains (error_text e) revertSwapCompleted then fail e else ret ()
       | Inr receipt \<Rightarrow> modify (\<lambda>s. s\<lparr>txHashCh := Some (Receipt_TxHash receipt)\<rparr>))))"

definition handleNotifyXMRLock :: "('w, 'k) backend \<Rightarrow> (('w, 'k, 'z) taker_scheme, unit) go" where
  "handleNotifyXMRLock B =
     bnd (get_ts xmrLockedCh_closed) (\<lambda>c.
     if c then panic ''close of closed channel''
     else
       andthen (set_ts (\<lambda>t. t\<lparr>xmrLockedCh_closed := True\<rparr>))
         (andthen (wrapping ''failed to call Ready: '' [] (taker_setReady B)) (spawn_t T2_routine)))"

definition taker_handleEvent ::
    "('w, 'k) backend \<Rightarrow> TakerEvent \<Rightarrow> (('w, 'k, 'z) taker_scheme, unit) go" where
  "taker_handleEvent B e = deferred
     (bnd (get_ts t_nextExpectedEvent) (\<lambda>next.
      case e of
        EventKeysReceived msg \<Rightarrow>
          if next \<noteq> EventKeysReceivedType then send_errCh (Errorf ''nextExpectedEvent was %s, not %s'')
          else
            bnd (attempt (handleEventKeysReceived B msg)) (\<lambda>r.
            bnd (case r of
                   Inr _ \<Rightarrow> ret True
                 | Inl err \<Rightarrow> andthen (send_errCh (Wrapf ''failed to handle %s: '' err [])) (get_ts fundsLocked))
              (\<lambda>goon.
            if \<not> goon then ret ()
            else bnd (attempt (taker_setNextExpectedEvent B EventXMRLockedType)) (\<lambda>r2. case r2 of
                Inr _ \<Rightarrow> ret ()
              | Inl err \<Rightarrow> send_errCh
                  (Wrapf ''failed to set next expected event to EventXMRLockedType: '' err []))))
      | EventXMRLocked \<Rightarrow>
          if next \<noteq> EventXMRLockedType then send_errCh (Errorf ''nextExpectedEvent was %s, not %s'')
          else
            bnd (attempt (handleNotifyXMRLock B)) (\<lambda>r. case r of
              Inl err \<Rightarrow> send_errCh (Wrapf ''failed to handle %s: '' err [])
            | Inr _ \<Rightarrow> bnd (attempt (taker_setNextExpectedEvent B EventETHClaimedType)) (\<lambda>r2. case r2 of
                Inr _ \<Rightarrow> ret ()
              | Inl err \<Rightarrow> send_errCh
                  (Wrapf ''failed to set next expected event to EventETHClaimedType: '' err [])))
      | EventETHClaimed sk \<Rightarrow>
          if next \<noteq> EventETHClaimedType then send_errCh (Errorf ''nextExpectedEvent was %s, not %s'')
          else
            bnd (attempt (handleEventETHClaimed B sk)) (\<lambda>r.
            andthen (case r of
                Inr _ \<Rightarrow> ret ()
              | Inl err \<Rightarrow> send_errCh (Wrapf ''failed to handle %s: '' err []))
              (ignore_err (taker_exit B)))
      | EventShouldRefund \<Rightarrow>
          andthen (if next \<noteq> EventXMRLockedType \<and> next \<noteq> EventETHClaimedType \<and>
                      next \<noteq> EventKeysReceivedType
                   then send_errCh (Errorf ''nextExpectedEvent was %s'') else ret ())
            (bnd (attempt (handleEventShouldRefund B)) (\<lambda>r.
             andthen (case r of
                 Inr _ \<Rightarrow> ret ()
               | Inl err \<Rightarrow> send_errCh (Wrapf ''failed to handle %s: '' err []))
               (ignore_err (taker_exit B))))
      | TakerEventExit \<Rightarrow>
          bnd (attempt (taker_exit B)) (\<lambda>r. case r of
            Inr _ \<Rightarrow> ret ()
          | Inl err \<Rightarrow> send_errCh (Wrapf ''failed to handle EventExit: '' err []))))
     close_errCh"

text \<open>
  The sender's side of an event: it puts the event on the channel and receives once from the error
  channel. After the swap has been cancelled the loop may still take an event, so the model does not
  forbid that.
\<close>

definition taker_deliver :: "('w, 'k) backend \<Rightarrow> TakerEvent \<Rightarrow> (('w, 'k, 'z) taker_scheme, unit) go" where
  "taker_deliver B e =
     andthen (modify (\<lambda>s. s\<lparr>reply := None\<rparr>))
       (andthen (taker_handleEvent B e)
         (bnd (gets reply) (\<lambda>r. case r of
            None \<Rightarrow> block | Some None \<Rightarrow> ret () | Some (Some err) \<Rightarrow> fail err)))"

definition taker_HandleProtocolMessage ::
    "('w, 'k) backend \<Rightarrow> message \<Rightarrow> (('w, 'k, 'z) taker_scheme, unit) go" where
  "taker_HandleProtocolMessage B msg =
     (case msg of
        SendKeys m \<Rightarrow> taker_deliver B (EventKeysReceived m)
      | _ \<Rightarrow> fail errUnexpectedMessageType)"

definition taker_Exit :: "('w, 'k) backend \<Rightarrow> (('w, 'k, 'z) taker_scheme, unit) go" where
  "taker_Exit B = taker_deliver B TakerEventExit"

definition taker_NotifyStreamClosed :: "('w, 'k) backend \<Rightarrow> (('w, 'k, 'z) taker_scheme, unit) go" where
  "taker_NotifyStreamClosed B =
     bnd (get_ts t_nextExpectedEvent) (\<lambda>ev.
     if ev = EventKeysReceivedType then ignore_err (taker_Exit B) else ret ())"

definition taker_SendKeysMessage :: "taker_swap \<Rightarrow> message outcome" where
  "taker_SendKeysMessage t =
     (case (t_pubkeys t, t_privkeys t, t_dleqProof t) of
        (Some pub, Some priv, Some prf) \<Rightarrow> Ok (SendKeys
          \<lparr>SK_OfferID = 0, SK_ProvidedAmount = None, SK_PublicSpendKey = Some (PubSpendKey pub),
           SK_PrivateViewKey = Some (ViewKey priv), SK_DLEqProof = proof_data prf,
           SK_Secp256k1PublicKey = t_secp256k1Pub t, SK_EthAddress = 0\<rparr>)
      | _ \<Rightarrow> Panic ''nil pointer dereference'')"

section \<open>Routines\<close>

definition expectedXMRLockAccount ::
    "('w, 'k) backend \<Rightarrow> taker_swap \<Rightarrow> (MoneroAddress \<times> PrivateViewKey) outcome" where
  "expectedXMRLockAccount B t =
     (case (xmrmakerPrivateViewKey t, xmrmakerPublicSpendKey t, t_privkeys t, t_pubkeys t) of
        (Some mvk, Some msk, Some priv, Some pub) \<Rightarrow>
          let vk = SumPrivateViewKeys (b_crypt B) mvk (ViewKey priv);
              sk = SumPublicKeys (b_crypt B) msk (PubSpendKey pub) in
          obind (PublicKeyPair_Address (b_crypt B) (b_env B) (NewPublicKeyPair sk (Public (b_crypt B) vk)))
            (\<lambda>addr. Ok (addr, vk))
      | _ \<Rightarrow> Panic ''nil pointer dereference'')"

definition expectedPiconeroAmount :: "('w, 'k) backend \<Rightarrow> Info \<Rightarrow> PiconeroAmount outcome" where
  "expectedPiconeroAmount B info = MoneroToPiconero (b_apd B) (ExpectedAmount info)"

text \<open>
  \<open>checkForXMRLock\<close>: the wallet it opens, and one tick of its loop. A tick says whether the routine
  has returned.
\<close>

definition checkForXMRLock_open :: "('w, 'k) backend \<Rightarrow> (('w, 'k, 'z) taker_scheme, nat) go" where
  "checkForXMRLock_open B =
     bnd (get_ts id) (\<lambda>t.
     bnd (lift (expectedXMRLockAccount B t)) (\<lambda>(lockedAddr, vk).
     query (xmr_CreateViewOnlyWallet (b_wallet B) vk lockedAddr (walletScanHeight t))))"

definition checkForXMRLock_tick :: "('w, 'k) backend \<Rightarrow> nat \<Rightarrow> (('w, 'k, 'z) taker_scheme, bool) go" where
  "checkForXMRLock_tick B wal =
     bnd (get_ts t_cancelled) (\<lambda>c.
     if c then andthen (query (wal_CloseAndRemoveWallet (b_wallet B) wal)) (ret True)
     else
       bnd (attempt (query (wal_GetBalance (b_wallet B) wal))) (\<lambda>r. case r of
         Inl _ \<Rightarrow> ret False
       | Inr bal \<Rightarrow>
           bnd (gets taker_info) (\<lambda>info.
           bnd (lift (expectedPiconeroAmount B info)) (\<lambda>amt.
           bnd (lift (PiconeroAmount_CmpU64 (b_apd B) amt (UnlockedBalance bal))) (\<lambda>cmp.
           if cmp \<le> 0
           then andthen (ignore_err (taker_deliver B EventXMRLocked))
                  (andthen (query (wal_CloseAndRemoveWallet (b_wallet B) wal)) (ret True))
           else ret False)))))"

text \<open>
  The expiration handlers choose between several channels; \<open>sel\<close> is the case that was chosen:
  \<open>None\<close> stands for a cancelled or signalled return. The duration of the timer before timeout 1 is
  computed with floating point in the source and is not modelled.
\<close>

definition taker_runT1ExpirationHandler ::
    "('w, 'k) backend \<Rightarrow> bool \<Rightarrow> (('w, 'k, 'z) taker_scheme, unit) go" where
  "taker_runT1ExpirationHandler B timer_fired =
     bnd (gets (\<lambda>s. (ts s, now B s))) (\<lambda>(t, tm).
     if time_Sub (t_t1 t) tm \<le> 0 then ret ()
     else if timer_fired then ignore_err (taker_deliver B EventShouldRefund)
     else if t_cancelled t \<or> xmrLockedCh_closed t then ret ()
     else block)"

definition handleT2Expired :: "('w, 'k) backend \<Rightarrow> (('w, 'k, 'z) taker_scheme, unit) go" where
  "handleT2Expired B = ignore_err (taker_deliver B EventShouldRefund)"

definition runT2ExpirationHandler ::
    "('w, 'k) backend \<Rightarrow> goerr option option \<Rightarrow> (('w, 'k, 'z) taker_scheme, unit) go" where
  "runT2ExpirationHandler B sel =
     (case sel of
        Some (Some err) \<Rightarrow> ret ()
      | Some None \<Rightarrow> handleT2Expired B
      | None \<Rightarrow> bnd (get_ts id) (\<lambda>t. if t_cancelled t \<or> claimedCh_closed t then ret () else block))"

definition taker_handleClaimedLogs ::
    "('w, 'k) backend \<Rightarrow> Log \<Rightarrow> (('w, 'k, 'z) taker_scheme, bool \<times> goerr option) go" where
  "taker_handleClaimedLogs B l =
     bnd (get_ts t_contractSwapID) (\<lambda>i.
     let err = CheckSwapID l (claimedTopic (b_ethlib B)) i in
     if errors_Is err (Some ErrLogNotForUs) then ret (False, None)
     else if err \<noteq> None then ret (False, err)
     else (case GetSecretFromLog (b_ethlib B) (b_crypt B) l (claimedTopic (b_ethlib B)) of
         Inl e \<Rightarrow> ret (False, Some e)
       | Inr sk \<Rightarrow>
           bnd (attempt (taker_deliver B (EventETHClaimed sk))) (\<lambda>r. case r of
             Inl e \<Rightarrow> ret (True, Some e) | Inr _ \<Rightarrow> ret (True, None))))"

primrec taker_runContractEventWatcher ::
    "('w, 'k) backend \<Rightarrow> Log list \<Rightarrow> (('w, 'k, 'z) taker_scheme, unit) go" where
  "taker_runContractEventWatcher B [] = block"
| "taker_runContractEventWatcher B (l # ls) =
     bnd (get_ts t_cancelled) (\<lambda>c. if c then ret ()
     else bnd (taker_handleClaimedLogs B l) (\<lambda>(eventSent, err).
          if eventSent then ret () else taker_runContractEventWatcher B ls))"

end
