(* ===== verification/Taker_Instance.thy ===== *)
theory Taker_Instance
  imports Xmr_Taker
begin

text \<open>
  The taker's instance (\<open>protocol/xmrtaker\<close>: \<open>instance.go\<close>, \<open>net.go\<close>, \<open>min_balance.go\<close>): how a swap
  is started, and what a restarted daemon does with the swaps it finds in the database. The
  constructors of the generated bindings and the start of a log filter cannot fail and have no model.
\<close>

section \<open>Creating the state of a swap (swap\_state.go)\<close>

definition taker_newSwapState :: "('w, 'k) backend \<Rightarrow> bool \<Rightarrow> ptr \<Rightarrow> uint64 \<Rightarrow>
    (('w, 'k, 'z) daemon_scheme, taker_swap) go" where
  "taker_newSwapState B noTransferBack p moneroStartNumber =
     bnd (gets (\<lambda>s. (HasPrivateKey s, info_at p s, NewTxSender B (Info_EthAsset (info_at p s)) s)))
       (\<lambda>(hasKey, info, sender).
     bnd (if EthAsset_IsETH (Info_EthAsset info)
          then bnd (lift (EtherToWei (b_apd B) (ProvidedAmount info))) (\<lambda>w. ret (Wei w))
          else bnd (ERC20Info (b_node B) (Info_EthAsset info)) (\<lambda>tokenInfo.
               bnd (lift (NewTokenAmountFromDecimals (b_apd B) (ProvidedAmount info) tokenInfo))
                 (\<lambda>a. ret (ERC20 a)))) (\<lambda>providedAmt.
     ret \<lparr>t_sender = sender, t_noTransferBack = (hasKey \<and> noTransferBack), t_info = p,
       t_providedAmount = providedAmt, t_dleqProof = None, t_secp256k1Pub = None, t_privkeys = None,
       t_pubkeys = None, xmrmakerPublicSpendKey = None, xmrmakerPrivateViewKey = None,
       xmrmakerSecp256k1PublicKey = None, xmrmakerAddress = 0, walletScanHeight = moneroStartNumber,
       t_contractSwapID = 0, t_contractSwap = None, t_t1 = 0, t_t2 = 0,
       t_nextExpectedEvent = taker_nextExpectedEventFromStatus (Info_Status info), fundsLocked = False,
       t_cancelled = False, xmrLockedCh_closed = False, claimedCh_closed = False,
       t_done_closed = False, t_routines = []\<rparr>))"

definition taker_generateAndSetKeys ::
    "('w, 'k) backend \<Rightarrow> taker_swap \<Rightarrow> (('w, 'k, 'z) daemon_scheme, taker_swap) go" where
  "taker_generateAndSetKeys B t =
     (if t_privkeys t \<noteq> None then panic ''generateAndSetKeys should only be called once''
      else
        bnd (attempt (query (x_Prove (b_extern B)))) (\<lambda>proved.
        bnd (lift (GenerateKeysAndProof (b_crypt B) proved)) (\<lambda>kp.
        bnd (gets (\<lambda>s. OfferID (info_at (t_info t) s))) (\<lambda>i.
        andthen (recovery (PutSwapPrivateKey (b_chaindb B) (b_codecs B) i (SpendKey (KP_PrivateKeyPair kp))))
          (ret (t\<lparr>t_dleqProof := Some (DLEqProof kp),
             t_secp256k1Pub := Some (KP_Secp256k1PublicKey kp),
             t_privkeys := Some (KP_PrivateKeyPair kp),
             t_pubkeys := Some (KP_PublicKeyPair kp)\<rparr>))))))"

definition taker_newSwapStateFromStart :: "('w, 'k) backend \<Rightarrow> string \<Rightarrow> hash \<Rightarrow> bool \<Rightarrow> EthAssetAmount \<Rightarrow>
    ExchangeRate \<Rightarrow> EthAsset \<Rightarrow> (('w, 'k, 'z) daemon_scheme, taker_swap) go" where
  "taker_newSwapStateFromStart B makerPeerID offerID noTransferBack providedAmount exchangeRate ea =
     bnd (query (xmr_GetHeight (b_wallet B))) (\<lambda>height.
     let moneroStartNumber =
           (if height \<ge> MinSpendConfirmations then height - MinSpendConfirmations else height) in
     andthen (query (n_HeaderByNumber (b_node B)))
     (bnd (lift (ToXMR (b_apd B) exchangeRate providedAmount)) (\<lambda>expectedAmount.
      bnd (lift (AsStd (b_apd B) providedAmount)) (\<lambda>std.
      bnd (gets (now B)) (\<lambda>tm.
      bnd (on_mgr (alloc (NewInfo tm tm makerPeerID offerID ProvidesETH std expectedAmount exchangeRate ea
             ExpectingKeys moneroStartNumber))) (\<lambda>p.
      andthen (on_mgr (AddSwap (b_swapdb B) p))
      (bnd (taker_newSwapState B noTransferBack p moneroStartNumber) (\<lambda>t.
       bnd (taker_generateAndSetKeys B t) (\<lambda>t'.
       andthen (on_mgr (PushNewStatus offerID ExpectingKeys)) (ret t'))))))))))"

definition errInvalidStageForRecovery :: goerr where
  "errInvalidStageForRecovery = Sentinel ''errInvalidStageForRecovery''
     ''cannot create ongoing swap state if stage is not ETHLocked or ContractReady''"

definition taker_newSwapStateFromOngoing :: "('w, 'k) backend \<Rightarrow> ptr \<Rightarrow> bool \<Rightarrow> EthereumSwapInfo \<Rightarrow>
    PrivateKeyPair \<Rightarrow> (('w, 'k, 'z) daemon_scheme, taker_swap) go" where
  "taker_newSwapStateFromOngoing B p noTransferBack ethSwapInfo sk =
     bnd (gets (info_at p)) (\<lambda>info.
     if Info_Status info \<noteq> ETHLocked \<and> Info_Status info \<noteq> ContractReady
     then fail errInvalidStageForRecovery
     else
       bnd (wrapping ''failed to get xmrmaker swap keys from db: '' []
         (recovery (GetCounterpartySwapKeys (b_chaindb B) (b_codecs B) (OfferID info)))) (\<lambda>(makerSk, makerVk).
       bnd (taker_newSwapState B noTransferBack p (MoneroStartHeight info)) (\<lambda>t.
       if b_swapCreatorAddr B \<noteq> SwapCreatorAddr ethSwapInfo
       then fail (Errorf ''cannot recover from swap where contract address is not the one loaded at start-up; please restart with --contract-address=%s'')
       else
         let t1 = time_Unix (Timeout1 (EthInfo_Swap ethSwapInfo));
             t2 = time_Unix (Timeout2 (EthInfo_Swap ethSwapInfo)) in
         andthen (set_info p (SetTimeouts t1 t2))
           (ret (t\<lparr>t_t1 := t1, t_t2 := t2, t_privkeys := Some sk,
              t_pubkeys := Some (PublicKeyPair_of (b_crypt B) sk),
              t_contractSwapID := EthInfo_SwapID ethSwapInfo,
              t_contractSwap := Some (EthInfo_Swap ethSwapInfo),
              xmrmakerPublicSpendKey := Some makerSk, xmrmakerPrivateViewKey := Some makerVk,
              t_routines := [T2_routine, T1_routine] @
                (if Info_Status info = ETHLocked then [checkForXMRLock_routine] else [])\<rparr>)))))"

section \<open>Balance checks (min\_balance.go)\<close>

definition MaxNewSwapETHGas :: int where "MaxNewSwapETHGas = 50639"
definition MaxNewSwapTokenGas :: int where "MaxNewSwapTokenGas = 87369"
definition MaxSetReadyGas :: int where "MaxSetReadyGas = 32054"
definition MaxClaimTokenGas :: int where "MaxClaimTokenGas = 48416"
definition MaxRefundETHGas :: int where "MaxRefundETHGas = 43132"
definition MaxRefundTokenGas :: int where "MaxRefundTokenGas = 48327"
definition MaxTokenApproveGas :: int where "MaxTokenApproveGas = 47000"

definition validateMinBalForETHSwap :: "apd \<Rightarrow> WeiAmount \<Rightarrow> decimal \<Rightarrow> int \<Rightarrow> unit outcome" where
  "validateMinBalForETHSwap A weiBalance providesAmt gasPriceWei =
     obind (EtherToWei A providesAmt) (\<lambda>w.
     obind (WeiAmount_BigInt A w) (\<lambda>providedAmtWei.
     let neededGas = MaxNewSwapETHGas + MaxSetReadyGas + MaxRefundETHGas;
         neededBalanceWei = providedAmtWei + neededGas * gasPriceWei in
     obind (WeiAmount_BigInt A weiBalance) (\<lambda>bal.
     if bal < neededBalanceWei
     then Err (Errorf ''balance of %s ETH is under required amount of %s ETH'') else Ok ())))"

definition validateMinBalForTokenSwap ::
    "apd \<Rightarrow> WeiAmount \<Rightarrow> ERC20TokenAmount \<Rightarrow> decimal \<Rightarrow> int \<Rightarrow> unit outcome" where
  "validateMinBalForTokenSwap A weiBalance tokenBalance providesAmt gasPriceWei =
     (if apd_Cmp A (Amount tokenBalance) providesAmt < 0
      then Err (Errorf ''balance of %s %s is below provided %s %s'')
      else
        let neededGas = MaxTokenApproveGas + MaxNewSwapTokenGas + MaxSetReadyGas + MaxRefundTokenGas;
            neededWeiForGas = neededGas * gasPriceWei in
        obind (WeiAmount_BigInt A weiBalance) (\<lambda>bal.
        if bal < neededWeiForGas
        then Err (Errorf ''balance of %s ETH is under required amount of %s ETH'') else Ok ()))"

definition taker_validateMinBalance ::
    "('w, 'k) backend \<Rightarrow> decimal \<Rightarrow> EthAsset \<Rightarrow> (('w, 'k, 'z) daemon_scheme, unit) go" where
  "taker_validateMinBalance B providesAmt ea =
     bnd (SuggestGasPrice (b_node B)) (\<lambda>gp.
     bnd (Balance (b_apd B) (b_node B)) (\<lambda>weiBalance.
     if EthAsset_IsETH ea then lift (validateMinBalForETHSwap (b_apd B) weiBalance providesAmt gp)
     else
       bnd (ERC20Balance (b_apd B) (b_node B) ea) (\<lambda>tokenBalance.
       lift (validateMinBalForTokenSwap (b_apd B) weiBalance tokenBalance providesAmt gp))))"

section \<open>Taking an offer (net.go)\<close>

record ('w, 'k) takerInst = "('w, 'k) daemon" +
  ti_noTransferBack :: bool
  t_swapStates :: "hash \<rightharpoonup> taker_swap"

definition errProtocolAlreadyInProgress :: goerr where
  "errProtocolAlreadyInProgress = Sentinel ''errProtocolAlreadyInProgress'' ''protocol already in progress''"

definition taker_initiate :: "('w, 'k) backend \<Rightarrow> string \<Rightarrow> EthAssetAmount \<Rightarrow> ExchangeRate \<Rightarrow> EthAsset \<Rightarrow> hash \<Rightarrow>
    (('w, 'k) takerInst, taker_swap) go" where
  "taker_initiate B makerPeerID providesAmount exchangeRate ea offerID =
     bnd (gets (\<lambda>s. (t_swapStates s offerID, ti_noTransferBack s))) (\<lambda>(cur, noTransferBack).
     if cur \<noteq> None then fail errProtocolAlreadyInProgress
     else
       bnd (taker_newSwapStateFromStart B makerPeerID offerID noTransferBack providesAmount exchangeRate ea) (\<lambda>t.
       andthen (modify (\<lambda>s. s\<lparr>t_swapStates := (t_swapStates s)(offerID \<mapsto> t)\<rparr>)) (ret t)))"

definition InitiateProtocol ::
    "('w, 'k) backend \<Rightarrow> string \<Rightarrow> decimal \<Rightarrow> Offer \<Rightarrow> (('w, 'k) takerInst, taker_swap) go" where
  "InitiateProtocol B makerPeerID providesAmount off =
     bnd (if EthAsset_IsToken (EthAsset off)
          then bnd (ERC20Info (b_node B) (EthAsset off)) (\<lambda>token. ret (Some token))
          else ret None) (\<lambda>token.
     let maxDecimals = (case token of None \<Rightarrow> NumEtherDecimals | Some tk \<Rightarrow> TokenNumDecimals tk) in
     case ValidatePositive (b_apd B) ''providesAmount'' maxDecimals (Some providesAmount) of
       (Some e, _) \<Rightarrow> fail e
     | (None, validated) \<Rightarrow>
       bnd (lift (deref validated)) (\<lambda>amt.
       bnd (lift (NewEthAssetAmount (b_apd B) amt token)) (\<lambda>providedAssetAmount.
       bnd (lift (deref (ExchangeRate off))) (\<lambda>rate.
       bnd (lift (ToXMR (b_apd B) rate providedAssetAmount)) (\<lambda>providesAmtAsXMR.
       bnd (lift (deref (MinAmount off))) (\<lambda>minAmt.
       if apd_Cmp (b_apd B) providesAmtAsXMR minAmt < 0
       then fail (Errorf ''provided %s converted to XMR is under offer min of %s XMR (%s %s / %s = %s)'')
       else
       bnd (lift (deref (MaxAmount off))) (\<lambda>maxAmt.
       if apd_Cmp (b_apd B) providesAmtAsXMR maxAmt > 0
       then fail (Errorf ''provided %s converted to XMR is over offer max of %s XMR (%s %s / %s = %s XMR)'')
       else
         andthen (taker_validateMinBalance B amt (EthAsset off))
           (taker_initiate B makerPeerID providedAssetAmount rate (EthAsset off) (ID off)))))))))"

text \<open>The routine that waits for the swap's \<open>done\<close> channel and forgets the swap.\<close>

definition taker_reap :: "hash \<Rightarrow> (('w, 'k) takerInst, unit) go" where
  "taker_reap offerID =
     bnd (gets (\<lambda>s. t_swapStates s offerID)) (\<lambda>cur. case cur of
       Some t \<Rightarrow> if t_done_closed t
         then modify (\<lambda>s. s\<lparr>t_swapStates := (t_swapStates s)(offerID := None)\<rparr>) else block
     | None \<Rightarrow> ret ())"

section \<open>Restart (instance.go)\<close>

definition taker_abortOngoingSwap :: "('w, 'k) backend \<Rightarrow> ptr \<Rightarrow> (('w, 'k, 'z) daemon_scheme, unit) go" where
  "taker_abortOngoingSwap B p =
     andthen (set_info p (\<lambda>i. i\<lparr>Info_Status := CompletedAbort\<rparr>))
       (bnd (gets (now B)) (\<lambda>tm.
        andthen (on_mgr (CompleteOngoingSwap (b_swapdb B) tm p))
          (bnd (gets (\<lambda>s. OfferID (info_at p s))) (\<lambda>i. recovery (DeleteSwap i)))))"

definition maybeCancelNewSwap :: "('w, 'k) backend \<Rightarrow> hash \<Rightarrow> (('w, 'k, 'z) daemon_scheme, bool) go" where
  "maybeCancelNewSwap B txHash =
     bnd (wrapping ''failed to get newSwap transaction: '' []
       (query (n_TransactionByHash (b_node B) txHash))) (\<lambda>(tx, isPending).
     if \<not> isPending then ret False
     else
       bnd (attempt (CancelTxWithNonce (b_apd B) (b_node B) (Tx_Nonce tx) (Tx_GasPrice tx * 2))) (\<lambda>r. case r of
         Inr receipt \<Rightarrow> ret True
       | Inl err \<Rightarrow>
           if \<not> errors_Is (Some err) (Some ethereum_NotFound)
           then fail (Wrapf ''failed to get cancel transaction receipt: '' err [])
           else ret False))"

record newSwapParameters =
  np_swapCreatorAddr :: address
  np_owner :: address
  np_args :: newSwapArgs

definition getNewSwapParametersFromTx ::
    "('w, 'k) backend \<Rightarrow> hash \<Rightarrow> (('w, 'k, 'z) daemon_scheme, newSwapParameters) go" where
  "getNewSwapParametersFromTx B txHash =
     bnd (query (n_TransactionByHash (b_node B) txHash)) (\<lambda>(tx, _).
     case Tx_To tx of
       None \<Rightarrow> fail (Errorf ''invalid transaction: to address is nil'')
     | Some to \<Rightarrow>
         if length (Tx_Data tx) < 4 then fail (Errorf ''invalid transaction data: too short'')
         else
           bnd (lift (of_result (x_UnpackNewSwap (b_extern B) (drop 4 (Tx_Data tx))))) (\<lambda>args.
           bnd (lift (of_result (x_TxSender (b_extern B) tx))) (\<lambda>from.
           ret \<lparr>np_swapCreatorAddr = to, np_owner = from, np_args = args\<rparr>)))"

definition refundOrCancelNewSwap ::
    "('w, 'k) backend \<Rightarrow> ptr \<Rightarrow> hash \<Rightarrow> (('w, 'k, 'z) daemon_scheme, unit) go" where
  "refundOrCancelNewSwap B p txHash =
     bnd (maybeCancelNewSwap B txHash) (\<lambda>cancelled.
     if cancelled then ret ()
     else
     bnd (wrapping ''failed to get newSwap transaction receipt: '' [] (WaitForReceipt (b_node B) txHash)) (\<lambda>receipt.
     case Receipt_Logs receipt of
       [] \<Rightarrow> fail errSwapInstantiationNoLogs
     | l # ls \<Rightarrow>
     bnd (wrapping ''timeouts not found in transaction receipt's logs: '' []
       (lift (first_log (GetTimeoutsFromLog (b_ethlib B)) l ls))) (\<lambda>(t1, t2).
     bnd (wrapping ''failed to get newSwap parameters from tx %s: '' []
       (getNewSwapParametersFromTx B txHash)) (\<lambda>params.
     let args = np_args params;
         sw = \<lparr>Owner = np_owner params, Claimer = ns_claimer args,
               ClaimCommitment = ns_claimCommitment args, RefundCommitment = ns_refundCommitment args,
               Timeout1 = t1, Timeout2 = t2, Asset = ns_asset args, Value = ns_value args,
               Nonce = ns_nonce args\<rparr> in
     bnd (gets (\<lambda>s. OfferID (info_at p s))) (\<lambda>i.
     bnd (wrapping ''failed to get private key for ongoing swap from db with offer id %s: '' []
       (recovery (GetSwapPrivateKey (b_chaindb B) (b_codecs B) i))) (\<lambda>secret.
     bnd (lift (SwapID (b_ethlib B) sw)) (\<lambda>swapID.
     bnd (wrapping ''failed to get swap stage: '' []
       (query (sc_Swaps (b_node B) (np_swapCreatorAddr params) swapID))) (\<lambda>stage.
     if stage \<noteq> StagePending then fail (Errorf ''swap %s is not in pending stage, aborting'')
     else
     bnd (wrapping ''failed to get tx opts: '' [] (TxOpts (b_node B))) (\<lambda>opts.
     let sec = bytes_hash (take 32 (Reverse secret)) in
     bnd (wrapping ''failed to create refund tx: '' []
       (perform (RefundTx (np_swapCreatorAddr params) sw sec)
         (sc_Refund (b_node B) (np_swapCreatorAddr params) opts sw sec))) (\<lambda>refundTx.
     andthen (wrapping ''failed to get refund transaction receipt: '' [] (WaitForReceipt (b_node B) refundTx))
     (andthen (set_info p (\<lambda>i. i\<lparr>Info_Status := CompletedRefund\<rparr>))
     (bnd (gets (now B)) (\<lambda>tm. on_mgr (CompleteOngoingSwap (b_swapdb B) tm p))))))))))))))"

definition taker_completeSwap ::
    "('w, 'k) backend \<Rightarrow> bool \<Rightarrow> ptr \<Rightarrow> PrivateSpendKey \<Rightarrow> (('w, 'k, 'z) daemon_scheme, unit) go" where
  "taker_completeSwap B noTransferBack p skB =
     bnd (gets (\<lambda>s. OfferID (info_at p s))) (\<lambda>i.
     bnd (recovery (GetSwapPrivateKey (b_chaindb B) (b_codecs B) i)) (\<lambda>skA.
     bnd (lift (of_result (View (b_crypt B) skA))) (\<lambda>vkA.
     bnd (recovery (GetCounterpartySwapKeys (b_chaindb B) (b_codecs B) i)) (\<lambda>(_, vkB).
     andthen (ClaimMonero B p (GetClaimKeypair (b_crypt B) skA skB vkA vkB)
         (Some (xmr_PrimaryAddress (b_wallet B))) noTransferBack)
       (andthen (set_info p (\<lambda>i. i\<lparr>Info_Status := CompletedSuccess\<rparr>))
         (bnd (gets (now B)) (\<lambda>tm.
          wrapping ''failed to mark swap %s as completed: '' []
            (on_mgr (CompleteOngoingSwap (b_swapdb B) tm p)))))))))"

definition taker_createOngoingSwap :: "('w, 'k) backend \<Rightarrow> ptr \<Rightarrow> (('w, 'k) takerInst, unit) go" where
  "taker_createOngoingSwap B p =
     bnd (gets (\<lambda>s. (OfferID (info_at p s), ti_noTransferBack s))) (\<lambda>(i, noTransferBack).
     bnd (attempt (recovery (GetCounterpartySwapPrivateKey (b_chaindb B) (b_codecs B) i))) (\<lambda>r. case r of
       Inr skB \<Rightarrow> taker_completeSwap B noTransferBack p skB
     | Inl _ \<Rightarrow>
         bnd (wrapping ''failed to get contract info for ongoing swap from db with offer id %s: '' []
           (recovery (GetContractSwapInfo (b_chaindb B) (b_codecs B) i))) (\<lambda>ethSwapInfo.
         bnd (wrapping ''failed to get private key for ongoing swap from db with offer id %s: '' []
           (recovery (GetSwapPrivateKey (b_chaindb B) (b_codecs B) i))) (\<lambda>sk.
         bnd (lift (of_result (AsPrivateKeyPair (b_crypt B) sk))) (\<lambda>kp.
         bnd (wrapping ''failed to create new swap state for ongoing swap, offer id %s: '' []
           (taker_newSwapStateFromOngoing B p noTransferBack ethSwapInfo kp)) (\<lambda>t.
         modify (\<lambda>s. s\<lparr>t_swapStates := (t_swapStates s)(i \<mapsto> t)\<rparr>)))))))"

primrec taker_resume :: "('w, 'k) backend \<Rightarrow> hash list \<Rightarrow> (('w, 'k) takerInst, unit) go" where
  "taker_resume B [] = ret ()"
| "taker_resume B (offerID # rest) =
     bnd (on_mgr (GetOngoingSwap offerID)) (\<lambda>p.
     bnd (gets (info_at p)) (\<lambda>info.
     andthen
       (if Info_Provides info \<noteq> ProvidesETH then ret ()
        else if Info_Status info = ExpectingKeys then
          bnd (attempt (recovery (GetNewSwapTxHash (b_chaindb B) (OfferID info)))) (\<lambda>r. case r of
            Inl err \<Rightarrow>
              if errors_Is (Some err) (Some ErrKeyNotFound)
              then bnd (attempt (taker_abortOngoingSwap B p)) (\<lambda>r2. case r2 of
                  Inl e \<Rightarrow> fail (Errorf ''failed to abort ongoing swap %s: %s'') | Inr _ \<Rightarrow> ret ())
              else fail (Wrapf ''failed to get newSwap tx hash for ongoing swap %s: '' err [])
          | Inr txHash \<Rightarrow>
              wrapping ''failed to refund or cancel swap %s: '' [] (refundOrCancelNewSwap B p txHash))
        else if Info_Status info = SweepingXMR then
          andthen (set_info p (\<lambda>i. i\<lparr>Info_Status := CompletedSuccess\<rparr>))
            (bnd (gets (now B)) (\<lambda>tm.
             wrapping ''failed to mark swap as completed: '' []
               (on_mgr (CompleteOngoingSwap (b_swapdb B) tm p))))
        else ignore_err (taker_createOngoingSwap B p))
       (taker_resume B rest)))"

text \<open>\<open>checkForOngoingSwaps\<close>; \<open>order\<close> is the order in which the map of ongoing swaps is read.\<close>

definition taker_checkForOngoingSwaps ::
    "('w, 'k) backend \<Rightarrow> hash list \<Rightarrow> (('w, 'k) takerInst, unit) go" where
  "taker_checkForOngoingSwaps B order =
     bnd (on_mgr (GetOngoingSwapOfferIDs order)) (\<lambda>ongoingIDs. taker_resume B ongoingIDs)"

text \<open>\<open>NewInstance\<close> does not copy the configured \<open>NoTransferBack\<close>, so it is false.\<close>

definition taker_NewInstance :: "('w, 'k) backend \<Rightarrow> hash list \<Rightarrow> ('w, 'k) daemon \<Rightarrow>
    unit outcome \<times> ('w, 'k) takerInst" where
  "taker_NewInstance B order d =
     taker_checkForOngoingSwaps B order
       (daemon.extend d \<lparr>ti_noTransferBack = False, t_swapStates = Map.empty\<rparr>)"

definition errNoOngoingSwap :: goerr where
  "errNoOngoingSwap = Sentinel ''errNoOngoingSwap'' ''no ongoing swap with given offer ID''"

definition errSenderIsNotExternal :: goerr where
  "errSenderIsNotExternal = Sentinel ''errSenderIsNotExternal''
     ''swap is not using an external transaction sender''"

definition taker_ExternalSender :: "hash \<Rightarrow> (('w, 'k) takerInst, Sender) go" where
  "taker_ExternalSender offerID =
     bnd (gets (\<lambda>s. t_swapStates s offerID)) (\<lambda>cur. case cur of
       None \<Rightarrow> fail errNoOngoingSwap
     | Some t \<Rightarrow> (case t_sender t of
         ExternalSender ca ea \<Rightarrow> ret (t_sender t)
       | PrivateKeySender sa sc erc \<Rightarrow> fail errSenderIsNotExternal))"

end
