(* ===== verification/Swap_Invariants.thy ===== *)
theory Swap_Invariants
  imports Swap_Backend
begin

text \<open>
  What the operations that a swap runs on keep. \<open>swap_kept\<close> says what a move of the manager keeps of
  one swap: its identifier, chosen kinds of its recovery data, and a well-formed swap table. The
  locale \<open>daemon_invariant\<close> is the contract between the backend and the handlers of both parties: a
  property that such moves keep survives every operation of the backend.
\<close>

section \<open>What the operations of a swap keep of the database\<close>

text \<open>
  The move from \<open>m\<close> to \<open>m'\<close> keeps the identifier of the swap at \<open>p\<close>, its recovery data of the
  kinds \<open>ps\<close>, and a well-formed swap table with a swap that can be stored in it.
\<close>

definition swap_kept :: "'k chaindb \<Rightarrow> codecs \<Rightarrow> string set \<Rightarrow> ptr \<Rightarrow> 'k manager \<Rightarrow> 'k manager \<Rightarrow> bool" where
  "swap_kept C Z ps p m m' \<longleftrightarrow> OfferID (heap m' p) = OfferID (heap m p) \<and>
     (\<forall>q\<in>ps. content C (mgr_db m') recoveryPrefix (getRecoveryDBKey (OfferID (heap m p)) q) =
        content C (mgr_db m) recoveryPrefix (getRecoveryDBKey (OfferID (heap m p)) q)) \<and>
     (swap_invar C Z (mgr_db m) \<and> storable (z_lib Z) (heap m p) \<longrightarrow>
      swap_invar C Z (mgr_db m') \<and> storable (z_lib Z) (heap m' p))"

lemma swap_kept_refl [simp]: "swap_kept C Z ps p m m"
  by (simp add: swap_kept_def)

lemma swap_kept_trans: "swap_kept C Z ps p m m' \<Longrightarrow> swap_kept C Z ps p m' m'' \<Longrightarrow> swap_kept C Z ps p m m''"
  by (simp add: swap_kept_def)

lemma keeps_swap_kept:
  "(\<And>m. swap_kept C Z ps p m (snd (f m))) \<Longrightarrow> keeps (swap_kept C Z ps p m0) f"
  by (meson keepsI swap_kept_trans)

text \<open>Only the tables of swaps and of recovery data matter, and of the latter only the kinds kept.\<close>

lemma swap_kept_db:
  assumes "\<And>key. content C k' swapPrefix key = content C (mgr_db m) swapPrefix key"
    and "\<And>q. q \<in> ps \<Longrightarrow> content C k' recoveryPrefix (getRecoveryDBKey (OfferID (heap m p)) q) =
      content C (mgr_db m) recoveryPrefix (getRecoveryDBKey (OfferID (heap m p)) q)"
  shows "swap_kept C Z ps p m (m\<lparr>mgr_db := k'\<rparr>)"
proof -
  have "content C k' swapPrefix = content C (mgr_db m) swapPrefix" using assms(1) by blast
  then show ?thesis using assms(2) swap_invar_cong [of C k' "mgr_db m" Z] by (simp add: swap_kept_def)
qed

lemma call_db_kept:
  assumes "\<And>k. wp f (\<lambda>_ k'. content C k' swapPrefix = content C k swapPrefix \<and>
      (\<forall>q\<in>ps. \<forall>i. content C k' recoveryPrefix (getRecoveryDBKey i q) =
         content C k recoveryPrefix (getRecoveryDBKey i q))) k"
  shows "keeps (swap_kept C Z ps p m0) (call_db f)"
proof (rule keeps_swap_kept)
  fix m
  show "swap_kept C Z ps p m (snd (call_db f m))"
    using assms [of "mgr_db m"]
    by (auto simp: wp_def call_db_def split: prod.splits intro!: swap_kept_db)
qed

lemma prefix_neq [simp]: "swapPrefix \<noteq> recoveryPrefix" "recoveryPrefix \<noteq> swapPrefix" "offerPrefix \<noteq> swapPrefix"
  "offerPrefix \<noteq> recoveryPrefix" "swapPrefix \<noteq> offerPrefix" "recoveryPrefix \<noteq> offerPrefix"
  by (simp_all add: swapPrefix_def recoveryPrefix_def offerPrefix_def)

lemma recovery_put_wp:
  assumes "chaindb_laws C"
  shows "wp (recovery_put C key v) (\<lambda>_ k'. content C k' swapPrefix = content C k swapPrefix \<and>
    (\<forall>key'. key' \<noteq> key \<longrightarrow> content C k' recoveryPrefix key' = content C k recoveryPrefix key')) k"
  unfolding recovery_put_def
  by (simp add: wp_rules, rule wp_Put [OF assms]) (auto intro!: wp_Flush [OF assms])

lemma recovery_put_struct_wp:
  assumes "chaindb_laws C"
  shows "wp (recovery_put_struct C J i q v) (\<lambda>_ k'. content C k' swapPrefix = content C k swapPrefix \<and>
    (\<forall>key'. key' \<noteq> getRecoveryDBKey i q \<longrightarrow> content C k' recoveryPrefix key' = content C k recoveryPrefix key')) k"
proof (cases "MarshalStruct J v")
  case (Inl e)
  then show ?thesis by (simp add: recovery_put_struct_def wp_rules)
next
  case (Inr b)
  then show ?thesis using recovery_put_wp [OF assms] by (simp add: recovery_put_struct_def wp_rules)
qed

lemma put_struct_kept:
  assumes "chaindb_laws C" "q \<notin> ps"
  shows "keeps (swap_kept C Z ps p m0) (call_db (recovery_put_struct C J i q v))"
proof (rule call_db_kept)
  fix k
  show "wp (recovery_put_struct C J i q v) (\<lambda>_ k'. content C k' swapPrefix = content C k swapPrefix \<and>
      (\<forall>q\<in>ps. \<forall>i. content C k' recoveryPrefix (getRecoveryDBKey i q) =
         content C k recoveryPrefix (getRecoveryDBKey i q))) k"
    by (rule wp_mono [OF recovery_put_struct_wp [OF assms(1)]]) (metis assms(2) getRecoveryDBKey_inject)
qed

lemma put_kept:
  assumes "chaindb_laws C" "q \<notin> ps"
  shows "keeps (swap_kept C Z ps p m0) (call_db (recovery_put C (getRecoveryDBKey i q) v))"
proof (rule call_db_kept)
  fix k
  show "wp (recovery_put C (getRecoveryDBKey i q) v) (\<lambda>_ k'. content C k' swapPrefix = content C k swapPrefix \<and>
      (\<forall>q\<in>ps. \<forall>i. content C k' recoveryPrefix (getRecoveryDBKey i q) =
         content C k recoveryPrefix (getRecoveryDBKey i q))) k"
    by (rule wp_mono [OF recovery_put_wp [OF assms(1)]]) (metis assms(2) getRecoveryDBKey_inject)
qed

lemma get_struct_kept:
  assumes "chaindb_laws C"
  shows "keeps (swap_kept C Z ps p m0) (call_db (recovery_get_struct C J i q))"
  unfolding recovery_get_struct_def
  by (rule call_db_kept, simp add: wp_rules, rule wp_Get [OF assms]) (auto simp: wp_rules)

lemma PutSwap_frame:
  assumes "chaindb_laws C"
  shows "wp (PutSwap C Z i) (\<lambda>_ k'. content C k' recoveryPrefix = content C k recoveryPrefix) k"
proof (cases "MarshalStruct (z_info Z) i")
  case (Inl e)
  then show ?thesis by (simp add: PutSwap_def wp_rules)
next
  case (Inr b)
  then show ?thesis unfolding PutSwap_def
    by (simp add: wp_rules, intro wp_Put [OF assms]) (auto intro!: wp_Flush [OF assms])
qed

text \<open>Storing the swap itself, in a state of the manager that has the same database and identifier.\<close>

lemma PutSwap_kept:
  assumes "chaindb_laws C" "OfferID (heap m' p) = OfferID (heap m p)" "mgr_db m' = mgr_db m"
    and "storable (z_lib Z) (heap m p) \<Longrightarrow> storable (z_lib Z) i \<and> storable (z_lib Z) (heap m' p)"
  shows "swap_kept C Z ps p m (snd (call_db (PutSwap C Z i) m'))"
proof -
  obtain r k' where run: "PutSwap C Z i (mgr_db m) = (r, k')" by force
  from PutSwap_frame [OF assms(1)] run
  have rec: "content C k' recoveryPrefix = content C (mgr_db m) recoveryPrefix" by (simp add: wp_iff_run)
  have "swap_invar C Z k'" if "swap_invar C Z (mgr_db m)" "storable (z_lib Z) (heap m p)"
    using wp_run [OF PutSwap_wp run] that assms(4) by blast
  then show ?thesis using assms(2-4) run rec by (simp add: swap_kept_def call_db_def)
qed

lemma WriteSwapToDB_kept:
  assumes "chaindb_laws C"
  shows "keeps (swap_kept C Z ps p m0) (WriteSwapToDB (swap_ops C Z) p)"
proof (rule keeps_swap_kept)
  fix m
  show "swap_kept C Z ps p m (snd (WriteSwapToDB (swap_ops C Z) p m))"
    using PutSwap_kept [OF assms, of m p m]
    by (simp add: WriteSwapToDB_def swap_ops_def bnd_def gets_def)
qed

lemma CompleteOngoingSwap_kept:
  fixes C :: "'k chaindb"
  assumes "chaindb_laws C"
  shows "keeps (swap_kept C Z ps p m0) (CompleteOngoingSwap (swap_ops C Z) tm p)"
proof (rule keeps_swap_kept)
  fix m :: "'k manager"
  let ?m' = "m\<lparr>heap := (heap m)(p := (heap m p)\<lparr>EndTime := Some tm\<rparr>),
    past := (past m)(OfferID (heap m p) \<mapsto> p), ongoing := (ongoing m)(OfferID (heap m p) := None)\<rparr>"
  show "swap_kept C Z ps p m (snd (CompleteOngoingSwap (swap_ops C Z) tm p m))"
    using PutSwap_kept [OF assms, of ?m' p m]
    by (simp add: CompleteOngoingSwap_def swap_ops_def bnd_def gets_def modify_def fail_def)
qed

lemma getStatusChan_kept: "keeps (swap_kept C Z ps p m0) (getStatusChan i)"
  by (rule keeps_swap_kept) (simp add: getStatusChan_def swap_kept_def split: option.split)

lemma chan_send_kept: "keeps (swap_kept C Z ps p m0) (chan_send ch st)"
  by (rule keeps_swap_kept) (simp add: chan_send_def swap_kept_def)

lemma DeleteStatusChan_kept: "keeps (swap_kept C Z ps p m0) (DeleteStatusChan i)"
  by (rule keeps_swap_kept) (simp add: DeleteStatusChan_def modify_def swap_kept_def)

lemma PushNewStatus_kept: "keeps (swap_kept C Z ps p m0) (PushNewStatus i st)"
  unfolding PushNewStatus_def
  by (intro keeps_rules getStatusChan_kept chan_send_kept DeleteStatusChan_kept)

lemma DeleteSwap_kept: "keeps (swap_kept C Z ps p m0) (call_db (DeleteSwap i))"
  by (rule keeps_swap_kept) (simp add: DeleteSwap_def call_db_def ret_def)

lemmas recovery_kept = put_struct_kept put_kept get_struct_kept

section \<open>Invariants of a swap's handlers\<close>

text \<open>
  A property of the daemon's state that survives changes of the outside world, moves of the manager
  that keep the swap at \<open>p\<close>, and the recording of the actions \<open>allowed\<close>. It survives every operation
  of the backend that performs only allowed actions.
\<close>

locale daemon_invariant = world_invariant I for I :: "('w, 'k, 'z) daemon_scheme \<Rightarrow> bool" +
  fixes B :: "('w, 'k) backend" and ps :: "string set" and p :: ptr and allowed :: "action \<Rightarrow> bool"
  assumes laws: "I s \<Longrightarrow> chaindb_laws (b_chaindb B)"
    and manager_moves: "I s \<Longrightarrow> swap_kept (b_chaindb B) (b_codecs B) ps p (mgr s) m \<Longrightarrow> I (s\<lparr>mgr := m\<rparr>)"
    and action_recorded: "I s \<Longrightarrow> allowed a \<Longrightarrow> I (s\<lparr>trace := (a, mgr_db (mgr s)) # trace s\<rparr>)"

begin

lemma on_mgr_keeps:
  assumes "\<And>m0. chaindb_laws (b_chaindb B) \<Longrightarrow> keeps (swap_kept (b_chaindb B) (b_codecs B) ps p m0) f"
  shows "keeps I (on_mgr f)"
proof (rule keepsI)
  fix s assume s: "I s"
  have "swap_kept (b_chaindb B) (b_codecs B) ps p (mgr s) (snd (f (mgr s)))"
    using assms [OF laws [OF s], of "mgr s"] by (simp add: keeps_def)
  from manager_moves [OF s this] show "I (snd (on_mgr f s))"
    by (simp add: on_mgr_def case_prod_beta)
qed

lemma perform_keeps: "allowed a \<Longrightarrow> keeps I (perform a f)"
  using query_keeps [of f] action_recorded by (auto simp: keeps_def perform_def)

lemma recovery_keeps:
  assumes "\<And>m0. chaindb_laws (b_chaindb B) \<Longrightarrow> keeps (swap_kept (b_chaindb B) (b_codecs B) ps p m0) (call_db f)"
  shows "keeps I (recovery f)"
  unfolding recovery_def by (rule on_mgr_keeps [OF assms])

lemma set_info_keeps:
  assumes "\<And>i. OfferID (f i) = OfferID i" "\<And>i. storable (z_lib (b_codecs B)) (f i) = storable (z_lib (b_codecs B)) i"
  shows "keeps I (set_info p' f)"
proof (rule keepsI)
  fix s assume "I s"
  then show "I (snd (set_info p' f s))"
    using manager_moves [of s "(mgr s)\<lparr>heap := (heap (mgr s))(p' := f (heap (mgr s) p'))\<rparr>"] assms
    by (simp add: set_info_def modify_def swap_kept_def)
qed

lemma SetStatus_keeps: "keeps I (set_info p' (SetStatus tm st))"
  by (rule set_info_keeps) simp_all

lemma SetTimeouts_keeps: "keeps I (set_info p' (SetTimeouts t1 t2))"
  by (rule set_info_keeps) (simp_all add: SetTimeouts_def storable_def)

lemma SetRelayerFee_keeps: "keeps I (set_info p' (SetRelayerFee f))"
  by (rule set_info_keeps) (simp_all add: SetRelayerFee_def storable_def)

lemma PushNewStatus_keeps: "keeps I (on_mgr (PushNewStatus i st))"
  by (rule on_mgr_keeps) (rule PushNewStatus_kept)

lemma WriteSwapToDB_keeps: "keeps I (on_mgr (WriteSwapToDB (b_swapdb B) p))"
  by (rule on_mgr_keeps) (rule WriteSwapToDB_kept)

lemma CompleteOngoingSwap_keeps: "keeps I (on_mgr (CompleteOngoingSwap (b_swapdb B) tm p))"
  by (rule on_mgr_keeps) (rule CompleteOngoingSwap_kept)

lemma DeleteSwap_keeps: "keeps I (recovery (DeleteSwap i))"
  by (rule recovery_keeps) (rule DeleteSwap_kept)

lemma updateStatus_keeps: "keeps I (updateStatus B p' st)"
  unfolding updateStatus_def by (intro keeps_rules SetStatus_keeps PushNewStatus_keeps)

lemma setSweepStatus_keeps: "keeps I (setSweepStatus B p)"
  unfolding setSweepStatus_def by (intro keeps_rules updateStatus_keeps WriteSwapToDB_keeps)

lemma PutContractSwapInfo_keeps:
  "contractSwapInfoPrefix \<notin> ps \<Longrightarrow> keeps I (recovery (PutContractSwapInfo (b_chaindb B) (b_codecs B) i x))"
  unfolding PutContractSwapInfo_def by (rule recovery_keeps) (rule put_struct_kept)

lemma PutCounterpartySwapPrivateKey_keeps:
  "counterpartySwapPrivateKeyPrefix \<notin> ps \<Longrightarrow>
     keeps I (recovery (PutCounterpartySwapPrivateKey (b_chaindb B) (b_codecs B) i x))"
  unfolding PutCounterpartySwapPrivateKey_def by (rule recovery_keeps) (rule put_struct_kept)

lemma PutCounterpartySwapKeys_keeps:
  "counterpartySwapKeysPrefix \<notin> ps \<Longrightarrow>
     keeps I (recovery (PutCounterpartySwapKeys (b_chaindb B) (b_codecs B) i x y))"
  unfolding PutCounterpartySwapKeys_def by (rule recovery_keeps) (rule put_struct_kept)

lemma PutNewSwapTxHash_keeps:
  "newSwapTxHashPrefix \<notin> ps \<Longrightarrow> keeps I (recovery (PutNewSwapTxHash (b_chaindb B) i x))"
  unfolding PutNewSwapTxHash_def by (rule recovery_keeps) (rule put_kept)

lemma GetCounterpartySwapKeys_keeps:
  "keeps I (recovery (GetCounterpartySwapKeys (b_chaindb B) (b_codecs B) i))"
proof (rule recovery_keeps)
  fix m0 assume "chaindb_laws (b_chaindb B)"
  then show "keeps (swap_kept (b_chaindb B) (b_codecs B) ps p m0)
      (call_db (GetCounterpartySwapKeys (b_chaindb B) (b_codecs B) i))"
    unfolding GetCounterpartySwapKeys_def recovery_get_struct_def
    by (intro call_db_kept, simp add: wp_rules, intro wp_Get)
      (auto simp: wp_rules split: outcome.split)
qed

lemma ClaimMonero_keeps:
  assumes "\<And>kp to. allowed (XmrSweep kp to)"
  shows "keeps I (ClaimMonero B p kp d n)"
  unfolding ClaimMonero_def
  by (intro keeps_rules query_keeps setSweepStatus_keeps perform_keeps assms)

lemma sendAndReceive_keeps:
  assumes "\<And>to input. allowed (ExternalTx to input)"
  shows "keeps I (sendAndReceive B input to)"
  unfolding sendAndReceive_def by (intro keeps_rules perform_keeps assms node_keeps)

lemma sender_SetReady_keeps:
  assumes "\<And>to input. allowed (ExternalTx to input)" "\<And>c sw. allowed (SetReadyTx c sw)"
  shows "keeps I (sender_SetReady B sd sw)"
  by (cases sd) (simp_all add: privateKeySender_SetReady_def ExternalSender_SetReady_def keeps_rules
      perform_keeps assms node_keeps sendAndReceive_keeps)

lemma sender_Claim_keeps:
  assumes "\<And>to input. allowed (ExternalTx to input)" "\<And>c sw x. allowed (ClaimTx c sw x)"
  shows "keeps I (sender_Claim B sd sw secret)"
  by (cases sd) (simp_all add: privateKeySender_Claim_def ExternalSender_Claim_def keeps_rules
      perform_keeps assms node_keeps sendAndReceive_keeps)

lemma sender_Refund_keeps:
  assumes "\<And>to input. allowed (ExternalTx to input)" "\<And>c sw x. allowed (RefundTx c sw x)"
  shows "keeps I (sender_Refund B sd sw secret)"
  by (cases sd) (simp_all add: privateKeySender_Refund_def ExternalSender_Refund_def keeps_rules
      perform_keeps assms node_keeps sendAndReceive_keeps)

lemma approveTransferFrom_keeps:
  assumes "\<And>a b v. allowed (ApproveTx a b v)"
  shows "keeps I (approveTransferFrom B erc spender amt)"
  unfolding approveTransferFrom_def approveNoChecks_def
  by (intro keeps_rules node_keeps perform_keeps assms)

lemma AssetSymbol_keeps: "keeps I (AssetSymbol B ea)"
  unfolding AssetSymbol_def by (intro keeps_rules node_keeps)

end

text \<open>The swap table stays well formed, whatever is performed.\<close>

interpretation table: daemon_invariant
    "\<lambda>s. swap_invar (b_chaindb B) (b_codecs B) (mgr_db (mgr s)) \<and> storable (z_lib (b_codecs B)) (info_at p s)"
    B "{}" p "\<lambda>_. True"
  for B :: "('w, 'k) backend" and p
  by unfold_locales (auto simp: swap_kept_def info_at_def swap_invar_def)

section \<open>What writes leave in the database\<close>

lemma kept_privkey:
  "chaindb_laws C \<Longrightarrow> swap_kept C Z ps p m m' \<Longrightarrow> swapPrivateKeyPrefix \<in> ps \<Longrightarrow>
     rv_privkey (recovered C Z (mgr_db m') (OfferID (heap m p))) =
     rv_privkey (recovered C Z (mgr_db m) (OfferID (heap m p)))"
  by (simp add: recovered_content Let_def swap_kept_def)

lemma kept_cskeys:
  "chaindb_laws C \<Longrightarrow> swap_kept C Z ps p m m' \<Longrightarrow> counterpartySwapKeysPrefix \<in> ps \<Longrightarrow>
     rv_cskeys (recovered C Z (mgr_db m') (OfferID (heap m p))) =
     rv_cskeys (recovered C Z (mgr_db m) (OfferID (heap m p)))"
  by (simp add: recovered_content Let_def swap_kept_def)

lemma kept_id: "swap_kept C Z ps p m m' \<Longrightarrow> OfferID (heap m' p) = OfferID (heap m p)"
  by (simp add: swap_kept_def)

lemma PutSwapPrivateKey_Ok:
  assumes "chaindb_laws C" "recovery_codecs Z" "PutSwapPrivateKey C Z i sk k = (Ok (), k')"
  shows "rv_privkey (recovered C Z k' i) = Ok sk"
proof -
  have "codec_law (z_spendkey Z)" using assms(2) by (simp add: recovery_codecs_def)
  then obtain b where "UnmarshalStruct (z_spendkey Z) b = Inr sk"
    "content C k' = (content C k)(recoveryPrefix :=
       (content C k recoveryPrefix)(getRecoveryDBKey i swapPrivateKeyPrefix \<mapsto> b))"
    using recovery_put_struct_Ok [OF assms(1) _ assms(3) [unfolded PutSwapPrivateKey_def]] by blast
  then show ?thesis by (simp add: recovered_content [OF assms(1)] Let_def)
qed

lemma PutCounterpartySwapKeys_Ok:
  assumes "chaindb_laws C" "recovery_codecs Z" "PutCounterpartySwapKeys C Z i pk vk k = (Ok (), k')"
  shows "rv_cskeys (recovered C Z k' i) = Ok (pk, vk)"
proof -
  have "codec_law (z_cpkeys Z)" using assms(2) by (simp add: recovery_codecs_def)
  then obtain b where "UnmarshalStruct (z_cpkeys Z) b = Inr \<lparr>PublicSpendKey = pk, PrivateViewKey_of = vk\<rparr>"
    "content C k' = (content C k)(recoveryPrefix :=
       (content C k recoveryPrefix)(getRecoveryDBKey i counterpartySwapKeysPrefix \<mapsto> b))"
    using recovery_put_struct_Ok [OF assms(1) _ assms(3) [unfolded PutCounterpartySwapKeys_def]] by blast
  then show ?thesis by (simp add: recovered_content [OF assms(1)] Let_def)
qed

lemma PutContractSwapInfo_Ok:
  assumes "chaindb_laws C" "recovery_codecs Z" "PutContractSwapInfo C Z i eth k = (Ok (), k')"
  shows "rv_ethinfo (recovered C Z k' i) = Ok eth"
proof -
  have "codec_law (z_ethinfo Z)" using assms(2) by (simp add: recovery_codecs_def)
  then obtain b where "UnmarshalStruct (z_ethinfo Z) b = Inr eth"
    "content C k' = (content C k)(recoveryPrefix :=
       (content C k recoveryPrefix)(getRecoveryDBKey i contractSwapInfoPrefix \<mapsto> b))"
    using recovery_put_struct_Ok [OF assms(1) _ assms(3) [unfolded PutContractSwapInfo_def]] by blast
  then show ?thesis by (simp add: recovered_content [OF assms(1)] Let_def)
qed

lemma put_struct_swap_invar:
  "chaindb_laws C \<Longrightarrow> recovery_put_struct C J i q v k = (r, k') \<Longrightarrow> swap_invar C Z k' = swap_invar C Z k"
  by (auto intro!: swap_invar_cong dest: wp_run [OF recovery_put_struct_wp])

lemma call_db_Ok: "call_db f m = (Ok x, m') \<longleftrightarrow> (\<exists>k. f (mgr_db m) = (Ok x, k) \<and> m' = m\<lparr>mgr_db := k\<rparr>)"
  by (auto simp: call_db_def split: prod.splits)

lemma PushNewStatus_Ok_kept: "PushNewStatus i st m = (r, m') \<Longrightarrow> swap_kept C Z ps p m m'"
  using keepsD [OF PushNewStatus_kept [of C Z ps p m]] by simp

lemma PushNewStatus_frame: "keeps (\<lambda>m. heap m = h \<and> mgr_db m = k) (PushNewStatus i st)"
proof -
  have "keeps (\<lambda>m. heap m = h \<and> mgr_db m = k) (getStatusChan i)"
    by (rule keepsI) (simp add: getStatusChan_def split: option.split)
  moreover have "keeps (\<lambda>m. heap m = h \<and> mgr_db m = k) (chan_send ch st)" for ch
    by (rule keepsI) (simp add: chan_send_def)
  moreover have "keeps (\<lambda>m. heap m = h \<and> mgr_db m = k) (DeleteStatusChan i)"
    by (rule keepsI) (simp add: DeleteStatusChan_def modify_def)
  ultimately show ?thesis unfolding PushNewStatus_def by (intro keeps_rules)
qed

lemma updateStatus_Ok:
  assumes "updateStatus B p st s = (Ok x, s')"
  shows "\<exists>tm m. s' = s\<lparr>mgr := m\<rparr> \<and> heap m = (heap (mgr s))(p := SetStatus tm st (heap (mgr s) p)) \<and>
    mgr_db m = mgr_db (mgr s)"
proof -
  let ?m = "\<lambda>tm. (mgr s)\<lparr>heap := (heap (mgr s))(p := SetStatus tm st (heap (mgr s) p))\<rparr>"
  obtain tm i m where "PushNewStatus i st (?m tm) = (Ok (), m)" "s' = s\<lparr>mgr := m\<rparr>"
    using assms by (auto simp: updateStatus_def run_Ok set_info_Ok)
  then show ?thesis using keepsD [OF PushNewStatus_frame, of i st "?m tm" "Ok ()" m] by auto
qed

lemma WriteSwapToDB_Ok:
  assumes "WriteSwapToDB (swap_ops C Z) p m = (Ok x, m')" "chaindb_laws C" "swap_invar C Z (mgr_db m)"
    and "storable (z_lib Z) (heap m p)"
  shows "stored_swap C Z (mgr_db m') (OfferID (heap m p)) = Some (heap m p) \<and> heap m' = heap m \<and>
    recovered C Z (mgr_db m') = recovered C Z (mgr_db m)"
proof -
  obtain k where run: "PutSwap C Z (heap m p) (mgr_db m) = (Ok (), k)" "m' = m\<lparr>mgr_db := k\<rparr>"
    using assms(1) by (auto simp: WriteSwapToDB_def swap_ops_def run_Ok call_db_def split: prod.splits)
  have "content C k recoveryPrefix = content C (mgr_db m) recoveryPrefix"
    using wp_run [OF PutSwap_frame [OF assms(2)] run(1)] .
  then have "recovered C Z k = recovered C Z (mgr_db m)"
    by (simp add: fun_eq_iff recovered_content [OF assms(2)])
  then show ?thesis using wp_run [OF PutSwap_wp [OF assms(3,4)] run(1)] run(2) by auto
qed

lemma alloc_Ok: "alloc i m = (Ok q, m') \<longleftrightarrow>
    q = next_ptr m \<and> m' = m\<lparr>heap := (heap m)(next_ptr m := i), next_ptr := Suc (next_ptr m)\<rparr>"
  by (auto simp: alloc_def)

lemma AddSwap_heap: "AddSwap D p m = (r, m') \<Longrightarrow> heap m' = heap m"
proof -
  have "keeps (\<lambda>m'. heap m' = heap m) (AddSwap D p)"
    unfolding AddSwap_def
    by (intro keeps_rules keeps_modify) (auto simp: keeps_def call_db_def split: prod.splits)
  then show "AddSwap D p m = (r, m') \<Longrightarrow> heap m' = heap m" using keepsD by fastforce
qed

lemma AddSwap_Ok_invar:
  assumes "AddSwap (swap_ops C Z) p m = (Ok x, m')" "swap_invar C Z (mgr_db m)" "storable (z_lib Z) (heap m p)"
  shows "swap_invar C Z (mgr_db m')"
proof -
  obtain k where "PutSwap C Z (heap m p) (mgr_db m) = (Ok (), k)" "mgr_db m' = k"
    using assms(1) by (auto simp: AddSwap_def swap_ops_def run_Ok call_db_Ok split: if_splits)
  then show ?thesis using wp_run [OF PutSwap_wp [OF assms(2,3)]] by blast
qed

end
