(* ===== verification/Demo_Backend.thy ===== *)
theory Demo_Backend
  imports Swap_Invariants
begin

text \<open>
  A concrete instance of every interface of the backend, on which the swap handlers can be evaluated:
  a node, a wallet, a network and a key library that answer with fixed values, over the in-memory
  store. It shows that the hypotheses of the theorems about both parties hold together.
\<close>

text \<open>Interfaces that answer with fixed values; the world has no state.\<close>

definition demo_header :: Header where
  "demo_header = \<lparr>Header_Number = 40, Header_Time = 5000\<rparr>"

definition demo_receipt :: Receipt where
  "demo_receipt = \<lparr>Receipt_TxHash = 77, Receipt_Status = 1, Receipt_Logs = [], BlockNumber = 41\<rparr>"

definition demo_node :: "unit node" where
  "demo_node = \<lparr>n_clock = (\<lambda>_. 0), n_ctx_Err = (\<lambda>_. None), n_sleep = (\<lambda>_. ret ()), n_BalanceAt = (\<lambda>_. ret 0),
     n_SuggestGasPrice = ret 9, n_NonceAt = (\<lambda>_. ret 0), n_CodeAt = (\<lambda>_. ret [2]), n_ChainID = ret 5,
     n_HeaderByNumber = ret demo_header, n_TransactionReceipt = (\<lambda>_. ret demo_receipt),
     n_TransactionByHash = (\<lambda>h. ret (\<lparr>Tx_Hash = h, Tx_To = Some 3, Tx_Data = [], Tx_GasPrice = 9, Tx_Nonce = 0\<rparr>, False)),
     n_TransactionInBlock = (\<lambda>_. fail ethereum_NotFound),
     n_TransactionToMessage = (\<lambda>_ _. Inl ethereum_NotFound), n_CallContract = (\<lambda>_ _. fail ethereum_NotFound),
     n_FilterLogs = (\<lambda>_ _ _. ret []), n_NewTransactor = (\<lambda>_ _. Inr 11), n_SignTx = (\<lambda>_ _ _. Ok 77),
     n_SendTransaction = (\<lambda>_. ret ()), erc20_BalanceOf = (\<lambda>_ _. ret 0), erc20_Name = (\<lambda>_. ret ''T''),
     erc20_Symbol = (\<lambda>_. ret ''T''), erc20_Decimals = (\<lambda>_. ret 18), erc20_Allowance = (\<lambda>_ _ _. ret 0),
     erc20_Approve = (\<lambda>_ _ _ _. ret 77), sc_Swaps = (\<lambda>_ _. ret StagePending), sc_NewSwap = (\<lambda>_ _ _. ret 77),
     sc_SetReady = (\<lambda>_ _ _. ret 77), sc_Claim = (\<lambda>_ _ _ _. ret 77), sc_Refund = (\<lambda>_ _ _ _. ret 77),
     sc_ClaimRelayer = (\<lambda>_ _ _ _ _ _ _ _ _. ret 77), expectedSwapCreatorBytecode = [2]\<rparr>"

definition demo_wallet :: "unit wallet" where
  "demo_wallet = \<lparr>xmr_PrimaryAddress = [], xmr_GetHeight = ret 30,
     xmr_GetBalance = ret \<lparr>Wallet_Balance = 0, UnlockedBalance = 0\<rparr>, xmr_Transfer = (\<lambda>_ _ _. ret ''tx''),
     xmr_SweepAll = (\<lambda>_ _. ret []), xmr_CreateViewOnlyWallet = (\<lambda>_ _ _. ret 0), xmr_CreateSpendWallet = (\<lambda>_ _. ret 0),
     wal_GetBalance = (\<lambda>_. ret \<lparr>Wallet_Balance = 0, UnlockedBalance = 0\<rparr>), wal_SweepAll = (\<lambda>_ _ _. ret []),
     wal_Close = (\<lambda>_. ret ()), wal_CloseAndRemoveWallet = (\<lambda>_. ret ())\<rparr>"

definition demo_net :: "unit netsender" where
  "demo_net = \<lparr>net_SendSwapMessage = (\<lambda>_ _. ret ()), net_DeleteOngoingSwap = (\<lambda>_. ret ()),
     net_CloseProtocolStream = (\<lambda>_. ret ()), net_DiscoverRelayers = ret [],
     net_QueryRelayerAddress = (\<lambda>_. ret 0), net_SubmitRelayRequest = (\<lambda>_ _. ret 77)\<rparr>"

definition demo_extern :: "unit extern" where
  "demo_extern = \<lparr>x_Prove = ret \<lparr>proof_secret = replicate 32 6, proof_data = [9]\<rparr>, x_GenerateNewSwapNonce = ret 8,
     x_rand_salt = ret 0, x_Pack = (\<lambda>_ _. Inr []), x_sign_and_submit = (\<lambda>_ _ _. ret 77),
     x_UnpackNewSwap = (\<lambda>_. Inl ethereum_NotFound), x_TxSender = (\<lambda>_. Inr 11), x_KeyAddress = (\<lambda>_. 11),
     x_Sign = (\<lambda>_ _. Inr []), x_Ecrecover = (\<lambda>_ _. Inr []), x_PubkeyAddress = (\<lambda>_. Inr 11)\<rparr>"

text \<open>A proof's points are read off its data; every hash is the same.\<close>

definition demo_keys :: crypt where
  "demo_keys = \<lparr>ed_SetCanonicalBytes = Inr, ed_ScalarBaseMult = (\<lambda>b. b), ed_PointSetBytes = Inr,
     ed_PointAdd = map2 (+), ed_ScalarAdd = map2 (+), Keccak256 = (\<lambda>b. 5),
     dleq_Check = (\<lambda>b. Inr ((4, 3), b))\<rparr>"

definition demo_backend :: "codecs \<Rightarrow> ethlib \<Rightarrow> (unit, memstore) backend" where
  "demo_backend Z G = \<lparr>b_env = Stagenet, b_swapCreatorAddr = 3, b_node = demo_node, b_wallet = demo_wallet,
     b_net = demo_net, b_extern = demo_extern, b_chaindb = memdb, b_codecs = Z, b_crypt = demo_keys, b_ethlib = G\<rparr>"

definition demo_daemon :: "(unit, memstore) daemon" where
  "demo_daemon = \<lparr>world = (), ethc = \<lparr>ethPrivKey = Some [], ethAddress = 11, gasPrice = None, gasLimit = 0, chainID = 5\<rparr>,
     mgr = empty_manager demo_store, perSwapXMRDepositAddr = Map.empty, relayerHashes = Map.empty,
     swapTimeout = 3600000000000, trace = []\<rparr>"

definition demo_pair :: PrivateKeyPair where
  "demo_pair = \<lparr>SpendKey = replicate 32 6, ViewKey = scReduce32 5\<rparr>"

definition demo_secp :: Secp256k1PublicKey where
  "demo_secp = \<lparr>secp_x = 4, secp_y = 3\<rparr>"

lemma demo_generate:
  "GenerateKeysAndProof demo_keys (Inr \<lparr>proof_secret = replicate 32 6, proof_data = [9]\<rparr>) =
     Ok \<lparr>DLEqProof = \<lparr>proof_secret = replicate 32 6, proof_data = [9]\<rparr>, KP_Secp256k1PublicKey = demo_secp,
       KP_PrivateKeyPair = demo_pair, KP_PublicKeyPair = PublicKeyPair_of demo_keys demo_pair\<rparr>"
  by (simp add: GenerateKeysAndProof_def GoDLEq_Verify_def demo_keys_def NewPublicKeyFromBigInt_def NewPublicKeyFromBytes_def
      NewPrivateSpendKey_def Proof_Secret_def privateKeySize_def AsPrivateKeyPair_def View_def Reverse_def demo_pair_def demo_secp_def
      map_replicate_const)

lemma demo_verify: "VerifyKeysAndProof demo_keys [9] demo_secp [9] = Ok \<lparr>Secp256k1PublicKey_of = demo_secp, Ed25519PublicKey = [9]\<rparr>"
  by (simp add: VerifyKeysAndProof_def GoDLEq_Verify_def NewProofWithoutSecret_def demo_keys_def NewPublicKeyFromBigInt_def
      NewPublicKeyFromBytes_def demo_secp_def)

text \<open>Amounts: 0.6 ETH at the rate of two; the only quotient needed is 0.3.\<close>

definition demo_arith :: apd where
  "demo_arith = ref_apd\<lparr>apd_Quo := (\<lambda>_ _ _. Inr (demo_whole 3 (- 1)))\<rparr>"

lemma demo_amounts:
  "AsEther demo_arith (demo_whole 6 17) = Ok (demo_whole 6 (- 1))"
  "ToXMR demo_arith (demo_whole 2 0) (Wei (demo_whole 6 17)) = Ok (demo_whole 3 (- 1))"
  "EtherToWei demo_arith (demo_whole 6 (- 1)) = Ok (demo_whole 6 17)"
  "WeiAmount_BigInt demo_arith (demo_whole 6 17) = Ok 600000000000000000"
  by (simp_all add: AsEther_def ToXMR_def EtherToWei_def WeiAmount_BigInt_def demo_arith_def ref_apd_def decreaseExponent_def
      increaseExponent_def demo_whole_def NumEtherDecimals_def NumMoneroDecimals_def ref_Reduce_def strip_zeros.simps
      ExceedsDecimals_def NumDecimals_def numDigits.simps MaxCoinPrecision_def roundToDecimalPlace_def ref_Quantize_def
      ref_integral_def Let_def)

definition demo_swap_codecs :: "Info list \<Rightarrow> EthereumSwapInfo list \<Rightarrow> codecs" where
  "demo_swap_codecs infos eths = demo_codecs\<lparr>z_apd := demo_arith, z_info := enum_codec infos, z_ethinfo := enum_codec eths,
     z_spendkey := enum_codec [replicate 32 6], z_cpkeys := enum_codec [\<lparr>PublicSpendKey = [9], PrivateViewKey_of = [8]\<rparr>]\<rparr>"

lemma demo_swap_codecs_simps [simp]:
  "z_apd (demo_swap_codecs infos eths) = demo_arith" "z_info (demo_swap_codecs infos eths) = enum_codec infos"
  "z_ethinfo (demo_swap_codecs infos eths) = enum_codec eths" "z_spendkey (demo_swap_codecs infos eths) = enum_codec [replicate 32 6]"
  "z_cpkeys (demo_swap_codecs infos eths) = enum_codec [\<lparr>PublicSpendKey = [9], PrivateViewKey_of = [8]\<rparr>]"
  by (simp_all add: demo_swap_codecs_def)

lemma demo_marshal_single: "MarshalStruct (enum_codec [x]) x = Inr [0]"
  by (simp_all add: MarshalStruct_def enum_codec_def)

lemmas demo_run = bnd_def query_def gets_def lift_def on_mgr_def ret_def fail_def modify_def alloc_def call_db_def recovery_def attempt_def

definition demo_keys_msg :: SendKeysMessage where
  "demo_keys_msg = \<lparr>SK_OfferID = 7, SK_ProvidedAmount = Some (demo_whole 3 (- 1)), SK_PublicSpendKey = Some [9],
     SK_PrivateViewKey = Some [8], SK_DLEqProof = [9], SK_Secp256k1PublicKey = Some demo_secp, SK_EthAddress = 12\<rparr>"

lemma demo_prefixes: "swapPrivateKeyPrefix \<noteq> counterpartySwapKeysPrefix" "counterpartySwapKeysPrefix \<noteq> swapPrivateKeyPrefix"
  "newSwapTxHashPrefix \<noteq> counterpartySwapKeysPrefix" "swapPrivateKeyPrefix \<noteq> newSwapTxHashPrefix"
  "newSwapTxHashPrefix \<noteq> swapPrivateKeyPrefix" "counterpartySwapKeysPrefix \<noteq> newSwapTxHashPrefix"
  by (simp_all add: recovery_prefix_defs)

lemma WaitForReceipt_first:
  "n_ctx_Err N (world s) = Some e \<Longrightarrow> WaitForReceipt N h s = (Err e, s)"
  "n_ctx_Err N (world s) = None \<Longrightarrow> n_TransactionReceipt N h (world s) = (Ok r, w) \<Longrightarrow> Receipt_Status r = 1 \<Longrightarrow>
     WaitForReceipt N h s = (Ok r, s\<lparr>world := w\<rparr>)"
proof -
  obtain n where n: "maxRetries = Suc n" by (cases maxRetries) (simp_all add: maxRetries_def)
  show "n_ctx_Err N (world s) = Some e \<Longrightarrow> WaitForReceipt N h s = (Err e, s)"
    "n_ctx_Err N (world s) = None \<Longrightarrow> n_TransactionReceipt N h (world s) = (Ok r, w) \<Longrightarrow> Receipt_Status r = 1 \<Longrightarrow>
       WaitForReceipt N h s = (Ok r, s\<lparr>world := w\<rparr>)"
    by (simp_all add: WaitForReceipt_def n bnd_def gets_def fail_def query_def attempt_def ret_def)
qed

lemma demo_Cmp_same: "apd_Cmp demo_arith x x = 0"
  by (simp add: demo_arith_def ref_apd_def)

lemma demo_hash_same: "Secp256k1_Keccak256 demo_keys k = 5"
  by (simp add: Secp256k1_Keccak256_def demo_keys_def)

end
