(* ===== verification/Taker_Safety.thy ===== *)
theory Taker_Safety
  imports Taker_Instance Demo_Backend
begin

text \<open>
  The life of a swap on the taker's side: whatever happens, ETH is locked only when the database has
  what is needed to get it back.
\<close>

section \<open>Invariants of the taker's handlers\<close>

text \<open>A property that, of the swap's own state, depends on its \<open>info\<close> and our contract key only.\<close>

locale taker_invariant = daemon_invariant I B ps p allowed
  for I :: "('w, 'k, 'z) taker_scheme \<Rightarrow> bool" and B ps p allowed +
  assumes own_info: "I s \<Longrightarrow> t_info (ts s) = p"
    and swap_moves: "I s \<Longrightarrow> t_info t = t_info (ts s) \<Longrightarrow> t_secp256k1Pub t = t_secp256k1Pub (ts s) \<Longrightarrow>
      I (s\<lparr>ts := t\<rparr>)"
    and channels: "I s \<Longrightarrow> I (s\<lparr>reply := r\<rparr>)" "I s \<Longrightarrow> I (s\<lparr>txHashCh := h\<rparr>)"
    and kinds: "contractSwapInfoPrefix \<notin> ps" "counterpartySwapPrivateKeyPrefix \<notin> ps" "newSwapTxHashPrefix \<notin> ps"
    and allowed: "allowed (XmrSweep kp to)" "allowed (ExternalTx c input)" "allowed (SetReadyTx c sw)"
      "allowed (RefundTx c sw x)" "allowed (ApproveTx c d v)" "allowed (SwapMessage msg i)"

begin

lemma set_ts_keeps:
  assumes "\<And>t. t_info (f t) = t_info t" "\<And>t. t_secp256k1Pub (f t) = t_secp256k1Pub t"
  shows "keeps I (set_ts f)"
  unfolding set_ts_def using assms swap_moves by (intro keeps_modify) simp

lemma get_ts_keeps: "keeps I (get_ts f)"
  unfolding get_ts_def by (rule keeps_rules)

lemma send_errCh_keeps: "keeps I (send_errCh e)"
  using channels by (auto simp: keeps_def send_errCh_def)

lemma close_errCh_keeps: "keeps I close_errCh"
  unfolding close_errCh_def using channels by (intro keeps_modify) auto

lemma own_keeps:
  assumes "keeps I (k p)"
  shows "keeps I (bnd (get_ts t_info) k)"
  unfolding get_ts_def using assms own_info by (intro keeps_gets_bnd) simp

lemma updateStatus_t: "keeps I (taker_updateStatus B st)"
  unfolding taker_updateStatus_def by (intro own_keeps updateStatus_keeps)

lemma clear_keeps: "keeps I (taker_clearNextExpectedEvent B st)"
  unfolding taker_clearNextExpectedEvent_def by (intro keeps_bnd set_ts_keeps updateStatus_t) simp_all

lemma setNext_keeps: "keeps I (taker_setNextExpectedEvent B e)"
  unfolding taker_setNextExpectedEvent_def Let_def
  by (intro keeps_rules get_ts_keeps set_ts_keeps updateStatus_t own_keeps WriteSwapToDB_keeps) simp_all

lemma setTimeouts_t: "keeps I (taker_setTimeouts t1 t2)"
  unfolding taker_setTimeouts_def
  by (intro keeps_bnd set_ts_keeps own_keeps SetTimeouts_keeps) simp_all

lemma setReady_keeps: "keeps I (taker_setReady B)"
  unfolding taker_setReady_def
  by (intro keeps_rules get_ts_keeps node_keeps set_ts_keeps sender_SetReady_keeps allowed) simp_all

lemma refund_keeps: "keeps I (taker_refund B)"
  unfolding taker_refund_def
  by (intro keeps_rules get_ts_keeps sender_Refund_keeps allowed clear_keeps)

lemma wait_to_refund_keeps: "keeps I (wait_to_refund B as)"
  by (induction as) (auto simp: keeps_rules refund_keeps split: arrival.split TakerEvent.split option.split)

lemma tryRefund_keeps: "keeps I (tryRefund B)"
  unfolding tryRefund_def Let_def
  by (intro keeps_rules get_ts_keeps node_keeps refund_keeps wait_to_refund_keeps)

lemma filterForClaim_keeps: "keeps I (filterForClaim B)"
  unfolding filterForClaim_def by (intro keeps_rules get_ts_keeps node_keeps)

lemma close_claimedCh_keeps: "keeps I close_claimedCh"
  unfolding close_claimedCh_def by (intro keeps_rules get_ts_keeps set_ts_keeps) simp_all

lemma close_done_keeps: "keeps I close_done"
  unfolding close_done_def by (intro keeps_rules get_ts_keeps set_ts_keeps) simp_all

lemma claimMonero_keeps: "keeps I (taker_claimMonero B sk)"
  unfolding taker_claimMonero_def
  by (intro keeps_gets_bnd keeps_bnd keeps_lift keeps_if keeps_fail PutCounterpartySwapPrivateKey_keeps kinds)
    (auto simp: Let_def own_info keeps_rules ClaimMonero_keeps close_claimedCh_keeps allowed split: option.split)

lemma tryClaim_keeps: "keeps I (tryClaim B)"
  unfolding tryClaim_def by (intro keeps_rules filterForClaim_keeps claimMonero_keeps clear_keeps)

lemma exit_deferred_keeps: "keeps I (taker_exit_deferred B)"
  unfolding taker_exit_deferred_def
  by (rule keeps_gets_bnd, simp add: own_info)
    (intro keeps_rules node_keeps CompleteOngoingSwap_keeps DeleteSwap_keeps set_ts_keeps close_done_keeps; simp)

lemma exit_body_keeps: "keeps I (taker_exit_body B)"
  unfolding taker_exit_body_def
  by (intro keeps_bnd get_ts_keeps)
    (auto simp: keeps_rules clear_keeps tryRefund_keeps tryClaim_keeps split: TakerEventType.split)

lemma exit_keeps: "keeps I (taker_exit B)"
  unfolding taker_exit_def by (intro keeps_rules exit_body_keeps exit_deferred_keeps)


lemma setXMRMakerKeys_keeps: "counterpartySwapKeysPrefix \<notin> ps \<Longrightarrow> keeps I (setXMRMakerKeys B sk vk secp)"
  unfolding setXMRMakerKeys_def
  by (intro keeps_rules set_ts_keeps PutCounterpartySwapKeys_keeps) simp_all

lemma handleEventETHClaimed_keeps: "keeps I (handleEventETHClaimed B sk)"
  unfolding handleEventETHClaimed_def by (intro keeps_rules claimMonero_keeps clear_keeps)

lemma handleEventShouldRefund_keeps: "keeps I (handleEventShouldRefund B)"
  unfolding handleEventShouldRefund_def
  by (intro keeps_rules refund_keeps keeps_modify) (use channels in simp)

lemma handleNotifyXMRLock_keeps: "keeps I (handleNotifyXMRLock B)"
  unfolding handleNotifyXMRLock_def by (intro keeps_rules get_ts_keeps set_ts_keeps setReady_keeps; simp)

lemma NewSwap_keeps:
  assumes "\<And>c v args. ns_refundCommitment args = cmt \<Longrightarrow> allowed (NewSwapTx c v args)"
    and "\<And>h. keeps I (saveTx h)"
  shows "keeps I (sender_NewSwap B sd cc cmt clm d n amt saveTx)"
  by (cases sd) (auto simp: privateKeySender_NewSwap_def ExternalSender_NewSwap_def Let_def
      intro!: keeps_rules node_keeps perform_keeps allowed approveTransferFrom_keeps assms)

lemma lockAndWaitForReceipt_keeps:
  assumes "\<And>c v args. ns_refundCommitment args = cmt \<Longrightarrow> allowed (NewSwapTx c v args)"
  shows "keeps I (lockAndWaitForReceipt B cc cmt n)"
  unfolding lockAndWaitForReceipt_def
  by (intro keeps_rules NewSwap_keeps assms PutNewSwapTxHash_keeps kinds)

lemma lock_recorded_keeps: "keeps I (lock_recorded B t cc cmt n receipt)"
  unfolding lock_recorded_def Let_def
  by (cases "Receipt_Logs receipt")
    (auto intro!: keeps_rules set_ts_keeps setTimeouts_t PutContractSwapInfo_keeps kinds)

lemma lockAsset_keeps:
  assumes "\<And>s ours c v args. I s \<Longrightarrow> t_secp256k1Pub (ts s) = Some ours \<Longrightarrow>
      ns_refundCommitment args = Secp256k1_Keccak256 (b_crypt B) ours \<Longrightarrow> allowed (NewSwapTx c v args)"
  shows "keeps I (lockAsset B)"
  unfolding lockAsset_def get_ts_def
proof (rule keeps_gets_bnd)
  fix s assume s: "I s"
  show "keeps I (if xmrmakerPublicSpendKey (id (ts s)) = None \<or> xmrmakerPrivateViewKey (id (ts s)) = None
     then panic ''counterparty's keys aren't set''
     else case (t_secp256k1Pub (id (ts s)), xmrmakerSecp256k1PublicKey (id (ts s))) of
       (Some ours, Some theirs) \<Rightarrow>
         let cmtXMRTaker = Secp256k1_Keccak256 (b_crypt B) ours;
             cmtXMRMaker = Secp256k1_Keccak256 (b_crypt B) theirs in
         bnd (query (x_GenerateNewSwapNonce (b_extern B))) (\<lambda>n.
         bnd (lockAndWaitForReceipt B cmtXMRMaker cmtXMRTaker n)
           (lock_recorded B (id (ts s)) cmtXMRMaker cmtXMRTaker n))
     | _ \<Rightarrow> panic ''nil pointer dereference'')"
    using assms [OF s]
    by (auto simp: Let_def split: option.split
        intro!: keeps_rules node_keeps lockAndWaitForReceipt_keeps lock_recorded_keeps)
qed

end

text \<open>
  What must hold of the database when ETH is locked for the swap \<open>i\<close>: it has our private spend key
  and keys of the counterparty, with which XMR that arrives can be claimed and ETH refunded after a
  restart; and the refund commitment is that of our own contract key.
\<close>

definition lock_recoverable :: "('w, 'k) backend \<Rightarrow> hash \<Rightarrow> PrivateSpendKey \<Rightarrow> Secp256k1PublicKey \<Rightarrow> 'k \<Rightarrow>
    action \<Rightarrow> bool" where
  "lock_recoverable B i sk ours k a \<longleftrightarrow> (\<forall>c v args. a = NewSwapTx c v args \<longrightarrow>
     rv_privkey (recovered (b_chaindb B) (b_codecs B) k i) = Ok sk \<and>
     (\<exists>keys. rv_cskeys (recovered (b_chaindb B) (b_codecs B) k i) = Ok keys) \<and>
     ns_refundCommitment args = Secp256k1_Keccak256 (b_crypt B) ours)"

definition taker_inv :: "('w, 'k) backend \<Rightarrow> ptr \<Rightarrow> hash \<Rightarrow> PrivateSpendKey \<Rightarrow> Secp256k1PublicKey \<Rightarrow>
    ('w, 'k, 'z) taker_scheme \<Rightarrow> bool" where
  "taker_inv B p i sk ours s \<longleftrightarrow> chaindb_laws (b_chaindb B) \<and> recovery_codecs (b_codecs B) \<and> t_info (ts s) = p \<and>
     OfferID (info_at p s) = i \<and> t_secp256k1Pub (ts s) = Some ours \<and>
     rv_privkey (recovered (b_chaindb B) (b_codecs B) (mgr_db (mgr s)) i) = Ok sk \<and>
     (\<forall>(a, k)\<in>set (trace s). lock_recoverable B i sk ours k a)"

definition taker_inv_keys :: "('w, 'k) backend \<Rightarrow> ptr \<Rightarrow> hash \<Rightarrow> PrivateSpendKey \<Rightarrow> Secp256k1PublicKey \<Rightarrow>
    ('w, 'k, 'z) taker_scheme \<Rightarrow> bool" where
  "taker_inv_keys B p i sk ours s \<longleftrightarrow> taker_inv B p i sk ours s \<and>
     (\<exists>keys. rv_cskeys (recovered (b_chaindb B) (b_codecs B) (mgr_db (mgr s)) i) = Ok keys)"

definition no_new_swap :: "action \<Rightarrow> bool" where
  "no_new_swap a \<longleftrightarrow> (\<forall>c v args. a \<noteq> NewSwapTx c v args)"

definition own_new_swap :: "crypt \<Rightarrow> Secp256k1PublicKey \<Rightarrow> action \<Rightarrow> bool" where
  "own_new_swap K ours a \<longleftrightarrow> (\<forall>c v args. a = NewSwapTx c v args \<longrightarrow>
     ns_refundCommitment args = Secp256k1_Keccak256 K ours)"

interpretation tl: taker_invariant "taker_inv B p i sk ours" B "{swapPrivateKeyPrefix}" p no_new_swap
  for B :: "('w, 'k) backend" and p i sk ours
proof unfold_locales
  fix s m
  assume s: "taker_inv B p i sk ours s"
    and m: "swap_kept (b_chaindb B) (b_codecs B) {swapPrivateKeyPrefix} p (mgr s) m"
  then show "taker_inv B p i sk ours (s\<lparr>mgr := m\<rparr>)"
    using kept_privkey [OF _ m] kept_id [OF m] by (auto simp: taker_inv_def info_at_def)
next
  fix s a
  assume "taker_inv B p i sk ours s" "no_new_swap a"
  then show "taker_inv B p i sk ours (s\<lparr>trace := (a, mgr_db (mgr s)) # trace s\<rparr>)"
    by (auto simp: taker_inv_def info_at_def no_new_swap_def lock_recoverable_def)
qed (auto simp: taker_inv_def info_at_def no_new_swap_def recovery_prefix_defs)

interpretation tk: taker_invariant "taker_inv_keys B p i sk ours" B
    "{swapPrivateKeyPrefix, counterpartySwapKeysPrefix}" p "own_new_swap (b_crypt B) ours"
  for B :: "('w, 'k) backend" and p i sk ours
proof unfold_locales
  fix s m
  assume s: "taker_inv_keys B p i sk ours s"
    and m: "swap_kept (b_chaindb B) (b_codecs B) {swapPrivateKeyPrefix, counterpartySwapKeysPrefix} p (mgr s) m"
  then show "taker_inv_keys B p i sk ours (s\<lparr>mgr := m\<rparr>)"
    using kept_privkey [OF _ m] kept_cskeys [OF _ m] kept_id [OF m]
    by (auto simp: taker_inv_keys_def taker_inv_def info_at_def)
next
  fix s a
  assume "taker_inv_keys B p i sk ours s" "own_new_swap (b_crypt B) ours a"
  then show "taker_inv_keys B p i sk ours (s\<lparr>trace := (a, mgr_db (mgr s)) # trace s\<rparr>)"
    by (auto simp: taker_inv_keys_def taker_inv_def info_at_def own_new_swap_def lock_recoverable_def)
qed (auto simp: taker_inv_keys_def taker_inv_def info_at_def own_new_swap_def recovery_prefix_defs)

lemma setXMRMakerKeys_stores:
  assumes "taker_inv B p i sk ours s" "setXMRMakerKeys B pk vk secp s = (Ok x, s')"
  shows "taker_inv_keys B p i sk ours s'"
proof -
  have "taker_inv B p i sk ours s'"
    using keepsD [OF tl.setXMRMakerKeys_keeps assms(2,1)] by (simp add: recovery_prefix_defs)
  moreover have "wp (setXMRMakerKeys B pk vk secp) (\<lambda>r s'. \<forall>x. r = Ok x \<longrightarrow>
      rv_cskeys (recovered (b_chaindb B) (b_codecs B) (mgr_db (mgr s')) i) = Ok (pk, vk)) s"
    using assms(1) PutCounterpartySwapKeys_Ok
    by (auto simp: setXMRMakerKeys_def set_ts_def wp_rules taker_inv_def info_at_def
        intro!: wp_iff_run [THEN iffD2])
  ultimately show ?thesis using assms(2) by (auto simp: wp_iff_run taker_inv_keys_def)
qed

lemma lock_after_keys:
  assumes "\<And>x. keeps (taker_inv_keys B p i sk ours) (k x)"
  shows "keeps (taker_inv B p i sk ours)
    (andthen (wrapping a b (setXMRMakerKeys B pk vk secp)) (bnd (wrapping c d (lockAsset B)) k))"
proof (rule keeps_bnd_weak [where J = "taker_inv_keys B p i sk ours"])
  show "keeps (taker_inv B p i sk ours) (wrapping a b (setXMRMakerKeys B pk vk secp))"
    by (intro keeps_rules tl.setXMRMakerKeys_keeps) (simp add: recovery_prefix_defs)
  show "taker_inv_keys B p i sk ours s'"
    if "taker_inv B p i sk ours s" "wrapping a b (setXMRMakerKeys B pk vk secp) s = (Ok x, s')" for s x s'
    using setXMRMakerKeys_stores [OF that(1)] that(2) unfolding wrapping_Ok by blast
  have "own_new_swap (b_crypt B) ours (NewSwapTx c' v args)"
    if "taker_inv_keys B p i sk ours s" "t_secp256k1Pub (ts s) = Some ours'"
      "ns_refundCommitment args = Secp256k1_Keccak256 (b_crypt B) ours'" for s ours' c' v args
    using that by (simp add: taker_inv_keys_def taker_inv_def own_new_swap_def)
  then show "keeps (taker_inv_keys B p i sk ours) (bnd (wrapping c d (lockAsset B)) k)"
    by (intro keeps_rules tk.lockAsset_keeps assms)
qed (simp add: taker_inv_keys_def)

lemma handleSendKeysMessage_keeps:
  "keeps (taker_inv B p i sk ours) (taker_handleSendKeysMessage B msg)"
  unfolding taker_handleSendKeysMessage_def
  by (intro lock_after_keys keeps_rules tl.AssetSymbol_keeps tl.set_ts_keeps tk.set_ts_keeps tk.get_ts_keeps; simp)

lemma handleEventKeysReceived_keeps:
  "keeps (taker_inv B p i sk ours) (handleEventKeysReceived B msg)"
  unfolding handleEventKeysReceived_def
  by (intro keeps_rules handleSendKeysMessage_keeps tl.perform_keeps tl.node_keeps tl.allowed)

lemma handleEvent_keeps: "keeps (taker_inv B p i sk ours) (taker_handleEvent B e)"
  unfolding taker_handleEvent_def
  by (cases e; simp only: TakerEvent.case; intro keeps_rules handleEventKeysReceived_keeps
      tl.handleEventETHClaimed_keeps tl.handleEventShouldRefund_keeps tl.handleNotifyXMRLock_keeps
      tl.exit_keeps tl.send_errCh_keeps tl.close_errCh_keeps tl.setNext_keeps tl.get_ts_keeps)

text \<open>The fields of a started swap.\<close>

lemma taker_newSwapState_Ok:
  assumes "taker_newSwapState B ntb p h s = (Ok t, s')"
  shows "t_info t = p \<and> t_privkeys t = None \<and> mgr s' = mgr s \<and> trace s' = trace s"
proof -
  have "keeps (\<lambda>s'. mgr s' = mgr s \<and> trace s' = trace s) (ERC20Info N a)" for N a
    by (rule world_invariant.ERC20Info_keeps) (unfold_locales, simp)
  then have "mgr s1 = mgr s \<and> trace s1 = trace s" if "ERC20Info N a s = (r, s1)" for N a r s1
    using that keepsD by fastforce
  then show ?thesis using assms
    by (auto simp: taker_newSwapState_def run_Ok split: if_splits)
qed

lemma taker_generateAndSetKeys_Ok:
  assumes "chaindb_laws (b_chaindb B)" "recovery_codecs (b_codecs B)"
    and "taker_generateAndSetKeys B t s = (Ok t', s')"
  shows "\<exists>kp pub. t_info t' = t_info t \<and> t_privkeys t' = Some kp \<and> t_secp256k1Pub t' = Some pub \<and>
    trace s' = trace s \<and> heap (mgr s') = heap (mgr s) \<and>
    rv_privkey (recovered (b_chaindb B) (b_codecs B) (mgr_db (mgr s')) (OfferID (info_at (t_info t) s))) = Ok (SpendKey kp)"
  using assms(3) query_run PutSwapPrivateKey_Ok [OF assms(1,2)]
  by (fastforce simp: taker_generateAndSetKeys_def run_Ok recovery_Ok attempt_Ok panic_def info_at_def
      split: if_splits)

lemma taker_newSwapStateFromStart_Ok:
  assumes "chaindb_laws (b_chaindb B)" "recovery_codecs (b_codecs B)"
    and "taker_newSwapStateFromStart B peer i ntb provided rate ea s = (Ok t, s')"
  shows "\<exists>kp pub. t_privkeys t = Some kp \<and> t_secp256k1Pub t = Some pub \<and> trace s' = trace s \<and>
    OfferID (info_at (t_info t) s') = i \<and>
    rv_privkey (recovered (b_chaindb B) (b_codecs B) (mgr_db (mgr s')) i) = Ok (SpendKey kp)"
proof -
  let ?q = "next_ptr (mgr s)"
  obtain x1 x2 tm w h m t0 s2 s3 m4 where
      add: "AddSwap (b_swapdb B) ?q ((mgr s)\<lparr>heap := (heap (mgr s))(?q :=
        NewInfo tm tm peer i ProvidesETH x1 x2 rate ea ExpectingKeys h), next_ptr := Suc ?q\<rparr>) = (Ok (), m)" and
      fresh: "taker_newSwapState B ntb ?q h (s\<lparr>world := w, mgr := m\<rparr>) = (Ok t0, s2)" and
      keys: "taker_generateAndSetKeys B t0 s2 = (Ok t, s3)" and
      push: "PushNewStatus i ExpectingKeys (mgr s3) = (Ok (), m4)" "s' = s3\<lparr>mgr := m4\<rparr>"
    using assms(3) by (auto simp: taker_newSwapStateFromStart_def Let_def run_Ok alloc_Ok)
  have added: "OfferID (heap m ?q) = i" using AddSwap_heap [OF add] by (simp add: NewInfo_def)
  note t0 = taker_newSwapState_Ok [OF fresh]
  obtain kp pub where k: "t_info t = ?q" "t_privkeys t = Some kp" "t_secp256k1Pub t = Some pub" "trace s3 = trace s2"
      "heap (mgr s3) = heap (mgr s2)"
      "rv_privkey (recovered (b_chaindb B) (b_codecs B) (mgr_db (mgr s3)) (OfferID (info_at ?q s2))) = Ok (SpendKey kp)"
    using taker_generateAndSetKeys_Ok [OF assms(1,2) keys] t0 by auto
  have i: "OfferID (heap (mgr s3) ?q) = i" using k(5) t0 added by (simp add: info_at_def)
  note kept = PushNewStatus_Ok_kept [OF push(1), of "b_chaindb B" "b_codecs B" "{swapPrivateKeyPrefix}" ?q]
  show ?thesis
    using k t0 added i push(2) kept_privkey [OF assms(1) kept] kept_id [OF kept] by (simp add: info_at_def)
qed

text \<open>
  The states a swap of the taker goes through: an event is delivered, or something else happens in
  the daemon that leaves alone the swap's own state, its info and its recovery data.
\<close>

inductive taker_reach :: "('w, 'k) backend \<Rightarrow> ('w, 'k) taker \<Rightarrow> ('w, 'k) taker \<Rightarrow> bool" for B s0 where
  start: "taker_reach B s0 s0"
| event: "taker_reach B s0 s \<Longrightarrow> taker_reach B s0 (snd (taker_deliver B e s))"
| environment: "taker_reach B s0 s \<Longrightarrow> heap m (t_info (ts s)) = taker_info s \<Longrightarrow>
    recovered (b_chaindb B) (b_codecs B) (mgr_db m) (taker_OfferID s) =
      recovered (b_chaindb B) (b_codecs B) (mgr_db (mgr s)) (taker_OfferID s) \<Longrightarrow>
    taker_reach B s0 (s\<lparr>world := w, mgr := m, arrivals := as\<rparr>)"

definition start_taker :: "taker_swap \<Rightarrow> ('w, 'k) daemon \<Rightarrow> ('w, 'k) taker" where
  "start_taker t d = daemon.extend d \<lparr>ts = t, reply = None, txHashCh = None, arrivals = []\<rparr>"

lemma start_taker_simps [simp]: "ts (start_taker t d) = t" "mgr (start_taker t d) = mgr d"
  "trace (start_taker t d) = trace d"
  by (simp_all add: start_taker_def daemon.defs)

lemma deliver_keeps: "keeps (taker_inv B p i sk ours) (taker_deliver B e)"
  unfolding taker_deliver_def
  by (intro keeps_rules keeps_modify handleEvent_keeps) (simp_all add: tl.channels)

lemma taker_reach_inv:
  "taker_reach B s0 s \<Longrightarrow> taker_inv B p i sk ours s0 \<Longrightarrow> taker_inv B p i sk ours s"
proof (induction rule: taker_reach.induct)
  case (event s e)
  then show ?case by (auto intro: keeps_snd [OF deliver_keeps])
next
  case (environment s m w as)
  then show ?case by (simp add: taker_inv_def info_at_def)
qed


section \<open>A swap of the taker whose daemon is stopped right after the lock\<close>

definition demo_taker_info :: Info where
  "demo_taker_info = NewInfo 0 0 ''maker'' 7 ProvidesETH (demo_whole 6 (- 1)) (demo_whole 3 (- 1)) (demo_whole 2 0) EthAssetETH
     ExpectingKeys 20"

definition demo_taker :: "(unit, memstore) backend" where
  "demo_taker = (demo_backend (demo_swap_codecs [demo_taker_info] []) (demo_eth (\<lambda>_. 0)))
     \<lparr>b_node := demo_node\<lparr>n_ctx_Err := (\<lambda>_. Some (Errorf ''context canceled''))\<rparr>\<rparr>"

lemma demo_taker_simps:
  "b_apd demo_taker = demo_arith" "b_chaindb demo_taker = memdb" "b_codecs demo_taker = demo_swap_codecs [demo_taker_info] []"
  "b_crypt demo_taker = demo_keys" "b_wallet demo_taker = demo_wallet" "b_extern demo_taker = demo_extern" "b_net demo_taker = demo_net"
  "b_node demo_taker = demo_node\<lparr>n_ctx_Err := (\<lambda>_. Some (Errorf ''context canceled''))\<rparr>" "b_swapCreatorAddr demo_taker = 3"
  by (simp_all add: demo_taker_def demo_backend_def demo_swap_codecs_def)

lemma demo_taker_codecs: "recovery_codecs (demo_swap_codecs [demo_taker_info] [])"
  by (simp add: recovery_codecs_def demo_swap_codecs_def demo_codecs_def enum_codec_law)

lemma demo_taker_info_simps: "OfferID demo_taker_info = 7" "Info_Status demo_taker_info = ExpectingKeys" "Info_EthAsset demo_taker_info = EthAssetETH"
  "ProvidedAmount demo_taker_info = demo_whole 6 (- 1)" "ExpectedAmount demo_taker_info = demo_whole 3 (- 1)"
  by (simp_all add: demo_taker_info_def NewInfo_def)

definition demo_started :: taker_swap where
  "demo_started = \<lparr>t_sender = PrivateKeySender 3 3 None, t_noTransferBack = True, t_info = 0,
     t_providedAmount = Wei (demo_whole 6 17), t_dleqProof = Some \<lparr>proof_secret = replicate 32 6, proof_data = [9]\<rparr>,
     t_secp256k1Pub = Some demo_secp, t_privkeys = Some demo_pair, t_pubkeys = Some (PublicKeyPair_of demo_keys demo_pair),
     xmrmakerPublicSpendKey = None, xmrmakerPrivateViewKey = None, xmrmakerSecp256k1PublicKey = None, xmrmakerAddress = 0,
     walletScanHeight = 20, t_contractSwapID = 0, t_contractSwap = None, t_t1 = 0, t_t2 = 0,
     t_nextExpectedEvent = EventKeysReceivedType, fundsLocked = False, t_cancelled = False, xmrLockedCh_closed = False,
     claimedCh_closed = False, t_done_closed = False, t_routines = []\<rparr>"

definition demo_started_mgr :: "memstore manager" where
  "demo_started_mgr = \<lparr>mgr_db = \<lparr>entries = [((swapPrefix, hash_bytes 7), [0]),
       ((recoveryPrefix, getRecoveryDBKey 7 swapPrivateKeyPrefix), [0])], readonly = False\<rparr>,
     heap = (heap (empty_manager demo_store))(0 := demo_taker_info), next_ptr = Suc 0, ongoing = [7 \<mapsto> 0], past = Map.empty,
     statusChannels = [7 \<mapsto> 0], chan_buf = (\<lambda>_. [])(0 := [ExpectingKeys]), next_chan = Suc 0\<rparr>"

lemma demo_taker_starts:
  "taker_newSwapStateFromStart demo_taker ''maker'' 7 True (Wei (demo_whole 6 17)) (demo_whole 2 0) EthAssetETH demo_daemon =
     (Ok demo_started, demo_daemon\<lparr>mgr := demo_started_mgr\<rparr>)"
  by (simp add: taker_newSwapStateFromStart_def demo_run
      demo_taker_simps demo_amounts demo_wallet_def demo_node_def now_def demo_daemon_def Let_def MinSpendConfirmations_def empty_manager_def
      demo_taker_info_def [symmetric])
    (simp add: demo_run demo_taker_simps demo_amounts MinSpendConfirmations_def demo_taker_info_simps AddSwap_def swap_ops_def PutSwap_def memdb_def mem_write_def
      demo_store_def demo_marshal_single taker_newSwapState_def info_at_def taker_generateAndSetKeys_def demo_extern_def demo_generate
      PutSwapPrivateKey_def recovery_put_struct_def recovery_put_def PushNewStatus_def getStatusChan_def chan_send_def NewTxSender_def
      HasPrivateKey_def EthAsset_IsETH_def demo_started_def demo_started_mgr_def empty_manager_def demo_pair_def statusChSize_def)

definition demo_lock_args :: newSwapArgs where
  "demo_lock_args = \<lparr>ns_claimCommitment = 5, ns_refundCommitment = 5, ns_claimer = 12, ns_timeout1 = 3600,
     ns_timeout2 = 3600, ns_asset = 0, ns_value = 600000000000000000, ns_nonce = 8\<rparr>"

definition demo_lock_db :: memstore where
  "demo_lock_db = \<lparr>entries = [((swapPrefix, hash_bytes 7), [0]),
     ((recoveryPrefix, getRecoveryDBKey 7 swapPrivateKeyPrefix), [0]),
     ((recoveryPrefix, getRecoveryDBKey 7 counterpartySwapKeysPrefix), [0])], readonly = False\<rparr>"

lemma demo_taker_locks:
  "(NewSwapTx 3 (Some 600000000000000000) demo_lock_args, demo_lock_db) \<in>
     set (trace (snd (taker_deliver demo_taker (EventKeysReceived demo_keys_msg)
       (start_taker demo_started (demo_daemon\<lparr>mgr := demo_started_mgr\<rparr>)))))"
  by (simp add: taker_deliver_def taker_handleEvent_def deferred_def handleEventKeysReceived_def taker_handleSendKeysMessage_def
     demo_run get_ts_def set_ts_def start_taker_def demo_keys_msg_def demo_verify demo_taker_simps demo_amounts info_at_def demo_started_def
     demo_daemon_def daemon.defs demo_started_mgr_def demo_taker_info_simps AssetSymbol_def wrapping_def setXMRMakerKeys_def PutCounterpartySwapKeys_def
     recovery_put_struct_def recovery_put_def demo_marshal_single memdb_def mem_write_def lockAsset_def demo_extern_def lockAndWaitForReceipt_def
     privateKeySender_NewSwap_def TxOpts_def demo_node_def perform_def PutNewSwapTxHash_def WaitForReceipt_first send_errCh_def close_errCh_def
     demo_hash_same demo_lock_args_def demo_lock_db_def demo_prefixes demo_Cmp_same Let_def)


end
