(* ===== verification/Relayer.thy ===== *)
theory Relayer
  imports Swap_Backend
begin

text \<open>
  Relayed claims: the \<open>relayer\<close> package (creating, validating and submitting claim requests) and the
  two backend methods that use it (\<open>HandleRelayClaimRequest\<close> and \<open>SubmitClaimToRelayer\<close> of
  \<open>protocol/backend/backend.go\<close>). \<open>ethcrypto.Sign\<close>, \<open>Ecrecover\<close> and the address of a key are fields of
  \<^term>\<open>b_extern B\<close>.
\<close>

section \<open>Creating a request (claim\_request.go)\<close>

definition relayer_Sign :: "'w extern \<Rightarrow> bytes \<Rightarrow> hash \<Rightarrow> bytes outcome" where
  "relayer_Sign X key digest =
     obind (of_result (x_Sign X digest key)) (\<lambda>sig.
     if length sig \<le> 64 then Panic ''index out of range'' else Ok (sig[64 := sig ! 64 + 27]))"

definition createRelayClaimSignature ::
    "('w, 'k) backend \<Rightarrow> bytes \<Rightarrow> SwapCreatorRelaySwap \<Rightarrow> bytes outcome" where
  "createRelayClaimSignature B key r =
     (if Claimer (RelaySwap_Swap r) \<noteq> x_KeyAddress (b_extern B) key
      then Err (Errorf ''signing key %s does not match claimer %s'')
      else
        obind (RelaySwap_Hash (b_ethlib B) r) (\<lambda>digest.
        case relayer_Sign (b_extern B) key digest of
          Err e \<Rightarrow> Err (Wrapf ''failed to sign relay request: '' e [])
        | res \<Rightarrow> res))"

definition CreateRelayClaimRequest :: "('w, 'k) backend \<Rightarrow> bytes option \<Rightarrow> SwapCreatorRelaySwap \<Rightarrow> hash \<Rightarrow>
    RelayClaimRequest outcome" where
  "CreateRelayClaimRequest B key r secret =
     (case key of
        None \<Rightarrow> Panic ''nil pointer dereference''
      | Some k \<Rightarrow>
          obind (createRelayClaimSignature B k r) (\<lambda>signature.
          Ok \<lparr>RC_OfferID = None, RC_RelaySwap = r, RC_Secret = hash_bytes secret,
              RC_Signature = signature\<rparr>))"

section \<open>Validating a request (validate.go)\<close>

definition validateClaimValues :: "('w, 'k) backend \<Rightarrow> RelayClaimRequest \<Rightarrow> address \<Rightarrow> 32 word \<Rightarrow>
    (('w, 'k, 'z) daemon_scheme, unit) go" where
  "validateClaimValues B request ourAddress salt =
     (let r = RC_RelaySwap request;
          isTakerRelay = (RC_OfferID request \<noteq> None) in
      andthen
        (if SwapCreator r \<noteq> b_swapCreatorAddr B
         then if isTakerRelay
           then fail (Errorf ''taker claim swap creator mismatch found=%s expected=%s'')
           else CheckSwapCreatorContractCode (b_node B) (SwapCreator r)
         else ret ())
        (if Asset (RelaySwap_Swap r) \<noteq> EthAssetETH
         then fail (Errorf ''relaying for ETH Asset %s is not supported'')
         else if RelayerFeeWei \<ge> Value (RelaySwap_Swap r)
         then fail (Errorf ''swap value of %s ETH is too low to support %s ETH relayer fee'')
         else if RelayerHash r \<noteq> Keccak256Hash (b_ethlib B) (address_bytes ourAddress @ salt_bytes salt)
         then fail (Errorf ''relay request payout address hash %s does not match expected (%s)'')
         else if RelayerFeeWei > Fee r
         then fail (Errorf ''relayer fee of %s ETH is less than expected %s ETH'')
         else ret ()))"

text \<open>The array \<open>[65]byte\<close> filled from a slice, and the signature with the parity that \<open>Ecrecover\<close> wants.\<close>

definition sig_array :: "bytes \<Rightarrow> bytes" where
  "sig_array b = take 65 (b @ replicate 65 0)"

definition recover_sig :: "bytes \<Rightarrow> bytes" where
  "recover_sig b = (sig_array b)[64 := sig_array b ! 64 - 27]"

definition validateClaimSignature :: "('w, 'k) backend \<Rightarrow> RelayClaimRequest \<Rightarrow> unit outcome" where
  "validateClaimSignature B request =
     obind (RelaySwap_Hash (b_ethlib B) (RC_RelaySwap request)) (\<lambda>msg.
     obind (of_result (x_Ecrecover (b_extern B) msg (recover_sig (RC_Signature request)))) (\<lambda>signer.
     obind (of_result (x_PubkeyAddress (b_extern B) signer)) (\<lambda>addr.
     if addr \<noteq> Claimer (RelaySwap_Swap (RC_RelaySwap request))
     then Err (Errorf ''signer of message is not swap claimer'') else Ok ())))"

definition validateClaimRequest :: "('w, 'k) backend \<Rightarrow> RelayClaimRequest \<Rightarrow> address \<Rightarrow> 32 word \<Rightarrow>
    (('w, 'k, 'z) daemon_scheme, unit) go" where
  "validateClaimRequest B request ourAddress salt =
     andthen (validateClaimValues B request ourAddress salt) (lift (validateClaimSignature B request))"

section \<open>Submitting the claim (submit\_transaction.go)\<close>

definition maxClaimRelayerETHGas :: int where "maxClaimRelayerETHGas = 100000"

definition checkForMinClaimBalance :: "('w, 'k) backend \<Rightarrow> (('w, 'k, 'z) daemon_scheme, int) go" where
  "checkForMinClaimBalance B =
     bnd (Balance (b_apd B) (b_node B)) (\<lambda>balance.
     bnd (SuggestGasPrice (b_node B)) (\<lambda>gp.
     let txCost = gp * maxClaimRelayerETHGas in
     bnd (lift (WeiAmount_BigInt (b_apd B) balance)) (\<lambda>bal.
     if bal < txCost then fail (Errorf ''balance %s ETH is under the minimum %s ETH to relay claim'')
     else ret gp)))"

definition simulateClaimRelayer :: "('w, 'k) backend \<Rightarrow> TransactOpts \<Rightarrow> SwapCreatorRelaySwap \<Rightarrow> hash \<Rightarrow>
    address \<Rightarrow> 32 word \<Rightarrow> 8 word \<Rightarrow> hash \<Rightarrow> hash \<Rightarrow> (('w, 'k, 'z) daemon_scheme, unit) go" where
  "simulateClaimRelayer B opts r secret rel salt sv sr ss =
     bnd (lift (of_result (x_Pack (b_extern B) ''claimRelayer''
       [PackRelaySwap r, PackValue (AbiBytes32 secret), PackValue (AbiAddress rel), PackUint32 salt,
        PackUint8 sv, PackValue (AbiBytes32 sr), PackValue (AbiBytes32 ss)]))) (\<lambda>packed.
     andthen (query (n_CallContract (b_node B)
       \<lparr>Msg_From = Opts_From opts, Msg_To = Some (SwapCreator r), Msg_Gas = Opts_GasLimit opts,
        Msg_GasPrice = Opts_GasPrice opts, Msg_Value = Opts_Value opts, Msg_Data = packed\<rparr> None)) (ret ()))"

definition ValidateAndSendTransaction :: "('w, 'k) backend \<Rightarrow> RelayClaimRequest \<Rightarrow> 32 word \<Rightarrow>
    (('w, 'k, 'z) daemon_scheme, hash) go" where
  "ValidateAndSendTransaction B req salt =
     bnd (gets eth_Address) (\<lambda>self.
     andthen (validateClaimRequest B req self salt)
     (if length (RC_Secret req) < 32 then panic ''cannot convert slice to array''
      else
        let secret = bytes_hash (take 32 (RC_Secret req)); r = RC_RelaySwap req in
        bnd (checkForMinClaimBalance B) (\<lambda>gp.
        bnd (TxOpts (b_node B)) (\<lambda>opts0.
        let opts = opts0\<lparr>Opts_GasPrice := Some gp, Opts_GasLimit := of_int maxClaimRelayerETHGas\<rparr> in
        if length (RC_Signature req) \<le> 64 then panic ''index out of range''
        else
          let sv = RC_Signature req ! 64;
              sr = bytes_hash (take 32 (RC_Signature req));
              ss = bytes_hash (take 32 (drop 32 (RC_Signature req))) in
          andthen (simulateClaimRelayer B opts r secret self salt sv sr ss)
          (bnd (perform (ClaimRelayerTx (SwapCreator r) r secret self)
             (sc_ClaimRelayer (b_node B) (SwapCreator r) opts r secret self salt sv sr ss)) (\<lambda>tx.
           andthen (WaitForReceipt (b_node B) tx) (ret tx)))))))"

section \<open>The backend's use of relayers (backend.go)\<close>

definition HandleRelayClaimRequest :: "('w, 'k) backend \<Rightarrow> string \<Rightarrow> RelayClaimRequest \<Rightarrow>
    (('w, 'k, 'z) daemon_scheme, hash) go" where
  "HandleRelayClaimRequest B remotePeer request =
     deferred
       (andthen
         (case RC_OfferID request of
            None \<Rightarrow> ret ()
          | Some i \<Rightarrow>
              bnd (on_mgr (HasOngoingSwap i)) (\<lambda>has.
              if \<not> has then fail (Errorf ''cannot relay taker-specific claim request; no ongoing swap for swap %s'')
              else
                bnd (on_mgr (GetOngoingSwapSnapshot (info_copy B) i)) (\<lambda>info.
                if \<not> IsTaker info
                then fail (Errorf ''cannot relay taker-specific claim request; not the xmr-taker for swap %s'')
                else if remotePeer \<noteq> PeerID info
                then fail (Errorf ''cannot relay taker-specific claim request from peer %s; unexpected peer for swap %s'')
                else
                  bnd (wrapping ''swap info for taker claim request not found: '' []
                    (recovery (GetContractSwapInfo (b_chaindb B) (b_codecs B) i))) (\<lambda>swapInfo.
                  bnd (lift (SwapID (b_ethlib B) (RelaySwap_Swap (RC_RelaySwap request)))) (\<lambda>sid.
                  if EthInfo_SwapID swapInfo \<noteq> sid
                  then fail (Errorf ''counterparty claim request has invalid swap ID'') else ret ())))))
         (bnd (gets (\<lambda>s. relayerHashes s (RelayerHash (RC_RelaySwap request)))) (\<lambda>known.
          ValidateAndSendTransaction B request (case known of Some salt \<Rightarrow> salt | None \<Rightarrow> 0))))
       (clearRelayerAddressHash (RelayerHash (RC_RelaySwap request)))"

definition SubmitClaimToRelayer :: "('w, 'k) backend \<Rightarrow> string \<Rightarrow> hash option \<Rightarrow> SwapCreatorRelaySwap \<Rightarrow> hash \<Rightarrow>
    (('w, 'k, 'z) daemon_scheme, hash) go" where
  "SubmitClaimToRelayer B relayerID offerID r secret =
     bnd (query (net_QueryRelayerAddress (b_net B) relayerID)) (\<lambda>relayerAddrHash.
     bnd (gets (\<lambda>s. ethPrivKey (ethc s))) (\<lambda>key.
     bnd (lift (CreateRelayClaimRequest B key (r\<lparr>RelayerHash := relayerAddrHash\<rparr>) secret)) (\<lambda>req.
     let req' = (case offerID of None \<Rightarrow> req | Some i \<Rightarrow> req\<lparr>RC_OfferID := Some i\<rparr>) in
     perform (RelayRequest relayerID req') (net_SubmitRelayRequest (b_net B) relayerID req'))))"

end
