(* ===== verification/Xmr_Maker.thy ===== *)
theory Xmr_Maker
  imports Relayer
begin

text \<open>
  One swap of the party that provides XMR and receives ETH (\<open>protocol/xmrmaker\<close>: \<open>swap_state.go\<close>,
  \<open>event.go\<close>, \<open>message_handler.go\<close>, \<open>checks.go\<close>, \<open>claim.go\<close>, \<open>watcher.go\<close>,
  \<open>ethereum_asset_amount.go\<close>). Channels, error channels and routines are modelled as for the taker.
  \<open>exit\<close> takes one event from the event channel when the XMR is locked; what arrives there, in
  order, is the field \<open>m_arrivals\<close>. The offer manager works on the same database as the swap manager.
\<close>

section \<open>Events (event.go)\<close>

datatype MakerEventType =
    EventETHLockedType
  | EventContractReadyType
  | EventETHRefundedType
  | MakerEventExitType
  | MakerEventNoneType

datatype MakerEvent =
    EventETHLocked NotifyETHLocked
  | EventContractReady
  | EventETHRefunded PrivateSpendKey
  | MakerEventExit

fun maker_nextExpectedEventFromStatus :: "Status \<Rightarrow> MakerEventType" where
  "maker_nextExpectedEventFromStatus ExpectingKeys = EventETHLockedType"
| "maker_nextExpectedEventFromStatus KeysExchanged = EventETHLockedType"
| "maker_nextExpectedEventFromStatus XMRLocked = EventContractReadyType"
| "maker_nextExpectedEventFromStatus _ = MakerEventExitType"

fun maker_getStatus :: "MakerEventType \<Rightarrow> Status" where
  "maker_getStatus EventETHLockedType = KeysExchanged"
| "maker_getStatus EventContractReadyType = XMRLocked"
| "maker_getStatus _ = UnknownStatus"

primrec MakerEvent_Type :: "MakerEvent \<Rightarrow> MakerEventType" where
  "MakerEvent_Type (EventETHLocked m) = EventETHLockedType"
| "MakerEvent_Type EventContractReady = EventContractReadyType"
| "MakerEvent_Type (EventETHRefunded sk) = EventETHRefundedType"
| "MakerEvent_Type MakerEventExit = MakerEventExitType"

section \<open>The swap's state (swap\_state.go)\<close>

record maker_swap =
  m_sender :: Sender
  m_info :: ptr
  m_offer :: Offer
  m_offerExtra :: OfferExtra
  m_dleqProof :: "Proof option"
  m_secp256k1Pub :: "Secp256k1PublicKey option"
  m_privkeys :: "PrivateKeyPair option"
  m_pubkeys :: "PublicKeyPair option"
  m_swapCreatorAddr :: address
  m_contractSwapID :: hash
  m_contractSwap :: "SwapCreatorSwap option"
  m_t1 :: go_time
  m_t2 :: go_time
  xmrtakerPublicSpendKey :: "PublicKey option"
  xmrtakerPrivateViewKey :: "PrivateViewKey option"
  xmrtakerSecp256K1PublicKey :: "Secp256k1PublicKey option"
  moneroStartHeight :: uint64
  m_nextExpectedEvent :: MakerEventType
  readyWatcher :: EventFilter
  readyCh_closed :: bool
  m_cancelled :: bool
  m_done_closed :: bool
  m_T1_started :: bool

record ('w, 'k) makerHost = "('w, 'k) daemon" +
  offerMem :: "hash \<rightharpoonup> offerWithExtra"

record ('w, 'k) maker = "('w, 'k) makerHost" +
  ms :: maker_swap
  m_reply :: "goerr option option"
  m_arrivals :: "MakerEvent list"

text \<open>A call of the offer manager.\<close>

definition on_offers :: "('k offerManager, 'a) go \<Rightarrow> (('w, 'k, 'z) makerHost_scheme, 'a) go" where
  "on_offers f = (\<lambda>s. case f \<lparr>offers = offerMem s, om_db = mgr_db (mgr s)\<rparr> of
     (r, om) \<Rightarrow> (r, s\<lparr>mgr := (mgr s)\<lparr>mgr_db := om_db om\<rparr>, offerMem := offers om\<rparr>))"

lemma wp_on_offers [wp_rules]:
  "wp (on_offers f) Q s =
     wp f (\<lambda>r om. Q r (s\<lparr>mgr := (mgr s)\<lparr>mgr_db := om_db om\<rparr>, offerMem := offers om\<rparr>))
       \<lparr>offers = offerMem s, om_db = mgr_db (mgr s)\<rparr>"
  by (simp add: wp_def on_offers_def split: prod.split)

abbreviation b_offerdb :: "('w, 'k) backend \<Rightarrow> 'k offerdb" where
  "b_offerdb B \<equiv> offer_ops (b_chaindb B) (b_codecs B)"

definition set_ms :: "(maker_swap \<Rightarrow> maker_swap) \<Rightarrow> (('w, 'k, 'z) maker_scheme, unit) go" where
  "set_ms f = modify (\<lambda>s. s\<lparr>ms := f (ms s)\<rparr>)"

definition get_ms :: "(maker_swap \<Rightarrow> 'a) \<Rightarrow> (('w, 'k, 'z) maker_scheme, 'a) go" where
  "get_ms f = gets (\<lambda>s. f (ms s))"

abbreviation maker_info :: "('w, 'k, 'z) maker_scheme \<Rightarrow> Info" where
  "maker_info s \<equiv> info_at (m_info (ms s)) s"

abbreviation maker_OfferID :: "('w, 'k, 'z) maker_scheme \<Rightarrow> hash" where
  "maker_OfferID s \<equiv> OfferID (maker_info s)"

definition maker_send_errCh :: "goerr \<Rightarrow> (('w, 'k, 'z) maker_scheme, unit) go" where
  "maker_send_errCh e =
     (\<lambda>s. if m_reply s = None then (Ok (), s\<lparr>m_reply := Some (Some e)\<rparr>) else (Block, s))"

definition maker_close_errCh :: "(('w, 'k, 'z) maker_scheme, unit) go" where
  "maker_close_errCh = modify (\<lambda>s. if m_reply s = None then s\<lparr>m_reply := Some None\<rparr> else s)"

text \<open>The error values (errors.go).\<close>

definition maker_errUnexpectedMessageType :: goerr where
  "maker_errUnexpectedMessageType = Sentinel ''errUnexpectedMessageType'' ''unexpected message type''"
definition maker_errMissingKeys :: goerr where
  "maker_errMissingKeys =
     Sentinel ''errMissingKeys'' ''did not receive XMRTaker's public spend or view key''"
definition maker_errMissingAddress :: goerr where
  "maker_errMissingAddress = Sentinel ''errMissingAddress'' ''got empty contract address''"
definition errNilContractSwapID :: goerr where
  "errNilContractSwapID = Sentinel ''errNilContractSwapID'' ''expected swapID in NotifyETHLocked message''"
definition errCannotFindNewLog :: goerr where
  "errCannotFindNewLog = Sentinel ''errCannotFindNewLog'' ''cannot find New log''"
definition errUnexpectedSwapID :: goerr where
  "errUnexpectedSwapID = Sentinel ''errUnexpectedSwapID'' ''unexpected swap ID was emitted by New log''"
definition errSwapIDMismatch :: goerr where
  "errSwapIDMismatch = Sentinel ''errSwapIDMismatch'' ''hash of swap struct does not match swap ID''"
definition errLockTxReverted :: goerr where
  "errLockTxReverted =
     Sentinel ''errLockTxReverted'' ''other party failed to lock ETH asset (transaction reverted)''"
definition errInvalidETHLockedTransaction :: goerr where
  "errInvalidETHLockedTransaction =
     Sentinel ''errInvalidETHLockedTransaction'' ''eth locked tx was not to correct contract address''"
definition errInvalidT1 :: goerr where
  "errInvalidT1 = Sentinel ''errInvalidT1'' ''invalid t1 value; asset was locked too far in the past''"
definition errInvalidT2 :: goerr where
  "errInvalidT2 = Sentinel ''errInvalidT2'' ''invalid swap timeout set by counterparty''"
definition errClaimedLogInvalidContractAddr :: goerr where
  "errClaimedLogInvalidContractAddr =
     Sentinel ''errClaimedLogInvalidContractAddr'' ''log was not emitted by correct contract''"
definition errClaimedLogWrongTopicLength :: goerr where
  "errClaimedLogWrongTopicLength =
     Sentinel ''errClaimedLogWrongTopicLength'' ''log did not have 3 topics''"
definition errClaimedLogWrongEvent :: goerr where
  "errClaimedLogWrongEvent =
     Sentinel ''errClaimedLogWrongEvent'' ''log did not have the Claimed event as its first topic''"
definition errClaimedLogWrongSwapID :: goerr where
  "errClaimedLogWrongSwapID =
     Sentinel ''errClaimedLogWrongSwapID'' ''log did not have the correct swap ID as its second topic''"
definition errClaimedLogWrongSecret :: goerr where
  "errClaimedLogWrongSecret =
     Sentinel ''errClaimedLogWrongSecret'' ''log did not have the correct secret as its third topic''"

section \<open>Status\<close>

definition maker_updateStatus :: "('w, 'k) backend \<Rightarrow> Status \<Rightarrow> (('w, 'k, 'z) maker_scheme, unit) go" where
  "maker_updateStatus B status = bnd (get_ms m_info) (\<lambda>p. updateStatus B p status)"

definition maker_clearNextExpectedEvent ::
    "('w, 'k) backend \<Rightarrow> Status \<Rightarrow> (('w, 'k, 'z) maker_scheme, unit) go" where
  "maker_clearNextExpectedEvent B status =
     andthen (set_ms (\<lambda>t. t\<lparr>m_nextExpectedEvent := MakerEventNoneType\<rparr>)) (maker_updateStatus B status)"

definition maker_setNextExpectedEvent ::
    "('w, 'k) backend \<Rightarrow> MakerEventType \<Rightarrow> (('w, 'k, 'z) maker_scheme, unit) go" where
  "maker_setNextExpectedEvent B e =
     bnd (get_ms m_nextExpectedEvent) (\<lambda>cur.
     if cur = MakerEventNoneType then panic ''cannot set next expected event to EventNoneType''
     else if e = cur then panic ''cannot set next expected event to same as current''
     else
       andthen (set_ms (\<lambda>t. t\<lparr>m_nextExpectedEvent := e\<rparr>))
         (let status = maker_getStatus e in
          if status = UnknownStatus then panic ''status corresponding to event cannot be UnknownStatus''
          else
            andthen (maker_updateStatus B status)
              (bnd (get_ms m_info) (\<lambda>p. on_mgr (WriteSwapToDB (b_swapdb B) p)))))"

definition maker_setTimeouts :: "int \<Rightarrow> int \<Rightarrow> (('w, 'k, 'z) maker_scheme, unit) go" where
  "maker_setTimeouts t1 t2 =
     andthen (set_ms (\<lambda>t. t\<lparr>m_t1 := time_Unix t1, m_t2 := time_Unix t2\<rparr>))
       (bnd (get_ms m_info) (\<lambda>p. set_info p (SetTimeouts (time_Unix t1) (time_Unix t2))))"

definition maker_getSecret :: "maker_swap \<Rightarrow> hash outcome" where
  "maker_getSecret t =
     (case m_dleqProof t of
        Some prf \<Rightarrow> Ok (bytes_hash (copy_n 32 (Proof_Secret prf)))
      | None \<Rightarrow> (case m_privkeys t of
            None \<Rightarrow> Panic ''nil pointer dereference''
          | Some kp \<Rightarrow> Ok (bytes_hash (copy_n 32 (Reverse (SpendKey kp))))))"

definition setXMRTakerKeys :: "('w, 'k) backend \<Rightarrow> PublicKey \<Rightarrow> PrivateViewKey \<Rightarrow> Secp256k1PublicKey \<Rightarrow>
    (('w, 'k, 'z) maker_scheme, unit) go" where
  "setXMRTakerKeys B sk vk secp =
     andthen (set_ms (\<lambda>t. t\<lparr>xmrtakerPublicSpendKey := Some sk, xmrtakerPrivateViewKey := Some vk,
         xmrtakerSecp256K1PublicKey := Some secp\<rparr>))
       (bnd (gets maker_OfferID) (\<lambda>i.
        recovery (PutCounterpartySwapKeys (b_chaindb B) (b_codecs B) i sk vk)))"

definition setContract :: "address \<Rightarrow> (('w, 'k, 'z) maker_scheme, unit) go" where
  "setContract addr = set_ms (\<lambda>t. t\<lparr>m_swapCreatorAddr := addr,
     m_sender := SetSwapCreator addr (SetSwapCreatorAddr addr (m_sender t))\<rparr>)"

section \<open>Checking the contract (checks.go)\<close>

record SwapCreatorNew =
  New_SwapID :: hash
  New_ClaimKey :: hash
  New_RefundKey :: hash
  New_Timeout1 :: int
  New_Timeout2 :: int
  New_Asset :: address
  New_Value :: int

text \<open>
  \<open>ParseNew\<close> of the generated binding: the first topic must be the event's signature; the address
  that emitted the log is not looked at. Without data the event has the zero values.
\<close>

definition ParseNew :: "ethlib \<Rightarrow> Log \<Rightarrow> SwapCreatorNew outcome" where
  "ParseNew G l =
     (case Topics l of
        [] \<Rightarrow> Err (Errorf ''no event signature'')
      | t0 # _ \<Rightarrow>
          if t0 \<noteq> newTopic G then Err (Errorf ''event signature mismatch'')
          else if Data l = [] then Ok \<lparr>New_SwapID = 0, New_ClaimKey = 0, New_RefundKey = 0,
            New_Timeout1 = 0, New_Timeout2 = 0, New_Asset = 0, New_Value = 0\<rparr>
          else (case abi_Unpack_New G (Data l) of
              Inr [AbiBytes32 i, AbiBytes32 ck, AbiBytes32 rk, AbiUint256 t1, AbiUint256 t2,
                   AbiAddress ea, AbiUint256 v] \<Rightarrow>
                Ok \<lparr>New_SwapID = i, New_ClaimKey = ck, New_RefundKey = rk, New_Timeout1 = t1,
                    New_Timeout2 = t2, New_Asset = ea, New_Value = v\<rparr>
            | Inr _ \<Rightarrow> Err (Errorf ''abi: cannot unmarshal'')
            | Inl e \<Rightarrow> Err e))"

text \<open>
  \<open>getEthAssetAmount\<close> (ethereum\_asset\_amount.go): the amount, and the decimal that counting its
  digits leaves reduced in place.
\<close>

definition getEthAssetAmount ::
    "('w, 'k) backend \<Rightarrow> decimal \<Rightarrow> EthAsset \<Rightarrow> (('w, 'k, 'z) daemon_scheme, EthAssetAmount \<times> decimal) go" where
  "getEthAssetAmount B amt ea =
     (if EthAsset_IsToken ea
      then
        bnd (wrapping ''failed to get ERC20 info: '' [] (ERC20Info (b_node B) ea)) (\<lambda>token.
        let (exceeds, amt') = ExceedsDecimals (b_apd B) amt (TokenNumDecimals token) in
        if exceeds then fail (Errorf ''value can not be represented in the token's %d decimals'')
        else bnd (lift (NewTokenAmountFromDecimals (b_apd B) amt' token)) (\<lambda>a. ret (ERC20 a, amt')))
      else
        let (exceeds, amt') = ExceedsDecimals (b_apd B) amt NumEtherDecimals in
        if exceeds then fail (Errorf ''value can not be represented in ETH's %d decimals'')
        else bnd (lift (EtherToWei (b_apd B) amt')) (\<lambda>w. ret (Wei w, amt')))"

text \<open>The comparisons of \<open>checkContract\<close> with the parsed event.\<close>

definition check_new_event ::
    "crypt \<Rightarrow> maker_swap \<Rightarrow> SwapCreatorSwap \<Rightarrow> SwapCreatorNew \<Rightarrow> unit outcome" where
  "check_new_event K t sw ev =
     (if New_SwapID ev \<noteq> m_contractSwapID t then Err errUnexpectedSwapID
      else
        obind (deref (m_secp256k1Pub t)) (\<lambda>ours.
        if New_ClaimKey ev \<noteq> Secp256k1_Keccak256 K ours
        then Err (Errorf ''contract claim key is not expected: got 0x%x, expected 0x%x'')
        else
          obind (deref (xmrtakerSecp256K1PublicKey t)) (\<lambda>theirs.
          if New_RefundKey ev \<noteq> Secp256k1_Keccak256 K theirs
          then Err (Errorf ''contract refund key is not expected: got 0x%x, expected 0x%x'')
          else if Asset sw \<noteq> New_Asset ev
          then Err (Errorf ''swap asset is not expected: got %v, expected %v'')
          else if Value sw \<noteq> New_Value ev
          then Err (Errorf ''swap value and event value don't match: got %v, expected %v'')
          else Ok ())))"

definition checkContract :: "('w, 'k) backend \<Rightarrow> hash \<Rightarrow> (('w, 'k, 'z) maker_scheme, unit) go" where
  "checkContract B txHash =
     bnd (wrapping ''failed to get newSwap transaction %s by hash: '' []
       (query (n_TransactionByHash (b_node B) txHash))) (\<lambda>(tx, _).
     bnd (get_ms id) (\<lambda>t.
     if Tx_To tx \<noteq> Some (m_swapCreatorAddr t) then fail errInvalidETHLockedTransaction
     else
     bnd (wrapping ''failed to get receipt for New transaction: '' [] (WaitForReceipt (b_node B) txHash)) (\<lambda>receipt.
     if Receipt_Status receipt = 0 then fail errLockTxReverted
     else (case Receipt_Logs receipt of
       [] \<Rightarrow> fail errCannotFindNewLog
     | l # ls \<Rightarrow>
       bnd (attempt (lift (first_log (ParseNew (b_ethlib B)) l ls))) (\<lambda>r. case r of
         Inl _ \<Rightarrow> fail errCannotFindNewLog
       | Inr ev \<Rightarrow>
         bnd (lift (deref (m_contractSwap t))) (\<lambda>sw.
         andthen (lift (check_new_event (b_crypt B) t sw ev))
         (bnd (gets (\<lambda>s. ExpectedAmount (maker_info s))) (\<lambda>amt.
          bnd (getEthAssetAmount B amt (Asset sw)) (\<lambda>(expectedAmount, amt').
          andthen (set_info (m_info t) (\<lambda>i. i\<lparr>ExpectedAmount := amt'\<rparr>))
          (bnd (lift (BigInt (b_apd B) expectedAmount)) (\<lambda>v.
           if Value sw \<noteq> v then fail (Errorf ''swap value is not expected: got %v, expected %v'')
           else ret ())))))))))))"

definition checkAndSetTimeouts :: "('w, 'k) backend \<Rightarrow> int \<Rightarrow> int \<Rightarrow> (('w, 'k, 'z) maker_scheme, unit) go" where
  "checkAndSetTimeouts B t1 t2 =
     andthen (maker_setTimeouts t1 t2)
       (if b_env B = Development then ret ()
        else
          bnd (lift (SwapTimeoutFromEnv (b_env B))) (\<lambda>expectedTimeout.
          let allowableTimeDiff = expectedTimeout div 20 in
          bnd (gets (\<lambda>s. (ms s, now B s))) (\<lambda>(t, tm).
          if time_Sub (m_t2 t) (m_t1 t) \<noteq> expectedTimeout then fail errInvalidT2
          else if duration_Abs (time_Sub (tm + expectedTimeout) (m_t1 t)) > allowableTimeDiff
          then fail errInvalidT1
          else ret ())))"

section \<open>Claiming ETH (claim.go)\<close>

definition claimGas :: int where "claimGas = 50000"

definition maker_checkForMinClaimBalance :: "('w, 'k) backend \<Rightarrow> (('w, 'k, 'z) daemon_scheme, bool) go" where
  "maker_checkForMinClaimBalance B =
     bnd (Balance (b_apd B) (b_node B)) (\<lambda>balance.
     if Coeff balance = 0 then ret False
     else
       bnd (SuggestGasPrice (b_node B)) (\<lambda>gp.
       bnd (lift (WeiAmount_BigInt (b_apd B) balance)) (\<lambda>bal. ret (gp * claimGas \<le> bal))))"

definition checkClaimedLog :: "ethlib \<Rightarrow> Log \<Rightarrow> address \<Rightarrow> hash \<Rightarrow> hash \<Rightarrow> unit outcome" where
  "checkClaimedLog G l contractAddr contractSwapID secret =
     (if Log_Address l \<noteq> contractAddr then Err errClaimedLogInvalidContractAddr
      else if length (Topics l) \<noteq> 3 then Err errClaimedLogWrongTopicLength
      else if Topics l ! 0 \<noteq> claimedTopic G then Err errClaimedLogWrongEvent
      else if Topics l ! 1 \<noteq> contractSwapID then Err errClaimedLogWrongSwapID
      else if Topics l ! 2 \<noteq> secret then Err errClaimedLogWrongSecret
      else Ok ())"

definition validateClaimRelayerReceipt :: "('w, 'k) backend \<Rightarrow> Receipt \<Rightarrow> address \<Rightarrow> hash \<Rightarrow> hash \<Rightarrow>
    (('w, 'k, 'z) daemon_scheme, Receipt) go" where
  "validateClaimRelayerReceipt B receipt contractAddr contractSwapID secret =
     (if Receipt_Status receipt \<noteq> 1
      then bnd (ErrorFromBlock (b_node B) receipt) (\<lambda>e.
        fail (Wrapf ''relayer's claim transaction failed (gas-lost=%d tx=%s block=%d), '' e []))
      else (case Receipt_Logs receipt of
          [] \<Rightarrow> fail (Errorf ''relayer's claim transaction had no logs (tx=%s block=%d)'')
        | l # _ \<Rightarrow>
            andthen (wrapping ''relayer's claim had logs error (tx=%s block=%d): '' []
              (lift (checkClaimedLog (b_ethlib B) l contractAddr contractSwapID secret)))
              (ret receipt)))"

text \<open>
  The polling loop of \<open>waitForClaimRelayerReceipt\<close> and \<open>waitForNewSwapReceipt\<close>: at most \<open>n\<close> polls, a
  pause after each one that finds nothing, and \<open>found\<close> on the receipt.
\<close>

primrec poll_receipt :: "'w node \<Rightarrow> nat \<Rightarrow> hash \<Rightarrow> (Receipt \<Rightarrow> (('w, 'z) host_scheme, Receipt) go) \<Rightarrow>
    (('w, 'z) host_scheme, Receipt) go" where
  "poll_receipt N 0 txHash found = fail ethereum_NotFound"
| "poll_receipt N (Suc n) txHash found =
     bnd (attempt (query (n_TransactionReceipt N txHash))) (\<lambda>r. case r of
       Inl err \<Rightarrow>
         if \<not> errors_Is (Some err) (Some ethereum_NotFound) then fail err
         else andthen (query (n_sleep N 1500000000)) (poll_receipt N n txHash found)
     | Inr receipt \<Rightarrow> found receipt)"

definition waitForClaimRelayerReceipt :: "('w, 'k) backend \<Rightarrow> hash \<Rightarrow> address \<Rightarrow> hash \<Rightarrow> hash \<Rightarrow>
    (('w, 'k, 'z) daemon_scheme, Receipt) go" where
  "waitForClaimRelayerReceipt B txHash contractAddr contractSwapID secret =
     poll_receipt (b_node B) 10 txHash
       (\<lambda>receipt. validateClaimRelayerReceipt B receipt contractAddr contractSwapID secret)"

definition relay_swap_of :: "maker_swap \<Rightarrow> SwapCreatorSwap \<Rightarrow> SwapCreatorRelaySwap" where
  "relay_swap_of t sw = \<lparr>RelaySwap_Swap = sw, Fee = RelayerFeeWei, RelayerHash = 0,
     SwapCreator = m_swapCreatorAddr t\<rparr>"

definition relayClaimWithXMRTaker :: "('w, 'k) backend \<Rightarrow> (('w, 'k, 'z) maker_scheme, Receipt) go" where
  "relayClaimWithXMRTaker B =
     bnd (get_ms id) (\<lambda>t.
     bnd (lift (maker_getSecret t)) (\<lambda>secret.
     bnd (lift (deref (m_contractSwap t))) (\<lambda>sw.
     bnd (gets (\<lambda>s. PeerID (maker_info s))) (\<lambda>peer.
     bnd (SubmitClaimToRelayer B peer (Some (ID (m_offer t))) (relay_swap_of t sw) secret) (\<lambda>txHash.
     bnd (attempt (waitForClaimRelayerReceipt B txHash (m_swapCreatorAddr t) (m_contractSwapID t) secret)) (\<lambda>r.
     case r of
       Inl _ \<Rightarrow> fail (Errorf ''failed to get receipt of relayer's tx: %s'')
     | Inr receipt \<Rightarrow> ret receipt))))))"

primrec try_relayers :: "('w, 'k) backend \<Rightarrow> maker_swap \<Rightarrow> SwapCreatorRelaySwap \<Rightarrow> hash \<Rightarrow> string \<Rightarrow> string list \<Rightarrow>
    (('w, 'k, 'z) maker_scheme, Receipt) go" where
  "try_relayers B t r secret peer [] =
     fail (Errorf ''failed to relay claim with any non-counterparty relayer'')"
| "try_relayers B t r secret peer (relayerPeerID # rest) =
     (if relayerPeerID = peer then try_relayers B t r secret peer rest
      else
        bnd (attempt (SubmitClaimToRelayer B relayerPeerID None r secret)) (\<lambda>r1. case r1 of
          Inl _ \<Rightarrow> try_relayers B t r secret peer rest
        | Inr txHash \<Rightarrow>
            bnd (attempt (waitForClaimRelayerReceipt B txHash (m_swapCreatorAddr t) (m_contractSwapID t) secret))
              (\<lambda>r2. case r2 of
                Inl _ \<Rightarrow> try_relayers B t r secret peer rest
              | Inr receipt \<Rightarrow> ret receipt)))"

definition claimWithAdvertisedRelayers :: "('w, 'k) backend \<Rightarrow> (('w, 'k, 'z) maker_scheme, Receipt) go" where
  "claimWithAdvertisedRelayers B =
     bnd (get_ms id) (\<lambda>t.
     bnd (lift (maker_getSecret t)) (\<lambda>secret.
     bnd (lift (deref (m_contractSwap t))) (\<lambda>sw.
     bnd (query (net_DiscoverRelayers (b_net B))) (\<lambda>relayers.
     if relayers = [] then fail (Errorf ''no relayers found to submit claim to'')
     else
       bnd (gets (\<lambda>s. PeerID (maker_info s))) (\<lambda>peer.
       try_relayers B t (relay_swap_of t sw) secret peer relayers)))))"

definition claimWithRelay :: "('w, 'k) backend \<Rightarrow> (('w, 'k, 'z) maker_scheme, Receipt) go" where
  "claimWithRelay B =
     bnd (attempt (claimWithAdvertisedRelayers B)) (\<lambda>r.
     bnd (case r of Inr receipt \<Rightarrow> ret receipt | Inl _ \<Rightarrow> relayClaimWithXMRTaker B) (\<lambda>receipt.
     bnd (lift (RelayerFeeETH (b_apd B))) (\<lambda>f.
     bnd (get_ms m_info) (\<lambda>p.
     andthen (set_info p (SetRelayerFee f))
       (andthen (on_mgr (WriteSwapToDB (b_swapdb B) p)) (ret receipt))))))"

definition claimFunds :: "('w, 'k) backend \<Rightarrow> (('w, 'k, 'z) maker_scheme, Receipt) go" where
  "claimFunds B =
     andthen (Balance (b_apd B) (b_node B))
     (bnd (get_ms id) (\<lambda>t.
      bnd (lift (deref (m_contractSwap t))) (\<lambda>sw.
      andthen (if Asset sw = EthAssetETH then ret ()
               else andthen (ERC20Balance (b_apd B) (b_node B) (Asset sw)) (ret ()))
      (bnd (maker_checkForMinClaimBalance B) (\<lambda>hasBalanceToClaim.
       bnd (if UseRelayer (m_offerExtra t) \<or> \<not> hasBalanceToClaim
            then wrapping ''failed to claim using relayers: '' [] (claimWithRelay B)
            else
              bnd (lift (maker_getSecret t)) (\<lambda>secret.
              bnd (attempt (sender_Claim B (m_sender t) sw secret)) (\<lambda>r. case r of
                Inr receipt \<Rightarrow> ret receipt
              | Inl err \<Rightarrow>
                  if contains (error_text err) ''insufficient funds for gas * price + value''
                  then wrapping ''failed to claim using relayers: '' [] (claimWithRelay B)
                  else fail err))) (\<lambda>receipt.
       andthen (if Asset sw = EthAssetETH then andthen (Balance (b_apd B) (b_node B)) (ret ())
                else andthen (ERC20Balance (b_apd B) (b_node B) (Asset sw)) (ret ()))
         (ret receipt)))))))"

section \<open>Locking and reclaiming XMR\<close>

text \<open>The account into which \<open>lockFunds\<close> pays.\<close>

definition swapDestAddr :: "('w, 'k) backend \<Rightarrow> maker_swap \<Rightarrow> MoneroAddress outcome" where
  "swapDestAddr B t =
     (case (xmrtakerPublicSpendKey t, xmrtakerPrivateViewKey t, m_pubkeys t) of
        (Some sk, Some vk, Some pub) \<Rightarrow>
          PublicKeyPair_Address (b_crypt B) (b_env B)
            (SumSpendAndViewKeys (b_crypt B) (NewPublicKeyPair sk (Public (b_crypt B) vk)) pub)
      | _ \<Rightarrow> Panic ''nil pointer dereference'')"

definition lockFunds :: "('w, 'k) backend \<Rightarrow> PiconeroAmount \<Rightarrow> (('w, 'k, 'z) maker_scheme, unit) go" where
  "lockFunds B amt =
     bnd (get_ms id) (\<lambda>t.
     bnd (lift (swapDestAddr B t)) (\<lambda>dest.
     andthen (query (xmr_GetBalance (b_wallet B)))
     (andthen (wrapping ''failed to set next expected event to EventContractReadyType: '' []
       (maker_setNextExpectedEvent B EventContractReadyType))
     (andthen (perform (XmrTransfer dest amt) (xmr_Transfer (b_wallet B) dest amt MinSpendConfirmations))
       (ret ())))))"

definition reclaimMonero :: "('w, 'k) backend \<Rightarrow> PrivateSpendKey \<Rightarrow> (('w, 'k, 'z) maker_scheme, unit) go" where
  "reclaimMonero B skA =
     bnd (gets maker_OfferID) (\<lambda>i.
     andthen (recovery (PutCounterpartySwapPrivateKey (b_chaindb B) (b_codecs B) i skA))
     (bnd (get_ms id) (\<lambda>t0.
      andthen
        (if xmrtakerPublicSpendKey t0 = None \<or> xmrtakerPrivateViewKey t0 = None
         then bnd (wrapping ''failed to get counterparty public keypair: '' []
             (recovery (GetCounterpartySwapKeys (b_chaindb B) (b_codecs B) i))) (\<lambda>(sk, vk).
           set_ms (\<lambda>t. t\<lparr>xmrtakerPublicSpendKey := Some sk, xmrtakerPrivateViewKey := Some vk\<rparr>))
         else ret ())
        (bnd (get_ms id) (\<lambda>t. case (m_privkeys t, xmrtakerPrivateViewKey t) of
           (Some kp, Some vk) \<Rightarrow>
             ClaimMonero B (m_info t) (GetClaimKeypair (b_crypt B) skA (SpendKey kp) vk (ViewKey kp))
               (Some (xmr_PrimaryAddress (b_wallet B))) False
         | _ \<Rightarrow> panic ''nil pointer dereference'')))))"

section \<open>Leaving the swap\<close>

definition handleEventETHRefunded ::
    "('w, 'k) backend \<Rightarrow> PrivateSpendKey \<Rightarrow> (('w, 'k, 'z) maker_scheme, unit) go" where
  "handleEventETHRefunded B sk =
     andthen (reclaimMonero B sk) (maker_clearNextExpectedEvent B CompletedRefund)"

text \<open>\<open>handleEventContractReady\<close>; the argument is the \<open>exit\<close> it calls when claiming fails.\<close>

definition contractReady :: "('w, 'k) backend \<Rightarrow> (('w, 'k, 'z) maker_scheme, unit) go \<Rightarrow>
    (('w, 'k, 'z) maker_scheme, unit) go" where
  "contractReady B exit_call =
     bnd (get_ms readyCh_closed) (\<lambda>c.
     if c then panic ''close of closed channel''
     else
       andthen (set_ms (\<lambda>t. t\<lparr>readyCh_closed := True,
         readyWatcher := EventFilter_Stop (readyWatcher t)\<rparr>))
       (bnd (attempt (claimFunds B)) (\<lambda>r. case r of
          Inl err \<Rightarrow>
            andthen (wrapping ''failed to exit after failing to claim: '' [] exit_call)
              (fail (Wrapf ''failed to claim: '' err []))
        | Inr receipt \<Rightarrow> maker_clearNextExpectedEvent B CompletedSuccess)))"

definition maker_close_done :: "(('w, 'k, 'z) maker_scheme, unit) go" where
  "maker_close_done =
     bnd (get_ms m_done_closed) (\<lambda>c. if c then panic ''close of closed channel''
     else set_ms (\<lambda>t. t\<lparr>m_done_closed := True\<rparr>))"

definition maker_exit_deferred :: "('w, 'k) backend \<Rightarrow> (('w, 'k, 'z) maker_scheme, unit) go" where
  "maker_exit_deferred B =
     bnd (gets (\<lambda>s. (maker_OfferID s, ms s))) (\<lambda>(i, t).
     andthen (query (net_CloseProtocolStream (b_net B) i))
     (bnd (gets (now B)) (\<lambda>tm.
      bnd (attempt (on_mgr (CompleteOngoingSwap (b_swapdb B) tm (m_info t)))) (\<lambda>r. case r of
        Inl _ \<Rightarrow> ret ()
      | Inr _ \<Rightarrow>
          bnd (gets (\<lambda>s. Info_Status (maker_info s))) (\<lambda>status.
          andthen
            (if status \<noteq> CompletedSuccess \<and> Offer_IsSet (m_offer t)
             then ignore_err (on_offers (om_AddOffer (b_offerdb B) (m_offer t) (UseRelayer (m_offerExtra t))))
             else if status = CompletedSuccess
             then ignore_err (on_offers (om_DeleteOffer (b_offerdb B) (ID (m_offer t))))
             else ret ())
          (andthen (query (net_DeleteOngoingSwap (b_net B) (ID (m_offer t))))
          (andthen (ignore_err (recovery (DeleteSwap (ID (m_offer t)))))
          (andthen (set_ms (\<lambda>t. t\<lparr>m_cancelled := True\<rparr>)) maker_close_done))))))))"

text \<open>The switch of \<open>exit\<close>; the argument is the case that waits on the event channel.\<close>

definition maker_exit_body :: "('w, 'k) backend \<Rightarrow> (('w, 'k, 'z) maker_scheme, unit) go \<Rightarrow>
    (('w, 'k, 'z) maker_scheme, unit) go" where
  "maker_exit_body B wait =
     bnd (get_ms m_nextExpectedEvent) (\<lambda>ev.
     case ev of
       EventETHLockedType \<Rightarrow> maker_clearNextExpectedEvent B CompletedAbort
     | EventContractReadyType \<Rightarrow> wait
     | MakerEventNoneType \<Rightarrow> ret ()
     | _ \<Rightarrow> andthen (maker_clearNextExpectedEvent B CompletedAbort) (fail maker_errUnexpectedMessageType))"

primrec maker_exit_on :: "('w, 'k) backend \<Rightarrow> MakerEvent list \<Rightarrow> (('w, 'k, 'z) maker_scheme, unit) go" where
  "maker_exit_on B [] = deferred (maker_exit_body B block) (maker_exit_deferred B)"
| "maker_exit_on B (e # rest) = deferred
     (maker_exit_body B (case e of
        EventETHRefunded sk \<Rightarrow> handleEventETHRefunded B sk
      | EventContractReady \<Rightarrow> contractReady B (maker_exit_on B rest)
      | _ \<Rightarrow> ret ()))
     (maker_exit_deferred B)"

definition maker_exit :: "('w, 'k) backend \<Rightarrow> (('w, 'k, 'z) maker_scheme, unit) go" where
  "maker_exit B = bnd (gets m_arrivals) (\<lambda>es. maker_exit_on B es)"

definition handleEventContractReady :: "('w, 'k) backend \<Rightarrow> (('w, 'k, 'z) maker_scheme, unit) go" where
  "handleEventContractReady B = contractReady B (maker_exit B)"

section \<open>Message and event handlers\<close>

definition waitForNewSwapReceipt :: "'w node \<Rightarrow> hash \<Rightarrow> (('w, 'z) host_scheme, Receipt) go" where
  "waitForNewSwapReceipt N txHash =
     poll_receipt N 10 txHash (\<lambda>receipt.
       if Receipt_Status receipt \<noteq> 1 then fail (Errorf ''received newSwap tx=%s was reverted'')
       else ret receipt)"

definition handleNotifyETHLocked ::
    "('w, 'k) backend \<Rightarrow> NotifyETHLocked \<Rightarrow> (('w, 'k, 'z) maker_scheme, unit) go" where
  "handleNotifyETHLocked B msg =
     (if NL_Address msg = 0 then fail maker_errMissingAddress
      else if IsHashZero (NL_ContractSwapID msg) then fail errNilContractSwapID
      else
        bnd (lift (SwapID (b_ethlib B) (NL_ContractSwap msg))) (\<lambda>sid.
        if sid \<noteq> NL_ContractSwapID msg then fail errSwapIDMismatch
        else
          andthen (set_ms (\<lambda>t. t\<lparr>m_contractSwapID := NL_ContractSwapID msg,
            m_contractSwap := Some (NL_ContractSwap msg)\<rparr>))
          (bnd (waitForNewSwapReceipt (b_node B) (NL_TxHash msg)) (\<lambda>receipt.
           andthen (CheckSwapCreatorContractCode (b_node B) (NL_Address msg))
           (andthen (setContract (NL_Address msg))
           (bnd (gets maker_OfferID) (\<lambda>i.
            andthen (recovery (PutContractSwapInfo (b_chaindb B) (b_codecs B) i
              \<lparr>StartNumber = BlockNumber receipt, EthInfo_SwapID = NL_ContractSwapID msg,
               EthInfo_Swap = NL_ContractSwap msg, SwapCreatorAddr = NL_Address msg\<rparr>))
            (andthen (checkContract B (NL_TxHash msg))
            (andthen (checkAndSetTimeouts B (Timeout1 (NL_ContractSwap msg)) (Timeout2 (NL_ContractSwap msg)))
            (bnd (gets (\<lambda>s. ProvidedAmount (maker_info s))) (\<lambda>provided.
             bnd (lift (MoneroToPiconero (b_apd B) provided)) (\<lambda>amt.
             andthen (wrapping ''failed to lock funds: '' [] (lockFunds B amt))
               (set_ms (\<lambda>t. t\<lparr>m_T1_started := True\<rparr>))))))))))))))"

definition maker_handleSendKeysMessage ::
    "('w, 'k) backend \<Rightarrow> SendKeysMessage \<Rightarrow> (('w, 'k, 'z) maker_scheme, unit) go" where
  "maker_handleSendKeysMessage B msg =
     (case (SK_PublicSpendKey msg, SK_PrivateViewKey msg) of
        (Some sk, Some vk) \<Rightarrow> (case SK_Secp256k1PublicKey msg of
            None \<Rightarrow> panic ''nil pointer dereference''
          | Some secp \<Rightarrow>
              bnd (lift (VerifyKeysAndProof (b_crypt B) (SK_DLEqProof msg) secp sk)) (\<lambda>res.
              setXMRTakerKeys B sk vk (Secp256k1PublicKey_of res)))
      | _ \<Rightarrow> fail maker_errMissingKeys)"

definition maker_handleEvent ::
    "('w, 'k) backend \<Rightarrow> MakerEvent \<Rightarrow> (('w, 'k, 'z) maker_scheme, unit) go" where
  "maker_handleEvent B e = deferred
     (bnd (get_ms m_nextExpectedEvent) (\<lambda>next.
      case e of
        EventETHLocked msg \<Rightarrow>
          if next \<noteq> EventETHLockedType
          then maker_send_errCh (Errorf ''nextExpectedEvent was %s, not %s'')
          else
            bnd (attempt (handleNotifyETHLocked B msg)) (\<lambda>r.
            andthen (case r of
                Inr _ \<Rightarrow> ret ()
              | Inl err \<Rightarrow>
                  andthen (maker_send_errCh (Wrapf ''failed to handle EventETHLocked: '' err []))
                    (ignore_err (maker_exit B)))
              (bnd (gets maker_OfferID) (\<lambda>i. query (net_CloseProtocolStream (b_net B) i))))
      | EventContractReady \<Rightarrow>
          if next \<noteq> EventContractReadyType
          then maker_send_errCh (Errorf ''nextExpectedEvent was %s, not %s'')
          else
            bnd (attempt (handleEventContractReady B)) (\<lambda>r. case r of
              Inr _ \<Rightarrow> ret ()
            | Inl err \<Rightarrow> maker_send_errCh (Wrapf ''failed to handle EventContractReady: '' err []))
      | EventETHRefunded sk \<Rightarrow>
          bnd (attempt (handleEventETHRefunded B sk)) (\<lambda>r. case r of
            Inl err \<Rightarrow> maker_send_errCh (Wrapf ''failed to handle EventETHRefunded: '' err [])
          | Inr _ \<Rightarrow> ignore_err (maker_exit B))
      | MakerEventExit \<Rightarrow>
          bnd (attempt (maker_exit B)) (\<lambda>r. case r of
            Inr _ \<Rightarrow> ret ()
          | Inl err \<Rightarrow> maker_send_errCh (Wrapf ''failed to handle EventExit: '' err []))))
     maker_close_errCh"

definition maker_deliver :: "('w, 'k) backend \<Rightarrow> MakerEvent \<Rightarrow> (('w, 'k, 'z) maker_scheme, unit) go" where
  "maker_deliver B e =
     andthen (modify (\<lambda>s. s\<lparr>m_reply := None\<rparr>))
       (andthen (maker_handleEvent B e)
         (bnd (gets m_reply) (\<lambda>r. case r of
            None \<Rightarrow> block | Some None \<Rightarrow> ret () | Some (Some err) \<Rightarrow> fail err)))"

definition context_Canceled :: goerr where
  "context_Canceled = Sentinel ''context.Canceled'' ''context canceled''"

definition maker_HandleProtocolMessage ::
    "('w, 'k) backend \<Rightarrow> message \<Rightarrow> (('w, 'k, 'z) maker_scheme, unit) go" where
  "maker_HandleProtocolMessage B msg =
     bnd (gets (\<lambda>s. if m_cancelled (ms s) then Some context_Canceled
                    else n_ctx_Err (b_node B) (world s))) (\<lambda>ctx. case ctx of
       Some err \<Rightarrow> fail (Wrapf ''protocol exited: '' err [])
     | None \<Rightarrow> (case msg of
         ETHLockedMessage m \<Rightarrow> maker_deliver B (EventETHLocked m)
       | _ \<Rightarrow> fail maker_errUnexpectedMessageType))"

definition maker_Exit :: "('w, 'k) backend \<Rightarrow> (('w, 'k, 'z) maker_scheme, unit) go" where
  "maker_Exit B = maker_deliver B MakerEventExit"

definition maker_NotifyStreamClosed :: "('w, 'k) backend \<Rightarrow> (('w, 'k, 'z) maker_scheme, unit) go" where
  "maker_NotifyStreamClosed B =
     bnd (get_ms m_nextExpectedEvent) (\<lambda>ev.
     if ev = EventETHLockedType then ignore_err (maker_Exit B) else ret ())"

definition maker_SendKeysMessage :: "('w, 'k, 'z) maker_scheme \<Rightarrow> message outcome" where
  "maker_SendKeysMessage s =
     (case (m_pubkeys (ms s), m_privkeys (ms s), m_dleqProof (ms s)) of
        (Some pub, Some priv, Some prf) \<Rightarrow> Ok (SendKeys
          \<lparr>SK_OfferID = 0, SK_ProvidedAmount = Some (ProvidedAmount (maker_info s)),
           SK_PublicSpendKey = Some (PubSpendKey pub), SK_PrivateViewKey = Some (ViewKey priv),
           SK_DLEqProof = proof_data prf, SK_Secp256k1PublicKey = m_secp256k1Pub (ms s),
           SK_EthAddress = eth_Address s\<rparr>)
      | _ \<Rightarrow> Panic ''nil pointer dereference'')"

section \<open>Routines (message\_handler.go, watcher.go)\<close>

definition handleT1Expired :: "('w, 'k) backend \<Rightarrow> (('w, 'k, 'z) maker_scheme, unit) go" where
  "handleT1Expired B = ignore_err (maker_deliver B EventContractReady)"

text \<open>The select of \<open>runT1ExpirationHandler\<close>: \<open>sel\<close> is the result of the wait, if that was chosen.\<close>

definition maker_runT1ExpirationHandler ::
    "('w, 'k) backend \<Rightarrow> goerr option option \<Rightarrow> (('w, 'k, 'z) maker_scheme, unit) go" where
  "maker_runT1ExpirationHandler B sel =
     bnd (gets (\<lambda>s. (ms s, now B s))) (\<lambda>(t, tm).
     if time_Sub (m_t2 t) tm < 0 then ret ()
     else (case sel of
         Some (Some err) \<Rightarrow> ret ()
       | Some None \<Rightarrow> handleT1Expired B
       | None \<Rightarrow> if m_cancelled t \<or> readyCh_closed t then ret () else block))"

text \<open>The handlers of logs: whether an event was sent, and the error.\<close>

definition handleReadyLogs ::
    "('w, 'k) backend \<Rightarrow> Log \<Rightarrow> (('w, 'k, 'z) maker_scheme, bool \<times> goerr option) go" where
  "handleReadyLogs B l =
     bnd (get_ms m_contractSwapID) (\<lambda>i.
     let err = CheckSwapID l (readyTopic (b_ethlib B)) i in
     if errors_Is err (Some ErrLogNotForUs) then ret (False, None)
     else if err \<noteq> None then ret (False, err)
     else andthen (ignore_err (maker_deliver B EventContractReady)) (ret (True, None)))"

definition handleRefundLogs ::
    "('w, 'k) backend \<Rightarrow> Log \<Rightarrow> (('w, 'k, 'z) maker_scheme, bool \<times> goerr option) go" where
  "handleRefundLogs B l =
     bnd (get_ms m_contractSwapID) (\<lambda>i.
     let err = CheckSwapID l (refundedTopic (b_ethlib B)) i in
     if errors_Is err (Some ErrLogNotForUs) then ret (False, None)
     else if err \<noteq> None then ret (False, err)
     else (case GetSecretFromLog (b_ethlib B) (b_crypt B) l (refundedTopic (b_ethlib B)) of
         Inl e \<Rightarrow> ret (False, Some e)
       | Inr sk \<Rightarrow>
           bnd (attempt (maker_deliver B (EventETHRefunded sk))) (\<lambda>r. case r of
             Inr _ \<Rightarrow> ret (True, None) | Inl e \<Rightarrow> ret (True, Some e))))"

definition maker_handleClaimedLogs ::
    "('w, 'k) backend \<Rightarrow> Log \<Rightarrow> (('w, 'k, 'z) maker_scheme, bool \<times> goerr option) go" where
  "maker_handleClaimedLogs B l =
     bnd (get_ms m_contractSwapID) (\<lambda>i.
     let err = CheckSwapID l (claimedTopic (b_ethlib B)) i in
     if errors_Is err (Some ErrLogNotForUs) then ret (False, None)
     else if err \<noteq> None then ret (False, err)
     else
       andthen (maker_clearNextExpectedEvent B CompletedSuccess)
         (bnd (attempt (maker_deliver B MakerEventExit)) (\<lambda>r. case r of
            Inr _ \<Rightarrow> ret (True, None) | Inl e \<Rightarrow> ret (True, Some e))))"

text \<open>
  One log of \<open>runContractEventWatcher\<close>, from one of the three channels: whether the routine returns,
  and the new value of \<open>readyEventSent\<close>.
\<close>

datatype maker_log = ReadyLog Log | RefundedLog Log | ClaimedLog Log

primrec maker_runContractEventWatcher ::
    "('w, 'k) backend \<Rightarrow> bool \<Rightarrow> maker_log \<Rightarrow> (('w, 'k, 'z) maker_scheme, bool \<times> bool) go" where
  "maker_runContractEventWatcher B readyEventSent (ReadyLog l) =
     (if readyEventSent then ret (False, readyEventSent)
      else bnd (handleReadyLogs B l) (\<lambda>(eventSent, _). ret (False, eventSent)))"
| "maker_runContractEventWatcher B readyEventSent (RefundedLog l) =
     bnd (handleRefundLogs B l) (\<lambda>(eventSent, _). ret (eventSent, readyEventSent))"
| "maker_runContractEventWatcher B readyEventSent (ClaimedLog l) =
     bnd (maker_handleClaimedLogs B l) (\<lambda>(eventSent, _). ret (eventSent, readyEventSent))"

end
