(* ===== verification/Maker_Instance.thy ===== *)
theory Maker_Instance
  imports Xmr_Maker
begin

text \<open>
  The maker's instance (\<open>protocol/xmrmaker\<close>: \<open>instance.go\<close>, \<open>net.go\<close>, \<open>backend_offers.go\<close>,
  \<open>min_balance.go\<close>, and the constructors of \<open>swap_state.go\<close>): making offers, answering a taker, and
  resuming swaps after a restart.
\<close>

section \<open>Creating the state of a swap (swap\_state.go)\<close>

definition maker_newSwapState :: "('w, 'k) backend \<Rightarrow> Offer \<Rightarrow> OfferExtra \<Rightarrow> int \<Rightarrow> uint64 \<Rightarrow> ptr \<Rightarrow>
    (('w, 'k, 'z) makerHost_scheme, maker_swap) go" where
  "maker_newSwapState B off extra ethStartNumber moneroStartNumber p =
     gets (\<lambda>s. \<lparr>m_sender = NewTxSender B (EthAsset off) s, m_info = p, m_offer = off, m_offerExtra = extra,
       m_dleqProof = None, m_secp256k1Pub = None, m_privkeys = None, m_pubkeys = None,
       m_swapCreatorAddr = 0, m_contractSwapID = 0, m_contractSwap = None, m_t1 = 0, m_t2 = 0,
       xmrtakerPublicSpendKey = None, xmrtakerPrivateViewKey = None, xmrtakerSecp256K1PublicKey = None,
       moneroStartHeight = moneroStartNumber,
       m_nextExpectedEvent = maker_nextExpectedEventFromStatus (Info_Status (info_at p s)),
       readyWatcher = NewEventFilter (b_swapCreatorAddr B) ethStartNumber (readyTopic (b_ethlib B)),
       readyCh_closed = False, m_cancelled = False, m_done_closed = False,
       m_T1_started = False\<rparr>)"

definition maker_generateAndSetKeys ::
    "('w, 'k) backend \<Rightarrow> maker_swap \<Rightarrow> (('w, 'k, 'z) makerHost_scheme, maker_swap) go" where
  "maker_generateAndSetKeys B t =
     (if m_privkeys t \<noteq> None then panic ''generateAndSetKeys should only be called once''
      else
        bnd (attempt (query (x_Prove (b_extern B)))) (\<lambda>proved.
        bnd (lift (GenerateKeysAndProof (b_crypt B) proved)) (\<lambda>kp.
        bnd (gets (\<lambda>s. OfferID (info_at (m_info t) s))) (\<lambda>i.
        andthen (recovery (PutSwapPrivateKey (b_chaindb B) (b_codecs B) i (SpendKey (KP_PrivateKeyPair kp))))
          (ret (t\<lparr>m_dleqProof := Some (DLEqProof kp),
             m_secp256k1Pub := Some (KP_Secp256k1PublicKey kp),
             m_privkeys := Some (KP_PrivateKeyPair kp),
             m_pubkeys := Some (KP_PublicKeyPair kp)\<rparr>))))))"

definition maker_newSwapStateFromStart :: "('w, 'k) backend \<Rightarrow> string \<Rightarrow> Offer \<Rightarrow> OfferExtra \<Rightarrow>
    PiconeroAmount \<Rightarrow> EthAssetAmount \<Rightarrow> (('w, 'k, 'z) makerHost_scheme, maker_swap) go" where
  "maker_newSwapStateFromStart B takerPeerID off extra providesAmount desiredAmount =
     andthen (if UseRelayer extra
              then recovery (PutSwapRelayerInfo (b_chaindb B) (b_codecs B) (ID off) extra) else ret ())
     (bnd (query (xmr_GetHeight (b_wallet B))) (\<lambda>height.
      let startHeight =
            (if height \<ge> MinSpendConfirmations then height - MinSpendConfirmations else height) in
      bnd (query (n_HeaderByNumber (b_node B))) (\<lambda>ethHeader.
      bnd (lift (AsMonero (b_apd B) providesAmount)) (\<lambda>provided.
       bnd (lift (AsStd (b_apd B) desiredAmount)) (\<lambda>desired.
       bnd (lift (deref (ExchangeRate off))) (\<lambda>rate.
       bnd (gets (now B)) (\<lambda>tm.
       bnd (on_mgr (alloc (NewInfo tm tm takerPeerID (ID off) ProvidesXMR provided desired rate
              (EthAsset off) KeysExchanged startHeight))) (\<lambda>p.
       andthen (on_mgr (AddSwap (b_swapdb B) p))
       (bnd (maker_newSwapState B off extra (Header_Number ethHeader) startHeight p) (\<lambda>t.
        bnd (maker_generateAndSetKeys B t) (\<lambda>t'.
        andthen (on_mgr (PushNewStatus (ID off) KeysExchanged)) (ret t'))))))))))))"

section \<open>Recovering a swap (swap\_state.go)\<close>

definition errSwapDoesNotExist :: goerr where
  "errSwapDoesNotExist = Sentinel ''errSwapDoesNotExist'' ''contract swap ID does not exist''"

definition maker_errInvalidStageForRecovery :: goerr where
  "maker_errInvalidStageForRecovery = Sentinel ''errInvalidStageForRecovery''
     ''cannot create ongoing swap state if stage is not XMRLocked''"

primrec found_claimed :: "ethlib \<Rightarrow> hash \<Rightarrow> Log list \<Rightarrow> bool outcome" where
  "found_claimed G i [] = Ok False"
| "found_claimed G i (l # ls) =
     (case Topics l of
        [] \<Rightarrow> Panic ''index out of range''
      | t0 # _ \<Rightarrow>
          if t0 \<noteq> claimedTopic G \<or> Removed l then found_claimed G i ls
          else if errors_Is (CheckSwapID l (claimedTopic G) i) (Some ErrLogNotForUs)
          then found_claimed G i ls
          else Ok True)"

definition checkIfAlreadyClaimed ::
    "('w, 'k) backend \<Rightarrow> EthereumSwapInfo \<Rightarrow> (('w, 'k, 'z) makerHost_scheme, bool) go" where
  "checkIfAlreadyClaimed B ethSwapInfo =
     bnd (query (sc_Swaps (b_node B) (SwapCreatorAddr ethSwapInfo) (EthInfo_SwapID ethSwapInfo))) (\<lambda>stage.
     if stage = StageInvalid then fail (Wrapf [] errSwapDoesNotExist '': contract swap ID: %s'')
     else if stage = StagePending \<or> stage = StageReady then ret False
     else if stage \<noteq> StageCompleted then panic ''Unhandled stage value''
     else
       bnd (attempt (query (n_FilterLogs (b_node B) (Some (StartNumber ethSwapInfo))
         (SwapCreatorAddr ethSwapInfo) None))) (\<lambda>r. case r of
         Inl _ \<Rightarrow> fail (Errorf ''failed to filter logs for topic %s: %s'')
       | Inr found_logs \<Rightarrow> lift (found_claimed (b_ethlib B) (EthInfo_SwapID ethSwapInfo) found_logs)))"

definition relabel_err :: "string \<Rightarrow> ('s, 'a) go \<Rightarrow> ('s, 'a) go" where
  "relabel_err msg f = bnd (attempt f) (\<lambda>r. case r of Inl _ \<Rightarrow> fail (Errorf msg) | Inr a \<Rightarrow> ret a)"

definition completeSwap_claimed :: "('w, 'k) backend \<Rightarrow> ptr \<Rightarrow> (('w, 'k, 'z) makerHost_scheme, unit) go" where
  "completeSwap_claimed B p =
     andthen (updateStatus B p CompletedSuccess)
     (bnd (gets (now B)) (\<lambda>tm.
      andthen (relabel_err ''failed to mark swap %s as completed: %s''
        (on_mgr (CompleteOngoingSwap (b_swapdb B) tm p)))
      (bnd (gets (\<lambda>s. OfferID (info_at p s))) (\<lambda>i.
       andthen (relabel_err ''failed to delete offer %s from db: %s''
         (on_offers (om_DeleteOffer (b_offerdb B) i)))
       (relabel_err ''failed to delete temporary swap info %s from db: %s'' (recovery (DeleteSwap i)))))))"

definition maker_newSwapStateFromOngoing :: "('w, 'k) backend \<Rightarrow> Offer \<Rightarrow> OfferExtra \<Rightarrow> EthereumSwapInfo \<Rightarrow>
    ptr \<Rightarrow> PrivateKeyPair \<Rightarrow> (('w, 'k, 'z) makerHost_scheme, maker_swap) go" where
  "maker_newSwapStateFromOngoing B off extra ethSwapInfo p sk =
     bnd (checkIfAlreadyClaimed B ethSwapInfo) (\<lambda>alreadyClaimed.
     if alreadyClaimed
     then andthen (wrapping ''failed to complete swap: '' [] (completeSwap_claimed B p))
            (fail (Errorf ''swap was already completed successfully''))
     else
       bnd (gets (info_at p)) (\<lambda>info.
       if Info_Status info \<noteq> XMRLocked then fail maker_errInvalidStageForRecovery
       else
         bnd (maker_newSwapState B off extra (StartNumber ethSwapInfo) (MoneroStartHeight info) p) (\<lambda>t.
         let addr = SwapCreatorAddr ethSwapInfo;
             t1 = time_Unix (Timeout1 (EthInfo_Swap ethSwapInfo));
             t2 = time_Unix (Timeout2 (EthInfo_Swap ethSwapInfo)) in
         andthen (set_info p (SetTimeouts t1 t2))
           (ret (t\<lparr>m_swapCreatorAddr := addr,
              m_sender := SetSwapCreator addr (SetSwapCreatorAddr addr (m_sender t)),
              m_t1 := t1, m_t2 := t2, m_privkeys := Some sk,
              m_pubkeys := Some (PublicKeyPair_of (b_crypt B) sk),
              m_contractSwapID := EthInfo_SwapID ethSwapInfo,
              m_contractSwap := Some (EthInfo_Swap ethSwapInfo), m_T1_started := True\<rparr>)))))"

section \<open>The instance (instance.go)\<close>

record ('w, 'k) makerInst = "('w, 'k) makerHost" +
  m_swapStates :: "hash \<rightharpoonup> maker_swap"

text \<open>
  A method of a swap called from the instance: its computation on the swap \<open>t\<close>. \<open>in_swap\<close> is the call on
  the swap that the instance holds, \<open>on_swap\<close> the call on one that it drops afterwards.
\<close>

definition run_swap :: "maker_swap \<Rightarrow> (('w, 'k) maker, 'a) go \<Rightarrow> ('w, 'k) makerInst \<Rightarrow>
    'a outcome \<times> maker_swap \<times> ('w, 'k) makerInst" where
  "run_swap t f s =
     (case f (makerHost.extend (makerHost.truncate s) \<lparr>ms = t, m_reply = None, m_arrivals = []\<rparr>) of
        (r, s') \<Rightarrow> (r, ms s', makerHost.extend (makerHost.truncate s') \<lparr>m_swapStates = m_swapStates s\<rparr>))"

definition on_swap :: "maker_swap \<Rightarrow> (('w, 'k) maker, 'a) go \<Rightarrow> (('w, 'k) makerInst, 'a) go" where
  "on_swap t f = (\<lambda>s. case run_swap t f s of (r, _, s') \<Rightarrow> (r, s'))"

definition in_swap :: "hash \<Rightarrow> (('w, 'k) maker, 'a) go \<Rightarrow> (('w, 'k) makerInst, 'a) go" where
  "in_swap i f = (\<lambda>s. case m_swapStates s i of
     None \<Rightarrow> (Panic ''nil pointer dereference'', s)
   | Some t \<Rightarrow> (case run_swap t f s of
       (r, t', s') \<Rightarrow> (r, s'\<lparr>m_swapStates := (m_swapStates s')(i \<mapsto> t')\<rparr>)))"

definition maker_abortOngoingSwap :: "('w, 'k) backend \<Rightarrow> ptr \<Rightarrow> (('w, 'k, 'z) daemon_scheme, unit) go" where
  "maker_abortOngoingSwap B p =
     andthen (set_info p (\<lambda>i. i\<lparr>Info_Status := CompletedAbort\<rparr>))
       (bnd (gets (now B)) (\<lambda>tm.
        andthen (on_mgr (CompleteOngoingSwap (b_swapdb B) tm p))
          (bnd (gets (\<lambda>s. OfferID (info_at p s))) (\<lambda>i. recovery (DeleteSwap i)))))"

definition maker_completeSwap ::
    "('w, 'k) backend \<Rightarrow> ptr \<Rightarrow> PrivateSpendKey \<Rightarrow> (('w, 'k, 'z) daemon_scheme, unit) go" where
  "maker_completeSwap B p skA =
     bnd (gets (\<lambda>s. OfferID (info_at p s))) (\<lambda>i.
     bnd (recovery (GetSwapPrivateKey (b_chaindb B) (b_codecs B) i)) (\<lambda>skB.
     bnd (lift (of_result (View (b_crypt B) skB))) (\<lambda>vkB.
     bnd (recovery (GetCounterpartySwapKeys (b_chaindb B) (b_codecs B) i)) (\<lambda>(_, vkA).
     andthen (ClaimMonero B p (GetClaimKeypair (b_crypt B) skA skB vkA vkB)
         (Some (xmr_PrimaryAddress (b_wallet B))) False)
       (andthen (set_info p (\<lambda>i. i\<lparr>Info_Status := CompletedRefund\<rparr>))
         (bnd (gets (now B)) (\<lambda>tm.
          wrapping ''failed to mark swap %s as completed: '' []
            (on_mgr (CompleteOngoingSwap (b_swapdb B) tm p)))))))))"

definition maker_createOngoingSwap :: "('w, 'k) backend \<Rightarrow> ptr \<Rightarrow> (('w, 'k) makerInst, unit) go" where
  "maker_createOngoingSwap B p =
     bnd (gets (\<lambda>s. OfferID (info_at p s))) (\<lambda>i.
     bnd (attempt (recovery (GetCounterpartySwapPrivateKey (b_chaindb B) (b_codecs B) i))) (\<lambda>r. case r of
       Inr skA \<Rightarrow> maker_completeSwap B p skA
     | Inl _ \<Rightarrow>
       bnd (relabel_err ''failed to get offer for ongoing swap, offer ID %s: %s''
         (on_offers (om_TakeOffer i))) (\<lambda>(off, _).
       bnd (relabel_err ''failed to get contract info for ongoing swap from db with offer ID %s: %s''
         (recovery (GetContractSwapInfo (b_chaindb B) (b_codecs B) i))) (\<lambda>ethSwapInfo.
       bnd (relabel_err ''failed to get private key for ongoing swap from db with offer ID %s: %s''
         (recovery (GetSwapPrivateKey (b_chaindb B) (b_codecs B) i))) (\<lambda>sk.
       bnd (lift (of_result (AsPrivateKeyPair (b_crypt B) sk))) (\<lambda>kp.
       bnd (attempt (recovery (GetSwapRelayerInfo (b_chaindb B) (b_codecs B) i))) (\<lambda>ri.
       let relayerInfo = (case ri of Inr e \<Rightarrow> e | Inl _ \<Rightarrow> NewOfferExtra False) in
       bnd (wrapping ''failed to create new swap state for ongoing swap, offer id %s: '' []
         (maker_newSwapStateFromOngoing B off relayerInfo ethSwapInfo p kp)) (\<lambda>t.
       modify (\<lambda>s. s\<lparr>m_swapStates := (m_swapStates s)(i \<mapsto> t)\<rparr>)))))))))"

primrec maker_resume :: "('w, 'k) backend \<Rightarrow> hash list \<Rightarrow> (('w, 'k) makerInst, unit) go" where
  "maker_resume B [] = ret ()"
| "maker_resume B (offerID # rest) =
     bnd (on_mgr (GetOngoingSwap offerID)) (\<lambda>p.
     bnd (gets (info_at p)) (\<lambda>info.
     andthen
       (if Info_Provides info \<noteq> ProvidesXMR then ret ()
        else if Info_Status info = KeysExchanged \<or> Info_Status info = ExpectingKeys
        then wrapping ''failed to abort ongoing swap: '' [] (maker_abortOngoingSwap B p)
        else if Info_Status info = SweepingXMR then
          andthen (set_info p (\<lambda>i. i\<lparr>Info_Status := CompletedRefund\<rparr>))
            (bnd (gets (now B)) (\<lambda>tm.
             wrapping ''failed to mark swap as completed: '' []
               (on_mgr (CompleteOngoingSwap (b_swapdb B) tm p))))
        else ignore_err (maker_createOngoingSwap B p))
       (maker_resume B rest)))"

definition maker_checkForOngoingSwaps ::
    "('w, 'k) backend \<Rightarrow> hash list \<Rightarrow> (('w, 'k) makerInst, unit) go" where
  "maker_checkForOngoingSwaps B order =
     bnd (on_mgr (GetOngoingSwapOfferIDs order)) (\<lambda>ongoingIDs. maker_resume B ongoingIDs)"

text \<open>\<open>NewInstance\<close>; the advertisement of the offers that were found is not modelled.\<close>

definition maker_NewInstance :: "('w, 'k) backend \<Rightarrow> hash list \<Rightarrow> ('w, 'k) daemon \<Rightarrow>
    unit outcome \<times> ('w, 'k) makerInst" where
  "maker_NewInstance B order d =
     (case NewOfferManager (b_offerdb B) (mgr_db (mgr d)) of
        (r, om) \<Rightarrow>
          andthen (lift r) (maker_checkForOngoingSwaps B order)
            (daemon.extend (d\<lparr>mgr := (mgr d)\<lparr>mgr_db := om_db om\<rparr>\<rparr>)
               \<lparr>offerMem = offers om, m_swapStates = Map.empty\<rparr>))"

section \<open>Answering a taker (net.go)\<close>

definition maker_errProtocolAlreadyInProgress :: goerr where
  "maker_errProtocolAlreadyInProgress =
     Sentinel ''errProtocolAlreadyInProgress'' ''protocol already in progress''"

definition maker_errOfferIDNotSet :: goerr where
  "maker_errOfferIDNotSet = Sentinel ''errOfferIDNotSet'' ''offer ID was not set''"

definition maker_initiate :: "('w, 'k) backend \<Rightarrow> string \<Rightarrow> Offer \<Rightarrow> OfferExtra \<Rightarrow> PiconeroAmount \<Rightarrow>
    EthAssetAmount \<Rightarrow> (('w, 'k) makerInst, unit) go" where
  "maker_initiate B takerPeerID off extra providesAmount desiredAmount =
     bnd (gets (\<lambda>s. m_swapStates s (ID off))) (\<lambda>cur.
     if cur \<noteq> None then fail maker_errProtocolAlreadyInProgress
     else
       bnd (query (xmr_GetBalance (b_wallet B))) (\<lambda>balance.
       bnd (lift (NewPiconeroAmount (b_apd B) (UnlockedBalance balance))) (\<lambda>unlockedBal.
       if apd_Cmp (b_apd B) unlockedBal providesAmount \<le> 0
       then fail (Errorf ''balance of %s XMR is below provided %s XMR'')
       else
         andthen (on_offers (om_TakeOffer (ID off)))
         (bnd (maker_newSwapStateFromStart B takerPeerID off extra providesAmount desiredAmount) (\<lambda>t.
          bnd (attempt (AssetSymbol B (EthAsset off))) (\<lambda>r. case r of
            Inl err \<Rightarrow> andthen (ignore_err (on_swap t (maker_Exit B))) (fail err)
          | Inr _ \<Rightarrow> modify (\<lambda>s. s\<lparr>m_swapStates := (m_swapStates s)(ID off \<mapsto> t)\<rparr>)))))))"

definition HandleInitiateMessage ::
    "('w, 'k) backend \<Rightarrow> string \<Rightarrow> SendKeysMessage \<Rightarrow> (('w, 'k) makerInst, unit) go" where
  "HandleInitiateMessage B takerPeerID msg =
     (if IsHashZero (SK_OfferID msg) then fail maker_errOfferIDNotSet
      else
        bnd (on_offers (om_GetOffer (SK_OfferID msg))) (\<lambda>(off, extra).
        bnd (if EthAsset_IsToken (EthAsset off)
             then bnd (ERC20Info (b_node B) (EthAsset off)) (\<lambda>token. ret (Some token))
             else ret None) (\<lambda>token.
        let maxDecimals = (case token of None \<Rightarrow> NumEtherDecimals | Some tk \<Rightarrow> TokenNumDecimals tk) in
        case ValidatePositive (b_apd B) ''providedAmount'' maxDecimals (SK_ProvidedAmount msg) of
          (Some e, _) \<Rightarrow> fail e
        | (None, validated) \<Rightarrow>
          bnd (lift (deref validated)) (\<lambda>amt.
          bnd (lift (NewEthAssetAmount (b_apd B) amt token)) (\<lambda>expectedAmount.
          bnd (lift (deref (ExchangeRate off))) (\<lambda>rate.
          bnd (lift (ToXMR (b_apd B) rate expectedAmount)) (\<lambda>providedAmtAsXMR.
          bnd (lift (deref (MinAmount off))) (\<lambda>minAmt.
          if apd_Cmp (b_apd B) providedAmtAsXMR minAmt < 0
          then fail (Errorf ''%s ETH provided by taker is under offer minimum of %s XMR'')
          else
          bnd (lift (deref (MaxAmount off))) (\<lambda>maxAmt.
          if apd_Cmp (b_apd B) providedAmtAsXMR maxAmt > 0
          then fail (Errorf ''%s ETH provided by taker is over offer maximum of %s XMR'')
          else
          bnd (lift (MoneroToPiconero (b_apd B) providedAmtAsXMR)) (\<lambda>providedPiconero.
          andthen (maker_initiate B takerPeerID off extra providedPiconero expectedAmount)
          (bnd (attempt (in_swap (ID off) (maker_handleSendKeysMessage B msg))) (\<lambda>r. case r of
             Inl err \<Rightarrow> andthen (ignore_err (in_swap (ID off) (maker_Exit B))) (fail err)
           | Inr _ \<Rightarrow>
             bnd (in_swap (ID off) (\<lambda>s. (maker_SendKeysMessage s, s))) (\<lambda>resp.
             bnd (attempt (perform (SwapMessage resp (ID off))
               (net_SendSwapMessage (b_net B) resp (ID off)))) (\<lambda>r2. case r2 of
               Inl err \<Rightarrow> andthen (ignore_err (in_swap (ID off) (maker_Exit B)))
                 (fail (Wrapf ''failed to send SendKeysMessage to remote peer: '' err []))
             | Inr _ \<Rightarrow> ret ()))))))))))))))"

text \<open>The routine that waits for the swap's \<open>done\<close> channel and forgets the swap.\<close>

definition maker_reap :: "hash \<Rightarrow> (('w, 'k) makerInst, unit) go" where
  "maker_reap offerID =
     bnd (gets (\<lambda>s. m_swapStates s offerID)) (\<lambda>cur. case cur of
       Some t \<Rightarrow> if m_done_closed t
         then modify (\<lambda>s. s\<lparr>m_swapStates := (m_swapStates s)(offerID := None)\<rparr>) else block
     | None \<Rightarrow> ret ())"

section \<open>Offers (backend\_offers.go, min\_balance.go)\<close>

definition maxClaimTokenGas :: int where "maxClaimTokenGas = 48416"

definition maker_validateMinBalance ::
    "('w, 'k) backend \<Rightarrow> decimal \<Rightarrow> EthAsset \<Rightarrow> (('w, 'k, 'z) daemon_scheme, unit) go" where
  "maker_validateMinBalance B offerMaxAmt ea =
     bnd (query (xmr_GetBalance (b_wallet B))) (\<lambda>balance.
     bnd (lift (obind (NewPiconeroAmount (b_apd B) (UnlockedBalance balance)) (AsMonero (b_apd B)))) (\<lambda>unlocked.
     if apd_Cmp (b_apd B) unlocked offerMaxAmt \<le> 0
     then fail (Errorf ''balance %s XMR is too low for maximum offer amount of %s XMR'')
     else if \<not> EthAsset_IsToken ea then ret ()
     else
       bnd (SuggestGasPrice (b_node B)) (\<lambda>gp.
       bnd (lift (AsEther (b_apd B) (NewWeiAmount (b_apd B) (maxClaimTokenGas * gp)))) (\<lambda>required.
       bnd (Balance (b_apd B) (b_node B)) (\<lambda>weiBalance.
       bnd (lift (AsEther (b_apd B) weiBalance)) (\<lambda>ethBalance.
       if apd_Cmp (b_apd B) ethBalance required \<le> 0
       then fail (Errorf ''balance of %s ETH insufficient for token swap, %s ETH required to claim'')
       else ret ()))))))"

definition MakeOffer :: "('w, 'k) backend \<Rightarrow> Offer \<Rightarrow> bool \<Rightarrow> (('w, 'k, 'z) makerHost_scheme, OfferExtra) go" where
  "MakeOffer B off useRelayer =
     bnd (lift (deref (MaxAmount off))) (\<lambda>maxAmt.
     andthen (maker_validateMinBalance B maxAmt (EthAsset off))
     (andthen
       (if EthAsset_IsToken (EthAsset off)
        then if useRelayer
          then fail (Sentinel ''errRelayingWithNonEthAsset''
            ''relayers with ERC20 token swaps are not currently supported'')
          else
            bnd (ERC20Info (b_node B) (EthAsset off)) (\<lambda>token.
            bnd (lift (deref (ExchangeRate off))) (\<lambda>rate.
            bnd (lift (deref (MinAmount off))) (\<lambda>minAmt.
            andthen (lift (ToERC20Amount (b_apd B) rate minAmt token))
              (andthen (lift (ToERC20Amount (b_apd B) rate maxAmt token)) (ret ())))))
        else ret ())
       (on_offers (om_AddOffer (b_offerdb B) off useRelayer))))"

definition ClearOffers :: "('w, 'k) backend \<Rightarrow> hash list \<Rightarrow> (('w, 'k, 'z) makerHost_scheme, unit) go" where
  "ClearOffers B offerIDs =
     (if offerIDs = [] then on_offers (om_ClearAllOffers (b_offerdb B))
      else on_offers (om_ClearOfferIDs (b_offerdb B) offerIDs))"

end
