(* ===== verification/Maker_Safety.thy ===== *)
theory Maker_Safety
  imports Maker_Instance Demo_Backend
begin

text \<open>
  The life of a swap on the maker's side: whatever happens, XMR is locked only after every check of
  the counterparty's lock has passed, and with the swap's data in the database.
\<close>

section \<open>Invariants of the maker's handlers\<close>

definition same_keys :: "maker_swap \<Rightarrow> maker_swap \<Rightarrow> bool" where
  "same_keys t t' \<longleftrightarrow> m_info t' = m_info t \<and> m_pubkeys t' = m_pubkeys t \<and> m_secp256k1Pub t' = m_secp256k1Pub t \<and>
     xmrtakerPublicSpendKey t' = xmrtakerPublicSpendKey t \<and> xmrtakerPrivateViewKey t' = xmrtakerPrivateViewKey t \<and>
     xmrtakerSecp256K1PublicKey t' = xmrtakerSecp256K1PublicKey t"

definition tables_kept :: "'k chaindb \<Rightarrow> 'k \<Rightarrow> 'k \<Rightarrow> bool" where
  "tables_kept C k k' \<longleftrightarrow> content C k' swapPrefix = content C k swapPrefix \<and>
     content C k' recoveryPrefix = content C k recoveryPrefix"

lemma tables_kept_writes:
  assumes "chaindb_laws C"
  shows "keeps (tables_kept C k) (cd_Put C offerPrefix key v)" "keeps (tables_kept C k) (cd_Flush C offerPrefix)"
    "keeps (tables_kept C k) (cd_Del C offerPrefix key)"
  unfolding keeps_wp tables_kept_def
  by (auto intro!: wp_Put [OF assms] wp_Flush [OF assms] wp_Del [OF assms])

lemma on_db_keeps: "keeps I f \<Longrightarrow> keeps (\<lambda>om. I (om_db om)) (on_db f)"
  by (simp add: keeps_def on_db_def case_prod_beta)

lemma om_AddOffer_kept:
  assumes "chaindb_laws C"
  shows "keeps (\<lambda>om. tables_kept C k (om_db om)) (om_AddOffer (offer_ops C Z) off b)"
  unfolding om_AddOffer_def offer_ops_def PutOffer_def Let_def
  by (simp, intro keeps_rules on_db_keeps keeps_modify tables_kept_writes [OF assms]) simp

lemma om_DeleteOffer_kept:
  assumes "chaindb_laws C"
  shows "keeps (\<lambda>om. tables_kept C k (om_db om)) (om_DeleteOffer (offer_ops C Z) i)"
  unfolding om_DeleteOffer_def offer_ops_def DeleteOffer_def
  by (simp, intro keeps_rules on_db_keeps keeps_modify tables_kept_writes [OF assms]) simp

lemma swap_kept_tables: "tables_kept C (mgr_db m) k' \<Longrightarrow> swap_kept C Z ps p m (m\<lparr>mgr_db := k'\<rparr>)"
  by (rule swap_kept_db) (simp_all add: tables_kept_def)

locale maker_invariant = daemon_invariant I B ps p allowed
  for I :: "('w, 'k, 'z) maker_scheme \<Rightarrow> bool" and B ps p allowed +
  assumes own_info: "I s \<Longrightarrow> m_info (ms s) = p"
    and swap_moves: "I s \<Longrightarrow> same_keys (ms s) t \<Longrightarrow> I (s\<lparr>ms := t\<rparr>)"
    and channels: "I s \<Longrightarrow> I (s\<lparr>m_reply := r\<rparr>)" "I s \<Longrightarrow> I (s\<lparr>offerMem := f\<rparr>)"
    and keys_known: "I s \<Longrightarrow> xmrtakerPublicSpendKey (ms s) \<noteq> None" "I s \<Longrightarrow> xmrtakerPrivateViewKey (ms s) \<noteq> None"
    and kinds: "counterpartySwapPrivateKeyPrefix \<notin> ps"
    and allowed: "allowed (XmrSweep kp to)" "allowed (ExternalTx c input)" "allowed (ClaimTx c sw x)"
      "allowed (RelayRequest peer req)"

begin

lemma set_ms_keeps: "(\<And>t. same_keys t (f t)) \<Longrightarrow> keeps I (set_ms f)"
  unfolding set_ms_def using swap_moves by (intro keeps_modify) simp

lemma get_ms_keeps: "keeps I (get_ms f)"
  unfolding get_ms_def by (rule keeps_rules)

lemma send_errCh_keeps: "keeps I (maker_send_errCh e)"
  using channels by (auto simp: keeps_def maker_send_errCh_def)

lemma close_errCh_keeps: "keeps I maker_close_errCh"
  unfolding maker_close_errCh_def using channels by (intro keeps_modify) auto

lemma own_keeps: "keeps I (k p) \<Longrightarrow> keeps I (bnd (get_ms m_info) k)"
  unfolding get_ms_def using own_info by (intro keeps_gets_bnd) simp

lemma on_offers_keeps:
  assumes "\<And>k. chaindb_laws (b_chaindb B) \<Longrightarrow> keeps (\<lambda>om. tables_kept (b_chaindb B) k (om_db om)) f"
  shows "keeps I (on_offers f)"
proof (rule keepsI)
  fix s assume s: "I s"
  obtain r om where run: "f \<lparr>offers = offerMem s, om_db = mgr_db (mgr s)\<rparr> = (r, om)" by force
  have "tables_kept (b_chaindb B) (mgr_db (mgr s)) (om_db om)"
    using keepsD [OF assms [OF laws [OF s], of "mgr_db (mgr s)"] run] by (simp add: tables_kept_def)
  from channels(2) [OF manager_moves [OF s swap_kept_tables [OF this]]] run
  show "I (snd (on_offers f s))" by (simp add: on_offers_def)
qed

lemma AddOffer_keeps: "keeps I (on_offers (om_AddOffer (b_offerdb B) off b))"
  by (rule on_offers_keeps) (rule om_AddOffer_kept)

lemma DeleteOffer_keeps: "keeps I (on_offers (om_DeleteOffer (b_offerdb B) i))"
  by (rule on_offers_keeps) (rule om_DeleteOffer_kept)

lemma updateStatus_m: "keeps I (maker_updateStatus B st)"
  unfolding maker_updateStatus_def by (intro own_keeps updateStatus_keeps)

lemma clear_keeps: "keeps I (maker_clearNextExpectedEvent B st)"
  unfolding maker_clearNextExpectedEvent_def
  by (intro keeps_bnd set_ms_keeps updateStatus_m) (simp add: same_keys_def)

lemma setNext_keeps: "keeps I (maker_setNextExpectedEvent B e)"
  unfolding maker_setNextExpectedEvent_def Let_def
  by (intro own_keeps keeps_rules get_ms_keeps set_ms_keeps updateStatus_m WriteSwapToDB_keeps)
    (simp add: same_keys_def)

lemma setTimeouts_m: "keeps I (maker_setTimeouts t1 t2)"
  unfolding maker_setTimeouts_def
  by (intro own_keeps keeps_bnd set_ms_keeps SetTimeouts_keeps) (simp add: same_keys_def)

lemma validateClaimRelayerReceipt_keeps: "keeps I (validateClaimRelayerReceipt B r a i x)"
  unfolding validateClaimRelayerReceipt_def
  by (cases "Receipt_Logs r") (auto intro!: keeps_rules node_keeps)

lemma poll_receipt_keeps: "(\<And>r. keeps I (f r)) \<Longrightarrow> keeps I (poll_receipt N n h f)"
  by (induction n) (auto intro!: keeps_rules node_keeps)

lemma SubmitClaimToRelayer_keeps: "keeps I (SubmitClaimToRelayer B peer oid r x)"
  unfolding SubmitClaimToRelayer_def Let_def by (intro keeps_rules node_keeps perform_keeps allowed)

lemma waitForClaimRelayerReceipt_keeps: "keeps I (waitForClaimRelayerReceipt B h a i x)"
  unfolding waitForClaimRelayerReceipt_def by (intro poll_receipt_keeps validateClaimRelayerReceipt_keeps)

lemma try_relayers_keeps: "keeps I (try_relayers B t r x peer rs)"
  by (induction rs) (simp_all add: keeps_rules SubmitClaimToRelayer_keeps waitForClaimRelayerReceipt_keeps)

lemma claimWithRelay_keeps: "keeps I (claimWithRelay B)"
  unfolding claimWithRelay_def claimWithAdvertisedRelayers_def relayClaimWithXMRTaker_def
  by (intro own_keeps keeps_rules get_ms_keeps node_keeps SubmitClaimToRelayer_keeps try_relayers_keeps
      waitForClaimRelayerReceipt_keeps SetRelayerFee_keeps WriteSwapToDB_keeps)

lemma claimFunds_keeps: "keeps I (claimFunds B)"
  unfolding claimFunds_def maker_checkForMinClaimBalance_def
  by (intro keeps_rules node_keeps get_ms_keeps claimWithRelay_keeps sender_Claim_keeps allowed)

lemma reclaimMonero_keeps: "keeps I (reclaimMonero B sk)"
  unfolding reclaimMonero_def get_ms_def
  by (intro keeps_gets_bnd keeps_bnd PutCounterpartySwapPrivateKey_keeps kinds)
    (auto simp: keys_known own_info keeps_rules allowed intro!: ClaimMonero_keeps split: option.split)

lemma handleEventETHRefunded_keeps: "keeps I (handleEventETHRefunded B sk)"
  unfolding handleEventETHRefunded_def by (intro keeps_rules reclaimMonero_keeps clear_keeps)

lemma contractReady_keeps: "keeps I ex \<Longrightarrow> keeps I (contractReady B ex)"
  unfolding contractReady_def
  by (intro keeps_rules get_ms_keeps set_ms_keeps claimFunds_keeps clear_keeps) (simp_all add: same_keys_def)

lemma exit_deferred_keeps: "keeps I (maker_exit_deferred B)"
  unfolding maker_exit_deferred_def maker_close_done_def
  by (rule keeps_gets_bnd, simp add: own_info)
    (intro keeps_rules node_keeps CompleteOngoingSwap_keeps AddOffer_keeps DeleteOffer_keeps DeleteSwap_keeps
      set_ms_keeps get_ms_keeps; simp add: same_keys_def)

lemma exit_body_keeps: "keeps I w \<Longrightarrow> keeps I (maker_exit_body B w)"
  unfolding maker_exit_body_def
  by (intro keeps_bnd get_ms_keeps) (auto simp: keeps_rules clear_keeps split: MakerEventType.split)

lemma exit_on_keeps: "keeps I (maker_exit_on B es)"
  by (induction es)
    (auto simp: keeps_rules exit_deferred_keeps handleEventETHRefunded_keeps contractReady_keeps
      intro!: keeps_deferred exit_body_keeps split: MakerEvent.split)

lemma exit_keeps: "keeps I (maker_exit B)"
  unfolding maker_exit_def by (intro keeps_rules exit_on_keeps)

lemma handleEventContractReady_keeps: "keeps I (handleEventContractReady B)"
  unfolding handleEventContractReady_def by (rule contractReady_keeps [OF exit_keeps])

end

context world_invariant

begin

lemma waitForNewSwapReceipt_keeps: "keeps I (waitForNewSwapReceipt N h)"
proof -
  have "(\<And>r. keeps I (f r)) \<Longrightarrow> keeps I (poll_receipt N n h f)" for n f
    by (induction n) (auto intro!: keeps_rules node_keeps)
  then show ?thesis unfolding waitForNewSwapReceipt_def by (simp add: keeps_rules)
qed

end

lemma get_ms_Ok: "get_ms f s = (Ok x, s') \<longleftrightarrow> x = f (ms s) \<and> s' = s"
  by (auto simp: get_ms_def gets_Ok)

lemma check_new_event_Ok:
  assumes "check_new_event K t sw ev = Ok x" "m_secp256k1Pub t = Some ours" "xmrtakerSecp256K1PublicKey t = Some theirs"
  shows "New_SwapID ev = m_contractSwapID t \<and> New_ClaimKey ev = Secp256k1_Keccak256 K ours \<and>
    New_RefundKey ev = Secp256k1_Keccak256 K theirs \<and> New_Asset ev = Asset sw \<and> New_Value ev = Value sw"
  using assms by (simp add: check_new_event_def split: if_splits)

text \<open>The lock of ETH that the maker has seen, given the keys of both parties.\<close>

definition new_log_seen :: "('w, 'k) backend \<Rightarrow> Secp256k1PublicKey \<Rightarrow> Secp256k1PublicKey \<Rightarrow> EthereumSwapInfo \<Rightarrow> bool" where
  "new_log_seen B ours theirs eth \<longleftrightarrow> (\<exists>h w w' tx pending receipt l ev.
     fst (n_TransactionByHash (b_node B) h w) = Ok (tx, pending) \<and> Tx_To tx = Some (SwapCreatorAddr eth) \<and>
     fst (n_TransactionReceipt (b_node B) h w') = Ok receipt \<and> Receipt_Status receipt = 1 \<and>
     l \<in> set (Receipt_Logs receipt) \<and> ParseNew (b_ethlib B) l = Ok ev \<and>
     New_SwapID ev = EthInfo_SwapID eth \<and> New_ClaimKey ev = Secp256k1_Keccak256 (b_crypt B) ours \<and>
     New_RefundKey ev = Secp256k1_Keccak256 (b_crypt B) theirs \<and>
     New_Asset ev = Asset (EthInfo_Swap eth) \<and> New_Value ev = Value (EthInfo_Swap eth))"

definition timeouts_seen :: "('w, 'k) backend \<Rightarrow> SwapCreatorSwap \<Rightarrow> bool" where
  "timeouts_seen B sw \<longleftrightarrow> b_env B = Development \<or> (\<exists>d w. SwapTimeoutFromEnv (b_env B) = Ok d \<and>
     time_Sub (time_Unix (Timeout2 sw)) (time_Unix (Timeout1 sw)) = d \<and>
     duration_Abs (time_Sub (n_clock (b_node B) w + d) (time_Unix (Timeout1 sw))) \<le> d div 20)"

definition code_seen :: "('w, 'k) backend \<Rightarrow> address \<Rightarrow> bool" where
  "code_seen B addr \<longleftrightarrow> (\<exists>w. fst (n_CodeAt (b_node B) addr w) = Ok (expectedSwapCreatorBytecode (b_node B)))"

text \<open>The value of an ETH swap is what the swap expects.\<close>

definition value_expected :: "('w, 'k) backend \<Rightarrow> SwapCreatorSwap \<Rightarrow> Info \<Rightarrow> bool" where
  "value_expected B sw info \<longleftrightarrow>
     (if EthAsset_IsToken (Asset sw)
      then \<exists>token a. NewTokenAmountFromDecimals (b_apd B) (ExpectedAmount info) token = Ok a \<and>
             ERC20TokenAmount_BigInt (b_apd B) a = Ok (Value sw)
      else \<exists>w. EtherToWei (b_apd B) (ExpectedAmount info) = Ok w \<and> WeiAmount_BigInt (b_apd B) w = Ok (Value sw))"

lemma getEthAssetAmount_Ok:
  assumes "getEthAssetAmount B amt (Asset sw) s = (Ok (a, amt'), s')" "BigInt (b_apd B) a = Ok (Value sw)"
    and "ExpectedAmount info = amt'"
  shows "value_expected B sw info"
proof (cases "EthAsset_IsToken (Asset sw)")
  case True
  with assms show ?thesis
    by (auto simp: getEthAssetAmount_def value_expected_def run_Ok fail_Ok case_prod_beta split: if_splits)
      blast
next
  case False
  with assms show ?thesis
    by (auto simp: getEthAssetAmount_def value_expected_def run_Ok fail_Ok case_prod_beta split: if_splits)
qed

lemma checkContract_Ok:
  fixes s :: "('w, 'k, 'z) maker_scheme"
  assumes run: "checkContract B h s = (Ok x, s')" and addr: "m_swapCreatorAddr (ms s) = SwapCreatorAddr eth"
    and swap: "m_contractSwapID (ms s) = EthInfo_SwapID eth" "m_contractSwap (ms s) = Some (EthInfo_Swap eth)"
    and keys: "m_secp256k1Pub (ms s) = Some ours" "xmrtakerSecp256K1PublicKey (ms s) = Some theirs"
  shows "new_log_seen B ours theirs eth \<and> value_expected B (EthInfo_Swap eth) (info_at (m_info (ms s)) s')"
proof -
  obtain tx pending w receipt l ls ev amt a amt' and s1 s2 s3 :: "('w, 'k, 'z) maker_scheme" where
    tx: "n_TransactionByHash (b_node B) h (world s) = (Ok (tx, pending), w)" and
    to: "Tx_To tx = Some (SwapCreatorAddr eth)" and
    receipt: "WaitForReceipt (b_node B) h s1 = (Ok receipt, s2)" and
    logs: "Receipt_Logs receipt = l # ls" "first_log (ParseNew (b_ethlib B)) l ls = Ok ev" and
    event: "check_new_event (b_crypt B) (ms s) (EthInfo_Swap eth) ev = Ok ()" and
    amount: "getEthAssetAmount B amt (Asset (EthInfo_Swap eth)) s2 = (Ok (a, amt'), s3)"
      "BigInt (b_apd B) a = Ok (Value (EthInfo_Swap eth))"
      "ExpectedAmount (info_at (m_info (ms s)) s') = amt'"
    using run addr swap
    by (auto simp: checkContract_def run_Ok get_ms_Ok set_info_Ok fail_Ok attempt_Ok info_at_def
        split: if_splits list.splits)
  obtain w' where "fst (n_TransactionReceipt (b_node B) h w') = Ok receipt" "Receipt_Status receipt = 1"
    using wait_receipt_Ok receipt unfolding WaitForReceipt_def by blast
  moreover obtain l' where "l' \<in> set (Receipt_Logs receipt)" "ParseNew (b_ethlib B) l' = Ok ev"
    using first_log_Ok [OF logs(2)] logs(1) by auto
  moreover note check_new_event_Ok [OF event keys] getEthAssetAmount_Ok [OF amount]
  ultimately show ?thesis
    unfolding new_log_seen_def using tx to swap by (metis fst_conv)
qed

lemma checkAndSetTimeouts_Ok:
  assumes "checkAndSetTimeouts B (Timeout1 sw) (Timeout2 sw) s = (Ok x, s')"
  shows "timeouts_seen B sw"
  using assms
  by (auto simp: checkAndSetTimeouts_def maker_setTimeouts_def timeouts_seen_def set_ms_def get_ms_Ok set_info_Ok run_Ok fail_Ok
      now_def Let_def not_less split: if_splits)

lemma setNext_Ok:
  assumes "maker_setNextExpectedEvent B EventContractReadyType s = (Ok x, s')" "m_info (ms s) = p"
    and "swap_invar (b_chaindb B) (b_codecs B) (mgr_db (mgr s))" "storable (z_lib (b_codecs B)) (info_at p s)"
  shows "\<exists>tm. info_at p s' = SetStatus tm XMRLocked (info_at p s) \<and>
    stored_swap (b_chaindb B) (b_codecs B) (mgr_db (mgr s')) (OfferID (info_at p s)) = Some (info_at p s') \<and>
    recovered (b_chaindb B) (b_codecs B) (mgr_db (mgr s')) = recovered (b_chaindb B) (b_codecs B) (mgr_db (mgr s))"
proof -
  have laws: "chaindb_laws (b_chaindb B)" using assms(3) by (simp add: swap_invar_def)
  obtain t s1 m where up: "updateStatus B p XMRLocked (s\<lparr>ms := t\<rparr>) = (Ok (), s1)" "m_info t = p"
    and stored: "WriteSwapToDB (b_swapdb B) (m_info (ms s1)) (mgr s1) = (Ok (), m)" "s' = s1\<lparr>mgr := m\<rparr>"
    using assms(1,2)
    by (auto simp: maker_setNextExpectedEvent_def maker_updateStatus_def set_ms_def Let_def run_Ok get_ms_Ok panic_def
        split: if_splits)
  obtain tm where st: "heap (mgr s1) p = SetStatus tm XMRLocked (heap (mgr s) p)" "mgr_db (mgr s1) = mgr_db (mgr s)"
      "ms s1 = t"
    using updateStatus_Ok [OF up(1)] by auto
  then show ?thesis
    using WriteSwapToDB_Ok [OF stored(1) laws] assms(3,4) stored(2) up(2) by (auto simp: info_at_def)
qed

section \<open>The maker locks XMR only behind a verified lock of ETH\<close>

text \<open>The keys of a swap after the exchange, as the maker has them.\<close>

record maker_keys =
  mk_private :: PrivateSpendKey
  mk_public :: PublicKeyPair
  mk_secp :: Secp256k1PublicKey
  mk_takerSpend :: PublicKey
  mk_takerView :: PrivateViewKey
  mk_takerSecp :: Secp256k1PublicKey

text \<open>What must hold of the database \<open>k\<close> when XMR is sent for the swap \<open>i\<close>.\<close>

definition xmr_lock_safe :: "('w, 'k) backend \<Rightarrow> hash \<Rightarrow> maker_keys \<Rightarrow> 'k \<Rightarrow> action \<Rightarrow> bool" where
  "xmr_lock_safe B i K k a \<longleftrightarrow> (\<forall>dest amt. a = XmrTransfer dest amt \<longrightarrow>
     rv_privkey (recovered (b_chaindb B) (b_codecs B) k i) = Ok (mk_private K) \<and>
     rv_cskeys (recovered (b_chaindb B) (b_codecs B) k i) = Ok (mk_takerSpend K, mk_takerView K) \<and>
     PublicKeyPair_Address (b_crypt B) (b_env B) (SumSpendAndViewKeys (b_crypt B)
       (NewPublicKeyPair (mk_takerSpend K) (Public (b_crypt B) (mk_takerView K))) (mk_public K)) = Ok dest \<and>
     (\<exists>eth info. rv_ethinfo (recovered (b_chaindb B) (b_codecs B) k i) = Ok eth \<and>
        SwapID (b_ethlib B) (EthInfo_Swap eth) = Ok (EthInfo_SwapID eth) \<and> code_seen B (SwapCreatorAddr eth) \<and>
        new_log_seen B (mk_secp K) (mk_takerSecp K) eth \<and> timeouts_seen B (EthInfo_Swap eth) \<and>
        stored_swap (b_chaindb B) (b_codecs B) k i = Some info \<and> Info_Status info = XMRLocked \<and>
        value_expected B (EthInfo_Swap eth) info \<and> MoneroToPiconero (b_apd B) (ProvidedAmount info) = Ok amt))"

definition maker_inv :: "('w, 'k) backend \<Rightarrow> ptr \<Rightarrow> hash \<Rightarrow> maker_keys \<Rightarrow> ('w, 'k, 'z) maker_scheme \<Rightarrow> bool" where
  "maker_inv B p i K s \<longleftrightarrow> recovery_codecs (b_codecs B) \<and>
     m_info (ms s) = p \<and> OfferID (info_at p s) = i \<and>
     m_pubkeys (ms s) = Some (mk_public K) \<and> m_secp256k1Pub (ms s) = Some (mk_secp K) \<and>
     xmrtakerPublicSpendKey (ms s) = Some (mk_takerSpend K) \<and> xmrtakerPrivateViewKey (ms s) = Some (mk_takerView K) \<and>
     xmrtakerSecp256K1PublicKey (ms s) = Some (mk_takerSecp K) \<and>
     rv_privkey (recovered (b_chaindb B) (b_codecs B) (mgr_db (mgr s)) i) = Ok (mk_private K) \<and>
     rv_cskeys (recovered (b_chaindb B) (b_codecs B) (mgr_db (mgr s)) i) = Ok (mk_takerSpend K, mk_takerView K) \<and>
     swap_invar (b_chaindb B) (b_codecs B) (mgr_db (mgr s)) \<and> storable (z_lib (b_codecs B)) (info_at p s) \<and>
     (\<forall>(a, k)\<in>set (trace s). xmr_lock_safe B i K k a)"

definition no_transfer :: "action \<Rightarrow> bool" where
  "no_transfer a \<longleftrightarrow> (\<forall>dest amt. a \<noteq> XmrTransfer dest amt)"

interpretation mk: maker_invariant "maker_inv B p i K" B "{swapPrivateKeyPrefix, counterpartySwapKeysPrefix}" p no_transfer
  for B :: "('w, 'k) backend" and p i K
proof unfold_locales
  fix s m
  assume s: "maker_inv B p i K s"
    and m: "swap_kept (b_chaindb B) (b_codecs B) {swapPrivateKeyPrefix, counterpartySwapKeysPrefix} p (mgr s) m"
  from s have "chaindb_laws (b_chaindb B)" by (simp add: maker_inv_def swap_invar_def)
  note kept_privkey [OF this m] kept_cskeys [OF this m] kept_id [OF m]
  moreover have "swap_invar (b_chaindb B) (b_codecs B) (mgr_db m)" "storable (z_lib (b_codecs B)) (heap m p)"
    using s m by (simp_all add: maker_inv_def swap_kept_def info_at_def)
  ultimately show "maker_inv B p i K (s\<lparr>mgr := m\<rparr>)" using s by (simp add: maker_inv_def info_at_def)
next
  fix s a
  assume "maker_inv B p i K s" "no_transfer a"
  then show "maker_inv B p i K (s\<lparr>trace := (a, mgr_db (mgr s)) # trace s\<rparr>)"
    by (simp add: maker_inv_def info_at_def no_transfer_def xmr_lock_safe_def)
next
  fix s t
  assume "maker_inv B p i K s" "same_keys (ms s) t"
  then show "maker_inv B p i K (s\<lparr>ms := t\<rparr>)" by (simp add: maker_inv_def info_at_def same_keys_def)
qed (simp_all add: maker_inv_def info_at_def no_transfer_def swap_invar_def recovery_prefix_defs)

text \<open>The lock that the maker has recorded is verified.\<close>

definition lock_verified :: "('w, 'k) backend \<Rightarrow> ptr \<Rightarrow> hash \<Rightarrow> maker_keys \<Rightarrow> EthereumSwapInfo \<Rightarrow>
    ('w, 'k, 'z) maker_scheme \<Rightarrow> bool" where
  "lock_verified B p i K eth s \<longleftrightarrow> rv_ethinfo (recovered (b_chaindb B) (b_codecs B) (mgr_db (mgr s)) i) = Ok eth \<and>
     SwapID (b_ethlib B) (EthInfo_Swap eth) = Ok (EthInfo_SwapID eth) \<and> code_seen B (SwapCreatorAddr eth) \<and>
     new_log_seen B (mk_secp K) (mk_takerSecp K) eth \<and> timeouts_seen B (EthInfo_Swap eth) \<and>
     value_expected B (EthInfo_Swap eth) (info_at p s)"

lemma transfer_safe:
  assumes "maker_inv B p i K s" "xmr_lock_safe B i K (mgr_db (mgr s)) (XmrTransfer dest amt)"
  shows "wp (andthen (perform (XmrTransfer dest amt) f) (ret ())) (\<lambda>_. maker_inv B p i K) s"
proof -
  have "maker_inv B p i K (s\<lparr>trace := (XmrTransfer dest amt, mgr_db (mgr s)) # trace s\<rparr>)"
    using assms by (simp add: maker_inv_def info_at_def)
  then have "wp (query f) (\<lambda>_. maker_inv B p i K) (s\<lparr>trace := (XmrTransfer dest amt, mgr_db (mgr s)) # trace s\<rparr>)"
    using mk.query_keeps unfolding keeps_wp by blast
  then show ?thesis
    by (simp add: wp_def perform_def bnd_def ret_def split: prod.splits outcome.split)
qed

lemma lockFunds_safe:
  assumes s: "maker_inv B p i K s" and eth: "lock_verified B p i K eth s"
    and amt: "MoneroToPiconero (b_apd B) (ProvidedAmount (info_at p s)) = Ok amt"
  shows "wp (lockFunds B amt) (\<lambda>_. maker_inv B p i K) s"
proof -
  have "wp (andthen (query (xmr_GetBalance (b_wallet B)))
     (andthen (wrapping ''failed to set next expected event to EventContractReadyType: '' []
       (maker_setNextExpectedEvent B EventContractReadyType))
     (andthen (perform (XmrTransfer dest amt) (xmr_Transfer (b_wallet B) dest amt MinSpendConfirmations))
       (ret ())))) (\<lambda>_. maker_inv B p i K) s"
    if dest: "swapDestAddr B (ms s) = Ok dest" for dest
  proof (intro wp_bnd_keeps [OF mk.query_keeps s] wp_bnd_keeps [OF keeps_wrapping [OF mk.setNext_keeps]] transfer_safe)
    fix x s3 y s4
    assume "query (xmr_GetBalance (b_wallet B)) s = (Ok x, s3)"
    then have same: "ms s3 = ms s" "mgr s3 = mgr s" by (auto simp: query_Ok)
    assume "wrapping ''failed to set next expected event to EventContractReadyType: '' []
         (maker_setNextExpectedEvent B EventContractReadyType) s3 = (Ok y, s4)"
    then have run: "maker_setNextExpectedEvent B EventContractReadyType s3 = (Ok y, s4)" by (simp add: wrapping_Ok)
    have facts: "m_info (ms s3) = p" "swap_invar (b_chaindb B) (b_codecs B) (mgr_db (mgr s3))"
      "storable (z_lib (b_codecs B)) (info_at p s3)" "info_at p s3 = info_at p s" "OfferID (info_at p s) = i"
      using s same by (simp_all add: maker_inv_def info_at_def)
    obtain tm where "info_at p s4 = SetStatus tm XMRLocked (info_at p s)"
      "stored_swap (b_chaindb B) (b_codecs B) (mgr_db (mgr s4)) i = Some (info_at p s4)"
      "recovered (b_chaindb B) (b_codecs B) (mgr_db (mgr s4)) = recovered (b_chaindb B) (b_codecs B) (mgr_db (mgr s))"
      using setNext_Ok [OF run facts(1-3)] facts(4,5) same by auto
    then show "xmr_lock_safe B i K (mgr_db (mgr s4)) (XmrTransfer dest amt)"
      using s eth amt dest
      by (simp add: xmr_lock_safe_def maker_inv_def lock_verified_def swapDestAddr_def value_expected_def SetStatus_def)
  qed
  then show ?thesis using s
    by (simp add: lockFunds_def get_ms_def wp_gets wp_lift wp_bnd [of "gets f" for f] wp_bnd [of "lift f" for f]
        split: outcome.split)
qed

context maker_invariant

begin

lemma getEthAssetAmount_keeps: "keeps I (getEthAssetAmount B amt ea)"
  unfolding getEthAssetAmount_def Let_def by (simp add: case_prod_beta keeps_rules node_keeps)

lemma checkContract_keeps: "keeps I (checkContract B h)"
proof -
  have "keeps I (set_info p' (\<lambda>i. i\<lparr>ExpectedAmount := a\<rparr>))" for p' a
    by (rule set_info_keeps) (simp_all add: storable_def)
  then show ?thesis unfolding checkContract_def
    by (auto intro!: keeps_rules node_keeps get_ms_keeps getEthAssetAmount_keeps split: list.split)
qed

lemma checkAndSetTimeouts_keeps: "keeps I (checkAndSetTimeouts B t1 t2)"
  unfolding checkAndSetTimeouts_def Let_def by (intro keeps_rules setTimeouts_m)

end

text \<open>What the checks leave alone.\<close>

lemma checkContract_frame: "keeps (\<lambda>s. ms s = t \<and> mgr_db (mgr s) = k) (checkContract B h)"
proof -
  have "keeps (\<lambda>s. ms s = t \<and> mgr_db (mgr s) = k) (WaitForReceipt N h)"
    "keeps (\<lambda>s. ms s = t \<and> mgr_db (mgr s) = k) (ERC20Info N a)"
    "keeps (\<lambda>s. ms s = t \<and> mgr_db (mgr s) = k) (query f)" for N h a f
    by ((rule world_invariant.WaitForReceipt_keeps world_invariant.ERC20Info_keeps world_invariant.query_keeps,
        unfold_locales, simp)+)
  moreover have "keeps (\<lambda>s. ms s = t \<and> mgr_db (mgr s) = k) (set_info p f)" for p f
    unfolding set_info_def by (rule keeps_modify) simp
  ultimately show ?thesis unfolding checkContract_def getEthAssetAmount_def get_ms_def Let_def
    by (auto intro!: keeps_rules simp: case_prod_beta split: list.split)
qed

lemma checkAndSetTimeouts_frame:
  assumes "checkAndSetTimeouts B t1 t2 s = (Ok x, s')"
  shows "mgr_db (mgr s') = mgr_db (mgr s) \<and> info_at (m_info (ms s)) s' =
    SetTimeouts (time_Unix t1) (time_Unix t2) (info_at (m_info (ms s)) s)"
  using assms
  by (auto simp: checkAndSetTimeouts_def maker_setTimeouts_def set_ms_def get_ms_Ok set_info_Ok run_Ok fail_Ok
      Let_def info_at_def split: if_splits)

text \<open>The checks in a row leave a verified lock.\<close>

lemma checks_verify:
  assumes s: "maker_inv B p i K s" "rv_ethinfo (recovered (b_chaindb B) (b_codecs B) (mgr_db (mgr s)) i) = Ok eth"
    and t: "m_swapCreatorAddr (ms s) = SwapCreatorAddr eth" "m_contractSwapID (ms s) = EthInfo_SwapID eth"
      "m_contractSwap (ms s) = Some (EthInfo_Swap eth)"
    and seen: "code_seen B (SwapCreatorAddr eth)" "SwapID (b_ethlib B) (EthInfo_Swap eth) = Ok (EthInfo_SwapID eth)"
    and runs: "checkContract B h s = (Ok x, s1)"
      "checkAndSetTimeouts B (Timeout1 (EthInfo_Swap eth)) (Timeout2 (EthInfo_Swap eth)) s1 = (Ok y, s2)"
  shows "lock_verified B p i K eth s2"
proof -
  have k: "m_secp256k1Pub (ms s) = Some (mk_secp K)" "xmrtakerSecp256K1PublicKey (ms s) = Some (mk_takerSecp K)"
    "m_info (ms s) = p" using s(1) by (simp_all add: maker_inv_def)
  have "ms s1 = ms s" "mgr_db (mgr s1) = mgr_db (mgr s)"
    using keepsD [OF checkContract_frame runs(1), of "ms s" "mgr_db (mgr s)"] by auto
  then show ?thesis
    using s(2) seen checkContract_Ok [OF runs(1) t k(1,2)] checkAndSetTimeouts_Ok [OF runs(2)]
      checkAndSetTimeouts_frame [OF runs(2)] k(3)
    by (simp add: lock_verified_def value_expected_def SetTimeouts_def)
qed

text \<open>From the recorded contract on.\<close>

lemma lock_after_checks:
  assumes s: "maker_inv B p i K s" "rv_ethinfo (recovered (b_chaindb B) (b_codecs B) (mgr_db (mgr s)) i) = Ok eth"
    and t: "m_swapCreatorAddr (ms s) = SwapCreatorAddr eth" "m_contractSwapID (ms s) = EthInfo_SwapID eth"
      "m_contractSwap (ms s) = Some (EthInfo_Swap eth)"
    and seen: "code_seen B (SwapCreatorAddr eth)" "SwapID (b_ethlib B) (EthInfo_Swap eth) = Ok (EthInfo_SwapID eth)"
  shows "wp (andthen (checkContract B h)
    (andthen (checkAndSetTimeouts B (Timeout1 (EthInfo_Swap eth)) (Timeout2 (EthInfo_Swap eth)))
    (bnd (gets (\<lambda>s. ProvidedAmount (maker_info s))) (\<lambda>provided.
     bnd (lift (MoneroToPiconero (b_apd B) provided)) (\<lambda>amt.
     andthen (wrapping ''failed to lock funds: '' [] (lockFunds B amt))
       (set_ms (\<lambda>t. t\<lparr>m_T1_started := True\<rparr>))))))) (\<lambda>_. maker_inv B p i K) s"
proof (intro wp_bnd_keeps [OF mk.checkContract_keeps s(1)] wp_bnd_keeps [OF mk.checkAndSetTimeouts_keeps])
  fix x s1 y s2
  assume "checkContract B h s = (Ok x, s1)"
    "checkAndSetTimeouts B (Timeout1 (EthInfo_Swap eth)) (Timeout2 (EthInfo_Swap eth)) s1 = (Ok y, s2)"
    and s2: "maker_inv B p i K s2"
  then have v: "lock_verified B p i K eth s2" using checks_verify [OF s t seen] by blast
  have p: "m_info (ms s2) = p" using s2 by (simp add: maker_inv_def)
  have "wp (andthen (wrapping ''failed to lock funds: '' [] (lockFunds B amt))
      (set_ms (\<lambda>t. t\<lparr>m_T1_started := True\<rparr>))) (\<lambda>_. maker_inv B p i K) s2"
    if "MoneroToPiconero (b_apd B) (ProvidedAmount (info_at p s2)) = Ok amt" for amt
  proof -
    have set: "wp (set_ms (\<lambda>t. t\<lparr>m_T1_started := True\<rparr>)) (\<lambda>_. maker_inv B p i K) s'" if "maker_inv B p i K s'" for s'
      using that by (intro wp_keeps [OF mk.set_ms_keeps]) (simp add: same_keys_def)
    have "wp (wrapping ''failed to lock funds: '' [] (lockFunds B amt)) (\<lambda>_. maker_inv B p i K) s2"
      by (rule wp_wrapping_state [OF lockFunds_safe [OF s2 v that]])
    then show ?thesis unfolding wp_bnd by (rule wp_mono) (simp add: set split: outcome.split)
  qed
  then show "wp (bnd (gets (\<lambda>s. ProvidedAmount (maker_info s))) (\<lambda>provided.
     bnd (lift (MoneroToPiconero (b_apd B) provided)) (\<lambda>amt.
     andthen (wrapping ''failed to lock funds: '' [] (lockFunds B amt))
       (set_ms (\<lambda>t. t\<lparr>m_T1_started := True\<rparr>))))) (\<lambda>_. maker_inv B p i K) s2"
    using s2 p
    by (simp add: wp_gets wp_lift wp_bnd [of "gets f" for f] wp_bnd [of "lift f" for f] split: outcome.split)
qed

lemma world_frame: "world_invariant (\<lambda>s. ms s = t \<and> mgr s = m)"
  by unfold_locales simp

lemma handleNotifyETHLocked_keeps: "keeps (maker_inv B p i K) (handleNotifyETHLocked B msg)"
proof -
  have *: "wp (bnd (waitForNewSwapReceipt (b_node B) (NL_TxHash msg)) (\<lambda>receipt.
           andthen (CheckSwapCreatorContractCode (b_node B) (NL_Address msg))
           (andthen (setContract (NL_Address msg))
           (bnd (gets maker_OfferID) (\<lambda>i.
            andthen (recovery (PutContractSwapInfo (b_chaindb B) (b_codecs B) i
              \<lparr>StartNumber = BlockNumber receipt, EthInfo_SwapID = NL_ContractSwapID msg,
               EthInfo_Swap = NL_ContractSwap msg, SwapCreatorAddr = NL_Address msg\<rparr>))
            (andthen (checkContract B (NL_TxHash msg))
            (andthen (checkAndSetTimeouts B (Timeout1 (NL_ContractSwap msg)) (Timeout2 (NL_ContractSwap msg)))
            (bnd (gets (\<lambda>s. ProvidedAmount (maker_info s))) (\<lambda>provided.
             bnd (lift (MoneroToPiconero (b_apd B) provided)) (\<lambda>amt.
             andthen (wrapping ''failed to lock funds: '' [] (lockFunds B amt))
               (set_ms (\<lambda>t. t\<lparr>m_T1_started := True\<rparr>)))))))))))) (\<lambda>_. maker_inv B p i K) s" (is "wp ?m _ _")
    if s: "maker_inv B p i K s" "m_contractSwapID (ms s) = NL_ContractSwapID msg"
      "m_contractSwap (ms s) = Some (NL_ContractSwap msg)"
      "SwapID (b_ethlib B) (NL_ContractSwap msg) = Ok (NL_ContractSwapID msg)" for s
  proof (rule wp_bnd_keeps [OF mk.waitForNewSwapReceipt_keeps s(1)], goal_cases)
    case (1 receipt s1)
    note s1 = keepsD [OF world_invariant.waitForNewSwapReceipt_keeps [OF world_frame] 1(1), of "ms s" "mgr s"]
    show ?case
    proof (rule wp_bnd_keeps [OF mk.CheckSwapCreatorContractCode_keeps 1(2)], goal_cases)
      case (1 x s2)
      note s2 = keepsD [OF world_invariant.CheckSwapCreatorContractCode_keeps [OF world_frame] 1(1), of "ms s" "mgr s"]
      have code: "code_seen B (NL_Address msg)"
        using CheckSwapCreatorContractCode_Ok [OF 1(1)] by (auto simp: code_seen_def)
      show ?case unfolding setContract_def
      proof (rule wp_bnd_keeps [OF mk.set_ms_keeps 1(2)], goal_cases)
        case (2 y s3)
        let ?eth = "\<lparr>StartNumber = BlockNumber receipt, EthInfo_SwapID = NL_ContractSwapID msg,
               EthInfo_Swap = NL_ContractSwap msg, SwapCreatorAddr = NL_Address msg\<rparr>"
        have s3: "m_swapCreatorAddr (ms s3) = NL_Address msg" "m_contractSwapID (ms s3) = NL_ContractSwapID msg"
          "m_contractSwap (ms s3) = Some (NL_ContractSwap msg)"
          using 2(1) s1 s2 s(2,3) by (auto simp: set_ms_def modify_Ok)
        have i: "maker_OfferID s3 = i" using 2(2) by (simp add: maker_inv_def)
        show ?case unfolding wp_bnd [of "gets f" for f] wp_gets outcome.case i
        proof (rule wp_bnd_keeps [OF mk.PutContractSwapInfo_keeps 2(2)], goal_cases)
          case (2 z s4)
          have "chaindb_laws (b_chaindb B)" "recovery_codecs (b_codecs B)"
            using 2(2) by (simp_all add: maker_inv_def swap_invar_def)
          from PutContractSwapInfo_Ok [OF this] 2(1)
          have "rv_ethinfo (recovered (b_chaindb B) (b_codecs B) (mgr_db (mgr s4)) i) = Ok ?eth" "ms s4 = ms s3"
            by (auto simp: recovery_Ok)
          then show ?case using lock_after_checks [OF 2(2), of ?eth] s3 s(4) code by simp
        qed (simp add: recovery_prefix_defs)
      qed (simp add: same_keys_def)
    qed
  qed
  have body: "wp (andthen (set_ms (\<lambda>t. t\<lparr>m_contractSwapID := NL_ContractSwapID msg,
            m_contractSwap := Some (NL_ContractSwap msg)\<rparr>)) ?m) (\<lambda>_. maker_inv B p i K) s"
    if "maker_inv B p i K s" "SwapID (b_ethlib B) (NL_ContractSwap msg) = Ok (NL_ContractSwapID msg)" for s
  proof (rule wp_bnd_keeps [OF mk.set_ms_keeps that(1)], goal_cases)
    case (2 x s')
    then have "m_contractSwapID (ms s') = NL_ContractSwapID msg" "m_contractSwap (ms s') = Some (NL_ContractSwap msg)"
      by (auto simp: set_ms_def modify_Ok)
    then show ?case using * [OF 2(2)] that(2) by blast
  qed (simp add: same_keys_def)
  then show ?thesis unfolding keeps_wp handleNotifyETHLocked_def
    by (auto simp: wp_fail wp_lift wp_bnd [of "lift f" for f] split: outcome.split)
qed

lemma maker_handleEvent_keeps: "keeps (maker_inv B p i K) (maker_handleEvent B e)"
  unfolding maker_handleEvent_def
  by (cases e; simp only: MakerEvent.case; intro keeps_rules handleNotifyETHLocked_keeps mk.get_ms_keeps
      mk.handleEventContractReady_keeps mk.handleEventETHRefunded_keeps mk.exit_keeps mk.send_errCh_keeps
      mk.close_errCh_keeps mk.query_keeps)

lemma maker_deliver_keeps: "keeps (maker_inv B p i K) (maker_deliver B e)"
  unfolding maker_deliver_def
  by (intro keeps_rules keeps_modify maker_handleEvent_keeps) (simp add: mk.channels)

text \<open>
  The states a swap of the maker goes through: an event is delivered, or something else happens in
  the daemon that leaves alone the swap's own state, its info and its recovery data.
\<close>

inductive maker_reach :: "('w, 'k) backend \<Rightarrow> ('w, 'k) maker \<Rightarrow> ('w, 'k) maker \<Rightarrow> bool" for B s0 where
  maker_start: "maker_reach B s0 s0"
| maker_event: "maker_reach B s0 s \<Longrightarrow> maker_reach B s0 (snd (maker_deliver B e s))"
| maker_environment: "maker_reach B s0 s \<Longrightarrow> heap m (m_info (ms s)) = maker_info s \<Longrightarrow>
    recovered (b_chaindb B) (b_codecs B) (mgr_db m) (maker_OfferID s) =
      recovered (b_chaindb B) (b_codecs B) (mgr_db (mgr s)) (maker_OfferID s) \<Longrightarrow>
    swap_invar (b_chaindb B) (b_codecs B) (mgr_db m) \<Longrightarrow>
    maker_reach B s0 (s\<lparr>world := w, mgr := m, offerMem := om, m_arrivals := as\<rparr>)"

lemma maker_reach_inv: "maker_reach B s0 s \<Longrightarrow> maker_inv B p i K s0 \<Longrightarrow> maker_inv B p i K s"
proof (induction rule: maker_reach.induct)
  case (maker_event s e)
  then show ?case by (auto intro: keeps_snd [OF maker_deliver_keeps])
next
  case (maker_environment s m w om as)
  then show ?case by (simp add: maker_inv_def info_at_def)
qed

definition start_maker :: "maker_swap \<Rightarrow> ('w, 'k) makerHost \<Rightarrow> ('w, 'k) maker" where
  "start_maker t d = makerHost.extend d \<lparr>ms = t, m_reply = None, m_arrivals = []\<rparr>"

lemma start_maker_simps [simp]: "ms (start_maker t d) = t" "mgr (start_maker t d) = mgr d"
  "trace (start_maker t d) = trace d"
  by (simp_all add: start_maker_def makerHost.defs)

text \<open>The fields of a started swap.\<close>

lemma maker_generateAndSetKeys_Ok:
  assumes "recovery_codecs (b_codecs B)" "swap_invar (b_chaindb B) (b_codecs B) (mgr_db (mgr s))"
    and "maker_generateAndSetKeys B t s = (Ok t', s')"
  shows "\<exists>kp pub secp. m_info t' = m_info t \<and> m_privkeys t' = Some kp \<and> m_pubkeys t' = Some pub \<and>
    m_secp256k1Pub t' = Some secp \<and> trace s' = trace s \<and> heap (mgr s') = heap (mgr s) \<and>
    swap_invar (b_chaindb B) (b_codecs B) (mgr_db (mgr s')) \<and>
    rv_privkey (recovered (b_chaindb B) (b_codecs B) (mgr_db (mgr s')) (OfferID (info_at (m_info t) s))) = Ok (SpendKey kp)"
proof -
  have laws: "chaindb_laws (b_chaindb B)" using assms(2) by (simp add: swap_invar_def)
  obtain pr s1 where q: "attempt (query (x_Prove (b_extern B))) s = (Ok pr, s1)"
    using assms(3) by (auto simp: maker_generateAndSetKeys_def bnd_Ok panic_def split: if_splits)
  then have s1: "mgr s1 = mgr s" "trace s1 = trace s" using query_frame by (auto simp: attempt_Ok)
  obtain kp :: KeysAndProof and k where
    put: "PutSwapPrivateKey (b_chaindb B) (b_codecs B) (OfferID (info_at (m_info t) s)) (SpendKey (KP_PrivateKeyPair kp))
      (mgr_db (mgr s)) = (Ok (), k)" "mgr s' = (mgr s)\<lparr>mgr_db := k\<rparr>" "trace s' = trace s"
    and t': "m_info t' = m_info t" "m_secp256k1Pub t' = Some (KP_Secp256k1PublicKey kp)"
      "m_privkeys t' = Some (KP_PrivateKeyPair kp)" "m_pubkeys t' = Some (KP_PublicKeyPair kp)"
    using assms(3) q s1
    by (auto simp: maker_generateAndSetKeys_def run_Ok recovery_Ok panic_def info_at_def split: if_splits)
  show ?thesis
    using t' put(2,3) PutSwapPrivateKey_Ok [OF laws assms(1) put(1)] assms(2)
      put_struct_swap_invar [OF laws put(1) [unfolded PutSwapPrivateKey_def], of "b_codecs B"] by simp
qed

lemma maker_newSwapStateFromStart_Ok:
  assumes "recovery_codecs (b_codecs B)" "swap_invar (b_chaindb B) (b_codecs B) (mgr_db (mgr s))"
    and "\<not> GreaterThan (z_lib (b_codecs B)) CurInfoVersion CurInfoVersion"
    and "maker_newSwapStateFromStart B peer off extra provides desired s = (Ok t, s')"
  shows "\<exists>kp pub secp. m_privkeys t = Some kp \<and> m_pubkeys t = Some pub \<and> m_secp256k1Pub t = Some secp \<and>
    trace s' = trace s \<and> OfferID (info_at (m_info t) s') = ID off \<and>
    swap_invar (b_chaindb B) (b_codecs B) (mgr_db (mgr s')) \<and> storable (z_lib (b_codecs B)) (info_at (m_info t) s') \<and>
    rv_privkey (recovered (b_chaindb B) (b_codecs B) (mgr_db (mgr s')) (ID off)) = Ok (SpendKey kp)"
proof -
  have laws: "chaindb_laws (b_chaindb B)" using assms(2) by (simp add: swap_invar_def)
  obtain s1 where pre: "(if UseRelayer extra
      then recovery (PutSwapRelayerInfo (b_chaindb B) (b_codecs B) (ID off) extra) else ret ()) s = (Ok (), s1)"
    using assms(4) by (auto simp: maker_newSwapStateFromStart_def bnd_Ok)
  then have s1: "swap_invar (b_chaindb B) (b_codecs B) (mgr_db (mgr s1))" "trace s1 = trace s"
    using assms(2)
    by (auto simp: run_Ok recovery_Ok PutSwapRelayerInfo_def split: if_splits
        dest!: put_struct_swap_invar [OF laws, where Z = "b_codecs B"])
  let ?q = "next_ptr (mgr s1)"
  obtain x1 x2 rate tm w h m t0 s3 m4 where
      add: "AddSwap (b_swapdb B) ?q ((mgr s1)\<lparr>heap := (heap (mgr s1))(?q :=
        NewInfo tm tm peer (ID off) ProvidesXMR x1 x2 rate (EthAsset off) KeysExchanged h), next_ptr := Suc ?q\<rparr>) = (Ok (), m)" and
      keys: "maker_generateAndSetKeys B t0 (s1\<lparr>world := w, mgr := m\<rparr>) = (Ok t, s3)" and t0: "m_info t0 = ?q" and
      push: "PushNewStatus (ID off) KeysExchanged (mgr s3) = (Ok (), m4)" "s' = s3\<lparr>mgr := m4\<rparr>"
    using assms(4) pre
    by (auto simp: maker_newSwapStateFromStart_def maker_newSwapState_def Let_def run_Ok alloc_Ok)
  have m: "swap_invar (b_chaindb B) (b_codecs B) (mgr_db m)" "OfferID (heap m ?q) = ID off"
      "storable (z_lib (b_codecs B)) (heap m ?q)"
    using AddSwap_Ok_invar [OF add] AddSwap_heap [OF add] s1(1) assms(3) by (simp_all add: NewInfo_def storable_def)
  show ?thesis
    using maker_generateAndSetKeys_Ok [OF assms(1) _ keys] m s1 t0 push(2)
      keepsD [OF PushNewStatus_frame push(1), of "heap (mgr s3)" "mgr_db (mgr s3)"]
    by (auto simp: info_at_def)
qed

lemma maker_handleSendKeysMessage_Ok:
  assumes "recovery_codecs (b_codecs B)" "swap_invar (b_chaindb B) (b_codecs B) (mgr_db (mgr s))"
    and "maker_handleSendKeysMessage B msg s = (Ok x, s')" "maker_OfferID s = i"
    and "rv_privkey (recovered (b_chaindb B) (b_codecs B) (mgr_db (mgr s)) i) = Ok sk"
  shows "\<exists>pk vk secp res. SK_Secp256k1PublicKey msg = Some secp \<and> SK_PublicSpendKey msg = Some pk \<and>
    SK_PrivateViewKey msg = Some vk \<and>
    VerifyKeysAndProof (b_crypt B) (SK_DLEqProof msg) secp pk = Ok res \<and>
    ms s' = (ms s)\<lparr>xmrtakerPublicSpendKey := Some pk, xmrtakerPrivateViewKey := Some vk,
      xmrtakerSecp256K1PublicKey := Some (Secp256k1PublicKey_of res)\<rparr> \<and> heap (mgr s') = heap (mgr s) \<and> trace s' = trace s \<and>
    swap_invar (b_chaindb B) (b_codecs B) (mgr_db (mgr s')) \<and>
    rv_privkey (recovered (b_chaindb B) (b_codecs B) (mgr_db (mgr s')) i) = Ok sk \<and>
    rv_cskeys (recovered (b_chaindb B) (b_codecs B) (mgr_db (mgr s')) i) = Ok (pk, vk)"
proof -
  have laws: "chaindb_laws (b_chaindb B)" using assms(2) by (simp add: swap_invar_def)
  obtain pk vk secp res k where m: "SK_Secp256k1PublicKey msg = Some secp" "SK_PublicSpendKey msg = Some pk"
      "SK_PrivateViewKey msg = Some vk" "VerifyKeysAndProof (b_crypt B) (SK_DLEqProof msg) secp pk = Ok res"
    and put: "PutCounterpartySwapKeys (b_chaindb B) (b_codecs B) i pk vk (mgr_db (mgr s)) = (Ok (), k)"
    and s': "s' = s\<lparr>ms := (ms s)\<lparr>xmrtakerPublicSpendKey := Some pk, xmrtakerPrivateViewKey := Some vk,
      xmrtakerSecp256K1PublicKey := Some (Secp256k1PublicKey_of res)\<rparr>, mgr := (mgr s)\<lparr>mgr_db := k\<rparr>\<rparr>"
    using assms(3,4)
    by (auto simp: maker_handleSendKeysMessage_def setXMRTakerKeys_def set_ms_def run_Ok recovery_Ok fail_Ok panic_def
        info_at_def split: option.splits)
  have "rv_privkey (recovered (b_chaindb B) (b_codecs B) k i) =
      rv_privkey (recovered (b_chaindb B) (b_codecs B) (mgr_db (mgr s)) i)"
    using wp_run [OF recovery_put_struct_wp [OF laws] put [unfolded PutCounterpartySwapKeys_def]]
    by (simp add: recovered_content [OF laws] Let_def recovery_prefix_defs)
  then show ?thesis
    using m s' assms(2,5) PutCounterpartySwapKeys_Ok [OF laws assms(1) put]
      put_struct_swap_invar [OF laws put [unfolded PutCounterpartySwapKeys_def], of "b_codecs B"] by simp
qed

text \<open>
  C1: the maker locks XMR only behind a verified lock of ETH. Let a swap be started from an offer, let
  the taker's keys be accepted, and let any events arrive, in any order and with any answers of the
  chain, the wallets and the peers. Whenever XMR is transferred, the contract has been checked: the
  swap's identifier is the hash of its parameters, the code at the contract's address is that of
  SwapCreator, a successful transaction to it has a New log with this identifier, with the hashes of
  our key and of the key that the taker proved, and with the asset and value of the swap, and the
  timeouts are those of the network. The value is the one the swap expects and the amount the one it
  provides; the XMR goes to the address that both keys make up; and the database already holds the
  keys, the contract's data and the status XMRLocked, so that a restart can go on.
\<close>

theorem xmr_locked_behind_eth:
  assumes "recovery_codecs (b_codecs B)" "swap_invar (b_chaindb B) (b_codecs B) (mgr_db (mgr d))"
    and "\<not> GreaterThan (z_lib (b_codecs B)) CurInfoVersion CurInfoVersion" "trace d = []"
    and "maker_newSwapStateFromStart B peer off extra provides desired d = (Ok t, d')"
    and "maker_handleSendKeysMessage B msg (start_maker t d') = (Ok (), s0)"
    and "maker_reach B s0 s" "(XmrTransfer dest amt, k) \<in> set (trace s)"
  shows "\<exists>K kp secp res. m_privkeys t = Some kp \<and> mk_private K = SpendKey kp \<and> m_pubkeys t = Some (mk_public K) \<and>
    m_secp256k1Pub t = Some (mk_secp K) \<and> SK_PublicSpendKey msg = Some (mk_takerSpend K) \<and>
    SK_PrivateViewKey msg = Some (mk_takerView K) \<and> SK_Secp256k1PublicKey msg = Some secp \<and>
    VerifyKeysAndProof (b_crypt B) (SK_DLEqProof msg) secp (mk_takerSpend K) = Ok res \<and>
    mk_takerSecp K = Secp256k1PublicKey_of res \<and> xmr_lock_safe B (ID off) K k (XmrTransfer dest amt)"
proof -
  obtain kp pub secp where t: "m_privkeys t = Some kp" "m_pubkeys t = Some pub" "m_secp256k1Pub t = Some secp"
      "trace d' = []" "OfferID (info_at (m_info t) d') = ID off"
      "swap_invar (b_chaindb B) (b_codecs B) (mgr_db (mgr d'))" "storable (z_lib (b_codecs B)) (info_at (m_info t) d')"
      "rv_privkey (recovered (b_chaindb B) (b_codecs B) (mgr_db (mgr d')) (ID off)) = Ok (SpendKey kp)"
    using maker_newSwapStateFromStart_Ok [OF assms(1-3,5)] assms(4) by auto
  obtain pk vk secp' res where keys: "SK_Secp256k1PublicKey msg = Some secp'" "SK_PublicSpendKey msg = Some pk"
      "SK_PrivateViewKey msg = Some vk" "VerifyKeysAndProof (b_crypt B) (SK_DLEqProof msg) secp' pk = Ok res"
    and s0: "ms s0 = t\<lparr>xmrtakerPublicSpendKey := Some pk, xmrtakerPrivateViewKey := Some vk,
        xmrtakerSecp256K1PublicKey := Some (Secp256k1PublicKey_of res)\<rparr>" "heap (mgr s0) = heap (mgr d')" "trace s0 = []"
      "swap_invar (b_chaindb B) (b_codecs B) (mgr_db (mgr s0))"
      "rv_privkey (recovered (b_chaindb B) (b_codecs B) (mgr_db (mgr s0)) (ID off)) = Ok (SpendKey kp)"
      "rv_cskeys (recovered (b_chaindb B) (b_codecs B) (mgr_db (mgr s0)) (ID off)) = Ok (pk, vk)"
    using maker_handleSendKeysMessage_Ok [OF assms(1) _ assms(6), of "ID off" "SpendKey kp"] t by (auto simp: info_at_def)
  define K where "K = \<lparr>mk_private = SpendKey kp, mk_public = pub, mk_secp = secp, mk_takerSpend = pk, mk_takerView = vk,
    mk_takerSecp = Secp256k1PublicKey_of res\<rparr>"
  have "maker_inv B (m_info t) (ID off) K s0"
    using assms(1) t s0 by (simp add: maker_inv_def K_def info_at_def)
  from maker_reach_inv [OF assms(7) this] assms(8)
  have "xmr_lock_safe B (ID off) K k (XmrTransfer dest amt)" by (auto simp: maker_inv_def)
  then show ?thesis using t keys by (intro exI [of _ K]) (simp add: K_def)
qed

section \<open>A swap of the maker up to the lock of XMR\<close>

definition demo_maker_info :: Info where
  "demo_maker_info = NewInfo 0 0 ''taker'' 17 ProvidesXMR (demo_whole 3 (- 1)) (demo_whole 6 (- 1)) (demo_whole 2 0) EthAssetETH
     KeysExchanged 20"

definition demo_maker_locked :: Info where
  "demo_maker_locked = SetStatus 0 XMRLocked (SetTimeouts 3600000000000 7200000000000 demo_maker_info)"

definition demo_maker_offer :: Offer where
  "demo_maker_offer = demo_offer\<lparr>ExchangeRate := Some (demo_whole 2 0)\<rparr>"

definition demo_lock_swap :: SwapCreatorSwap where
  "demo_lock_swap = \<lparr>Owner = 11, Claimer = 12, ClaimCommitment = 5, RefundCommitment = 5, Timeout1 = 3600, Timeout2 = 7200,
     Asset = 0, Value = 600000000000000000, Nonce = 8\<rparr>"

definition demo_lock_info :: EthereumSwapInfo where
  "demo_lock_info = \<lparr>StartNumber = 41, EthInfo_SwapID = 21, EthInfo_Swap = demo_lock_swap, SwapCreatorAddr = 3\<rparr>"

definition demo_maker :: "(unit, memstore) backend" where
  "demo_maker = (demo_backend (demo_swap_codecs [demo_maker_info, demo_maker_locked] [demo_lock_info])
      ((demo_eth (\<lambda>_. 21))\<lparr>abi_Unpack_New := (\<lambda>_. Inr [AbiBytes32 21, AbiBytes32 5, AbiBytes32 5, AbiUint256 3600, AbiUint256 7200,
         AbiAddress 0, AbiUint256 600000000000000000])\<rparr>))
     \<lparr>b_node := demo_node\<lparr>n_TransactionReceipt := (\<lambda>_. ret (demo_receipt\<lparr>Receipt_Logs := [\<lparr>Log_Address = 3, Topics = [104],
         Data = [2], Removed = False\<rparr>]\<rparr>))\<rparr>\<rparr>"

lemma demo_maker_simps:
  "b_chaindb demo_maker = memdb" "b_codecs demo_maker = demo_swap_codecs [demo_maker_info, demo_maker_locked] [demo_lock_info]"
  "b_crypt demo_maker = demo_keys" "b_wallet demo_maker = demo_wallet" "b_extern demo_maker = demo_extern" "b_net demo_maker = demo_net"
  "b_node demo_maker = demo_node\<lparr>n_TransactionReceipt := (\<lambda>_. ret (demo_receipt\<lparr>Receipt_Logs := [\<lparr>Log_Address = 3, Topics = [104],
         Data = [2], Removed = False\<rparr>]\<rparr>))\<rparr>" "b_swapCreatorAddr demo_maker = 3" "b_env demo_maker = Stagenet"
  by (simp_all add: demo_maker_def demo_backend_def)

lemma demo_maker_eth: "readyTopic (b_ethlib demo_maker) = 103" "newTopic (b_ethlib demo_maker) = 104"
  "SwapID (b_ethlib demo_maker) sw = Ok 21"
  "abi_Unpack_New (b_ethlib demo_maker) b = Inr [AbiBytes32 21, AbiBytes32 5, AbiBytes32 5, AbiUint256 3600, AbiUint256 7200,
     AbiAddress 0, AbiUint256 600000000000000000]"
  by (simp_all add: demo_maker_def demo_backend_def demo_eth_def SwapID_def)

lemma demo_maker_amounts:
  "AsMonero demo_arith (demo_whole 3 11) = Ok (demo_whole 3 (- 1))"
  "MoneroToPiconero demo_arith (demo_whole 3 (- 1)) = Ok (demo_whole 3 11)"
  "ExceedsDecimals demo_arith (demo_whole 6 (- 1)) NumEtherDecimals = (False, demo_whole 6 (- 1))"
  by (simp_all add: AsMonero_def MoneroToPiconero_def demo_arith_def ref_apd_def decreaseExponent_def
      increaseExponent_def demo_whole_def NumEtherDecimals_def NumMoneroDecimals_def ref_Reduce_def strip_zeros.simps
      ExceedsDecimals_def NumDecimals_def numDigits.simps MaxCoinPrecision_def roundToDecimalPlace_def ref_Quantize_def
      ref_integral_def Let_def)

lemma demo_maker_info_simps: "OfferID demo_maker_info = 17" "Info_Status demo_maker_info = KeysExchanged" "Info_EthAsset demo_maker_info = EthAssetETH"
  "ProvidedAmount demo_maker_info = demo_whole 3 (- 1)" "ExpectedAmount demo_maker_info = demo_whole 6 (- 1)"
  "demo_maker_info \<noteq> demo_maker_locked" "demo_maker_locked \<noteq> demo_maker_info"
proof -
  show *: "demo_maker_info \<noteq> demo_maker_locked"
    by (rule notI, drule arg_cong [of _ _ Info_Status]) (simp add: demo_maker_locked_def SetTimeouts_def demo_maker_info_def NewInfo_def)
  show "demo_maker_locked \<noteq> demo_maker_info" using * by simp
qed (simp_all add: demo_maker_info_def NewInfo_def)

lemma demo_marshal_maker:
  "MarshalStruct (enum_codec [demo_maker_info, demo_maker_locked]) demo_maker_info = Inr [0]"
  "MarshalStruct (enum_codec [demo_maker_info, demo_maker_locked]) demo_maker_locked = Inr [1]"
  by (simp_all add: MarshalStruct_def enum_codec_def demo_maker_info_simps)

definition demo_host :: "(unit, memstore) makerHost" where
  "demo_host = daemon.extend demo_daemon \<lparr>offerMem = Map.empty\<rparr>"

definition demo_maker_swap :: maker_swap where
  "demo_maker_swap = \<lparr>m_sender = PrivateKeySender 3 3 None, m_info = 0, m_offer = demo_maker_offer, m_offerExtra = NewOfferExtra False,
       m_dleqProof = Some \<lparr>proof_secret = replicate 32 6, proof_data = [9]\<rparr>, m_secp256k1Pub = Some demo_secp, m_privkeys = Some demo_pair,
       m_pubkeys = Some (PublicKeyPair_of demo_keys demo_pair),
       m_swapCreatorAddr = 0, m_contractSwapID = 0, m_contractSwap = None, m_t1 = 0, m_t2 = 0,
       xmrtakerPublicSpendKey = None, xmrtakerPrivateViewKey = None, xmrtakerSecp256K1PublicKey = None,
       moneroStartHeight = 20, m_nextExpectedEvent = EventETHLockedType,
       readyWatcher = NewEventFilter 3 40 103,
       readyCh_closed = False, m_cancelled = False, m_done_closed = False,
       m_T1_started = False\<rparr>"

definition demo_maker_mgr :: "memstore manager" where
  "demo_maker_mgr = \<lparr>mgr_db = \<lparr>entries = [((swapPrefix, hash_bytes 17), [0]),
       ((recoveryPrefix, getRecoveryDBKey 17 swapPrivateKeyPrefix), [0])], readonly = False\<rparr>,
     heap = (heap (empty_manager demo_store))(0 := demo_maker_info), next_ptr = Suc 0, ongoing = [17 \<mapsto> 0], past = Map.empty,
     statusChannels = [17 \<mapsto> 0], chan_buf = (\<lambda>_. [])(0 := [KeysExchanged]), next_chan = Suc 0\<rparr>"

lemma demo_maker_starts:
  "maker_newSwapStateFromStart demo_maker ''taker'' demo_maker_offer (NewOfferExtra False) (demo_whole 3 11) (Wei (demo_whole 6 17)) demo_host =
     (Ok demo_maker_swap, demo_host\<lparr>mgr := demo_maker_mgr\<rparr>)"
  by (simp add: maker_newSwapStateFromStart_def demo_run demo_maker_simps demo_amounts demo_maker_amounts demo_wallet_def demo_node_def now_def
      demo_host_def demo_daemon_def daemon.defs Let_def MinSpendConfirmations_def empty_manager_def demo_header_def NewOfferExtra_def demo_maker_offer_def demo_offer_def
      demo_maker_info_def [symmetric])
    (simp add: demo_run demo_maker_simps demo_amounts MinSpendConfirmations_def demo_maker_info_simps AddSwap_def swap_ops_def PutSwap_def memdb_def mem_write_def
      demo_store_def demo_marshal_maker demo_marshal_single maker_newSwapState_def info_at_def maker_generateAndSetKeys_def demo_extern_def demo_generate
      PutSwapPrivateKey_def recovery_put_struct_def recovery_put_def PushNewStatus_def getStatusChan_def chan_send_def NewTxSender_def
      HasPrivateKey_def EthAsset_IsETH_def demo_maker_swap_def demo_maker_mgr_def empty_manager_def demo_pair_def statusChSize_def
      demo_maker_offer_def demo_offer_def NewOfferExtra_def demo_maker_eth)

definition demo_maker_ready :: "(unit, memstore) maker" where
  "demo_maker_ready = start_maker (demo_maker_swap\<lparr>xmrtakerPublicSpendKey := Some [9], xmrtakerPrivateViewKey := Some [8],
     xmrtakerSecp256K1PublicKey := Some demo_secp\<rparr>) (demo_host\<lparr>mgr := demo_maker_mgr\<lparr>mgr_db := \<lparr>entries = [((swapPrefix, hash_bytes 17), [0]),
       ((recoveryPrefix, getRecoveryDBKey 17 swapPrivateKeyPrefix), [0]),
       ((recoveryPrefix, getRecoveryDBKey 17 counterpartySwapKeysPrefix), [0])], readonly = False\<rparr>\<rparr>\<rparr>)"

lemma demo_maker_keys:
  "maker_handleSendKeysMessage demo_maker demo_keys_msg (start_maker demo_maker_swap (demo_host\<lparr>mgr := demo_maker_mgr\<rparr>)) =
     (Ok (), demo_maker_ready)"
  by (simp add: maker_handleSendKeysMessage_def demo_keys_msg_def demo_run demo_maker_simps demo_verify setXMRTakerKeys_def set_ms_def
      start_maker_def demo_host_def demo_daemon_def daemon.defs makerHost.defs demo_maker_swap_def demo_maker_mgr_def info_at_def
      demo_maker_info_simps PutCounterpartySwapKeys_def recovery_put_struct_def recovery_put_def demo_marshal_single memdb_def mem_write_def
      demo_prefixes demo_maker_ready_def)

definition demo_locked_msg :: NotifyETHLocked where
  "demo_locked_msg = \<lparr>NL_Address = 3, NL_TxHash = 77, NL_ContractSwapID = 21, NL_ContractSwap = demo_lock_swap\<rparr>"

definition demo_xmr_db :: memstore where
  "demo_xmr_db = \<lparr>entries = [((swapPrefix, hash_bytes 17), [1]),
     ((recoveryPrefix, getRecoveryDBKey 17 swapPrivateKeyPrefix), [0]),
     ((recoveryPrefix, getRecoveryDBKey 17 counterpartySwapKeysPrefix), [0]),
     ((recoveryPrefix, getRecoveryDBKey 17 contractSwapInfoPrefix), [0])], readonly = False\<rparr>"

definition demo_dest :: MoneroAddress where
  "demo_dest = (24 # copy_n 32 (map2 (+) [9] (replicate 32 6)) @ copy_n 32 (map2 (+) [8] (scReduce32 5))) @ take 4 (hash_bytes 5)"

lemma demo_prefixes_contract: "contractSwapInfoPrefix \<noteq> counterpartySwapKeysPrefix" "swapPrivateKeyPrefix \<noteq> contractSwapInfoPrefix"
  "contractSwapInfoPrefix \<noteq> swapPrivateKeyPrefix" "counterpartySwapKeysPrefix \<noteq> contractSwapInfoPrefix"
  by (simp_all add: recovery_prefix_defs)

lemma demo_swapDest:
  "m_pubkeys t = Some (PublicKeyPair_of demo_keys demo_pair) \<Longrightarrow> xmrtakerPublicSpendKey t = Some [9] \<Longrightarrow> xmrtakerPrivateViewKey t = Some [8] \<Longrightarrow>
    swapDestAddr demo_maker t = Ok demo_dest"
  by (simp add: swapDestAddr_def demo_maker_simps demo_keys_def NewPublicKeyPair_def SumSpendAndViewKeys_def SumPublicKeys_def PublicKeyPair_of_def
      PublicKeyPair_Address_def Public_def demo_pair_def Let_def getChecksum_def demo_dest_def netPrefix_defs)

lemma demo_checkContract:
  "m_swapCreatorAddr (ms s) = 3 \<Longrightarrow> m_contractSwapID (ms s) = 21 \<Longrightarrow> m_contractSwap (ms s) = Some demo_lock_swap \<Longrightarrow>
   m_secp256k1Pub (ms s) = Some demo_secp \<Longrightarrow> xmrtakerSecp256K1PublicKey (ms s) = Some demo_secp \<Longrightarrow>
   ExpectedAmount (heap (mgr s) (m_info (ms s))) = demo_whole 6 (- 1) \<Longrightarrow>
   checkContract demo_maker 77 s = (Ok (), s\<lparr>world := (), mgr := (mgr s)\<lparr>heap := (heap (mgr s))(m_info (ms s) :=
     (heap (mgr s) (m_info (ms s)))\<lparr>ExpectedAmount := demo_whole 6 (- 1)\<rparr>)\<rparr>\<rparr>)"
  by (simp add: checkContract_def demo_run wrapping_def demo_maker_simps demo_node_def get_ms_def WaitForReceipt_first demo_receipt_def
     ParseNew_def demo_maker_eth check_new_event_def demo_hash_same demo_lock_swap_def set_info_def getEthAssetAmount_def EthAsset_IsToken_def EthAssetETH_def info_at_def
     demo_maker_amounts demo_amounts Let_def)

lemma demo_timeouts:
  "checkAndSetTimeouts demo_maker 3600 7200 s = (Ok (), s\<lparr>ms := (ms s)\<lparr>m_t1 := 3600000000000, m_t2 := 7200000000000\<rparr>,
     mgr := (mgr s)\<lparr>heap := (heap (mgr s))(m_info (ms s) := SetTimeouts 3600000000000 7200000000000 (heap (mgr s) (m_info (ms s))))\<rparr>\<rparr>)"
  by (simp add: checkAndSetTimeouts_def maker_setTimeouts_def set_ms_def get_ms_def set_info_def demo_run demo_maker_simps SwapTimeoutFromEnv_def
     now_def demo_node_def time_Unix_def unixToInternal_def time_Sub_def duration_Abs_def Let_def)

lemma demo_maker_same: "demo_maker_info\<lparr>ExpectedAmount := demo_whole 6 (- 1)\<rparr> = demo_maker_info"
  by (simp add: demo_maker_info_def NewInfo_def)

lemma demo_lock_times: "Timeout1 demo_lock_swap = 3600" "Timeout2 demo_lock_swap = 7200"
  by (simp_all add: demo_lock_swap_def)

lemma SetTimeouts_amounts: "ProvidedAmount (SetTimeouts a b i) = ProvidedAmount i" "OfferID (SetTimeouts a b i) = OfferID i"
   "OfferID demo_maker_locked = 17"
  by (simp_all add: SetTimeouts_def demo_maker_locked_def demo_maker_info_def NewInfo_def)

lemma demo_maker_locks:
  "(XmrTransfer demo_dest (demo_whole 3 11), demo_xmr_db) \<in>
     set (trace (snd (maker_deliver demo_maker (EventETHLocked demo_locked_msg) demo_maker_ready)))"
  by (simp add: maker_deliver_def maker_handleEvent_def deferred_def handleNotifyETHLocked_def demo_run get_ms_def set_ms_def demo_locked_msg_def
     demo_maker_ready_def start_maker_def demo_host_def demo_daemon_def daemon.defs makerHost.defs demo_maker_swap_def IsHashZero_def EmptyHash_def demo_maker_eth)
    (simp add: demo_run get_ms_def set_ms_def waitForNewSwapReceipt_def
     poll_receipt.simps(2) [of _ 9, simplified] demo_maker_simps demo_node_def demo_receipt_def CheckSwapCreatorContractCode_def wrapping_def setContract_def
     info_at_def demo_maker_mgr_def demo_maker_info_simps PutContractSwapInfo_def recovery_put_struct_def recovery_put_def demo_lock_info_def [symmetric]
     demo_marshal_single memdb_def mem_write_def demo_prefixes demo_prefixes_contract demo_checkContract demo_maker_same
     demo_lock_times demo_timeouts demo_maker_amounts lockFunds_def demo_swapDest demo_wallet_def maker_setNextExpectedEvent_def Let_def
     maker_updateStatus_def updateStatus_def set_info_def now_def PushNewStatus_def getStatusChan_def chan_send_def statusChSize_def WriteSwapToDB_def swap_ops_def
     PutSwap_def perform_def SetTimeouts_amounts demo_maker_locked_def [symmetric] demo_marshal_maker demo_net_def maker_close_errCh_def demo_xmr_db_def)

lemma demo_maker_codecs:
  "recovery_codecs (demo_swap_codecs [demo_maker_info, demo_maker_locked] [demo_lock_info])"
  "swap_invar memdb (demo_swap_codecs [demo_maker_info, demo_maker_locked] [demo_lock_info]) demo_store"
proof -
  show "recovery_codecs (demo_swap_codecs [demo_maker_info, demo_maker_locked] [demo_lock_info])"
    by (simp add: recovery_codecs_def demo_swap_codecs_def demo_codecs_def enum_codec_law)
  have "Info_Version i = Some CurInfoVersion" if "json_Marshal (enum_codec [demo_maker_info, demo_maker_locked]) i = Inr b" for i b
    using that by (auto simp: enum_codec_def demo_maker_locked_def demo_maker_info_def NewInfo_def SetTimeouts_def split: option.splits if_splits)
  then have "info_codec_law (\<lambda>b. Inr (Some CurInfoVersion)) (enum_codec [demo_maker_info, demo_maker_locked])"
    by (simp add: info_codec_law_def enum_codec_law)
  then show "swap_invar memdb (demo_swap_codecs [demo_maker_info, demo_maker_locked] [demo_lock_info]) demo_store"
    by (simp add: swap_invar_def memdb_laws demo_content stored_swap_def) (simp add: demo_swap_codecs_def demo_codecs_def)
qed

theorem xmr_locked_behind_eth_witness:
  "(XmrTransfer demo_dest (demo_whole 3 11), demo_xmr_db) \<in>
     set (trace (snd (maker_deliver demo_maker (EventETHLocked demo_locked_msg) demo_maker_ready))) \<and>
   (\<exists>K. mk_private K = replicate 32 6 \<and> mk_takerSpend K = [9] \<and> mk_takerView K = [8] \<and>
      xmr_lock_safe demo_maker 17 K demo_xmr_db (XmrTransfer demo_dest (demo_whole 3 11)))"
proof
  show locked: "(XmrTransfer demo_dest (demo_whole 3 11), demo_xmr_db) \<in>
     set (trace (snd (maker_deliver demo_maker (EventETHLocked demo_locked_msg) demo_maker_ready)))"
    by (rule demo_maker_locks)
  have "trace demo_host = []" "mgr_db (mgr demo_host) = demo_store" "ID demo_maker_offer = 17"
    "\<not> GreaterThan (z_lib (b_codecs demo_maker)) CurInfoVersion CurInfoVersion"
    by (simp_all add: demo_host_def demo_daemon_def daemon.defs empty_manager_def demo_maker_offer_def demo_offer_def demo_maker_simps
        demo_swap_codecs_def demo_codecs_def demo_lib_def)
  then show "\<exists>K. mk_private K = replicate 32 6 \<and> mk_takerSpend K = [9] \<and> mk_takerView K = [8] \<and>
      xmr_lock_safe demo_maker 17 K demo_xmr_db (XmrTransfer demo_dest (demo_whole 3 11))"
    using xmr_locked_behind_eth [OF _ _ _ _ demo_maker_starts demo_maker_keys maker_reach.maker_event [OF maker_reach.maker_start] locked]
      demo_maker_codecs
    by (simp add: demo_maker_simps) (auto simp: demo_maker_swap_def demo_pair_def demo_keys_msg_def)
qed

end
