(* ===== verification/Solidity_Prelude.thy ===== *)
theory Solidity_Prelude
  imports Go_Prelude
begin

text \<open>
  What the contracts written in Solidity 0.8 share: results that are an error or a value, the checked
  arithmetic of \<open>uint256\<close>, which reverts on overflow and on division by zero, and sums over a mapping.
  Every operation is characterised by \<^term>\<open>unat\<close>, so that proofs about amounts are proofs about
  natural numbers.
\<close>

type_synonym uint256 = "256 word"

definition uint256_max :: uint256 where "uint256_max = - 1"

section \<open>Results\<close>

text \<open>The errors of the contracts, a failed \<open>require\<close>, and the compiler's panics with their codes.\<close>

datatype sol_error =
    RequireFailed string
  | PanicCode nat
  | CallFailed
  | ReentrancyGuardReentrantCall
  | OwnableUnauthorizedAccount address | OwnableInvalidOwner address
  | OnlyVaultManager
  | ZeroAddress | ZeroAmount | VaultAlreadyExists | VaultDoesNotExist | VaultNotActive
  | InsufficientCollateral | InvalidCollateralAsset | InvalidMintRequest | InvalidBurnRequest
  | MintAlreadyExists | BurnAlreadyExists | Vault_InvalidSecret | InvalidStatus | TimeoutNotReached
  | DeadlineExpired | DeadlineNotExpired | VaultHealthy | InsufficientDebt | Unauthorized
  | Vault_InvalidValue | StalePrice | InvalidAsset

type_synonym 'a sol = "sol_error + 'a"

named_theorems sol_Inr \<open>when a computation succeeds\<close>

definition rb :: "'a sol \<Rightarrow> ('a \<Rightarrow> 'b sol) \<Rightarrow> 'b sol" where
  "rb r f = (case r of Inl e \<Rightarrow> Inl e | Inr x \<Rightarrow> f x)"

definition revert_if :: "bool \<Rightarrow> sol_error \<Rightarrow> 'a sol \<Rightarrow> 'a sol" where
  "revert_if b e r = (if b then Inl e else r)"

lemma rb_Inr [sol_Inr]: "rb r f = Inr y \<longleftrightarrow> (\<exists>x. r = Inr x \<and> f x = Inr y)"
  by (cases r) (simp_all add: rb_def)

lemma revert_if_Inr [sol_Inr]: "revert_if b e r = Inr y \<longleftrightarrow> \<not> b \<and> r = Inr y"
  by (simp add: revert_if_def)

lemma rb_simps [simp]: "rb (Inr x) f = f x" "rb (Inl e) f = Inl e"
  by (simp_all add: rb_def)

lemma revert_if_simps [simp]: "revert_if True e r = Inl e" "revert_if False e r = r"
  by (simp_all add: revert_if_def)

text \<open>The value of a result, when there is one.\<close>

definition value_of :: "'a sol \<Rightarrow> 'a option" where
  "value_of r = (case r of Inl e \<Rightarrow> None | Inr x \<Rightarrow> Some x)"

lemma value_of_simps [simp]:
  "value_of (Inr x) = Some x" "value_of (Inl e) = None"
  "value_of (revert_if b e r) = (if b then None else value_of r)"
  by (simp_all add: value_of_def)

section \<open>Checked arithmetic\<close>

definition checked_add :: "uint256 \<Rightarrow> uint256 \<Rightarrow> uint256 sol" where
  "checked_add a b = (if unat a + unat b < 2 ^ 256 then Inr (a + b) else Inl (PanicCode 0x11))"

definition checked_sub :: "uint256 \<Rightarrow> uint256 \<Rightarrow> uint256 sol" where
  "checked_sub a b = (if b \<le> a then Inr (a - b) else Inl (PanicCode 0x11))"

definition checked_mul :: "uint256 \<Rightarrow> uint256 \<Rightarrow> uint256 sol" where
  "checked_mul a b = (if unat a * unat b < 2 ^ 256 then Inr (a * b) else Inl (PanicCode 0x11))"

definition checked_div :: "uint256 \<Rightarrow> uint256 \<Rightarrow> uint256 sol" where
  "checked_div a b = (if b = 0 then Inl (PanicCode 0x12) else Inr (a div b))"

text \<open>\<open>10 ** n\<close>, whose type is \<open>uint256\<close>.\<close>

definition checked_pow10 :: "nat \<Rightarrow> uint256 sol" where
  "checked_pow10 n = (if 10 ^ n < (2 ^ 256 :: nat) then Inr (of_nat (10 ^ n)) else Inl (PanicCode 0x11))"

lemma uint256_bound: "unat (a :: uint256) < 2 ^ 256"
  using unsigned_less [of a] by simp

lemma uint256_eqI: "unat a = unat b \<Longrightarrow> a = (b :: uint256)"
  by (simp add: word_unat_eq_iff)

lemma checked_add_Inr [sol_Inr]: "checked_add a b = Inr c \<longleftrightarrow> unat c = unat a + unat b"
  using uint256_bound [of c]
  by (auto simp: checked_add_def unat_word_ariths intro!: uint256_eqI split: if_splits)

lemma checked_sub_Inr [sol_Inr]: "checked_sub a b = Inr c \<longleftrightarrow> unat c + unat b = unat a"
  by (auto simp: checked_sub_def unat_sub word_le_nat_alt intro!: uint256_eqI)

lemma checked_mul_Inr [sol_Inr]: "checked_mul a b = Inr c \<longleftrightarrow> unat c = unat a * unat b"
  using uint256_bound [of c]
  by (auto simp: checked_mul_def unat_word_ariths intro!: uint256_eqI split: if_splits)

lemma checked_div_Inr [sol_Inr]: "checked_div a b = Inr c \<longleftrightarrow> b \<noteq> 0 \<and> unat c = unat a div unat b"
  by (auto simp: checked_div_def unat_div intro!: uint256_eqI)

lemma checked_pow10_Inr [sol_Inr]: "checked_pow10 n = Inr c \<longleftrightarrow> unat c = 10 ^ n"
  using uint256_bound [of c] unat_of_nat [where 'a = 256, of "10 ^ n"]
  by (auto simp: checked_pow10_def intro!: uint256_eqI split: if_splits)

section \<open>Sums over mappings\<close>

text \<open>
  The keys of a mapping are words, so sums over all keys are finite. Storing a value under a key
  changes the sum by the difference at that key.
\<close>

lemma sum_upd:
  fixes F :: "'k :: finite \<Rightarrow> 'v \<Rightarrow> nat"
  shows "(\<Sum>x\<in>UNIV. F x ((f(k := v)) x)) + F k (f k) = (\<Sum>x\<in>UNIV. F x (f x)) + F k v"
proof -
  have "(\<Sum>x\<in>UNIV. F x ((f(k := v)) x)) = F k v + (\<Sum>x\<in>UNIV - {k}. F x (f x))"
    by (simp add: sum.remove [of UNIV k])
  moreover have "(\<Sum>x\<in>UNIV. F x (f x)) = F k (f k) + (\<Sum>x\<in>UNIV - {k}. F x (f x))"
    by (simp add: sum.remove [of UNIV k])
  ultimately show ?thesis by simp
qed

lemma sum_member:
  fixes F :: "'k :: finite \<Rightarrow> nat"
  shows "F k \<le> (\<Sum>x\<in>UNIV. F x)"
  by (rule member_le_sum) simp_all

end
