(* ===== verification/Wsxmr_Token.thy ===== *)
theory Wsxmr_Token
  imports Solidity_Prelude
begin

text \<open>
  The token \<open>ethereum/contracts/wsXMR.sol\<close> with the contracts that it inherits, OpenZeppelin's \<open>ERC20\<close>
  and \<open>Ownable\<close>. The private functions of \<open>ERC20\<close> (\<open>_transfer\<close>, \<open>_mint\<close>, ...) have the prefix \<open>tok\<close>.
  Where the source says \<open>unchecked\<close> the operations are those of words, which wrap around.

  The lemmas show that the balances always sum to the total supply, so that none of the unchecked
  operations wraps, and that the contract refines a token on natural numbers.
\<close>

section \<open>Ownable.sol\<close>

definition checkOwner :: "address \<Rightarrow> address \<Rightarrow> unit sol" where
  "checkOwner own from = revert_if (own \<noteq> from) (OwnableUnauthorizedAccount from) (Inr ())"

text \<open>The new owner after \<open>transferOwnership\<close> and \<open>renounceOwnership\<close>.\<close>

definition transferOwnership :: "address \<Rightarrow> address \<Rightarrow> address \<Rightarrow> address sol" where
  "transferOwnership own from newOwner =
     rb (checkOwner own from) (\<lambda>_.
     revert_if (newOwner = 0) (OwnableInvalidOwner 0) (Inr newOwner))"

definition renounceOwnership :: "address \<Rightarrow> address \<Rightarrow> address sol" where
  "renounceOwnership own from = rb (checkOwner own from) (\<lambda>_. Inr 0)"

lemma checkOwner_Inr [sol_Inr]: "checkOwner own from = Inr u \<longleftrightarrow> own = from"
  by (simp add: checkOwner_def sol_Inr)

section \<open>ERC20.sol\<close>

datatype token_event =
    TransferEvent address address uint256
  | ApprovalEvent address address uint256
  | VaultManagerUpdated address address
  | TokenOwnershipTransferred address address

record erc20 =
  tok_balances :: "address \<Rightarrow> uint256"
  tok_allowances :: "address \<Rightarrow> address \<Rightarrow> uint256"
  tok_totalSupply :: uint256
  tok_name :: string
  tok_symbol :: string
  tok_logs :: "token_event list"

definition tok_emit :: "token_event \<Rightarrow> 'z erc20_scheme \<Rightarrow> 'z erc20_scheme" where
  "tok_emit e t = t\<lparr>tok_logs := tok_logs t @ [e]\<rparr>"

definition set_balance :: "address \<Rightarrow> uint256 \<Rightarrow> 'z erc20_scheme \<Rightarrow> 'z erc20_scheme" where
  "set_balance a v t = t\<lparr>tok_balances := (tok_balances t)(a := v)\<rparr>"

definition tok_transfer :: "address \<Rightarrow> address \<Rightarrow> uint256 \<Rightarrow> 'z erc20_scheme \<Rightarrow> 'z erc20_scheme sol" where
  "tok_transfer from to v t =
     revert_if (from = 0) (RequireFailed ''ERC20: transfer from the zero address'')
     (revert_if (to = 0) (RequireFailed ''ERC20: transfer to the zero address'')
     (let fromBalance = tok_balances t from in
      revert_if (fromBalance < v) (RequireFailed ''ERC20: transfer amount exceeds balance'')
      (let t1 = set_balance from (fromBalance - v) t;
           t2 = set_balance to (tok_balances t1 to + v) t1 in
       Inr (tok_emit (TransferEvent from to v) t2))))"

definition tok_mint :: "address \<Rightarrow> uint256 \<Rightarrow> 'z erc20_scheme \<Rightarrow> 'z erc20_scheme sol" where
  "tok_mint a v t =
     revert_if (a = 0) (RequireFailed ''ERC20: mint to the zero address'')
     (rb (checked_add (tok_totalSupply t) v) (\<lambda>newSupply.
      let t1 = t\<lparr>tok_totalSupply := newSupply\<rparr>;
          t2 = set_balance a (tok_balances t1 a + v) t1 in
      Inr (tok_emit (TransferEvent 0 a v) t2)))"

definition tok_burn :: "address \<Rightarrow> uint256 \<Rightarrow> 'z erc20_scheme \<Rightarrow> 'z erc20_scheme sol" where
  "tok_burn a v t =
     revert_if (a = 0) (RequireFailed ''ERC20: burn from the zero address'')
     (let accountBalance = tok_balances t a in
      revert_if (accountBalance < v) (RequireFailed ''ERC20: burn amount exceeds balance'')
      (let t1 = set_balance a (accountBalance - v) t;
           t2 = t1\<lparr>tok_totalSupply := tok_totalSupply t1 - v\<rparr> in
       Inr (tok_emit (TransferEvent a 0 v) t2)))"

definition tok_approve :: "address \<Rightarrow> address \<Rightarrow> uint256 \<Rightarrow> 'z erc20_scheme \<Rightarrow> 'z erc20_scheme sol" where
  "tok_approve own spender v t =
     revert_if (own = 0) (RequireFailed ''ERC20: approve from the zero address'')
     (revert_if (spender = 0) (RequireFailed ''ERC20: approve to the zero address'')
     (Inr (tok_emit (ApprovalEvent own spender v)
        (t\<lparr>tok_allowances := (tok_allowances t)(own := (tok_allowances t own)(spender := v))\<rparr>))))"

definition tok_spendAllowance :: "address \<Rightarrow> address \<Rightarrow> uint256 \<Rightarrow> 'z erc20_scheme \<Rightarrow> 'z erc20_scheme sol" where
  "tok_spendAllowance own spender v t =
     (let currentAllowance = tok_allowances t own spender in
      if currentAllowance \<noteq> uint256_max
      then revert_if (currentAllowance < v) (RequireFailed ''ERC20: insufficient allowance'')
        (tok_approve own spender (currentAllowance - v) t)
      else Inr t)"

text \<open>The public functions; the first argument is the caller.\<close>

definition ERC20_transfer :: "address \<Rightarrow> address \<Rightarrow> uint256 \<Rightarrow> 'z erc20_scheme \<Rightarrow> 'z erc20_scheme sol" where
  "ERC20_transfer from to v t = tok_transfer from to v t"

definition ERC20_approve :: "address \<Rightarrow> address \<Rightarrow> uint256 \<Rightarrow> 'z erc20_scheme \<Rightarrow> 'z erc20_scheme sol" where
  "ERC20_approve from spender v t = tok_approve from spender v t"

definition ERC20_transferFrom :: "address \<Rightarrow> address \<Rightarrow> address \<Rightarrow> uint256 \<Rightarrow> 'z erc20_scheme \<Rightarrow> 'z erc20_scheme sol" where
  "ERC20_transferFrom spender from to v t =
     rb (tok_spendAllowance from spender v t) (tok_transfer from to v)"

definition ERC20_increaseAllowance :: "address \<Rightarrow> address \<Rightarrow> uint256 \<Rightarrow> 'z erc20_scheme \<Rightarrow> 'z erc20_scheme sol" where
  "ERC20_increaseAllowance from spender v t =
     rb (checked_add (tok_allowances t from spender) v) (\<lambda>s. tok_approve from spender s t)"

definition ERC20_decreaseAllowance :: "address \<Rightarrow> address \<Rightarrow> uint256 \<Rightarrow> 'z erc20_scheme \<Rightarrow> 'z erc20_scheme sol" where
  "ERC20_decreaseAllowance from spender v t =
     (let currentAllowance = tok_allowances t from spender in
      revert_if (currentAllowance < v) (RequireFailed ''ERC20: decreased allowance below zero'')
        (tok_approve from spender (currentAllowance - v) t))"

section \<open>wsXMR.sol\<close>

record wsXMR = erc20 +
  tok_owner :: address
  vaultManager :: address

definition wsXMR_constructor :: "address \<Rightarrow> wsXMR sol" where
  "wsXMR_constructor initialOwner =
     revert_if (initialOwner = 0) (OwnableInvalidOwner 0)
     (Inr \<lparr>tok_balances = (\<lambda>_. 0), tok_allowances = (\<lambda>_ _. 0), tok_totalSupply = 0,
        tok_name = ''Wrapsynth Monero'', tok_symbol = ''wsXMR'',
        tok_logs = [TokenOwnershipTransferred 0 initialOwner],
        tok_owner = initialOwner, vaultManager = 0\<rparr>)"

definition wsXMR_setVaultManager :: "address \<Rightarrow> address \<Rightarrow> wsXMR \<Rightarrow> wsXMR sol" where
  "wsXMR_setVaultManager from manager t =
     rb (checkOwner (tok_owner t) from) (\<lambda>_.
     revert_if (manager = 0) ZeroAddress
     (Inr (tok_emit (VaultManagerUpdated (vaultManager t) manager) (t\<lparr>vaultManager := manager\<rparr>))))"

definition wsXMR_mint :: "address \<Rightarrow> address \<Rightarrow> uint256 \<Rightarrow> wsXMR \<Rightarrow> wsXMR sol" where
  "wsXMR_mint from to v t = revert_if (from \<noteq> vaultManager t) OnlyVaultManager (tok_mint to v t)"

definition wsXMR_burn :: "address \<Rightarrow> address \<Rightarrow> uint256 \<Rightarrow> wsXMR \<Rightarrow> wsXMR sol" where
  "wsXMR_burn from holder v t = revert_if (from \<noteq> vaultManager t) OnlyVaultManager (tok_burn holder v t)"

definition wsXMR_decimals :: "8 word" where "wsXMR_decimals = 8"

definition wsXMR_owned_by :: "address \<Rightarrow> wsXMR \<Rightarrow> wsXMR" where
  "wsXMR_owned_by newOwner t =
     tok_emit (TokenOwnershipTransferred (tok_owner t) newOwner) (t\<lparr>tok_owner := newOwner\<rparr>)"

text \<open>The entry points of the token that change its state.\<close>

datatype token_call =
    Tok_transfer address uint256
  | Tok_approve address uint256
  | Tok_transferFrom address address uint256
  | Tok_increaseAllowance address uint256
  | Tok_decreaseAllowance address uint256
  | Tok_mint address uint256
  | Tok_burn address uint256
  | Tok_setVaultManager address
  | Tok_transferOwnership address
  | Tok_renounceOwnership

primrec exec_token :: "address \<Rightarrow> token_call \<Rightarrow> wsXMR \<Rightarrow> wsXMR sol" where
  "exec_token from (Tok_transfer to v) t = ERC20_transfer from to v t"
| "exec_token from (Tok_approve spender v) t = ERC20_approve from spender v t"
| "exec_token from (Tok_transferFrom holder to v) t = ERC20_transferFrom from holder to v t"
| "exec_token from (Tok_increaseAllowance spender v) t = ERC20_increaseAllowance from spender v t"
| "exec_token from (Tok_decreaseAllowance spender v) t = ERC20_decreaseAllowance from spender v t"
| "exec_token from (Tok_mint to v) t = wsXMR_mint from to v t"
| "exec_token from (Tok_burn holder v) t = wsXMR_burn from holder v t"
| "exec_token from (Tok_setVaultManager manager) t = wsXMR_setVaultManager from manager t"
| "exec_token from (Tok_transferOwnership newOwner) t =
     rb (transferOwnership (tok_owner t) from newOwner) (\<lambda>a. Inr (wsXMR_owned_by a t))"
| "exec_token from Tok_renounceOwnership t =
     rb (renounceOwnership (tok_owner t) from) (\<lambda>a. Inr (wsXMR_owned_by a t))"

section \<open>The balances sum to the supply\<close>

definition erc20_inv :: "'z erc20_scheme \<Rightarrow> bool" where
  "erc20_inv t \<longleftrightarrow> (\<Sum>x\<in>UNIV. unat (tok_balances t x)) = unat (tok_totalSupply t)"

lemma tok_emit_simps [simp]:
  "tok_balances (tok_emit e t) = tok_balances t" "tok_allowances (tok_emit e t) = tok_allowances t"
  "tok_totalSupply (tok_emit e t) = tok_totalSupply t" "tok_logs (tok_emit e t) = tok_logs t @ [e]"
  "tok_owner (tok_emit e w) = tok_owner w" "vaultManager (tok_emit e w) = vaultManager w"
  by (simp_all add: tok_emit_def)

lemma set_balance_simps [simp]:
  "tok_balances (set_balance a v t) = (tok_balances t)(a := v)" "tok_allowances (set_balance a v t) = tok_allowances t"
  "tok_totalSupply (set_balance a v t) = tok_totalSupply t" "tok_logs (set_balance a v t) = tok_logs t"
  "tok_owner (set_balance a v w) = tok_owner w" "vaultManager (set_balance a v w) = vaultManager w"
  by (simp_all add: set_balance_def)

lemma wsXMR_owned_by_simps [simp]:
  "tok_balances (wsXMR_owned_by a t) = tok_balances t" "tok_allowances (wsXMR_owned_by a t) = tok_allowances t"
  "tok_totalSupply (wsXMR_owned_by a t) = tok_totalSupply t" "vaultManager (wsXMR_owned_by a t) = vaultManager t"
  by (simp_all add: wsXMR_owned_by_def)

lemma balance_le_supply: "erc20_inv t \<Longrightarrow> unat (tok_balances t a) \<le> unat (tok_totalSupply t)"
  using sum_member [of "\<lambda>x. unat (tok_balances t x)" a] by (simp add: erc20_inv_def)

lemma two_balances_le_supply:
  assumes "erc20_inv t" "a \<noteq> b"
  shows "unat (tok_balances t a) + unat (tok_balances t b) \<le> unat (tok_totalSupply t)"
proof -
  have "(\<Sum>x\<in>{a, b}. unat (tok_balances t x)) \<le> (\<Sum>x\<in>UNIV. unat (tok_balances t x))"
    by (rule sum_mono2) simp_all
  then show ?thesis using assms by (simp add: erc20_inv_def)
qed

lemma unat_le_iff: "x < y \<longleftrightarrow> unat x < unat (y :: uint256)"
  by (rule word_less_nat_alt)

text \<open>The unchecked operations of a transfer do not wrap around.\<close>

lemma transfer_unat:
  assumes "erc20_inv t" "\<not> tok_balances t from < v"
  shows "unat (tok_balances t from - v) = unat (tok_balances t from) - unat v"
    and "unat (((tok_balances t)(from := tok_balances t from - v)) to + v) =
      unat (((tok_balances t)(from := tok_balances t from - v)) to) + unat v"
proof -
  show sub: "unat (tok_balances t from - v) = unat (tok_balances t from) - unat v"
    using assms(2) by (simp add: unat_sub not_less)
  have "unat v \<le> unat (tok_balances t from)" using assms(2) by (simp add: word_le_nat_alt not_less)
  moreover have "unat (tok_balances t from) < 2 ^ 256" by (rule uint256_bound)
  moreover have "to \<noteq> from \<Longrightarrow> unat (tok_balances t to) + unat v < 2 ^ 256"
    using two_balances_le_supply [OF assms(1), of to "from"] calculation(1) uint256_bound [of "tok_totalSupply t"]
    by linarith
  ultimately have "unat (((tok_balances t)(from := tok_balances t from - v)) to) + unat v < 2 ^ 256"
    using sub by auto
  then show "unat (((tok_balances t)(from := tok_balances t from - v)) to + v) =
      unat (((tok_balances t)(from := tok_balances t from - v)) to) + unat v"
    by (simp add: unat_word_ariths)
qed

lemma mint_unat:
  assumes "erc20_inv t" "unat (newSupply :: uint256) = unat (tok_totalSupply t) + unat v"
  shows "unat (tok_balances t a + v) = unat (tok_balances t a) + unat v"
proof -
  have "unat (tok_balances t a) + unat v < 2 ^ 256"
    using balance_le_supply [OF assms(1), of a] uint256_bound [of newSupply] assms(2) by linarith
  then show ?thesis by (simp add: unat_word_ariths)
qed

lemma burn_unat:
  assumes "erc20_inv t" "\<not> tok_balances t a < v"
  shows "unat (tok_balances t a - v) = unat (tok_balances t a) - unat v"
    and "unat (tok_totalSupply t - v) = unat (tok_totalSupply t) - unat v"
proof -
  have "unat v \<le> unat (tok_balances t a)" using assms(2) by (simp add: word_le_nat_alt not_less)
  then have "v \<le> tok_totalSupply t"
    using balance_le_supply [OF assms(1), of a] by (simp add: word_le_nat_alt)
  then show "unat (tok_totalSupply t - v) = unat (tok_totalSupply t) - unat v" by (rule unat_sub)
  show "unat (tok_balances t a - v) = unat (tok_balances t a) - unat v"
    using assms(2) by (simp add: unat_sub not_less)
qed

section \<open>A token on natural numbers\<close>

text \<open>
  The specification: balances and allowances are natural numbers and the supply is the sum of the
  balances. The largest allowance is not used up; a mint fails when the supply would not fit.
\<close>

record atoken =
  abal :: "address \<Rightarrow> nat"
  aallow :: "address \<Rightarrow> address \<Rightarrow> nat"
  aowner :: address
  amanager :: address

definition asupply :: "atoken \<Rightarrow> nat" where
  "asupply s = (\<Sum>x\<in>UNIV. abal s x)"

definition atransfer :: "address \<Rightarrow> address \<Rightarrow> nat \<Rightarrow> atoken \<Rightarrow> atoken option" where
  "atransfer from to v s =
     (if from = 0 \<or> to = 0 \<or> abal s from < v then None
      else let b = (abal s)(from := abal s from - v) in Some (s\<lparr>abal := b(to := b to + v)\<rparr>))"

definition aapprove :: "address \<Rightarrow> address \<Rightarrow> nat \<Rightarrow> atoken \<Rightarrow> atoken option" where
  "aapprove own spender v s =
     (if own = 0 \<or> spender = 0 then None
      else Some (s\<lparr>aallow := (aallow s)(own := (aallow s own)(spender := v))\<rparr>))"

definition aspend :: "address \<Rightarrow> address \<Rightarrow> nat \<Rightarrow> atoken \<Rightarrow> atoken option" where
  "aspend own spender v s =
     (if aallow s own spender = 2 ^ 256 - 1 then Some s
      else if aallow s own spender < v then None
      else aapprove own spender (aallow s own spender - v) s)"

primrec aexec :: "address \<Rightarrow> token_call \<Rightarrow> atoken \<Rightarrow> atoken option" where
  "aexec from (Tok_transfer to v) s = atransfer from to (unat v) s"
| "aexec from (Tok_approve spender v) s = aapprove from spender (unat v) s"
| "aexec from (Tok_transferFrom holder to v) s =
     Option.bind (aspend holder from (unat v) s) (atransfer holder to (unat v))"
| "aexec from (Tok_increaseAllowance spender v) s =
     (if aallow s from spender + unat v < 2 ^ 256 then aapprove from spender (aallow s from spender + unat v) s else None)"
| "aexec from (Tok_decreaseAllowance spender v) s =
     (if unat v \<le> aallow s from spender then aapprove from spender (aallow s from spender - unat v) s else None)"
| "aexec from (Tok_mint to v) s =
     (if from = amanager s \<and> to \<noteq> 0 \<and> asupply s + unat v < 2 ^ 256
      then Some (s\<lparr>abal := (abal s)(to := abal s to + unat v)\<rparr>) else None)"
| "aexec from (Tok_burn holder v) s =
     (if from = amanager s \<and> holder \<noteq> 0 \<and> unat v \<le> abal s holder
      then Some (s\<lparr>abal := (abal s)(holder := abal s holder - unat v)\<rparr>) else None)"
| "aexec from (Tok_setVaultManager manager) s =
     (if from = aowner s \<and> manager \<noteq> 0 then Some (s\<lparr>amanager := manager\<rparr>) else None)"
| "aexec from (Tok_transferOwnership newOwner) s =
     (if from = aowner s \<and> newOwner \<noteq> 0 then Some (s\<lparr>aowner := newOwner\<rparr>) else None)"
| "aexec from Tok_renounceOwnership s = (if from = aowner s then Some (s\<lparr>aowner := 0\<rparr>) else None)"

definition abs_token :: "wsXMR \<Rightarrow> atoken" where
  "abs_token t = \<lparr>abal = (\<lambda>a. unat (tok_balances t a)), aallow = (\<lambda>a b. unat (tok_allowances t a b)),
     aowner = tok_owner t, amanager = vaultManager t\<rparr>"

lemma abs_token_simps [simp]:
  "abal (abs_token t) = (\<lambda>a. unat (tok_balances t a))" "aallow (abs_token t) = (\<lambda>a b. unat (tok_allowances t a b))"
  "aowner (abs_token t) = tok_owner t" "amanager (abs_token t) = vaultManager t"
  "abs_token (tok_emit e t) = abs_token t"
  by (simp_all add: abs_token_def)

lemma asupply_abs: "erc20_inv t \<Longrightarrow> asupply (abs_token t) = unat (tok_totalSupply t)"
  by (simp add: asupply_def erc20_inv_def)

lemma transfer_refines:
  assumes "erc20_inv t"
  shows "map_option abs_token (value_of (tok_transfer from to v t)) = atransfer from to (unat v) (abs_token t)"
  using transfer_unat(1) [OF assms, of "from" v] transfer_unat(2) [OF assms, of "from" v to]
  by (auto simp: tok_transfer_def atransfer_def Let_def abs_token_def unat_le_iff fun_eq_iff)

lemma approve_refines:
  "map_option abs_token (value_of (tok_approve own spender v t)) = aapprove own spender (unat v) (abs_token t)"
  by (auto simp: tok_approve_def aapprove_def abs_token_def fun_eq_iff)

lemma spend_refines:
  "map_option abs_token (value_of (tok_spendAllowance own spender v t)) = aspend own spender (unat v) (abs_token t)"
proof -
  have "unat (tok_allowances t own spender) = 2 ^ 256 - 1 \<longleftrightarrow> tok_allowances t own spender = uint256_max"
    by (simp add: uint256_max_def word_unat_eq_iff unsigned_minus_1_eq_mask mask_eq_exp_minus_1)
  then show ?thesis
    by (auto simp: tok_spendAllowance_def aspend_def Let_def unat_le_iff approve_refines unat_sub word_le_nat_alt not_less)
qed

lemma mint_refines:
  assumes "erc20_inv t"
  shows "map_option abs_token (value_of (wsXMR_mint from to v t)) = aexec from (Tok_mint to v) (abs_token t)"
proof (cases "checked_add (tok_totalSupply t) v")
  case (Inl e)
  then have "\<not> unat (tok_totalSupply t) + unat v < 2 ^ 256" by (auto simp: checked_add_def split: if_splits)
  with Inl show ?thesis
    by (simp add: wsXMR_mint_def tok_mint_def asupply_abs [OF assms] del: power_numeral)
next
  case (Inr newSupply)
  then have "unat newSupply = unat (tok_totalSupply t) + unat v" by (simp add: sol_Inr)
  then show ?thesis
    using Inr mint_unat [OF assms, of newSupply v to] uint256_bound [of newSupply]
    by (auto simp: wsXMR_mint_def tok_mint_def asupply_abs [OF assms, unfolded abs_token_def] Let_def abs_token_def fun_eq_iff)
qed

lemma burn_refines:
  assumes "erc20_inv t"
  shows "map_option abs_token (value_of (wsXMR_burn from holder v t)) = aexec from (Tok_burn holder v) (abs_token t)"
  using burn_unat(1) [OF assms, of holder v]
  by (auto simp: wsXMR_burn_def tok_burn_def Let_def abs_token_def fun_eq_iff unat_le_iff)

lemma spend_frame:
  "tok_spendAllowance own spender v t = Inr t' \<Longrightarrow>
     tok_balances t' = tok_balances t \<and> tok_totalSupply t' = tok_totalSupply t"
  by (auto simp: tok_spendAllowance_def tok_approve_def Let_def sol_Inr split: if_splits)

lemma erc20_inv_frame:
  "tok_balances t' = tok_balances t \<Longrightarrow> tok_totalSupply t' = tok_totalSupply t \<Longrightarrow> erc20_inv t' = erc20_inv t"
  by (simp add: erc20_inv_def)

lemma transfer_inv:
  assumes "erc20_inv t" "tok_transfer from to v t = Inr t'"
  shows "erc20_inv t'"
proof -
  let ?b = "tok_balances t" and ?b1 = "(tok_balances t)(from := tok_balances t from - v)"
  have le: "\<not> ?b from < v" and t': "tok_balances t' = ?b1(to := ?b1 to + v)" "tok_totalSupply t' = tok_totalSupply t"
    using assms(2) by (auto simp: tok_transfer_def Let_def sol_Inr)
  have "unat v \<le> unat (?b from)" using le by (simp add: word_le_nat_alt not_less)
  with sum_upd [of "\<lambda>_. unat" ?b "from" "?b from - v"] sum_upd [of "\<lambda>_. unat" ?b1 to "?b1 to + v"]
    transfer_unat [OF assms(1) le]
  have "(\<Sum>x\<in>UNIV. unat ((?b1(to := ?b1 to + v)) x)) = (\<Sum>x\<in>UNIV. unat (?b x))" by simp
  then show ?thesis using assms(1) by (simp add: erc20_inv_def t')
qed

lemma mint_effect:
  assumes "erc20_inv t" "tok_mint a v t = Inr t'"
  shows "erc20_inv t'" and "unat (tok_totalSupply t') = unat (tok_totalSupply t) + unat v"
proof -
  have t': "unat (tok_totalSupply t') = unat (tok_totalSupply t) + unat v"
      "tok_balances t' = (tok_balances t)(a := tok_balances t a + v)"
    using assms(2) by (auto simp: tok_mint_def Let_def sol_Inr)
  then show "unat (tok_totalSupply t') = unat (tok_totalSupply t) + unat v" by simp
  show "erc20_inv t'"
    using assms(1) mint_unat [OF assms(1) t'(1), of a] sum_upd [of "\<lambda>_. unat" "tok_balances t" a "tok_balances t a + v"]
    by (simp add: erc20_inv_def t')
qed

lemma burn_effect:
  assumes "erc20_inv t" "tok_burn a v t = Inr t'"
  shows "erc20_inv t'" and "unat (tok_totalSupply t') + unat v = unat (tok_totalSupply t)"
proof -
  have le: "\<not> tok_balances t a < v" and t': "tok_totalSupply t' = tok_totalSupply t - v"
      "tok_balances t' = (tok_balances t)(a := tok_balances t a - v)"
    using assms(2) by (auto simp: tok_burn_def Let_def sol_Inr)
  note u = burn_unat [OF assms(1) le]
  have v: "unat v \<le> unat (tok_balances t a)" using le by (simp add: word_le_nat_alt not_less)
  with balance_le_supply [OF assms(1), of a]
  show s: "unat (tok_totalSupply t') + unat v = unat (tok_totalSupply t)" by (simp add: t' u)
  show "erc20_inv t'"
    using assms(1) u v s sum_upd [of "\<lambda>_. unat" "tok_balances t" a "tok_balances t a - v"]
    by (simp add: erc20_inv_def t')
qed

lemma exec_token_inv:
  assumes "erc20_inv t" "exec_token from call t = Inr t'"
  shows "erc20_inv t'"
proof (cases call)
  case (Tok_transferFrom holder to v)
  with assms(2) obtain t1 where "tok_spendAllowance holder from v t = Inr t1" "tok_transfer holder to v t1 = Inr t'"
    by (auto simp: ERC20_transferFrom_def sol_Inr)
  then show ?thesis using assms(1) transfer_inv erc20_inv_frame spend_frame by metis
qed (use assms transfer_inv mint_effect(1) burn_effect(1) in
  \<open>auto simp: ERC20_transfer_def ERC20_approve_def ERC20_increaseAllowance_def ERC20_decreaseAllowance_def
    tok_approve_def wsXMR_mint_def wsXMR_burn_def wsXMR_setVaultManager_def Let_def erc20_inv_def sol_Inr\<close>)

lemma exec_token_refines:
  assumes "erc20_inv t"
  shows "map_option abs_token (value_of (exec_token from call t)) = aexec from call (abs_token t)"
proof (cases call)
  case (Tok_transferFrom holder to v)
  show ?thesis
  proof (cases "tok_spendAllowance holder from v t")
    case (Inl e)
    then show ?thesis by (simp add: Tok_transferFrom ERC20_transferFrom_def flip: spend_refines)
  next
    case (Inr t1)
    then have "erc20_inv t1" using assms spend_frame erc20_inv_frame by metis
    then show ?thesis
      using Inr by (simp add: Tok_transferFrom ERC20_transferFrom_def transfer_refines flip: spend_refines)
  qed
next
  case (Tok_increaseAllowance spender v)
  show ?thesis
  proof (cases "checked_add (tok_allowances t from spender) v")
    case (Inl e)
    then show ?thesis
      by (auto simp: Tok_increaseAllowance ERC20_increaseAllowance_def checked_add_def split: if_splits)
  next
    case (Inr s)
    then have "unat s = unat (tok_allowances t from spender) + unat v" by (simp add: sol_Inr)
    then show ?thesis
      using Inr uint256_bound [of s] by (simp add: Tok_increaseAllowance ERC20_increaseAllowance_def approve_refines)
  qed
qed (use assms in \<open>auto simp: ERC20_transfer_def transfer_refines ERC20_approve_def approve_refines
    ERC20_decreaseAllowance_def Let_def unat_le_iff unat_sub word_le_nat_alt not_less mint_refines burn_refines
    wsXMR_setVaultManager_def transferOwnership_def renounceOwnership_def checkOwner_def revert_if_def wsXMR_owned_by_def abs_token_def
    simp del: aexec.simps(6,7)\<close>)

text \<open>Sequences of calls; a call that reverts changes nothing.\<close>

definition run_token :: "(address \<times> token_call) list \<Rightarrow> wsXMR \<Rightarrow> wsXMR" where
  "run_token cs t = foldl (\<lambda>t (from, call). case exec_token from call t of Inl e \<Rightarrow> t | Inr t' \<Rightarrow> t') t cs"

definition arun :: "(address \<times> token_call) list \<Rightarrow> atoken \<Rightarrow> atoken" where
  "arun cs s = foldl (\<lambda>s (from, call). case aexec from call s of None \<Rightarrow> s | Some s' \<Rightarrow> s') s cs"

lemma run_token_refines:
  "erc20_inv t \<Longrightarrow> erc20_inv (run_token cs t) \<and> abs_token (run_token cs t) = arun cs (abs_token t)"
proof (induction cs arbitrary: t)
  case Nil
  then show ?case by (simp add: run_token_def arun_def)
next
  case (Cons c cs)
  obtain "from" call where c: "c = (from, call)" by (cases c)
  show ?case
  proof (cases "exec_token from call t")
    case (Inl e)
    then show ?thesis
      using Cons by (simp add: c run_token_def arun_def flip: exec_token_refines)
  next
    case (Inr t1)
    then show ?thesis
      using Cons.IH [OF exec_token_inv [OF Cons.prems Inr]] Cons.prems
      by (simp add: c run_token_def arun_def flip: exec_token_refines)
  qed
qed

lemma constructor_inv: "wsXMR_constructor own = Inr t \<Longrightarrow> erc20_inv t"
  by (auto simp: wsXMR_constructor_def erc20_inv_def sol_Inr)

text \<open>
  C19: the token implements its specification. After any calls, by anyone, following its creation, the
  contract with its words of 256 bits and its unchecked operations is in the state in which the
  specification on natural numbers is after the same calls, and its counter of the total supply is the
  sum of all balances.
\<close>

theorem token_refines_spec:
  assumes "wsXMR_constructor own = Inr t"
  shows "abs_token (run_token cs t) = arun cs (abs_token t) \<and>
    unat (tok_totalSupply (run_token cs t)) = asupply (arun cs (abs_token t))"
  using run_token_refines [OF constructor_inv [OF assms], of cs] asupply_abs [of "run_token cs t"] by simp

definition demo_token_calls :: "(address \<times> token_call) list" where
  "demo_token_calls = [(5, Tok_setVaultManager 9), (9, Tok_mint 3 100), (3, Tok_transfer 4 30), (3, Tok_transfer 4 80)]"

theorem token_refines_spec_witness:
  "\<exists>t. wsXMR_constructor 5 = Inr t \<and> abal (abs_token (run_token demo_token_calls t)) 4 = 30 \<and>
     unat (tok_totalSupply (run_token demo_token_calls t)) = asupply (arun demo_token_calls (abs_token t))"
proof -
  let ?t = "\<lparr>tok_balances = (\<lambda>_. 0), tok_allowances = (\<lambda>_ _. 0), tok_totalSupply = 0, tok_name = ''Wrapsynth Monero'',
    tok_symbol = ''wsXMR'', tok_logs = [TokenOwnershipTransferred 0 5], tok_owner = 5, vaultManager = 0\<rparr>"
  have t: "wsXMR_constructor 5 = Inr ?t" by (simp add: wsXMR_constructor_def tok_emit_def)
  have "abal (abs_token (run_token demo_token_calls ?t)) 4 = 30"
    by (simp add: run_token_def demo_token_calls_def wsXMR_setVaultManager_def checkOwner_def wsXMR_mint_def tok_mint_def checked_add_def set_balance_def
        ERC20_transfer_def tok_transfer_def Let_def)
  with token_refines_spec [OF t, of demo_token_calls] t show ?thesis
    by (intro exI [of _ ?t]) (simp del: abs_token_simps)
qed

end
