(* ===== verification/Vault_Manager.thy ===== *)
theory Vault_Manager
  imports Swap_Creator Wsxmr_Token
begin

text \<open>
  The contract \<open>ethereum/contracts/VaultManager.sol\<close>, with the token wsXMR that it mints and burns, one
  definition per function. The storage, the token and the ledger of the other assets are one record; a
  call reverts or gives the new record.

  Outside are Keccak-256 and \<open>ecrecover\<close> (the record \<open>evm\<close> of theory Swap_Creator), the collateral
  tokens, the Pyth oracle, whose answer comes with each call, and whoever receives a payment. A receiver
  and a collateral token run code of their own when they are called: \<open>react\<close> says which calls they make
  then, in the middle of the operation. Only the functions without the modifier \<open>nonReentrant\<close> can
  succeed at such a moment, so these, the calls of wsXMR and transfers of other holders are all that
  such a list needs (\<open>open_call\<close>); theory Vault_Safety shows that the guarded ones revert.
\<close>

section \<open>Data\<close>

datatype MintStatus = MINT_INVALID | MINT_PENDING | MINT_READY | MINT_COMPLETED | MINT_CANCELLED

datatype BurnStatus = BURN_INVALID | BURN_PENDING | BURN_COMPLETED | BURN_SLASHED

record Vault =
  lpAddress :: address
  collateralAsset :: address
  collateralAmount :: uint256
  debtAmount :: uint256
  active :: bool

record MintRequest =
  mint_requestId :: hash
  mint_user :: address
  mint_lpVault :: address
  mint_xmrAmount :: uint256
  mint_wsxmrAmount :: uint256
  mint_claimCommitment :: hash
  mint_timeout :: uint256
  mint_status :: MintStatus

record BurnRequest =
  burn_requestId :: hash
  burn_user :: address
  burn_lpVault :: address
  burn_wsxmrAmount :: uint256
  burn_xmrAmount :: uint256
  escrowedCollateral :: uint256
  burn_refundCommitment :: hash
  burn_deadline :: uint256
  burn_status :: BurnStatus

datatype vault_event =
    VaultCreated address address
  | CollateralDeposited address address uint256
  | CollateralWithdrawn address address uint256
  | MintInitiated hash address address uint256 uint256 hash uint256
  | MintReady hash
  | MintFinalized hash hash
  | MintCancelled hash
  | BurnInitiated hash address address uint256 uint256 hash uint256
  | BurnFinalized hash hash
  | BurnSlashed hash address uint256
  | VaultLiquidated address address uint256 uint256
  | CollateralSupported address address
  | OwnershipTransferred address address

record vm =
  vm_this :: address
  vm_owner :: address
  entered :: bool
  wsxmrToken :: address
  pyth :: address
  supportedCollateral :: "address \<Rightarrow> bool"
  collateralPriceFeeds :: "address \<Rightarrow> hash"
  vaults :: "address \<Rightarrow> Vault"
  mintRequests :: "hash \<Rightarrow> MintRequest"
  burnRequests :: "hash \<Rightarrow> BurnRequest"
  vaultList :: "address list"
  vm_logs :: "vault_event list"
  vm_ledger :: ledger
  token :: wsXMR

text \<open>The structs that Solidity's mappings hold before anything is stored.\<close>

definition no_vault :: Vault where
  "no_vault = \<lparr>lpAddress = 0, collateralAsset = 0, collateralAmount = 0, debtAmount = 0, active = False\<rparr>"

definition no_mint :: MintRequest where
  "no_mint = \<lparr>mint_requestId = 0, mint_user = 0, mint_lpVault = 0, mint_xmrAmount = 0, mint_wsxmrAmount = 0,
     mint_claimCommitment = 0, mint_timeout = 0, mint_status = MINT_INVALID\<rparr>"

definition no_burn :: BurnRequest where
  "no_burn = \<lparr>burn_requestId = 0, burn_user = 0, burn_lpVault = 0, burn_wsxmrAmount = 0, burn_xmrAmount = 0,
     escrowedCollateral = 0, burn_refundCommitment = 0, burn_deadline = 0, burn_status = BURN_INVALID\<rparr>"

text \<open>A price of Pyth (\<open>IPyth.sol\<close>): \<open>price\<close> and \<open>expo\<close> are signed.\<close>

record PythPrice =
  pyth_price :: "64 word"
  pyth_conf :: "64 word"
  pyth_expo :: "32 word"
  pyth_publishTime :: uint256

text \<open>The message and the block, and what the oracle answers in it (\<^term>\<open>None\<close>: it reverts).\<close>

record vmsg = msg +
  blockNumber :: uint256
  getPriceNoOlderThan :: "hash \<Rightarrow> nat \<Rightarrow> PythPrice option"

datatype open_call =
    Open_createVault vmsg address
  | Open_initiateMint vmsg address uint256 hash uint256
  | Open_setMintReady vmsg hash
  | Open_cancelMint vmsg hash
  | Open_initiateBurn vmsg uint256 address hash
  | Open_addCollateralSupport vmsg address hash
  | Open_removeCollateralSupport vmsg address
  | Open_transferOwnership vmsg address
  | Open_renounceOwnership vmsg
  | Open_token vmsg token_call
  | Open_move address address address nat

record venv =
  venv_evm :: evm
  token_decimals :: "address \<Rightarrow> 8 word option"
  react :: "address \<Rightarrow> vm \<Rightarrow> open_call list option"

section \<open>Constants\<close>

definition COLLATERAL_RATIO :: uint256 where "COLLATERAL_RATIO = 150"
definition LIQUIDATION_RATIO :: uint256 where "LIQUIDATION_RATIO = 120"
definition LIQUIDATION_BONUS :: uint256 where "LIQUIDATION_BONUS = 110"
definition RATIO_PRECISION :: uint256 where "RATIO_PRECISION = 100"
definition BURN_TIMEOUT :: uint256 where "BURN_TIMEOUT = 86400"
definition XMR_USD_FEED_ID :: hash where
  "XMR_USD_FEED_ID = 0x46b8cc9347f04391764a0361e0b17c3ba394b001e7c304f7650f6376e37c321d"
definition MON_USD_FEED_ID :: hash where
  "MON_USD_FEED_ID = 0x31491744e2dbf6df7fcf4ac0820d18a609b49076d45066d3568424e62f686cd1"

lemmas ratio_defs = COLLATERAL_RATIO_def LIQUIDATION_RATIO_def LIQUIDATION_BONUS_def RATIO_PRECISION_def

section \<open>Prices\<close>

text \<open>The body that \<open>getXmrPrice\<close> and \<open>getCollateralPrice\<close> share: the price with 18 decimals.\<close>

definition scale_price :: "PythPrice \<Rightarrow> uint256 sol" where
  "scale_price p =
     revert_if (sint (pyth_price p) \<le> 0) StalePrice
     (let prc = ucast (pyth_price p) :: uint256; expo = pyth_expo p in
      if 0 \<le> sint expo then
        rb (checked_pow10 (unat expo)) (\<lambda>k. rb (checked_mul prc k) (\<lambda>x. checked_mul x (10 ^ 18)))
      else if sint expo = - (2 ^ 31) then Inl (PanicCode 0x11)
      else let absExpo = - expo in
        if 18 \<le> absExpo then rb (checked_pow10 (unat (absExpo - 18))) (checked_div prc)
        else rb (checked_pow10 (unat (18 - absExpo))) (checked_mul prc))"

definition read_price :: "vmsg \<Rightarrow> hash \<Rightarrow> uint256 sol" where
  "read_price m feed =
     (case getPriceNoOlderThan m feed 60 of None \<Rightarrow> Inl CallFailed | Some p \<Rightarrow> scale_price p)"

definition getXmrPrice :: "vmsg \<Rightarrow> uint256 sol" where
  "getXmrPrice m = read_price m XMR_USD_FEED_ID"

definition getCollateralPrice :: "vmsg \<Rightarrow> vm \<Rightarrow> address \<Rightarrow> uint256 sol" where
  "getCollateralPrice m c a =
     (let feedId = collateralPriceFeeds c a in
      revert_if (feedId = 0) InvalidAsset (read_price m feedId))"

text \<open>\<open>IERC20Metadata(a).decimals()\<close>, for wsXMR that of its own code.\<close>

definition decimals_of :: "venv \<Rightarrow> vm \<Rightarrow> address \<Rightarrow> 8 word sol" where
  "decimals_of V c a =
     (if a = 0 then Inr 18
      else if a = wsxmrToken c then Inr wsXMR_decimals
      else case token_decimals V a of None \<Rightarrow> Inl CallFailed | Some d \<Rightarrow> Inr d)"

definition calculateCollateralRatio :: "venv \<Rightarrow> vmsg \<Rightarrow> vm \<Rightarrow> address \<Rightarrow> uint256 \<Rightarrow> uint256 \<Rightarrow> uint256 sol" where
  "calculateCollateralRatio V m c a collateral debt =
     (if debt = 0 then Inr uint256_max
      else
        rb (getCollateralPrice m c a) (\<lambda>collateralPrice.
        rb (getXmrPrice m) (\<lambda>xmrPrice.
        rb (decimals_of V c a) (\<lambda>d.
        rb (checked_mul collateral collateralPrice) (\<lambda>x.
        rb (checked_pow10 (unat d)) (\<lambda>k.
        rb (checked_div x k) (\<lambda>collateralValue.
        rb (checked_mul debt xmrPrice) (\<lambda>y.
        rb (checked_div y (10 ^ 8)) (\<lambda>debtValue.
        rb (checked_mul collateralValue RATIO_PRECISION) (\<lambda>z.
        checked_div z debtValue))))))))))"

definition getCollateralValueForDebt :: "vmsg \<Rightarrow> uint256 \<Rightarrow> uint256 sol" where
  "getCollateralValueForDebt m debt =
     rb (getXmrPrice m) (\<lambda>xmrPrice. rb (checked_mul debt xmrPrice) (\<lambda>x. checked_div x (10 ^ 8)))"

definition usdToCollateral :: "venv \<Rightarrow> vmsg \<Rightarrow> vm \<Rightarrow> address \<Rightarrow> uint256 \<Rightarrow> uint256 sol" where
  "usdToCollateral V m c a usdValue =
     rb (getCollateralPrice m c a) (\<lambda>collateralPrice.
     rb (decimals_of V c a) (\<lambda>d.
     rb (checked_pow10 (unat d)) (\<lambda>k.
     rb (checked_mul usdValue k) (\<lambda>x. checked_div x collateralPrice))))"

section \<open>Storage\<close>

definition vm_emit :: "vault_event \<Rightarrow> vm \<Rightarrow> vm" where
  "vm_emit e c = c\<lparr>vm_logs := vm_logs c @ [e]\<rparr>"

definition set_vault :: "address \<Rightarrow> Vault \<Rightarrow> vm \<Rightarrow> vm" where
  "set_vault a v c = c\<lparr>vaults := (vaults c)(a := v)\<rparr>"

definition set_mint :: "hash \<Rightarrow> MintRequest \<Rightarrow> vm \<Rightarrow> vm" where
  "set_mint i r c = c\<lparr>mintRequests := (mintRequests c)(i := r)\<rparr>"

definition set_burn :: "hash \<Rightarrow> BurnRequest \<Rightarrow> vm \<Rightarrow> vm" where
  "set_burn i r c = c\<lparr>burnRequests := (burnRequests c)(i := r)\<rparr>"

lemmas storage_defs = vm_emit_def set_vault_def set_mint_def set_burn_def

section \<open>The functions without nonReentrant\<close>

definition createVault :: "vmsg \<Rightarrow> address \<Rightarrow> vm \<Rightarrow> vm sol" where
  "createVault m a c =
     revert_if (active (vaults c (sender m))) VaultAlreadyExists
     (revert_if (\<not> supportedCollateral c a) InvalidCollateralAsset
     (let c1 = set_vault (sender m) \<lparr>lpAddress = sender m, collateralAsset = a, collateralAmount = 0,
            debtAmount = 0, active = True\<rparr> c;
          c2 = c1\<lparr>vaultList := vaultList c1 @ [sender m]\<rparr> in
      Inr (vm_emit (VaultCreated (sender m) a) c2)))"

text \<open>The two request identifiers: \<open>abi.encodePacked\<close> of two addresses and four words.\<close>

definition request_id :: "venv \<Rightarrow> vmsg \<Rightarrow> address \<Rightarrow> uint256 \<Rightarrow> hash \<Rightarrow> hash" where
  "request_id V m lp v commitment = keccak256 (venv_evm V)
     (drop 12 (abi_word (sender m)) @ drop 12 (abi_word lp) @ abi_word v @ abi_word commitment @
      abi_word (timestamp m) @ abi_word (blockNumber m))"

definition initiateMint :: "venv \<Rightarrow> vmsg \<Rightarrow> address \<Rightarrow> uint256 \<Rightarrow> hash \<Rightarrow> uint256 \<Rightarrow> vm \<Rightarrow> (hash \<times> vm) sol" where
  "initiateMint V m lp xmr commitment duration c =
     revert_if (lp = 0) ZeroAddress
     (revert_if (xmr = 0) ZeroAmount
     (revert_if (commitment = 0) Vault_InvalidSecret
     (revert_if (\<not> active (vaults c lp)) VaultDoesNotExist
     (rb (checked_div xmr (10 ^ 4)) (\<lambda>wsxmr.
      let vault = vaults c lp in
      rb (checked_add (debtAmount vault) wsxmr) (\<lambda>newDebt.
      rb (calculateCollateralRatio V m c (collateralAsset vault) (collateralAmount vault) newDebt) (\<lambda>ratio.
      revert_if (ratio < COLLATERAL_RATIO) InsufficientCollateral
      (let i = request_id V m lp xmr commitment in
       revert_if (mint_status (mintRequests c i) \<noteq> MINT_INVALID) MintAlreadyExists
       (rb (checked_add (timestamp m) duration) (\<lambda>tm.
        let c1 = set_mint i \<lparr>mint_requestId = i, mint_user = sender m, mint_lpVault = lp, mint_xmrAmount = xmr,
              mint_wsxmrAmount = wsxmr, mint_claimCommitment = commitment, mint_timeout = tm,
              mint_status = MINT_PENDING\<rparr> c in
        Inr (i, vm_emit (MintInitiated i (sender m) lp xmr wsxmr commitment tm) c1)))))))))))"

definition setMintReady :: "vmsg \<Rightarrow> hash \<Rightarrow> vm \<Rightarrow> vm sol" where
  "setMintReady m i c =
     (let request = mintRequests c i in
      revert_if (mint_status request \<noteq> MINT_PENDING) InvalidStatus
      (revert_if (sender m \<noteq> mint_lpVault request) Unauthorized
      (Inr (vm_emit (MintReady i) (set_mint i (request\<lparr>mint_status := MINT_READY\<rparr>) c)))))"

definition cancelMint :: "vmsg \<Rightarrow> hash \<Rightarrow> vm \<Rightarrow> vm sol" where
  "cancelMint m i c =
     (let request = mintRequests c i in
      revert_if (mint_status request \<noteq> MINT_PENDING \<and> mint_status request \<noteq> MINT_READY) InvalidStatus
      (revert_if (sender m \<noteq> mint_user request) Unauthorized
      (rb (if mint_status request = MINT_READY then checked_add (mint_timeout request) 86400
           else Inr (mint_timeout request)) (\<lambda>requiredTimeout.
       revert_if (timestamp m < requiredTimeout) TimeoutNotReached
       (Inr (vm_emit (MintCancelled i) (set_mint i (request\<lparr>mint_status := MINT_CANCELLED\<rparr>) c)))))))"

definition initiateBurn :: "venv \<Rightarrow> vmsg \<Rightarrow> uint256 \<Rightarrow> address \<Rightarrow> hash \<Rightarrow> vm \<Rightarrow> (hash \<times> vm) sol" where
  "initiateBurn V m wsxmr lp commitment c =
     revert_if (wsxmr = 0) ZeroAmount
     (revert_if (lp = 0) ZeroAddress
     (revert_if (commitment = 0) Vault_InvalidSecret
     (revert_if (\<not> active (vaults c lp)) VaultDoesNotExist
     (let vault = vaults c lp in
      revert_if (debtAmount vault < wsxmr) InsufficientDebt
      (rb (checked_mul wsxmr (10 ^ 4)) (\<lambda>xmr.
       rb (getCollateralValueForDebt m wsxmr) (\<lambda>collateralValue.
       rb (checked_mul collateralValue LIQUIDATION_RATIO) (\<lambda>x.
       rb (checked_div x RATIO_PRECISION) (\<lambda>usd.
       rb (usdToCollateral V m c (collateralAsset vault) usd) (\<lambda>collateralToEscrow.
       revert_if (collateralAmount vault < collateralToEscrow) InsufficientCollateral
       (let i = request_id V m lp wsxmr commitment in
        revert_if (burn_status (burnRequests c i) \<noteq> BURN_INVALID) BurnAlreadyExists
        (rb (checked_sub (collateralAmount vault) collateralToEscrow) (\<lambda>newCollateral.
         rb (checked_sub (debtAmount vault) wsxmr) (\<lambda>newDebt.
         let c1 = set_vault lp (vault\<lparr>collateralAmount := newCollateral, debtAmount := newDebt\<rparr>) c in
         rb (wsXMR_burn (vm_this c) (sender m) wsxmr (token c1)) (\<lambda>t.
         rb (checked_add (timestamp m) BURN_TIMEOUT) (\<lambda>deadline.
         let c2 = set_burn i \<lparr>burn_requestId = i, burn_user = sender m, burn_lpVault = lp,
               burn_wsxmrAmount = wsxmr, burn_xmrAmount = xmr, escrowedCollateral = collateralToEscrow,
               burn_refundCommitment = commitment, burn_deadline = deadline, burn_status = BURN_PENDING\<rparr>
               (c1\<lparr>token := t\<rparr>) in
         Inr (i, vm_emit (BurnInitiated i (sender m) lp wsxmr xmr commitment deadline) c2)))))))))))))))))"

definition addCollateralSupport :: "vmsg \<Rightarrow> address \<Rightarrow> hash \<Rightarrow> vm \<Rightarrow> vm sol" where
  "addCollateralSupport m a feed c =
     rb (checkOwner (vm_owner c) (sender m)) (\<lambda>_.
     revert_if (feed = 0) InvalidAsset
     (Inr (vm_emit (CollateralSupported a (pyth c))
        (c\<lparr>supportedCollateral := (supportedCollateral c)(a := True),
           collateralPriceFeeds := (collateralPriceFeeds c)(a := feed)\<rparr>))))"

definition removeCollateralSupport :: "vmsg \<Rightarrow> address \<Rightarrow> vm \<Rightarrow> vm sol" where
  "removeCollateralSupport m a c =
     rb (checkOwner (vm_owner c) (sender m)) (\<lambda>_.
     Inr (c\<lparr>supportedCollateral := (supportedCollateral c)(a := False),
            collateralPriceFeeds := (collateralPriceFeeds c)(a := 0)\<rparr>))"

definition vm_owned_by :: "address \<Rightarrow> vm \<Rightarrow> vm" where
  "vm_owned_by a c = vm_emit (OwnershipTransferred (vm_owner c) a) (c\<lparr>vm_owner := a\<rparr>)"

text \<open>
  The calls that can happen at any moment. A non-payable function reverts when it is sent ether. Holders
  other than the contract may move what they own.
\<close>

primrec open_sender :: "open_call \<Rightarrow> address" where
  "open_sender (Open_createVault m a) = sender m"
| "open_sender (Open_initiateMint m lp xmr commitment duration) = sender m"
| "open_sender (Open_setMintReady m i) = sender m"
| "open_sender (Open_cancelMint m i) = sender m"
| "open_sender (Open_initiateBurn m wsxmr lp commitment) = sender m"
| "open_sender (Open_addCollateralSupport m a feed) = sender m"
| "open_sender (Open_removeCollateralSupport m a) = sender m"
| "open_sender (Open_transferOwnership m a) = sender m"
| "open_sender (Open_renounceOwnership m) = sender m"
| "open_sender (Open_token m call) = sender m"
| "open_sender (Open_move a from to v) = from"

definition nonpayable :: "vmsg \<Rightarrow> 'a sol \<Rightarrow> 'a sol" where
  "nonpayable m r = revert_if (msg_value m \<noteq> 0) (RequireFailed []) r"

primrec exec_open :: "venv \<Rightarrow> open_call \<Rightarrow> vm \<Rightarrow> vm sol" where
  "exec_open V (Open_createVault m a) c = nonpayable m (createVault m a c)"
| "exec_open V (Open_initiateMint m lp xmr commitment duration) c =
     nonpayable m (rb (initiateMint V m lp xmr commitment duration c) (\<lambda>(i, c1). Inr c1))"
| "exec_open V (Open_setMintReady m i) c = nonpayable m (setMintReady m i c)"
| "exec_open V (Open_cancelMint m i) c = nonpayable m (cancelMint m i c)"
| "exec_open V (Open_initiateBurn m wsxmr lp commitment) c =
     nonpayable m (rb (initiateBurn V m wsxmr lp commitment c) (\<lambda>(i, c1). Inr c1))"
| "exec_open V (Open_addCollateralSupport m a feed) c = nonpayable m (addCollateralSupport m a feed c)"
| "exec_open V (Open_removeCollateralSupport m a) c = nonpayable m (removeCollateralSupport m a c)"
| "exec_open V (Open_transferOwnership m a) c =
     nonpayable m (rb (transferOwnership (vm_owner c) (sender m) a) (\<lambda>a. Inr (vm_owned_by a c)))"
| "exec_open V (Open_renounceOwnership m) c =
     nonpayable m (rb (renounceOwnership (vm_owner c) (sender m)) (\<lambda>a. Inr (vm_owned_by a c)))"
| "exec_open V (Open_token m call) c =
     nonpayable m (rb (exec_token (sender m) call (token c)) (\<lambda>t. Inr (c\<lparr>token := t\<rparr>)))"
| "exec_open V (Open_move a from to v) c =
     (case move (vm_ledger c) a from to v of None \<Rightarrow> Inl CallFailed | Some l \<Rightarrow> Inr (c\<lparr>vm_ledger := l\<rparr>))"

definition apply_open :: "venv \<Rightarrow> vm \<Rightarrow> open_call \<Rightarrow> vm" where
  "apply_open V c call = (case exec_open V call c of Inl e \<Rightarrow> c | Inr c' \<Rightarrow> c')"

definition run_open :: "venv \<Rightarrow> open_call list \<Rightarrow> vm \<Rightarrow> vm" where
  "run_open V cs c = foldl (apply_open V) c cs"

section \<open>Calls of other contracts\<close>

text \<open>The contract at \<open>a\<close> runs: it reverts, or it makes the calls of \<open>react\<close>.\<close>

definition callback :: "venv \<Rightarrow> address \<Rightarrow> vm \<Rightarrow> vm sol" where
  "callback V a c = (case react V a c of None \<Rightarrow> Inl CallFailed | Some cs \<Rightarrow> Inr (run_open V cs c))"

definition ledger_transfer :: "ledger option \<Rightarrow> vm \<Rightarrow> vm sol" where
  "ledger_transfer r c = (case r of None \<Rightarrow> Inl CallFailed | Some l \<Rightarrow> Inr (c\<lparr>vm_ledger := l\<rparr>))"

text \<open>
  \<open>payable(to).call{value: v}("")\<close> and \<open>safeTransfer\<close>; a collateral token may call out before and after
  it changes its balances. In the first case a failed call makes \<open>require\<close> fail.
\<close>

definition pay_ether :: "venv \<Rightarrow> address \<Rightarrow> uint256 \<Rightarrow> vm \<Rightarrow> vm sol" where
  "pay_ether V to v c =
     rb (ledger_transfer (move (vm_ledger c) 0 (vm_this c) to (unat v)) c) (callback V to)"

definition transfer_token :: "venv \<Rightarrow> address \<Rightarrow> address \<Rightarrow> address \<Rightarrow> uint256 \<Rightarrow> vm \<Rightarrow> vm sol" where
  "transfer_token V a from to v c =
     rb (callback V a c) (\<lambda>c1.
     rb (ledger_transfer (token_transfer (venv_evm V) (vm_ledger c1) a from to (unat v)) c1) (callback V a))"

definition pay_collateral :: "venv \<Rightarrow> address \<Rightarrow> address \<Rightarrow> uint256 \<Rightarrow> vm \<Rightarrow> vm sol" where
  "pay_collateral V a to v c =
     (if a = 0 then
        (case pay_ether V to v c of Inl e \<Rightarrow> Inl (RequireFailed ''ETH transfer failed'') | Inr c1 \<Rightarrow> Inr c1)
      else if a = wsxmrToken c then
        rb (ERC20_transfer (vm_this c) to v (token c)) (\<lambda>t. Inr (c\<lparr>token := t\<rparr>))
      else transfer_token V a (vm_this c) to v c)"

definition take_collateral :: "venv \<Rightarrow> address \<Rightarrow> address \<Rightarrow> uint256 \<Rightarrow> vm \<Rightarrow> vm sol" where
  "take_collateral V a from v c =
     (if a = wsxmrToken c then
        rb (ERC20_transferFrom (vm_this c) from (vm_this c) v (token c)) (\<lambda>t. Inr (c\<lparr>token := t\<rparr>))
      else transfer_token V a from (vm_this c) v c)"

section \<open>The functions with nonReentrant\<close>

definition nonReentrant :: "(vm \<Rightarrow> vm sol) \<Rightarrow> vm \<Rightarrow> vm sol" where
  "nonReentrant body c =
     revert_if (entered c) ReentrancyGuardReentrantCall
     (rb (body (c\<lparr>entered := True\<rparr>)) (\<lambda>c1. Inr (c1\<lparr>entered := False\<rparr>)))"

text \<open>The ether sent with a call of a payable function arrives first.\<close>

definition depositCollateral :: "venv \<Rightarrow> vmsg \<Rightarrow> uint256 \<Rightarrow> vm \<Rightarrow> vm sol" where
  "depositCollateral V m v c0 =
     rb (ledger_transfer (move (vm_ledger c0) 0 (sender m) (vm_this c0) (unat (msg_value m))) c0)
     (nonReentrant (\<lambda>c.
      revert_if (\<not> active (vaults c (sender m))) VaultDoesNotExist
      (revert_if (v = 0) ZeroAmount
      (let a = collateralAsset (vaults c (sender m)) in
       rb (if a = 0 then revert_if (msg_value m \<noteq> v) Vault_InvalidValue (Inr c)
           else revert_if (msg_value m \<noteq> 0) Vault_InvalidValue (take_collateral V a (sender m) v c)) (\<lambda>c1.
       let vault = vaults c1 (sender m) in
       rb (checked_add (collateralAmount vault) v) (\<lambda>newCollateral.
       let c2 = set_vault (sender m) (vault\<lparr>collateralAmount := newCollateral\<rparr>) c1 in
       Inr (vm_emit (CollateralDeposited (sender m) (collateralAsset (vaults c2 (sender m))) v) c2)))))))"

definition withdrawCollateral :: "venv \<Rightarrow> vmsg \<Rightarrow> uint256 \<Rightarrow> vm \<Rightarrow> vm sol" where
  "withdrawCollateral V m v = nonReentrant (\<lambda>c.
     revert_if (\<not> active (vaults c (sender m))) VaultDoesNotExist
     (revert_if (v = 0) ZeroAmount
     (let vault = vaults c (sender m) in
      revert_if (collateralAmount vault < v) InsufficientCollateral
      (rb (checked_sub (collateralAmount vault) v) (\<lambda>newCollateralAmount.
       rb (if 0 < debtAmount vault then
             rb (calculateCollateralRatio V m c (collateralAsset vault) newCollateralAmount (debtAmount vault)) (\<lambda>ratio.
             revert_if (ratio < COLLATERAL_RATIO) InsufficientCollateral (Inr ()))
           else Inr ()) (\<lambda>_.
       let c1 = set_vault (sender m) (vault\<lparr>collateralAmount := newCollateralAmount\<rparr>) c in
       rb (pay_collateral V (collateralAsset vault) (sender m) v c1) (\<lambda>c2.
       Inr (vm_emit (CollateralWithdrawn (sender m) (collateralAsset (vaults c2 (sender m))) v) c2))))))))"

definition finalizeMint :: "venv \<Rightarrow> vmsg \<Rightarrow> hash \<Rightarrow> hash \<Rightarrow> vm \<Rightarrow> vm sol" where
  "finalizeMint V m i secret = nonReentrant (\<lambda>c.
     let request = mintRequests c i in
     revert_if (mint_status request \<noteq> MINT_READY) InvalidStatus
     (revert_if (\<not> mulVerify (venv_evm V) secret (mint_claimCommitment request)) Vault_InvalidSecret
     (let vault = vaults c (mint_lpVault request) in
      rb (checked_add (debtAmount vault) (mint_wsxmrAmount request)) (\<lambda>newDebt.
      let c1 = set_vault (mint_lpVault request) (vault\<lparr>debtAmount := newDebt\<rparr>) c in
      rb (wsXMR_mint (vm_this c) (mint_user request) (mint_wsxmrAmount request) (token c1)) (\<lambda>t.
      let c2 = set_mint i (request\<lparr>mint_status := MINT_COMPLETED\<rparr>) (c1\<lparr>token := t\<rparr>) in
      Inr (vm_emit (MintFinalized i secret) c2))))))"

definition finalizeBurn :: "venv \<Rightarrow> vmsg \<Rightarrow> hash \<Rightarrow> hash \<Rightarrow> vm \<Rightarrow> vm sol" where
  "finalizeBurn V m i secret = nonReentrant (\<lambda>c.
     let request = burnRequests c i in
     revert_if (burn_status request \<noteq> BURN_PENDING) InvalidStatus
     (revert_if (timestamp m \<ge> burn_deadline request) DeadlineExpired
     (revert_if (\<not> mulVerify (venv_evm V) secret (burn_refundCommitment request)) Vault_InvalidSecret
     (let vault = vaults c (burn_lpVault request) in
      rb (checked_add (collateralAmount vault) (escrowedCollateral request)) (\<lambda>newCollateral.
      let c1 = set_vault (burn_lpVault request) (vault\<lparr>collateralAmount := newCollateral\<rparr>) c;
          c2 = set_burn i (request\<lparr>burn_status := BURN_COMPLETED\<rparr>) c1 in
      Inr (vm_emit (BurnFinalized i secret) c2))))))"

text \<open>The escrow is paid first; the request is read again from storage afterwards.\<close>

definition claimSlashedCollateral :: "venv \<Rightarrow> vmsg \<Rightarrow> hash \<Rightarrow> vm \<Rightarrow> vm sol" where
  "claimSlashedCollateral V m i = nonReentrant (\<lambda>c.
     let request = burnRequests c i in
     revert_if (burn_status request \<noteq> BURN_PENDING) InvalidStatus
     (revert_if (sender m \<noteq> burn_user request) Unauthorized
     (revert_if (timestamp m < burn_deadline request) DeadlineNotExpired
     (let vault = vaults c (burn_lpVault request) in
      rb (pay_collateral V (collateralAsset vault) (burn_user request) (escrowedCollateral request) c) (\<lambda>c1.
      let request1 = burnRequests c1 i;
          c2 = set_burn i (request1\<lparr>burn_status := BURN_SLASHED\<rparr>) c1 in
      Inr (vm_emit (BurnSlashed i (burn_user request1) (escrowedCollateral request1)) c2))))))"

definition liquidate :: "venv \<Rightarrow> vmsg \<Rightarrow> address \<Rightarrow> uint256 \<Rightarrow> vm \<Rightarrow> vm sol" where
  "liquidate V m lp debtToClear0 = nonReentrant (\<lambda>c.
     revert_if (\<not> active (vaults c lp)) VaultDoesNotExist
     (revert_if (debtToClear0 = 0) ZeroAmount
     (let vault = vaults c lp in
      revert_if (debtAmount vault = 0) InsufficientDebt
      (let debtToClear = if debtToClear0 > debtAmount vault then debtAmount vault else debtToClear0 in
       rb (calculateCollateralRatio V m c (collateralAsset vault) (collateralAmount vault) (debtAmount vault)) (\<lambda>ratio.
       revert_if (ratio \<ge> LIQUIDATION_RATIO) VaultHealthy
       (rb (getCollateralValueForDebt m debtToClear) (\<lambda>collateralValue.
        rb (checked_mul collateralValue LIQUIDATION_BONUS) (\<lambda>x.
        rb (checked_div x RATIO_PRECISION) (\<lambda>collateralToSeize.
        rb (usdToCollateral V m c (collateralAsset vault) collateralToSeize) (\<lambda>amt0.
        let amt = if amt0 > collateralAmount vault then collateralAmount vault else amt0 in
        rb (checked_sub (collateralAmount vault) amt) (\<lambda>newCollateral.
        rb (checked_sub (debtAmount vault) debtToClear) (\<lambda>newDebt.
        let c1 = set_vault lp (vault\<lparr>collateralAmount := newCollateral, debtAmount := newDebt\<rparr>) c in
        rb (wsXMR_burn (vm_this c) (sender m) debtToClear (token c1)) (\<lambda>t.
        rb (pay_collateral V (collateralAsset vault) (sender m) amt (c1\<lparr>token := t\<rparr>)) (\<lambda>c2.
        Inr (vm_emit (VaultLiquidated lp (sender m) debtToClear amt) c2)))))))))))))))"

section \<open>Views\<close>

definition getVaultCollateralRatio :: "venv \<Rightarrow> vmsg \<Rightarrow> address \<Rightarrow> vm \<Rightarrow> uint256 sol" where
  "getVaultCollateralRatio V m lp c =
     (let vault = vaults c lp in
      revert_if (\<not> active vault) VaultDoesNotExist
      (calculateCollateralRatio V m c (collateralAsset vault) (collateralAmount vault) (debtAmount vault)))"

definition isVaultLiquidatable :: "venv \<Rightarrow> vmsg \<Rightarrow> address \<Rightarrow> vm \<Rightarrow> bool sol" where
  "isVaultLiquidatable V m lp c =
     (let vault = vaults c lp in
      if \<not> active vault \<or> debtAmount vault = 0 then Inr False
      else
        rb (calculateCollateralRatio V m c (collateralAsset vault) (collateralAmount vault) (debtAmount vault)) (\<lambda>ratio.
        Inr (ratio < LIQUIDATION_RATIO)))"

definition getVaultCount :: "vm \<Rightarrow> nat" where
  "getVaultCount c = length (vaultList c)"

section \<open>Transactions\<close>

datatype vault_tx =
    VTx_open open_call
  | VTx_depositCollateral vmsg uint256
  | VTx_withdrawCollateral vmsg uint256
  | VTx_finalizeMint vmsg hash hash
  | VTx_finalizeBurn vmsg hash hash
  | VTx_claimSlashedCollateral vmsg hash
  | VTx_liquidate vmsg address uint256

primrec vtx_sender :: "vault_tx \<Rightarrow> address" where
  "vtx_sender (VTx_open call) = open_sender call"
| "vtx_sender (VTx_depositCollateral m v) = sender m"
| "vtx_sender (VTx_withdrawCollateral m v) = sender m"
| "vtx_sender (VTx_finalizeMint m i s) = sender m"
| "vtx_sender (VTx_finalizeBurn m i s) = sender m"
| "vtx_sender (VTx_claimSlashedCollateral m i) = sender m"
| "vtx_sender (VTx_liquidate m lp v) = sender m"

primrec vexec :: "venv \<Rightarrow> vault_tx \<Rightarrow> vm \<Rightarrow> vm sol" where
  "vexec V (VTx_open call) c = exec_open V call c"
| "vexec V (VTx_depositCollateral m v) c = depositCollateral V m v c"
| "vexec V (VTx_withdrawCollateral m v) c = nonpayable m (withdrawCollateral V m v c)"
| "vexec V (VTx_finalizeMint m i s) c = nonpayable m (finalizeMint V m i s c)"
| "vexec V (VTx_finalizeBurn m i s) c = nonpayable m (finalizeBurn V m i s c)"
| "vexec V (VTx_claimSlashedCollateral m i) c = nonpayable m (claimSlashedCollateral V m i c)"
| "vexec V (VTx_liquidate m lp v) c = nonpayable m (liquidate V m lp v c)"

definition apply_vtx :: "venv \<Rightarrow> vm \<Rightarrow> vault_tx \<Rightarrow> vm" where
  "apply_vtx V c t = (case vexec V t c of Inl e \<Rightarrow> c | Inr c' \<Rightarrow> c')"

definition run_vtxs :: "venv \<Rightarrow> vault_tx list \<Rightarrow> vm \<Rightarrow> vm" where
  "run_vtxs V ts c = foldl (apply_vtx V) c ts"

definition VaultManager_constructor :: "address \<Rightarrow> address \<Rightarrow> address \<Rightarrow> address \<Rightarrow> wsXMR \<Rightarrow> ledger \<Rightarrow> vm sol" where
  "VaultManager_constructor self tokenAddr pythContract initialOwner t l =
     revert_if (initialOwner = 0) (OwnableInvalidOwner 0)
     (revert_if (tokenAddr = 0) ZeroAddress
     (revert_if (pythContract = 0) ZeroAddress
     (Inr \<lparr>vm_this = self, vm_owner = initialOwner, entered = False, wsxmrToken = tokenAddr, pyth = pythContract,
        supportedCollateral = (\<lambda>a. a = 0), collateralPriceFeeds = (\<lambda>_. 0)(0 := MON_USD_FEED_ID),
        vaults = (\<lambda>_. no_vault), mintRequests = (\<lambda>_. no_mint), burnRequests = (\<lambda>_. no_burn), vaultList = [],
        vm_logs = [OwnershipTransferred 0 initialOwner, CollateralSupported 0 pythContract],
        vm_ledger = l, token = t\<rparr>)))"

end
