(* ===== verification/Vault_Safety.thy ===== *)
theory Vault_Safety
  imports Vault_Manager
begin

text \<open>
  The invariant of the vault manager with its token, kept by every transaction whatever the receivers of
  payments and the collateral tokens call in the middle of it. The locale \<open>open_invariant\<close> carries what an
  outside call keeps across callbacks, \<open>storage_invariant\<close> across whole payments; both are interpreted for
  the invariant itself and for the parts of the storage that a payment must not change.
\<close>

section \<open>Calls from outside\<close>

text \<open>
  Nobody sends messages from the address of the contract or from the zero address, and the owner of the
  token does not appoint another vault manager.
\<close>

primrec appoints_manager :: "token_call \<Rightarrow> bool" where
  "appoints_manager (Tok_transfer to v) = False"
| "appoints_manager (Tok_approve spender v) = False"
| "appoints_manager (Tok_transferFrom holder to v) = False"
| "appoints_manager (Tok_increaseAllowance spender v) = False"
| "appoints_manager (Tok_decreaseAllowance spender v) = False"
| "appoints_manager (Tok_mint to v) = False"
| "appoints_manager (Tok_burn holder v) = False"
| "appoints_manager (Tok_setVaultManager manager) = True"
| "appoints_manager (Tok_transferOwnership newOwner) = False"
| "appoints_manager Tok_renounceOwnership = False"

definition outside :: "address \<Rightarrow> open_call \<Rightarrow> bool" where
  "outside self call \<longleftrightarrow> open_sender call \<noteq> self \<and>
     (case call of Open_token m tc \<Rightarrow> \<not> appoints_manager tc | _ \<Rightarrow> True)"

definition outside_reacts :: "address \<Rightarrow> venv \<Rightarrow> bool" where
  "outside_reacts self V \<longleftrightarrow> (\<forall>a c cs. react V a c = Some cs \<longrightarrow> (\<forall>call\<in>set cs. outside self call))"

text \<open>What holds of the state whenever an outside call succeeds holds after every callback.\<close>

locale open_invariant =
  fixes V :: venv and self :: address and I :: "vm \<Rightarrow> bool"
  assumes open_step: "I c \<Longrightarrow> outside self call \<Longrightarrow> exec_open V call c = Inr c' \<Longrightarrow> I c'"
begin

lemma run_open_keeps: "I c \<Longrightarrow> \<forall>call\<in>set cs. outside self call \<Longrightarrow> I (run_open V cs c)"
proof (induction cs arbitrary: c)
  case Nil
  then show ?case by (simp add: run_open_def)
next
  case (Cons call cs)
  have "I (apply_open V c call)"
    using Cons.prems open_step [of c call] by (cases "exec_open V call c") (auto simp: apply_open_def)
  then show ?case using Cons by (simp add: run_open_def)
qed

lemma callback_keeps: "outside_reacts self V \<Longrightarrow> I c \<Longrightarrow> callback V a c = Inr c' \<Longrightarrow> I c'"
  using run_open_keeps [of c] by (auto simp: callback_def outside_reacts_def split: option.splits)

end

text \<open>The same for what depends neither on the ledger nor on the token, across payments.\<close>

locale storage_invariant = open_invariant +
  assumes ledger_free: "I c \<Longrightarrow> I (c\<lparr>vm_ledger := l\<rparr>)" and token_free: "I c \<Longrightarrow> I (c\<lparr>token := t\<rparr>)"
begin

lemma ledger_transfer_keeps: "I c \<Longrightarrow> ledger_transfer r c = Inr c' \<Longrightarrow> I c'"
  by (auto simp: ledger_transfer_def ledger_free split: option.splits)

lemma transfer_token_keeps: "outside_reacts self V \<Longrightarrow> I c \<Longrightarrow> transfer_token V a from to v c = Inr c' \<Longrightarrow> I c'"
  unfolding transfer_token_def sol_Inr using callback_keeps ledger_transfer_keeps by blast

lemma pay_keeps: "outside_reacts self V \<Longrightarrow> I c \<Longrightarrow> pay_collateral V a to v c = Inr c' \<Longrightarrow> I c'"
  by (auto simp: pay_collateral_def pay_ether_def sol_Inr token_free split: if_splits sum.splits
      intro: callback_keeps ledger_transfer_keeps transfer_token_keeps)

lemma take_keeps: "outside_reacts self V \<Longrightarrow> I c \<Longrightarrow> take_collateral V a from v c = Inr c' \<Longrightarrow> I c'"
  by (auto simp: take_collateral_def sol_Inr token_free split: if_splits intro: transfer_token_keeps)

end

section \<open>The token as seen by the contract\<close>

definition token_linked :: "vm \<Rightarrow> bool" where
  "token_linked c \<longleftrightarrow> erc20_inv (token c) \<and> vaultManager (token c) = vm_this c \<and>
     (\<forall>s. tok_allowances (token c) (vm_this c) s = 0)"

lemma transfer_balance:
  assumes "erc20_inv t" "tok_transfer from to v t = Inr t'"
  shows "x \<noteq> from \<Longrightarrow> unat (tok_balances t x) \<le> unat (tok_balances t' x)"
    and "to \<noteq> x \<Longrightarrow> x = from \<Longrightarrow> unat (tok_balances t' x) + unat v = unat (tok_balances t x)"
    and "from \<noteq> to \<Longrightarrow> unat (tok_balances t' to) = unat (tok_balances t to) + unat v"
    and "unat (tok_balances t from) \<le> unat (tok_balances t' from) + unat v"
    and "tok_allowances t' = tok_allowances t" "tok_totalSupply t' = tok_totalSupply t"
proof -
  have le: "\<not> tok_balances t from < v"
    and t': "tok_balances t' = (tok_balances t)(from := tok_balances t from - v,
        to := ((tok_balances t)(from := tok_balances t from - v)) to + v)"
    and fr: "tok_allowances t' = tok_allowances t" "tok_totalSupply t' = tok_totalSupply t"
    using assms(2) by (auto simp: tok_transfer_def Let_def sol_Inr)
  have v: "unat v \<le> unat (tok_balances t from)" using le by (simp add: word_le_nat_alt not_less)
  note u = transfer_unat(1) [OF assms(1) le] transfer_unat(2) [OF assms(1) le, of to]
  show "x \<noteq> from \<Longrightarrow> unat (tok_balances t x) \<le> unat (tok_balances t' x)" using u by (auto simp: t')
  show "to \<noteq> x \<Longrightarrow> x = from \<Longrightarrow> unat (tok_balances t' x) + unat v = unat (tok_balances t x)"
    using u v by (auto simp: t')
  show "from \<noteq> to \<Longrightarrow> unat (tok_balances t' to) = unat (tok_balances t to) + unat v" using u by (auto simp: t')
  show "unat (tok_balances t from) \<le> unat (tok_balances t' from) + unat v" using u v by (auto simp: t')
  show "tok_allowances t' = tok_allowances t" "tok_totalSupply t' = tok_totalSupply t" by (rule fr)+
qed

lemma tok_linked_calls:
  assumes "vaultManager t = self" "from \<noteq> self" "\<not> appoints_manager call" "exec_token from call t = Inr t'"
  shows "vaultManager t' = self" "tok_totalSupply t' = tok_totalSupply t"
  using assms by (cases call; auto simp: ERC20_transfer_def ERC20_approve_def ERC20_transferFrom_def ERC20_increaseAllowance_def
      ERC20_decreaseAllowance_def wsXMR_mint_def wsXMR_burn_def tok_approve_def tok_spendAllowance_def tok_transfer_def Let_def sol_Inr split: if_splits)+

lemma tok_own_allowance:
  assumes "\<forall>s. tok_allowances t self s = 0" "vaultManager t = self" "from \<noteq> self" "exec_token from call t = Inr t'"
  shows "tok_allowances t' self s = 0"
  using assms by (cases call; auto simp: ERC20_transfer_def ERC20_approve_def ERC20_transferFrom_def ERC20_increaseAllowance_def
      ERC20_decreaseAllowance_def wsXMR_mint_def wsXMR_burn_def wsXMR_setVaultManager_def tok_approve_def tok_spendAllowance_def
      tok_transfer_def Let_def word_gt_0 sol_Inr split: if_splits)

lemma tok_own_balance:
  assumes "erc20_inv t" "\<forall>s. tok_allowances t self s = 0" "vaultManager t = self" "from \<noteq> self" "exec_token from call t = Inr t'"
  shows "unat (tok_balances t self) \<le> unat (tok_balances t' self)"
proof (cases call)
  case (Tok_transfer to v)
  then show ?thesis using assms transfer_balance(1) [of t "from" to v t' self] by (simp add: ERC20_transfer_def)
next
  case (Tok_transferFrom holder to v)
  then obtain t1 where t1: "tok_spendAllowance holder from v t = Inr t1" "tok_transfer holder to v t1 = Inr t'"
    using assms(5) by (auto simp: ERC20_transferFrom_def sol_Inr)
  have inv: "erc20_inv t1" "tok_balances t1 = tok_balances t"
    using spend_frame [OF t1(1)] erc20_inv_frame [of t1 t] assms(1) by auto
  show ?thesis
  proof (cases "holder = self")
    case True
    then have "v = 0"
      using t1(1) assms(2) by (auto simp: tok_spendAllowance_def uint256_max_def word_gt_0 sol_Inr split: if_splits)
    then show ?thesis using transfer_balance(4) [OF inv(1) t1(2)] True by (simp add: inv)
  next
    case False
    then show ?thesis using transfer_balance(1) [OF inv(1) t1(2), of self] by (simp add: inv)
  qed
qed (use assms in \<open>auto simp: ERC20_approve_def ERC20_increaseAllowance_def ERC20_decreaseAllowance_def tok_approve_def
  wsXMR_mint_def wsXMR_burn_def wsXMR_setVaultManager_def Let_def sol_Inr\<close>)

section \<open>The invariant\<close>

text \<open>
  Vaults that are not active are empty, and the active ones are those on the list; requests are stored
  under their identifiers and name active vaults; the debts of the vaults sum to the supply of wsXMR; and
  of every asset the contract holds what it owes to vaults and to pending burns, up to a deficit \<open>d\<close> that
  is only there while an escrow is being paid out.
\<close>

definition vaults_listed :: "vm \<Rightarrow> bool" where
  "vaults_listed c \<longleftrightarrow> (\<forall>x. \<not> active (vaults c x) \<longrightarrow> vaults c x = no_vault) \<and>
     distinct (vaultList c) \<and> set (vaultList c) = {x. active (vaults c x)} \<and> (\<forall>x. active (vaults c x) \<longrightarrow> lpAddress (vaults c x) = x)"

definition mints_linked :: "vm \<Rightarrow> bool" where
  "mints_linked c \<longleftrightarrow> (\<forall>i. mint_status (mintRequests c i) \<noteq> MINT_INVALID \<longrightarrow>
     mint_requestId (mintRequests c i) = i \<and> active (vaults c (mint_lpVault (mintRequests c i))))"

definition burns_linked :: "vm \<Rightarrow> bool" where
  "burns_linked c \<longleftrightarrow> (\<forall>i. burn_status (burnRequests c i) \<noteq> BURN_INVALID \<longrightarrow>
     burn_requestId (burnRequests c i) = i \<and> active (vaults c (burn_lpVault (burnRequests c i))))"

definition total_debt :: "vm \<Rightarrow> nat" where
  "total_debt c = (\<Sum>x\<in>UNIV. unat (debtAmount (vaults c x)))"

definition vault_claim :: "address \<Rightarrow> Vault \<Rightarrow> nat" where
  "vault_claim a v = (if collateralAsset v = a then unat (collateralAmount v) else 0)"

definition burn_claim :: "vm \<Rightarrow> address \<Rightarrow> BurnRequest \<Rightarrow> nat" where
  "burn_claim c a r = (if burn_status r = BURN_PENDING \<and> collateralAsset (vaults c (burn_lpVault r)) = a
     then unat (escrowedCollateral r) else 0)"

definition collateral_owed :: "vm \<Rightarrow> address \<Rightarrow> nat" where
  "collateral_owed c a = (\<Sum>x\<in>UNIV. vault_claim a (vaults c x)) + (\<Sum>i\<in>UNIV. burn_claim c a (burnRequests c i))"

definition holdings :: "vm \<Rightarrow> address \<Rightarrow> nat" where
  "holdings c a = (if a = wsxmrToken c then unat (tok_balances (token c) (vm_this c)) else vm_ledger c a (vm_this c))"

definition covered :: "(address \<Rightarrow> int) \<Rightarrow> vm \<Rightarrow> bool" where
  "covered d c \<longleftrightarrow> (\<forall>a. int (collateral_owed c a) \<le> int (holdings c a) + d a)"

definition safe :: "address \<Rightarrow> (address \<Rightarrow> int) \<Rightarrow> vm \<Rightarrow> bool" where
  "safe self d c \<longleftrightarrow> vm_this c = self \<and> wsxmrToken c \<noteq> 0 \<and> token_linked c \<and> vaults_listed c \<and> mints_linked c \<and>
     burns_linked c \<and> total_debt c = unat (tok_totalSupply (token c)) \<and> covered d c"

lemma storage_simps [simp]:
  "vaults (vm_emit e c) = vaults c" "mintRequests (vm_emit e c) = mintRequests c" "burnRequests (vm_emit e c) = burnRequests c"
  "token (vm_emit e c) = token c" "vm_ledger (vm_emit e c) = vm_ledger c" "vm_this (vm_emit e c) = vm_this c"
  "wsxmrToken (vm_emit e c) = wsxmrToken c" "vaultList (vm_emit e c) = vaultList c" "entered (vm_emit e c) = entered c"
  "vm_logs (vm_emit e c) = vm_logs c @ [e]"
  "vaults (set_vault a v c) = (vaults c)(a := v)" "mintRequests (set_vault a v c) = mintRequests c"
  "burnRequests (set_vault a v c) = burnRequests c" "token (set_vault a v c) = token c" "vm_ledger (set_vault a v c) = vm_ledger c"
  "vm_this (set_vault a v c) = vm_this c" "wsxmrToken (set_vault a v c) = wsxmrToken c" "vaultList (set_vault a v c) = vaultList c"
  "entered (set_vault a v c) = entered c" "vm_logs (set_vault a v c) = vm_logs c"
  "vaults (set_mint i r c) = vaults c" "mintRequests (set_mint i r c) = (mintRequests c)(i := r)"
  "burnRequests (set_mint i r c) = burnRequests c" "token (set_mint i r c) = token c" "vm_ledger (set_mint i r c) = vm_ledger c"
  "vm_this (set_mint i r c) = vm_this c" "wsxmrToken (set_mint i r c) = wsxmrToken c" "vaultList (set_mint i r c) = vaultList c"
  "entered (set_mint i r c) = entered c" "vm_logs (set_mint i r c) = vm_logs c"
  "vaults (set_burn i b c) = vaults c" "mintRequests (set_burn i b c) = mintRequests c"
  "burnRequests (set_burn i b c) = (burnRequests c)(i := b)" "token (set_burn i b c) = token c" "vm_ledger (set_burn i b c) = vm_ledger c"
  "vm_this (set_burn i b c) = vm_this c" "wsxmrToken (set_burn i b c) = wsxmrToken c" "vaultList (set_burn i b c) = vaultList c"
  "entered (set_burn i b c) = entered c" "vm_logs (set_burn i b c) = vm_logs c"
  by (simp_all add: storage_defs)

text \<open>Storing a vault or a burn request, one at a time.\<close>

lemma total_debt_set_vault:
  "total_debt (set_vault x v c) + unat (debtAmount (vaults c x)) = total_debt c + unat (debtAmount v)"
  using sum_upd [of "\<lambda>_ v. unat (debtAmount v)" "vaults c" x v] by (simp add: total_debt_def)

lemma burn_claim_set_vault:
  "collateralAsset v = collateralAsset (vaults c x) \<Longrightarrow> burn_claim (set_vault x v c) = burn_claim c"
  by (auto simp: burn_claim_def fun_eq_iff)

lemma owed_set_vault:
  assumes "collateralAsset v = collateralAsset (vaults c x)"
  shows "collateral_owed (set_vault x v c) a + vault_claim a (vaults c x) = collateral_owed c a + vault_claim a v"
  using sum_upd [of "\<lambda>_. vault_claim a" "vaults c" x v] by (simp add: collateral_owed_def burn_claim_set_vault [OF assms])

lemma burn_claim_cong: "vaults c' = vaults c \<Longrightarrow> burn_claim c' = burn_claim c"
  by (simp add: burn_claim_def fun_eq_iff)

lemma owed_set_burn:
  "collateral_owed (set_burn i r c) a + burn_claim c a (burnRequests c i) = collateral_owed c a + burn_claim c a r"
  using sum_upd [of "\<lambda>_. burn_claim c a" "burnRequests c" i r]
  by (simp add: collateral_owed_def burn_claim_cong [of "set_burn i r c" c])

lemma owed_cong: "vaults c' = vaults c \<Longrightarrow> burnRequests c' = burnRequests c \<Longrightarrow> collateral_owed c' = collateral_owed c"
  by (simp add: collateral_owed_def fun_eq_iff burn_claim_cong [of c' c])

lemma holdings_cong:
  "token c' = token c \<Longrightarrow> vm_ledger c' = vm_ledger c \<Longrightarrow> vm_this c' = vm_this c \<Longrightarrow> wsxmrToken c' = wsxmrToken c \<Longrightarrow>
     holdings c' = holdings c"
  by (simp add: holdings_def fun_eq_iff)

lemma token_linked_cong: "token c' = token c \<Longrightarrow> vm_this c' = vm_this c \<Longrightarrow> token_linked c' = token_linked c"
  by (simp add: token_linked_def)

text \<open>A step that leaves the vaults, the burns and what the contract holds as they are.\<close>

lemma safe_frame:
  assumes "safe self d c" "vaults c' = vaults c" "burnRequests c' = burnRequests c" "token c' = token c"
    and "vm_ledger c' = vm_ledger c" "vm_this c' = vm_this c" "wsxmrToken c' = wsxmrToken c" "vaultList c' = vaultList c"
    and "mints_linked c'"
  shows "safe self d c'"
  using assms owed_cong [of c' c] holdings_cong [of c' c] token_linked_cong [of c' c]
  by (simp add: safe_def covered_def vaults_listed_def burns_linked_def total_debt_def)

lemma linked_set_vault:
  assumes "active v" "active (vaults c x)" "lpAddress v = lpAddress (vaults c x)"
  shows "vaults_listed c \<Longrightarrow> vaults_listed (set_vault x v c)" "mints_linked c \<Longrightarrow> mints_linked (set_vault x v c)"
    and "burns_linked c \<Longrightarrow> burns_linked (set_vault x v c)"
  using assms by (auto simp: vaults_listed_def mints_linked_def burns_linked_def)

lemma burn_token_effect:
  assumes "token_linked c" "wsXMR_burn (vm_this c) holder v (token c) = Inr t"
  shows "erc20_inv t" "vaultManager t = vm_this c" "tok_allowances t = tok_allowances (token c)"
    and "unat (tok_totalSupply t) + unat v = unat (tok_totalSupply (token c))"
    and "x \<noteq> holder \<Longrightarrow> tok_balances t x = tok_balances (token c) x"
  using assms burn_effect [of "token c" holder v t]
  by (auto simp: token_linked_def wsXMR_burn_def tok_burn_def Let_def sol_Inr)

lemma mint_token_effect:
  assumes "token_linked c" "wsXMR_mint (vm_this c) user v (token c) = Inr t"
  shows "erc20_inv t" "vaultManager t = vm_this c" "tok_allowances t = tok_allowances (token c)"
    and "unat (tok_totalSupply t) = unat (tok_totalSupply (token c)) + unat v"
    and "unat (tok_balances (token c) x) \<le> unat (tok_balances t x)"
proof -
  have m: "tok_mint user v (token c) = Inr t" "erc20_inv (token c)"
    using assms by (auto simp: wsXMR_mint_def token_linked_def sol_Inr)
  show "erc20_inv t" and sup: "unat (tok_totalSupply t) = unat (tok_totalSupply (token c)) + unat v"
    using mint_effect [OF m(2,1)] by simp_all
  show "vaultManager t = vm_this c" "tok_allowances t = tok_allowances (token c)"
    using m assms(1) by (auto simp: tok_mint_def token_linked_def Let_def sol_Inr)
  show "unat (tok_balances (token c) x) \<le> unat (tok_balances t x)"
    using m mint_unat [OF m(2) sup, of user] by (auto simp: tok_mint_def Let_def sol_Inr)
qed

text \<open>
  The steps of the book-keeping: changing the collateral of a vault, minting and burning wsXMR against
  its debt, putting collateral in escrow and settling an escrow.
\<close>

lemma covered_step:
  assumes "covered d c" "\<And>b. int (collateral_owed c' b) + int (holdings c b) + d b \<le>
    int (collateral_owed c b) + int (holdings c' b) + d' b"
  shows "covered d' c'"
  unfolding covered_def
proof
  fix a
  have "int (collateral_owed c a) \<le> int (holdings c a) + d a" using assms(1) by (simp add: covered_def)
  then show "int (collateral_owed c' a) \<le> int (holdings c' a) + d' a" using assms(2) [of a] by linarith
qed

lemma covered_set_vault:
  assumes "covered d c" "collateralAsset v = collateralAsset (vaults c x)" "a = collateralAsset (vaults c x)"
    and "int (unat (collateralAmount (vaults c x))) + k = int (unat (collateralAmount v))"
  shows "covered (d(a := d a + k)) (set_vault x v c)"
proof (rule covered_step [OF assms(1)])
  fix b
  have "holdings (set_vault x v c) = holdings c" by (rule holdings_cong) simp_all
  moreover have "int (vault_claim b (vaults c x)) + (if b = a then k else 0) = int (vault_claim b v)"
    using assms(2-4) by (simp add: vault_claim_def)
  moreover note owed_set_vault [OF assms(2), of b]
  ultimately show "int (collateral_owed (set_vault x v c) b) + int (holdings c b) + d b \<le>
      int (collateral_owed c b) + int (holdings (set_vault x v c) b) + (d(a := d a + k)) b"
    by (cases "b = a") simp_all
qed

lemma safe_collateral:
  assumes "safe self d c" "active (vaults c x)" "a = collateralAsset (vaults c x)"
    and "int (unat (collateralAmount (vaults c x))) + k = int (unat new)"
  shows "safe self (d(a := d a + k)) (set_vault x ((vaults c x)\<lparr>collateralAmount := new\<rparr>) c)"
proof -
  let ?v = "(vaults c x)\<lparr>collateralAmount := new\<rparr>"
  have "covered (d(a := d a + k)) (set_vault x ?v c)"
    by (rule covered_set_vault) (use assms in \<open>simp_all add: safe_def\<close>)
  moreover have "total_debt (set_vault x ?v c) = total_debt c" using total_debt_set_vault [of x ?v c] by simp
  ultimately show ?thesis
    using assms(1) linked_set_vault [of ?v c x] assms(2) by (auto simp: safe_def token_linked_def)
qed

lemma safe_burn_debt:
  assumes "safe self d c" "active (vaults c x)" "a = collateralAsset (vaults c x)"
    and "int (unat (collateralAmount (vaults c x))) + k = int (unat new)"
    and "unat debt + unat w = unat (debtAmount (vaults c x))"
    and "wsXMR_burn self holder w (token c) = Inr t" "holder \<noteq> self"
  shows "safe self (d(a := d a + k))
    ((set_vault x ((vaults c x)\<lparr>collateralAmount := new, debtAmount := debt\<rparr>) c)\<lparr>token := t\<rparr>)"
proof -
  let ?v = "(vaults c x)\<lparr>collateralAmount := new, debtAmount := debt\<rparr>"
  let ?c1 = "set_vault x ?v c"
  have s: "token_linked c" "vm_this c = self" using assms(1) by (simp_all add: safe_def)
  note t = burn_token_effect [OF s(1), unfolded s(2), OF assms(6)]
  have "covered (d(a := d a + k)) ?c1"
    by (rule covered_set_vault) (use assms in \<open>simp_all add: safe_def\<close>)
  then have "covered (d(a := d a + k)) (?c1\<lparr>token := t\<rparr>)"
    by (rule covered_step) (use t(5) assms(7) s(2) in \<open>simp add: owed_cong [of "?c1\<lparr>token := t\<rparr>" ?c1] holdings_def\<close>)
  moreover have "total_debt (?c1\<lparr>token := t\<rparr>) = total_debt ?c1" by (simp add: total_debt_def)
  then have "total_debt (?c1\<lparr>token := t\<rparr>) = unat (tok_totalSupply t)"
    using total_debt_set_vault [of x ?v c] assms(1,5) t(4) by (simp add: safe_def)
  moreover have "vaults_listed (?c1\<lparr>token := t\<rparr>)" "mints_linked (?c1\<lparr>token := t\<rparr>)" "burns_linked (?c1\<lparr>token := t\<rparr>)"
    using linked_set_vault [of ?v c x] assms(1,2)
    by (simp_all add: safe_def vaults_listed_def mints_linked_def burns_linked_def)
  ultimately show ?thesis using assms(1) t(1-3) s(2) by (auto simp: safe_def token_linked_def)
qed

lemma safe_mint_debt:
  assumes "safe self d c" "active (vaults c x)" "unat debt = unat (debtAmount (vaults c x)) + unat w"
    and "wsXMR_mint self holder w (token c) = Inr t"
  shows "safe self d ((set_vault x ((vaults c x)\<lparr>debtAmount := debt\<rparr>) c)\<lparr>token := t\<rparr>)"
proof -
  let ?v = "(vaults c x)\<lparr>debtAmount := debt\<rparr>"
  let ?c1 = "set_vault x ?v c"
  have s: "token_linked c" "vm_this c = self" using assms(1) by (simp_all add: safe_def)
  note t = mint_token_effect [OF s(1), unfolded s(2), OF assms(4)]
  have "covered (d(collateralAsset ?v := d (collateralAsset ?v) + 0)) ?c1"
    by (rule covered_set_vault) (use assms in \<open>simp_all add: safe_def\<close>)
  then have "covered d ?c1" by simp
  then have "covered d (?c1\<lparr>token := t\<rparr>)"
    by (rule covered_step) (use t(5) [of self] s(2) in \<open>simp add: owed_cong [of "?c1\<lparr>token := t\<rparr>" ?c1] holdings_def\<close>)
  moreover have "total_debt (?c1\<lparr>token := t\<rparr>) = total_debt ?c1" by (simp add: total_debt_def)
  then have "total_debt (?c1\<lparr>token := t\<rparr>) = unat (tok_totalSupply t)"
    using total_debt_set_vault [of x ?v c] assms(1,3) t(4) by (simp add: safe_def)
  moreover have "vaults_listed (?c1\<lparr>token := t\<rparr>)" "mints_linked (?c1\<lparr>token := t\<rparr>)" "burns_linked (?c1\<lparr>token := t\<rparr>)"
    using linked_set_vault [of ?v c x] assms(1,2)
    by (simp_all add: safe_def vaults_listed_def mints_linked_def burns_linked_def)
  ultimately show ?thesis using assms(1) t(1-3) s(2) by (auto simp: safe_def token_linked_def)
qed

lemma safe_set_burn:
  assumes "safe self d c" "burn_requestId r = i" "active (vaults c (burn_lpVault r))"
    and "\<And>b. int (burn_claim c b r) + d b \<le> int (burn_claim c b (burnRequests c i)) + d' b"
  shows "safe self d' (set_burn i r c)"
proof -
  have "holdings (set_burn i r c) = holdings c" by (rule holdings_cong) simp_all
  then have "int (collateral_owed (set_burn i r c) b) + int (holdings c b) + d b \<le>
      int (collateral_owed c b) + int (holdings (set_burn i r c) b) + d' b" for b
    using owed_set_burn [of i r c b] assms(4) [of b] by simp
  moreover have "covered d c" using assms(1) by (simp add: safe_def)
  ultimately have "covered d' (set_burn i r c)" using covered_step by blast
  then show ?thesis
    using assms(1-3) by (auto simp: safe_def token_linked_def vaults_listed_def mints_linked_def burns_linked_def total_debt_def)
qed

lemma safe_escrow:
  assumes "safe self d c" "burn_status (burnRequests c i) = BURN_INVALID" "burn_requestId r = i"
    and "active (vaults c (burn_lpVault r))" "a = collateralAsset (vaults c (burn_lpVault r))"
    and "int (unat (escrowedCollateral r)) = k"
  shows "safe self (d(a := d a + k)) (set_burn i r c)"
  by (rule safe_set_burn [OF assms(1)]) (use assms in \<open>auto simp: burn_claim_def\<close>)

lemma safe_settle:
  assumes "safe self d c" "burn_status (burnRequests c i) = BURN_PENDING" "st = BURN_COMPLETED \<or> st = BURN_SLASHED"
    and "a = collateralAsset (vaults c (burn_lpVault (burnRequests c i)))"
    and "k = int (unat (escrowedCollateral (burnRequests c i)))"
  shows "safe self (d(a := d a - k)) (set_burn i ((burnRequests c i)\<lparr>burn_status := st\<rparr>) c)"
proof (rule safe_set_burn [OF assms(1)])
  have "burn_requestId (burnRequests c i) = i \<and> active (vaults c (burn_lpVault (burnRequests c i)))"
    using assms(1,2) by (simp add: safe_def burns_linked_def)
  then show "burn_requestId ((burnRequests c i)\<lparr>burn_status := st\<rparr>) = i"
    and "active (vaults c (burn_lpVault ((burnRequests c i)\<lparr>burn_status := st\<rparr>)))" by simp_all
  fix b
  show "int (burn_claim c b ((burnRequests c i)\<lparr>burn_status := st\<rparr>)) + d b \<le>
      int (burn_claim c b (burnRequests c i)) + (d(a := d a - k)) b"
    using assms(2-5) by (auto simp: burn_claim_def)
qed

lemma safe_emit [simp]: "safe self d (vm_emit e c) = safe self d c"
  using owed_cong [of "vm_emit e c" c] holdings_cong [of "vm_emit e c" c]
  by (simp add: safe_def covered_def token_linked_def vaults_listed_def mints_linked_def burns_linked_def total_debt_def)

lemma safe_entered [simp]: "safe self d (c\<lparr>entered := b\<rparr>) = safe self d c"
  using owed_cong [of "c\<lparr>entered := b\<rparr>" c] holdings_cong [of "c\<lparr>entered := b\<rparr>" c]
  by (simp add: safe_def covered_def token_linked_def vaults_listed_def mints_linked_def burns_linked_def total_debt_def)

lemma safe_set_mint:
  assumes "safe self d c" "mint_status r \<noteq> MINT_INVALID \<Longrightarrow> mint_requestId r = i \<and> active (vaults c (mint_lpVault r))"
  shows "safe self d (set_mint i r c)"
  by (rule safe_frame [OF assms(1)]) (use assms in \<open>auto simp: safe_def mints_linked_def\<close>)

lemma safe_ledger:
  assumes "safe self d c" "\<And>b. int (vm_ledger c b self) + d b \<le> int (l b self) + d' b" "d' (wsxmrToken c) = d (wsxmrToken c)"
  shows "safe self d' (c\<lparr>vm_ledger := l\<rparr>)"
proof -
  let ?c = "c\<lparr>vm_ledger := l\<rparr>"
  have "covered d c" using assms(1) by (simp add: safe_def)
  then have "covered d' ?c"
    by (rule covered_step) (use assms in \<open>auto simp: safe_def holdings_def owed_cong [of ?c c]\<close>)
  then show ?thesis
    using assms(1) by (auto simp: safe_def token_linked_def vaults_listed_def mints_linked_def burns_linked_def total_debt_def)
qed

section \<open>Every outside call keeps the invariant\<close>

lemma initiateBurn_Inr:
  assumes "initiateBurn V m w lp commitment c = Inr (i, c')"
  obtains e xmr t dl nc nd where
    "lp \<noteq> 0" "active (vaults c lp)" "burn_status (burnRequests c i) = BURN_INVALID"
    "unat nc + unat e = unat (collateralAmount (vaults c lp))" "unat nd + unat w = unat (debtAmount (vaults c lp))"
    "wsXMR_burn (vm_this c) (sender m) w (token c) = Inr t"
    "unat dl = unat (timestamp m) + 86400" "unat xmr = unat w * 10000"
    "c' = vm_emit (BurnInitiated i (sender m) lp w xmr commitment dl)
       (set_burn i \<lparr>burn_requestId = i, burn_user = sender m, burn_lpVault = lp, burn_wsxmrAmount = w,
          burn_xmrAmount = xmr, escrowedCollateral = e, burn_refundCommitment = commitment, burn_deadline = dl,
          burn_status = BURN_PENDING\<rparr>
          ((set_vault lp ((vaults c lp)\<lparr>collateralAmount := nc, debtAmount := nd\<rparr>) c)\<lparr>token := t\<rparr>))"
    "\<exists>value usd. getCollateralValueForDebt m w = Inr value \<and> unat usd = unat value * 120 div 100 \<and>
       usdToCollateral V m c (collateralAsset (vaults c lp)) usd = Inr e"
  using assms
  apply (simp only: initiateBurn_def Let_def sol_Inr not_not BURN_TIMEOUT_def ratio_defs)
  apply (elim exE conjE)
  subgoal for xmr cv x usd e nc nd t dl
    by (rule that [of nc e nd t dl xmr]) (auto intro: exI [of _ usd])
  done

lemma initiateBurn_safe:
  assumes "safe self d c" "sender m \<noteq> self" "initiateBurn V m w lp commitment c = Inr (i, c')"
  shows "safe self d c'"
  using assms(3)
proof (rule initiateBurn_Inr)
  fix e xmr dl nc nd :: uint256 and t :: wsXMR
  assume a: "active (vaults c lp)" "burn_status (burnRequests c i) = BURN_INVALID"
    and col: "unat nc + unat e = unat (collateralAmount (vaults c lp))"
    and deb: "unat nd + unat w = unat (debtAmount (vaults c lp))"
    and burn: "wsXMR_burn (vm_this c) (sender m) w (token c) = Inr t"
  let ?r = "\<lparr>burn_requestId = i, burn_user = sender m, burn_lpVault = lp, burn_wsxmrAmount = w,
          burn_xmrAmount = xmr, escrowedCollateral = e, burn_refundCommitment = commitment, burn_deadline = dl,
          burn_status = BURN_PENDING\<rparr>"
  let ?c1 = "(set_vault lp ((vaults c lp)\<lparr>collateralAmount := nc, debtAmount := nd\<rparr>) c)\<lparr>token := t\<rparr>"
  let ?a = "collateralAsset (vaults c lp)"
  assume c': "c' = vm_emit (BurnInitiated i (sender m) lp w xmr commitment dl) (set_burn i ?r ?c1)"
  have k: "int (unat (collateralAmount (vaults c lp))) + (- int (unat e)) = int (unat nc)" using col by linarith
  have "vm_this c = self" using assms(1) by (simp add: safe_def)
  then have "safe self (d(?a := d ?a + (- int (unat e)))) ?c1"
    using burn assms(2) by (intro safe_burn_debt [OF assms(1) a(1) refl k deb]) simp_all
  then have "safe self ((d(?a := d ?a + (- int (unat e))))(?a := (d(?a := d ?a + (- int (unat e)))) ?a + int (unat e)))
      (set_burn i ?r ?c1)"
    by (rule safe_escrow) (use a in simp_all)
  then show "safe self d c'" by (simp add: c')
qed

lemma burn_active:
  "safe self d c \<Longrightarrow> burn_status (burnRequests c i) \<noteq> BURN_INVALID \<Longrightarrow> active (vaults c (burn_lpVault (burnRequests c i)))"
  by (simp add: safe_def burns_linked_def)

lemma mint_active:
  "safe self d c \<Longrightarrow> mint_status (mintRequests c i) \<noteq> MINT_INVALID \<Longrightarrow>
     mint_requestId (mintRequests c i) = i \<and> active (vaults c (mint_lpVault (mintRequests c i)))"
  by (simp add: safe_def mints_linked_def)

lemma createVault_safe:
  assumes "safe self d c" "createVault m a c = Inr c'"
  shows "safe self d c'"
proof -
  let ?v = "\<lparr>lpAddress = sender m, collateralAsset = a, collateralAmount = 0, debtAmount = 0, active = True\<rparr>"
  let ?c1 = "set_vault (sender m) ?v c"
  have na: "\<not> active (vaults c (sender m))"
    and c': "c' = vm_emit (VaultCreated (sender m) a) (?c1\<lparr>vaultList := vaultList ?c1 @ [sender m]\<rparr>)"
    using assms(2) by (auto simp: createVault_def Let_def sol_Inr)
  have old: "vaults c (sender m) = no_vault" using assms(1) na by (simp add: safe_def vaults_listed_def)
  have other: "burn_status (burnRequests c i) = BURN_PENDING \<Longrightarrow> burn_lpVault (burnRequests c i) \<noteq> sender m" for i
    using burn_active [OF assms(1), of i] na by auto
  have bc: "burn_claim c' b (burnRequests c i) = burn_claim c b (burnRequests c i)" for b i
    using other [of i] by (auto simp: burn_claim_def c')
  have new: "vaults c' = (vaults c)(sender m := ?v)" "burnRequests c' = burnRequests c" by (simp_all add: c')
  have zero: "vault_claim b ?v = 0" "vault_claim b no_vault = 0" for b by (simp_all add: vault_claim_def no_vault_def)
  have "collateral_owed c' b = collateral_owed c b" for b
    using sum_upd [of "\<lambda>_. vault_claim b" "vaults c" "sender m" ?v]
    by (simp add: collateral_owed_def bc new zero old del: fun_upd_apply)
  moreover have "holdings c' = holdings c" by (rule holdings_cong) (simp_all add: c')
  moreover have "total_debt c' = total_debt c"
    using total_debt_set_vault [of "sender m" ?v c] by (simp add: total_debt_def old no_vault_def c')
  moreover have "vaults_listed c'" "mints_linked c'" "burns_linked c'"
    using assms(1) na by (auto simp: safe_def c' vaults_listed_def mints_linked_def burns_linked_def)
  ultimately show ?thesis
    using assms(1) by (auto simp: safe_def covered_def token_linked_def c')
qed

lemma safe_token:
  assumes "safe self d c" "erc20_inv t" "vaultManager t = self" "\<And>s. tok_allowances t self s = 0"
    and "tok_totalSupply t = tok_totalSupply (token c)"
    and "int (unat (tok_balances (token c) self)) + d (wsxmrToken c) \<le> int (unat (tok_balances t self)) + d' (wsxmrToken c)"
    and "\<And>b. b \<noteq> wsxmrToken c \<Longrightarrow> d' b = d b"
  shows "safe self d' (c\<lparr>token := t\<rparr>)"
proof -
  let ?c = "c\<lparr>token := t\<rparr>"
  have "covered d c" using assms(1) by (simp add: safe_def)
  then have "covered d' ?c"
    by (rule covered_step) (use assms in \<open>auto simp: safe_def holdings_def owed_cong [of ?c c] simp del: of_nat_unat\<close>)
  then show ?thesis
    using assms by (auto simp: safe_def token_linked_def vaults_listed_def mints_linked_def burns_linked_def total_debt_def)
qed

lemma token_call_safe:
  assumes "safe self d c" "outside self (Open_token m call)" "exec_token (sender m) call (token c) = Inr t"
  shows "safe self d (c\<lparr>token := t\<rparr>)"
proof -
  have h: "erc20_inv (token c)" "vaultManager (token c) = self" "\<forall>s. tok_allowances (token c) self s = 0" "sender m \<noteq> self"
      "\<not> appoints_manager call"
    using assms(1,2) by (auto simp: safe_def token_linked_def outside_def)
  show ?thesis
    by (rule safe_token [OF assms(1) exec_token_inv [OF h(1) assms(3)]])
      (use tok_linked_calls [OF h(2,4,5) assms(3)] tok_own_allowance [OF h(3,2,4) assms(3)]
        tok_own_balance [OF h(1,3,2,4) assms(3)] in \<open>simp_all del: of_nat_unat\<close>)
qed

lemma mint_calls_safe:
  assumes "safe self d c"
  shows "initiateMint V m lp xmr commitment duration c = Inr (i, c') \<Longrightarrow> safe self d c'"
    and "setMintReady m i c = Inr c' \<Longrightarrow> safe self d c'" and "cancelMint m i c = Inr c' \<Longrightarrow> safe self d c'"
  using assms mint_active [OF assms, of i]
  by (auto simp: initiateMint_def setMintReady_def cancelMint_def Let_def sol_Inr intro!: safe_set_mint)

lemma admin_calls_safe:
  assumes "safe self d c"
  shows "addCollateralSupport m a feed c = Inr c' \<Longrightarrow> safe self d c'" and "removeCollateralSupport m a c = Inr c' \<Longrightarrow> safe self d c'"
    and "safe self d (vm_owned_by a c)"
proof -
  have m: "mints_linked c" using assms by (simp add: safe_def)
  show "safe self d c'" if "addCollateralSupport m a feed c = Inr c'"
    by (rule safe_frame [OF assms]) (use that m in \<open>auto simp: addCollateralSupport_def sol_Inr mints_linked_def\<close>)
  show "safe self d c'" if "removeCollateralSupport m a c = Inr c'"
    by (rule safe_frame [OF assms]) (use that m in \<open>auto simp: removeCollateralSupport_def sol_Inr mints_linked_def\<close>)
  show "safe self d (vm_owned_by a c)"
    by (rule safe_frame [OF assms]) (use m in \<open>auto simp: vm_owned_by_def mints_linked_def\<close>)
qed

lemma exec_open_safe:
  assumes "safe self d c" "outside self call" "exec_open V call c = Inr c'"
  shows "safe self d c'"
proof (cases call)
  case (Open_move a "from" to v)
  then have "from \<noteq> self" and mv: "move (vm_ledger c) a from to v = Some (vm_ledger c')"
    and c': "c' = c\<lparr>vm_ledger := vm_ledger c'\<rparr>"
    using assms(2,3) by (auto simp: outside_def split: option.splits)
  then have "vm_ledger c b self \<le> vm_ledger c' b self" for b by (intro move_Some(3) [OF mv]) auto
  then show ?thesis by (subst c') (rule safe_ledger [OF assms(1)], simp_all)
next
  case (Open_token m tc)
  then show ?thesis using assms token_call_safe [OF assms(1), of m tc] by (auto simp: nonpayable_def sol_Inr)
next
  case (Open_initiateBurn m w lp h)
  then show ?thesis using assms initiateBurn_safe [OF assms(1), of m V w lp h] by (auto simp: nonpayable_def sol_Inr outside_def)
qed (use assms(3) createVault_safe [OF assms(1)] mint_calls_safe [OF assms(1)] admin_calls_safe [OF assms(1)] in
    \<open>auto simp: nonpayable_def sol_Inr\<close>)

interpretation sf: open_invariant V self "safe self d" for V self d
  by unfold_locales (rule exec_open_safe)

text \<open>The asset of an active vault, and a request that has been made, do not change during callbacks.\<close>

lemma exec_open_frame:
  assumes "exec_open V call c = Inr c'"
  shows "active (vaults c x) \<Longrightarrow> active (vaults c' x) \<and> collateralAsset (vaults c' x) = collateralAsset (vaults c x)"
    and "burn_status (burnRequests c i) \<noteq> BURN_INVALID \<Longrightarrow> burnRequests c' i = burnRequests c i"
    and "entered c' = entered c" "wsxmrToken c' = wsxmrToken c"
  using assms
  by (cases call; auto simp: nonpayable_def sol_Inr createVault_def initiateMint_def setMintReady_def cancelMint_def
      addCollateralSupport_def removeCollateralSupport_def vm_owned_by_def Let_def elim!: initiateBurn_Inr split: option.splits)+

interpretation asset: storage_invariant V self "\<lambda>c. active (vaults c x) \<and> collateralAsset (vaults c x) = a" for V self x a
  by unfold_locales (use exec_open_frame(1) in auto)

interpretation burn: storage_invariant V self "\<lambda>c. burnRequests c i = r \<and> burn_status r \<noteq> BURN_INVALID" for V self i r
  by unfold_locales (use exec_open_frame(2) in auto)

interpretation addr: storage_invariant V self "\<lambda>c. wsxmrToken c = w" for V self w
  by unfold_locales (use exec_open_frame(4) in auto)

section \<open>Payments\<close>

lemma move_own:
  assumes "move l a self to v = Some l'"
  shows "int (l b self) + d b \<le> int (l' b self) + (d(a := d a + int v)) b"
  using move_Some(1,2) [OF assms] by (cases "b = a") auto

lemma move_to:
  assumes "move l a from to v = Some l'" "from \<noteq> self"
  shows "int (l b self) + d b \<le> int (l' b self) + d b" and "to = self \<Longrightarrow>
    int (l b self) + d b \<le> int (l' b self) + (d(a := d a - int v)) b"
  using move_Some(3) [OF assms(1), of self b] move_Some(2) [OF assms(1), of b] move_Some(4) [OF assms(1)] assms(2)
  by (auto simp: fun_upd_def)

lemma pay_safe:
  assumes "standard_tokens (venv_evm V)" "outside_reacts self V" "safe self d c"
    and "pay_collateral V a to v c = Inr c'"
  shows "safe self (d(a := d a + int (unat v))) c'"
proof -
  let ?d = "d(a := d a + int (unat v))"
  have self: "vm_this c = self" "wsxmrToken c \<noteq> 0" using assms(3) by (simp_all add: safe_def)
  consider "a = 0" | "a = wsxmrToken c" | "a \<noteq> 0" "a \<noteq> wsxmrToken c" by blast
  then show ?thesis
  proof cases
    case 1
    then obtain l where l: "move (vm_ledger c) 0 self to (unat v) = Some l"
      and cb: "callback V to (c\<lparr>vm_ledger := l\<rparr>) = Inr c'"
      using assms(4) self by (auto simp: pay_collateral_def pay_ether_def ledger_transfer_def sol_Inr split: sum.splits option.splits)
    have "safe self ?d (c\<lparr>vm_ledger := l\<rparr>)"
      by (rule safe_ledger [OF assms(3)]) (use move_own [OF l] 1 self in \<open>auto simp del: of_nat_unat\<close>)
    then show ?thesis by (rule sf.callback_keeps [OF assms(2) _ cb])
  next
    case 2
    then obtain t where t: "tok_transfer self to v (token c) = Inr t" and c': "c' = c\<lparr>token := t\<rparr>"
      using assms(4) self by (auto simp: pay_collateral_def ERC20_transfer_def sol_Inr)
    have tl: "erc20_inv (token c)" "vaultManager (token c) = self" "\<And>s. tok_allowances (token c) self s = 0"
      using assms(3) by (auto simp: safe_def token_linked_def)
    have "vaultManager t = self" using t tl(2) by (auto simp: tok_transfer_def Let_def sol_Inr)
    then show ?thesis unfolding c'
      by (intro safe_token [OF assms(3) transfer_inv [OF tl(1) t]])
        (use transfer_balance(4,5,6) [OF tl(1) t] tl 2 in \<open>auto simp del: of_nat_unat\<close>)
  next
    case 3
    then obtain c1 l where c1: "callback V a c = Inr c1"
      and tt: "token_transfer (venv_evm V) (vm_ledger c1) a (vm_this c) to (unat v) = Some l"
      and cb: "callback V a (c1\<lparr>vm_ledger := l\<rparr>) = Inr c'"
      using assms(4) by (auto simp: pay_collateral_def transfer_token_def ledger_transfer_def sol_Inr split: option.splits)
    have s1: "safe self d c1" by (rule sf.callback_keeps [OF assms(2,3) c1])
    have l: "move (vm_ledger c1) a self to (unat v) = Some l" using assms(1) tt self by (simp add: standard_tokens_def)
    have "wsxmrToken c1 = wsxmrToken c" by (rule addr.callback_keeps [OF assms(2) refl c1])
    then have "safe self ?d (c1\<lparr>vm_ledger := l\<rparr>)"
      by (intro safe_ledger [OF s1]) (use move_own [OF l] 3 in \<open>auto simp del: of_nat_unat\<close>)
    then show ?thesis by (rule sf.callback_keeps [OF assms(2) _ cb])
  qed
qed

lemma take_safe:
  assumes "standard_tokens (venv_evm V)" "outside_reacts self V" "safe self d c" "from \<noteq> self" "a \<noteq> 0"
    and "take_collateral V a from v c = Inr c'"
  shows "safe self (d(a := d a - int (unat v))) c'"
proof -
  let ?d = "d(a := d a - int (unat v))"
  have self: "vm_this c = self" using assms(3) by (simp_all add: safe_def)
  show ?thesis
  proof (cases "a = wsxmrToken c")
    case True
    then obtain t where t: "exec_token self (Tok_transferFrom from self v) (token c) = Inr t" and c': "c' = c\<lparr>token := t\<rparr>"
      using assms(6) self by (auto simp: take_collateral_def sol_Inr)
    then obtain t1 where t1: "tok_spendAllowance from self v (token c) = Inr t1" "tok_transfer from self v t1 = Inr t"
      by (auto simp: ERC20_transferFrom_def sol_Inr)
    have tl: "erc20_inv (token c)" "vaultManager (token c) = self" "\<And>s. tok_allowances (token c) self s = 0"
      using assms(3) by (auto simp: safe_def token_linked_def)
    have i1: "erc20_inv t1" "tok_balances t1 = tok_balances (token c)" "tok_totalSupply t1 = tok_totalSupply (token c)"
      using spend_frame [OF t1(1)] erc20_inv_frame [of t1 "token c"] tl(1) by auto
    have "vaultManager t = self" "\<And>s. tok_allowances t self s = 0"
      using t1 tl assms(4) by (auto simp: tok_spendAllowance_def tok_approve_def tok_transfer_def Let_def sol_Inr split: if_splits)
    then show ?thesis unfolding c'
      by (intro safe_token [OF assms(3) exec_token_inv [OF tl(1) t]])
        (use transfer_balance(3,6) [OF i1(1) t1(2)] assms(4) i1 True in \<open>auto simp del: of_nat_unat\<close>)
  next
    case False
    then obtain c1 l where c1: "callback V a c = Inr c1"
      and tt: "token_transfer (venv_evm V) (vm_ledger c1) a from (vm_this c) (unat v) = Some l"
      and cb: "callback V a (c1\<lparr>vm_ledger := l\<rparr>) = Inr c'"
      using assms(6) by (auto simp: take_collateral_def transfer_token_def ledger_transfer_def sol_Inr split: option.splits)
    have s1: "safe self d c1" by (rule sf.callback_keeps [OF assms(2,3) c1])
    have l: "move (vm_ledger c1) a from self (unat v) = Some l" using assms(1) tt self by (simp add: standard_tokens_def)
    have "wsxmrToken c1 = wsxmrToken c" by (rule addr.callback_keeps [OF assms(2) refl c1])
    then have "safe self ?d (c1\<lparr>vm_ledger := l\<rparr>)"
      by (intro safe_ledger [OF s1]) (use move_to(2) [OF l assms(4) refl] False in \<open>auto simp del: of_nat_unat\<close>)
    then show ?thesis by (rule sf.callback_keeps [OF assms(2) _ cb])
  qed
qed

section \<open>The guarded functions keep the invariant\<close>

lemma nonReentrant_Inr [sol_Inr]:
  "nonReentrant body c = Inr c' \<longleftrightarrow> \<not> entered c \<and> (\<exists>c1. body (c\<lparr>entered := True\<rparr>) = Inr c1 \<and> c' = c1\<lparr>entered := False\<rparr>)"
  by (auto simp: nonReentrant_def sol_Inr)

lemma ether_arrives:
  assumes "safe self d c" "from \<noteq> self" "ledger_transfer (move (vm_ledger c) 0 from self n) c = Inr c'"
  shows "safe self (d(0 := d 0 - int n)) c'"
proof -
  obtain l where l: "move (vm_ledger c) 0 from self n = Some l" and c': "c' = c\<lparr>vm_ledger := l\<rparr>"
    using assms(3) by (auto simp: ledger_transfer_def split: option.splits)
  show ?thesis unfolding c'
    by (rule safe_ledger [OF assms(1)]) (use move_to(2) [OF l assms(2) refl] assms(1) in \<open>auto simp: safe_def\<close>)
qed

lemma safe_weaken: "safe self d c \<Longrightarrow> (\<And>a. d a \<le> d' a) \<Longrightarrow> safe self d' c"
  by (auto simp: safe_def covered_def) (meson add_left_mono order_trans)

lemma depositCollateral_Inr:
  assumes "depositCollateral V m v c = Inr c'"
  obtains c0 c1 new where
    "ledger_transfer (move (vm_ledger c) 0 (sender m) (vm_this c) (unat (msg_value m))) c = Inr c0"
    "\<not> entered c0" "active (vaults c0 (sender m))" "v \<noteq> 0"
    "collateralAsset (vaults c0 (sender m)) = 0 \<and> msg_value m = v \<and> c1 = c0\<lparr>entered := True\<rparr> \<or>
     collateralAsset (vaults c0 (sender m)) \<noteq> 0 \<and> msg_value m = 0 \<and>
       take_collateral V (collateralAsset (vaults c0 (sender m))) (sender m) v (c0\<lparr>entered := True\<rparr>) = Inr c1"
    "unat new = unat (collateralAmount (vaults c1 (sender m))) + unat v"
    "c' = (vm_emit (CollateralDeposited (sender m) (collateralAsset (vaults c1 (sender m))) v)
       (set_vault (sender m) ((vaults c1 (sender m))\<lparr>collateralAmount := new\<rparr>) c1))\<lparr>entered := False\<rparr>"
  using assms
  apply (simp only: depositCollateral_def Let_def sol_Inr not_not)
  apply (elim exE conjE)
  subgoal for c0 c1 c2 new by (rule that [of c0 c2 new]) (auto simp: sol_Inr split: if_splits)
  done

lemma depositCollateral_safe:
  assumes "standard_tokens (venv_evm V)" "outside_reacts self V" "safe self d c" "sender m \<noteq> self"
    and "depositCollateral V m v c = Inr c'"
  shows "safe self d c'"
  using assms(5)
proof (rule depositCollateral_Inr)
  fix c0 c1 :: vm and new :: uint256
  let ?a = "collateralAsset (vaults c0 (sender m))"
  assume c0: "ledger_transfer (move (vm_ledger c) 0 (sender m) (vm_this c) (unat (msg_value m))) c = Inr c0"
    and act: "active (vaults c0 (sender m))"
    and pay: "?a = 0 \<and> msg_value m = v \<and> c1 = c0\<lparr>entered := True\<rparr> \<or>
      ?a \<noteq> 0 \<and> msg_value m = 0 \<and> take_collateral V ?a (sender m) v (c0\<lparr>entered := True\<rparr>) = Inr c1"
    and new: "unat new = unat (collateralAmount (vaults c1 (sender m))) + unat v"
    and c': "c' = (vm_emit (CollateralDeposited (sender m) (collateralAsset (vaults c1 (sender m))) v)
       (set_vault (sender m) ((vaults c1 (sender m))\<lparr>collateralAmount := new\<rparr>) c1))\<lparr>entered := False\<rparr>"
  have "vm_this c = self" using assms(3) by (simp add: safe_def)
  then have s0: "safe self (d(0 := d 0 - int (unat (msg_value m)))) c0"
    using ether_arrives [OF assms(3,4)] c0 by (simp del: of_nat_unat)
  have "safe self (d(?a := d ?a - int (unat v))) c1 \<and> active (vaults c1 (sender m)) \<and> collateralAsset (vaults c1 (sender m)) = ?a"
    using pay
  proof (elim disjE conjE)
    assume "?a = 0" "msg_value m = v" "c1 = c0\<lparr>entered := True\<rparr>"
    then show ?thesis using s0 act by (simp del: of_nat_unat)
  next
    assume na: "?a \<noteq> 0" "msg_value m = 0" and tk: "take_collateral V ?a (sender m) v (c0\<lparr>entered := True\<rparr>) = Inr c1"
    have "safe self d (c0\<lparr>entered := True\<rparr>)" using s0 na by simp
    then have "safe self (d(?a := d ?a - int (unat v))) c1" by (rule take_safe [OF assms(1,2) _ assms(4) na(1) tk])
    moreover have "active (vaults c1 (sender m)) \<and> collateralAsset (vaults c1 (sender m)) = ?a"
      by (rule asset.take_keeps [OF assms(2) _ tk]) (simp add: act)
    ultimately show ?thesis by simp
  qed
  then have s1: "safe self (d(?a := d ?a - int (unat v))) c1"
    and v1: "active (vaults c1 (sender m)) \<and> collateralAsset (vaults c1 (sender m)) = ?a" by simp_all
  have "safe self ((d(?a := d ?a - int (unat v)))(?a := (d(?a := d ?a - int (unat v))) ?a + int (unat v)))
      (set_vault (sender m) ((vaults c1 (sender m))\<lparr>collateralAmount := new\<rparr>) c1)"
    by (rule safe_collateral [OF s1]) (use v1 new in simp_all)
  then show "safe self d c'" by (simp add: c')
qed

lemma withdrawCollateral_Inr:
  assumes "withdrawCollateral V m v c = Inr c'"
  obtains c1 new where
    "\<not> entered c" "active (vaults c (sender m))" "v \<noteq> 0" "unat new + unat v = unat (collateralAmount (vaults c (sender m)))"
    "debtAmount (vaults c (sender m)) = 0 \<or>
      (\<exists>ratio. calculateCollateralRatio V m (c\<lparr>entered := True\<rparr>) (collateralAsset (vaults c (sender m))) new
         (debtAmount (vaults c (sender m))) = Inr ratio \<and> COLLATERAL_RATIO \<le> ratio)"
    "pay_collateral V (collateralAsset (vaults c (sender m))) (sender m) v
       (set_vault (sender m) ((vaults c (sender m))\<lparr>collateralAmount := new\<rparr>) (c\<lparr>entered := True\<rparr>)) = Inr c1"
    "c' = (vm_emit (CollateralWithdrawn (sender m) (collateralAsset (vaults c1 (sender m))) v) c1)\<lparr>entered := False\<rparr>"
  using assms
  apply (simp only: withdrawCollateral_def Let_def sol_Inr not_not)
  apply (elim exE conjE)
  subgoal for c1 new u c2
    by (rule that [of new c2]) (auto simp: sol_Inr word_gt_0 not_less split: if_splits)
  done

lemma withdrawCollateral_safe:
  assumes "standard_tokens (venv_evm V)" "outside_reacts self V" "safe self d c"
    and "withdrawCollateral V m v c = Inr c'"
  shows "safe self d c'"
  using assms(4)
proof (rule withdrawCollateral_Inr)
  fix c1 :: vm and new :: uint256
  let ?x = "sender m"
  let ?a = "collateralAsset (vaults c ?x)"
  let ?c0 = "set_vault ?x ((vaults c ?x)\<lparr>collateralAmount := new\<rparr>) (c\<lparr>entered := True\<rparr>)"
  assume act: "active (vaults c ?x)" and new: "unat new + unat v = unat (collateralAmount (vaults c ?x))"
    and pay: "pay_collateral V ?a ?x v ?c0 = Inr c1"
    and c': "c' = (vm_emit (CollateralWithdrawn ?x (collateralAsset (vaults c1 ?x)) v) c1)\<lparr>entered := False\<rparr>"
  have k: "int (unat (collateralAmount (vaults c ?x))) + (- int (unat v)) = int (unat new)" using new by linarith
  have "safe self (d(?a := d ?a + (- int (unat v)))) ?c0"
    using safe_collateral [of self d "c\<lparr>entered := True\<rparr>" ?x ?a "- int (unat v)" new] assms(3) act k by simp
  from pay_safe [OF assms(1,2) this pay] show "safe self d c'" by (simp add: c')
qed

lemma finalizeMint_safe:
  assumes "safe self d c" "finalizeMint V m i secret c = Inr c'"
  shows "safe self d c'"
proof -
  let ?r = "mintRequests c i"
  let ?x = "mint_lpVault ?r"
  obtain debt t where st: "mint_status ?r = MINT_READY" and debt: "unat debt = unat (debtAmount (vaults c ?x)) + unat (mint_wsxmrAmount ?r)"
    and t: "wsXMR_mint (vm_this c) (mint_user ?r) (mint_wsxmrAmount ?r) (token c) = Inr t"
    and c': "c' = (vm_emit (MintFinalized i secret) (set_mint i (?r\<lparr>mint_status := MINT_COMPLETED\<rparr>)
      ((set_vault ?x ((vaults c ?x)\<lparr>debtAmount := debt\<rparr>) (c\<lparr>entered := True\<rparr>))\<lparr>token := t\<rparr>)))\<lparr>entered := False\<rparr>"
    using assms(2) by (auto simp: finalizeMint_def Let_def sol_Inr)
  have self: "vm_this c = self" using assms(1) by (simp add: safe_def)
  have act: "mint_requestId ?r = i \<and> active (vaults c ?x)" using mint_active [OF assms(1)] st by simp
  have "safe self d ((set_vault ?x ((vaults c ?x)\<lparr>debtAmount := debt\<rparr>) (c\<lparr>entered := True\<rparr>))\<lparr>token := t\<rparr>)"
    using safe_mint_debt [of self d "c\<lparr>entered := True\<rparr>" ?x debt] assms(1) act debt t self by simp
  then show ?thesis by (auto simp: c' act intro!: safe_set_mint)
qed

lemma finalizeBurn_safe:
  assumes "safe self d c" "finalizeBurn V m i secret c = Inr c'"
  shows "safe self d c'"
proof -
  let ?r = "burnRequests c i"
  let ?x = "burn_lpVault ?r" and ?e = "int (unat (escrowedCollateral ?r))"
  let ?a = "collateralAsset (vaults c ?x)"
  obtain new where st: "burn_status ?r = BURN_PENDING"
    and new: "unat new = unat (collateralAmount (vaults c ?x)) + unat (escrowedCollateral ?r)"
    and c': "c' = (vm_emit (BurnFinalized i secret) (set_burn i (?r\<lparr>burn_status := BURN_COMPLETED\<rparr>)
      (set_vault ?x ((vaults c ?x)\<lparr>collateralAmount := new\<rparr>) (c\<lparr>entered := True\<rparr>))))\<lparr>entered := False\<rparr>"
    using assms(2) by (auto simp: finalizeBurn_def Let_def sol_Inr)
  let ?c1 = "set_vault ?x ((vaults c ?x)\<lparr>collateralAmount := new\<rparr>) (c\<lparr>entered := True\<rparr>)"
  have "active (vaults c ?x)" using burn_active [OF assms(1)] st by simp
  then have "safe self (d(?a := d ?a + ?e)) ?c1"
    using safe_collateral [of self d "c\<lparr>entered := True\<rparr>" ?x ?a ?e new] assms(1) new by simp
  from safe_settle [OF this, of i BURN_COMPLETED ?a ?e] st show ?thesis by (simp add: c')
qed

lemma claimSlashedCollateral_Inr:
  assumes "claimSlashedCollateral V m i c = Inr c'"
  obtains c1 where
    "\<not> entered c" "burn_status (burnRequests c i) = BURN_PENDING" "sender m = burn_user (burnRequests c i)"
    "burn_deadline (burnRequests c i) \<le> timestamp m"
    "pay_collateral V (collateralAsset (vaults c (burn_lpVault (burnRequests c i)))) (burn_user (burnRequests c i))
       (escrowedCollateral (burnRequests c i)) (c\<lparr>entered := True\<rparr>) = Inr c1"
    "c' = (vm_emit (BurnSlashed i (burn_user (burnRequests c1 i)) (escrowedCollateral (burnRequests c1 i)))
       (set_burn i ((burnRequests c1 i)\<lparr>burn_status := BURN_SLASHED\<rparr>) c1))\<lparr>entered := False\<rparr>"
  using assms by (auto simp: claimSlashedCollateral_def Let_def sol_Inr not_less intro: that)

lemma claimSlashedCollateral_safe:
  assumes "standard_tokens (venv_evm V)" "outside_reacts self V" "safe self d c"
    and "claimSlashedCollateral V m i c = Inr c'"
  shows "safe self d c'"
  using assms(4)
proof (rule claimSlashedCollateral_Inr)
  fix c1 :: vm
  let ?r = "burnRequests c i"
  let ?x = "burn_lpVault ?r"
  let ?a = "collateralAsset (vaults c ?x)" and ?e = "int (unat (escrowedCollateral ?r))"
  assume st: "burn_status ?r = BURN_PENDING"
    and pay: "pay_collateral V ?a (burn_user ?r) (escrowedCollateral ?r) (c\<lparr>entered := True\<rparr>) = Inr c1"
    and c': "c' = (vm_emit (BurnSlashed i (burn_user (burnRequests c1 i)) (escrowedCollateral (burnRequests c1 i)))
       (set_burn i ((burnRequests c1 i)\<lparr>burn_status := BURN_SLASHED\<rparr>) c1))\<lparr>entered := False\<rparr>"
  have s1: "safe self (d(?a := d ?a + ?e)) c1" by (rule pay_safe [OF assms(1,2) _ pay]) (simp add: assms(3))
  have r1: "burnRequests c1 i = ?r \<and> burn_status ?r \<noteq> BURN_INVALID"
    by (rule burn.pay_keeps [OF assms(2) _ pay]) (simp add: st)
  have "active (vaults c ?x)" using burn_active [OF assms(3)] st by simp
  then have "active (vaults c1 ?x) \<and> collateralAsset (vaults c1 ?x) = ?a"
    by (intro asset.pay_keeps [OF assms(2) _ pay]) simp
  with safe_settle [OF s1, of i BURN_SLASHED ?a ?e] st r1 show "safe self d c'" by (simp add: c')
qed

lemma liquidate_Inr:
  assumes "liquidate V m lp debt0 c = Inr c'"
  obtains w e amt nc nd t c1 ratio where
    "\<not> entered c" "active (vaults c lp)" "debt0 \<noteq> 0" "debtAmount (vaults c lp) \<noteq> 0"
    "w = (if debt0 > debtAmount (vaults c lp) then debtAmount (vaults c lp) else debt0)"
    "calculateCollateralRatio V m (c\<lparr>entered := True\<rparr>) (collateralAsset (vaults c lp)) (collateralAmount (vaults c lp))
       (debtAmount (vaults c lp)) = Inr ratio" "ratio < LIQUIDATION_RATIO"
    "\<exists>value usd. getCollateralValueForDebt m w = Inr value \<and> unat usd = unat value * 110 div 100 \<and>
       usdToCollateral V m (c\<lparr>entered := True\<rparr>) (collateralAsset (vaults c lp)) usd = Inr e"
    "amt = (if e > collateralAmount (vaults c lp) then collateralAmount (vaults c lp) else e)"
    "unat nc + unat amt = unat (collateralAmount (vaults c lp))" "unat nd + unat w = unat (debtAmount (vaults c lp))"
    "wsXMR_burn (vm_this c) (sender m) w (token c) = Inr t"
    "pay_collateral V (collateralAsset (vaults c lp)) (sender m) amt
       ((set_vault lp ((vaults c lp)\<lparr>collateralAmount := nc, debtAmount := nd\<rparr>) (c\<lparr>entered := True\<rparr>))\<lparr>token := t\<rparr>) = Inr c1"
    "c' = (vm_emit (VaultLiquidated lp (sender m) w amt) c1)\<lparr>entered := False\<rparr>"
  using assms
  apply (simp only: liquidate_def Let_def sol_Inr not_not ratio_defs)
  apply (elim exE conjE)
  subgoal for c1 ratio cv x usd e nc nd t c2
    by (rule that [OF _ _ _ _ refl, of ratio e _ nc nd t c2]) (auto simp: ratio_defs not_le intro: exI [of _ usd])
  done

lemma liquidate_safe:
  assumes "standard_tokens (venv_evm V)" "outside_reacts self V" "safe self d c" "sender m \<noteq> self"
    and "liquidate V m lp debt0 c = Inr c'"
  shows "safe self d c'"
  using assms(5)
proof (rule liquidate_Inr)
  fix w amt nc nd :: uint256 and t :: wsXMR and c1 :: vm
  let ?a = "collateralAsset (vaults c lp)"
  let ?c0 = "(set_vault lp ((vaults c lp)\<lparr>collateralAmount := nc, debtAmount := nd\<rparr>) (c\<lparr>entered := True\<rparr>))\<lparr>token := t\<rparr>"
  assume act: "active (vaults c lp)" and nc: "unat nc + unat amt = unat (collateralAmount (vaults c lp))"
    and nd: "unat nd + unat w = unat (debtAmount (vaults c lp))"
    and t: "wsXMR_burn (vm_this c) (sender m) w (token c) = Inr t"
    and pay: "pay_collateral V ?a (sender m) amt ?c0 = Inr c1"
    and c': "c' = (vm_emit (VaultLiquidated lp (sender m) w amt) c1)\<lparr>entered := False\<rparr>"
  have k: "int (unat (collateralAmount (vaults c lp))) + (- int (unat amt)) = int (unat nc)" using nc by linarith
  have "vm_this c = self" using assms(3) by (simp add: safe_def)
  then have "safe self (d(?a := d ?a + (- int (unat amt)))) ?c0"
    using safe_burn_debt [of self d "c\<lparr>entered := True\<rparr>" lp ?a "- int (unat amt)" nc nd w "sender m" t]
      assms(3,4) act k nd t by simp
  from pay_safe [OF assms(1,2) this pay] show "safe self d c'" by (simp add: c')
qed

definition outside_tx :: "address \<Rightarrow> vault_tx \<Rightarrow> bool" where
  "outside_tx self tx \<longleftrightarrow> (case tx of VTx_open call \<Rightarrow> outside self call | _ \<Rightarrow> vtx_sender tx \<noteq> self)"

lemma vexec_safe:
  assumes "standard_tokens (venv_evm V)" "outside_reacts self V" "safe self d c" "outside_tx self tx" "vexec V tx c = Inr c'"
  shows "safe self d c'"
  using assms(4,5)
  by (cases tx) (auto simp: outside_tx_def nonpayable_def sol_Inr intro: exec_open_safe [OF assms(3)]
    depositCollateral_safe [OF assms(1-3)] withdrawCollateral_safe [OF assms(1-3)] finalizeMint_safe [OF assms(3)]
    finalizeBurn_safe [OF assms(3)] claimSlashedCollateral_safe [OF assms(1-3)] liquidate_safe [OF assms(1-3)])

section \<open>Histories of transactions\<close>

lemma run_vtxs_invariant:
  assumes "I c" "\<And>c tx c'. I c \<Longrightarrow> tx \<in> set ts \<Longrightarrow> vexec V tx c = Inr c' \<Longrightarrow> I c'"
  shows "I (run_vtxs V ts c)"
  using assms
proof (induction ts arbitrary: c)
  case Nil
  then show ?case by (simp add: run_vtxs_def)
next
  case (Cons tx ts)
  have "I (apply_vtx V c tx)"
    using Cons.prems(1) Cons.prems(2) [of c tx] by (cases "vexec V tx c") (simp_all add: apply_vtx_def)
  then have "I (run_vtxs V ts (apply_vtx V c tx))" by (rule Cons.IH) (use Cons.prems(2) in auto)
  then show ?case by (simp add: run_vtxs_def)
qed

text \<open>
  The deployment: the token is created, the vault manager is created with the token's address, and the
  owner of the token appoints it.
\<close>

definition vault_deployed :: "address \<Rightarrow> address \<Rightarrow> address \<Rightarrow> address \<Rightarrow> ledger \<Rightarrow> vm sol" where
  "vault_deployed self tokenAddr pythContract own l =
     rb (wsXMR_constructor own) (\<lambda>t.
     rb (wsXMR_setVaultManager own self t) (\<lambda>t1.
     VaultManager_constructor self tokenAddr pythContract own t1 l))"

lemma vault_deployed_safe:
  assumes "vault_deployed self tokenAddr pythContract own l = Inr c"
  shows "safe self (\<lambda>_. 0) c" and "\<not> entered c"
proof -
  have c: "vm_this c = self" "wsxmrToken c \<noteq> 0" "vaultManager (token c) = self" "tok_allowances (token c) = (\<lambda>_ _. 0)"
      "tok_balances (token c) = (\<lambda>_. 0)" "tok_totalSupply (token c) = 0" "vaults c = (\<lambda>_. no_vault)"
      "mintRequests c = (\<lambda>_. no_mint)" "burnRequests c = (\<lambda>_. no_burn)" "vaultList c = []"
    and e: "\<not> entered c"
    using assms by (auto simp: vault_deployed_def wsXMR_constructor_def wsXMR_setVaultManager_def VaultManager_constructor_def sol_Inr)
  show "\<not> entered c" by (rule e)
  show "safe self (\<lambda>_. 0) c"
    by (simp add: safe_def token_linked_def vaults_listed_def mints_linked_def burns_linked_def total_debt_def covered_def
        collateral_owed_def vault_claim_def burn_claim_def erc20_inv_def c no_vault_def no_mint_def no_burn_def)
qed

lemma run_safe:
  assumes "standard_tokens (venv_evm V)" "outside_reacts self V" "\<forall>tx\<in>set ts. outside_tx self tx"
    and "vault_deployed self tokenAddr pythContract own l = Inr c0"
  shows "safe self (\<lambda>_. 0) (run_vtxs V ts c0)"
  by (rule run_vtxs_invariant [where I = "safe self (\<lambda>_. 0)"])
    (use vexec_safe [OF assms(1,2)] assms(3) vault_deployed_safe(1) [OF assms(4)] in auto)

text \<open>Between transactions the guard is open.\<close>

interpretation guard: storage_invariant V self "\<lambda>c. entered c = b" for V self b
  by unfold_locales (use exec_open_frame(3) in auto)

lemma vexec_entered: "\<not> entered c \<Longrightarrow> vexec V tx c = Inr c' \<Longrightarrow> \<not> entered c'"
  by (cases tx) (auto simp: nonpayable_def depositCollateral_def withdrawCollateral_def finalizeMint_def finalizeBurn_def
    claimSlashedCollateral_def liquidate_def sol_Inr dest: exec_open_frame(3))

lemma run_not_entered:
  "vault_deployed self tokenAddr pythContract own l = Inr c0 \<Longrightarrow> \<not> entered (run_vtxs V ts c0)"
  by (rule run_vtxs_invariant [where I = "\<lambda>c. \<not> entered c"]) (auto dest: vault_deployed_safe(2) vexec_entered)

end
