(* ===== verification/Vault_Requests.thy ===== *)
theory Vault_Requests
  imports Vault_Safety
begin

text \<open>
  Mint and burn requests of the vault manager as state machines. In every reachable state the events that
  the log holds of a request are those of a path through its statuses, in order, and its status is the one
  they lead to.
\<close>

section \<open>The log of a request\<close>

definition burn_log :: "hash \<Rightarrow> vault_event list \<Rightarrow> vault_event list" where
  "burn_log i = filter (\<lambda>e. case e of BurnInitiated j _ _ _ _ _ _ \<Rightarrow> j = i | BurnFinalized j _ \<Rightarrow> j = i
     | BurnSlashed j _ _ \<Rightarrow> j = i | _ \<Rightarrow> False)"

definition mint_log :: "hash \<Rightarrow> vault_event list \<Rightarrow> vault_event list" where
  "mint_log i = filter (\<lambda>e. case e of MintInitiated j _ _ _ _ _ _ \<Rightarrow> j = i | MintReady j \<Rightarrow> j = i
     | MintFinalized j _ \<Rightarrow> j = i | MintCancelled j \<Rightarrow> j = i | _ \<Rightarrow> False)"

definition burn_start :: "BurnRequest \<Rightarrow> vault_event" where
  "burn_start r = BurnInitiated (burn_requestId r) (burn_user r) (burn_lpVault r) (burn_wsxmrAmount r) (burn_xmrAmount r)
     (burn_refundCommitment r) (burn_deadline r)"

definition mint_start :: "MintRequest \<Rightarrow> vault_event" where
  "mint_start r = MintInitiated (mint_requestId r) (mint_user r) (mint_lpVault r) (mint_xmrAmount r) (mint_wsxmrAmount r)
     (mint_claimCommitment r) (mint_timeout r)"

definition burn_story :: "evm \<Rightarrow> BurnRequest \<Rightarrow> hash \<Rightarrow> vault_event list \<Rightarrow> bool" where
  "burn_story E r i es \<longleftrightarrow> (case burn_status r of
     BURN_INVALID \<Rightarrow> es = []
   | BURN_PENDING \<Rightarrow> burn_requestId r = i \<and> es = [burn_start r]
   | BURN_COMPLETED \<Rightarrow> burn_requestId r = i \<and>
       (\<exists>s. es = [burn_start r, BurnFinalized i s] \<and> mulVerify E s (burn_refundCommitment r))
   | BURN_SLASHED \<Rightarrow> burn_requestId r = i \<and> es = [burn_start r, BurnSlashed i (burn_user r) (escrowedCollateral r)])"

definition mint_story :: "evm \<Rightarrow> MintRequest \<Rightarrow> hash \<Rightarrow> vault_event list \<Rightarrow> bool" where
  "mint_story E r i es \<longleftrightarrow> (case mint_status r of
     MINT_INVALID \<Rightarrow> es = []
   | MINT_PENDING \<Rightarrow> mint_requestId r = i \<and> es = [mint_start r]
   | MINT_READY \<Rightarrow> mint_requestId r = i \<and> es = [mint_start r, MintReady i]
   | MINT_COMPLETED \<Rightarrow> mint_requestId r = i \<and>
       (\<exists>s. es = [mint_start r, MintReady i, MintFinalized i s] \<and> mulVerify E s (mint_claimCommitment r))
   | MINT_CANCELLED \<Rightarrow> mint_requestId r = i \<and>
       (es = [mint_start r, MintCancelled i] \<or> es = [mint_start r, MintReady i, MintCancelled i]))"

text \<open>The logs of all requests say what became of them.\<close>

definition stories :: "evm \<Rightarrow> vm \<Rightarrow> bool" where
  "stories E c \<longleftrightarrow> (\<forall>i. burn_story E (burnRequests c i) i (burn_log i (vm_logs c)) \<and>
     mint_story E (mintRequests c i) i (mint_log i (vm_logs c)))"

lemma log_simps [simp]:
  "burn_log i [] = []" "mint_log i [] = []"
  "burn_log i (es @ fs) = burn_log i es @ burn_log i fs" "mint_log i (es @ fs) = mint_log i es @ mint_log i fs"
  "burn_log i [VaultCreated x y] = []" "mint_log i [VaultCreated x y] = []"
  "burn_log i [CollateralDeposited x y v] = []" "mint_log i [CollateralDeposited x y v] = []"
  "burn_log i [CollateralWithdrawn x y v] = []" "mint_log i [CollateralWithdrawn x y v] = []"
  "burn_log i [MintInitiated j u lp v w h t] = []"
  "mint_log i [MintInitiated j u lp v w h t] = (if j = i then [MintInitiated j u lp v w h t] else [])"
  "burn_log i [MintReady j] = []" "mint_log i [MintReady j] = (if j = i then [MintReady j] else [])"
  "burn_log i [MintFinalized j h] = []" "mint_log i [MintFinalized j h] = (if j = i then [MintFinalized j h] else [])"
  "burn_log i [MintCancelled j] = []" "mint_log i [MintCancelled j] = (if j = i then [MintCancelled j] else [])"
  "burn_log i [BurnInitiated j u lp v w h t] = (if j = i then [BurnInitiated j u lp v w h t] else [])"
  "mint_log i [BurnInitiated j u lp v w h t] = []"
  "burn_log i [BurnFinalized j h] = (if j = i then [BurnFinalized j h] else [])" "mint_log i [BurnFinalized j h] = []"
  "burn_log i [BurnSlashed j u v] = (if j = i then [BurnSlashed j u v] else [])" "mint_log i [BurnSlashed j u v] = []"
  "burn_log i [VaultLiquidated x y v w] = []" "mint_log i [VaultLiquidated x y v w] = []"
  "burn_log i [CollateralSupported x y] = []" "mint_log i [CollateralSupported x y] = []"
  "burn_log i [OwnershipTransferred x y] = []" "mint_log i [OwnershipTransferred x y] = []"
  by (simp_all add: burn_log_def mint_log_def)

text \<open>One event of one request at a time.\<close>

lemma stories_burn:
  assumes "stories E c" "burn_story E r i (burn_log i (vm_logs c) @ burn_log i [e])"
    and "\<And>j. j \<noteq> i \<Longrightarrow> burn_log j [e] = []" "\<And>j. mint_log j [e] = []"
    and "burnRequests c' = (burnRequests c)(i := r)" "mintRequests c' = mintRequests c" "vm_logs c' = vm_logs c @ [e]"
  shows "stories E c'"
  using assms by (simp add: stories_def)

lemma stories_mint:
  assumes "stories E c" "mint_story E r i (mint_log i (vm_logs c) @ mint_log i [e])"
    and "\<And>j. j \<noteq> i \<Longrightarrow> mint_log j [e] = []" "\<And>j. burn_log j [e] = []"
    and "mintRequests c' = (mintRequests c)(i := r)" "burnRequests c' = burnRequests c" "vm_logs c' = vm_logs c @ [e]"
  shows "stories E c'"
  using assms by (simp add: stories_def)

lemma storiesD:
  "stories E c \<Longrightarrow> burn_story E (burnRequests c i) i (burn_log i (vm_logs c))"
  "stories E c \<Longrightarrow> mint_story E (mintRequests c i) i (mint_log i (vm_logs c))"
  by (simp_all add: stories_def)

lemma initiateBurn_stories:
  assumes "stories E c" "initiateBurn V m w lp commitment c = Inr (i, c')"
  shows "stories E c'"
  using assms(2) storiesD(1) [OF assms(1), of i]
  by (elim initiateBurn_Inr) (rule stories_burn [OF assms(1)], auto simp: burn_story_def burn_start_def)

lemma mint_calls_stories:
  assumes "stories E c"
  shows "initiateMint V m lp xmr commitment duration c = Inr (i, c') \<Longrightarrow> stories E c'"
    and "setMintReady m i c = Inr c' \<Longrightarrow> stories E c'" and "cancelMint m i c = Inr c' \<Longrightarrow> stories E c'"
  subgoal
    using storiesD(2) [OF assms, of i]
    by (auto simp: initiateMint_def Let_def sol_Inr mint_story_def mint_start_def intro!: stories_mint [OF assms, of _ i])
  subgoal
    using storiesD(2) [OF assms, of i]
    by (auto simp: setMintReady_def Let_def sol_Inr mint_story_def mint_start_def intro!: stories_mint [OF assms, of _ i])
  subgoal
    using storiesD(2) [OF assms, of i]
    by (auto simp: cancelMint_def Let_def sol_Inr mint_story_def mint_start_def split: if_splits intro!: stories_mint [OF assms, of _ i])
  done

lemma exec_open_stories:
  assumes "stories E c" "exec_open V call c = Inr c'"
  shows "stories E c'"
proof (cases call)
  case (Open_initiateMint m lp xmr commitment duration)
  then show ?thesis using assms mint_calls_stories(1) by (auto simp: nonpayable_def sol_Inr)
next
  case (Open_setMintReady m i)
  then show ?thesis using assms mint_calls_stories(2) by (auto simp: nonpayable_def sol_Inr)
next
  case (Open_cancelMint m i)
  then show ?thesis using assms mint_calls_stories(3) by (auto simp: nonpayable_def sol_Inr)
next
  case (Open_initiateBurn m w lp commitment)
  then show ?thesis using assms initiateBurn_stories by (auto simp: nonpayable_def sol_Inr)
qed (use assms in \<open>auto simp: nonpayable_def sol_Inr createVault_def addCollateralSupport_def removeCollateralSupport_def
      vm_owned_by_def Let_def stories_def split: option.splits\<close>)

interpretation story: storage_invariant V self "stories E" for V self E
proof
  show "stories E c \<Longrightarrow> outside self call \<Longrightarrow> exec_open V call c = Inr c' \<Longrightarrow> stories E c'" for c call c'
    by (rule exec_open_stories)
qed (simp_all add: stories_def)

lemma stories_entered [simp]: "stories E (c\<lparr>entered := b\<rparr>) = stories E c"
  by (simp add: stories_def)

lemma deposit_withdraw_stories:
  assumes "outside_reacts self V" "stories E c"
  shows "depositCollateral V m v c = Inr c' \<Longrightarrow> stories E c'" and "withdrawCollateral V m v c = Inr c' \<Longrightarrow> stories E c'"
proof -
  show "stories E c'" if "depositCollateral V m v c = Inr c'"
    using that
  proof (rule depositCollateral_Inr)
    fix c0 c1 :: vm and new :: uint256
    let ?a = "collateralAsset (vaults c0 (sender m))"
    assume c0: "ledger_transfer (move (vm_ledger c) 0 (sender m) (vm_this c) (unat (msg_value m))) c = Inr c0"
      and c1: "?a = 0 \<and> msg_value m = v \<and> c1 = c0\<lparr>entered := True\<rparr> \<or>
        ?a \<noteq> 0 \<and> msg_value m = 0 \<and> take_collateral V ?a (sender m) v (c0\<lparr>entered := True\<rparr>) = Inr c1"
      and c': "c' = (vm_emit (CollateralDeposited (sender m) (collateralAsset (vaults c1 (sender m))) v)
         (set_vault (sender m) ((vaults c1 (sender m))\<lparr>collateralAmount := new\<rparr>) c1))\<lparr>entered := False\<rparr>"
    have "stories E c0" by (rule story.ledger_transfer_keeps [OF assms(2) c0])
    then have "stories E c1" using c1 story.take_keeps [OF assms(1), of E "c0\<lparr>entered := True\<rparr>"] by auto
    then show "stories E c'" by (simp add: c' stories_def)
  qed
  show "stories E c'" if "withdrawCollateral V m v c = Inr c'"
    using that
  proof (rule withdrawCollateral_Inr)
    fix c1 :: vm and new :: uint256
    assume pay: "pay_collateral V (collateralAsset (vaults c (sender m))) (sender m) v
         (set_vault (sender m) ((vaults c (sender m))\<lparr>collateralAmount := new\<rparr>) (c\<lparr>entered := True\<rparr>)) = Inr c1"
      and c': "c' = (vm_emit (CollateralWithdrawn (sender m) (collateralAsset (vaults c1 (sender m))) v) c1)\<lparr>entered := False\<rparr>"
    have "stories E c1" by (rule story.pay_keeps [OF assms(1) _ pay]) (use assms(2) in \<open>simp add: stories_def\<close>)
    then show "stories E c'" by (simp add: c' stories_def)
  qed
qed

lemma finalize_stories:
  assumes "stories (venv_evm V) c"
  shows "finalizeMint V m i s c = Inr c' \<Longrightarrow> stories (venv_evm V) c'" and "finalizeBurn V m i s c = Inr c' \<Longrightarrow> stories (venv_evm V) c'"
  subgoal
    using storiesD(2) [OF assms, of i]
    by (auto simp: finalizeMint_def Let_def sol_Inr mint_story_def mint_start_def intro!: stories_mint [OF assms, of _ i])
  subgoal
    using storiesD(1) [OF assms, of i]
    by (auto simp: finalizeBurn_def Let_def sol_Inr burn_story_def burn_start_def intro!: stories_burn [OF assms, of _ i])
  done

lemma slash_stories:
  assumes "outside_reacts self V" "stories E c" "claimSlashedCollateral V m i c = Inr c'"
  shows "stories E c'"
  using assms(3)
proof (rule claimSlashedCollateral_Inr)
  fix c1 :: vm
  let ?r = "burnRequests c i"
  assume st: "burn_status ?r = BURN_PENDING"
    and pay: "pay_collateral V (collateralAsset (vaults c (burn_lpVault ?r))) (burn_user ?r) (escrowedCollateral ?r)
       (c\<lparr>entered := True\<rparr>) = Inr c1"
    and c': "c' = (vm_emit (BurnSlashed i (burn_user (burnRequests c1 i)) (escrowedCollateral (burnRequests c1 i)))
       (set_burn i ((burnRequests c1 i)\<lparr>burn_status := BURN_SLASHED\<rparr>) c1))\<lparr>entered := False\<rparr>"
  have s1: "stories E c1" by (rule story.pay_keeps [OF assms(1) _ pay]) (simp add: assms(2))
  have r1: "burnRequests c1 i = ?r \<and> burn_status ?r \<noteq> BURN_INVALID"
    by (rule burn.pay_keeps [OF assms(1) _ pay]) (simp add: st)
  show "stories E c'"
    by (rule stories_burn [OF s1, of _ i]) (use storiesD(1) [OF s1, of i] r1 st in \<open>auto simp: c' burn_story_def burn_start_def\<close>)
qed

lemma liquidate_stories:
  assumes "outside_reacts self V" "stories E c" "liquidate V m lp debt c = Inr c'"
  shows "stories E c'"
  using assms(3)
proof (rule liquidate_Inr)
  fix w amt nc nd :: uint256 and t :: wsXMR and c1 :: vm
  assume pay: "pay_collateral V (collateralAsset (vaults c lp)) (sender m) amt
       ((set_vault lp ((vaults c lp)\<lparr>collateralAmount := nc, debtAmount := nd\<rparr>) (c\<lparr>entered := True\<rparr>))\<lparr>token := t\<rparr>) = Inr c1"
    and c': "c' = (vm_emit (VaultLiquidated lp (sender m) w amt) c1)\<lparr>entered := False\<rparr>"
  have "stories E c1" by (rule story.pay_keeps [OF assms(1) _ pay]) (use assms(2) in \<open>simp add: stories_def\<close>)
  then show "stories E c'" by (simp add: c' stories_def)
qed

lemma vexec_stories:
  assumes "outside_reacts self V" "stories (venv_evm V) c" "vexec V tx c = Inr c'"
  shows "stories (venv_evm V) c'"
  using assms(3)
  by (cases tx) (auto simp: nonpayable_def sol_Inr intro: exec_open_stories [OF assms(2)]
    deposit_withdraw_stories [OF assms(1,2)] finalize_stories [OF assms(2)] slash_stories [OF assms(1,2)] liquidate_stories [OF assms(1,2)])

lemma run_stories:
  assumes "outside_reacts self V" "vault_deployed self tokenAddr pythContract own l = Inr c0"
  shows "stories (venv_evm V) (run_vtxs V ts c0)"
proof (rule run_vtxs_invariant [where I = "stories (venv_evm V)"])
  show "stories (venv_evm V) c0"
    using assms(2) by (auto simp: vault_deployed_def wsXMR_constructor_def wsXMR_setVaultManager_def VaultManager_constructor_def
      sol_Inr stories_def burn_story_def mint_story_def no_burn_def no_mint_def burn_log_def mint_log_def)
qed (rule vexec_stories [OF assms(1)])

end
