(* ===== verification/Vault_Prices.thy ===== *)
theory Vault_Prices
  imports Vault_Safety
begin

text \<open>
  The arithmetic of prices: what the conversion of an oracle price computes and when it returns, and what
  the rounded ratios and seized amounts of the contract mean for the value of the collateral.
\<close>

section \<open>Prices\<close>

lemma sint_cases: "sint (w :: 'a :: len word) = uint w \<or> sint w = uint w - 2 ^ LENGTH('a)"
proof -
  have "sint w = take_bit LENGTH('a) (uint w) - 2 ^ LENGTH('a) * of_bool (bit (uint w) (LENGTH('a) - 1))"
    by (simp add: sint_uint signed_take_bit_eq_take_bit_minus)
  moreover have "take_bit LENGTH('a) (uint w) = uint w" by (rule bintr_uint) simp
  ultimately show ?thesis by (cases "bit (uint w) (LENGTH('a) - 1)") simp_all
qed

lemma sint_nonneg: "0 \<le> sint (w :: 'a :: len word) \<Longrightarrow> sint w = int (unat w)"
  using sint_cases [of w] uint_lt2p [of w] by auto

lemma sint_neg: "sint (w :: 'a :: len word) < 0 \<Longrightarrow> sint w = - int (unat (- w))"
proof -
  assume neg: "sint w < 0"
  then have s: "sint w = uint w - 2 ^ LENGTH('a)" using sint_cases [of w] by auto
  with neg have "0 < uint w" using sint_cases [of w] 
    by (metis diff_0 linorder_not_le of_nat_0_le_iff order_le_less sint_0 uint_0_iff uint_ge_0)
  then have "uint (- w) = 2 ^ LENGTH('a) - uint w"
    by (simp add: uint_word_ariths zmod_zminus1_eq_if)
  then show ?thesis using s by simp
qed

lemma unat_below_18: "\<not> 18 \<le> x \<Longrightarrow> unat x < 18 \<and> unat (18 - x) = 18 - unat (x :: 32 word)"
  by (simp add: word_le_nat_alt unat_sub not_le)

text \<open>
  The price as a number with 18 decimals: exact when the exponent is at least -18, rounded down otherwise.
\<close>

definition decimal_price :: "PythPrice \<Rightarrow> nat" where
  "decimal_price p = (let e = sint (pyth_expo p) in
     if - 18 \<le> e then unat (pyth_price p) * 10 ^ nat (18 + e) else unat (pyth_price p) div 10 ^ nat (- e - 18))"

lemma scale_price_Inr:
  assumes "scale_price p = Inr r"
  shows "0 < sint (pyth_price p)" and "unat r = decimal_price p"
proof -
  let ?e = "pyth_expo p" and ?p = "pyth_price p"
  show pos: "0 < sint ?p" using assms by (simp add: scale_price_def sol_Inr)
  have "unat ?p < 2 ^ 64" using unsigned_less [of ?p] by simp
  then have up: "unat (ucast ?p :: uint256) = unat ?p" by (simp add: unsigned_ucast_eq take_bit_nat_eq_self)
  consider (pos) "0 \<le> sint ?e" | (neg) "sint ?e < 0" "sint ?e \<noteq> - (2 ^ 31)" 
    using assms by (auto simp: scale_price_def Let_def sol_Inr split: if_splits)
  then show "unat r = decimal_price p"
  proof cases
    case pos
    then have e: "sint ?e = int (unat ?e)" by (rule sint_nonneg)
    have "unat r = unat ?p * 10 ^ unat ?e * 10 ^ 18"
      using assms pos by (auto simp: scale_price_def Let_def sol_Inr up)
    also have "\<dots> = unat ?p * 10 ^ (18 + unat ?e)" by (simp only: power_add ac_simps)
    finally show ?thesis by (simp add: decimal_price_def Let_def e nat_add_distrib del: of_nat_unat)
  next
    case neg
    have e: "sint ?e = - int (unat (- ?e))" by (rule sint_neg [OF neg(1)])
    let ?k = "unat (- ?e)"
    show ?thesis
    proof (cases "18 \<le> - ?e")
      case True
      then have k: "18 \<le> ?k" "unat (- ?e - 18) = ?k - 18" by (simp_all add: word_le_nat_alt unat_sub)
      moreover have "nat (int ?k - 18) = ?k - 18" by (simp add: nat_minus_as_int del: of_nat_unat)
      ultimately show ?thesis
        using assms neg True by (auto simp: scale_price_def decimal_price_def Let_def sol_Inr up e simp del: of_nat_unat)
    next
      case False
      then have k: "?k < 18" "unat (18 - - ?e) = 18 - ?k" using unat_below_18 by blast+
      moreover have "nat (18 - int ?k) = 18 - ?k" by (simp add: nat_minus_as_int del: of_nat_unat)
      ultimately show ?thesis
        using assms neg False by (auto simp: scale_price_def decimal_price_def Let_def sol_Inr up e simp del: of_nat_unat)
    qed
  qed
qed

lemma pow10_mono: "n \<le> k \<Longrightarrow> v < 2 ^ 63 \<Longrightarrow> v * 10 ^ n \<le> 2 ^ 63 * (10 ^ k :: nat)"
  by (intro mult_le_mono power_increasing) simp_all

lemma checked_pow10_small: "n \<le> 77 \<Longrightarrow> \<exists>k. checked_pow10 n = Inr k \<and> unat k = 10 ^ n"
proof -
  assume "n \<le> 77"
  then have "(10 :: nat) ^ n \<le> 10 ^ 77" by (intro power_increasing) simp_all
  also have "\<dots> < 2 ^ 256" by simp
  finally have "checked_pow10 n = Inr (of_nat (10 ^ n))" by (simp add: checked_pow10_def)
  then show ?thesis using checked_pow10_Inr by blast
qed

lemma checked_mul_small: "unat a * unat b < 2 ^ 256 \<Longrightarrow> \<exists>c. checked_mul a b = Inr c \<and> unat c = unat a * unat b"
  using checked_mul_Inr [of a b "a * b"] by (simp add: checked_mul_def)

lemma scale_price_returns:
  assumes "0 < sint (pyth_price p)" "- 95 \<le> sint (pyth_expo p)" "sint (pyth_expo p) \<le> 40"
  shows "\<exists>r. scale_price p = Inr r"
proof -
  let ?e = "pyth_expo p" and ?p = "pyth_price p"
  have "sint ?p < 2 ^ 63" using sint_less [of ?p] by simp
  then have p: "unat ?p < 2 ^ 63" using sint_nonneg [of ?p] assms(1) by (simp del: of_nat_unat)
  then have up: "unat (ucast ?p :: uint256) = unat ?p" by (simp add: unsigned_ucast_eq take_bit_nat_eq_self)
  show ?thesis
  proof (cases "0 \<le> sint ?e")
    case True
    then have "unat ?e \<le> 40" using sint_nonneg [of ?e] assms(3) by (simp del: of_nat_unat)
    moreover obtain k where k: "checked_pow10 (unat ?e) = Inr k" "unat k = 10 ^ unat ?e"
      using checked_pow10_small [of "unat ?e"] calculation by auto
    ultimately have "unat ?p * unat k \<le> 2 ^ 63 * 10 ^ 40" using pow10_mono [of "unat ?e" 40 "unat ?p"] p by simp
    moreover from this obtain x where x: "checked_mul (ucast ?p) k = Inr x" "unat x = unat ?p * unat k"
      using checked_mul_small [of "ucast ?p" k] up by auto
    ultimately have "unat x \<le> 2 ^ 63 * 10 ^ 40" by simp
    then have "unat x * unat (10 ^ 18 :: uint256) < 2 ^ 256" by simp
    then obtain y where "checked_mul x (10 ^ 18) = Inr y" using checked_mul_small by blast
    then show ?thesis using True k x assms(1) by (simp add: scale_price_def Let_def)
  next
    case False
    then have e: "sint ?e = - int (unat (- ?e))" by (intro sint_neg) simp
    let ?k = "unat (- ?e)"
    have n: "sint ?e \<noteq> - (2 ^ 31)" using assms(2) by simp
    show ?thesis
    proof (cases "18 \<le> - ?e")
      case True
      then have "unat (- ?e - 18) \<le> 77" using e assms(2) by (simp add: word_le_nat_alt unat_sub del: of_nat_unat)
      then obtain k where k: "checked_pow10 (unat (- ?e - 18)) = Inr k" "unat k = 10 ^ unat (- ?e - 18)"
        using checked_pow10_small by blast
      then have "k \<noteq> 0" by auto
      then show ?thesis using True False n k assms(1) by (simp add: scale_price_def Let_def checked_div_def)
    next
      case neg: False
      then have u: "unat (18 - - ?e) = 18 - ?k" using unat_below_18 by blast
      have "18 - ?k \<le> 77" by simp
      then obtain k where k: "checked_pow10 (unat (18 - - ?e)) = Inr k" "unat k = 10 ^ (18 - ?k)"
        using checked_pow10_small u by metis
      then have "unat ?p * unat k \<le> 2 ^ 63 * 10 ^ 18" using pow10_mono [of "18 - ?k" 18 "unat ?p"] p by simp
      then obtain x where "checked_mul (ucast ?p) k = Inr x"
        using checked_mul_small [of "ucast ?p" k] up by auto
      then show ?thesis using neg False n k u assms(1) by (simp add: scale_price_def Let_def)
    qed
  qed
qed

section \<open>Collateral in terms of prices\<close>

text \<open>
  At the prices \<open>cp\<close> and \<open>xp\<close>, both with 18 decimals, and \<open>k\<close> decimals of the asset, the collateral \<open>C\<close>
  is worth at least \<open>q\<close> percent of the debt \<open>D\<close>.
\<close>

definition covers :: "nat \<Rightarrow> nat \<Rightarrow> nat \<Rightarrow> nat \<Rightarrow> nat \<Rightarrow> nat \<Rightarrow> bool" where
  "covers q C D cp xp k \<longleftrightarrow> q * (D * xp) * 10 ^ k \<le> 100 * (C * cp) * 10 ^ 8"

definition priced :: "venv \<Rightarrow> vmsg \<Rightarrow> vm \<Rightarrow> address \<Rightarrow> uint256 \<Rightarrow> uint256 \<Rightarrow> 8 word \<Rightarrow> bool" where
  "priced V m c a cp xp k \<longleftrightarrow> getCollateralPrice m c a = Inr cp \<and> getXmrPrice m = Inr xp \<and> decimals_of V c a = Inr k"

lemma seized_bound:
  assumes "priced V m c a cp xp k" "getCollateralValueForDebt m w = Inr val" "unat usd = unat val * q div 100"
    and "usdToCollateral V m c a usd = Inr e"
  shows "100 * (unat e * unat cp) * 10 ^ 8 \<le> q * (unat w * unat xp) * 10 ^ unat k"
proof -
  have val: "unat val = unat w * unat xp div 10 ^ 8"
    using assms(1,2) by (auto simp: priced_def getCollateralValueForDebt_def sol_Inr)
  have e: "unat e = unat usd * 10 ^ unat k div unat cp" "unat cp \<noteq> 0"
    using assms(1,4) by (auto simp: priced_def usdToCollateral_def sol_Inr unat_eq_0)
  have steps: "unat e * unat cp \<le> unat usd * 10 ^ unat k" "unat usd * 100 \<le> unat val * q" "unat val * 10 ^ 8 \<le> unat w * unat xp"
    by (simp_all only: e(1) assms(3) val div_times_less_eq_dividend)
  have "100 * (unat e * unat cp) * 10 ^ 8 \<le> 100 * (unat usd * 10 ^ unat k) * 10 ^ 8"
    by (intro mult_le_mono1 mult_le_mono2 steps(1))
  also have "\<dots> = (unat usd * 100) * 10 ^ 8 * 10 ^ unat k" by (simp only: ac_simps)
  also have "\<dots> \<le> (unat val * q) * 10 ^ 8 * 10 ^ unat k" by (intro mult_le_mono1 steps(2))
  also have "\<dots> = q * (unat val * 10 ^ 8) * 10 ^ unat k" by (simp only: ac_simps)
  also have "\<dots> \<le> q * (unat w * unat xp) * 10 ^ unat k" by (intro mult_le_mono1 mult_le_mono2 steps(3))
  finally show ?thesis .
qed

lemma covers_after:
  assumes "covers q (C + e) (D + w) cp xp k" "100 * (e * cp) * 10 ^ 8 \<le> q0 * (w * xp) * 10 ^ k" "q0 \<le> q"
  shows "covers q C D cp xp k"
proof -
  have "q0 * (w * xp) * 10 ^ k \<le> q * (w * xp) * 10 ^ k" using assms(3) by (intro mult_le_mono le_refl)
  moreover have "q * (D * xp) * 10 ^ k + q * (w * xp) * 10 ^ k \<le> 100 * (C * cp) * 10 ^ 8 + 100 * (e * cp) * 10 ^ 8"
    using assms(1) by (simp only: covers_def add_mult_distrib add_mult_distrib2)
  ultimately show ?thesis unfolding covers_def using assms(2) by linarith
qed

lemma ratio_checked:
  assumes "priced V m c a cp xp k" "calculateCollateralRatio V m c a C D = Inr r" "D \<noteq> 0"
  shows "0 < unat D * unat xp div 10 ^ 8"
    and "unat r = (unat C * unat cp div 10 ^ unat k) * 100 div (unat D * unat xp div 10 ^ 8)"
  using assms
  by (auto simp: priced_def calculateCollateralRatio_def sol_Inr ratio_defs unat_gt_0 simp flip: unat_gt_0)

section \<open>Who is paid and takes no further action\<close>

definition quiet :: "venv \<Rightarrow> address \<Rightarrow> bool" where
  "quiet V a \<longleftrightarrow> (\<forall>c. react V a c = Some [])"

lemma quiet_callback: "quiet V a \<Longrightarrow> callback V a c = Inr c"
  by (simp add: quiet_def callback_def run_open_def)

lemma quiet_pay:
  assumes "quiet V to" "quiet V a" "pay_collateral V a to v c = Inr c'"
  shows "vaults c' = vaults c \<and> burnRequests c' = burnRequests c \<and> entered c' = entered c \<and>
    (a \<noteq> wsxmrToken c \<longrightarrow> token c' = token c)"
  using assms(3)
  by (auto simp: pay_collateral_def pay_ether_def transfer_token_def ledger_transfer_def quiet_callback [OF assms(1)]
      quiet_callback [OF assms(2)] sol_Inr split: if_splits option.splits sum.splits)

lemma priced_entered [simp]: "priced V m (c\<lparr>entered := b\<rparr>) a cp xp k = priced V m c a cp xp k"
  by (simp add: priced_def getCollateralPrice_def decimals_of_def)

lemma ratio_entered [simp]:
  "calculateCollateralRatio V m (c\<lparr>entered := b\<rparr>) a v w = calculateCollateralRatio V m c a v w"
  by (simp add: calculateCollateralRatio_def getCollateralPrice_def decimals_of_def)

lemma usd_entered [simp]: "usdToCollateral V m (c\<lparr>entered := b\<rparr>) a v = usdToCollateral V m c a v"
  by (simp add: usdToCollateral_def getCollateralPrice_def decimals_of_def)

end
