(* ===== verification/Vault_Properties.thy ===== *)
theory Vault_Properties
  imports Vault_Requests Vault_Prices
begin

text \<open>
  The properties of the vault manager and wsXMR, over the invariant, the histories and the price arithmetic
  of the theories before, with runs of a small deployment that show their hypotheses can hold.
\<close>

section \<open>A deployment to evaluate\<close>

text \<open>One XMR costs 150 USD and one MON 2 USD. Every request hashes to 7 and every secret verifies against 1.\<close>

definition demo_price :: "hash \<Rightarrow> PythPrice" where
  "demo_price feed = \<lparr>pyth_price = (if feed = XMR_USD_FEED_ID then 15000000000 else 200000000), pyth_conf = 0,
     pyth_expo = - 8, pyth_publishTime = 0\<rparr>"

definition demo_vmsg :: "address \<Rightarrow> uint256 \<Rightarrow> uint256 \<Rightarrow> vmsg" where
  "demo_vmsg a v t = \<lparr>sender = a, msg_value = v, timestamp = t, blockNumber = 77,
     getPriceNoOlderThan = (\<lambda>feed age. Some (demo_price feed))\<rparr>"

text \<open>The calls that receivers make are a parameter.\<close>

definition demo_venv :: "(address \<Rightarrow> open_call list) \<Rightarrow> venv" where
  "demo_venv calls = \<lparr>venv_evm = demo_evm, token_decimals = (\<lambda>_. None), react = (\<lambda>a c. Some (calls a))\<rparr>"

definition demo_calls :: "address \<Rightarrow> open_call list" where
  "demo_calls a = (if a = 4 then [Open_createVault (demo_vmsg 4 0 90000) 0] else [])"

lemma demo_vmsg_simps [simp]:
  "sender (demo_vmsg a v t) = a" "msg_value (demo_vmsg a v t) = v" "timestamp (demo_vmsg a v t) = t"
  "getPriceNoOlderThan (demo_vmsg a v t) f n = Some (demo_price f)"
  by (simp_all add: demo_vmsg_def)

lemma demo_venv_simps [simp]:
  "venv_evm (demo_venv calls) = demo_evm" "request_id (demo_venv calls) m lp v h = 7"
  "callback (demo_venv calls) a c = Inr (run_open (demo_venv calls) (calls a) c)"
  by (simp_all add: demo_venv_def request_id_def demo_evm_def callback_def)

lemma demo_scale:
  "getXmrPrice (demo_vmsg a v t) = Inr 150000000000000000000"
  "collateralPriceFeeds c x = MON_USD_FEED_ID \<Longrightarrow> getCollateralPrice (demo_vmsg a v t) c x = Inr 2000000000000000000"
  by (simp_all add: getXmrPrice_def getCollateralPrice_def read_price_def demo_price_def scale_price_def checked_pow10_def
      checked_mul_def XMR_USD_FEED_ID_def MON_USD_FEED_ID_def Let_def)

definition demo_vledger :: ledger where
  "demo_vledger = (\<lambda>a x. if a = 0 \<and> x = 3 then 500000000000000000000 else 0)"

definition demo_vm :: "(address \<Rightarrow> Vault) \<Rightarrow> (hash \<Rightarrow> MintRequest) \<Rightarrow> (hash \<Rightarrow> BurnRequest) \<Rightarrow> address list \<Rightarrow>
    vault_event list \<Rightarrow> ledger \<Rightarrow> wsXMR \<Rightarrow> vm" where
  "demo_vm vs ms bs xs es l t = \<lparr>vm_this = 9, vm_owner = 5, entered = False, wsxmrToken = 8, pyth = 6,
     supportedCollateral = (\<lambda>a. a = 0), collateralPriceFeeds = (\<lambda>_. 0)(0 := MON_USD_FEED_ID), vaults = vs,
     mintRequests = ms, burnRequests = bs, vaultList = xs, vm_logs = es, vm_ledger = l, token = t\<rparr>"

definition demo_wsxmr :: "(address \<Rightarrow> uint256) \<Rightarrow> uint256 \<Rightarrow> token_event list \<Rightarrow> wsXMR" where
  "demo_wsxmr b n es = \<lparr>tok_balances = b, tok_allowances = (\<lambda>_ _. 0), tok_totalSupply = n, tok_name = ''Wrapsynth Monero'',
     tok_symbol = ''wsXMR'', tok_logs = es, tok_owner = 5, vaultManager = 9\<rparr>"

definition demo_vm0 :: vm where
  "demo_vm0 = demo_vm (\<lambda>_. no_vault) (\<lambda>_. no_mint) (\<lambda>_. no_burn) []
     [OwnershipTransferred 0 5, CollateralSupported 0 6] demo_vledger
     (demo_wsxmr (\<lambda>_. 0) 0 [TokenOwnershipTransferred 0 5, VaultManagerUpdated 0 9])"

lemma demo_deployed: "vault_deployed 9 8 6 5 demo_vledger = Inr demo_vm0"
  by (simp add: vault_deployed_def wsXMR_constructor_def wsXMR_setVaultManager_def checkOwner_def VaultManager_constructor_def
      tok_emit_def demo_vm0_def demo_vm_def demo_wsxmr_def)

lemma demo_outside: "outside_reacts 9 (demo_venv demo_calls)" "outside_reacts 9 (demo_venv (\<lambda>_. []))"
  by (auto simp: outside_reacts_def demo_venv_def demo_calls_def outside_def)

lemma demo_decimals: "decimals_of V c 0 = Inr 18"
  by (simp add: decimals_of_def)

lemmas demo_vrun = run_vtxs_def apply_vtx_def nonpayable_def createVault_def depositCollateral_def initiateMint_def
  setMintReady_def finalizeMint_def initiateBurn_def claimSlashedCollateral_def withdrawCollateral_def pay_collateral_def pay_ether_def
  run_open_def apply_open_def demo_calls_def wsXMR_mint_def tok_mint_def wsXMR_burn_def tok_burn_def set_balance_def tok_emit_def
  nonReentrant_def ledger_transfer_def move_def calculateCollateralRatio_def getCollateralValueForDebt_def usdToCollateral_def
  demo_scale demo_decimals checked_add_def checked_sub_def checked_mul_def checked_div_def checked_pow10_def
  BURN_TIMEOUT_def ratio_defs storage_defs Let_def demo_vm0_def demo_vm_def demo_wsxmr_def no_vault_def no_mint_def no_burn_def demo_vledger_def

text \<open>
  A liquidity provider opens a vault with 200 MON at 2 USD; a user requests to mint one wsXMR at 150 USD,
  the mint is completed, the user burns the token again and the provider does not deliver.
\<close>

definition demo_funded :: "vault_tx list" where
  "demo_funded = [VTx_open (Open_createVault (demo_vmsg 3 0 100) 0),
     VTx_depositCollateral (demo_vmsg 3 200000000000000000000 100) 200000000000000000000]"

definition demo_requested :: "vault_tx list" where
  "demo_requested = demo_funded @ [VTx_open (Open_initiateMint (demo_vmsg 4 0 200) 3 1000000000000 1 3600)]"

definition demo_minted :: "vault_tx list" where
  "demo_minted = demo_requested @
    [VTx_open (Open_setMintReady (demo_vmsg 3 0 300) 7), VTx_finalizeMint (demo_vmsg 3 0 400) 7 5]"

definition demo_burnt :: "vault_tx list" where
  "demo_burnt = demo_minted @ [VTx_open (Open_initiateBurn (demo_vmsg 4 0 500) 100000000 3 1)]"

definition demo_slashed :: "vault_tx list" where
  "demo_slashed = demo_burnt @ [VTx_claimSlashedCollateral (demo_vmsg 4 0 90000) 7]"

lemma demo_txs_outside: "\<forall>tx\<in>set demo_slashed. outside_tx 9 tx" "\<forall>tx\<in>set demo_minted. outside_tx 9 tx" "\<forall>tx\<in>set demo_burnt. outside_tx 9 tx"
  by (simp_all add: demo_slashed_def demo_burnt_def demo_minted_def demo_requested_def demo_funded_def outside_tx_def outside_def)

text \<open>The states along this run, as far as the next step looks at them.\<close>

definition demo_at :: "vm \<Rightarrow> address list \<Rightarrow> Vault \<Rightarrow> MintRequest \<Rightarrow> BurnRequest \<Rightarrow> nat \<Rightarrow> uint256 \<Rightarrow> bool" where
  "demo_at c xs v r b n w \<longleftrightarrow> \<not> entered c \<and> vm_this c = 9 \<and> wsxmrToken c = 8 \<and> supportedCollateral c 0 \<and>
     collateralPriceFeeds c 0 = MON_USD_FEED_ID \<and> vaultList c = xs \<and> vaults c 3 = v \<and> vaults c 4 = no_vault \<and>
     mintRequests c 7 = r \<and> burnRequests c 7 = b \<and> vm_ledger c 0 9 = n \<and> vm_ledger c 0 3 = 500000000000000000000 - n \<and>
     vaultManager (token c) = 9 \<and> tok_balances (token c) 4 = w \<and> tok_totalSupply (token c) = w"

definition demo_vault :: "uint256 \<Rightarrow> uint256 \<Rightarrow> Vault" where
  "demo_vault n d = \<lparr>lpAddress = 3, collateralAsset = 0, collateralAmount = n, debtAmount = d, active = True\<rparr>"

definition demo_mint :: "MintStatus \<Rightarrow> MintRequest" where
  "demo_mint s = \<lparr>mint_requestId = 7, mint_user = 4, mint_lpVault = 3, mint_xmrAmount = 1000000000000,
     mint_wsxmrAmount = 100000000, mint_claimCommitment = 1, mint_timeout = 3800, mint_status = s\<rparr>"

definition demo_burn :: BurnRequest where
  "demo_burn = \<lparr>burn_requestId = 7, burn_user = 4, burn_lpVault = 3, burn_wsxmrAmount = 100000000,
      burn_xmrAmount = 1000000000000, escrowedCollateral = 90000000000000000000, burn_refundCommitment = 1,
      burn_deadline = 86900, burn_status = BURN_PENDING\<rparr>"

definition demo_state :: "(address \<Rightarrow> open_call list) \<Rightarrow> vault_tx list \<Rightarrow> vm" where
  "demo_state calls ts = run_vtxs (demo_venv calls) ts demo_vm0"

lemma demo_state_append: "demo_state calls (ts @ us) = run_vtxs (demo_venv calls) us (demo_state calls ts)"
  by (simp add: demo_state_def run_vtxs_def)

lemmas demo_data = demo_at_def demo_vault_def demo_mint_def demo_burn_def

lemma demo_funded_run:
  "demo_at (demo_state calls demo_funded) [3] (demo_vault 200000000000000000000 0) no_mint no_burn 200000000000000000000 0"
  by (simp add: demo_vrun demo_data demo_state_def demo_funded_def)

lemma demo_requested_run:
  "demo_at (demo_state calls demo_requested) [3] (demo_vault 200000000000000000000 0) (demo_mint MINT_PENDING) no_burn
     200000000000000000000 0"
  using demo_funded_run [of calls] by (simp add: demo_vrun demo_data demo_state_append demo_requested_def)

lemma demo_minted_run:
  "demo_at (demo_state calls demo_minted) [3] (demo_vault 200000000000000000000 100000000) (demo_mint MINT_COMPLETED) no_burn
     200000000000000000000 100000000"
  using demo_requested_run [of calls] by (simp add: demo_vrun demo_data demo_state_append demo_minted_def)

lemma demo_burnt_run:
  "demo_at (demo_state calls demo_burnt) [3] (demo_vault 110000000000000000000 0) (demo_mint MINT_COMPLETED) demo_burn
     200000000000000000000 0"
  using demo_minted_run [of calls] by (simp add: demo_vrun demo_data demo_state_append demo_burnt_def)

lemma demo_slashed_run:
  defines "c \<equiv> demo_state demo_calls demo_slashed"
  shows "holdings c 0 = 110000000000000000000" "vaultList c = [3, 4]" "burnRequests c 7 = demo_burn\<lparr>burn_status := BURN_SLASHED\<rparr>"
  using demo_burnt_run [of demo_calls] unfolding c_def
  by (simp_all add: demo_vrun demo_data demo_state_append demo_slashed_def holdings_def)

section \<open>Properties of the vault manager\<close>

text \<open>
  C5: the vault manager is solvent. After any transactions, with any calls that receivers of payments and
  collateral tokens make in the middle of them, the contract holds of every asset, wsXMR included, at least
  the collateral of all vaults in that asset plus the escrows of all pending burns. Tokens move what they
  are asked to, nobody sends from the contract's own address, and wsXMR keeps its vault manager.
\<close>

theorem collateral_solvent:
  assumes "standard_tokens (venv_evm V)" "outside_reacts self V" "\<forall>tx\<in>set ts. outside_tx self tx"
    and "vault_deployed self tokenAddr pythContract own l = Inr c0"
  shows "collateral_owed (run_vtxs V ts c0) a \<le> holdings (run_vtxs V ts c0) a"
  using run_safe [OF assms] by (simp add: safe_def covered_def)

theorem collateral_solvent_witness:
  "burn_status (burnRequests (demo_state demo_calls demo_slashed) 7) = BURN_SLASHED \<and>
   vaultList (demo_state demo_calls demo_slashed) = [3, 4] \<and>
   collateral_owed (demo_state demo_calls demo_slashed) 0 \<le> 110000000000000000000"
  using collateral_solvent [OF _ demo_outside(1) demo_txs_outside(1) demo_deployed, of 0] demo_slashed_run by (simp add: demo_data demo_state_def)

text \<open>
  C6: every wsXMR is backed by the debt of a vault. After any transactions as above, the balances of wsXMR
  sum to its total supply and the total supply is the sum of the debts of the active vaults.
\<close>

theorem wsxmr_backed:
  assumes "standard_tokens (venv_evm V)" "outside_reacts self V" "\<forall>tx\<in>set ts. outside_tx self tx"
    and "vault_deployed self tokenAddr pythContract own l = Inr c0" "c = run_vtxs V ts c0"
  shows "(\<Sum>x\<in>UNIV. unat (tok_balances (token c) x)) = unat (tok_totalSupply (token c)) \<and>
    unat (tok_totalSupply (token c)) = (\<Sum>x | active (vaults c x). unat (debtAmount (vaults c x)))"
proof -
  have s: "safe self (\<lambda>_. 0) c" using run_safe [OF assms(1-4)] assms(5) by simp
  have "(\<Sum>x\<in>UNIV. unat (debtAmount (vaults c x))) = (\<Sum>x | active (vaults c x). unat (debtAmount (vaults c x)))"
    by (rule sum.mono_neutral_right) (use s in \<open>auto simp: safe_def vaults_listed_def no_vault_def\<close>)
  then show ?thesis using s by (simp add: safe_def token_linked_def erc20_inv_def total_debt_def)
qed

theorem wsxmr_backed_witness:
  "(\<Sum>x | active (vaults (demo_state demo_calls demo_minted) x).
      unat (debtAmount (vaults (demo_state demo_calls demo_minted) x))) = 100000000"
  using wsxmr_backed [OF _ demo_outside(1) demo_txs_outside(2) demo_deployed refl] demo_minted_run [of demo_calls] by (simp add: demo_data demo_state_def)

text \<open>
  C20: the storage is well formed. After any transactions as above, vaults are stored under the address of
  their owner, a vault that was never created is empty, the list of vaults enumerates the created ones
  without repetition, so that \<open>getVaultCount\<close> counts them, and every mint or burn request is stored under its
  own identifier and belongs to a vault that exists.
\<close>

theorem vault_storage_wellformed:
  assumes "standard_tokens (venv_evm V)" "outside_reacts self V" "\<forall>tx\<in>set ts. outside_tx self tx"
    and "vault_deployed self tokenAddr pythContract own l = Inr c0" "c = run_vtxs V ts c0"
  shows "getVaultCount c = card {x. active (vaults c x)} \<and> distinct (vaultList c) \<and>
    (active (vaults c x) \<and> lpAddress (vaults c x) = x \<and> x \<in> set (vaultList c) \<or> vaults c x = no_vault \<and> x \<notin> set (vaultList c)) \<and>
    (mint_status (mintRequests c i) = MINT_INVALID \<or>
      mint_requestId (mintRequests c i) = i \<and> mint_lpVault (mintRequests c i) \<in> set (vaultList c)) \<and>
    (burn_status (burnRequests c i) = BURN_INVALID \<or>
      burn_requestId (burnRequests c i) = i \<and> burn_lpVault (burnRequests c i) \<in> set (vaultList c))"
proof -
  have s: "safe self (\<lambda>_. 0) c" using run_safe [OF assms(1-4)] assms(5) by simp
  then have "length (vaultList c) = card {x. active (vaults c x)}"
    using distinct_card [of "vaultList c"] by (simp add: safe_def vaults_listed_def)
  moreover have "active no_vault = False" by (simp add: no_vault_def)
  ultimately show ?thesis
    using s by (auto simp: safe_def vaults_listed_def mints_linked_def burns_linked_def getVaultCount_def)
qed

theorem vault_storage_wellformed_witness:
  "getVaultCount (demo_state demo_calls demo_slashed) = 2 \<and>
   card {x. active (vaults (demo_state demo_calls demo_slashed) x)} = 2"
  using vault_storage_wellformed [OF _ demo_outside(1) demo_txs_outside(1) demo_deployed refl, THEN conjunct1] demo_slashed_run(2)
  by (simp add: getVaultCount_def demo_state_def)

text \<open>
  C7: a burn is settled once. In every reachable state a burn request has no event in the log, or it is
  pending and the log holds just its creation, or it was completed before its deadline with a secret that
  verifies against the user's commitment, or it was slashed and its escrow went to the user who made it.
\<close>

theorem burn_settled_once:
  assumes "outside_reacts self V" "vault_deployed self tokenAddr pythContract own l = Inr c0" "c = run_vtxs V ts c0"
    and "r = burnRequests c i"
  shows "burn_status r = BURN_INVALID \<and> burn_log i (vm_logs c) = [] \<or>
    burn_status r = BURN_PENDING \<and> burn_log i (vm_logs c) = [burn_start r] \<or>
    burn_status r = BURN_COMPLETED \<and> (\<exists>s. burn_log i (vm_logs c) = [burn_start r, BurnFinalized i s] \<and>
      mulVerify (venv_evm V) s (burn_refundCommitment r)) \<or>
    burn_status r = BURN_SLASHED \<and> burn_log i (vm_logs c) = [burn_start r, BurnSlashed i (burn_user r) (escrowedCollateral r)]"
  using storiesD(1) [OF run_stories [OF assms(1,2), of ts], of i]
  by (cases "burn_status r") (auto simp: burn_story_def assms(3,4))

theorem burn_settled_once_witness:
  "\<exists>start. burn_log 7 (vm_logs (demo_state demo_calls demo_slashed)) = [start, BurnSlashed 7 4 90000000000000000000]"
  using burn_settled_once [OF demo_outside(1) demo_deployed refl refl, of demo_slashed 7] demo_slashed_run(3) by (auto simp: demo_data demo_state_def)

text \<open>
  C13: a mint is completed at most once, and only after the liquidity provider confirmed it and with a secret
  that verifies against the commitment; a cancelled mint was never completed.
\<close>

theorem mint_completed_once:
  assumes "outside_reacts self V" "vault_deployed self tokenAddr pythContract own l = Inr c0" "c = run_vtxs V ts c0"
    and "r = mintRequests c i"
  shows "mint_status r = MINT_INVALID \<and> mint_log i (vm_logs c) = [] \<or>
    mint_status r = MINT_PENDING \<and> mint_log i (vm_logs c) = [mint_start r] \<or>
    mint_status r = MINT_READY \<and> mint_log i (vm_logs c) = [mint_start r, MintReady i] \<or>
    mint_status r = MINT_COMPLETED \<and> (\<exists>s. mint_log i (vm_logs c) = [mint_start r, MintReady i, MintFinalized i s] \<and>
      mulVerify (venv_evm V) s (mint_claimCommitment r)) \<or>
    mint_status r = MINT_CANCELLED \<and> (mint_log i (vm_logs c) = [mint_start r, MintCancelled i] \<or>
      mint_log i (vm_logs c) = [mint_start r, MintReady i, MintCancelled i])"
  using storiesD(2) [OF run_stories [OF assms(1,2), of ts], of i]
  by (cases "mint_status r") (auto simp: mint_story_def assms(3,4))

theorem mint_completed_once_witness:
  "\<exists>start s. mint_log 7 (vm_logs (demo_state demo_calls demo_minted)) = [start, MintReady 7, MintFinalized 7 s] \<and>
     mulVerify demo_evm s 1"
  using mint_completed_once [OF demo_outside(1) demo_deployed refl refl, of demo_minted 7] demo_minted_run [of demo_calls]
  by (auto simp: demo_data demo_state_def)

text \<open>
  C8: an escrow can always be claimed. In every reachable state the user of a pending burn against an ether
  vault who accepts payments gets the whole escrow from the deadline on: no behaviour of the provider or of
  others can spend it before.
\<close>

theorem slash_available:
  assumes "standard_tokens (venv_evm V)" "outside_reacts self V" "\<forall>tx\<in>set ts. outside_tx self tx"
    and "vault_deployed self tokenAddr pythContract own l = Inr c0" "c = run_vtxs V ts c0" "r = burnRequests c i"
    and "burn_status r = BURN_PENDING" "burn_deadline r \<le> timestamp m" "sender m = burn_user r" "burn_user r \<noteq> self"
    and "collateralAsset (vaults c (burn_lpVault r)) = 0" "quiet V (burn_user r)"
  shows "\<exists>c'. claimSlashedCollateral V m i c = Inr c' \<and> burn_status (burnRequests c' i) = BURN_SLASHED \<and>
    vm_ledger c' 0 (burn_user r) = vm_ledger c 0 (burn_user r) + unat (escrowedCollateral r)"
proof -
  let ?e = "unat (escrowedCollateral r)"
  have s: "safe self (\<lambda>_. 0) c" using run_safe [OF assms(1-4)] assms(5) by simp
  have ne: "\<not> entered c" using run_not_entered [OF assms(4)] assms(5) by simp
  have "burn_claim c 0 r = ?e" using assms(7,11) by (simp add: burn_claim_def)
  then have "?e \<le> collateral_owed c 0"
    using sum_member [of "\<lambda>i. burn_claim c 0 (burnRequests c i)" i] by (simp add: collateral_owed_def assms(6))
  also have "\<dots> \<le> holdings c 0" using s by (simp add: safe_def covered_def)
  finally have "?e \<le> vm_ledger c 0 self" using s by (simp add: holdings_def safe_def split: if_splits)
  then obtain l' where l': "move (vm_ledger c) 0 self (burn_user r) ?e = Some l'"
      "l' 0 (burn_user r) = vm_ledger c 0 (burn_user r) + ?e"
    using assms(10) by (auto simp: move_def Let_def)
  have self: "vm_this c = self" using s by (simp add: safe_def)
  have late: "\<not> timestamp m < burn_deadline r" using assms(8) by simp
  show ?thesis
    using assms(7,9,11) ne l' self late unfolding assms(6)
    by (simp add: claimSlashedCollateral_def nonReentrant_def Let_def pay_collateral_def pay_ether_def ledger_transfer_def
        quiet_callback [OF assms(12) [unfolded assms(6)]])
qed

theorem slash_available_witness:
  "\<exists>c'. claimSlashedCollateral (demo_venv (\<lambda>_. [])) (demo_vmsg 4 0 90000) 7 (demo_state (\<lambda>_. []) demo_burnt) = Inr c' \<and>
     burn_status (burnRequests c' 7) = BURN_SLASHED"
proof -
  have "quiet (demo_venv (\<lambda>_. [])) 4" by (simp add: quiet_def demo_venv_def)
  then show ?thesis
    using slash_available [OF _ demo_outside(2) demo_txs_outside(3) demo_deployed refl refl, of 7 "demo_vmsg 4 0 90000"]
      demo_burnt_run [of "\<lambda>_. []"] by (auto simp: demo_data demo_state_def)
qed



text \<open>
  C21: prices are converted faithfully. When the conversion of an oracle price returns, its result is the
  price with 18 decimals, exact down to the exponent -18 and rounded down below it; and it returns for
  every positive price whose exponent is between -95 and 40.
\<close>

theorem price_converted:
  shows "(scale_price p = Inr r \<longrightarrow> 0 < sint (pyth_price p) \<and> unat r = decimal_price p) \<and>
    (0 < sint (pyth_price p) \<longrightarrow> - 95 \<le> sint (pyth_expo p) \<longrightarrow> sint (pyth_expo p) \<le> 40 \<longrightarrow>
      (\<exists>r. scale_price p = Inr r))"
  using scale_price_Inr scale_price_returns by blast

theorem price_converted_witness:
  "\<exists>r. scale_price (demo_price XMR_USD_FEED_ID) = Inr r"
  using price_converted [of "demo_price XMR_USD_FEED_ID"] by (simp add: demo_price_def)

lemma ratio_150:
  assumes "priced V m c a cp xp k" "calculateCollateralRatio V m c a C D = Inr r" "COLLATERAL_RATIO \<le> r"
  shows "150 * (unat D * unat xp div 10 ^ 8) \<le> 100 * (unat C * unat cp div 10 ^ unat k)"
proof (cases "D = 0")
  case False
  let ?d = "unat D * unat xp div 10 ^ 8" and ?c = "unat C * unat cp div 10 ^ unat k"
  have "150 \<le> unat r" using assms(3) by (simp add: word_le_nat_alt ratio_defs)
  then have "150 \<le> ?c * 100 div ?d" using ratio_checked(2) [OF assms(1,2) False] by simp
  then have "150 * ?d \<le> ?c * 100" by (meson div_times_less_eq_dividend mult_le_mono1 order_trans)
  then show ?thesis by (simp only: mult.commute)
qed simp

lemma initiateMint_Inr:
  assumes "initiateMint V m lp xmr h duration c = Inr (i, c')"
  obtains w debt ratio :: uint256 where "unat w = unat xmr div 10 ^ 4" "unat debt = unat (debtAmount (vaults c lp)) + unat w"
    "calculateCollateralRatio V m c (collateralAsset (vaults c lp)) (collateralAmount (vaults c lp)) debt = Inr ratio"
    "COLLATERAL_RATIO \<le> ratio"
  using assms by (auto simp: initiateMint_def Let_def sol_Inr not_less intro: that)

text \<open>
  C16: minting and withdrawing are checked against 150 percent. When a mint is initiated, the collateral of the
  vault, valued at the current prices and rounded down, is at least 150 percent of the rounded value of its
  debt with the new mint; when collateral is withdrawn from a vault in debt, what remains is.
\<close>

theorem mint_and_withdraw_checked:
  assumes "priced V m c a cp xp k"
  shows "(initiateMint V m lp xmr h duration c = Inr (i, c1) \<and> a = collateralAsset (vaults c lp) \<longrightarrow>
      150 * ((unat (debtAmount (vaults c lp)) + unat xmr div 10 ^ 4) * unat xp div 10 ^ 8) \<le>
      100 * (unat (collateralAmount (vaults c lp)) * unat cp div 10 ^ unat k)) \<and>
    (withdrawCollateral V m v c = Inr c2 \<and> a = collateralAsset (vaults c (sender m)) \<and> quiet V (sender m) \<and> quiet V a \<longrightarrow>
      150 * (unat (debtAmount (vaults c2 (sender m))) * unat xp div 10 ^ 8) \<le>
      100 * (unat (collateralAmount (vaults c2 (sender m))) * unat cp div 10 ^ unat k))"
proof (intro conjI impI; elim conjE)
  assume "initiateMint V m lp xmr h duration c = Inr (i, c1)" and a: "a = collateralAsset (vaults c lp)"
  then show "150 * ((unat (debtAmount (vaults c lp)) + unat xmr div 10 ^ 4) * unat xp div 10 ^ 8) \<le>
      100 * (unat (collateralAmount (vaults c lp)) * unat cp div 10 ^ unat k)"
    by (elim initiateMint_Inr) (use ratio_150 [OF assms] in metis)
next
  assume w: "withdrawCollateral V m v c = Inr c2" and a: "a = collateralAsset (vaults c (sender m))"
    and q: "quiet V (sender m)" "quiet V a"
  from w show "150 * (unat (debtAmount (vaults c2 (sender m))) * unat xp div 10 ^ 8) \<le>
      100 * (unat (collateralAmount (vaults c2 (sender m))) * unat cp div 10 ^ unat k)"
  proof (rule withdrawCollateral_Inr)
    fix c1 :: vm and new :: uint256
    let ?x = "sender m"
    assume r: "debtAmount (vaults c ?x) = 0 \<or>
        (\<exists>ratio. calculateCollateralRatio V m (c\<lparr>entered := True\<rparr>) (collateralAsset (vaults c ?x)) new
           (debtAmount (vaults c ?x)) = Inr ratio \<and> COLLATERAL_RATIO \<le> ratio)"
      and pay: "pay_collateral V (collateralAsset (vaults c ?x)) ?x v
         (set_vault ?x ((vaults c ?x)\<lparr>collateralAmount := new\<rparr>) (c\<lparr>entered := True\<rparr>)) = Inr c1"
      and c2: "c2 = (vm_emit (CollateralWithdrawn ?x (collateralAsset (vaults c1 ?x)) v) c1)\<lparr>entered := False\<rparr>"
    have v: "vaults c2 ?x = (vaults c ?x)\<lparr>collateralAmount := new\<rparr>"
      using quiet_pay [OF q(1) q(2) [unfolded a] pay] by (simp add: c2)
    show ?thesis using r ratio_150 [OF assms] by (auto simp: v a)
  qed
qed

abbreviation demo_still :: venv where
  "demo_still \<equiv> demo_venv (\<lambda>_. [])"

lemma demo_funded_mint:
  "\<exists>c1. initiateMint demo_still (demo_vmsg 4 0 200) 3 1000000000000 1 3600 (demo_state (\<lambda>_. []) demo_funded) = Inr (7, c1)"
  "priced demo_still (demo_vmsg 4 0 200) (demo_state (\<lambda>_. []) demo_funded) 0 2000000000000000000 150000000000000000000 18"
  using demo_funded_run [of "\<lambda>_. []"] by (simp_all add: demo_vrun demo_data priced_def)

theorem mint_and_withdraw_checked_witness:
  "\<exists>c1. initiateMint demo_still (demo_vmsg 4 0 200) 3 1000000000000 1 3600 (demo_state (\<lambda>_. []) demo_funded) = Inr (7, c1) \<and>
     150 * ((unat (debtAmount (vaults (demo_state (\<lambda>_. []) demo_funded) 3)) + 100000000) * 150000000000000000000 div 10 ^ 8) \<le>
     100 * (unat (collateralAmount (vaults (demo_state (\<lambda>_. []) demo_funded) 3)) * 2000000000000000000 div 10 ^ 18)"
proof -
  obtain c1 where c1: "initiateMint demo_still (demo_vmsg 4 0 200) 3 1000000000000 1 3600 (demo_state (\<lambda>_. []) demo_funded) = Inr (7, c1)"
    using demo_funded_mint(1) by blast
  with mint_and_withdraw_checked [OF demo_funded_mint(2), THEN conjunct1, of 3 1000000000000 1 3600 7 c1] demo_funded_run [of "\<lambda>_. []"]
  show ?thesis by (auto simp: demo_data)
qed

text \<open>
  C15: a burn does not weaken the vault for others. Burning wsXMR against a vault that covers at least 120
  percent of its debt leaves it covering as much, for every percentage from 120 up, at the current prices and
  without any error of rounding: the escrow is at most 120 percent of the value burnt.
\<close>

theorem burn_keeps_cover:
  assumes "initiateBurn V m w lp h c = Inr (i, c')" "priced V m c (collateralAsset (vaults c lp)) cp xp k" "120 \<le> q"
    and "covers q (unat (collateralAmount (vaults c lp))) (unat (debtAmount (vaults c lp))) (unat cp) (unat xp) (unat k)"
  shows "covers q (unat (collateralAmount (vaults c' lp))) (unat (debtAmount (vaults c' lp))) (unat cp) (unat xp) (unat k) \<and>
    100 * (unat (escrowedCollateral (burnRequests c' i)) * unat cp) * 10 ^ 8 \<le> 120 * (unat w * unat xp) * 10 ^ unat k"
  using assms(1)
proof (rule initiateBurn_Inr)
  fix e xmr dl nc nd :: uint256 and t :: wsXMR
  assume col: "unat nc + unat e = unat (collateralAmount (vaults c lp))" and deb: "unat nd + unat w = unat (debtAmount (vaults c lp))"
    and c': "c' = vm_emit (BurnInitiated i (sender m) lp w xmr h dl)
       (set_burn i \<lparr>burn_requestId = i, burn_user = sender m, burn_lpVault = lp, burn_wsxmrAmount = w,
          burn_xmrAmount = xmr, escrowedCollateral = e, burn_refundCommitment = h, burn_deadline = dl,
          burn_status = BURN_PENDING\<rparr>
          ((set_vault lp ((vaults c lp)\<lparr>collateralAmount := nc, debtAmount := nd\<rparr>) c)\<lparr>token := t\<rparr>))"
    and "\<exists>val usd. getCollateralValueForDebt m w = Inr val \<and> unat usd = unat val * 120 div 100 \<and>
       usdToCollateral V m c (collateralAsset (vaults c lp)) usd = Inr e"
  then have e: "100 * (unat e * unat cp) * 10 ^ 8 \<le> 120 * (unat w * unat xp) * 10 ^ unat k"
    using seized_bound [OF assms(2), of w _ _ 120 e] by blast
  have "covers q (unat nc) (unat nd) (unat cp) (unat xp) (unat k)"
    by (rule covers_after [OF _ e assms(3)]) (simp only: col deb assms(4))
  then show ?thesis using e by (simp add: c')
qed

lemma demo_minted_burn:
  "\<exists>c1. initiateBurn demo_still (demo_vmsg 4 0 500) 100000000 3 1 (demo_state (\<lambda>_. []) demo_minted) = Inr (7, c1)"
  "priced demo_still (demo_vmsg 4 0 500) (demo_state (\<lambda>_. []) demo_minted) 0 2000000000000000000 150000000000000000000 18"
  "vaults (demo_state (\<lambda>_. []) demo_minted) 3 = demo_vault 200000000000000000000 100000000"
  using demo_minted_run [of "\<lambda>_. []"] by (simp_all add: demo_vrun demo_data priced_def)

theorem burn_keeps_cover_witness:
  "\<exists>c1. initiateBurn demo_still (demo_vmsg 4 0 500) 100000000 3 1 (demo_state (\<lambda>_. []) demo_minted) = Inr (7, c1) \<and>
     covers 200 (unat (collateralAmount (vaults c1 3))) (unat (debtAmount (vaults c1 3))) 2000000000000000000 150000000000000000000 18"
proof -
  obtain c1 where c1: "initiateBurn demo_still (demo_vmsg 4 0 500) 100000000 3 1 (demo_state (\<lambda>_. []) demo_minted) = Inr (7, c1)"
    using demo_minted_burn(1) by blast
  have "covers 200 200000000000000000000 100000000 2000000000000000000 150000000000000000000 18" by (simp add: covers_def)
  with burn_keeps_cover [OF c1, of 2000000000000000000 150000000000000000000 18 200] demo_minted_burn(2,3) c1
  show ?thesis by (auto simp: demo_vault_def)
qed


text \<open>The price of MON falls from 2 to 0.86 USD, which leaves the vault at 114 percent.\<close>

definition demo_crash :: "address \<Rightarrow> uint256 \<Rightarrow> vmsg" where
  "demo_crash a t = (demo_vmsg a 0 t)\<lparr>getPriceNoOlderThan := (\<lambda>feed age. Some ((demo_price feed)\<lparr>pyth_price :=
     (if feed = XMR_USD_FEED_ID then 15000000000 else 86000000)\<rparr>))\<rparr>"

lemma demo_crash_prices:
  "sender (demo_crash a t) = a" "msg_value (demo_crash a t) = 0" "timestamp (demo_crash a t) = t"
  "getXmrPrice (demo_crash a t) = Inr 150000000000000000000"
  "collateralPriceFeeds c x = MON_USD_FEED_ID \<Longrightarrow> getCollateralPrice (demo_crash a t) c x = Inr 860000000000000000"
  by (simp_all add: demo_crash_def getXmrPrice_def getCollateralPrice_def read_price_def demo_price_def scale_price_def checked_pow10_def
      checked_mul_def XMR_USD_FEED_ID_def MON_USD_FEED_ID_def Let_def)

lemma demo_liquidated:
  "\<exists>c1. liquidate demo_still (demo_crash 4 600) 3 100000000 (demo_state (\<lambda>_. []) demo_minted) = Inr c1"
  "priced demo_still (demo_crash 4 600) (demo_state (\<lambda>_. []) demo_minted) 0 860000000000000000 150000000000000000000 18"
  using demo_minted_run [of "\<lambda>_. []"] by (simp_all add: demo_vrun liquidate_def demo_crash_prices demo_data priced_def)


text \<open>
  C17: finalizing a mint does not look at the collateral. A confirmed mint whose secret is known is completed,
  and the vault's debt raised, whatever collateral the vault has and whatever the prices are: nothing is
  reserved for a mint when it is initiated, and the check made then is not repeated.
\<close>

theorem mint_ignores_collateral:
  assumes "r = mintRequests c i" "mint_status r = MINT_READY" "mulVerify (venv_evm V) s (mint_claimCommitment r)" "\<not> entered c"
    and "vaultManager (token c) = vm_this c" "mint_user r \<noteq> 0" "v = vaults c (mint_lpVault r)"
    and "unat (debtAmount v) + unat (mint_wsxmrAmount r) < 2 ^ 256"
    and "unat (tok_totalSupply (token c)) + unat (mint_wsxmrAmount r) < 2 ^ 256"
  shows "\<exists>c'. finalizeMint V m i s c = Inr c' \<and> mint_status (mintRequests c' i) = MINT_COMPLETED \<and>
    collateralAmount (vaults c' (mint_lpVault r)) = collateralAmount v \<and>
    unat (debtAmount (vaults c' (mint_lpVault r))) = unat (debtAmount v) + unat (mint_wsxmrAmount r)"
proof -
  have "\<exists>d. checked_add (debtAmount v) (mint_wsxmrAmount r) = Inr d" "\<exists>d. checked_add (tok_totalSupply (token c)) (mint_wsxmrAmount r) = Inr d"
    using assms(8,9) by (simp_all add: checked_add_def)
  then obtain d n where d: "checked_add (debtAmount v) (mint_wsxmrAmount r) = Inr d"
      "checked_add (tok_totalSupply (token c)) (mint_wsxmrAmount r) = Inr n" by blast
  moreover have "unat d = unat (debtAmount v) + unat (mint_wsxmrAmount r)" using d(1) by (simp add: sol_Inr)
  ultimately show ?thesis
    using assms(2-6) unfolding assms(1,7)
    by (simp add: finalizeMint_def nonReentrant_def wsXMR_mint_def tok_mint_def Let_def)
qed

definition demo_withdrawn :: "vault_tx list" where
  "demo_withdrawn = demo_requested @
     [VTx_withdrawCollateral (demo_vmsg 3 0 250) 200000000000000000000, VTx_open (Open_setMintReady (demo_vmsg 3 0 300) 7)]"

lemma demo_withdrawn_run:
  "demo_at (demo_state (\<lambda>_. []) demo_withdrawn) [3] (demo_vault 0 0) (demo_mint MINT_READY) no_burn 0 0"
  using demo_requested_run [of "\<lambda>_. []"] by (simp add: demo_vrun demo_data demo_state_append demo_withdrawn_def)

theorem mint_ignores_collateral_witness:
  "\<exists>c'. finalizeMint demo_still (demo_vmsg 3 0 400) 7 5 (demo_state (\<lambda>_. []) demo_withdrawn) = Inr c' \<and>
     collateralAmount (vaults c' 3) = 0 \<and> unat (debtAmount (vaults c' 3)) = 100000000"
  using mint_ignores_collateral [OF refl, of "demo_state (\<lambda>_. []) demo_withdrawn" 7 demo_still 5, OF _ _ _ _ _ refl] demo_withdrawn_run
  by (auto simp: demo_data)

end
