(* ===== verification/Monero_Base58.thy ===== *)
theory Monero_Base58
  imports Mcrypto
begin

text \<open>
  The text form of Monero addresses: \<open>crypto/monero/base58.go\<close> and \<open>address_marshal.go\<close>. The base58 codec of
  btcsuite is a parameter, of which the code relies on this: encoding and decoding keep the number that a
  text or a sequence of bytes stands for and its leading zeros, and what is not base58 decodes to nothing.
\<close>

section \<open>The encoding\<close>

record base58 =
  base58_Encode :: "bytes \<Rightarrow> string"
  base58_Decode :: "string \<Rightarrow> bytes"

definition addressBytesLen :: nat where
  "addressBytesLen = 1 + 32 + 32 + 4"

definition encodedAddressLen :: nat where
  "encodedAddressLen = 8 * 11 + 1 * 7"

definition encodedIntegratedAddrLen :: nat where
  "encodedIntegratedAddrLen = encodedAddressLen + 11"

lemmas address_lens = addressBytesLen_def encodedAddressLen_def encodedIntegratedAddrLen_def

definition errInvalidAddressLength :: goerr where
  "errInvalidAddressLength = Sentinel ''errInvalidAddressLength'' ''invalid monero address length''"

definition errInvalidAddressEncoding :: goerr where
  "errInvalidAddressEncoding = Sentinel ''errInvalidAddressEncoding'' ''invalid monero address encoding''"

text \<open>Blocks are padded on the left with \<open>1\<close>, which is zero in base58.\<close>

definition pad_block :: "nat \<Rightarrow> string \<Rightarrow> string" where
  "pad_block n blk = (if length blk < n then replicate (n - length blk) (CHR ''1'') @ blk else blk)"

definition addrBytesToBase58 :: "base58 \<Rightarrow> bytes \<Rightarrow> string outcome" where
  "addrBytesToBase58 E addrBytes =
     (if length addrBytes \<noteq> addressBytesLen then Panic ''addrBytesToBase58 passed non-addrBytes value''
      else
       let encodedAddr = foldl (\<lambda>acc i. acc @ pad_block 11 (base58_Encode E (take 8 (drop (i * 8) addrBytes)))) [] [0..<8];
           lastBlock = pad_block 7 (base58_Encode E (drop 64 addrBytes)) in
       Ok (encodedAddr @ lastBlock))"

text \<open>\<open>block[len(block)-n:]\<close> panics when the block is shorter than \<open>n\<close>.\<close>

definition decode_block :: "base58 \<Rightarrow> nat \<Rightarrow> string \<Rightarrow> bytes outcome" where
  "decode_block E n s =
     (let blk = base58_Decode E s in
      if length blk = 0 then Err errInvalidAddressEncoding
      else if length blk < n then Panic ''slice bounds out of range''
      else Ok (drop (length blk - n) blk))"

primrec decode_blocks :: "base58 \<Rightarrow> string \<Rightarrow> nat list \<Rightarrow> bytes \<Rightarrow> bytes outcome" where
  "decode_blocks E s [] result = Ok result"
| "decode_blocks E s (i # is) result =
     obind (decode_block E 8 (take 11 (drop (i * 11) s))) (\<lambda>blk. decode_blocks E s is (result @ blk))"

definition addrBase58ToBytes :: "base58 \<Rightarrow> string \<Rightarrow> bytes outcome" where
  "addrBase58ToBytes E encodedAddress =
     (if length encodedAddress \<noteq> encodedAddressLen then
        Err (if length encodedAddress = encodedIntegratedAddrLen
             then Wrapf ''integrated addresses not supported: '' errInvalidAddressLength []
             else errInvalidAddressLength)
      else obind (decode_blocks E encodedAddress [0..<8] []) (\<lambda>result.
           obind (decode_block E 5 (drop 88 encodedAddress)) (\<lambda>lastBlock.
           if length (result @ lastBlock) \<noteq> addressBytesLen then Panic ''base58 address decoder is broken''
           else Ok (result @ lastBlock))))"

section \<open>Addresses as text\<close>

definition Address_String :: "base58 \<Rightarrow> MoneroAddress \<Rightarrow> string outcome" where
  "Address_String E a = addrBytesToBase58 E a"

definition Address_MarshalText :: "crypt \<Rightarrow> base58 \<Rightarrow> MoneroAddress \<Rightarrow> string outcome" where
  "Address_MarshalText K E a =
     (case validateDecoded K a of Some e \<Rightarrow> Err e | None \<Rightarrow> addrBytesToBase58 E a)"

definition Address_UnmarshalText :: "crypt \<Rightarrow> base58 \<Rightarrow> string \<Rightarrow> MoneroAddress outcome" where
  "Address_UnmarshalText K E base58Input =
     obind (addrBase58ToBytes E base58Input) (\<lambda>addrBytes.
     if min addressBytesLen (length addrBytes) \<noteq> addressBytesLen then Panic ''bytes to address conversion is broken''
     else let newAddr = copy_n addressBytesLen addrBytes in
      case validateDecoded K newAddr of Some e \<Rightarrow> Err e | None \<Rightarrow> Ok newAddr)"

definition NewAddress :: "crypt \<Rightarrow> base58 \<Rightarrow> string \<Rightarrow> Environment \<Rightarrow> MoneroAddress outcome" where
  "NewAddress K E addrStr env =
     obind (Address_UnmarshalText K E addrStr) (\<lambda>addr. obind (ValidateEnv (Some addr) env) (\<lambda>_. Ok addr))"

section \<open>Numbers in positional notation\<close>

definition pos_val :: "nat \<Rightarrow> ('a \<Rightarrow> nat) \<Rightarrow> 'a list \<Rightarrow> nat" where
  "pos_val B f xs = foldl (\<lambda>a x. a * B + f x) 0 xs"

definition lead :: "('a \<Rightarrow> nat) \<Rightarrow> 'a list \<Rightarrow> nat" where
  "lead f xs = length (takeWhile (\<lambda>x. f x = 0) xs)"

lemma pos_val_simps [simp]: "pos_val B f [] = 0" "pos_val B f (xs @ [x]) = pos_val B f xs * B + f x"
  by (simp_all add: pos_val_def)

lemma pos_val_append: "pos_val B f (xs @ ys) = pos_val B f xs * B ^ length ys + pos_val B f ys"
proof (induction ys rule: rev_induct)
  case (snoc y ys)
  have "pos_val B f ((xs @ ys) @ [y]) = pos_val B f (xs @ ys) * B + f y" by (rule pos_val_simps)
  then show ?case using snoc by (simp add: algebra_simps)
qed simp

lemma pos_val_Cons: "pos_val B f (x # xs) = f x * B ^ length xs + pos_val B f xs"
  using pos_val_append [of B f "[x]" xs] pos_val_simps(2) [of B f "[]" x] by simp

lemma pos_val_less: "\<forall>x\<in>set xs. f x < B \<Longrightarrow> pos_val B f xs < B ^ length xs"
proof (induction xs rule: rev_induct)
  case (snoc x xs)
  then have "pos_val B f xs + 1 \<le> B ^ length xs" by simp
  then have "(pos_val B f xs + 1) * B \<le> B ^ length xs * B" by (rule mult_le_mono1)
  then show ?case using snoc.prems by (simp add: algebra_simps)
qed simp

lemma lead_le: "lead f xs \<le> length xs"
  by (simp add: lead_def length_takeWhile_le)

lemma lead_zeros: "\<forall>x\<in>set ps. f x = 0 \<Longrightarrow> lead f (ps @ xs) = length ps + lead f xs"
  by (simp add: lead_def takeWhile_append)

text \<open>The number of leading zeros bounds the value from both sides.\<close>

lemma pos_val_lead:
  assumes "\<forall>x\<in>set xs. f x < B" "0 < B"
  shows "pos_val B f xs < B ^ (length xs - lead f xs)" and "lead f xs < length xs \<Longrightarrow> B ^ (length xs - lead f xs - 1) \<le> pos_val B f xs"
proof -
  have "pos_val B f xs < B ^ (length xs - lead f xs) \<and>
    (lead f xs < length xs \<longrightarrow> B ^ (length xs - lead f xs - 1) \<le> pos_val B f xs)"
    using assms(1)
  proof (induction xs)
    case (Cons x xs)
    then show ?case
    proof (cases "f x = 0")
      case False
      then have "lead f (x # xs) = 0" by (simp add: lead_def)
      moreover have "B ^ length xs \<le> pos_val B f (x # xs)" unfolding pos_val_Cons using False by (intro trans_le_add1) simp
      moreover have "pos_val B f (x # xs) < B ^ length (x # xs)" by (rule pos_val_less) (rule Cons.prems)
      ultimately show ?thesis by simp
    qed (auto simp: pos_val_Cons lead_def)
  qed (simp add: lead_def)
  then show "pos_val B f xs < B ^ (length xs - lead f xs)" "lead f xs < length xs \<Longrightarrow> B ^ (length xs - lead f xs - 1) \<le> pos_val B f xs"
    by blast+
qed

lemma be_nat_pos_val: "be_nat = pos_val 256 unat"
  by (simp add: fun_eq_iff be_nat_def pos_val_def)

section \<open>The codec\<close>

definition alphabet58 :: string where
  "alphabet58 = ''123456789ABCDEFGHJKLMNPQRSTUVWXYZabcdefghijkmnopqrstuvwxyz''"

definition digit58 :: "char \<Rightarrow> nat" where
  "digit58 c = length (takeWhile (\<lambda>d. d \<noteq> c) alphabet58)"

definition base58_laws :: "base58 \<Rightarrow> bool" where
  "base58_laws E \<longleftrightarrow>
     (\<forall>b. set (base58_Encode E b) \<subseteq> set alphabet58 \<and> pos_val 58 digit58 (base58_Encode E b) = be_nat b \<and>
        lead digit58 (base58_Encode E b) = lead unat b) \<and>
     (\<forall>s. if set s \<subseteq> set alphabet58
        then be_nat (base58_Decode E s) = pos_val 58 digit58 s \<and> lead unat (base58_Decode E s) = lead digit58 s
        else base58_Decode E s = [])"

lemma digit58_less: "c \<in> set alphabet58 \<longleftrightarrow> digit58 c < 58"
proof -
  have "length (takeWhile (\<lambda>d. d \<noteq> c) alphabet58 @ dropWhile (\<lambda>d. d \<noteq> c) alphabet58) = 58"
    by (simp only: takeWhile_dropWhile_id) (simp add: alphabet58_def)
  moreover have "dropWhile (\<lambda>d. d \<noteq> c) alphabet58 = [] \<longleftrightarrow> c \<notin> set alphabet58" by auto
  ultimately show ?thesis unfolding digit58_def length_append length_0_conv [symmetric] by linarith
qed

lemma digit58_1 [simp]: "digit58 (CHR ''1'') = 0" "CHR ''1'' \<in> set alphabet58"
  by (simp_all add: digit58_def alphabet58_def)

lemma unat_byte_less: "\<forall>x\<in>set (b :: bytes). unat x < 256"
proof
  fix x :: byte
  show "unat x < 256" using unsigned_less [of x, where 'a = nat] by simp
qed

lemmas byte_bounds = pos_val_lead [OF unat_byte_less, folded be_nat_pos_val, simplified]

lemma text_bounds:
  assumes "set s \<subseteq> set alphabet58"
  shows "pos_val 58 digit58 s < 58 ^ (length s - lead digit58 s)"
    and "lead digit58 s < length s \<Longrightarrow> 58 ^ (length s - lead digit58 s - 1) \<le> pos_val 58 digit58 s"
proof -
  have "\<forall>x\<in>set s. digit58 x < 58" using assms by (auto simp flip: digit58_less)
  from pos_val_lead [OF this]
  show "pos_val 58 digit58 s < 58 ^ (length s - lead digit58 s)"
    "lead digit58 s < length s \<Longrightarrow> 58 ^ (length s - lead digit58 s - 1) \<le> pos_val 58 digit58 s" by simp_all
qed

lemma base58_Encode_facts:
  assumes "base58_laws E"
  shows "set (base58_Encode E b) \<subseteq> set alphabet58" "pos_val 58 digit58 (base58_Encode E b) = be_nat b"
    "lead digit58 (base58_Encode E b) = lead unat b"
  using assms by (simp_all add: base58_laws_def)

lemma base58_Decode_facts:
  assumes "base58_laws E"
  shows "set s \<subseteq> set alphabet58 \<Longrightarrow> be_nat (base58_Decode E s) = pos_val 58 digit58 s"
    "set s \<subseteq> set alphabet58 \<Longrightarrow> lead unat (base58_Decode E s) = lead digit58 s"
    "\<not> set s \<subseteq> set alphabet58 \<Longrightarrow> base58_Decode E s = []"
  using assms by (auto simp: base58_laws_def split: if_splits)

lemma pad_block_facts:
  assumes "length e \<le> k"
  shows "length (pad_block k e) = k" "pos_val 58 digit58 (pad_block k e) = pos_val 58 digit58 e"
    "lead digit58 (pad_block k e) = k - length e + lead digit58 e" "set e \<subseteq> set alphabet58 \<Longrightarrow> set (pad_block k e) \<subseteq> set alphabet58"
proof -
  have p: "pad_block k e = replicate (k - length e) (CHR ''1'') @ e" using assms by (simp add: pad_block_def)
  have "pos_val 58 digit58 (replicate n (CHR ''1'')) = 0" for n by (induction n) (simp_all add: pos_val_Cons)
  then show "pos_val 58 digit58 (pad_block k e) = pos_val 58 digit58 e" by (simp add: p pos_val_append)
  show "length (pad_block k e) = k" "lead digit58 (pad_block k e) = k - length e + lead digit58 e"
    using assms by (simp_all add: p lead_zeros)
  show "set e \<subseteq> set alphabet58 \<Longrightarrow> set (pad_block k e) \<subseteq> set alphabet58" by (auto simp: p)
qed

text \<open>A block of \<open>n\<close> bytes fits \<open>k\<close> characters, for 8 and 11 and for 5 and 7.\<close>

definition block_fits :: "nat \<Rightarrow> nat \<Rightarrow> bool" where
  "block_fits n k \<longleftrightarrow> 0 < n \<and> n \<le> k \<and> (\<forall>z\<in>set [0..<Suc n]. 256 ^ (n - z) \<le> (58 :: nat) ^ (k - z)) \<and>
     (\<forall>z\<in>set [0..<k]. 256 ^ (n - z - 1) \<le> (58 :: nat) ^ (k - z - 1))"

lemma blocks_fit: "block_fits 8 11" "block_fits 5 7"
  by (simp_all add: block_fits_def upt_rec)

lemma encoded_length:
  assumes "base58_laws E" "block_fits n k" "length b = n"
  shows "length (base58_Encode E b) \<le> k"
proof (rule ccontr)
  let ?e = "base58_Encode E b" and ?z = "lead unat b"
  assume "\<not> length ?e \<le> k"
  moreover have z: "?z \<le> n" using lead_le [of unat b] assms(3) by simp
  moreover have "n \<le> k" using assms(2) by (simp add: block_fits_def)
  ultimately have "58 ^ (length ?e - ?z - 1) \<le> be_nat b"
    using text_bounds(2) [OF base58_Encode_facts(1) [OF assms(1)], of b] base58_Encode_facts(2,3) [OF assms(1), of b] by simp
  also have "\<dots> < 256 ^ (n - ?z)" using byte_bounds(1) [of b] assms(3) by simp
  also have "\<dots> \<le> 58 ^ (k - ?z)" using assms(2) z by (auto simp: block_fits_def)
  finally have "length ?e - ?z - 1 < k - ?z" by (rule power_less_imp_less_exp [rotated]) simp
  with \<open>\<not> length ?e \<le> k\<close> show False by linarith
qed

lemma decoded_length:
  assumes "base58_laws E" "block_fits n k" "length s = k" "set s \<subseteq> set alphabet58"
  shows "n \<le> length (base58_Decode E s)"
proof (cases "lead digit58 s < k")
  case True
  let ?d = "base58_Decode E s" and ?z = "lead digit58 s"
  have l: "lead unat ?d = ?z" and v: "be_nat ?d = pos_val 58 digit58 s" by (simp_all add: base58_Decode_facts [OF assms(1)] assms(4))
  have "256 ^ (n - ?z - 1) \<le> (58 :: nat) ^ (k - ?z - 1)" using assms(2) True by (auto simp: block_fits_def)
  also have "\<dots> \<le> be_nat ?d" using text_bounds(2) [OF assms(4)] True assms(3) v by simp
  also have "\<dots> < 256 ^ (length ?d - ?z)" using byte_bounds(1) [of ?d] l by simp
  finally have "n - ?z - 1 < length ?d - ?z" by (rule power_less_imp_less_exp [rotated]) simp
  then show ?thesis by linarith
next
  case False
  then have "k \<le> length (base58_Decode E s)"
    using lead_le [of unat "base58_Decode E s"] base58_Decode_facts(2) [OF assms(1,4)] by simp
  then show ?thesis using assms(2) by (simp add: block_fits_def)
qed

text \<open>What a block of base58 decodes to depends on its value alone.\<close>

lemma decode_block_value:
  assumes "base58_laws E" "block_fits n k" "length s = k" "set s \<subseteq> set alphabet58" "length b = n"
    and "pos_val 58 digit58 s = c * 256 ^ n + be_nat b"
  shows "decode_block E n s = Ok b"
proof -
  let ?d = "base58_Decode E s"
  let ?p = "take (length ?d - n) ?d" and ?q = "drop (length ?d - n) ?d"
  have n: "n \<le> length ?d" "0 < n" using decoded_length [OF assms(1-4)] assms(2) by (simp_all add: block_fits_def)
  have lq: "length ?q = n" using n by simp
  have "be_nat ?d = be_nat ?p * 256 ^ n + be_nat ?q"
    using pos_val_append [of 256 unat ?p ?q] lq by (simp add: be_nat_pos_val)
  then have "be_nat ?p * 256 ^ n + be_nat ?q = c * 256 ^ n + be_nat b"
    using base58_Decode_facts(1) [OF assms(1,4)] assms(6) by simp
  moreover have "be_nat ?q < 256 ^ n" "be_nat b < 256 ^ n" using be_nat_less [of ?q] be_nat_less [of b] lq assms(5) by simp_all
  ultimately have "be_nat ?q = be_nat b" by (metis mod_less mod_mult_self3 add.commute)
  then have "?q = b" using be_nat_inject [of ?q b] lq assms(5) by simp
  then show ?thesis using n by (auto simp: decode_block_def Let_def)
qed

lemma decode_encoded_block:
  assumes "base58_laws E" "block_fits n k" "length b = n"
  shows "decode_block E n (pad_block k (base58_Encode E b)) = Ok b" "length (pad_block k (base58_Encode E b)) = k"
proof -
  note e = encoded_length [OF assms]
  show "length (pad_block k (base58_Encode E b)) = k" using pad_block_facts(1) [OF e] .
  show "decode_block E n (pad_block k (base58_Encode E b)) = Ok b"
    by (rule decode_block_value [OF assms(1,2) _ _ assms(3), where c = 0])
      (simp_all add: pad_block_facts [OF e] base58_Encode_facts [OF assms(1)])
qed

lemma decode_block_total:
  assumes "base58_laws E" "block_fits n k" "length s = k"
  shows "(\<exists>b. decode_block E n s = Ok b \<and> length b = n) \<or> decode_block E n s = Err errInvalidAddressEncoding"
  using decoded_length [OF assms] base58_Decode_facts(3) [OF assms(1), of s]
  by (cases "set s \<subseteq> set alphabet58") (auto simp: decode_block_def Let_def)


section \<open>Whole addresses\<close>

lemma concat_blocks:
  assumes "\<And>i. length (f i) = k" "i < n"
  shows "take k (drop (i * k) (concat (map f [0..<n]) @ r)) = f i"
proof -
  have "length (concat (map f [0..<m])) = m * k" for m by (induction m) (simp_all add: assms(1))
  moreover have "[0..<n] = [0..<i] @ i # [Suc i..<n]" using assms(2) by (metis upt_add_eq_append upt_conv_Cons less_imp_le_nat
      le_add_diff_inverse zero_le)
  ultimately show ?thesis by (simp add: assms(1))
qed

lemma concat_take_drop: "concat (map (\<lambda>i. take k (drop (i * k) a)) [0..<n]) = take (n * k) a"
  by (induction n) (simp, simp flip: take_add add: add.commute)

lemma foldl_append: "foldl (\<lambda>acc i. acc @ f i) acc is = acc @ concat (map f is)"
  by (induction "is" arbitrary: acc) simp_all

lemma decode_blocks_Ok:
  assumes "\<forall>i\<in>set is. decode_block E 8 (take 11 (drop (i * 11) s)) = Ok (g i)"
  shows "decode_blocks E s is result = Ok (result @ concat (map g is))"
  using assms by (induction "is" arbitrary: result) simp_all

lemma decode_blocks_total:
  assumes "base58_laws E" "\<forall>i\<in>set is. i * 11 + 11 \<le> length s"
  shows "(\<exists>r. decode_blocks E s is result = Ok r \<and> length r = length result + 8 * length is) \<or>
    decode_blocks E s is result = Err errInvalidAddressEncoding"
  using assms(2)
proof (induction "is" arbitrary: result)
  case (Cons i "is")
  then have "11 \<le> length (drop (i * 11) s)" by simp linarith
  then have "length (take 11 (drop (i * 11) s)) = 11" by simp
  from decode_block_total [OF assms(1) blocks_fit(1) this] Cons show ?case by fastforce
qed simp

text \<open>A text whose blocks decode to the blocks of an address decodes to it.\<close>

lemma addrBase58ToBytes_blocks:
  assumes "\<And>i. length (f i) = 11" "length r = 7" "length a = 69" "decode_block E 5 r = Ok (drop 64 a)"
    and "\<And>i. i < 8 \<Longrightarrow> decode_block E 8 (f i) = Ok (take 8 (drop (i * 8) a))"
  shows "addrBase58ToBytes E (concat (map f [0..<8]) @ r) = Ok a"
proof -
  let ?s = "concat (map f [0..<8]) @ r"
  have l: "length (concat (map f [0..<8])) = 88" by (simp add: upt_rec assms(1))
  have "decode_blocks E ?s [0..<8] [] = Ok (concat (map (\<lambda>i. take 8 (drop (i * 8) a)) [0..<8]))"
    using decode_blocks_Ok [of "[0..<8]" E ?s "\<lambda>i. take 8 (drop (i * 8) a)" "[]"] concat_blocks [where f = f and r = r and n = 8, OF assms(1)] assms(5)
    by (simp del: take_append drop_append)
  then have "decode_blocks E ?s [0..<8] [] = Ok (take 64 a)" by (simp add: concat_take_drop)
  then show ?thesis using l assms(2,3,4) by (simp add: addrBase58ToBytes_def address_lens)
qed

definition first_blocks :: "base58 \<Rightarrow> MoneroAddress \<Rightarrow> string" where
  "first_blocks E a = concat (map (\<lambda>i. pad_block 11 (base58_Encode E (copy_n 8 (drop (i * 8) a)))) [0..<8])"

lemma first_blocks_decode:
  assumes "base58_laws E" "length a = 69" "length r = 7" "decode_block E 5 r = Ok (drop 64 a)"
  shows "addrBase58ToBytes E (first_blocks E a @ r) = Ok a" and "length (first_blocks E a) = 88"
proof -
  have copy: "copy_n 8 (drop (i * 8) a) = take 8 (drop (i * 8) a)" if "i < 8" for i using that assms(2) by (simp add: copy_n_def)
  have "length (copy_n 8 b) = 8" for b by (simp add: copy_n_def)
  note f = decode_encoded_block [OF assms(1) blocks_fit(1) this]
  show "addrBase58ToBytes E (first_blocks E a @ r) = Ok a"
    unfolding first_blocks_def
    by (rule addrBase58ToBytes_blocks [OF f(2) assms(3,2,4)]) (simp only: f(1), simp only: copy)
  show "length (first_blocks E a) = 88" by (simp add: first_blocks_def upt_rec f(2))
qed

lemma address_encoded:
  assumes "length a = 69"
  shows "addrBytesToBase58 E a = Ok (first_blocks E a @ pad_block 7 (base58_Encode E (drop 64 a)))"
proof -
  have "copy_n 8 (drop (i * 8) a) = take 8 (drop (i * 8) a)" if "i < 8" for i using that assms by (simp add: copy_n_def)
  then have "first_blocks E a = concat (map (\<lambda>i. pad_block 11 (base58_Encode E (take 8 (drop (i * 8) a)))) [0..<8])"
    unfolding first_blocks_def by (intro arg_cong [where f = concat] map_cong) auto
  then show ?thesis using assms by (simp only: addrBytesToBase58_def address_lens foldl_append Let_def) simp
qed

lemma address_roundtrip:
  assumes "base58_laws E" "length a = 69"
  shows "\<exists>s. addrBytesToBase58 E a = Ok s \<and> length s = 95 \<and> addrBase58ToBytes E s = Ok a"
proof -
  let ?r = "pad_block 7 (base58_Encode E (drop 64 a))"
  have "decode_block E 5 ?r = Ok (drop 64 a)" "length ?r = 7"
    using decode_encoded_block [OF assms(1) blocks_fit(2), of "drop 64 a"] assms(2) by simp_all
  with first_blocks_decode [OF assms this(2,1)] address_encoded [OF assms(2), of E] show ?thesis by simp
qed

lemma addrBase58ToBytes_total:
  assumes "base58_laws E"
  shows "(\<exists>a. addrBase58ToBytes E s = Ok a \<and> length a = 69) \<or> (\<exists>e. addrBase58ToBytes E s = Err e)"
proof (cases "length s = 95")
  case True
  have b: "\<forall>i\<in>set [0..<8]. i * 11 + 11 \<le> length s" using True by auto
  have l: "length (drop 88 s) = 7" using True by simp
  show ?thesis
    using decode_blocks_total [OF assms b, of "[]"] decode_block_total [OF assms blocks_fit(2) l] True
    by (auto simp: addrBase58ToBytes_def address_lens)
qed (simp add: addrBase58ToBytes_def address_lens)

text \<open>
  A codec with these laws, to show that they can hold: the digits of the number, after as many zeros.
\<close>

fun digits58 :: "nat \<Rightarrow> string" where
  "digits58 n = (if n = 0 then [] else digits58 (n div 58) @ [alphabet58 ! (n mod 58)])"

declare digits58.simps [simp del]

definition ref_base58 :: base58 where
  "ref_base58 = \<lparr>base58_Encode = (\<lambda>b. replicate (lead unat b) (CHR ''1'') @ digits58 (be_nat b)),
     base58_Decode = (\<lambda>s. if set s \<subseteq> set alphabet58 then replicate (lead digit58 s) 0 @ be_bytes (pos_val 58 digit58 s) else [])\<rparr>"

lemma takeWhile_nth: "distinct xs \<Longrightarrow> i < length xs \<Longrightarrow> length (takeWhile (\<lambda>d. d \<noteq> xs ! i) xs) = i"
  by (subst (2) id_take_nth_drop [of i xs]) (auto simp: takeWhile_append in_set_conv_nth nth_eq_iff_index_eq)

lemma digit58_nth: "i < 58 \<Longrightarrow> digit58 (alphabet58 ! i) = i \<and> alphabet58 ! i \<in> set alphabet58"
proof -
  have "distinct alphabet58" "length alphabet58 = 58" by (simp_all add: alphabet58_def)
  then show "i < 58 \<Longrightarrow> ?thesis" using takeWhile_nth [of alphabet58 i] by (simp add: digit58_def)
qed

lemma pos_val_0: "pos_val B f (replicate n x) = 0" if "f x = 0"
  using that by (induction n) (simp_all add: pos_val_Cons)

lemma digits58_facts:
  "pos_val 58 digit58 (digits58 n) = n" "set (digits58 n) \<subseteq> set alphabet58" "lead digit58 (digits58 n) = 0"
proof -
  have "pos_val 58 digit58 (digits58 n) = n \<and> set (digits58 n) \<subseteq> set alphabet58 \<and> lead digit58 (digits58 n) = 0 \<and>
      (n \<noteq> 0 \<longrightarrow> digits58 n \<noteq> [])"
  proof (induction n rule: digits58.induct)
    case (1 n)
    have d: "digit58 (alphabet58 ! (n mod 58)) = n mod 58" "alphabet58 ! (n mod 58) \<in> set alphabet58"
      using digit58_nth [of "n mod 58"] by simp_all
    show ?case
    proof (cases "n div 58 = 0")
      case True
      then show ?thesis using d by (auto simp: digits58.simps [of n] digits58.simps [of 0] lead_def pos_val_Cons)
    next
      case False
      then have n: "n \<noteq> 0" by auto
      then have "digits58 n = digits58 (n div 58) @ [alphabet58 ! (n mod 58)]" by (simp add: digits58.simps)
      moreover have "lead digit58 (xs @ [x]) = lead digit58 xs" if "lead digit58 xs = 0" "xs \<noteq> []" for xs x
        using that by (cases xs) (auto simp: lead_def split: if_splits)
      ultimately show ?thesis using 1 [OF n] False d by auto
    qed
  qed
  then show "pos_val 58 digit58 (digits58 n) = n" "set (digits58 n) \<subseteq> set alphabet58" "lead digit58 (digits58 n) = 0" by blast+
qed

lemma lead_be_bytes: "lead unat (be_bytes n) = 0"
proof -
  have "lead unat (be_bytes n) = 0 \<and> (n \<noteq> 0 \<longrightarrow> be_bytes n \<noteq> [])"
  proof (induction n rule: be_bytes.induct)
    case (1 n)
    show ?case
    proof (cases "n div 256 = 0")
      case True
      then show ?thesis by (auto simp: be_bytes.simps [of n] be_bytes.simps [of 0] lead_def unat_of_nat)
    next
      case False
      then have n: "n \<noteq> 0" by auto
      then have "be_bytes n = be_bytes (n div 256) @ [of_nat (n mod 256)]" by (simp add: be_bytes.simps)
      moreover have "lead unat (xs @ [x]) = lead unat xs" if "lead unat xs = 0" "xs \<noteq> []" for xs and x :: byte
        using that by (cases xs) (auto simp: lead_def split: if_splits)
      ultimately show ?thesis using 1 [OF n] False by auto
    qed
  qed
  then show ?thesis by blast
qed

lemma ref_base58_laws: "base58_laws ref_base58"
proof -
  have "be_nat (replicate n 0 @ be_bytes v) = v" for n v
    using be_nat_be_bytes [of v] by (simp add: be_nat_pos_val pos_val_append pos_val_0)
  then show ?thesis
    by (auto simp: base58_laws_def ref_base58_def pos_val_append pos_val_0 digits58_facts lead_zeros lead_be_bytes
        dest: subsetD [OF digits58_facts(2)])
qed

section \<open>Properties of the text form\<close>

text \<open>
  C40: the text form of an address round trips. Every valid address is written as 95 characters, and reading
  them gives the address back; \<open>NewAddress\<close> accepts them exactly in the environments of the address.
\<close>

theorem address_text_roundtrip:
  assumes "base58_laws E" "length a = 69" "validateDecoded K a = None"
  shows "\<exists>s. Address_MarshalText K E a = Ok s \<and> length s = 95 \<and> Address_UnmarshalText K E s = Ok a \<and>
    NewAddress K E s env = obind (ValidateEnv (Some a) env) (\<lambda>_. Ok a)"
proof -
  obtain s where "addrBytesToBase58 E a = Ok s" "length s = 95" "addrBase58ToBytes E s = Ok a"
    using address_roundtrip [OF assms(1,2)] by blast
  moreover have "copy_n 69 a = a" using assms(2) by (simp add: copy_n_def)
  ultimately show ?thesis
    using assms(2,3) by (simp add: Address_MarshalText_def Address_UnmarshalText_def NewAddress_def address_lens)
qed

definition demo_address :: MoneroAddress where
  "demo_address = (let body = netPrefixStdAddrStagenet # replicate 64 3 in body @ getChecksum demo_crypt body)"

lemma demo_address_valid: "length demo_address = 69" "validateDecoded demo_crypt demo_address = None"
    "ValidateEnv (Some demo_address) Stagenet = Ok ()"
  by (simp_all add: demo_address_def validateDecoded_def ValidateEnv_def Address_Network_def netPrefix_defs Let_def getChecksum_def
      Cons_replicate_eq)

lemma demo_address_last: "256 ^ 5 + be_nat (drop 64 demo_address) < 58 ^ 7"
proof -
  obtain cs where cs: "drop 64 demo_address = 3 # cs" "length cs = 4" by (simp add: demo_address_def Let_def getChecksum_def)
  then show ?thesis using be_nat_less [of cs] by (simp add: be_nat_pos_val pos_val_Cons)
qed

theorem address_text_roundtrip_witness:
  "\<exists>s. Address_MarshalText demo_crypt ref_base58 demo_address = Ok s \<and> NewAddress demo_crypt ref_base58 s Stagenet = Ok demo_address"
  using address_text_roundtrip [OF ref_base58_laws demo_address_valid(1,2), of Stagenet] demo_address_valid(3) by auto

text \<open>
  Reading an address never panics, whatever the text is, and what it accepts is an address: 69 bytes
  with the right checksum and a known prefix, on the network of the environment.
\<close>

theorem address_parse_sound:
  assumes "base58_laws E"
  shows "(\<exists>e. NewAddress K E s env = Err e) \<or>
    (\<exists>a. NewAddress K E s env = Ok a \<and> length a = 69 \<and> validateDecoded K a = None \<and>
      (Address_Network a = Ok NetMainnet \<and> env \<in> {Mainnet, Development} \<or> Address_Network a = Ok NetStagenet \<and> env = Stagenet))"
  using addrBase58ToBytes_total [OF assms, of s]
proof (elim disjE exE conjE)
  fix a
  assume a: "addrBase58ToBytes E s = Ok a" "length a = 69"
  then have u: "Address_UnmarshalText K E s = (case validateDecoded K a of Some e \<Rightarrow> Err e | None \<Rightarrow> Ok a)"
    by (simp add: Address_UnmarshalText_def address_lens copy_n_def)
  show ?thesis
  proof (cases "validateDecoded K a")
    case None
    then have "Address_Network a \<in> {Ok NetMainnet, Ok NetStagenet, Ok NetTestnet}"
      by (auto simp: validateDecoded_def Address_Network_def split: if_splits)
    then show ?thesis using u a None by (auto simp: NewAddress_def ValidateEnv_def)
  qed (use u in \<open>simp add: NewAddress_def\<close>)
qed (simp add: NewAddress_def Address_UnmarshalText_def)

theorem address_parse_sound_witness:
  "(\<exists>e. NewAddress demo_crypt ref_base58 ''4'' Mainnet = Err e) \<or>
    (\<exists>a. NewAddress demo_crypt ref_base58 ''4'' Mainnet = Ok a \<and> length a = 69 \<and> validateDecoded demo_crypt a = None \<and>
      (Address_Network a = Ok NetMainnet \<and> Mainnet \<in> {Mainnet, Development} \<or> Address_Network a = Ok NetStagenet \<and> Mainnet = Stagenet))"
  using address_parse_sound [OF ref_base58_laws, of demo_crypt "''4''" Mainnet] by simp

text \<open>
  The text of an address is not unique. A block of characters can stand for a number that does not fit
  its bytes, and the decoder drops the bytes in excess: every address whose checksum and last key byte are
  below a bound has a second text, different from the one it is written as, that is read as the same address.
\<close>

lemma address_text_malleable:
  assumes "base58_laws E" "length a = 69" "validateDecoded K a = None" "256 ^ 5 + be_nat (drop 64 a) < 58 ^ 7"
  shows "\<exists>s t. Address_MarshalText K E a = Ok s \<and> s \<noteq> t \<and> Address_UnmarshalText K E t = Ok a"
proof -
  let ?e = "base58_Encode E (1 # drop 64 a)" and ?last = "base58_Encode E (drop 64 a)"
  note facts = base58_Encode_facts [OF assms(1)]
  have v: "pos_val 58 digit58 ?e = 256 ^ 5 + be_nat (drop 64 a)"
    using assms(2) by (simp add: facts be_nat_pos_val pos_val_Cons)
  have "lead unat (1 # drop 64 a) = 0" by (simp add: lead_def)
  then have "lead digit58 ?e = 0" by (simp add: facts)
  with text_bounds(2) [OF facts(1), of "1 # drop 64 a"] v assms(4) have "58 ^ (length ?e - 1) < (58 :: nat) ^ 7"
    by (cases "length ?e = 0") auto
  then have "length ?e - 1 < 7" by (rule power_less_imp_less_exp [rotated]) simp
  then have e: "length ?e \<le> 7" by linarith
  have "decode_block E 5 (pad_block 7 ?e) = Ok (drop 64 a)"
    by (rule decode_block_value [OF assms(1) blocks_fit(2), where c = 1])
      (use assms(2) v in \<open>simp_all add: pad_block_facts [OF e] facts\<close>)
  then have "addrBase58ToBytes E (first_blocks E a @ pad_block 7 ?e) = Ok a"
    using first_blocks_decode(1) [OF assms(1,2) pad_block_facts(1) [OF e]] by simp
  then have "Address_UnmarshalText K E (first_blocks E a @ pad_block 7 ?e) = Ok a"
    using assms(2,3) by (simp add: Address_UnmarshalText_def address_lens copy_n_def)
  moreover have "length ?last \<le> 7" using encoded_length [OF assms(1) blocks_fit(2)] assms(2) by simp
  then have "pad_block 7 ?last \<noteq> pad_block 7 ?e"
    using pad_block_facts(2) [of ?last 7] pad_block_facts(2) [OF e] v by (auto simp: facts)
  moreover have "Address_MarshalText K E a = Ok (first_blocks E a @ pad_block 7 ?last)"
    using assms(3) by (simp add: Address_MarshalText_def address_encoded [OF assms(2)])
  ultimately show ?thesis by blast
qed

lemma address_text_malleable_example:
  "\<exists>s t. Address_MarshalText demo_crypt ref_base58 demo_address = Ok s \<and> s \<noteq> t \<and>
     Address_UnmarshalText demo_crypt ref_base58 t = Ok demo_address"
  using address_text_malleable [OF ref_base58_laws demo_address_valid(1,2)] demo_address_last by simp

end
