(* ===== verification/Eth_Waiting.thy ===== *)
theory Eth_Waiting
  imports Eth_Client
begin

text \<open>
  How long the daemon waits for a receipt. The clock is that of the node interface; every call of the node
  is taken to return within a bound, which is what the timeouts of the connection provide, and a sleep to
  last as long as it was asked to, within the same bound.
\<close>

section \<open>Computations that return in time\<close>

definition returned :: "'a outcome \<Rightarrow> bool" where
  "returned r \<longleftrightarrow> (\<exists>x. r = Ok x) \<or> (\<exists>e. r = Err e)"

lemma returned_simps [simp]: "returned (Ok x)" "returned (Err e)" "\<not> returned (Panic p)" "\<not> returned Block"
  by (simp_all add: returned_def)

definition takes :: "('s \<Rightarrow> int) \<Rightarrow> int \<Rightarrow> ('s, 'a) go \<Rightarrow> bool" where
  "takes clk D m \<longleftrightarrow> (\<forall>s r s'. m s = (r, s') \<longrightarrow> returned r \<and> clk s' \<le> clk s + D)"

lemma takesD: "takes clk D m \<Longrightarrow> m s = (r, s') \<Longrightarrow> returned r \<and> clk s' \<le> clk s + D"
  by (simp add: takes_def)

lemma takes_mono: "takes clk D m \<Longrightarrow> D \<le> E \<Longrightarrow> takes clk E m"
  unfolding takes_def by (meson add_left_mono order_trans)

lemma takes_ret: "takes clk 0 (ret x)" "takes clk 0 (fail e)" "takes clk 0 (gets f)"
  by (simp_all add: takes_def ret_def fail_def gets_def)

lemma takes_result: "takes clk 0 (lift (of_result q))"
  by (cases q) (simp_all add: takes_def lift_def of_result_def)

lemma takes_bnd:
  assumes "takes clk D m" "\<And>x. takes clk E (k x)" "0 \<le> E"
  shows "takes clk (D + E) (bnd m k)"
  unfolding takes_def
proof (intro allI impI)
  fix s r' s''
  assume b: "bnd m k s = (r', s'')"
  obtain r s' where m: "m s = (r, s')" by fastforce
  have "returned r \<and> clk s' \<le> clk s + D" by (rule takesD [OF assms(1) m])
  then show "returned r' \<and> clk s'' \<le> clk s + (D + E)"
  proof (cases r)
    case (Ok x)
    then have "k x s' = (r', s'')" using b m by (simp add: bnd_def)
    from takesD [OF assms(2) this] \<open>returned r \<and> clk s' \<le> clk s + D\<close> show ?thesis by linarith
  qed (use b m assms(3) in \<open>auto simp: bnd_def\<close>)
qed

lemma takes_attempt: "takes clk D m \<Longrightarrow> takes clk D (attempt m)"
  unfolding takes_def attempt_def by (auto split: prod.splits outcome.splits; metis returned_simps(3,4))

lemma takes_wrapping: "takes clk D m \<Longrightarrow> takes clk D (wrapping a b m)"
  unfolding takes_def wrapping_def by (auto split: prod.splits outcome.splits; metis returned_simps(3,4))

lemma takes_query: "takes clk D m \<Longrightarrow> takes (\<lambda>s. clk (world s)) D (query m)"
  unfolding takes_def query_def by (auto split: prod.splits)

section \<open>Waiting for a receipt\<close>

definition node_timely :: "'w node \<Rightarrow> int \<Rightarrow> bool" where
  "node_timely N D \<longleftrightarrow> 0 \<le> D \<and> (\<forall>d. 0 \<le> d \<longrightarrow> takes (n_clock N) (d + D) (n_sleep N d)) \<and>
     (\<forall>h. takes (n_clock N) D (n_TransactionReceipt N h)) \<and> (\<forall>r. takes (n_clock N) D (n_TransactionInBlock N r)) \<and>
     takes (n_clock N) D (n_ChainID N) \<and> (\<forall>m b. takes (n_clock N) D (n_CallContract N m b))"

abbreviation host_clock :: "'w node \<Rightarrow> ('w, 'z) host_scheme \<Rightarrow> int" where
  "host_clock N s \<equiv> n_clock N (world s)"

lemma ErrorFromBlock_takes:
  assumes "node_timely N D"
  shows "takes (host_clock N) (3 * D) (ErrorFromBlock N r)"
proof -
  have D: "0 \<le> D" and q: "\<And>r. takes (host_clock N) D (query (n_TransactionInBlock N r))"
      "takes (host_clock N) D (query (n_ChainID N))" "\<And>m b. takes (host_clock N) D (query (n_CallContract N m b))"
    using assms by (simp_all add: node_timely_def takes_query)
  show ?thesis
    unfolding ErrorFromBlock_def
    by (rule takes_mono [OF takes_bnd [where E = D, OF takes_attempt [OF takes_wrapping [OF takes_bnd [OF q(1) takes_bnd [OF q(2) takes_result]]]]]])
      (use D in \<open>auto split: sum.split intro!: takes_mono [OF takes_ret(1)] takes_mono [OF takes_bnd [OF takes_attempt [OF q(3)], where E = 0]] takes_ret(1)\<close>)
qed

lemma wait_receipt_takes:
  fixes N :: "'w node"
  assumes "node_timely N D"
  shows "takes (\<lambda>s :: ('w, 'z) host_scheme. n_clock N (world s)) (int n * (receiptSleepDuration + 2 * D) + 3 * D) (wait_receipt N h n)"
proof (induction n)
  case 0
  show ?case using assms by (auto simp: node_timely_def intro: takes_mono [OF takes_ret(2)])
next
  case (Suc n)
  let ?clk = "\<lambda>s :: ('w, 'z) host_scheme. n_clock N (world s)" and ?rest = "int n * (receiptSleepDuration + 2 * D) + 3 * D"
  have D: "0 \<le> D" and sleep: "takes ?clk (receiptSleepDuration + D) (query (n_sleep N receiptSleepDuration))"
    and get: "takes ?clk D (query (n_TransactionReceipt N h))"
    using assms by (simp_all add: node_timely_def takes_query receiptSleepDuration_def)
  have rest: "3 * D \<le> ?rest" "0 \<le> ?rest" "0 \<le> receiptSleepDuration" using D by (simp_all add: receiptSleepDuration_def)
  let ?all = "receiptSleepDuration + D + ?rest"
  have again: "takes ?clk ?all (andthen (query (n_sleep N receiptSleepDuration)) (wait_receipt N h n))"
    by (rule takes_bnd [OF sleep Suc rest(2)])
  have failed: "takes ?clk ?all (bnd (ErrorFromBlock N r) (\<lambda>e. fail (Wrapf a e b)))" for r a b
    by (rule takes_mono [OF takes_bnd [OF ErrorFromBlock_takes [OF assms] takes_ret(2)]]) (use D rest in auto)
  have found: "takes ?clk ?all (ret r)" for r by (rule takes_mono [OF takes_ret(1)]) (use D rest in auto)
  have outcome: "takes ?clk ?all (case x of
         Inl e \<Rightarrow> andthen (query (n_sleep N receiptSleepDuration)) (wait_receipt N h n)
       | Inr receipt \<Rightarrow> if Receipt_Status receipt \<noteq> 1 then bnd (ErrorFromBlock N receipt) (\<lambda>e.
           fail (Wrapf ''failed transaction included in block (%s): '' e [])) else ret receipt)" for x :: "goerr + Receipt"
    using again failed found by (cases x) auto
  have poll: "0 \<le> ?all" using D rest by linarith
  have cancelled: "takes ?clk (D + ?all) (fail e)" for e by (rule takes_mono [OF takes_ret(2)]) (use D poll in linarith)
  have "takes ?clk (0 + (D + ?all)) (wait_receipt N h (Suc n))"
    unfolding wait_receipt.simps
  proof (rule takes_bnd [OF takes_ret(3)])
    show "takes ?clk (D + ?all) (case ce of Some e \<Rightarrow> fail e | None \<Rightarrow>
        bnd (attempt (query (n_TransactionReceipt N h))) (\<lambda>r. case r of
         Inl e \<Rightarrow> andthen (query (n_sleep N receiptSleepDuration)) (wait_receipt N h n)
       | Inr receipt \<Rightarrow> if Receipt_Status receipt \<noteq> 1 then bnd (ErrorFromBlock N receipt) (\<lambda>e.
           fail (Wrapf ''failed transaction included in block (%s): '' e [])) else ret receipt))" for ce
      using cancelled takes_bnd [OF takes_attempt [OF get] outcome poll] by (cases ce) auto
  qed (use D poll in linarith)
  then show ?case by (simp add: algebra_simps)
qed

lemma wp_True [simp]: "wp m (\<lambda>r s'. True) s"
  by (simp add: wp_def split: prod.split)

lemma wait_receipt_successful: "wp (wait_receipt N h n) (\<lambda>r s'. \<forall>receipt. r = Ok receipt \<longrightarrow> Receipt_Status receipt = 1) s"
proof (induction n arbitrary: s)
  case (Suc n)
  then show ?case by (auto simp: wp_rules split: option.splits outcome.splits sum.splits)
qed (simp add: wp_rules)

text \<open>
  C29: waiting for a receipt ends. When the calls of the node return within \<open>D\<close>, \<open>WaitForReceipt\<close> returns, with the
  receipt of a successful transaction or with an error, after at most 12 minutes of sleeping and the time
  of 723 calls.
\<close>

theorem WaitForReceipt_terminates:
  assumes "node_timely N D" "WaitForReceipt N h s = (r, s')"
  shows "((\<exists>receipt. r = Ok receipt \<and> Receipt_Status receipt = 1) \<or> (\<exists>e. r = Err e)) \<and>
    n_clock N (world s') \<le> n_clock N (world s) + 12 * 60 * 10 ^ 9 + 723 * D"
proof -
  have "returned r \<and> n_clock N (world s') \<le> n_clock N (world s) + (int maxRetries * (receiptSleepDuration + 2 * D) + 3 * D)"
    by (rule takesD [OF wait_receipt_takes [OF assms(1)] assms(2) [unfolded WaitForReceipt_def]])
  then show ?thesis
    using wp_run [OF wait_receipt_successful assms(2) [unfolded WaitForReceipt_def]]
    by (auto simp: returned_def maxRetries_def receiptSleepDuration_def algebra_simps)
qed

text \<open>A node whose clock is its world, on which the receipt appears after 7 seconds.\<close>

definition slow_node :: "int node" where
  "slow_node = \<lparr>n_clock = (\<lambda>t. t), n_ctx_Err = (\<lambda>_. None), n_sleep = (\<lambda>d t. (Ok (), t + d)), n_BalanceAt = (\<lambda>_. ret 0),
     n_SuggestGasPrice = ret 9, n_NonceAt = (\<lambda>_. ret 0), n_CodeAt = (\<lambda>_. ret [2]), n_ChainID = ret 5,
     n_HeaderByNumber = fail ethereum_NotFound,
     n_TransactionReceipt = (\<lambda>h t. if t < 7000000000 then (Err ethereum_NotFound, t)
       else (Ok \<lparr>Receipt_TxHash = h, Receipt_Status = 1, Receipt_Logs = [], BlockNumber = 41\<rparr>, t)),
     n_TransactionByHash = (\<lambda>_. fail ethereum_NotFound), n_TransactionInBlock = (\<lambda>_. fail ethereum_NotFound),
     n_TransactionToMessage = (\<lambda>_ _. Inl ethereum_NotFound), n_CallContract = (\<lambda>_ _. fail ethereum_NotFound),
     n_FilterLogs = (\<lambda>_ _ _. ret []), n_NewTransactor = (\<lambda>_ _. Inr 11), n_SignTx = (\<lambda>_ _ _. Ok 77),
     n_SendTransaction = (\<lambda>_. ret ()), erc20_BalanceOf = (\<lambda>_ _. ret 0), erc20_Name = (\<lambda>_. ret ''T''),
     erc20_Symbol = (\<lambda>_. ret ''T''), erc20_Decimals = (\<lambda>_. ret 18), erc20_Allowance = (\<lambda>_ _ _. ret 0),
     erc20_Approve = (\<lambda>_ _ _ _. ret 77), sc_Swaps = (\<lambda>_ _. ret 0), sc_NewSwap = (\<lambda>_ _ _. ret 77),
     sc_SetReady = (\<lambda>_ _ _. ret 77), sc_Claim = (\<lambda>_ _ _ _. ret 77), sc_Refund = (\<lambda>_ _ _ _. ret 77),
     sc_ClaimRelayer = (\<lambda>_ _ _ _ _ _ _ _ _. ret 77), expectedSwapCreatorBytecode = [2]\<rparr>"

definition slow_host :: "int host" where
  "slow_host = \<lparr>world = 0, ethc = \<lparr>ethPrivKey = None, ethAddress = 11, gasPrice = None, gasLimit = 0, chainID = 5\<rparr>\<rparr>"

lemma slow_node_timely: "node_timely slow_node 0"
  by (simp add: node_timely_def slow_node_def takes_def ret_def fail_def)

lemma slow_node_simps [simp]:
  "n_ctx_Err slow_node w = None" "n_sleep slow_node d w = (Ok (), w + d)"
  "n_TransactionReceipt slow_node h w = (if w < 7000000000 then (Err ethereum_NotFound, w)
     else (Ok \<lparr>Receipt_TxHash = h, Receipt_Status = 1, Receipt_Logs = [], BlockNumber = 41\<rparr>, w))"
  by (simp_all add: slow_node_def)

lemma slow_host_polls:
  "\<exists>receipt s'. wait_receipt slow_node 5 (Suc (Suc (Suc (Suc (Suc n))))) slow_host = (Ok receipt, s')"
  by (simp add: slow_host_def receiptSleepDuration_def bnd_def gets_def attempt_def query_def ret_def)

theorem WaitForReceipt_terminates_witness:
  "\<exists>receipt s'. WaitForReceipt slow_node 5 slow_host = (Ok receipt, s') \<and> Receipt_Status receipt = 1 \<and>
     n_clock slow_node (world s') \<le> n_clock slow_node (world slow_host) + 720000000000"
proof -
  have "maxRetries = Suc (Suc (Suc (Suc (Suc 355))))" by (simp add: maxRetries_def)
  then obtain receipt s' where w: "WaitForReceipt slow_node 5 slow_host = (Ok receipt, s')"
    unfolding WaitForReceipt_def using slow_host_polls [of 355] by metis
  from WaitForReceipt_terminates [OF slow_node_timely w] w show ?thesis by auto
qed

section \<open>Watching for events\<close>

text \<open>
  The loop of an event filter, with the number of its rounds as an argument: each round waits and then looks
  for new logs, until the filter is stopped or the client is gone.
\<close>

definition checkForBlocksTimeout :: int where
  "checkForBlocksTimeout = 1000000000"

primrec EventFilter_Start ::
    "'w node \<Rightarrow> EventFilter \<Rightarrow> nat \<Rightarrow> (('w, 'z) host_scheme, EventFilter \<times> Log list) go" where
  "EventFilter_Start N f 0 = ret (f, [])"
| "EventFilter_Start N f (Suc n) =
     andthen (query (n_sleep N checkForBlocksTimeout))
       (bnd (EventFilter_tick N f) (\<lambda>(f1, found, stop).
        if stop then ret (f1, found)
        else bnd (EventFilter_Start N f1 n) (\<lambda>(f2, more). ret (f2, found @ more))))"

text \<open>
  What the filter relies on: the chain only grows, by logs in blocks after its head; the node reports its
  head and all logs of a contract from a block on; every log has a topic.
\<close>

definition grows :: "('w \<Rightarrow> int) \<Rightarrow> ('w \<Rightarrow> (int \<times> Log) list) \<Rightarrow> 'w \<Rightarrow> 'w \<Rightarrow> bool" where
  "grows hd_of logs_of w w' \<longleftrightarrow> hd_of w \<le> hd_of w' \<and> (\<exists>ys. logs_of w' = logs_of w @ ys \<and> (\<forall>(b, l)\<in>set ys. hd_of w < b))"

definition logs_from :: "(int \<times> Log) list \<Rightarrow> int \<Rightarrow> address \<Rightarrow> Log list" where
  "logs_from xs from c = map snd (filter (\<lambda>(b, l). from \<le> b \<and> Log_Address l = c) xs)"

definition chain_node :: "'w node \<Rightarrow> ('w \<Rightarrow> int) \<Rightarrow> ('w \<Rightarrow> (int \<times> Log) list) \<Rightarrow> bool" where
  "chain_node N hd_of logs_of \<longleftrightarrow>
     (\<forall>w d r w'. n_sleep N d w = (r, w') \<longrightarrow> r = Ok () \<and> grows hd_of logs_of w w') \<and>
     (\<forall>w r w'. n_HeaderByNumber N w = (r, w') \<longrightarrow> returned r \<and> grows hd_of logs_of w w' \<and>
        (\<forall>h. r = Ok h \<longrightarrow> Header_Number h = hd_of w')) \<and>
     (\<forall>from c w r w'. n_FilterLogs N (Some from) c None w = (r, w') \<longrightarrow> returned r \<and> grows hd_of logs_of w w' \<and>
        (\<forall>ls. r = Ok ls \<longrightarrow> ls = logs_from (logs_of w') from c)) \<and>
     (\<forall>w. \<forall>(b, l)\<in>set (logs_of w). Topics l \<noteq> [])"

lemma grows_trans: "grows H L w w' \<Longrightarrow> grows H L w' w'' \<Longrightarrow> grows H L w w''"
  unfolding grows_def by (elim conjE exE) (force intro: exI [of _ "_ @ _"])

lemma grows_subset: "grows H L w w' \<Longrightarrow> set (L w) \<subseteq> set (L w')"
  by (auto simp: grows_def)

lemma grows_old: "grows H L w w' \<Longrightarrow> (b, l) \<in> set (L w') \<Longrightarrow> b \<le> H w \<Longrightarrow> (b, l) \<in> set (L w)"
  by (fastforce simp: grows_def)

lemma grows_refl: "grows H L w w"
  by (simp add: grows_def)

abbreviation wanted :: "EventFilter \<Rightarrow> Log \<Rightarrow> bool" where
  "wanted f l \<equiv> Log_Address l = ef_contract f \<and> hd (Topics l) = ef_topic f \<and> \<not> Removed l"

lemma select_logs_Ok:
  "\<forall>l\<in>set ls. Topics l \<noteq> [] \<Longrightarrow> select_logs t ls = Ok (filter (\<lambda>l. hd (Topics l) = t \<and> \<not> Removed l) ls)"
  by (induction ls) (auto split: list.splits)

text \<open>A round either changes nothing or delivers what is new up to the head of the chain.\<close>

lemma EventFilter_tick_run:
  assumes "chain_node N H L"
  shows "wp (EventFilter_tick N f) (\<lambda>r s'. grows H L (world s) (world s') \<and> (\<exists>f1 ds stop. r = Ok (f1, ds, stop) \<and>
    (f1 = f \<and> ds = [] \<or> (\<exists>w1. grows H L w1 (world s') \<and> ef_fromBlock f < H w1 \<and> f1 = f\<lparr>ef_fromBlock := H w1\<rparr> \<and>
       ds = filter (wanted f) (logs_from (L (world s')) (ef_fromBlock f) (ef_contract f)))))) s"
proof -
  obtain r1 w1 where h: "n_HeaderByNumber N (world s) = (r1, w1)" by fastforce
  obtain r2 w2 where l: "n_FilterLogs N (Some (ef_fromBlock f)) (ef_contract f) None w1 = (r2, w2)" by fastforce
  have g1: "grows H L (world s) w1" "returned r1" "\<And>h. r1 = Ok h \<Longrightarrow> Header_Number h = H w1"
    using assms h by (auto simp: chain_node_def)
  have g2: "grows H L w1 w2" "returned r2" "\<And>ls. r2 = Ok ls \<Longrightarrow> ls = logs_from (L w2) (ef_fromBlock f) (ef_contract f)"
    using assms l by (auto simp: chain_node_def)
  have "\<forall>l\<in>set (logs_from (L w2) (ef_fromBlock f) (ef_contract f)). Topics l \<noteq> [] \<and> Log_Address l = ef_contract f"
    using assms by (fastforce simp: chain_node_def logs_from_def)
  then have sel: "select_logs (ef_topic f) (logs_from (L w2) (ef_fromBlock f) (ef_contract f)) =
      Ok (filter (wanted f) (logs_from (L w2) (ef_fromBlock f) (ef_contract f)))"
    by (subst select_logs_Ok) (auto intro: filter_cong)
  have g: "grows H L (world s) w2" by (rule grows_trans [OF g1(1) g2(1)])
  show ?thesis
  proof (cases "ef_stopped f")
    case False
    show ?thesis
    proof (cases r1)
      case (Ok hdr)
      then show ?thesis
        using False g1 g2 g sel h l
        by (cases r2) (auto simp: EventFilter_tick_def wp_def bnd_def attempt_def query_def ret_def lift_def)
    qed (use False g1 h in \<open>auto simp: EventFilter_tick_def wp_def bnd_def attempt_def query_def ret_def\<close>)
  qed (auto simp: EventFilter_tick_def wp_rules grows_refl)
qed

definition delivers :: "(int \<times> Log) list \<Rightarrow> EventFilter \<Rightarrow> EventFilter \<Rightarrow> Log list \<Rightarrow> bool" where
  "delivers xs f f' ds \<longleftrightarrow> ef_fromBlock f \<le> ef_fromBlock f' \<and>
     (\<forall>(b, l)\<in>set xs. ef_fromBlock f \<le> b \<and> b \<le> ef_fromBlock f' \<and> ef_fromBlock f < ef_fromBlock f' \<and> wanted f l \<longrightarrow> l \<in> set ds) \<and>
     (\<forall>l\<in>set ds. wanted f l \<and> (\<exists>b\<ge>ef_fromBlock f. (b, l) \<in> set xs))"

lemma delivers_step:
  assumes "f1 = f \<and> ds = [] \<or> (\<exists>w1. grows H L w1 w \<and> ef_fromBlock f < H w1 \<and> f1 = f\<lparr>ef_fromBlock := H w1\<rparr> \<and>
      ds = filter (wanted f) (logs_from (L w) (ef_fromBlock f) (ef_contract f)))"
    and "delivers (L w') f1 f2 es" "grows H L w w'"
  shows "delivers (L w') f f2 (ds @ es)"
  using assms(1)
proof (elim disjE exE conjE)
  fix w1
  assume g: "grows H L w1 w" and lt: "ef_fromBlock f < H w1" and f1: "f1 = f\<lparr>ef_fromBlock := H w1\<rparr>"
    and ds: "ds = filter (wanted f) (logs_from (L w) (ef_fromBlock f) (ef_contract f))"
  have cov: "l \<in> set (ds @ es)"
    if l: "(b, l) \<in> set (L w')" "ef_fromBlock f \<le> b" "b \<le> ef_fromBlock f2" "wanted f l" for b l
  proof (cases "b \<le> H w1")
    case True
    then have "(b, l) \<in> set (L w)"
      using grows_old [OF grows_trans [OF g assms(3)] l(1)] grows_subset [OF g] by blast
    then show ?thesis using l by (force simp: ds logs_from_def)
  qed (use l assms(2) in \<open>auto simp: delivers_def f1\<close>)
  have old: "wanted f l \<and> (\<exists>b\<ge>ef_fromBlock f. (b, l) \<in> set (L w'))" if "l \<in> set ds" for l
    using that grows_subset [OF assms(3)] by (auto simp: ds logs_from_def)
  have new: "wanted f l \<and> (\<exists>b\<ge>ef_fromBlock f. (b, l) \<in> set (L w'))" if "l \<in> set es" for l
  proof -
    have "wanted f l" "\<exists>b\<ge>H w1. (b, l) \<in> set (L w')" using that assms(2) by (simp_all add: delivers_def f1)
    then show ?thesis using lt by (meson less_imp_le order_trans)
  qed
  have "ef_fromBlock f \<le> ef_fromBlock f2" using assms(2) lt by (simp add: delivers_def f1)
  with cov old new show ?thesis unfolding delivers_def by auto
qed (use assms(2) in simp)

lemma EventFilter_Start_run:
  assumes "chain_node N H L"
  shows "wp (EventFilter_Start N f n) (\<lambda>r s'. grows H L (world s) (world s') \<and> (\<exists>f' ds. r = Ok (f', ds) \<and> delivers (L (world s')) f f' ds)) s"
proof (induction n arbitrary: f s)
  case 0
  show ?case by (simp add: wp_rules grows_refl delivers_def)
next
  case (Suc n)
  obtain w0 where w0: "n_sleep N checkForBlocksTimeout (world s) = (Ok (), w0)" "grows H L (world s) w0"
    using assms by (cases "n_sleep N checkForBlocksTimeout (world s)") (auto simp: chain_node_def)
  obtain f1 ds stop s1 where t: "EventFilter_tick N f (s\<lparr>world := w0\<rparr>) = (Ok (f1, ds, stop), s1)" "grows H L w0 (world s1)"
    and d: "f1 = f \<and> ds = [] \<or> (\<exists>w1. grows H L w1 (world s1) \<and> ef_fromBlock f < H w1 \<and> f1 = f\<lparr>ef_fromBlock := H w1\<rparr> \<and>
       ds = filter (wanted f) (logs_from (L (world s1)) (ef_fromBlock f) (ef_contract f)))"
    using EventFilter_tick_run [OF assms, of f "s\<lparr>world := w0\<rparr>"] by (fastforce simp: wp_def split: prod.splits)
  have g: "grows H L (world s) (world s1)" by (rule grows_trans [OF w0(2) t(2)])
  show ?case
  proof (cases stop)
    case True
    have "delivers (L (world s1)) f f1 (ds @ [])"
      by (rule delivers_step [OF d _ grows_refl]) (simp add: delivers_def)
    then show ?thesis using True w0(1) t(1) g by (simp add: wp_def bnd_def query_def ret_def)
  next
    case False
    obtain f2 es s2 where rest: "EventFilter_Start N f1 n s1 = (Ok (f2, es), s2)" "grows H L (world s1) (world s2)"
        "delivers (L (world s2)) f1 f2 es"
      using Suc [of f1 s1] by (auto simp: wp_def split: prod.splits)
    have "delivers (L (world s2)) f f2 (ds @ es)" by (rule delivers_step [OF d rest(3,2)])
    then show ?thesis
      using False w0(1) t(1) rest(1) grows_trans [OF g rest(2)] by (simp add: wp_def bnd_def query_def ret_def)
  qed
qed

text \<open>
  C30: an event filter misses nothing. However often the chain grows and the node fails in between, every log of
  the contract and topic in the blocks from the first one on to the one the filter has reached is
  delivered, and everything delivered is such a log of the chain.
\<close>

theorem EventFilter_complete:
  assumes "chain_node N H L" "EventFilter_Start N f n s = (r, s')"
  shows "\<exists>f' ds. r = Ok (f', ds) \<and> ef_fromBlock f \<le> ef_fromBlock f' \<and>
    (\<forall>(b, l)\<in>set (L (world s')). ef_fromBlock f \<le> b \<and> b \<le> ef_fromBlock f' \<and> ef_fromBlock f < ef_fromBlock f' \<and> wanted f l \<longrightarrow>
       l \<in> set ds) \<and>
    (\<forall>l\<in>set ds. wanted f l \<and> (\<exists>b\<ge>ef_fromBlock f. (b, l) \<in> set (L (world s'))))"
  using wp_run [OF EventFilter_Start_run [OF assms(1)] assms(2)] by (auto simp: delivers_def)

text \<open>A chain that grows by one block whenever the filter sleeps, with one event in block 3.\<close>

definition demo_log :: Log where
  "demo_log = \<lparr>Log_Address = 3, Topics = [7], Data = [], Removed = False\<rparr>"

definition demo_logs :: "int \<Rightarrow> (int \<times> Log) list" where
  "demo_logs w = (if 3 \<le> w then [(3, demo_log)] else [])"

definition growing_node :: "int node" where
  "growing_node = slow_node\<lparr>n_sleep := (\<lambda>d w. (Ok (), w + 1)), n_HeaderByNumber := (\<lambda>w. (Ok \<lparr>Header_Number = w, Header_Time = 0\<rparr>, w)),
     n_FilterLogs := (\<lambda>from c t w. (Ok (logs_from (demo_logs w) (case from of Some b \<Rightarrow> b | None \<Rightarrow> 0) c), w))\<rparr>"

lemma growing_node_chain: "chain_node growing_node (\<lambda>w. w) demo_logs"
  by (auto simp: chain_node_def growing_node_def grows_def demo_logs_def demo_log_def)

lemma growing_node_simps [simp]:
  "n_sleep growing_node d w = (Ok (), w + 1)" "n_HeaderByNumber growing_node w = (Ok \<lparr>Header_Number = w, Header_Time = 0\<rparr>, w)"
  "n_FilterLogs growing_node (Some b) c t w = (Ok (logs_from (demo_logs w) b c), w)"
  by (simp_all add: growing_node_def)

lemma growing_node_run:
  "\<exists>f' ds s'. EventFilter_Start growing_node (NewEventFilter 3 0 7) (Suc (Suc (Suc (Suc 0)))) slow_host = (Ok (f', ds), s') \<and>
     ef_fromBlock f' = 4 \<and> world s' = 4"
  by (simp add: EventFilter_tick_def NewEventFilter_def slow_host_def bnd_def attempt_def query_def ret_def lift_def
      logs_from_def demo_logs_def demo_log_def)

theorem EventFilter_complete_witness:
  "\<exists>f' ds s'. EventFilter_Start growing_node (NewEventFilter 3 0 7) (Suc (Suc (Suc (Suc 0)))) slow_host = (Ok (f', ds), s') \<and>
     demo_log \<in> set ds"
proof -
  obtain f' ds s' where r: "EventFilter_Start growing_node (NewEventFilter 3 0 7) (Suc (Suc (Suc (Suc 0)))) slow_host = (Ok (f', ds), s')"
      "ef_fromBlock f' = 4" "world s' = 4"
    using growing_node_run by blast
  have "(3, demo_log) \<in> set (demo_logs (world s'))" by (simp add: r(3) demo_logs_def)
  with EventFilter_complete [OF growing_node_chain r(1)] r(2) have "demo_log \<in> set ds"
    by (auto simp: NewEventFilter_def demo_log_def)
  with r(1) show ?thesis by blast
qed

end
