(* ===== verification/Relay_Claims.thy ===== *)
theory Relay_Claims
  imports Relayer Demo_Backend
begin

text \<open>
  Relayed claims from end to end: what the maker's daemon signs, what the relayer's daemon checks and what the
  contract verifies fit together. The signature scheme is a parameter; the daemons' library and the
  precompile of the EVM are assumed to implement the same one.
\<close>

section \<open>What the three parties hash and sign\<close>

definition ecdsa_law :: "'w extern \<Rightarrow> evm \<Rightarrow> bool" where
  "ecdsa_law X E \<longleftrightarrow> (\<forall>digest key sig. x_Sign X digest key = Inr sig \<longrightarrow>
     length sig = 65 \<and> (\<exists>pub. x_Ecrecover X digest sig = Inr pub \<and> x_PubkeyAddress X pub = Inr (x_KeyAddress X key)) \<and>
     ecrecover E digest (sig ! 64 + 27) (bytes_hash (take 32 sig)) (bytes_hash (take 32 (drop 32 sig))) = x_KeyAddress X key)"

lemma salt_bytes_abi: "salt_bytes salt = drop 28 (abi_word salt)"
proof (rule nth_equalityI)
  show "length (salt_bytes salt) = length (drop 28 (abi_word salt))" by (simp add: salt_bytes_def abi_word_def)
  fix i
  assume "i < length (salt_bytes salt)"
  then have i: "i < 4" by (simp add: salt_bytes_def)
  have "drop 28 (abi_word salt) ! i = ucast (drop_bit (8 * (3 - i)) (ucast salt :: 256 word))"
    using i by (simp add: abi_word_def hash_bytes_nth)
  also have "\<dots> = ucast (drop_bit (8 * (3 - i)) salt)"
    by (rule bit_word_eqI) (use i in \<open>auto simp: bit_simps\<close>)
  finally show "salt_bytes salt ! i = drop 28 (abi_word salt) ! i" using i by (simp add: salt_bytes_def)
qed

lemma relayer_hash_agrees: "address_bytes a @ salt_bytes salt = encodePacked_relayer a salt"
  by (simp add: address_bytes_def salt_bytes_abi encodePacked_relayer_def)

text \<open>The request a maker creates is signed by the claimer over the hash the contract computes.\<close>

lemma CreateRelayClaimRequest_Ok:
  assumes "CreateRelayClaimRequest B (Some key) r secret = Ok req" "RelaySwap_Hash (b_ethlib B) r = Ok digest"
    and "ecdsa_law (b_extern B) E"
  obtains sig where "req = \<lparr>RC_OfferID = None, RC_RelaySwap = r, RC_Secret = hash_bytes secret, RC_Signature = sig[64 := sig ! 64 + 27]\<rparr>"
    "x_Sign (b_extern B) digest key = Inr sig" "Claimer (RelaySwap_Swap r) = x_KeyAddress (b_extern B) key" "length sig = 65"
proof -
  obtain signature where s: "createRelayClaimSignature B key r = Ok signature"
    and req: "req = \<lparr>RC_OfferID = None, RC_RelaySwap = r, RC_Secret = hash_bytes secret, RC_Signature = signature\<rparr>"
    using assms(1) by (auto simp: CreateRelayClaimRequest_def obind_eq_Ok)
  have k: "Claimer (RelaySwap_Swap r) = x_KeyAddress (b_extern B) key" and "relayer_Sign (b_extern B) key digest = Ok signature"
    using s assms(2) by (auto simp: createRelayClaimSignature_def split: if_splits outcome.splits)
  then obtain sig where "x_Sign (b_extern B) digest key = Inr sig" "signature = sig[64 := sig ! 64 + 27]"
    by (cases "x_Sign (b_extern B) digest key") (auto simp: relayer_Sign_def of_result_def split: if_splits)
  then show ?thesis using that [of sig] req k assms(3) by (simp add: ecdsa_law_def)
qed

lemma signature_parts:
  assumes "length (sig :: bytes) = 65"
  shows "sig[64 := x] ! 64 = x" "take 32 (sig[64 := x]) = take 32 sig" "take 32 (drop 32 (sig[64 := x])) = take 32 (drop 32 sig)"
    "recover_sig (sig[64 := sig ! 64 + 27]) = sig"
  using assms by (simp_all add: recover_sig_def sig_array_def drop_update_swap)

lemma unat_word_of_int: "0 \<le> n \<Longrightarrow> n < 2 ^ 256 \<Longrightarrow> unat (word_of_int n :: 256 word) = nat n"
  by (simp add: unat_eq_nat_uint uint_word_of_int take_bit_int_eq_self)

section \<open>A relayed claim is accepted\<close>

text \<open>
  The contract pays the claimer and the relayer: as a claim of the claimer would be accepted, so is one
  that the claimer signed.
\<close>

lemma claimRelayer_pays:
  assumes "standard_tokens E" "inj_on (swapID_of E) (tx_swap ` set ts)" "\<forall>t\<in>set ts. sender (tx_msg t) \<noteq> a"
    and "c = run_txs E (deployed a l) ts" "swap_of rs \<in> tx_swap ` set ts" "s = swap_of rs"
    and "swaps c (swapID_of E s) = READY \<or> swaps c (swapID_of E s) = PENDING \<and> timeout1 s \<le> timestamp m"
    and "asset s = 0" "claimer s \<noteq> a" "rel \<noteq> a" "rel \<noteq> claimer s" "timestamp m < timeout2 s" "mulVerify E secret (claimCommitment s)"
    and "accepts_ether E (claimer s) (unat (amount s - fee rs))" "accepts_ether E rel (unat (fee rs))" "fee rs \<le> amount s"
    and "ecrecover E (keccak256 E (abi_encode_RelaySwap rs)) v r0 s0 = claimer s" "swapCreator rs = a"
    and "relayerHash rs = keccak256 E (encodePacked_relayer rel salt)"
  shows "\<exists>c'. claimRelayer E c m rs secret rel salt v r0 s0 = Inr c' \<and>
    balances c' 0 (claimer s) = balances c 0 (claimer s) + unat (amount s - fee rs) \<and>
    balances c' 0 rel = balances c 0 rel + unat (fee rs)"
proof -
  let ?c1 = "set_stage (swapID_of E s) COMPLETED (emit (Claimed (swapID_of E s) secret) c)"
  have "swaps c (swapID_of E s) = PENDING \<or> swaps c (swapID_of E s) = READY" using assms(7) by auto
  note held = uncompleted_held [OF assms(1-4) assms(5) [folded assms(6)] this]
  have amt: "unat (amount s) = unat (amount s - fee rs) + unat (fee rs)"
    using assms(16) by (simp add: unat_sub word_le_nat_alt)
  obtain l1 where l1: "move (balances c) 0 a (claimer s) (unat (amount s - fee rs)) = Some l1"
    using held(1) amt assms(8) by (auto simp: move_def Let_def)
  have bal: "unat (fee rs) \<le> l1 0 a" "l1 0 rel = balances c 0 rel"
      "l1 0 (claimer s) = balances c 0 (claimer s) + unat (amount s - fee rs)"
    using l1 held(1) amt assms(8-11) by (auto simp: move_def Let_def split: if_splits)
  obtain l2 where l2: "move l1 0 a rel (unat (fee rs)) = Some l2" using bal(1) by (auto simp: move_def Let_def)
  have bal2: "l2 0 rel = balances c 0 rel + unat (fee rs)" "l2 0 (claimer s) = balances c 0 (claimer s) + unat (amount s - fee rs)"
    using l2 bal assms(9-11) by (auto simp: move_def Let_def split: if_splits)
  have "claim_internal E c m s secret = Inr ?c1" using assms(7,12,13) by (auto simp: claim_internal_iff)
  moreover have "pay E ?c1 0 (claimer s) (unat (amount s - fee rs)) = Inr (?c1\<lparr>balances := l1\<rparr>)"
    using l1 assms(14) held(2) by (simp add: pay_def ether_transfer_def)
  moreover have "pay E (?c1\<lparr>balances := l1\<rparr>) 0 rel (unat (fee rs)) = Inr (?c1\<lparr>balances := l2\<rparr>)"
    using l2 assms(15) held(2) by (simp add: pay_def ether_transfer_def)
  ultimately have "claimRelayer E c m rs secret rel salt v r0 s0 = Inr (?c1\<lparr>balances := l2\<rparr>)"
    using assms(6,8,16-19) held(2) by (simp add: claimRelayer_def Let_def not_less)
  then show ?thesis using bal2 by simp
qed

text \<open>
  C22: a relayed claim that the maker's daemon creates is accepted by the relayer and by the contract. When the
  relayer's hash is the one it handed out and the fee is at least the relayer's, the request passes all
  checks of the relayer's daemon; and the transaction made of it, sent by anyone before timeout 2 of a
  swap that can be claimed, pays the claimer the value less the fee and the relayer the fee.
\<close>

theorem relayed_claim_accepted:
  assumes "CreateRelayClaimRequest B (Some key) r secret = Ok req" "b_ethlib B' = b_ethlib B" "b_extern B' = b_extern B"
    and "ecdsa_law (b_extern B) E" "abi_Pack_law (b_ethlib B)" "Keccak256Hash (b_ethlib B) = keccak256 E"
    and "\<forall>n\<in>{Timeout1 (RelaySwap_Swap r), Timeout2 (RelaySwap_Swap r), Value (RelaySwap_Swap r), Nonce (RelaySwap_Swap r), Fee r}.
      0 \<le> n \<and> n < 2 ^ 256"
    and "RelayerHash r = Keccak256Hash (b_ethlib B) (address_bytes rel @ salt_bytes salt)" "SwapCreator r = a" "b_swapCreatorAddr B' = a"
    and "RelayerFeeWei \<le> Fee r" "RelayerFeeWei < Value (RelaySwap_Swap r)" "Fee r \<le> Value (RelaySwap_Swap r)"
    and "standard_tokens E" "inj_on (swapID_of E) (tx_swap ` set ts)" "\<forall>t\<in>set ts. sender (tx_msg t) \<noteq> a"
    and "c = run_txs E (deployed a l) ts" "s = contract_swap (RelaySwap_Swap r)" "s \<in> tx_swap ` set ts"
    and "swaps c (swapID_of E s) = READY \<or> swaps c (swapID_of E s) = PENDING \<and> timeout1 s \<le> timestamp m"
    and "asset s = 0" "claimer s \<noteq> a" "rel \<noteq> a" "rel \<noteq> claimer s" "timestamp m < timeout2 s" "mulVerify E secret (claimCommitment s)"
    and "accepts_ether E (claimer s) (nat (Value (RelaySwap_Swap r) - Fee r))" "accepts_ether E rel (nat (Fee r))"
  shows "validateClaimRequest B' req rel salt st = (Ok (), st) \<and>
    (\<exists>c'. claimRelayer E c m (contract_relay_swap (RC_RelaySwap req)) (bytes_hash (take 32 (RC_Secret req))) rel salt
        (RC_Signature req ! 64) (bytes_hash (take 32 (RC_Signature req))) (bytes_hash (take 32 (drop 32 (RC_Signature req)))) = Inr c' \<and>
      balances c' 0 (claimer s) = balances c 0 (claimer s) + nat (Value (RelaySwap_Swap r) - Fee r) \<and>
      balances c' 0 rel = balances c 0 rel + nat (Fee r))"
proof -
  let ?rs = "contract_relay_swap r"
  let ?digest = "keccak256 E (abi_encode_RelaySwap ?rs)"
  have digest: "RelaySwap_Hash (b_ethlib B) r = Ok ?digest"
    using contract_hashes [OF assms(5,6,7) refl] by blast
  obtain sig where req: "req = \<lparr>RC_OfferID = None, RC_RelaySwap = r, RC_Secret = hash_bytes secret, RC_Signature = sig[64 := sig ! 64 + 27]\<rparr>"
    and sig: "x_Sign (b_extern B) ?digest key = Inr sig" "Claimer (RelaySwap_Swap r) = x_KeyAddress (b_extern B) key" "length sig = 65"
    by (rule CreateRelayClaimRequest_Ok [OF assms(1) digest assms(4)])
  have s: "claimer s = Claimer (RelaySwap_Swap r)" "asset s = Asset (RelaySwap_Swap r)" "swap_of ?rs = s"
    by (simp_all add: assms(18) contract_swap_def contract_relay_swap_def)
  obtain pub where pub: "x_Ecrecover (b_extern B) ?digest sig = Inr pub" "x_PubkeyAddress (b_extern B) pub = Inr (claimer s)"
    and rec: "ecrecover E ?digest (sig ! 64 + 27) (bytes_hash (take 32 sig)) (bytes_hash (take 32 (drop 32 sig))) = claimer s"
    using assms(4) [unfolded ecdsa_law_def, rule_format, OF sig(1)] sig(2) s(1) by auto
  have "validateClaimSignature B' req = Ok ()"
    using pub s(1) by (simp add: validateClaimSignature_def assms(2,3) req digest signature_parts [OF sig(3)] of_result_def)
  moreover have "validateClaimValues B' req rel salt st = (Ok (), st)"
    using assms(8-13,21) s(2) by (simp add: validateClaimValues_def req assms(2) Let_def bnd_def ret_def EthAssetETH_def)
  ultimately have "validateClaimRequest B' req rel salt st = (Ok (), st)"
    by (simp add: validateClaimRequest_def bnd_def lift_def)
  moreover have fee: "unat (fee ?rs) = nat (Fee r)" "unat (amount s) = nat (Value (RelaySwap_Swap r))"
    using assms(7) by (simp_all add: contract_relay_swap_def assms(18) contract_swap_def unat_word_of_int)
  then have le: "fee ?rs \<le> amount s" using assms(13) by (simp add: word_le_nat_alt)
  have paid: "unat (amount s - fee ?rs) = nat (Value (RelaySwap_Swap r) - Fee r)"
    using le fee assms(7,13) by (simp add: unat_sub nat_diff_distrib)
  have "\<exists>c'. claimRelayer E c m ?rs secret rel salt (sig ! 64 + 27) (bytes_hash (take 32 sig)) (bytes_hash (take 32 (drop 32 sig))) = Inr c' \<and>
      balances c' 0 (claimer s) = balances c 0 (claimer s) + unat (amount s - fee ?rs) \<and> balances c' 0 rel = balances c 0 rel + unat (fee ?rs)"
    by (rule claimRelayer_pays [OF assms(14-17) _ s(3) [symmetric] assms(20-26) _ _ le rec])
      (use assms(8,9,19,27,28) s(3) fee(1) paid in \<open>simp_all add: contract_relay_swap_def relayer_hash_agrees assms(6)\<close>)
  ultimately show ?thesis
    by (simp add: req signature_parts [OF sig(3)] fee(1) paid hash_bytes_bytes_hash)
qed

text \<open>Every signature is valid and of the account 1; the maker's account is that one.\<close>

definition demo_signed :: "(unit, memstore) backend" where
  "demo_signed = (demo_backend (demo_swap_codecs [] []) (demo_eth (\<lambda>_. 7)))\<lparr>b_swapCreatorAddr := 9,
     b_extern := demo_extern\<lparr>x_KeyAddress := (\<lambda>_. 1), x_Sign := (\<lambda>_ _. Inr (replicate 65 0)), x_PubkeyAddress := (\<lambda>_. Inr 1)\<rparr>\<rparr>"

definition demo_relay :: SwapCreatorRelaySwap where
  "demo_relay = \<lparr>RelaySwap_Swap = \<lparr>Owner = 3, Claimer = 1, ClaimCommitment = 1, RefundCommitment = 1, Timeout1 = 110, Timeout2 = 120,
     Asset = 0, Value = 50000000000000000, Nonce = 0\<rparr>, Fee = 10000000000000000, RelayerHash = 7, SwapCreator = 9\<rparr>"

definition demo_relay_new :: tx where
  "demo_relay_new = Tx_newSwap (demo_msg 3 50000000000000000 100) 1 1 1 10 10 0 50000000000000000 0"

definition demo_relay_ledger :: ledger where
  "demo_relay_ledger = (\<lambda>a x. if a = 0 \<and> x = 3 then 80000000000000000 else 0)"

lemma demo_relay_run:
  defines "c \<equiv> run_txs demo_evm (deployed 9 demo_relay_ledger) [demo_relay_new]"
  shows "swaps c 7 = PENDING" "balances c 0 1 = 0"
  unfolding c_def
  by (simp_all add: run_txs_def apply_tx_def demo_relay_new_def newSwap_def deployed_def demo_relay_ledger_def move_def
      Let_def add_overflows_def set_stage_def emit_def)

lemma demo_signed_laws:
  "ecdsa_law (b_extern demo_signed) demo_evm" "abi_Pack_law (b_ethlib demo_signed)"
  "Keccak256Hash (b_ethlib demo_signed) = keccak256 demo_evm" "b_swapCreatorAddr demo_signed = 9"
  by (simp_all add: ecdsa_law_def abi_Pack_law_def demo_signed_def demo_extern_def demo_backend_def demo_eth_def demo_evm_def)

lemma demo_relay_simps [simp]:
  "contract_swap (RelaySwap_Swap demo_relay) = tx_swap demo_relay_new" "RelayerHash demo_relay = 7" "SwapCreator demo_relay = 9"
  "Fee demo_relay = 10000000000000000" "Value (RelaySwap_Swap demo_relay) = 50000000000000000" "tx_msg demo_relay_new = demo_msg 3 50000000000000000 100"
  "Timeout1 (RelaySwap_Swap demo_relay) = 110" "Timeout2 (RelaySwap_Swap demo_relay) = 120" "Nonce (RelaySwap_Swap demo_relay) = 0"
  by (simp_all add: demo_relay_def contract_swap_def demo_relay_new_def)

lemma demo_relay_new_swap [simp]:
  "asset (tx_swap demo_relay_new) = 0" "claimer (tx_swap demo_relay_new) = 1" "timeout1 (tx_swap demo_relay_new) = 110"
  "timeout2 (tx_swap demo_relay_new) = 120" "claimCommitment (tx_swap demo_relay_new) = 1"
  by (simp_all add: demo_relay_new_def)

lemma demo_request: "\<exists>req. CreateRelayClaimRequest demo_signed (Some [1]) demo_relay 4 = Ok req"
  by (simp add: CreateRelayClaimRequest_def createRelayClaimSignature_def relayer_Sign_def demo_signed_def demo_extern_def
      demo_backend_def demo_relay_def RelaySwap_Hash_def demo_eth_def of_result_def)

definition demo_relay_state :: contract where
  "demo_relay_state = run_txs demo_evm (deployed 9 demo_relay_ledger) [demo_relay_new]"

theorem relayed_claim_accepted_witness:
  "\<exists>req v r s c'. CreateRelayClaimRequest demo_signed (Some [1]) demo_relay 4 = Ok req \<and>
     claimRelayer demo_evm demo_relay_state (demo_msg 2 0 115)
       (contract_relay_swap (RC_RelaySwap req)) (bytes_hash (take 32 (RC_Secret req))) 2 0 v r s = Inr c' \<and>
     balances c' 0 1 = 40000000000000000"
proof -
  obtain req where req: "CreateRelayClaimRequest demo_signed (Some [1]) demo_relay 4 = Ok req" using demo_request by blast
  have k: "keccak256 demo_evm x = 7" for x by (simp add: demo_evm_def)
  have "\<exists>c'. claimRelayer demo_evm demo_relay_state (demo_msg 2 0 115)
       (contract_relay_swap (RC_RelaySwap req)) (bytes_hash (take 32 (RC_Secret req))) 2 0 (RC_Signature req ! 64)
       (bytes_hash (take 32 (RC_Signature req))) (bytes_hash (take 32 (drop 32 (RC_Signature req)))) = Inr c' \<and>
     balances c' 0 (claimer (tx_swap demo_relay_new)) = balances demo_relay_state 0 (claimer (tx_swap demo_relay_new)) +
       nat (Value (RelaySwap_Swap demo_relay) - Fee demo_relay) \<and>
     balances c' 0 2 = balances demo_relay_state 0 2 + nat (Fee demo_relay)"
    by (rule relayed_claim_accepted [where a = 9 and ts = "[demo_relay_new]" and l = demo_relay_ledger, THEN conjunct2,
          OF req refl refl demo_signed_laws(1,2,3)])
      (simp_all add: RelayerFeeWei_def demo_signed_laws k demo_relay_state_def demo_relay_run)
  then show ?thesis using req by (auto simp: demo_relay_state_def demo_relay_run)
qed

end
