(* ===== verification/Net_Host.thy ===== *)
theory Net_Host
  imports Demo_Backend
begin

text \<open>
  The peer-to-peer host: the messages of \<open>net/message\<close> with their encoding, and the swap-specific network
  layer of package \<open>net\<close>. The library below it (go-p2p-net over libp2p) is a record of operations over the
  outside world; the JSON codec of each message type is a parameter; the maker, the relay backend and the
  swaps, which the host calls back, are computations over the host's state, since they use the host in
  turn. A stream is a number. The lists of actions in the field \<open>net_acts\<close>, newest first, are not read by
  any modelled function.
\<close>

section \<open>Messages (package message)\<close>

datatype wire =
    QueryResponse "Offer list"
  | RelayerQueryResponse bytes
  | RelayClaimRequest_msg RelayClaimRequest
  | RelayClaimResponse hash
  | SendKeysMessage_msg SendKeysMessage
  | NotifyETHLocked_msg NotifyETHLocked

definition QueryResponseType :: byte where "QueryResponseType = 1"
definition RelayerQueryResponseType :: byte where "RelayerQueryResponseType = 2"
definition RelayClaimRequestType :: byte where "RelayClaimRequestType = 3"
definition RelayClaimResponseType :: byte where "RelayClaimResponseType = 4"
definition SendKeysType :: byte where "SendKeysType = 5"
definition NotifyETHLockedType :: byte where "NotifyETHLockedType = 6"

lemmas message_types = QueryResponseType_def RelayerQueryResponseType_def RelayClaimRequestType_def
  RelayClaimResponseType_def SendKeysType_def NotifyETHLockedType_def

definition TypeToString :: "byte \<Rightarrow> string" where
  "TypeToString t =
     (if t = QueryResponseType then ''QueryResponse''
      else if t = SendKeysType then ''SendKeysMessage''
      else if t = NotifyETHLockedType then ''NotifyETHLocked''
      else if t = RelayerQueryResponseType then ''RelayerQueryResponseType''
      else if t = RelayClaimRequestType then ''RelayClaimRequestType''
      else if t = RelayClaimResponseType then ''RelayClaimResponse''
      else ''Unknown('' @ show_nat (unat t) @ '')'')"

text \<open>\<open>msg.Type()\<close>.\<close>

primrec wire_Type :: "wire \<Rightarrow> byte" where
  "wire_Type (QueryResponse os) = QueryResponseType"
| "wire_Type (RelayerQueryResponse h) = RelayerQueryResponseType"
| "wire_Type (RelayClaimRequest_msg r) = RelayClaimRequestType"
| "wire_Type (RelayClaimResponse h) = RelayClaimResponseType"
| "wire_Type (SendKeysMessage_msg m) = SendKeysType"
| "wire_Type (NotifyETHLocked_msg m) = NotifyETHLockedType"

record wire_codecs =
  wc_query :: "Offer list codec"
  wc_relayer :: "bytes codec"
  wc_request :: "RelayClaimRequest codec"
  wc_response :: "hash codec"
  wc_keys :: "SendKeysMessage codec"
  wc_locked :: "NotifyETHLocked codec"

definition typed :: "byte \<Rightarrow> bytes result \<Rightarrow> bytes result" where
  "typed t r = (case r of Inl e \<Rightarrow> Inl e | Inr b \<Rightarrow> Inr (t # b))"

definition QueryResponse_Encode :: "wire_codecs \<Rightarrow> Offer list \<Rightarrow> bytes result" where
  "QueryResponse_Encode W m = typed QueryResponseType (MarshalStruct (wc_query W) m)"

definition RelayerQueryResponse_Encode :: "wire_codecs \<Rightarrow> bytes \<Rightarrow> bytes result" where
  "RelayerQueryResponse_Encode W m = typed RelayerQueryResponseType (MarshalStruct (wc_relayer W) m)"

definition RelayClaimRequest_Encode :: "wire_codecs \<Rightarrow> RelayClaimRequest \<Rightarrow> bytes result" where
  "RelayClaimRequest_Encode W m = typed RelayClaimRequestType (MarshalStruct (wc_request W) m)"

definition RelayClaimResponse_Encode :: "wire_codecs \<Rightarrow> hash \<Rightarrow> bytes result" where
  "RelayClaimResponse_Encode W m = typed RelayClaimResponseType (MarshalStruct (wc_response W) m)"

definition SendKeysMessage_Encode :: "wire_codecs \<Rightarrow> SendKeysMessage \<Rightarrow> bytes result" where
  "SendKeysMessage_Encode W m = typed SendKeysType (MarshalStruct (wc_keys W) m)"

definition NotifyETHLocked_Encode :: "wire_codecs \<Rightarrow> NotifyETHLocked \<Rightarrow> bytes result" where
  "NotifyETHLocked_Encode W m = typed NotifyETHLockedType (MarshalStruct (wc_locked W) m)"

lemmas encode_defs = QueryResponse_Encode_def RelayerQueryResponse_Encode_def RelayClaimRequest_Encode_def
  RelayClaimResponse_Encode_def SendKeysMessage_Encode_def NotifyETHLocked_Encode_def typed_def

text \<open>\<open>msg.Encode()\<close>: the method of the message's type.\<close>

primrec wire_Encode :: "wire_codecs \<Rightarrow> wire \<Rightarrow> bytes result" where
  "wire_Encode W (QueryResponse m) = QueryResponse_Encode W m"
| "wire_Encode W (RelayerQueryResponse m) = RelayerQueryResponse_Encode W m"
| "wire_Encode W (RelayClaimRequest_msg m) = RelayClaimRequest_Encode W m"
| "wire_Encode W (RelayClaimResponse m) = RelayClaimResponse_Encode W m"
| "wire_Encode W (SendKeysMessage_msg m) = SendKeysMessage_Encode W m"
| "wire_Encode W (NotifyETHLocked_msg m) = NotifyETHLocked_Encode W m"

definition decode_as :: "('a \<Rightarrow> wire) \<Rightarrow> 'a codec \<Rightarrow> byte \<Rightarrow> bytes \<Rightarrow> wire result" where
  "decode_as f J t b = (case UnmarshalStruct J b of
     Inl e \<Rightarrow> Inl (Wrapf (''failed to decode '' @ TypeToString t @ '' message: '') e []) | Inr m \<Rightarrow> Inr (f m))"

definition DecodeMessage :: "wire_codecs \<Rightarrow> bytes \<Rightarrow> wire result" where
  "DecodeMessage W b =
     (if length b < 3 then Inl (Errorf ''invalid message bytes'')
      else
        let msgType = hd b; msgJSON = tl b in
        if msgType = QueryResponseType then decode_as QueryResponse (wc_query W) msgType msgJSON
        else if msgType = RelayerQueryResponseType then decode_as RelayerQueryResponse (wc_relayer W) msgType msgJSON
        else if msgType = RelayClaimRequestType then decode_as RelayClaimRequest_msg (wc_request W) msgType msgJSON
        else if msgType = RelayClaimResponseType then decode_as RelayClaimResponse (wc_response W) msgType msgJSON
        else if msgType = SendKeysType then decode_as SendKeysMessage_msg (wc_keys W) msgType msgJSON
        else if msgType = NotifyETHLockedType then decode_as NotifyETHLocked_msg (wc_locked W) msgType msgJSON
        else Inl (Errorf (''invalid message type='' @ show_nat (unat msgType))))"

section \<open>The host's state\<close>

text \<open>
  \<open>swapState\<close> is nil until the maker has answered an initiation.
\<close>

record 'ss net_swap =
  swapState :: "'ss option"
  swap_stream :: nat
  streamClosed :: bool

datatype net_act =
    Stream_Opened nat
  | Stream_Closed nat
  | Stream_Written nat wire
  | Maker_Initiated string hash
  | Message_Handled wire
  | Stream_Notified

record ('w, 'ss) nethost =
  hw :: 'w
  isRelayer :: bool
  isBootnode :: bool
  makerHandler_set :: bool
  relayHandler_set :: bool
  net_swaps :: "hash \<rightharpoonup> 'ss net_swap"
  net_acts :: "net_act list"

text \<open>
  go-p2p-net: \<open>p2p_TimedOut st d\<close> tells whether the wait for the next message on a stream runs into the
  given timeout.
\<close>

record 'w p2p =
  p2p_Connected :: "'w \<Rightarrow> string \<Rightarrow> bool"
  p2p_Connect :: "string \<Rightarrow> ('w, unit) go"
  p2p_NewStream :: "string \<Rightarrow> string \<Rightarrow> ('w, nat) go"
  p2p_ReadStreamMessage :: "nat \<Rightarrow> nat \<Rightarrow> ('w, bytes) go"
  p2p_WriteStreamMessage :: "nat \<Rightarrow> bytes result \<Rightarrow> string \<Rightarrow> ('w, unit) go"
  p2p_CloseStream :: "nat \<Rightarrow> ('w, unit) go"
  p2p_RemotePeer :: "nat \<Rightarrow> string"
  p2p_TimedOut :: "'w \<Rightarrow> nat \<Rightarrow> int \<Rightarrow> bool"
  p2p_Discover :: "string \<Rightarrow> int \<Rightarrow> ('w, string list) go"
  p2p_Start :: "('w, unit) go"

record ('w, 'ss) handlers =
  mh_GetOffers :: "(('w, 'ss) nethost, Offer list) go"
  mh_HandleInitiateMessage :: "string \<Rightarrow> SendKeysMessage \<Rightarrow> (('w, 'ss) nethost, 'ss) go"
  ss_OfferID :: "'ss \<Rightarrow> hash"
  ss_HandleProtocolMessage :: "'ss \<Rightarrow> wire \<Rightarrow> (('w, 'ss) nethost, unit) go"
  ss_NotifyStreamClosed :: "'ss \<Rightarrow> (('w, 'ss) nethost, unit) go"
  rh_GetRelayerAddressHash :: "(('w, 'ss) nethost, hash) go"
  rh_HandleRelayClaimRequest :: "string \<Rightarrow> RelayClaimRequest \<Rightarrow> (('w, 'ss) nethost, hash) go"
  rh_HasOngoingSwapAsTaker :: "string \<Rightarrow> (('w, 'ss) nethost, unit) go"

record ('w, 'ss) netenv =
  ne_p2p :: "'w p2p"
  ne_codecs :: wire_codecs
  ne_handlers :: "('w, 'ss) handlers"

definition on_p2p :: "('w, 'a) go \<Rightarrow> (('w, 'ss) nethost, 'a) go" where
  "on_p2p f = (\<lambda>h. case f (hw h) of (r, w) \<Rightarrow> (r, h\<lparr>hw := w\<rparr>))"

definition act :: "net_act \<Rightarrow> (('w, 'ss) nethost, unit) go" where
  "act a = modify (\<lambda>h. h\<lparr>net_acts := a # net_acts h\<rparr>)"

definition errBootnodeCannotRelay :: goerr where
  "errBootnodeCannotRelay = Sentinel ''errBootnodeCannotRelay'' ''bootnode cannot be a relayer''"

definition errNilHandler :: goerr where
  "errNilHandler = Sentinel ''errNilHandler'' ''handler is nil''"

definition net_errNoOngoingSwap :: goerr where
  "net_errNoOngoingSwap = Sentinel ''errNoOngoingSwap'' ''no swap currently happening''"

definition errSwapAlreadyInProgress :: goerr where
  "errSwapAlreadyInProgress = Sentinel ''errSwapAlreadyInProgress'' ''swap is already in progress''"

definition maxMessageSize :: nat where "maxMessageSize = 2 ^ 17"
definition maxRelayMessageSize :: nat where "maxRelayMessageSize = 2048"
definition p2pAPIVersion :: nat where "p2pAPIVersion = 2"

section \<open>Streams\<close>

text \<open>\<open>_ = stream.Close()\<close>, \<open>h.h.NewStream(ctx, who, protocol)\<close> and \<open>p2pnet.WriteStreamMessage(stream, msg, peer)\<close>.\<close>

definition close_stream :: "('w, 'ss) netenv \<Rightarrow> nat \<Rightarrow> (('w, 'ss) nethost, unit) go" where
  "close_stream V st = andthen (act (Stream_Closed st)) (ignore_err (on_p2p (p2p_CloseStream (ne_p2p V) st)))"

definition new_stream :: "('w, 'ss) netenv \<Rightarrow> string \<Rightarrow> string \<Rightarrow> (('w, 'ss) nethost, nat) go" where
  "new_stream V who protocol =
     bnd (wrapping ''failed to open stream with peer: err='' [] (on_p2p (p2p_NewStream (ne_p2p V) who protocol))) (\<lambda>st.
     andthen (act (Stream_Opened st)) (ret st))"

definition write_stream :: "('w, 'ss) netenv \<Rightarrow> nat \<Rightarrow> wire \<Rightarrow> string \<Rightarrow> (('w, 'ss) nethost, unit) go" where
  "write_stream V st m peer =
     andthen (act (Stream_Written st m))
       (on_p2p (p2p_WriteStreamMessage (ne_p2p V) st (wire_Encode (ne_codecs V) m) peer))"

definition readStreamMessage :: "('w, 'ss) netenv \<Rightarrow> nat \<Rightarrow> nat \<Rightarrow> (('w, 'ss) nethost, wire) go" where
  "readStreamMessage V st sz =
     bnd (on_p2p (p2p_ReadStreamMessage (ne_p2p V) st sz)) (\<lambda>msgBytes.
     lift (of_result (DecodeMessage (ne_codecs V) msgBytes)))"

text \<open>
  \<open>nextStreamMessage\<close> raced with a timer: \<open>None\<close> when the timer wins, \<open>Some None\<close> for the nil message of the
  closed channel.
\<close>

definition nextStreamMessage :: "('w, 'ss) netenv \<Rightarrow> nat \<Rightarrow> nat \<Rightarrow> int \<Rightarrow> (('w, 'ss) nethost, wire option option) go" where
  "nextStreamMessage V st sz timeout =
     bnd (gets (\<lambda>h. p2p_TimedOut (ne_p2p V) (hw h) st timeout)) (\<lambda>late.
     if late then ret None
     else bnd (attempt (readStreamMessage V st sz)) (\<lambda>r. case r of
         Inl e \<Rightarrow> ret (Some None) | Inr m \<Rightarrow> ret (Some (Some m))))"

section \<open>Host operations (host.go)\<close>

definition ChainNameFromEnv :: "Environment \<Rightarrow> string outcome" where
  "ChainNameFromEnv env = (case env of
     Development \<Rightarrow> Ok ''ganache'' | Stagenet \<Rightarrow> Ok ''sepolia'' | Mainnet \<Rightarrow> Ok ''mainnet'' | Bootnode \<Rightarrow> Ok ''bootnode''
   | _ \<Rightarrow> Panic ''invalid environment'')"

definition ChainProtocolID :: "Environment \<Rightarrow> string outcome" where
  "ChainProtocolID env = obind (ChainNameFromEnv env) (\<lambda>name. Ok (''/atomic-swap/'' @ name @ ''/'' @ show_nat p2pAPIVersion))"

text \<open>The library's own constructor is a parameter: it gets the protocol identifier.\<close>

definition NewHost :: "(string \<Rightarrow> 'w result) \<Rightarrow> Environment \<Rightarrow> bool \<Rightarrow> ('w, 'ss) nethost outcome" where
  "NewHost p2pnet_NewHost env relay =
     (if env = Bootnode \<and> relay then Err errBootnodeCannotRelay
      else obind (ChainProtocolID env) (\<lambda>protocolID.
           obind (of_result (p2pnet_NewHost protocolID)) (\<lambda>w.
           Ok \<lparr>hw = w, isRelayer = relay, isBootnode = (env = Bootnode), makerHandler_set = False,
              relayHandler_set = False, net_swaps = Map.empty, net_acts = []\<rparr>)))"

definition advertisedNamespaces :: "('w, 'ss) netenv \<Rightarrow> (('w, 'ss) nethost, string list) go" where
  "advertisedNamespaces V =
     bnd (gets id) (\<lambda>h.
     bnd (if isBootnode h then ret []
          else if \<not> makerHandler_set h then panic ''nil pointer dereference''
          else mh_GetOffers (ne_handlers V)) (\<lambda>os.
     ret ([[]] @ (if \<not> isBootnode h \<and> os \<noteq> [] then [''XMR''] else []) @
        (if \<not> isBootnode h \<and> isRelayer h then [''relayer''] else []))))"

definition SetHandlers :: "(('w, 'ss) nethost, unit) go" where
  "SetHandlers = modify (\<lambda>h. h\<lparr>makerHandler_set := True, relayHandler_set := True\<rparr>)"

definition Host_Start :: "('w, 'ss) netenv \<Rightarrow> (('w, 'ss) nethost, unit) go" where
  "Host_Start V =
     bnd (gets (\<lambda>h. (\<not> makerHandler_set h \<or> \<not> relayHandler_set h) \<and> \<not> isBootnode h)) (\<lambda>b.
     if b then fail errNilHandler else on_p2p (p2p_Start (ne_p2p V)))"

definition SendSwapMessage :: "('w, 'ss) netenv \<Rightarrow> wire \<Rightarrow> hash \<Rightarrow> (('w, 'ss) nethost, unit) go" where
  "SendSwapMessage V m i =
     bnd (gets (\<lambda>h. net_swaps h i)) (\<lambda>sw. case sw of
       None \<Rightarrow> fail net_errNoOngoingSwap
     | Some sw \<Rightarrow> write_stream V (swap_stream sw) m (p2p_RemotePeer (ne_p2p V) (swap_stream sw)))"

definition CloseProtocolStream :: "('w, 'ss) netenv \<Rightarrow> hash \<Rightarrow> (('w, 'ss) nethost, unit) go" where
  "CloseProtocolStream V i =
     bnd (gets (\<lambda>h. net_swaps h i)) (\<lambda>sw. case sw of
       None \<Rightarrow> ret ()
     | Some sw \<Rightarrow>
         if streamClosed sw then ret ()
         else andthen (modify (\<lambda>h. h\<lparr>net_swaps := (net_swaps h)(i \<mapsto> sw\<lparr>streamClosed := True\<rparr>)\<rparr>))
                (close_stream V (swap_stream sw)))"

definition DeleteOngoingSwap :: "hash \<Rightarrow> (('w, 'ss) nethost, unit) go" where
  "DeleteOngoingSwap i =
     bnd (gets (\<lambda>h. net_swaps h i)) (\<lambda>sw. case sw of
       None \<Rightarrow> ret ()
     | Some _ \<Rightarrow> modify (\<lambda>h. h\<lparr>net_swaps := (net_swaps h)(i := None)\<rparr>))"

section \<open>The swap protocol (initiate.go)\<close>

definition handleProtocolStreamClose :: "('w, 'ss) netenv \<Rightarrow> nat \<Rightarrow> 'ss \<Rightarrow> (('w, 'ss) nethost, unit) go" where
  "handleProtocolStreamClose V st s =
     andthen (close_stream V st) (andthen (act Stream_Notified) (ss_NotifyStreamClosed (ne_handlers V) s))"

text \<open>The loop reads until an error; its argument is the number of messages, after which it waits.\<close>

primrec read_loop :: "('w, 'ss) netenv \<Rightarrow> nat \<Rightarrow> 'ss \<Rightarrow> nat \<Rightarrow> (('w, 'ss) nethost, unit) go" where
  "read_loop V st s 0 = block"
| "read_loop V st s (Suc n) =
     bnd (attempt (readStreamMessage V st maxMessageSize)) (\<lambda>r. case r of
       Inl e \<Rightarrow> ret ()
     | Inr m \<Rightarrow>
         andthen (act (Message_Handled m))
         (bnd (attempt (ss_HandleProtocolMessage (ne_handlers V) s m)) (\<lambda>r. case r of
            Inl e \<Rightarrow> ret () | Inr _ \<Rightarrow> read_loop V st s n)))"

definition handleProtocolStreamInner :: "('w, 'ss) netenv \<Rightarrow> nat \<Rightarrow> 'ss \<Rightarrow> nat \<Rightarrow> (('w, 'ss) nethost, unit) go" where
  "handleProtocolStreamInner V st s n = deferred (read_loop V st s n) (handleProtocolStreamClose V st s)"

definition receiveInitiateResponse :: "('w, 'ss) netenv \<Rightarrow> nat \<Rightarrow> 'ss \<Rightarrow> nat \<Rightarrow> (('w, 'ss) nethost, unit) go" where
  "receiveInitiateResponse V st s n =
     deferred
       (bnd (nextStreamMessage V st maxMessageSize 60000000000) (\<lambda>r. case r of
          None \<Rightarrow> ret ()
        | Some None \<Rightarrow> ret ()
        | Some (Some m) \<Rightarrow>
            andthen (act (Message_Handled m))
            (bnd (attempt (ss_HandleProtocolMessage (ne_handlers V) s m)) (\<lambda>r. case r of
               Inl e \<Rightarrow> ret () | Inr _ \<Rightarrow> handleProtocolStreamInner V st s n))))
       (handleProtocolStreamClose V st s)"

text \<open>
  \<open>Initiate\<close> returns the stream on which \<open>receiveInitiateResponse\<close> then runs as a goroutine.
\<close>

definition Initiate :: "('w, 'ss) netenv \<Rightarrow> string \<Rightarrow> wire \<Rightarrow> 'ss \<Rightarrow> (('w, 'ss) nethost, nat) go" where
  "Initiate V who sendKeysMessage s =
     (let i = ss_OfferID (ne_handlers V) s in
      bnd (gets (\<lambda>h. net_swaps h i)) (\<lambda>sw.
      if sw \<noteq> None then fail errSwapAlreadyInProgress
      else
        bnd (gets (\<lambda>h. p2p_Connected (ne_p2p V) (hw h) who)) (\<lambda>con.
        andthen (if con then ret () else on_p2p (p2p_Connect (ne_p2p V) who))
        (bnd (new_stream V who ''/swap'') (\<lambda>st.
         andthen (write_stream V st sendKeysMessage who)
         (andthen (modify (\<lambda>h. h\<lparr>net_swaps := (net_swaps h)(i \<mapsto> \<lparr>swapState = Some s, swap_stream = st, streamClosed = False\<rparr>)\<rparr>))
          (ret st)))))))"

definition handleProtocolStream :: "('w, 'ss) netenv \<Rightarrow> nat \<Rightarrow> nat \<Rightarrow> (('w, 'ss) nethost, unit) go" where
  "handleProtocolStream V st n =
     bnd (gets makerHandler_set) (\<lambda>set_up.
     if \<not> set_up then close_stream V st
     else
       bnd (attempt (readStreamMessage V st maxMessageSize)) (\<lambda>r. case r of
         Inl e \<Rightarrow> close_stream V st
       | Inr (SendKeysMessage_msg im) \<Rightarrow>
           (let curPeer = p2p_RemotePeer (ne_p2p V) st; i = SK_OfferID im in
            bnd (gets (\<lambda>h. net_swaps h i)) (\<lambda>sw.
            if sw \<noteq> None then close_stream V st
            else
              andthen (modify (\<lambda>h. h\<lparr>net_swaps := (net_swaps h)(i \<mapsto> \<lparr>swapState = None, swap_stream = st, streamClosed = False\<rparr>)\<rparr>))
              (andthen (act (Maker_Initiated curPeer i))
              (bnd (attempt (mh_HandleInitiateMessage (ne_handlers V) curPeer im)) (\<lambda>r. case r of
                 Inl e \<Rightarrow> andthen (close_stream V st) (modify (\<lambda>h. h\<lparr>net_swaps := (net_swaps h)(i := None)\<rparr>))
               | Inr s \<Rightarrow>
                   bnd (gets (\<lambda>h. net_swaps h i)) (\<lambda>sw. case sw of
                     None \<Rightarrow> panic ''nil pointer dereference''
                   | Some sw \<Rightarrow>
                       andthen (modify (\<lambda>h. h\<lparr>net_swaps := (net_swaps h)(i \<mapsto> sw\<lparr>swapState := Some s\<rparr>)\<rparr>))
                         (handleProtocolStreamInner V st s n)))))))
       | Inr _ \<Rightarrow> close_stream V st))"

section \<open>Queries (query.go) and relaying (relay.go)\<close>

definition handleQueryStream :: "('w, 'ss) netenv \<Rightarrow> nat \<Rightarrow> (('w, 'ss) nethost, unit) go" where
  "handleQueryStream V st =
     deferred
       (bnd (mh_GetOffers (ne_handlers V)) (\<lambda>os.
        ignore_err (write_stream V st (QueryResponse os) (p2p_RemotePeer (ne_p2p V) st))))
       (close_stream V st)"

text \<open>Reading one answer of the expected type: the shared part of the three \<open>receive\<close> functions.\<close>

definition expect :: "('w, 'ss) netenv \<Rightarrow> nat \<Rightarrow> nat \<Rightarrow> int \<Rightarrow> string \<Rightarrow> (wire \<Rightarrow> 'a option) \<Rightarrow> (('w, 'ss) nethost, 'a) go" where
  "expect V st sz timeout what f =
     bnd (nextStreamMessage V st sz timeout) (\<lambda>r. case r of
       None \<Rightarrow> fail (Errorf ''timed out waiting for QueryResponse'')
     | Some None \<Rightarrow> fail (Errorf (''failed to read '' @ what))
     | Some (Some m) \<Rightarrow> (case f m of
           None \<Rightarrow> fail (Errorf ''expected %s message but received %s'') | Some x \<Rightarrow> ret x))"

definition receiveQueryResponse :: "('w, 'ss) netenv \<Rightarrow> nat \<Rightarrow> (('w, 'ss) nethost, Offer list) go" where
  "receiveQueryResponse V st =
     expect V st maxMessageSize 15000000000 ''QueryResponse'' (\<lambda>m. case m of QueryResponse os \<Rightarrow> Some os | _ \<Rightarrow> None)"

definition dial :: "('w, 'ss) netenv \<Rightarrow> string \<Rightarrow> string \<Rightarrow> (('w, 'ss) nethost, nat) go" where
  "dial V who protocol =
     andthen (on_p2p (p2p_Connect (ne_p2p V) who)) (new_stream V who protocol)"

definition Query :: "('w, 'ss) netenv \<Rightarrow> string \<Rightarrow> (('w, 'ss) nethost, Offer list) go" where
  "Query V who =
     bnd (dial V who ''/query'') (\<lambda>st. deferred (receiveQueryResponse V st) (close_stream V st))"

definition DiscoverRelayers :: "('w, 'ss) netenv \<Rightarrow> (('w, 'ss) nethost, string list) go" where
  "DiscoverRelayers V = on_p2p (p2p_Discover (ne_p2p V) ''relayer'' 3000000000)"

definition handleRelayerQueryStream :: "('w, 'ss) netenv \<Rightarrow> nat \<Rightarrow> (('w, 'ss) nethost, unit) go" where
  "handleRelayerQueryStream V st =
     deferred
       (bnd (gets isRelayer) (\<lambda>rel.
        bnd (if rel then ret (Inr ())
             else attempt (rh_HasOngoingSwapAsTaker (ne_handlers V) (p2p_RemotePeer (ne_p2p V) st))) (\<lambda>allowed. case allowed of
          Inl e \<Rightarrow> ret ()
        | Inr _ \<Rightarrow>
            bnd (attempt (rh_GetRelayerAddressHash (ne_handlers V))) (\<lambda>r. case r of
              Inl e \<Rightarrow> ret ()
            | Inr addressHash \<Rightarrow>
                ignore_err (write_stream V st (RelayerQueryResponse (hash_bytes addressHash)) (p2p_RemotePeer (ne_p2p V) st))))))
       (close_stream V st)"

definition receiveRelayerQueryResponse :: "('w, 'ss) netenv \<Rightarrow> nat \<Rightarrow> (('w, 'ss) nethost, hash) go" where
  "receiveRelayerQueryResponse V st =
     bnd (expect V st maxRelayMessageSize 15000000000 ''RelayerQueryResponse''
       (\<lambda>m. case m of RelayerQueryResponse b \<Rightarrow> Some b | _ \<Rightarrow> None)) (\<lambda>b.
     if length b < 32 then panic ''cannot convert slice to array'' else ret (bytes_hash (take 32 b)))"

definition QueryRelayerAddress :: "('w, 'ss) netenv \<Rightarrow> string \<Rightarrow> (('w, 'ss) nethost, hash) go" where
  "QueryRelayerAddress V relayerID =
     bnd (dial V relayerID ''/relayerquery'') (\<lambda>st. receiveRelayerQueryResponse V st)"

definition handleRelayStream :: "('w, 'ss) netenv \<Rightarrow> nat \<Rightarrow> (('w, 'ss) nethost, unit) go" where
  "handleRelayStream V st =
     deferred
       (bnd (attempt (readStreamMessage V st maxRelayMessageSize)) (\<lambda>r. case r of
          Inr (RelayClaimRequest_msg req) \<Rightarrow>
            (let curPeer = p2p_RemotePeer (ne_p2p V) st in
             bnd (gets isRelayer) (\<lambda>rel.
             if RC_OfferID req = None \<and> \<not> rel then ret ()
             else
               bnd (attempt (rh_HandleRelayClaimRequest (ne_handlers V) curPeer req)) (\<lambda>r. case r of
                 Inl e \<Rightarrow> ret ()
               | Inr txHash \<Rightarrow> ignore_err (write_stream V st (RelayClaimResponse txHash) curPeer))))
        | _ \<Rightarrow> ret ()))
       (close_stream V st)"

definition receiveRelayClaimResponse :: "('w, 'ss) netenv \<Rightarrow> nat \<Rightarrow> (('w, 'ss) nethost, hash) go" where
  "receiveRelayClaimResponse V st =
     expect V st maxMessageSize 60000000000 ''RelayClaimResponse'' (\<lambda>m. case m of RelayClaimResponse h \<Rightarrow> Some h | _ \<Rightarrow> None)"

definition SubmitRelayRequest :: "('w, 'ss) netenv \<Rightarrow> string \<Rightarrow> RelayClaimRequest \<Rightarrow> (('w, 'ss) nethost, hash) go" where
  "SubmitRelayRequest V relayerID request =
     bnd (dial V relayerID ''/relay'') (\<lambda>st.
     deferred
       (andthen (write_stream V st (RelayClaimRequest_msg request) relayerID) (receiveRelayClaimResponse V st))
       (close_stream V st))"

section \<open>Messages survive the wire\<close>

text \<open>
  What is relied on of the JSON codec at a message: its text has at least two characters and decodes to the
  message again.
\<close>

definition codec_at :: "'v codec \<Rightarrow> 'v \<Rightarrow> bool" where
  "codec_at J v \<longleftrightarrow> (case json_Marshal J v of Inl e \<Rightarrow> True | Inr b \<Rightarrow> 2 \<le> length b \<and> json_Unmarshal J b = Inr v)"

primrec wire_faithful :: "wire_codecs \<Rightarrow> wire \<Rightarrow> bool" where
  "wire_faithful W (QueryResponse m) = codec_at (wc_query W) m"
| "wire_faithful W (RelayerQueryResponse m) = codec_at (wc_relayer W) m"
| "wire_faithful W (RelayClaimRequest_msg m) = codec_at (wc_request W) m"
| "wire_faithful W (RelayClaimResponse m) = codec_at (wc_response W) m"
| "wire_faithful W (SendKeysMessage_msg m) = codec_at (wc_keys W) m"
| "wire_faithful W (NotifyETHLocked_msg m) = codec_at (wc_locked W) m"

lemma codec_at_roundtrip:
  assumes "codec_at J m" and "typed t (MarshalStruct J m) = Inr b"
  shows "3 \<le> length b \<and> hd b = t \<and> decode_as f J u (tl b) = Inr (f m)"
  using assms by (auto simp: codec_at_def typed_def decode_as_def MarshalStruct_def UnmarshalStruct_def
      split: option.splits sum.splits)

text \<open>Every message a peer encodes is decoded by the other side to the same message, with the type byte of its kind in front.\<close>

lemma message_roundtrip:
  assumes "wire_faithful W m" and "wire_Encode W m = Inr b"
  shows "DecodeMessage W b = Inr m \<and> hd b = wire_Type m"
proof (cases m)
  case (QueryResponse x)
  with assms codec_at_roundtrip [of "wc_query W" x QueryResponseType b] show ?thesis
    by (simp add: DecodeMessage_def Let_def not_less encode_defs(1) message_types)
next
  case (RelayerQueryResponse x)
  with assms codec_at_roundtrip [of "wc_relayer W" x RelayerQueryResponseType b] show ?thesis
    by (simp add: DecodeMessage_def Let_def not_less encode_defs(2) message_types)
next
  case (RelayClaimRequest_msg x)
  with assms codec_at_roundtrip [of "wc_request W" x RelayClaimRequestType b] show ?thesis
    by (simp add: DecodeMessage_def Let_def not_less encode_defs(3) message_types)
next
  case (RelayClaimResponse x)
  with assms codec_at_roundtrip [of "wc_response W" x RelayClaimResponseType b] show ?thesis
    by (simp add: DecodeMessage_def Let_def not_less encode_defs(4) message_types)
next
  case (SendKeysMessage_msg x)
  with assms codec_at_roundtrip [of "wc_keys W" x SendKeysType b] show ?thesis
    by (simp add: DecodeMessage_def Let_def not_less encode_defs(5) message_types)
next
  case (NotifyETHLocked_msg x)
  with assms codec_at_roundtrip [of "wc_locked W" x NotifyETHLockedType b] show ?thesis
    by (simp add: DecodeMessage_def Let_def not_less encode_defs(6) message_types)
qed

text \<open>A codec for the bytes of an address hash and one that knows a single initiation; the other types have none.\<close>

definition no_codec :: "'v codec" where
  "no_codec = \<lparr>validate_Struct = (\<lambda>v. Some (Errorf ''required'')), json_Marshal = (\<lambda>v. Inl (Errorf ''unsupported'')),
     json_Unmarshal = (\<lambda>b. Inl (Errorf ''unsupported''))\<rparr>"

definition bytes_codec :: "bytes codec" where
  "bytes_codec = \<lparr>validate_Struct = (\<lambda>b. if length b = 32 then None else Some (Errorf ''len'')),
     json_Marshal = Inr, json_Unmarshal = Inr\<rparr>"

definition keys_codec :: "SendKeysMessage codec" where
  "keys_codec = \<lparr>validate_Struct = (\<lambda>m. None), json_Marshal = (\<lambda>m. Inr [123, 125]), json_Unmarshal = (\<lambda>b. Inr demo_keys_msg)\<rparr>"

definition demo_wire :: wire_codecs where
  "demo_wire = \<lparr>wc_query = no_codec, wc_relayer = bytes_codec, wc_request = no_codec, wc_response = no_codec,
     wc_keys = keys_codec, wc_locked = no_codec\<rparr>"

lemma message_roundtrip_example:
  "DecodeMessage demo_wire (2 # replicate 32 7) = Inr (RelayerQueryResponse (replicate 32 7)) \<and>
   hd (2 # replicate 32 (7 :: byte)) = wire_Type (RelayerQueryResponse (replicate 32 7))"
  by (rule message_roundtrip)
    (simp_all add: demo_wire_def bytes_codec_def codec_at_def encode_defs MarshalStruct_def message_types)

section \<open>Streams are closed\<close>

definition returned_closed :: "nat \<Rightarrow> 'a outcome \<Rightarrow> ('w, 'ss) nethost \<Rightarrow> bool" where
  "returned_closed st r h \<longleftrightarrow> (case r of Panic p \<Rightarrow> True | Block \<Rightarrow> True | _ \<Rightarrow> Stream_Closed st \<in> set (net_acts h))"

definition closes :: "nat \<Rightarrow> (('w, 'ss) nethost, 'a) go \<Rightarrow> bool" where
  "closes st m \<longleftrightarrow> (\<forall>h. wp m (returned_closed st) h)"

text \<open>The computations that never return an error.\<close>

definition no_err :: "(('w, 'ss) nethost, 'a) go \<Rightarrow> bool" where
  "no_err m \<longleftrightarrow> (\<forall>h. wp m (\<lambda>r h'. case r of Err e \<Rightarrow> False | _ \<Rightarrow> True) h)"

named_theorems closes_rules

lemma no_err_basic [closes_rules]: "no_err (ret x)" "no_err (gets f)" "no_err (modify g)" "no_err (act a)" "no_err (attempt m)"
  by (simp_all add: no_err_def act_def wp_rules)
    (auto simp: wp_def attempt_def split: prod.splits outcome.splits)

lemma no_err_if [closes_rules]: "no_err m \<Longrightarrow> no_err n \<Longrightarrow> no_err (if b then m else n)"
  by simp

lemma closes_close_stream [closes_rules]: "closes st (close_stream V st)"
  by (auto simp: closes_def close_stream_def act_def on_p2p_def ignore_err_def wp_def bnd_def modify_def attempt_def
      ret_def returned_closed_def split: prod.splits outcome.splits)

lemma closes_bnd [closes_rules]: "no_err m \<Longrightarrow> (\<And>x. closes st (k x)) \<Longrightarrow> closes st (bnd m k)"
  by (fastforce simp: closes_def no_err_def wp_def bnd_def returned_closed_def split: prod.splits outcome.splits)

lemma closes_deferred [closes_rules]: "closes st d \<Longrightarrow> closes st (deferred m d)"
  by (fastforce simp: closes_def wp_def deferred_def returned_closed_def split: prod.splits outcome.splits)

lemma closes_if [closes_rules]: "closes st m \<Longrightarrow> closes st n \<Longrightarrow> closes st (if b then m else n)"
  by simp

lemma closes_panic [closes_rules]: "closes st (panic p)"
  by (simp add: closes_def wp_rules returned_closed_def)

lemma closes_then:
  assumes "closes st m" and "\<And>x. keeps (\<lambda>h. Stream_Closed st \<in> set (net_acts h)) (k x)"
  shows "closes st (bnd m k)"
proof -
  have "returned_closed st r h'" if "bnd m k h = (r, h')" for h r h'
    using assms(1) that keepsD [OF assms(2)]
    by (fastforce simp: closes_def wp_def bnd_def returned_closed_def split: prod.splits outcome.splits)
  then show ?thesis by (auto simp: closes_def wp_def split: prod.split)
qed


text \<open>What the code relies on of the swaps: the notification leaves the log of the host's actions.\<close>

definition notify_logs :: "('w, 'ss) netenv \<Rightarrow> bool" where
  "notify_logs V \<longleftrightarrow> (\<forall>s a. keeps (\<lambda>h. a \<in> set (net_acts h)) (ss_NotifyStreamClosed (ne_handlers V) s))"

lemma keeps_on_p2p [keeps_rules]: "(\<And>h w. I h \<Longrightarrow> I (h\<lparr>hw := w\<rparr>)) \<Longrightarrow> keeps I (on_p2p f)"
  by (auto simp: keeps_def on_p2p_def split: prod.split)

lemma keeps_act [keeps_rules]: "(\<And>h. I h \<Longrightarrow> I (h\<lparr>net_acts := a # net_acts h\<rparr>)) \<Longrightarrow> keeps I (act a)"
  unfolding act_def by (rule keeps_modify)

lemma handleProtocolStreamClose_closes:
  "notify_logs V \<Longrightarrow> closes st (handleProtocolStreamClose V st s)"
  unfolding handleProtocolStreamClose_def notify_logs_def
  by (rule closes_then) (auto intro!: closes_rules keeps_rules)

lemma handleProtocolStreamInner_closes:
  "notify_logs V \<Longrightarrow> closes st (handleProtocolStreamInner V st s n)"
  by (simp add: handleProtocolStreamInner_def closes_deferred handleProtocolStreamClose_closes)

lemma handleProtocolStream_closes:
  assumes "notify_logs V" shows "closes st (handleProtocolStream V st n)"
proof -
  have "closes st (andthen (close_stream V st) (modify (\<lambda>h. h\<lparr>net_swaps := (net_swaps h)(i := None)\<rparr>)))" for i
    by (rule closes_then) (auto intro!: closes_rules keeps_modify)
  then show ?thesis
    unfolding handleProtocolStream_def Let_def
    by (auto intro!: closes_rules handleProtocolStreamInner_closes [OF assms] split: sum.split wire.split option.split)
qed

definition opens :: "nat set \<Rightarrow> ('w, 'ss) nethost \<Rightarrow> bool" where
  "opens S h \<longleftrightarrow> {st. Stream_Opened st \<in> set (net_acts h)} \<subseteq> S"

lemma opens_hw [simp]: "opens S (h\<lparr>hw := w\<rparr>) = opens S h"
  by (simp add: opens_def)

lemma keeps_opens [keeps_rules]:
  "keeps (opens S) (close_stream V st)" "keeps (opens S) (write_stream V st m who)"
  "keeps (opens S) (readStreamMessage V st sz)" "keeps (opens S) (nextStreamMessage V st sz t)"
  "keeps (opens S) (expect V st sz t what f)"
  by (auto simp: close_stream_def write_stream_def readStreamMessage_def nextStreamMessage_def expect_def opens_def
      intro!: keeps_rules split: option.split sum.split)


text \<open>Every stream a computation opens is closed when it returns.\<close>

definition tidy :: "(('w, 'ss) nethost, 'a) go \<Rightarrow> bool" where
  "tidy m \<longleftrightarrow> (\<forall>h S. opens S h \<longrightarrow> wp m (\<lambda>r h'. opens S h' \<or> (\<exists>st. opens (insert st S) h' \<and> returned_closed st r h')) h)"

lemma dial_opens:
  assumes "opens S h" and "dial V who p h = (r, h')"
  shows "case r of Ok st \<Rightarrow> opens (insert st S) h' | _ \<Rightarrow> opens S h'"
  using assms by (fastforce simp: dial_def new_stream_def on_p2p_def act_def bnd_def wrapping_def modify_def ret_def opens_def
      split: prod.splits outcome.splits)

lemma tidy_dial:
  assumes "\<And>st S. keeps (opens S) (m st)"
  shows "tidy (bnd (dial V who p) (\<lambda>st. deferred (m st) (close_stream V st)))"
  unfolding tidy_def
proof (intro allI impI)
  fix h S assume h: "opens S (h :: ('a, 'b) nethost)"
  obtain r h1 where run: "dial V who p h = (r, h1)" by force
  show "wp (bnd (dial V who p) (\<lambda>st. deferred (m st) (close_stream V st)))
      (\<lambda>r h'. opens S h' \<or> (\<exists>st. opens (insert st S) h' \<and> returned_closed st r h')) h"
  proof (cases r)
    case (Ok st)
    let ?d = "deferred (m st) (close_stream V st)"
    have "opens (insert st S) h1" using dial_opens [OF h run] Ok by simp
    moreover have "keeps (opens (insert st S)) ?d" by (intro keeps_rules assms)
    moreover have "closes st ?d" by (intro closes_rules)
    ultimately have "wp ?d (\<lambda>r h'. opens (insert st S) h' \<and> returned_closed st r h') h1"
      by (auto simp: closes_def intro: wp_conj wp_keeps)
    then show ?thesis using run Ok by (auto simp: wp_def bnd_def split: prod.splits)
  qed (use dial_opens [OF h run] run in \<open>simp_all add: wp_def bnd_def\<close>)
qed

text \<open>
  C25: no handler leaks its stream: when the handler of a query, of a relayer query, of a relay request or of
  an incoming swap returns, and when the goroutines that serve a swap stream return, the stream has been
  closed; and \<open>Query\<close> and \<open>SubmitRelayRequest\<close> close the stream they open, whatever the peer answers.
\<close>

theorem streams_closed:
  assumes "notify_logs V"
  shows "closes st (handleQueryStream V st) \<and> closes st (handleRelayerQueryStream V st) \<and>
    closes st (handleRelayStream V st) \<and> closes st (handleProtocolStream V st n) \<and>
    closes st (handleProtocolStreamInner V st s n) \<and> closes st (receiveInitiateResponse V st s n) \<and>
    tidy (Query V who) \<and> tidy (SubmitRelayRequest V who req)"
  using handleProtocolStream_closes [OF assms] handleProtocolStreamInner_closes [OF assms]
  by (simp add: handleQueryStream_def handleRelayerQueryStream_def handleRelayStream_def receiveInitiateResponse_def
      closes_rules handleProtocolStreamClose_closes [OF assms] Query_def SubmitRelayRequest_def
      receiveQueryResponse_def receiveRelayClaimResponse_def tidy_dial keeps_rules)

lemma reads_log_nothing:
  "readStreamMessage V st sz h = (r, h') \<Longrightarrow> net_acts h' = net_acts h \<and> net_swaps h' = net_swaps h"
  by (auto simp: readStreamMessage_def on_p2p_def bnd_def lift_def split: prod.splits outcome.splits)

lemma nextStreamMessage_log:
  "nextStreamMessage V st sz t h = (r, h') \<Longrightarrow> net_acts h' = net_acts h"
  by (auto simp: nextStreamMessage_def bnd_def gets_def attempt_def ret_def
      split: prod.splits outcome.splits if_splits dest: reads_log_nothing)

lemma expect_log: "expect V st sz t what f h = (r, h') \<Longrightarrow> net_acts h' = net_acts h"
  by (auto simp: expect_def bnd_def fail_def ret_def
      split: prod.splits outcome.splits option.splits dest: nextStreamMessage_log)

lemma dial_log: "dial V who p h = (Ok st, h') \<Longrightarrow> net_acts h' = Stream_Opened st # net_acts h"
  by (auto simp: dial_def new_stream_def on_p2p_def act_def bnd_def wrapping_def modify_def ret_def
      split: prod.splits outcome.splits)


text \<open>
  What is relied on: the validator accepts an address hash of 32 bytes only (the tag \<open>len=32\<close>), and the
  library's calls do not panic.
\<close>

definition calm :: "('w, 'a) go \<Rightarrow> bool" where
  "calm f \<longleftrightarrow> (\<forall>w p w'. f w \<noteq> (Panic p, w'))"

definition p2p_calm :: "'w p2p \<Rightarrow> bool" where
  "p2p_calm N \<longleftrightarrow> (\<forall>who. calm (p2p_Connect N who)) \<and> (\<forall>who p. calm (p2p_NewStream N who p)) \<and>
     (\<forall>st sz. calm (p2p_ReadStreamMessage N st sz))"

definition len32 :: "bytes codec \<Rightarrow> bool" where
  "len32 J \<longleftrightarrow> (\<forall>b. validate_Struct J b = None \<longrightarrow> length b = 32)"

named_theorems calm_rules

lemma calm_basic [calm_rules]: "calm (ret x)" "calm (fail e)" "calm (gets f)" "calm (modify g)" "calm (act a)"
  by (simp_all add: calm_def ret_def fail_def gets_def modify_def act_def)

lemma calm_on_p2p [calm_rules]: "calm f \<Longrightarrow> calm (on_p2p f)"
  by (auto simp: calm_def on_p2p_def split: prod.split)

lemma calm_bnd [calm_rules]: "calm m \<Longrightarrow> (\<And>x. calm (k x)) \<Longrightarrow> calm (bnd m k)"
  by (fastforce simp: calm_def bnd_def split: prod.splits outcome.splits)

lemma calm_attempt [calm_rules]: "calm m \<Longrightarrow> calm (attempt m)"
  by (fastforce simp: calm_def attempt_def split: prod.splits outcome.splits)

lemma calm_wrapping [calm_rules]: "calm m \<Longrightarrow> calm (wrapping a b m)"
  by (fastforce simp: calm_def wrapping_def split: prod.splits outcome.splits)

lemma calm_of_result [calm_rules]: "calm (lift (of_result r))"
  by (cases r) (simp_all add: calm_def lift_def)

lemma decode_relayer_len:
  assumes "len32 (wc_relayer W)" and "DecodeMessage W b = Inr (RelayerQueryResponse x)"
  shows "length x = 32"
  using assms by (auto simp: DecodeMessage_def Let_def decode_as_def UnmarshalStruct_def len32_def
      split: if_splits sum.splits option.splits)

lemma nextStreamMessage_decoded:
  "nextStreamMessage V st sz t h = (Ok (Some (Some m)), h') \<Longrightarrow> \<exists>b. DecodeMessage (ne_codecs V) b = Inr m"
  by (auto simp: nextStreamMessage_def readStreamMessage_def bnd_def gets_def attempt_def ret_def lift_def of_result_def
      split: if_splits prod.splits outcome.splits sum.splits)

lemma read_relayer_len:
  assumes "len32 (wc_relayer (ne_codecs V))"
    and "expect V st sz t what (\<lambda>m. case m of RelayerQueryResponse b \<Rightarrow> Some b | _ \<Rightarrow> None) h = (Ok x, h')"
  shows "length x = 32"
  using assms(2) decode_relayer_len [OF assms(1)]
  by (auto simp: expect_def bnd_def fail_def ret_def dest!: nextStreamMessage_decoded
      split: prod.splits outcome.splits option.splits wire.splits)

lemma calm_nextStreamMessage [calm_rules]: "p2p_calm (ne_p2p V) \<Longrightarrow> calm (nextStreamMessage V st sz t)"
  by (auto simp: nextStreamMessage_def readStreamMessage_def p2p_calm_def intro!: calm_rules split: sum.split)

lemma calm_expect [calm_rules]: "p2p_calm (ne_p2p V) \<Longrightarrow> calm (expect V st sz t what f)"
  by (auto simp: expect_def intro!: calm_rules split: option.split)

lemma calm_dial [calm_rules]: "p2p_calm (ne_p2p V) \<Longrightarrow> calm (dial V who p)"
  by (auto simp: dial_def new_stream_def p2p_calm_def intro!: calm_rules)

text \<open>
  No answer of a relayer crashes the daemon: \<open>QueryRelayerAddress\<close> converts the received slice to an array
  of 32 bytes, which panics on a shorter slice, and the validation of the message makes that impossible. When
  it returns the address, the stream it opened is still open: of the functions that open a stream for a
  query it is the one that closes nothing.
\<close>

lemma QueryRelayerAddress_outcome:
  assumes "p2p_calm (ne_p2p V)" and "len32 (wc_relayer (ne_codecs V))"
    and "QueryRelayerAddress V relayerID h = (r, h')"
  shows "(\<forall>p. r \<noteq> Panic p) \<and> (\<forall>x. r = Ok x \<longrightarrow> (\<exists>st. net_acts h' = Stream_Opened st # net_acts h))"
proof -
  have "calm (receiveRelayerQueryResponse V st)" for st
    using calm_expect [OF assms(1)] read_relayer_len [OF assms(2)]
    by (fastforce simp: calm_def receiveRelayerQueryResponse_def bnd_def ret_def split: prod.splits outcome.splits)
  then have "calm (QueryRelayerAddress V relayerID)"
    unfolding QueryRelayerAddress_def by (intro calm_rules assms)
  then show ?thesis using assms(3)
    by (auto simp: calm_def QueryRelayerAddress_def receiveRelayerQueryResponse_def run_Ok panic_def
      split: if_splits dest!: dial_log expect_log)
qed

section \<open>One swap per offer\<close>

lemma close_stream_state:
  "net_swaps (snd (close_stream V st h)) = net_swaps h \<and> net_acts (snd (close_stream V st h)) = Stream_Closed st # net_acts h"
  by (simp add: close_stream_def act_def on_p2p_def ignore_err_def bnd_def modify_def attempt_def ret_def
      split: prod.split outcome.split)

text \<open>
  C24: an offer is in one swap at a time, and the maker can answer an initiation on its stream. While the table has an
  entry for the offer, \<open>Initiate\<close> fails before any network operation, and an incoming initiation only has its
  stream closed: the maker's handler is not called and the table does not change. Otherwise the handler runs
  in a state in which messages for the offer are written to the new stream, and a refusal removes the entry
  again.
\<close>

theorem swap_exclusive:
  assumes "makerHandler_set h" and "readStreamMessage V st maxMessageSize h = (Ok (SendKeysMessage_msg im), h1)"
    and "i = SK_OfferID im" and "ss_OfferID (ne_handlers V) s = i"
  shows "(net_swaps h i \<noteq> None \<longrightarrow>
      Initiate V who m s h = (Err errSwapAlreadyInProgress, h) \<and>
      net_swaps (snd (handleProtocolStream V st n h)) = net_swaps h \<and>
      net_acts (snd (handleProtocolStream V st n h)) = Stream_Closed st # net_acts h) \<and>
    (net_swaps h i = None \<longrightarrow> (\<exists>h2. net_acts h2 = Maker_Initiated (p2p_RemotePeer (ne_p2p V) st) i # net_acts h \<and>
      (\<forall>m. SendSwapMessage V m i h2 = write_stream V st m (p2p_RemotePeer (ne_p2p V) st) h2) \<and>
      (\<forall>e h3. mh_HandleInitiateMessage (ne_handlers V) (p2p_RemotePeer (ne_p2p V) st) im h2 = (Err e, h3) \<and>
        fst (close_stream V st h3) = Ok () \<longrightarrow>
        net_swaps (snd (handleProtocolStream V st n h)) = (net_swaps h3)(i := None))))"
proof (intro conjI impI)
  assume "net_swaps h i \<noteq> None"
  then show "Initiate V who m s h = (Err errSwapAlreadyInProgress, h)"
    by (simp add: Initiate_def Let_def bnd_def gets_def fail_def assms(4))
next
  note same = reads_log_nothing [OF assms(2)]
  assume "net_swaps h i \<noteq> None"
  then have "handleProtocolStream V st n h = close_stream V st h1"
    using assms same by (simp add: handleProtocolStream_def bnd_def gets_def attempt_def Let_def)
  then show "net_swaps (snd (handleProtocolStream V st n h)) = net_swaps h"
    "net_acts (snd (handleProtocolStream V st n h)) = Stream_Closed st # net_acts h"
    using close_stream_state [of V st h1] same by simp_all
next
  note same = reads_log_nothing [OF assms(2)]
  assume none: "net_swaps h i = None"
  let ?p = "p2p_RemotePeer (ne_p2p V) st"
  define h2 where "h2 = h1\<lparr>net_swaps := (net_swaps h1)(i \<mapsto> \<lparr>swapState = None, swap_stream = st, streamClosed = False\<rparr>),
    net_acts := Maker_Initiated ?p i # net_acts h1\<rparr>"
  have "net_swaps (snd (handleProtocolStream V st n h)) = (net_swaps h3)(i := None)"
    if "mh_HandleInitiateMessage (ne_handlers V) ?p im h2 = (Err e, h3)" and cl: "fst (close_stream V st h3) = Ok ()" for e h3
  proof -
    have "handleProtocolStream V st n h =
        andthen (close_stream V st) (modify (\<lambda>h. h\<lparr>net_swaps := (net_swaps h)(i := None)\<rparr>)) h3"
      using that(1) none same assms(1-3)
      by (simp add: handleProtocolStream_def bnd_def gets_def attempt_def Let_def modify_def act_def h2_def)
    then show ?thesis
      using cl close_stream_state [of V st h3] by (cases "close_stream V st h3") (simp add: bnd_def modify_def)
  qed
  moreover have "SendSwapMessage V m i h2 = write_stream V st m ?p h2" for m
    by (simp add: SendSwapMessage_def bnd_def gets_def h2_def)
  ultimately show "\<exists>h2. net_acts h2 = Maker_Initiated ?p i # net_acts h \<and>
      (\<forall>m. SendSwapMessage V m i h2 = write_stream V st m ?p h2) \<and>
      (\<forall>e h3. mh_HandleInitiateMessage (ne_handlers V) ?p im h2 = (Err e, h3) \<and>
        fst (close_stream V st h3) = Ok () \<longrightarrow>
        net_swaps (snd (handleProtocolStream V st n h)) = (net_swaps h3)(i := None))"
    using same by (intro exI [of _ h2]) (simp add: h2_def)
qed

text \<open>A network whose peers send one fixed message, and a daemon that refuses every initiation.\<close>

definition demo_p2p :: "bytes \<Rightarrow> unit p2p" where
  "demo_p2p b = \<lparr>p2p_Connected = (\<lambda>w who. True), p2p_Connect = (\<lambda>who. ret ()), p2p_NewStream = (\<lambda>who p. ret 5),
     p2p_ReadStreamMessage = (\<lambda>st sz. ret b), p2p_WriteStreamMessage = (\<lambda>st m who. ret ()), p2p_CloseStream = (\<lambda>st. ret ()),
     p2p_RemotePeer = (\<lambda>st. ''peer''), p2p_TimedOut = (\<lambda>w st t. False), p2p_Discover = (\<lambda>what t. ret []), p2p_Start = ret ()\<rparr>"

definition demo_handlers :: "(unit, unit) handlers" where
  "demo_handlers = \<lparr>mh_GetOffers = ret [], mh_HandleInitiateMessage = (\<lambda>who m. fail (Errorf ''refused'')), ss_OfferID = (\<lambda>s. 7),
     ss_HandleProtocolMessage = (\<lambda>s m. ret ()), ss_NotifyStreamClosed = (\<lambda>s. ret ()), rh_GetRelayerAddressHash = ret 7,
     rh_HandleRelayClaimRequest = (\<lambda>who r. ret 7), rh_HasOngoingSwapAsTaker = (\<lambda>who. ret ())\<rparr>"

definition demo_netenv :: "bytes \<Rightarrow> (unit, unit) netenv" where
  "demo_netenv b = \<lparr>ne_p2p = demo_p2p b, ne_codecs = demo_wire, ne_handlers = demo_handlers\<rparr>"

definition demo_nethost :: "(unit, unit) nethost" where
  "demo_nethost = \<lparr>hw = (), isRelayer = False, isBootnode = False, makerHandler_set = True, relayHandler_set = True,
     net_swaps = Map.empty, net_acts = []\<rparr>"

lemmas demo_net_defs = demo_netenv_def demo_p2p_def demo_handlers_def demo_wire_def bytes_codec_def keys_codec_def

theorem streams_closed_witness:
  "closes 5 (handleProtocolStream (demo_netenv [5, 123, 125]) 5 1) \<and> tidy (Query (demo_netenv [5, 123, 125]) ''peer'')"
  using streams_closed [of "demo_netenv [5, 123, 125]" 5 1 "()" "''peer''"]
  by (simp add: notify_logs_def demo_net_defs keeps_rules)

lemma demo_calm: "p2p_calm (ne_p2p (demo_netenv b))" "len32 (wc_relayer (ne_codecs (demo_netenv b)))"
  by (simp_all add: p2p_calm_def len32_def demo_net_defs calm_rules)

lemma QueryRelayerAddress_outcome_example:
  "\<exists>st. net_acts (snd (QueryRelayerAddress (demo_netenv (2 # replicate 32 7)) ''peer'' demo_nethost)) = [Stream_Opened st]"
proof -
  let ?V = "demo_netenv (2 # replicate 32 7)"
  obtain r h' where run: "QueryRelayerAddress ?V ''peer'' demo_nethost = (r, h')" by force
  have "\<exists>x. fst (QueryRelayerAddress ?V ''peer'' demo_nethost) = Ok x"
    by (simp add: QueryRelayerAddress_def dial_def new_stream_def receiveRelayerQueryResponse_def expect_def
        nextStreamMessage_def readStreamMessage_def on_p2p_def demo_net_defs bnd_def ret_def wrapping_def act_def modify_def
        gets_def attempt_def lift_def DecodeMessage_def decode_as_def UnmarshalStruct_def message_types)
  then show ?thesis
    using run QueryRelayerAddress_outcome [OF demo_calm run] by (auto simp: demo_nethost_def)
qed

theorem swap_exclusive_witness:
  "net_swaps (snd (handleProtocolStream (demo_netenv [5, 123, 125]) 5 1 demo_nethost)) 7 = None"
proof -
  let ?V = "demo_netenv [5, 123, 125]"
  have read: "readStreamMessage ?V 5 maxMessageSize demo_nethost = (Ok (SendKeysMessage_msg demo_keys_msg), demo_nethost)"
    by (simp add: readStreamMessage_def on_p2p_def demo_net_defs bnd_def ret_def lift_def DecodeMessage_def decode_as_def
        UnmarshalStruct_def message_types demo_nethost_def)
  have closed: "fst (close_stream ?V 5 g) = Ok ()" for g
    by (simp add: close_stream_def act_def on_p2p_def ignore_err_def bnd_def modify_def attempt_def ret_def demo_net_defs)
  have refused: "mh_HandleInitiateMessage (ne_handlers ?V) w m g = (Err (Errorf ''refused''), g)" for w m g
    by (simp add: demo_net_defs fail_def)
  have "makerHandler_set demo_nethost" "7 = SK_OfferID demo_keys_msg" "ss_OfferID (ne_handlers ?V) () = 7"
    "net_swaps demo_nethost 7 = None"
    by (simp_all add: demo_nethost_def demo_keys_msg_def demo_net_defs)
  note at = swap_exclusive [OF this(1) read this(2,3), where n = 1, THEN conjunct2, THEN mp, OF this(4)]
  show ?thesis using at refused closed by (metis fun_upd_same)
qed

end
