(* ===== verification/Monero_Wallet.thy ===== *)
theory Monero_Wallet
  imports Coins Monero_Base58
begin

text \<open>
  The Monero wallet client (\<open>monero/wallet_client.go\<close>, \<open>monero/utils.go\<close>). The JSON-RPC interfaces of
  \<open>monero-wallet-rpc\<close> and \<open>monerod\<close> (package \<open>monerorpc\<close>) and the operating system are records of operations
  over the external world; an RPC call names the endpoint it is sent to. A process is a number, and the
  output of a started process is the list of lines it prints until it exits or goes on as a server.
  The field \<open>wal_acts\<close> records, newest first, the processes started and closed and the transfers requested;
  no modelled function reads it. Loops that wait for the chain have the number of their rounds as an argument
  and block when it is used up.
\<close>

section \<open>Paths and hexadecimal text\<close>

text \<open>The functions of Go's package \<open>path\<close>, and \<open>hex.EncodeToString\<close>.\<close>

fun split_path :: "string \<Rightarrow> string \<Rightarrow> string list" where
  "split_path acc [] = [rev acc]"
| "split_path acc (c # cs) = (if c = CHR ''/'' then rev acc # split_path [] cs else split_path (c # acc) cs)"

fun clean_segments :: "bool \<Rightarrow> string list \<Rightarrow> string list \<Rightarrow> string list" where
  "clean_segments rooted out [] = rev out"
| "clean_segments rooted out (s # ss) =
     (if s = [] \<or> s = ''.'' then clean_segments rooted out ss
      else if s = ''..'' then
        (case out of
           [] \<Rightarrow> if rooted then clean_segments rooted [] ss else clean_segments rooted [''..''] ss
         | x # xs \<Rightarrow> if x = ''..'' then clean_segments rooted (s # out) ss else clean_segments rooted xs ss)
      else clean_segments rooted (s # out) ss)"

fun join_path :: "string list \<Rightarrow> string" where
  "join_path [] = []"
| "join_path [s] = s"
| "join_path (s # ss) = s @ ''/'' @ join_path ss"

definition path_Clean :: "string \<Rightarrow> string" where
  "path_Clean p =
     (if p = [] then ''.''
      else let rooted = (hd p = CHR ''/'');
               r = (if rooted then ''/'' else []) @ join_path (clean_segments rooted [] (split_path [] p)) in
           if r = [] then ''.'' else r)"

definition path_Dir :: "string \<Rightarrow> string" where
  "path_Dir p = path_Clean (rev (dropWhile (\<lambda>c. c \<noteq> CHR ''/'') (rev p)))"

definition path_Base :: "string \<Rightarrow> string" where
  "path_Base p =
     (if p = [] then ''.''
      else let q = rev (dropWhile (\<lambda>c. c = CHR ''/'') (rev p)) in
           if q = [] then ''/'' else rev (takeWhile (\<lambda>c. c \<noteq> CHR ''/'') (rev q)))"

definition path_Join :: "string list \<Rightarrow> string" where
  "path_Join ps = (case filter (\<lambda>s. s \<noteq> []) ps of [] \<Rightarrow> [] | qs \<Rightarrow> path_Clean (join_path qs))"

definition hex_digit :: "byte \<Rightarrow> char" where
  "hex_digit b = ''0123456789abcdef'' ! unat b"

definition hex_EncodeToString :: "bytes \<Rightarrow> string" where
  "hex_EncodeToString bs = concat (map (\<lambda>b. [hex_digit (b div 16), hex_digit (b mod 16)]) bs)"

section \<open>The wallet's data and its surroundings\<close>

record MoneroNode =
  Node_Host :: string
  Node_Port :: nat

record WalletClientConf =
  cf_Env :: Environment
  cf_WalletFilePath :: string
  cf_WalletPassword :: string
  cf_WalletPort :: nat
  cf_MonerodNodes :: "MoneroNode list"
  cf_MoneroWalletRPCPath :: string
  cf_LogPath :: string

text \<open>The answers of the RPC interfaces, as far as the client reads them.\<close>

record XMRTransfer =
  XT_TxID :: string
  XT_Height :: uint64
  XT_Confirmations :: uint64
  XT_Amount :: uint64
  XT_Fee :: uint64

record XMRBalance =
  XB_Balance :: uint64
  XB_BlocksToUnlock :: uint64

record NodeInfo =
  NI_Stagenet :: bool
  NI_Mainnet :: bool
  NI_NetType :: string
  NI_Offline :: bool
  NI_Synchronized :: bool

record GenerateFromKeysRequest =
  GK_Filename :: string
  GK_Address :: string
  GK_RestoreHeight :: uint64
  GK_Viewkey :: string
  GK_Spendkey :: string
  GK_Password :: string

record 'w monerorpc =
  w_GetBalance :: "string \<Rightarrow> 32 word \<Rightarrow> ('w, XMRBalance) go"
  w_Refresh :: "string \<Rightarrow> ('w, unit) go"
  w_GetHeight :: "string \<Rightarrow> ('w, uint64) go"
  w_GetTransferByTxid :: "string \<Rightarrow> string \<Rightarrow> 32 word \<Rightarrow> ('w, XMRTransfer) go"
  w_Transfer :: "string \<Rightarrow> uint64 \<Rightarrow> string \<Rightarrow> 32 word \<Rightarrow> ('w, string) go"
  w_SweepAll :: "string \<Rightarrow> 32 word \<Rightarrow> string \<Rightarrow> ('w, string list) go"
  w_GetAddress :: "string \<Rightarrow> 32 word \<Rightarrow> ('w, string) go"
  w_OpenWallet :: "string \<Rightarrow> string \<Rightarrow> string \<Rightarrow> ('w, unit) go"
  w_CreateWallet :: "string \<Rightarrow> string \<Rightarrow> string \<Rightarrow> string \<Rightarrow> ('w, unit) go"
  w_GenerateFromKeys :: "string \<Rightarrow> GenerateFromKeysRequest \<Rightarrow> ('w, string) go"
  w_StopWallet :: "string \<Rightarrow> ('w, unit) go"
  d_GetBlockCount :: "string \<Rightarrow> ('w, uint64) go"
  d_GetInfo :: "string \<Rightarrow> ('w, NodeInfo) go"

record 'w os =
  os_Start :: "string \<Rightarrow> string list \<Rightarrow> ('w, nat \<times> string list) go"
  os_Kill :: "nat \<Rightarrow> ('w, unit) go"
  os_Wait :: "nat \<Rightarrow> ('w, unit) go"
  os_Remove :: "string \<Rightarrow> ('w, unit) go"
  os_Stat :: "string \<Rightarrow> ('w, bool) go"
  os_LookPath :: "string \<Rightarrow> ('w, string) go"
  os_Listen :: "('w, nat) go"
  os_Sleep :: "int \<Rightarrow> ('w, unit) go"
  os_Now :: "'w \<Rightarrow> string"

record 'w walletenv =
  we_rpc :: "'w monerorpc"
  we_os :: "'w os"
  we_apd :: apd
  we_crypt :: crypt
  we_base58 :: base58

datatype wact =
    Process_Started nat
  | Process_Closed nat
  | Transfer_Requested string uint64 string "32 word"
  | Sweep_Requested string "32 word" string

record 'w wstate =
  wal_world :: 'w
  wal_acts :: "wact list"

record walletClient =
  wc_endpoint :: string
  wc_monerod :: string
  wc_walletAddr :: "MoneroAddress option"
  wc_conf :: "WalletClientConf option"
  wc_rpcProcess :: "nat option"

definition external :: "('w, 'a) go \<Rightarrow> ('w wstate, 'a) go" where
  "external f = (\<lambda>s. case f (wal_world s) of (r, w) \<Rightarrow> (r, s\<lparr>wal_world := w\<rparr>))"

definition record_wact :: "wact \<Rightarrow> ('w wstate, unit) go" where
  "record_wact a = modify (\<lambda>s. s\<lparr>wal_acts := a # wal_acts s\<rparr>)"

definition ErrNotExist :: goerr where
  "ErrNotExist = Sentinel ''ErrNotExist'' ''file does not exist''"

text \<open>\<open>os.Stat\<close> tells whether the file is a directory; \<open>net.Listen\<close> gives a free port.\<close>

definition FileExists :: "'w walletenv \<Rightarrow> string \<Rightarrow> ('w wstate, bool) go" where
  "FileExists W p =
     bnd (attempt (external (os_Stat (we_os W) p))) (\<lambda>r. case r of
       Inr isDir \<Rightarrow> if isDir then fail (Errorf (p @ '' is occupied by a directory'')) else ret True
     | Inl err \<Rightarrow> if errors_Is (Some err) (Some ErrNotExist) then ret False else fail err)"

definition GetFreeTCPPort :: "'w walletenv \<Rightarrow> ('w wstate, nat) go" where
  "GetFreeTCPPort W = external (os_Listen (we_os W))"

section \<open>Nodes and processes\<close>

definition DefaultMoneroDaemonMainnetPort :: nat where "DefaultMoneroDaemonMainnetPort = 18081"

definition MainnetConfig_MoneroNodes :: "MoneroNode list" where
  "MainnetConfig_MoneroNodes =
     [\<lparr>Node_Host = ''xmr-node.cakewallet.com'', Node_Port = DefaultMoneroDaemonMainnetPort\<rparr>,
      \<lparr>Node_Host = ''node.community.rino.io'', Node_Port = DefaultMoneroDaemonMainnetPort\<rparr>,
      \<lparr>Node_Host = ''node.monerodevs.org'', Node_Port = 18089\<rparr>]"

definition StagenetConfig_MoneroNodes :: "MoneroNode list" where
  "StagenetConfig_MoneroNodes =
     [\<lparr>Node_Host = ''stagenet.community.rino.io'', Node_Port = 38081\<rparr>,
      \<lparr>Node_Host = ''node.monerodevs.org'', Node_Port = 38089\<rparr>]"

definition DevelopmentConfig_MoneroNodes :: "MoneroNode list" where
  "DevelopmentConfig_MoneroNodes = [\<lparr>Node_Host = ''127.0.0.1'', Node_Port = DefaultMoneroDaemonMainnetPort\<rparr>]"

text \<open>\<open>ConfigDefaultsForEnv(env).MoneroNodes\<close>.\<close>

definition ConfigDefaultsForEnv_MoneroNodes :: "Environment \<Rightarrow> MoneroNode list outcome" where
  "ConfigDefaultsForEnv_MoneroNodes env = (case env of
     Mainnet \<Rightarrow> Ok MainnetConfig_MoneroNodes | Stagenet \<Rightarrow> Ok StagenetConfig_MoneroNodes
   | Development \<Rightarrow> Ok DevelopmentConfig_MoneroNodes | Bootnode \<Rightarrow> Ok [] | _ \<Rightarrow> Panic ''invalid environment'')"

definition json_rpc :: "string \<Rightarrow> nat \<Rightarrow> string" where
  "json_rpc host port = ''http://'' @ host @ '':'' @ show_nat port @ ''/json_rpc''"

definition validateMonerodNode :: "'w walletenv \<Rightarrow> Environment \<Rightarrow> MoneroNode \<Rightarrow> ('w wstate, unit) go" where
  "validateMonerodNode W env node =
     (let endpoint = json_rpc (Node_Host node) (Node_Port node) in
      bnd (wrapping (''could not validate monerod endpoint '' @ endpoint @ '': '') [] (external (d_GetInfo (we_rpc W) endpoint))) (\<lambda>info.
      andthen
        (case env of
           Stagenet \<Rightarrow> if \<not> NI_Stagenet info then fail (Errorf (''monerod endpoint '' @ endpoint @ '' is not a stagenet node'')) else ret ()
         | Mainnet \<Rightarrow> if \<not> NI_Mainnet info then fail (Errorf (''monerod endpoint '' @ endpoint @ '' is not a mainnet node'')) else ret ()
         | Development \<Rightarrow> if NI_NetType info \<noteq> ''fakechain'' then fail (Errorf (''monerod endpoint '' @ endpoint @
               '' should have a network type of \"fakechain\" in dev mode'')) else ret ()
         | _ \<Rightarrow> panic ''unhandled environment type'')
        (if env \<noteq> Development \<and> NI_Offline info then fail (Errorf (''monerod endpoint '' @ endpoint @ '' is offline''))
         else if \<not> NI_Synchronized info then fail (Errorf (''monerod endpoint '' @ endpoint @ '' is not synchronised''))
         else ret ())))"

text \<open>The loop over the nodes keeps the last error.\<close>

primrec find_node :: "'w walletenv \<Rightarrow> Environment \<Rightarrow> goerr \<Rightarrow> MoneroNode list \<Rightarrow> ('w wstate, MoneroNode) go" where
  "find_node W env err [] = fail (Wrapf ''failed to validate any monerod RPC node, last error: '' err [])"
| "find_node W env err (n # ns) =
     bnd (attempt (validateMonerodNode W env n)) (\<lambda>r. case r of Inl e \<Rightarrow> find_node W env e ns | Inr _ \<Rightarrow> ret n)"

definition findWorkingNode :: "'w walletenv \<Rightarrow> Environment \<Rightarrow> MoneroNode list \<Rightarrow> ('w wstate, MoneroNode) go" where
  "findWorkingNode W env nodes =
     (if nodes = [] then fail (Errorf ''no monero nodes'') else find_node W env (Errorf []) nodes)"

definition getMoneroWalletRPCBin :: "'w walletenv \<Rightarrow> ('w wstate, string) go" where
  "getMoneroWalletRPCBin W =
     (let execName = ''monero-wallet-rpc''; priorityPath = path_Join [''monero-bin'', execName] in
      bnd (attempt (external (os_LookPath (we_os W) priorityPath))) (\<lambda>r. case r of
        Inr execPath \<Rightarrow> ret execPath
      | Inl err \<Rightarrow> if \<not> errors_Is (Some err) (Some ErrNotExist) then fail err
                   else external (os_LookPath (we_os W) execName)))"

definition Fill :: "'w walletenv \<Rightarrow> WalletClientConf \<Rightarrow> ('w wstate, WalletClientConf) go" where
  "Fill W conf =
     (if cf_WalletFilePath conf = [] then panic ''WalletFilePath is a required conf field''
      else
        bnd (if cf_MoneroWalletRPCPath conf = []
             then bnd (getMoneroWalletRPCBin W) (\<lambda>p. ret (conf\<lparr>cf_MoneroWalletRPCPath := p\<rparr>)) else ret conf) (\<lambda>conf.
        bnd (if cf_MonerodNodes conf = []
             then bnd (lift (ConfigDefaultsForEnv_MoneroNodes (cf_Env conf))) (\<lambda>ns. ret (conf\<lparr>cf_MonerodNodes := ns\<rparr>)) else ret conf) (\<lambda>conf.
        bnd (findWorkingNode W (cf_Env conf) (cf_MonerodNodes conf)) (\<lambda>validatedNode.
        let conf = conf\<lparr>cf_MonerodNodes := [validatedNode]\<rparr>;
            conf = (if cf_LogPath conf = []
              then conf\<lparr>cf_LogPath := path_Join [path_Dir (path_Dir (cf_WalletFilePath conf)), ''monero-wallet-rpc.log'']\<rparr> else conf) in
        if cf_WalletPort conf = 0
        then bnd (GetFreeTCPPort W) (\<lambda>p. ret (conf\<lparr>cf_WalletPort := p\<rparr>)) else ret conf))))"

definition getWalletRPCFlags :: "Environment \<Rightarrow> nat \<Rightarrow> string \<Rightarrow> string \<Rightarrow> MoneroNode \<Rightarrow> string list outcome" where
  "getWalletRPCFlags env walletPort walletDir logFilePath moneroNode =
     (let args = [''--rpc-bind-ip=127.0.0.1'', ''--rpc-bind-port='' @ show_nat walletPort, ''--disable-rpc-login'',
        ''--wallet-dir='' @ walletDir, ''--log-file='' @ logFilePath, ''--log-level=0'',
        ''--daemon-host='' @ Node_Host moneroNode, ''--daemon-port='' @ show_nat (Node_Port moneroNode)] in
      case env of
        Development \<Rightarrow> Ok (args @ [''--allow-mismatched-daemon-version''])
      | Mainnet \<Rightarrow> Ok args
      | Stagenet \<Rightarrow> Ok (args @ [''--stagenet''])
      | _ \<Rightarrow> Panic ''unhandled monero environment type'')"

definition HasSuffix :: "string \<Rightarrow> string \<Rightarrow> bool" where
  "HasSuffix s t \<longleftrightarrow> length t \<le> length s \<and> drop (length s - length t) s = t"

definition launchMoneroWalletRPCChild :: "'w walletenv \<Rightarrow> string \<Rightarrow> string list \<Rightarrow> ('w wstate, nat) go" where
  "launchMoneroWalletRPCChild W walletRPCBin args =
     bnd (external (os_Start (we_os W) walletRPCBin args)) (\<lambda>(pid, ls).
     if \<exists>line\<in>set ls. HasSuffix line ''Starting wallet RPC server''
     then andthen (record_wact (Process_Started pid)) (andthen (ignore_err (external (os_Sleep (we_os W) 200000000))) (ret pid))
     else andthen (ignore_err (external (os_Wait (we_os W) pid))) (fail (Errorf ''failed to start monero-wallet-rpc'')))"

definition createWalletRPCService ::
    "'w walletenv \<Rightarrow> Environment \<Rightarrow> string \<Rightarrow> nat \<Rightarrow> string \<Rightarrow> string \<Rightarrow> MoneroNode \<Rightarrow> ('w wstate, nat) go" where
  "createWalletRPCService W env walletRPCBinPath walletPort walletDir logFilePath moneroNode =
     bnd (lift (getWalletRPCFlags env walletPort walletDir logFilePath moneroNode)) (\<lambda>args.
     wrapping [] ('', see '' @ logFilePath @ '' for details'') (launchMoneroWalletRPCChild W walletRPCBinPath args))"

definition NewThinWalletClient :: "string \<Rightarrow> nat \<Rightarrow> nat \<Rightarrow> walletClient" where
  "NewThinWalletClient monerodHost monerodPort walletPort =
     \<lparr>wc_endpoint = json_rpc ''127.0.0.1'' walletPort, wc_monerod = json_rpc monerodHost monerodPort,
      wc_walletAddr = None, wc_conf = None, wc_rpcProcess = None\<rparr>"

definition walletClient_Close :: "'w walletenv \<Rightarrow> walletClient \<Rightarrow> ('w wstate, unit) go" where
  "walletClient_Close W c =
     (case wc_rpcProcess c of
        None \<Rightarrow> ret ()
      | Some p \<Rightarrow>
          andthen (record_wact (Process_Closed p))
          (bnd (attempt (external (w_StopWallet (we_rpc W) (wc_endpoint c)))) (\<lambda>r.
           bnd (case r of Inl e \<Rightarrow> attempt (external (os_Kill (we_os W) p)) | Inr _ \<Rightarrow> ret (Inr ())) (\<lambda>r. case r of
             Inl e \<Rightarrow> ret () | Inr _ \<Rightarrow> ignore_err (external (os_Wait (we_os W) p))))))"

definition CloseAndRemoveWallet :: "'w walletenv \<Rightarrow> walletClient \<Rightarrow> ('w wstate, unit) go" where
  "CloseAndRemoveWallet W c =
     andthen (walletClient_Close W c)
     (case wc_conf c of
        None \<Rightarrow> panic ''nil pointer dereference''
      | Some conf \<Rightarrow>
          andthen (ignore_err (external (os_Remove (we_os W) (cf_WalletFilePath conf))))
          (andthen (ignore_err (external (os_Remove (we_os W) (cf_WalletFilePath conf @ ''.keys''))))
            (ignore_err (external (os_Remove (we_os W) (cf_WalletFilePath conf @ ''.address.txt''))))))"

section \<open>Reading the chain\<close>

definition walletClient_refresh :: "'w walletenv \<Rightarrow> walletClient \<Rightarrow> ('w wstate, unit) go" where
  "walletClient_refresh W c = external (w_Refresh (we_rpc W) (wc_endpoint c))"

definition walletClient_GetAddress :: "'w walletenv \<Rightarrow> walletClient \<Rightarrow> 32 word \<Rightarrow> ('w wstate, string) go" where
  "walletClient_GetAddress W c idx = external (w_GetAddress (we_rpc W) (wc_endpoint c) idx)"

definition walletClient_GetBalance :: "'w walletenv \<Rightarrow> walletClient \<Rightarrow> 32 word \<Rightarrow> ('w wstate, XMRBalance) go" where
  "walletClient_GetBalance W c idx =
     andthen (walletClient_refresh W c) (external (w_GetBalance (we_rpc W) (wc_endpoint c) idx))"

definition walletClient_GetHeight :: "'w walletenv \<Rightarrow> walletClient \<Rightarrow> ('w wstate, uint64) go" where
  "walletClient_GetHeight W c =
     andthen (walletClient_refresh W c) (external (w_GetHeight (we_rpc W) (wc_endpoint c)))"

definition getChainHeight :: "'w walletenv \<Rightarrow> walletClient \<Rightarrow> ('w wstate, uint64) go" where
  "getChainHeight W c = external (d_GetBlockCount (we_rpc W) (wc_monerod c))"

definition blockSleepDuration :: int where "blockSleepDuration = 10 * 10 ^ 9"

primrec wait_blocks :: "'w walletenv \<Rightarrow> walletClient \<Rightarrow> uint64 \<Rightarrow> nat \<Rightarrow> ('w wstate, uint64) go" where
  "wait_blocks W c endHeight 0 = block"
| "wait_blocks W c endHeight (Suc n) =
     bnd (getChainHeight W c) (\<lambda>height.
     if endHeight \<le> height then andthen (walletClient_refresh W c) (ret height)
     else andthen (external (os_Sleep (we_os W) blockSleepDuration)) (wait_blocks W c endHeight n))"

definition WaitForBlocks :: "'w walletenv \<Rightarrow> walletClient \<Rightarrow> int \<Rightarrow> nat \<Rightarrow> ('w wstate, uint64) go" where
  "WaitForBlocks W c count n =
     bnd (wrapping ''failed to get height: '' [] (getChainHeight W c)) (\<lambda>startHeight.
     wait_blocks W c (startHeight + of_int count) n)"

primrec receipt_loop ::
    "'w walletenv \<Rightarrow> walletClient \<Rightarrow> string \<Rightarrow> uint64 \<Rightarrow> 32 word \<Rightarrow> nat \<Rightarrow> nat \<Rightarrow> ('w wstate, XMRTransfer) go" where
  "receipt_loop W c txID numConfirmations accountIdx k 0 = block"
| "receipt_loop W c txID numConfirmations accountIdx k (Suc n) =
     bnd (external (w_GetTransferByTxid (we_rpc W) (wc_endpoint c) txID accountIdx)) (\<lambda>transfer.
     if 0 < XT_Height transfer \<and> numConfirmations \<le> XT_Confirmations transfer then ret transfer
     else bnd (WaitForBlocks W c 1 k) (\<lambda>_. receipt_loop W c txID numConfirmations accountIdx k n))"

definition waitForReceipt ::
    "'w walletenv \<Rightarrow> walletClient \<Rightarrow> string \<Rightarrow> uint64 \<Rightarrow> 32 word \<Rightarrow> nat \<Rightarrow> ('w wstate, XMRTransfer) go" where
  "waitForReceipt W c txID numConfirmations accountIdx n =
     bnd (walletClient_GetHeight W c) (\<lambda>height. receipt_loop W c txID numConfirmations accountIdx n n)"

section \<open>Transfers\<close>

definition walletClient_Transfer ::
    "'w walletenv \<Rightarrow> walletClient \<Rightarrow> MoneroAddress \<Rightarrow> 32 word \<Rightarrow> PiconeroAmount \<Rightarrow> uint64 \<Rightarrow> nat \<Rightarrow> ('w wstate, XMRTransfer) go" where
  "walletClient_Transfer W c to accountIdx amount numConfirmations n =
     bnd (lift (of_result (PiconeroAmount_Uint64 (we_apd W) amount))) (\<lambda>amt.
     bnd (lift (AsMoneroString (we_apd W) amount)) (\<lambda>amountStr.
     bnd (lift (Address_String (we_base58 W) to)) (\<lambda>addr.
     andthen (record_wact (Transfer_Requested (wc_endpoint c) amt addr accountIdx))
     (bnd (wrapping ''transfer failed: '' [] (external (w_Transfer (we_rpc W) (wc_endpoint c) amt addr accountIdx))) (\<lambda>txHash.
      bnd (wrapping (''monero TXID='' @ txHash @ '' receipt failure: '') []
            (waitForReceipt W c txHash numConfirmations accountIdx n)) (\<lambda>transfer.
      andthen (lift (FmtPiconeroAsXMR (we_apd W) (XT_Fee transfer))) (ret transfer)))))))"

primrec sweep_receipts ::
    "'w walletenv \<Rightarrow> walletClient \<Rightarrow> uint64 \<Rightarrow> 32 word \<Rightarrow> nat \<Rightarrow> string list \<Rightarrow> ('w wstate, XMRTransfer list) go" where
  "sweep_receipts W c numConfirmations accountIdx n [] = ret []"
| "sweep_receipts W c numConfirmations accountIdx n (txID # txIDs) =
     bnd (wrapping (''sweep of TXID='' @ txID @ '' failed waiting for receipt: '') []
           (waitForReceipt W c txID numConfirmations accountIdx n)) (\<lambda>receipt.
     andthen (lift (FmtPiconeroAsXMR (we_apd W) (XT_Amount receipt)))
     (andthen (lift (FmtPiconeroAsXMR (we_apd W) (XT_Fee receipt)))
     (bnd (sweep_receipts W c numConfirmations accountIdx n txIDs) (\<lambda>transfers. ret (receipt # transfers)))))"

definition walletClient_SweepAll ::
    "'w walletenv \<Rightarrow> walletClient \<Rightarrow> MoneroAddress \<Rightarrow> 32 word \<Rightarrow> uint64 \<Rightarrow> nat \<Rightarrow> ('w wstate, XMRTransfer list) go" where
  "walletClient_SweepAll W c to accountIdx numConfirmations n =
     bnd (wrapping ''sweep operation failed to get address: '' [] (walletClient_GetAddress W c accountIdx)) (\<lambda>from.
     bnd (wrapping ''sweep operation failed to get balance: '' [] (walletClient_GetBalance W c accountIdx)) (\<lambda>balance.
     andthen (lift (FmtPiconeroAsXMR (we_apd W) (XB_Balance balance)))
     (if XB_Balance balance = 0 then fail (Errorf (''sweep from '' @ from @ '' failed, no balance to sweep''))
      else
        andthen
          (if 0 < XB_BlocksToUnlock balance
           then bnd (wrapping ''sweep operation failed waiting to unlock balance: '' []
                  (WaitForBlocks W c (sint (XB_BlocksToUnlock balance)) n)) (\<lambda>_. ret ())
           else ret ())
        (bnd (lift (Address_String (we_base58 W) to)) (\<lambda>addr.
         andthen (record_wact (Sweep_Requested (wc_endpoint c) accountIdx addr))
         (bnd (wrapping (''sweep_all from '' @ from @ '' failed: '') [] (external (w_SweepAll (we_rpc W) (wc_endpoint c) accountIdx addr))) (\<lambda>txIDs.
          sweep_receipts W c numConfirmations accountIdx n txIDs)))))))"

section \<open>Creating clients\<close>

text \<open>\<open>c.Close(); return nil, err\<close> after a step that fails.\<close>

definition closing :: "'w walletenv \<Rightarrow> walletClient \<Rightarrow> ('w wstate, 'a) go \<Rightarrow> ('w wstate, 'a) go" where
  "closing W c m = bnd (attempt m) (\<lambda>r. case r of Inl e \<Rightarrow> andthen (walletClient_Close W c) (fail e) | Inr x \<Rightarrow> ret x)"

definition walletClient_CreateWallet :: "'w walletenv \<Rightarrow> walletClient \<Rightarrow> string \<Rightarrow> string \<Rightarrow> ('w wstate, unit) go" where
  "walletClient_CreateWallet W c filename password =
     external (w_CreateWallet (we_rpc W) (wc_endpoint c) filename password ''English'')"

definition NewWalletClient :: "'w walletenv \<Rightarrow> WalletClientConf \<Rightarrow> ('w wstate, walletClient) go" where
  "NewWalletClient W conf =
     (if path_Dir (cf_WalletFilePath conf) = ''.''
      then fail (Errorf ''wallet file cannot be in the current working directory'')
      else
        bnd (Fill W conf) (\<lambda>conf.
        bnd (FileExists W (cf_WalletFilePath conf)) (\<lambda>walletExists.
        let isNewWallet = \<not> walletExists; validatedNode = hd (cf_MonerodNodes conf) in
        bnd (createWalletRPCService W (cf_Env conf) (cf_MoneroWalletRPCPath conf) (cf_WalletPort conf)
               (path_Dir (cf_WalletFilePath conf)) (cf_LogPath conf) validatedNode) (\<lambda>proc.
        let c = (NewThinWalletClient (Node_Host validatedNode) (Node_Port validatedNode) (cf_WalletPort conf))\<lparr>wc_rpcProcess := Some proc\<rparr>;
            walletName = path_Base (cf_WalletFilePath conf) in
        andthen
          (if isNewWallet then closing W c (walletClient_CreateWallet W c walletName (cf_WalletPassword conf))
           else closing W c (external (w_OpenWallet (we_rpc W) (wc_endpoint c) walletName (cf_WalletPassword conf))))
        (bnd (closing W c (walletClient_GetAddress W c 0)) (\<lambda>addr.
         bnd (closing W c (lift (NewAddress (we_crypt W) (we_base58 W) addr (cf_Env conf)))) (\<lambda>walletAddr.
         ret (c\<lparr>wc_walletAddr := Some walletAddr, wc_conf := Some conf\<rparr>))))))))"

definition PrimaryAddress :: "walletClient \<Rightarrow> MoneroAddress outcome" where
  "PrimaryAddress c = (case wc_walletAddr c of
     None \<Rightarrow> Panic ''primary wallet address was not initialised'' | Some a \<Rightarrow> Ok a)"

definition CreateWalletConf :: "'w walletenv \<Rightarrow> walletClient \<Rightarrow> string \<Rightarrow> ('w wstate, WalletClientConf) go" where
  "CreateWalletConf W c walletNamePrefix =
     (case wc_conf c of
        None \<Rightarrow> panic ''nil pointer dereference''
      | Some conf \<Rightarrow>
          bnd (gets (\<lambda>s. os_Now (we_os W) (wal_world s))) (\<lambda>now.
          ret (conf\<lparr>cf_WalletFilePath := path_Join [path_Dir (cf_WalletFilePath conf), walletNamePrefix @ ''-'' @ now], cf_WalletPort := 0\<rparr>)))"

definition generateFromKeys ::
    "'w walletenv \<Rightarrow> walletClient \<Rightarrow> PrivateSpendKey option \<Rightarrow> PrivateViewKey \<Rightarrow> MoneroAddress \<Rightarrow> uint64 \<Rightarrow> string \<Rightarrow> string
     \<Rightarrow> ('w wstate, unit) go" where
  "generateFromKeys W c sk vk addr restoreHeight filename password =
     (let spendKey = (case sk of None \<Rightarrow> [] | Some k \<Rightarrow> hex_EncodeToString k) in
      bnd (lift (Address_String (we_base58 W) addr)) (\<lambda>addrStr.
      bnd (external (w_GenerateFromKeys (we_rpc W) (wc_endpoint c)
        \<lparr>GK_Filename = filename, GK_Address = addrStr, GK_RestoreHeight = restoreHeight, GK_Viewkey = hex_EncodeToString vk,
         GK_Spendkey = spendKey, GK_Password = password\<rparr>)) (\<lambda>info.
      let expectedMessage = (if spendKey = [] then ''Watch-only wallet has been generated successfully.''
        else ''Wallet has been generated successfully.'') in
      if info \<noteq> expectedMessage then fail (Errorf (''got unexpected Info string: '' @ info)) else ret ())))"

definition createWalletFromKeys ::
    "'w walletenv \<Rightarrow> WalletClientConf \<Rightarrow> uint64 \<Rightarrow> PrivateSpendKey option \<Rightarrow> PrivateViewKey \<Rightarrow> MoneroAddress
     \<Rightarrow> ('w wstate, walletClient) go" where
  "createWalletFromKeys W conf walletRestoreHeight privateSpendKey privateViewKey addr =
     bnd (if cf_WalletPort conf = 0
          then bnd (GetFreeTCPPort W) (\<lambda>p. ret (conf\<lparr>cf_WalletPort := p\<rparr>)) else ret conf) (\<lambda>conf.
     case cf_MonerodNodes conf of
       [] \<Rightarrow> panic ''index out of range''
     | monerodNode # _ \<Rightarrow>
         bnd (createWalletRPCService W (cf_Env conf) (cf_MoneroWalletRPCPath conf) (cf_WalletPort conf)
                (path_Dir (cf_WalletFilePath conf)) (cf_LogPath conf) monerodNode) (\<lambda>proc.
         let c = (NewThinWalletClient (Node_Host monerodNode) (Node_Port monerodNode) (cf_WalletPort conf))
               \<lparr>wc_rpcProcess := Some proc, wc_conf := Some conf\<rparr> in
         andthen (closing W c (generateFromKeys W c privateSpendKey privateViewKey addr walletRestoreHeight
               (path_Base (cf_WalletFilePath conf)) (cf_WalletPassword conf)))
         (bnd (closing W c (walletClient_GetAddress W c 0)) (\<lambda>acct.
          bnd (closing W c (lift (NewAddress (we_crypt W) (we_base58 W) acct (cf_Env conf)))) (\<lambda>walletAddr.
          let c = c\<lparr>wc_walletAddr := Some walletAddr\<rparr> in
          andthen
            (closing W c (if \<not> Address_Equal walletAddr (Some addr)
               then fail (Errorf ''provided address does not match monero-wallet-rpc computed address'') else ret ()))
          (bnd (closing W c (walletClient_GetBalance W c 0)) (\<lambda>bal.
           andthen (lift (FmtPiconeroAsXMR (we_apd W) (XB_Balance bal))) (ret c))))))))"

definition CreateSpendWalletFromKeys ::
    "'w walletenv \<Rightarrow> WalletClientConf \<Rightarrow> PrivateKeyPair \<Rightarrow> uint64 \<Rightarrow> ('w wstate, walletClient) go" where
  "CreateSpendWalletFromKeys W conf kp restoreHeight =
     bnd (lift (PublicKeyPair_Address (we_crypt W) (cf_Env conf) (PublicKeyPair_of (we_crypt W) kp))) (\<lambda>addr.
     createWalletFromKeys W conf restoreHeight (Some (SpendKey kp)) (ViewKey kp) addr)"

definition CreateViewOnlyWalletFromKeys ::
    "'w walletenv \<Rightarrow> WalletClientConf \<Rightarrow> PrivateViewKey \<Rightarrow> MoneroAddress \<Rightarrow> uint64 \<Rightarrow> ('w wstate, walletClient) go" where
  "CreateViewOnlyWalletFromKeys W conf vk addr restoreHeight = createWalletFromKeys W conf restoreHeight None vk addr"

section \<open>Processes of wallets are not leaked\<close>

text \<open>
  \<open>guarded A p R m\<close>: started with the log \<open>A\<close>, \<open>m\<close> returns a value satisfying \<open>R\<close> and leaves the log, or fails
  and has closed the process \<open>p\<close>.
\<close>

definition guarded :: "wact list \<Rightarrow> nat \<Rightarrow> ('a \<Rightarrow> bool) \<Rightarrow> ('w wstate, 'a) go \<Rightarrow> bool" where
  "guarded A p R m \<longleftrightarrow> (\<forall>s r s'. wal_acts s = A \<and> m s = (r, s') \<longrightarrow>
     (case r of Ok x \<Rightarrow> wal_acts s' = A \<and> R x | Err e \<Rightarrow> wal_acts s' = Process_Closed p # A | _ \<Rightarrow> True))"

text \<open>\<open>silent m\<close>: \<open>m\<close> neither starts nor closes a process nor moves money.\<close>

definition silent :: "('w wstate, 'a) go \<Rightarrow> bool" where
  "silent m \<longleftrightarrow> (\<forall>A. keeps (\<lambda>s. wal_acts s = A) m)"

named_theorems silent_rules

lemma silentD: "silent m \<Longrightarrow> m s = (r, s') \<Longrightarrow> wal_acts s' = wal_acts s"
  using keepsD [of "\<lambda>t. wal_acts t = wal_acts s" m s r s'] by (simp add: silent_def)

lemma silent_basic [silent_rules]: "silent (ret x)" "silent (fail e)" "silent (panic t)" "silent block" "silent (lift r)" "silent (gets f)" "silent (external g)"
  by (auto simp: silent_def keeps_def external_def ret_def fail_def panic_def block_def lift_def gets_def split: prod.split)

lemma silent_bnd [silent_rules]: "silent m \<Longrightarrow> (\<And>x. silent (k x)) \<Longrightarrow> silent (bnd m k)"
  by (simp add: silent_def keeps_bnd)

lemma silent_wrap [silent_rules]: "silent m \<Longrightarrow> silent (attempt m)" "silent m \<Longrightarrow> silent (wrapping a b m)" "silent m \<Longrightarrow> silent (ignore_err m)"
  by (simp_all add: silent_def keeps_rules)

lemma silent_if [silent_rules]: "silent m \<Longrightarrow> silent n \<Longrightarrow> silent (if b then m else n)"
  by simp

lemma silent_client [silent_rules]:
  "silent (walletClient_refresh W c)" "silent (walletClient_GetAddress W c i)" "silent (walletClient_GetBalance W c i)"
  "silent (walletClient_GetHeight W c)" "silent (getChainHeight W c)" "silent (walletClient_CreateWallet W c f pw)"
  "silent (generateFromKeys W c sk vk a h f pw)" "silent (GetFreeTCPPort W)" "silent (FileExists W f)"
  by (auto simp: walletClient_refresh_def walletClient_GetAddress_def walletClient_GetBalance_def walletClient_GetHeight_def
      getChainHeight_def walletClient_CreateWallet_def generateFromKeys_def GetFreeTCPPort_def FileExists_def Let_def
      intro!: silent_rules split: sum.split)

lemma silent_find_node [silent_rules]: "silent (find_node W env err ns)"
  by (induction ns arbitrary: err)
    (auto simp: validateMonerodNode_def Let_def intro!: silent_rules split: sum.split Environment.split)

lemma silent_Fill [silent_rules]: "silent (Fill W conf)"
  by (auto simp: Fill_def findWorkingNode_def getMoneroWalletRPCBin_def Let_def intro!: silent_rules split: sum.split)

lemma guardedD:
  assumes "guarded A p R m" "wal_acts s = A" "m s = (r, s')"
  shows "case r of Ok x \<Rightarrow> wal_acts s' = A \<and> R x | Err e \<Rightarrow> wal_acts s' = Process_Closed p # A | _ \<Rightarrow> True"
  using assms by (simp add: guarded_def)

lemma guarded_bnd:
  assumes "guarded A p R1 m" "\<And>x. R1 x \<Longrightarrow> guarded A p R (k x)"
  shows "guarded A p R (bnd m k)"
  unfolding guarded_def
proof (intro allI impI, elim conjE)
  fix s r s' assume s: "wal_acts s = A" and run: "bnd m k s = (r, s')"
  obtain q s1 where m: "m s = (q, s1)" by force
  note first = guardedD [OF assms(1) s m]
  show "case r of Ok x \<Rightarrow> wal_acts s' = A \<and> R x | Err e \<Rightarrow> wal_acts s' = Process_Closed p # A | _ \<Rightarrow> True"
  proof (cases q)
    case (Ok x)
    then have "guarded A p R (k x)" "wal_acts s1 = A" using assms(2) first by simp_all
    from guardedD [OF this] show ?thesis using run m Ok by (simp add: bnd_def)
  qed (use first run m in \<open>auto simp: bnd_def\<close>)
qed

lemma guarded_ret: "R x \<Longrightarrow> guarded A p R (ret x)"
  by (simp add: guarded_def ret_def)

lemma Close_acts: "wc_rpcProcess c = Some p \<Longrightarrow> walletClient_Close W c s = (r, s') \<Longrightarrow> wal_acts s' = Process_Closed p # wal_acts s"
proof -
  assume c: "wc_rpcProcess c = Some p" and run: "walletClient_Close W c s = (r, s')"
  let ?k = "bnd (attempt (external (w_StopWallet (we_rpc W) (wc_endpoint c)))) (\<lambda>r.
      bnd (case r of Inl e \<Rightarrow> attempt (external (os_Kill (we_os W) p)) | Inr _ \<Rightarrow> ret (Inr ())) (\<lambda>r. case r of
        Inl e \<Rightarrow> ret () | Inr _ \<Rightarrow> ignore_err (external (os_Wait (we_os W) p))))"
  have "silent ?k" by (auto intro!: silent_rules split: sum.split)
  moreover have "?k (s\<lparr>wal_acts := Process_Closed p # wal_acts s\<rparr>) = (r, s')"
    using run c by (simp add: walletClient_Close_def record_wact_def bnd_def modify_def)
  ultimately show ?thesis by (auto dest: silentD)
qed

lemma guarded_closing:
  assumes "wc_rpcProcess c = Some p" "silent m" "\<And>s x s'. m s = (Ok x, s') \<Longrightarrow> R x"
  shows "guarded A p R (closing W c m)"
  unfolding guarded_def
proof (intro allI impI)
  fix s r s' assume run: "wal_acts s = A \<and> closing W c m s = (r, s')"
  obtain q s1 where m: "m s = (q, s1)" by force
  then have A: "wal_acts s1 = A" using silentD [OF assms(2)] run by auto
  show "case r of Ok x \<Rightarrow> wal_acts s' = A \<and> R x | Err e \<Rightarrow> wal_acts s' = Process_Closed p # A | _ \<Rightarrow> True"
  proof (cases q)
    case (Err e)
    obtain q2 s2 where "walletClient_Close W c s1 = (q2, s2)" by force
    moreover from this have "wal_acts s2 = Process_Closed p # A" using Close_acts [OF assms(1)] A by blast
    ultimately show ?thesis
      using run m Err by (cases q2) (auto simp: closing_def bnd_def attempt_def fail_def)
  qed (use run m A assms(3) in \<open>auto simp: closing_def bnd_def attempt_def ret_def\<close>)
qed

lemma FmtPiconeroAsXMR_no_err: "FmtPiconeroAsXMR A u \<noteq> Err e"
  by (cases "apd_NewFromString A (show_nat (unat u))")
    (simp_all add: FmtPiconeroAsXMR_def NewPiconeroAmount_def AsMoneroString_def AsMonero_def decreaseExponent_def Let_def)


lemma guarded_Fmt: "guarded A p (\<lambda>_. True) (lift (FmtPiconeroAsXMR Z u))"
  by (auto simp: guarded_def lift_def FmtPiconeroAsXMR_no_err split: outcome.split)

lemma started_acts:
  assumes "andthen (record_wact (Process_Started p)) (andthen (ignore_err (external f)) (ret p)) s = (r, s')"
  shows "case r of Ok q \<Rightarrow> q = p \<and> wal_acts s' = Process_Started p # wal_acts s | Err e \<Rightarrow> False | _ \<Rightarrow> True"
  using assms by (auto simp: bnd_def record_wact_def modify_def ignore_err_def attempt_def external_def ret_def split: prod.splits outcome.splits)

lemma launch_acts:
  assumes "createWalletRPCService W env bin port dir lg node s = (r, s')"
  shows "case r of Ok p \<Rightarrow> wal_acts s' = Process_Started p # wal_acts s | Err e \<Rightarrow> wal_acts s' = wal_acts s | _ \<Rightarrow> True"
proof (cases "getWalletRPCFlags env port dir lg node")
  case (Ok args)
  let ?m = "launchMoneroWalletRPCChild W bin args"
  obtain q s1 where run: "?m s = (q, s1)" by force
  obtain q0 s0 where start: "external (os_Start (we_os W) bin args) s = (q0, s0)" by force
  then have s0: "wal_acts s0 = wal_acts s" by (rule silentD [rotated]) (rule silent_rules)
  have "case q of Ok p \<Rightarrow> wal_acts s1 = Process_Started p # wal_acts s | Err e \<Rightarrow> wal_acts s1 = wal_acts s | _ \<Rightarrow> True"
  proof (cases q0)
    case (Ok pl)
    obtain pid ls where pl: "pl = (pid, ls)" by force
    let ?dead = "andthen (ignore_err (external (os_Wait (we_os W) pid))) (fail (Errorf ''failed to start monero-wallet-rpc''))"
    have dead: "silent ?dead" by (intro silent_rules)
    have "?dead t \<noteq> (Ok (p :: nat), t')" for t :: "'a wstate" and p t'
      by (auto simp: bnd_def fail_def split: prod.split outcome.split)
    then show ?thesis
      using run start Ok pl s0 silentD [OF dead, of s0 q s1] started_acts [of pid _ s0 q s1]
      by (cases q; cases "\<exists>line\<in>set ls. HasSuffix line ''Starting wallet RPC server''")
        (auto simp: launchMoneroWalletRPCChild_def bnd_def [of "external _"])
  qed (use run start s0 in \<open>auto simp: launchMoneroWalletRPCChild_def bnd_def\<close>)
  then show ?thesis
    using assms run Ok by (cases q) (auto simp: createWalletRPCService_def bnd_def lift_def wrapping_def)
qed (use assms in \<open>auto simp: createWalletRPCService_def bnd_def lift_def\<close>)

text \<open>What a constructor leaves in the log: a running process that its client owns, or none.\<close>

definition process_owned :: "('a \<Rightarrow> nat \<Rightarrow> bool) \<Rightarrow> ('w wstate, 'a) go \<Rightarrow> bool" where
  "process_owned R m \<longleftrightarrow> (\<forall>s r s'. m s = (r, s') \<longrightarrow>
     (case r of
        Ok c \<Rightarrow> \<exists>p. wal_acts s' = Process_Started p # wal_acts s \<and> R c p
      | Err e \<Rightarrow> wal_acts s' = wal_acts s \<or> (\<exists>p. wal_acts s' = Process_Closed p # Process_Started p # wal_acts s)
      | _ \<Rightarrow> True))"

lemma process_owned_silent:
  assumes "silent m" "\<And>x. process_owned R (k x)" shows "process_owned R (bnd m k)"
  unfolding process_owned_def
proof (intro allI impI)
  fix s r s' assume run: "bnd m k s = (r, s')"
  obtain q s1 where m: "m s = (q, s1)" by force
  then have s1: "wal_acts s1 = wal_acts s" using silentD [OF assms(1)] by blast
  show "case r of
        Ok c \<Rightarrow> \<exists>p. wal_acts s' = Process_Started p # wal_acts s \<and> R c p
      | Err e \<Rightarrow> wal_acts s' = wal_acts s \<or> (\<exists>p. wal_acts s' = Process_Closed p # Process_Started p # wal_acts s)
      | _ \<Rightarrow> True"
  proof (cases q)
    case (Ok x)
    then have "k x s1 = (r, s')" using run m by (simp add: bnd_def)
    from assms(2) [unfolded process_owned_def, rule_format, OF this] show ?thesis by (simp only: s1)
  qed (use run m s1 in \<open>auto simp: bnd_def\<close>)
qed

lemma process_owned_launch:
  assumes "\<And>p A. guarded A p (\<lambda>c. R c p) (k p)"
  shows "process_owned R (bnd (createWalletRPCService W env bin port dir lg node) k)"
  unfolding process_owned_def
proof (intro allI impI)
  fix s r s' assume run: "bnd (createWalletRPCService W env bin port dir lg node) k s = (r, s')"
  obtain q s1 where m: "createWalletRPCService W env bin port dir lg node s = (q, s1)" by force
  note launched = launch_acts [OF m]
  show "case r of
        Ok c \<Rightarrow> \<exists>p. wal_acts s' = Process_Started p # wal_acts s \<and> R c p
      | Err e \<Rightarrow> wal_acts s' = wal_acts s \<or> (\<exists>p. wal_acts s' = Process_Closed p # Process_Started p # wal_acts s)
      | _ \<Rightarrow> True"
  proof (cases q)
    case (Ok p)
    with launched have "wal_acts s1 = Process_Started p # wal_acts s" by simp
    moreover have "k p s1 = (r, s')" using run m Ok by (simp add: bnd_def)
    ultimately show ?thesis using guardedD [OF assms, of s1 _ p r s'] by (cases r) auto
  qed (use run m launched in \<open>auto simp: bnd_def\<close>)
qed

lemma process_owned_fail: "process_owned R (fail e)"
  by (simp add: process_owned_def fail_def)

lemma process_owned_panic: "process_owned R (panic t)"
  by (simp add: process_owned_def panic_def)

lemmas owned_rules = process_owned_silent process_owned_launch process_owned_fail process_owned_panic

lemma guarded_equal:
  assumes "wc_rpcProcess c = Some p"
  shows "guarded A p (\<lambda>_. a = b) (closing W c (if \<not> Address_Equal a (Some b) then fail e else ret ()))"
proof (rule guarded_closing [OF assms])
  show "silent (if \<not> Address_Equal a (Some b) then fail e else ret ())" by (intro silent_rules)
qed (auto simp: Address_Equal_def fail_def split: if_splits)

lemma guarded_plain: "wc_rpcProcess c = Some p \<Longrightarrow> silent m \<Longrightarrow> guarded A p (\<lambda>_. True) (closing W c m)"
  by (rule guarded_closing) simp_all

lemmas guarded_rules = guarded_bnd [OF guarded_equal] guarded_bnd [OF guarded_plain] guarded_bnd [OF guarded_Fmt] guarded_ret

lemma createWalletFromKeys_owned:
  "process_owned (\<lambda>c p. wc_rpcProcess c = Some p \<and> wc_walletAddr c = Some addr) (createWalletFromKeys W conf h sk vk addr)"
  unfolding createWalletFromKeys_def Let_def
proof (intro process_owned_silent)
  show "silent (if cf_WalletPort conf = 0 then bnd (GetFreeTCPPort W) (\<lambda>p. ret (conf\<lparr>cf_WalletPort := p\<rparr>)) else ret conf)"
    by (intro silent_rules)
qed (auto intro!: process_owned_launch process_owned_panic guarded_rules silent_rules split: list.split)

lemma NewWalletClient_owned:
  "process_owned (\<lambda>c p. wc_rpcProcess c = Some p \<and> wc_walletAddr c \<noteq> None) (NewWalletClient W conf)"
  unfolding NewWalletClient_def Let_def
  by (auto intro!: owned_rules guarded_rules silent_rules)

lemma process_owned_lift:
  "(\<And>x. r = Ok x \<Longrightarrow> process_owned R (k x)) \<Longrightarrow> process_owned R (bnd (lift r) k)"
  by (cases r) (auto simp: process_owned_def bnd_def lift_def)


section \<open>Transfers are confirmed\<close>

text \<open>
  What is relied on of the network, for a client \<open>c\<close> and until \<open>N\<close> sleeps have passed: the chain never shrinks, there is
  a block within \<open>k\<close> sleeps, and calls and sleeps succeed. \<open>cv_slept\<close> counts the sleeps and \<open>cv_idle\<close> those since
  the last block.
\<close>

record 'w chain_view =
  cv_height :: "'w \<Rightarrow> nat"
  cv_idle :: "'w \<Rightarrow> nat"
  cv_slept :: "'w \<Rightarrow> nat"

definition passes :: "'w chain_view \<Rightarrow> nat \<Rightarrow> 'w \<Rightarrow> 'w \<Rightarrow> bool" where
  "passes C d w w' \<longleftrightarrow> cv_slept C w' = cv_slept C w + d \<and>
     (cv_height C w < cv_height C w' \<or> cv_height C w' = cv_height C w \<and> cv_idle C w' = cv_idle C w + d)"

definition answers :: "'w chain_view \<Rightarrow> nat \<Rightarrow> ('w \<Rightarrow> 'a \<Rightarrow> 'w \<Rightarrow> bool) \<Rightarrow> ('w, 'a) go \<Rightarrow> bool" where
  "answers C N R f \<longleftrightarrow> (\<forall>w. cv_slept C w \<le> N \<longrightarrow> (\<exists>x w'. f w = (Ok x, w') \<and> passes C 0 w w' \<and> R w x w'))"

definition live_chain :: "'w walletenv \<Rightarrow> walletClient \<Rightarrow> 'w chain_view \<Rightarrow> nat \<Rightarrow> nat \<Rightarrow> bool" where
  "live_chain W c C k N \<longleftrightarrow>
     (\<forall>w. cv_slept C w \<le> N \<longrightarrow> cv_idle C w < k \<and> cv_height C w + 1 < 2 ^ 64) \<and>
     answers C N (\<lambda>w x w'. x = of_nat (cv_height C w')) (d_GetBlockCount (we_rpc W) (wc_monerod c)) \<and>
     answers C N (\<lambda>_ _ _. True) (w_Refresh (we_rpc W) (wc_endpoint c)) \<and>
     answers C N (\<lambda>_ _ _. True) (w_GetHeight (we_rpc W) (wc_endpoint c)) \<and>
     (\<forall>w. cv_slept C w < N \<longrightarrow> (\<exists>w'. os_Sleep (we_os W) blockSleepDuration w = (Ok (), w') \<and> passes C 1 w w'))"

text \<open>The wallet finds the transaction, and from height \<open>b\<close> on reports it as mined with \<open>conf\<close> confirmations.\<close>

definition confirms :: "'w walletenv \<Rightarrow> walletClient \<Rightarrow> 'w chain_view \<Rightarrow> nat \<Rightarrow> string \<Rightarrow> 32 word \<Rightarrow> uint64 \<Rightarrow> nat \<Rightarrow> bool" where
  "confirms W c C N txID acct conf b \<longleftrightarrow>
     answers C N (\<lambda>w t w'. b \<le> cv_height C w \<longrightarrow> 0 < XT_Height t \<and> conf \<le> XT_Confirmations t)
       (w_GetTransferByTxid (we_rpc W) (wc_endpoint c) txID acct)"

lemma external_Ok: "f (wal_world s) = (r, w) \<Longrightarrow> external f s = (r, s\<lparr>wal_world := w\<rparr>)"
  by (simp add: external_def)

lemma answersD:
  assumes "answers C N R f" "cv_slept C (wal_world s) \<le> N"
  shows "\<exists>x w'. external f s = (Ok x, s\<lparr>wal_world := w'\<rparr>) \<and> passes C 0 (wal_world s) w' \<and> R (wal_world s) x w'"
  using assms external_Ok [of f s] unfolding answers_def by blast

lemma chain_height:
  assumes "live_chain W c C k N" "cv_slept C (wal_world s) \<le> N"
  shows "\<exists>w'. getChainHeight W c s = (Ok (of_nat (cv_height C w')), s\<lparr>wal_world := w'\<rparr>) \<and> passes C 0 (wal_world s) w' \<and>
    unat (of_nat (cv_height C w') :: uint64) = cv_height C w' \<and> unat (of_nat (cv_height C w') + 1 :: uint64) = cv_height C w' + 1"
proof -
  obtain w' where w': "getChainHeight W c s = (Ok (of_nat (cv_height C w')), s\<lparr>wal_world := w'\<rparr>)" "passes C 0 (wal_world s) w'"
    using answersD [OF _ assms(2)] assms(1) unfolding getChainHeight_def live_chain_def by blast
  then have "cv_height C w' + 1 < 2 ^ 64" using assms by (simp add: passes_def live_chain_def)
  then have small: "m mod 2 ^ 64 = m" if "m \<le> Suc (cv_height C w')" for m using that by (intro mod_less) simp
  have "unat (of_nat (Suc (cv_height C w')) :: uint64) = Suc (cv_height C w')"
    "unat (of_nat (cv_height C w') :: uint64) = cv_height C w'"
    using small [of "cv_height C w'"] small [of "Suc (cv_height C w')"] by (simp_all only: unat_of_nat) simp_all
  moreover have "(of_nat (cv_height C w') + 1 :: uint64) = of_nat (Suc (cv_height C w'))" by (simp only: of_nat_Suc add.commute)
  ultimately show ?thesis using w' by (intro exI [of _ w']) (simp add: add.commute)
qed

lemma wait_blocks_returns:
  assumes "live_chain W c C k N" and "unat e \<le> cv_height C (wal_world s) + 1"
    and "d = (if unat e \<le> cv_height C (wal_world s) then 0 else k - cv_idle C (wal_world s))"
    and "d < n" and "cv_slept C (wal_world s) + d \<le> N"
  shows "\<exists>h s'. wait_blocks W c e n s = (Ok h, s') \<and> unat e \<le> cv_height C (wal_world s') \<and>
    cv_slept C (wal_world s') \<le> cv_slept C (wal_world s) + d"
  using assms(2-5)
proof (induction n arbitrary: s d)
  case (Suc n)
  have N: "cv_slept C (wal_world s) \<le> N" using Suc.prems(4) by simp
  obtain w1 where w1: "getChainHeight W c s = (Ok (of_nat (cv_height C w1)), s\<lparr>wal_world := w1\<rparr>)" "passes C 0 (wal_world s) w1"
      "unat (of_nat (cv_height C w1) :: uint64) = cv_height C w1"
    using chain_height [OF assms(1) N] by blast
  show ?case
  proof (cases "unat e \<le> cv_height C w1")
    case True
    have "answers C N (\<lambda>_ _ _. True) (w_Refresh (we_rpc W) (wc_endpoint c))" "cv_slept C (wal_world (s\<lparr>wal_world := w1\<rparr>)) \<le> N"
      using assms(1) w1(2) N by (simp_all add: live_chain_def passes_def)
    from answersD [OF this] obtain w2 where "walletClient_refresh W c (s\<lparr>wal_world := w1\<rparr>) = (Ok (), s\<lparr>wal_world := w2\<rparr>)" "passes C 0 w1 w2"
      by (auto simp: walletClient_refresh_def)
    with True w1 show ?thesis by (auto simp: bnd_def ret_def word_le_nat_alt passes_def)
  next
    case False
    then have same: "cv_height C w1 = cv_height C (wal_world s)" "cv_idle C w1 = cv_idle C (wal_world s)"
        "cv_slept C w1 = cv_slept C (wal_world s)" "d = k - cv_idle C w1"
      using w1(2) Suc.prems(1,2) by (auto simp: passes_def)
    have "cv_idle C w1 < k" using assms(1) N same(3) by (simp add: live_chain_def)
    then have "cv_slept C w1 < N" using Suc.prems(4) same by simp
    then obtain w2 where w2: "os_Sleep (we_os W) blockSleepDuration w1 = (Ok (), w2)" "passes C 1 w1 w2"
      using assms(1) unfolding live_chain_def by blast
    let ?s2 = "s\<lparr>wal_world := w2\<rparr>"
    have sleep: "external (os_Sleep (we_os W) blockSleepDuration) (s\<lparr>wal_world := w1\<rparr>) = (Ok (), ?s2)"
      using external_Ok [of "os_Sleep (we_os W) blockSleepDuration" "s\<lparr>wal_world := w1\<rparr>"] w2(1) by simp
    define d2 where "d2 = (if unat e \<le> cv_height C (wal_world ?s2) then 0 else k - cv_idle C (wal_world ?s2))"
    have next_round: "unat e \<le> cv_height C (wal_world ?s2) + 1" "d2 < n" "cv_slept C (wal_world ?s2) + d2 \<le> N"
        "cv_slept C (wal_world ?s2) + d2 \<le> cv_slept C (wal_world s) + d"
      using w2(2) same Suc.prems False \<open>cv_idle C w1 < k\<close> by (auto simp: passes_def d2_def)
    obtain h s' where "wait_blocks W c e n ?s2 = (Ok h, s')" "unat e \<le> cv_height C (wal_world s')"
        "cv_slept C (wal_world s') \<le> cv_slept C (wal_world ?s2) + d2"
      using Suc.IH [OF next_round(1) d2_def next_round(2,3)] by blast
    with next_round(4) False w1 show ?thesis by (simp add: sleep bnd_def word_le_nat_alt)
  qed
qed simp

lemma WaitForBlocks_returns:
  assumes "live_chain W c C k N" "k < n" "cv_slept C (wal_world s) + k \<le> N"
  shows "\<exists>h s'. WaitForBlocks W c 1 n s = (Ok h, s') \<and> cv_height C (wal_world s) < cv_height C (wal_world s') \<and>
    cv_slept C (wal_world s') \<le> cv_slept C (wal_world s) + k"
proof -
  obtain w1 where w1: "getChainHeight W c s = (Ok (of_nat (cv_height C w1)), s\<lparr>wal_world := w1\<rparr>)" "passes C 0 (wal_world s) w1"
      "unat (of_nat (cv_height C w1) + 1 :: uint64) = cv_height C w1 + 1"
    using chain_height [OF assms(1)] assms(3) by (meson add_leD1)
  have "k - cv_idle C w1 < n" "cv_slept C w1 + (k - cv_idle C w1) \<le> N" using assms(2,3) w1(2) by (auto simp: passes_def)
  then obtain h s' where "wait_blocks W c (of_nat (cv_height C w1) + 1) n (s\<lparr>wal_world := w1\<rparr>) = (Ok h, s')"
      "cv_height C w1 + 1 \<le> cv_height C (wal_world s')" "cv_slept C (wal_world s') \<le> cv_slept C w1 + (k - cv_idle C w1)"
    using wait_blocks_returns [OF assms(1), of "of_nat (cv_height C w1) + 1" "s\<lparr>wal_world := w1\<rparr>" "k - cv_idle C w1" n] by (auto simp: w1(3))
  then show ?thesis using w1(2) by (auto simp: WaitForBlocks_def bnd_def wrapping_def w1(1) passes_def)
qed

lemma receipt_loop_returns:
  assumes "live_chain W c C k N" "k < m" "confirms W c C N txID acct conf b"
    and "b - cv_height C (wal_world s) < n" "cv_slept C (wal_world s) + k * (b - cv_height C (wal_world s)) \<le> N"
  shows "\<exists>t s'. receipt_loop W c txID conf acct m n s = (Ok t, s')"
  using assms(4,5)
proof (induction n arbitrary: s)
  case (Suc n)
  obtain t w1 where t: "external (w_GetTransferByTxid (we_rpc W) (wc_endpoint c) txID acct) s = (Ok t, s\<lparr>wal_world := w1\<rparr>)"
      "passes C 0 (wal_world s) w1" "b \<le> cv_height C (wal_world s) \<longrightarrow> 0 < XT_Height t \<and> conf \<le> XT_Confirmations t"
    using answersD [OF assms(3) [unfolded confirms_def]] Suc.prems(2) by (meson add_leD1)
  show ?case
  proof (cases "0 < XT_Height t \<and> conf \<le> XT_Confirmations t")
    case False
    then obtain g where g: "b - cv_height C (wal_world s) = Suc g" using t(3) by (cases "b - cv_height C (wal_world s)") auto
    then have room: "cv_slept C w1 + k + k * g \<le> N" using Suc.prems(2) t(2) by (simp add: passes_def)
    obtain h s2 where wait: "WaitForBlocks W c 1 m (s\<lparr>wal_world := w1\<rparr>) = (Ok h, s2)" "cv_height C w1 < cv_height C (wal_world s2)"
        "cv_slept C (wal_world s2) \<le> cv_slept C w1 + k"
      using WaitForBlocks_returns [OF assms(1,2), of "s\<lparr>wal_world := w1\<rparr>"] room by auto
    have le: "b - cv_height C (wal_world s2) \<le> g" using wait(2) t(2) g by (auto simp: passes_def)
    then have "k * (b - cv_height C (wal_world s2)) \<le> k * g" by (rule mult_le_mono2)
    then have "b - cv_height C (wal_world s2) < n" "cv_slept C (wal_world s2) + k * (b - cv_height C (wal_world s2)) \<le> N"
      using le g Suc.prems(1) room wait(3) by linarith+
    then obtain t' s' where "receipt_loop W c txID conf acct m n s2 = (Ok t', s')" using Suc.IH by blast
    with False show ?thesis by (auto simp: t(1) wait(1) bnd_def)
  qed (simp add: t(1) bnd_def ret_def)
qed simp

lemma receipt_loop_confirmed:
  "receipt_loop W c txID conf acct m n s = (Ok t, s') \<Longrightarrow> 0 < XT_Height t \<and> conf \<le> XT_Confirmations t"
  by (induction n arbitrary: s) (auto simp: run_Ok block_def split: if_splits)

lemma silent_wait_blocks [silent_rules]: "silent (wait_blocks W c e n)"
  by (induction n) (auto intro!: silent_rules)

lemma silent_receipt_loop [silent_rules]: "silent (receipt_loop W c txID conf acct m n)"
  by (induction n) (auto simp: WaitForBlocks_def intro!: silent_rules)

lemma waitForReceipt_returns:
  assumes "live_chain W c C k N" "confirms W c C N txID acct conf b" "k < n" "b < n" "cv_slept C (wal_world s) + k * b \<le> N"
  shows "\<exists>t s'. waitForReceipt W c txID conf acct n s = (Ok t, s')"
proof -
  have N: "cv_slept C (wal_world s) \<le> N" using assms(5) by simp
  have R: "answers C N (\<lambda>_ _ _. True) (w_Refresh (we_rpc W) (wc_endpoint c))"
    and G: "answers C N (\<lambda>_ _ _. True) (w_GetHeight (we_rpc W) (wc_endpoint c))"
    using assms(1) by (simp_all add: live_chain_def)
  obtain w1 where w1: "walletClient_refresh W c s = (Ok (), s\<lparr>wal_world := w1\<rparr>)" "passes C 0 (wal_world s) w1"
    using answersD [OF R N] by (auto simp: walletClient_refresh_def)
  then have "cv_slept C (wal_world (s\<lparr>wal_world := w1\<rparr>)) \<le> N" using N by (simp add: passes_def)
  from answersD [OF G this] obtain h w2 where w2: "external (w_GetHeight (we_rpc W) (wc_endpoint c)) (s\<lparr>wal_world := w1\<rparr>) =
      (Ok h, s\<lparr>wal_world := w2\<rparr>)" "passes C 0 w1 w2" by auto
  have "k * (b - cv_height C w2) \<le> k * b" by (rule mult_le_mono2) simp
  moreover have "cv_slept C w2 = cv_slept C (wal_world s)" using w1(2) w2(2) by (simp add: passes_def)
  ultimately have "cv_slept C w2 + k * (b - cv_height C w2) \<le> N" using assms(5) by linarith
  then obtain t s' where "receipt_loop W c txID conf acct n n (s\<lparr>wal_world := w2\<rparr>) = (Ok t, s')"
    using receipt_loop_returns [OF assms(1,3,2), of "s\<lparr>wal_world := w2\<rparr>" n] less_imp_diff_less [OF assms(4)] by auto
  then show ?thesis using w1(1) w2(1) by (simp add: waitForReceipt_def walletClient_GetHeight_def bnd_def)
qed

text \<open>The wallet accepts the request and answers with the transaction's identifier.\<close>

definition accepts_transfer :: "'w walletenv \<Rightarrow> walletClient \<Rightarrow> 'w chain_view \<Rightarrow> nat \<Rightarrow> uint64 \<Rightarrow> string \<Rightarrow> 32 word \<Rightarrow> string \<Rightarrow> bool" where
  "accepts_transfer W c C N amt addr acct txID \<longleftrightarrow>
     answers C N (\<lambda>_ x _. x = txID) (w_Transfer (we_rpc W) (wc_endpoint c) amt addr acct)"

text \<open>The amounts and the address can be written, which only fails for numbers beyond the limits of the decimals.\<close>

definition printable :: "'w walletenv \<Rightarrow> PiconeroAmount \<Rightarrow> uint64 \<Rightarrow> MoneroAddress \<Rightarrow> string \<Rightarrow> bool" where
  "printable W amount amt to addr \<longleftrightarrow> PiconeroAmount_Uint64 (we_apd W) amount = Inr amt \<and> Address_String (we_base58 W) to = Ok addr \<and>
     (\<exists>str. AsMoneroString (we_apd W) amount = Ok str) \<and> (\<forall>u. \<exists>x. FmtPiconeroAsXMR (we_apd W) u = Ok x)"

lemma bnd_lift: "bnd (lift (Ok x)) k s = k x s" "bnd (lift (Err e)) k s = (Err e, s)" "bnd (lift (Panic t)) k s = (Panic t, s)"
  "bnd (lift Block) k s = (Block, s)"
  by (simp_all add: bnd_def lift_def)

lemma bnd_wact: "bnd (record_wact a) k s = k () (s\<lparr>wal_acts := a # wal_acts s\<rparr>)"
  by (simp add: bnd_def record_wact_def modify_def)

lemma Transfer_acts:
  assumes "walletClient_Transfer W c to acct amount conf n s = (r, s')"
  shows "wal_acts s' = wal_acts s \<and> (\<forall>t. r \<noteq> Ok t) \<or> (\<exists>amt addr. PiconeroAmount_Uint64 (we_apd W) amount = Inr amt \<and>
    Address_String (we_base58 W) to = Ok addr \<and> wal_acts s' = Transfer_Requested (wc_endpoint c) amt addr acct # wal_acts s)"
proof (cases "PiconeroAmount_Uint64 (we_apd W) amount")
  case amt: (Inr amt)
  show ?thesis
  proof (cases "AsMoneroString (we_apd W) amount")
    case str: (Ok str)
    show ?thesis
    proof (cases "Address_String (we_base58 W) to")
      case (Ok addr)
      let ?k = "bnd (wrapping ''transfer failed: '' [] (external (w_Transfer (we_rpc W) (wc_endpoint c) amt addr acct))) (\<lambda>txHash.
        bnd (wrapping (''monero TXID='' @ txHash @ '' receipt failure: '') [] (waitForReceipt W c txHash conf acct n)) (\<lambda>transfer.
        andthen (lift (FmtPiconeroAsXMR (we_apd W) (XT_Fee transfer))) (ret transfer)))"
      have "silent ?k" by (auto simp: waitForReceipt_def intro!: silent_rules)
      moreover have "?k (s\<lparr>wal_acts := Transfer_Requested (wc_endpoint c) amt addr acct # wal_acts s\<rparr>) = (r, s')"
        using assms amt str Ok by (simp add: walletClient_Transfer_def bnd_lift bnd_wact)
      ultimately show ?thesis using amt Ok by (auto dest: silentD)
    qed (use assms amt str in \<open>auto simp: walletClient_Transfer_def bnd_lift\<close>)
  qed (use assms amt in \<open>auto simp: walletClient_Transfer_def bnd_lift\<close>)
qed (use assms in \<open>auto simp: walletClient_Transfer_def bnd_lift\<close>)

lemma Transfer_returns:
  assumes "live_chain W c C k N" "confirms W c C N txID acct conf b" "k < n" "b < n" "cv_slept C (wal_world s) + k * b \<le> N"
    and "printable W amount amt to addr" "accepts_transfer W c C N amt addr acct txID"
  shows "\<exists>t s'. walletClient_Transfer W c to acct amount conf n s = (Ok t, s')"
proof -
  let ?s1 = "s\<lparr>wal_acts := Transfer_Requested (wc_endpoint c) amt addr acct # wal_acts s\<rparr>"
  have "cv_slept C (wal_world ?s1) \<le> N" using assms(5) by simp
  from answersD [OF assms(7) [unfolded accepts_transfer_def] this] obtain w2 where
    sent: "external (w_Transfer (we_rpc W) (wc_endpoint c) amt addr acct) ?s1 = (Ok txID, ?s1\<lparr>wal_world := w2\<rparr>)"
    and "passes C 0 (wal_world s) w2" by auto
  then have "cv_slept C (wal_world (?s1\<lparr>wal_world := w2\<rparr>)) + k * b \<le> N" using assms(5) by (simp add: passes_def)
  then obtain t s' where wait: "waitForReceipt W c txID conf acct n (?s1\<lparr>wal_world := w2\<rparr>) = (Ok t, s')"
    using waitForReceipt_returns [OF assms(1-4)] by blast
  obtain x str where "FmtPiconeroAsXMR (we_apd W) (XT_Fee t) = Ok x" "AsMoneroString (we_apd W) amount = Ok str"
    using assms(6) unfolding printable_def by blast
  then show ?thesis
    using assms(6) sent wait
    by (simp add: walletClient_Transfer_def printable_def bnd_lift bnd_wact) (simp add: bnd_def lift_def wrapping_def ret_def)
qed

text \<open>
  C27: a transfer of XMR asks the wallet for exactly one transaction, of exactly the given amount to the given address, or
  fails before it asks for any. It returns only when the wallet reports that transaction as mined and with
  the wanted number of confirmations. On a chain with a block within \<open>k\<close> sleeps it does return: when the
  confirmations are reached at height \<open>b\<close>, in at most \<open>k * b\<close> sleeps and in \<open>n\<close> rounds of its loops for every
  \<open>n\<close> above \<open>k\<close> and \<open>b\<close>.
\<close>

theorem transfer_confirmed:
  assumes "walletClient_Transfer W c to acct amount conf n s = (r, s')"
  shows "(wal_acts s' = wal_acts s \<and> (\<forall>t. r \<noteq> Ok t) \<or> (\<exists>amt addr. PiconeroAmount_Uint64 (we_apd W) amount = Inr amt \<and>
      Address_String (we_base58 W) to = Ok addr \<and> wal_acts s' = Transfer_Requested (wc_endpoint c) amt addr acct # wal_acts s)) \<and>
    (\<forall>t. r = Ok t \<longrightarrow> 0 < XT_Height t \<and> conf \<le> XT_Confirmations t) \<and>
    (live_chain W c C k N \<and> confirms W c C N txID acct conf b \<and> k < n \<and> b < n \<and> cv_slept C (wal_world s) + k * b \<le> N \<and>
      printable W amount amt to addr \<and> accepts_transfer W c C N amt addr acct txID \<longrightarrow> (\<exists>t. r = Ok t))"
proof (intro conjI impI)
  have "0 < XT_Height t \<and> conf \<le> XT_Confirmations t" if "r = Ok t" for t
    using assms that by (auto simp: walletClient_Transfer_def waitForReceipt_def run_Ok dest: receipt_loop_confirmed)
  then show "\<forall>t. r = Ok t \<longrightarrow> 0 < XT_Height t \<and> conf \<le> XT_Confirmations t" by blast
next
  assume "live_chain W c C k N \<and> confirms W c C N txID acct conf b \<and> k < n \<and> b < n \<and> cv_slept C (wal_world s) + k * b \<le> N \<and>
      printable W amount amt to addr \<and> accepts_transfer W c C N amt addr acct txID"
  then show "\<exists>t. r = Ok t" using assms Transfer_returns [of W c C k N txID acct conf b n s amount amt to addr] by auto
qed (rule Transfer_acts [OF assms])

text \<open>A chain with a block per sleep, on which the transaction has three confirmations from height 5 on.\<close>

definition demo_rpc :: "nat monerorpc" where
  "demo_rpc = \<lparr>w_GetBalance = (\<lambda>e i. ret \<lparr>XB_Balance = 5, XB_BlocksToUnlock = 0\<rparr>), w_Refresh = (\<lambda>e. ret ()), w_GetHeight = (\<lambda>e. gets of_nat),
     w_GetTransferByTxid = (\<lambda>e x i. gets (\<lambda>h. \<lparr>XT_TxID = x, XT_Height = (if h < 2 then 0 else 2), XT_Confirmations = of_nat (h - 2), XT_Amount = 5, XT_Fee = 1\<rparr>)),
     w_Transfer = (\<lambda>e amt to i. ret ''tx''), w_SweepAll = (\<lambda>e i to. ret [''tx'']), w_GetAddress = (\<lambda>e i. ret []), w_OpenWallet = (\<lambda>e f p. ret ()),
     w_CreateWallet = (\<lambda>e f p l. ret ()), w_GenerateFromKeys = (\<lambda>e q. ret []), w_StopWallet = (\<lambda>e. ret ()), d_GetBlockCount = (\<lambda>e. gets of_nat),
     d_GetInfo = (\<lambda>e. ret \<lparr>NI_Stagenet = True, NI_Mainnet = False, NI_NetType = [], NI_Offline = False, NI_Synchronized = True\<rparr>)\<rparr>"

definition demo_os :: "nat os" where
  "demo_os = \<lparr>os_Start = (\<lambda>b args. ret (1, [])), os_Kill = (\<lambda>p. ret ()), os_Wait = (\<lambda>p. ret ()), os_Remove = (\<lambda>f. ret ()), os_Stat = (\<lambda>f. ret False),
     os_LookPath = (\<lambda>f. ret f), os_Listen = ret 1, os_Sleep = (\<lambda>d h. if h < 100 then (Ok (), h + 1) else (Err (Errorf ''context canceled''), h)), os_Now = (\<lambda>h. [])\<rparr>"

definition demo_walletenv :: "nat walletenv" where
  "demo_walletenv = \<lparr>we_rpc = demo_rpc, we_os = demo_os, we_apd = ref_apd\<lparr>apd_NewFromString := (\<lambda>s. Inr new_decimal), apd_Text := (\<lambda>d. ''5'')\<rparr>,
     we_crypt = demo_crypt, we_base58 = ref_base58\<rparr>"

definition demo_view :: "nat chain_view" where
  "demo_view = \<lparr>cv_height = id, cv_idle = (\<lambda>h. 0), cv_slept = id\<rparr>"

definition demo_client :: walletClient where
  "demo_client = NewThinWalletClient ''127.0.0.1'' 18081 18083"

lemmas demo_wallet_defs = demo_walletenv_def demo_rpc_def demo_os_def demo_view_def

lemma demo_live: "live_chain demo_walletenv demo_client demo_view 1 100"
  by (auto simp: live_chain_def answers_def passes_def demo_wallet_defs ret_def gets_def)

lemma demo_confirms: "confirms demo_walletenv demo_client demo_view 100 ''tx'' 0 3 5"
proof -
  have "3 \<le> (of_nat (h - 2) :: uint64)" if "5 \<le> h" "h \<le> 100" for h
    using that unat_of_nat [of "h - 2", where 'a = 64] by (simp add: word_le_nat_alt)
  then show ?thesis by (auto simp: confirms_def answers_def passes_def demo_wallet_defs gets_def)
qed

lemma demo_prints: "\<exists>addr. printable demo_walletenv new_decimal 5 demo_address addr"
proof -
  obtain addr where "Address_String ref_base58 demo_address = Ok addr"
    using address_roundtrip [OF ref_base58_laws demo_address_valid(1)] by (auto simp: Address_String_def)
  then show ?thesis
    by (auto simp: printable_def demo_walletenv_def PiconeroAmount_Uint64_def PiconeroAmount_String_def ParseUint64_def new_decimal_def
        AsMoneroString_def AsMonero_def decreaseExponent_def FmtPiconeroAsXMR_def NewPiconeroAmount_def Let_def NumMoneroDecimals_def)
qed

theorem transfer_confirmed_witness:
  "\<exists>t. fst (walletClient_Transfer demo_walletenv demo_client demo_address 0 new_decimal 3 6 \<lparr>wal_world = 0, wal_acts = []\<rparr>) = Ok t \<and>
     3 \<le> XT_Confirmations t"
proof -
  let ?s = "\<lparr>wal_world = 0, wal_acts = []\<rparr>"
  obtain r s' where run: "walletClient_Transfer demo_walletenv demo_client demo_address 0 new_decimal 3 6 ?s = (r, s')" by force
  obtain addr where "printable demo_walletenv new_decimal 5 demo_address addr" using demo_prints by blast
  moreover have "accepts_transfer demo_walletenv demo_client demo_view 100 5 addr 0 ''tx''"
    by (simp add: accepts_transfer_def answers_def passes_def demo_wallet_defs ret_def)
  moreover have "cv_slept demo_view (wal_world ?s) + 1 * 5 \<le> 100" by (simp add: demo_view_def)
  ultimately have "\<exists>t. r = Ok t"
    using transfer_confirmed [OF run, THEN conjunct2, THEN conjunct2, of demo_view 1 100 "''tx''" 5 5 addr] demo_live demo_confirms by simp
  then show ?thesis using run transfer_confirmed [OF run, THEN conjunct2, THEN conjunct1] by auto
qed

end
