(* ===== verification/Rpc_Swap.thy ===== *)
theory Rpc_Swap
  imports Demo_Backend
begin

text \<open>
  The RPC methods on swaps (\<open>rpc/swap.go\<close>) over the manager, the recovery database and the contract, and the
  price feed behind the suggested exchange rate (\<open>pricefeed/pricefeed.go\<close>). The methods that only pass a call
  on to the network or to the maker are those calls. Slices made by iterating over a map have the order of
  the iteration as an argument, and \<open>sort.Slice\<close>, which need not be stable, is the stable sort.
\<close>

section \<open>Listing swaps\<close>

record PastSwap =
  PS_ID :: hash
  PS_Provided :: ProvidesCoin
  PS_EthAsset :: EthAsset
  PS_ProvidedAmount :: decimal
  PS_ExpectedAmount :: decimal
  PS_RelayerFee :: "decimal option"
  PS_ExchangeRate :: ExchangeRate
  PS_Status :: Status
  PS_StartTime :: go_time
  PS_EndTime :: "go_time option"

definition PastSwap_of :: "Info \<Rightarrow> PastSwap" where
  "PastSwap_of info =
     \<lparr>PS_ID = OfferID info, PS_Provided = Info_Provides info, PS_EthAsset = Info_EthAsset info, PS_ProvidedAmount = ProvidedAmount info,
      PS_ExpectedAmount = ExpectedAmount info, PS_RelayerFee = RelayerFee info, PS_ExchangeRate = Info_ExchangeRate info,
      PS_Status = Info_Status info, PS_StartTime = StartTime info, PS_EndTime = EndTime info\<rparr>"

primrec past_infos :: "'d swapdb \<Rightarrow> hash list \<Rightarrow> ('d manager, Info list) go" where
  "past_infos D [] = ret []"
| "past_infos D (i # ids) =
     bnd (wrapping ''failed to get past swap %s: '' [] (GetPastSwap D i)) (\<lambda>p.
     bnd (gets (\<lambda>m. heap m p)) (\<lambda>info. bnd (past_infos D ids) (\<lambda>infos. ret (info # infos))))"

definition GetPast :: "'d swapdb \<Rightarrow> (hash set \<Rightarrow> hash list) \<Rightarrow> hash option \<Rightarrow> ('d manager, PastSwap list) go" where
  "GetPast D order req =
     bnd (case req of
            None \<Rightarrow> bnd (GetPastIDs D) (\<lambda>ids. past_infos D (order ids))
          | Some i \<Rightarrow> bnd (GetPastSwap D i) (\<lambda>p. bnd (gets (\<lambda>m. heap m p)) (\<lambda>info. ret [info]))) (\<lambda>infos.
     ret (sort_key (\<lambda>s. - PS_StartTime s) (map PastSwap_of infos)))"

definition estimatedTimeToCompletionForStatus :: "Environment \<Rightarrow> Status \<Rightarrow> int result" where
  "estimatedTimeToCompletionForStatus env status =
     (let (moneroBlockTime, ethBlockTime) = (case env of
            Development \<Rightarrow> (1000000000, 1000000000) | _ \<Rightarrow> (120 * 1000000000, 12 * 1000000000)) in
      case status of
        ExpectingKeys \<Rightarrow> Inr (moneroBlockTime * 12 + ethBlockTime * 6)
      | KeysExchanged \<Rightarrow> Inr (moneroBlockTime * 10 + ethBlockTime * 6)
      | ETHLocked \<Rightarrow> Inr (moneroBlockTime * 12 + ethBlockTime * 4)
      | XMRLocked \<Rightarrow> Inr (moneroBlockTime * 10 + ethBlockTime * 4)
      | ContractReady \<Rightarrow> Inr (moneroBlockTime * 2 + ethBlockTime * 2)
      | SweepingXMR \<Rightarrow> Inr (moneroBlockTime * 2)
      | _ \<Rightarrow> Inl (Errorf ''invalid status %s; must be ongoing status type''))"

text \<open>\<open>d.Round(m)\<close> for a duration that is not negative.\<close>

definition Duration_Round :: "int \<Rightarrow> int \<Rightarrow> int" where
  "Duration_Round d m = (let r = d mod m in if r + r < m then d - r else d + (m - r))"

definition estimatedTimeToCompletion :: "Environment \<Rightarrow> Status \<Rightarrow> go_time \<Rightarrow> go_time \<Rightarrow> int result" where
  "estimatedTimeToCompletion env status lastStatusUpdateTime tnow =
     (if 0 < time_Sub lastStatusUpdateTime tnow then Inl (Errorf ''last status update time must be less than now'')
      else case estimatedTimeToCompletionForStatus env status of
        Inl e \<Rightarrow> Inl e
      | Inr timeForStatus \<Rightarrow>
          let estimatedTime = timeForStatus - time_Sub tnow lastStatusUpdateTime in
          if estimatedTime < 0 then Inr 0 else Inr (Duration_Round estimatedTime 1000000000))"

record OngoingSwap =
  OS_ID :: hash
  OS_Provided :: ProvidesCoin
  OS_EthAsset :: EthAsset
  OS_ProvidedAmount :: decimal
  OS_ExpectedAmount :: decimal
  OS_ExchangeRate :: ExchangeRate
  OS_Status :: Status
  OS_LastStatusUpdateTime :: go_time
  OS_StartTime :: go_time
  OS_Timeout1 :: "go_time option"
  OS_Timeout2 :: "go_time option"
  OS_EstimatedTimeToCompletion :: int

definition OngoingSwap_of :: "Info \<Rightarrow> int \<Rightarrow> OngoingSwap" where
  "OngoingSwap_of info est =
     \<lparr>OS_ID = OfferID info, OS_Provided = Info_Provides info, OS_EthAsset = Info_EthAsset info, OS_ProvidedAmount = ProvidedAmount info,
      OS_ExpectedAmount = ExpectedAmount info, OS_ExchangeRate = Info_ExchangeRate info, OS_Status = Info_Status info,
      OS_LastStatusUpdateTime = LastStatusUpdateTime info, OS_StartTime = StartTime info, OS_Timeout1 = Info_Timeout1 info,
      OS_Timeout2 = Info_Timeout2 info, OS_EstimatedTimeToCompletion = est\<rparr>"

primrec ongoing_infos :: "Environment \<Rightarrow> go_time \<Rightarrow> Info list \<Rightarrow> OngoingSwap list result" where
  "ongoing_infos env tnow [] = Inr []"
| "ongoing_infos env tnow (info # infos) =
     (case estimatedTimeToCompletion env (Info_Status info) (LastStatusUpdateTime info) tnow of
        Inl e \<Rightarrow> Inl (Wrapf ''failed to estimate time to completion for swap %s: '' e [])
      | Inr est \<Rightarrow> (case ongoing_infos env tnow infos of Inl e \<Rightarrow> Inl e | Inr sws \<Rightarrow> Inr (OngoingSwap_of info est # sws)))"

definition GetOngoing ::
    "(Info \<Rightarrow> Info result) \<Rightarrow> Environment \<Rightarrow> go_time \<Rightarrow> hash list \<Rightarrow> hash option \<Rightarrow> ('d manager, OngoingSwap list) go" where
  "GetOngoing copy env tnow order req =
     bnd (case req of
            None \<Rightarrow> GetOngoingSwapsSnapshot copy order
          | Some i \<Rightarrow> bnd (GetOngoingSwapSnapshot copy i) (\<lambda>info. ret [info])) (\<lambda>infos.
     bnd (lift (of_result (ongoing_infos env tnow infos))) (\<lambda>sws.
     ret (sort_key (\<lambda>s. - OS_StartTime s) sws)))"

definition GetStatus :: "(Info \<Rightarrow> Info result) \<Rightarrow> hash \<Rightarrow> ('d manager, Status \<times> string \<times> go_time) go" where
  "GetStatus copy i =
     bnd (GetOngoingSwapSnapshot copy i) (\<lambda>info.
     ret (Info_Status info, Status_Description (Info_Status info), StartTime info))"

section \<open>Manual claims and refunds\<close>

text \<open>\<open>[32]byte(common.Reverse(secret.Bytes()))\<close>; the conversion panics on a shorter slice.\<close>

definition contract_secret :: "PrivateSpendKey \<Rightarrow> hash outcome" where
  "contract_secret sk =
     (let b = Reverse sk in if length b < 32 then Panic ''cannot convert slice to array'' else Ok (bytes_hash (take 32 b)))"

definition SwapService_Claim :: "('w, 'k) backend \<Rightarrow> hash \<Rightarrow> (('w, 'k, 'z) daemon_scheme, hash) go" where
  "SwapService_Claim B i =
     bnd (recovery (GetContractSwapInfo (b_chaindb B) (b_codecs B) i)) (\<lambda>contractSwapInfo.
     bnd (recovery (GetSwapPrivateKey (b_chaindb B) (b_codecs B) i)) (\<lambda>secret.
     bnd (TxOpts (b_node B)) (\<lambda>opts.
     bnd (lift (contract_secret secret)) (\<lambda>s.
     perform (ClaimTx (SwapCreatorAddr contractSwapInfo) (EthInfo_Swap contractSwapInfo) s)
       (sc_Claim (b_node B) (SwapCreatorAddr contractSwapInfo) opts (EthInfo_Swap contractSwapInfo) s)))))"

definition SwapService_Refund :: "('w, 'k) backend \<Rightarrow> hash \<Rightarrow> (('w, 'k, 'z) daemon_scheme, hash) go" where
  "SwapService_Refund B i =
     bnd (recovery (GetContractSwapInfo (b_chaindb B) (b_codecs B) i)) (\<lambda>contractSwapInfo.
     bnd (recovery (GetSwapPrivateKey (b_chaindb B) (b_codecs B) i)) (\<lambda>secret.
     bnd (TxOpts (b_node B)) (\<lambda>opts.
     bnd (lift (contract_secret secret)) (\<lambda>s.
     perform (RefundTx (SwapCreatorAddr contractSwapInfo) (EthInfo_Swap contractSwapInfo) s)
       (sc_Refund (b_node B) (SwapCreatorAddr contractSwapInfo) opts (EthInfo_Swap contractSwapInfo) s)))))"

section \<open>The suggested exchange rate\<close>

record PriceFeed =
  PF_Description :: string
  PF_Price :: decimal
  PF_UpdatedAt :: go_time

text \<open>
  The Chainlink proxies, and dialling another endpoint, which gives the connection used from then on: each call
  names the endpoint, \<open>None\<close> being the node of the daemon.
\<close>

record 'w chainlink =
  cl_Getenv :: "'w \<Rightarrow> string"
  cl_Dial :: "string \<Rightarrow> ('w, unit) go"
  cl_LatestRoundData :: "string option \<Rightarrow> string \<Rightarrow> ('w, int \<times> int) go"
  cl_Decimals :: "string option \<Rightarrow> string \<Rightarrow> ('w, 8 word) go"
  cl_Description :: "string option \<Rightarrow> string \<Rightarrow> ('w, string) go"

definition fallbackOptimismEndpoint :: string where
  "fallbackOptimismEndpoint = ''https://optimism.blockpi.network/v1/rpc/public''"

definition chainlinkETHToUSDProxy :: string where
  "chainlinkETHToUSDProxy = ''0x13e3ee699d1909e989722e753853ae30b17e08c5''"

definition chainlinkXMRToUSDProxy :: string where
  "chainlinkXMRToUSDProxy = ''0x2a8d91686a048e98e6ccf1a89e82f40d14312672''"

definition errUnsupportedNetwork :: goerr where
  "errUnsupportedNetwork = Sentinel ''errUnsupportedNetwork'' ''unsupported network''"

definition getOptimismEndpoint :: "'w chainlink \<Rightarrow> ('w, 'z) host_scheme \<Rightarrow> string" where
  "getOptimismEndpoint L s =
     (let endpoint = cl_Getenv L (world s) in if endpoint = [] then fallbackOptimismEndpoint else endpoint)"

definition getChainlinkPriceFeed :: "apd \<Rightarrow> 'w chainlink \<Rightarrow> string \<Rightarrow> string option \<Rightarrow> (('w, 'z) host_scheme, PriceFeed) go" where
  "getChainlinkPriceFeed A L feedAddress ec =
     bnd (query (cl_LatestRoundData L ec feedAddress)) (\<lambda>(answer, updatedAt).
     bnd (query (cl_Decimals L ec feedAddress)) (\<lambda>decimals.
     bnd (query (cl_Description L ec feedAddress)) (\<lambda>description.
     ret \<lparr>PF_Description = description, PF_Price = apd_Reduce A (apd_NewWithBigInt A answer (- ucast decimals)),
          PF_UpdatedAt = time_Unix updatedAt\<rparr>)))"

text \<open>The two functions differ in the contract and in what they return on a development chain.\<close>

definition price_feed ::
    "apd \<Rightarrow> 'w node \<Rightarrow> 'w chainlink \<Rightarrow> string \<Rightarrow> string \<Rightarrow> decimal \<Rightarrow> (('w, 'z) host_scheme, PriceFeed) go" where
  "price_feed A N L proxy fake_desc fake =
     bnd (query (n_ChainID N)) (\<lambda>cid.
     let c = cid mod 2 ^ 64 in
     if c = 10 then getChainlinkPriceFeed A L proxy None
     else if c = 1 \<or> c = 11155111 then
       bnd (gets (getOptimismEndpoint L)) (\<lambda>endpoint.
       andthen (query (cl_Dial L endpoint)) (getChainlinkPriceFeed A L proxy (Some endpoint)))
     else if c = 1337 \<or> c = 31337 then
       bnd (gets (\<lambda>s. n_clock N (world s))) (\<lambda>t. ret \<lparr>PF_Description = fake_desc, PF_Price = fake, PF_UpdatedAt = t\<rparr>)
     else fail errUnsupportedNetwork)"

definition GetETHUSDPrice :: "apd \<Rightarrow> 'w node \<Rightarrow> 'w chainlink \<Rightarrow> (('w, 'z) host_scheme, PriceFeed) go" where
  "GetETHUSDPrice A N L =
     price_feed A N L chainlinkETHToUSDProxy ''ETH / USD (fake)'' (apd_NewWithBigInt A 123412345678 (- 8))"

definition GetXMRUSDPrice :: "apd \<Rightarrow> 'w node \<Rightarrow> 'w chainlink \<Rightarrow> (('w, 'z) host_scheme, PriceFeed) go" where
  "GetXMRUSDPrice A N L =
     price_feed A N L chainlinkXMRToUSDProxy ''XMR / USD (fake)'' (apd_NewWithBigInt A 12312345678 (- 8))"

definition SuggestedExchangeRate ::
    "apd \<Rightarrow> 'w node \<Rightarrow> 'w chainlink \<Rightarrow> (('w, 'z) host_scheme, PriceFeed \<times> PriceFeed \<times> ExchangeRate) go" where
  "SuggestedExchangeRate A N L =
     bnd (GetXMRUSDPrice A N L) (\<lambda>xmrFeed.
     bnd (GetETHUSDPrice A N L) (\<lambda>ethFeed.
     bnd (lift (CalcExchangeRate A (PF_Price xmrFeed) (PF_Price ethFeed))) (\<lambda>rate. ret (xmrFeed, ethFeed, rate))))"

section \<open>What a manual claim or refund sends\<close>

text \<open>What both methods read: the database answers from the recovery table and leaves its contents.\<close>

lemma recovery_get_run:
  assumes "chaindb_laws C"
  shows "\<exists>k'. recovery (recovery_get_struct C J i q) d = (fst (recovery_get_struct C J i q (mgr_db (mgr d))), d\<lparr>mgr := (mgr d)\<lparr>mgr_db := k'\<rparr>\<rparr>) \<and>
    content C k' = content C (mgr_db (mgr d))"
proof -
  obtain r k' where g: "recovery_get_struct C J i q (mgr_db (mgr d)) = (r, k')" by force
  have "wp (recovery_get_struct C J i q) (\<lambda>_ k'. content C k' = content C (mgr_db (mgr d))) (mgr_db (mgr d))"
    unfolding recovery_get_struct_def by (simp add: wp_rules, rule wp_Get [OF assms]) (auto simp: wp_rules)
  with g have "content C k' = content C (mgr_db (mgr d))" by (simp add: wp_def)
  moreover have "recovery (recovery_get_struct C J i q) d = (r, d\<lparr>mgr := (mgr d)\<lparr>mgr_db := k'\<rparr>\<rparr>)"
    using g by (simp add: recovery_def on_mgr_def call_db_def)
  ultimately show ?thesis using g by (intro exI [of _ k']) simp
qed

definition signer_opts :: "'w node \<Rightarrow> ethClient \<Rightarrow> TransactOpts option" where
  "signer_opts N c = (case ethPrivKey c of None \<Rightarrow> None | Some key \<Rightarrow> (case n_NewTransactor N key (chainID c) of
     Inl e \<Rightarrow> None | Inr from \<Rightarrow> Some \<lparr>Opts_From = from, Opts_Value = None, Opts_GasPrice = gasPrice c, Opts_GasLimit = gasLimit c\<rparr>))"

lemma TxOpts_run: "signer_opts N (ethc d) = Some opts \<Longrightarrow> TxOpts N d = (Ok opts, d)"
  by (auto simp: signer_opts_def TxOpts_def bnd_def gets_def ret_def split: option.splits sum.splits)

lemma manual_transaction_run:
  assumes "chaindb_laws C" "rv_ethinfo (recovered C Z (mgr_db (mgr d)) i) = Ok eth" "rv_privkey (recovered C Z (mgr_db (mgr d)) i) = Ok sk"
    and "signer_opts N (ethc d) = Some opts" "contract_secret sk = Ok secret"
    and "\<And>g. ethc g = ethc d \<Longrightarrow> world g = world d \<Longrightarrow> trace g = trace d \<Longrightarrow> P (k eth opts secret g)"
  shows "P (bnd (recovery (GetContractSwapInfo C Z i)) (\<lambda>info. bnd (recovery (GetSwapPrivateKey C Z i)) (\<lambda>key.
    bnd (TxOpts N) (\<lambda>o'. bnd (lift (contract_secret key)) (\<lambda>s. k info o' s)))) d)"
proof -
  obtain k1 where k1: "recovery (GetContractSwapInfo C Z i) d = (Ok eth, d\<lparr>mgr := (mgr d)\<lparr>mgr_db := k1\<rparr>\<rparr>)"
      "content C k1 = content C (mgr_db (mgr d))"
    using recovery_get_run [OF assms(1), of "z_ethinfo Z" i contractSwapInfoPrefix d] assms(2)
    by (auto simp: GetContractSwapInfo_def recovered_def)
  let ?d1 = "d\<lparr>mgr := (mgr d)\<lparr>mgr_db := k1\<rparr>\<rparr>"
  have "fst (GetSwapPrivateKey C Z i k1) = Ok sk"
    using assms(3) k1(2) by (simp add: recovered_def GetSwapPrivateKey_def get_struct_result [OF assms(1)])
  then obtain k2 where "recovery (GetSwapPrivateKey C Z i) ?d1 = (Ok sk, ?d1\<lparr>mgr := (mgr ?d1)\<lparr>mgr_db := k2\<rparr>\<rparr>)"
    using recovery_get_run [OF assms(1), of "z_spendkey Z" i swapPrivateKeyPrefix ?d1] by (auto simp: GetSwapPrivateKey_def)
  moreover have "TxOpts N (?d1\<lparr>mgr := (mgr ?d1)\<lparr>mgr_db := k2\<rparr>\<rparr>) = (Ok opts, ?d1\<lparr>mgr := (mgr ?d1)\<lparr>mgr_db := k2\<rparr>\<rparr>)"
    using assms(4) by (intro TxOpts_run) simp
  ultimately show ?thesis
    using assms(6) [of "?d1\<lparr>mgr := (mgr ?d1)\<lparr>mgr_db := k2\<rparr>\<rparr>"] by (simp add: bnd_def k1(1) assms(5) lift_def)
qed

text \<open>
  C23: a swap can be recovered by hand. When the recovery table has the contract's data and the party's key, the RPC
  methods \<open>refund\<close> and \<open>claim\<close> send exactly one transaction, with the stored swap and the stored key as the secret, to the
  stored contract, and answer what the node answers. In every reachable state of the contract in which the
  swap is uncompleted, that refund succeeds for its owner from timeout 2 on, and that claim for its
  claimer in the claim window, and they pay the whole amount.
\<close>

theorem manual_recovery:
  assumes "chaindb_laws (b_chaindb B)"
    and "rv_ethinfo (recovered (b_chaindb B) (b_codecs B) (mgr_db (mgr d)) i) = Ok eth"
    and "rv_privkey (recovered (b_chaindb B) (b_codecs B) (mgr_db (mgr d)) i) = Ok sk" "length sk = 32"
    and "signer_opts (b_node B) (ethc d) = Some opts" "secret = bytes_hash (Reverse sk)" "s = contract_swap (EthInfo_Swap eth)"
    and "standard_tokens E" "inj_on (swapID_of E) (tx_swap ` set ts)" "\<forall>t\<in>set ts. sender (tx_msg t) \<noteq> a"
    and "c = run_txs E (deployed a l) ts" "s \<in> tx_swap ` set ts" "asset s = 0"
    and "swaps c (swapID_of E s) = PENDING \<or> swaps c (swapID_of E s) = READY"
  shows "(fst (SwapService_Refund B i d) = fst (sc_Refund (b_node B) (SwapCreatorAddr eth) opts (EthInfo_Swap eth) secret (world d)) \<and>
      (\<exists>k. trace (snd (SwapService_Refund B i d)) = (RefundTx (SwapCreatorAddr eth) (EthInfo_Swap eth) secret, k) # trace d) \<and>
      (sender m = owner s \<and> owner s \<noteq> a \<and> timeout2 s \<le> timestamp m \<and> mulVerify E secret (refundCommitment s) \<and>
        accepts_ether E (owner s) (unat (amount s)) \<longrightarrow>
       (\<exists>c'. refund E c m s secret = Inr c' \<and> balances c' 0 (owner s) = balances c 0 (owner s) + unat (amount s)))) \<and>
    (fst (SwapService_Claim B i d) = fst (sc_Claim (b_node B) (SwapCreatorAddr eth) opts (EthInfo_Swap eth) secret (world d)) \<and>
      (\<exists>k. trace (snd (SwapService_Claim B i d)) = (ClaimTx (SwapCreatorAddr eth) (EthInfo_Swap eth) secret, k) # trace d) \<and>
      (sender m = claimer s \<and> claimer s \<noteq> a \<and> timestamp m < timeout2 s \<and> mulVerify E secret (claimCommitment s) \<and>
        (swaps c (swapID_of E s) = READY \<or> timeout1 s \<le> timestamp m) \<and> accepts_ether E (claimer s) (unat (amount s)) \<longrightarrow>
       (\<exists>c'. claim E c m s secret = Inr c' \<and> balances c' 0 (claimer s) = balances c 0 (claimer s) + unat (amount s))))"
proof -
  note held = uncompleted_held [OF assms(8-12,14)]
  have sec: "contract_secret sk = Ok secret" using assms(4,6) by (simp add: contract_secret_def Reverse_eq_rev)
  have ref: "fst (SwapService_Refund B i d) = fst (sc_Refund (b_node B) (SwapCreatorAddr eth) opts (EthInfo_Swap eth) secret (world d)) \<and>
      (\<exists>k. trace (snd (SwapService_Refund B i d)) = (RefundTx (SwapCreatorAddr eth) (EthInfo_Swap eth) secret, k) # trace d)"
    unfolding SwapService_Refund_def
    by (rule manual_transaction_run [OF assms(1-3,5) sec]) (simp add: perform_def query_def split: prod.split)
  have cla: "fst (SwapService_Claim B i d) = fst (sc_Claim (b_node B) (SwapCreatorAddr eth) opts (EthInfo_Swap eth) secret (world d)) \<and>
      (\<exists>k. trace (snd (SwapService_Claim B i d)) = (ClaimTx (SwapCreatorAddr eth) (EthInfo_Swap eth) secret, k) # trace d)"
    unfolding SwapService_Claim_def
    by (rule manual_transaction_run [OF assms(1-3,5) sec]) (simp add: perform_def query_def split: prod.split)
  show ?thesis
    using ref cla refund_pays [of s c E m secret] claim_pays [of s c E m secret] held assms(13,14) by auto
qed

text \<open>A daemon whose recovery table has the key and the swap of the contract's demonstration run.\<close>

definition demo_eth_info :: EthereumSwapInfo where
  "demo_eth_info = \<lparr>StartNumber = 1, EthInfo_SwapID = 7, EthInfo_Swap = \<lparr>Owner = 3, Claimer = 5, ClaimCommitment = 1, RefundCommitment = 1,
     Timeout1 = 110, Timeout2 = 120, Asset = 0, Value = 50, Nonce = 0\<rparr>, SwapCreatorAddr = 9\<rparr>"

definition demo_rpc_backend :: "(unit, memstore) backend" where
  "demo_rpc_backend = demo_backend (demo_swap_codecs [] [demo_eth_info]) (demo_eth (\<lambda>_. 0))"

definition demo_rpc_db :: memstore where
  "demo_rpc_db = \<lparr>entries = [((recoveryPrefix, getRecoveryDBKey 7 swapPrivateKeyPrefix), [0]),
     ((recoveryPrefix, getRecoveryDBKey 7 contractSwapInfoPrefix), [0])], readonly = False\<rparr>"

definition demo_rpc_daemon :: "(unit, memstore) daemon" where
  "demo_rpc_daemon = demo_daemon\<lparr>mgr := empty_manager demo_rpc_db\<rparr>"

lemma demo_rpc_recovered:
  "rv_ethinfo (recovered (b_chaindb demo_rpc_backend) (b_codecs demo_rpc_backend) (mgr_db (mgr demo_rpc_daemon)) 7) = Ok demo_eth_info"
  "rv_privkey (recovered (b_chaindb demo_rpc_backend) (b_codecs demo_rpc_backend) (mgr_db (mgr demo_rpc_daemon)) 7) = Ok (replicate 32 6)"
  by (simp_all add: recovered_def demo_rpc_backend_def demo_backend_def demo_rpc_daemon_def empty_manager_def GetContractSwapInfo_def GetSwapPrivateKey_def
      get_struct_result [OF memdb_laws] content_memdb demo_rpc_db_def recovery_prefix_defs UnmarshalStruct_def enum_codec_def)

theorem manual_recovery_witness:
  "fst (SwapService_Refund demo_rpc_backend 7 demo_rpc_daemon) = Ok 77 \<and>
   (\<exists>c'. refund demo_evm (run_txs demo_evm (deployed 9 demo_ledger) [demo_new]) (demo_msg 3 0 120) demo_swap
       (bytes_hash (Reverse (replicate 32 6))) = Inr c' \<and> balances c' 0 3 = 80)"
proof -
  let ?c = "run_txs demo_evm (deployed 9 demo_ledger) [demo_new]"
  have s: "demo_swap = contract_swap (EthInfo_Swap demo_eth_info)"
    by (simp add: demo_swap_def contract_swap_def demo_eth_info_def)
  have "signer_opts (b_node demo_rpc_backend) (ethc demo_rpc_daemon) = Some \<lparr>Opts_From = 11, Opts_Value = None, Opts_GasPrice = None, Opts_GasLimit = 0\<rparr>"
    by (simp add: signer_opts_def demo_rpc_backend_def demo_backend_def demo_node_def demo_rpc_daemon_def demo_daemon_def)
  note at = manual_recovery [OF _ demo_rpc_recovered _ this refl s, where E = demo_evm and ts = "[demo_new]" and a = 9 and l = demo_ledger
      and m = "demo_msg 3 0 120" and c = ?c]
  have "fst (SwapService_Refund demo_rpc_backend 7 demo_rpc_daemon) = fst (sc_Refund (b_node demo_rpc_backend) 9
      \<lparr>Opts_From = 11, Opts_Value = None, Opts_GasPrice = None, Opts_GasLimit = 0\<rparr> (EthInfo_Swap demo_eth_info) (bytes_hash (Reverse (replicate 32 6)))
      (world demo_rpc_daemon)) \<and>
    (\<exists>c'. refund demo_evm ?c (demo_msg 3 0 120) demo_swap (bytes_hash (Reverse (replicate 32 6))) = Inr c' \<and> balances c' 0 3 = balances ?c 0 3 + 50)"
    using at by (simp add: demo_new_run memdb_laws demo_rpc_backend_def demo_backend_def demo_swap_def demo_eth_info_def)
  then show ?thesis
    by (auto simp: demo_new_run demo_rpc_backend_def demo_backend_def demo_node_def ret_def)
qed

end
