(* ===== verification/Rpc_Net.thy ===== *)
theory Rpc_Net
  imports Taker_Safety
begin

text \<open>
  The RPC methods on offers (\<open>rpc/net.go\<close>): searching for peers, listing their offers and trading pairs, taking
  and making offers. The service reaches the network, the taker and the maker through the interfaces \<open>Net\<close>,
  \<open>XMRTaker\<close>, \<open>XMRMaker\<close> and \<open>ProtocolBackend\<close> of the package, which are records of operations here, over any
  state. The pairs are listed in the order of an iteration over a map, which is an argument.
\<close>

section \<open>The service and what it calls\<close>

record ('s, 'ss) NetService =
  ns_isBootnode :: bool
  ns_PeerID :: string
  ns_Discover :: "string \<Rightarrow> int \<Rightarrow> ('s, string list) go"
  ns_Query :: "string \<Rightarrow> ('s, Offer list) go"
  ns_Initiate :: "string \<Rightarrow> message \<Rightarrow> 'ss \<Rightarrow> ('s, unit) go"
  ns_InitiateProtocol :: "string \<Rightarrow> decimal \<Rightarrow> Offer \<Rightarrow> ('s, 'ss) go"
  ns_SendKeysMessage :: "'ss \<Rightarrow> message outcome"
  ns_Exit :: "'ss \<Rightarrow> ('s, unit) go"
  ns_MakeOffer :: "Offer \<Rightarrow> bool \<Rightarrow> ('s, OfferExtra) go"
  ns_ERC20Info :: "address \<Rightarrow> ('s, ERC20TokenInfo) go"

definition errNoOfferWithID :: goerr where
  "errNoOfferWithID = Sentinel ''errNoOfferWithID'' ''peer does not have offer with given ID''"

definition errUnsupportedForBootnode :: goerr where
  "errUnsupportedForBootnode = Sentinel ''errUnsupportedForBootnode'' ''unsupported for bootnode''"

section \<open>Searching for peers and offers\<close>

definition defaultSearchTime :: int where
  "defaultSearchTime = 12 * 1000000000"

text \<open>\<open>time.ParseDuration\<close> of a number of seconds: an error when the nanoseconds leave the 63 bits.\<close>

definition ParseDuration_seconds :: "uint64 \<Rightarrow> int result" where
  "ParseDuration_seconds n =
     (if uint n * 1000000000 < 2 ^ 63 then Inr (uint n * 1000000000) else Inl (Errorf ''time: invalid duration %q''))"

definition NetService_discover :: "('s, 'ss) NetService \<Rightarrow> string \<Rightarrow> uint64 \<Rightarrow> ('s, string list) go" where
  "NetService_discover S provides search =
     bnd (lift (of_result (ParseDuration_seconds search))) (\<lambda>searchTime.
     ns_Discover S provides (if searchTime = 0 then defaultSearchTime else searchTime))"

definition NetService_Discover :: "('s, 'ss) NetService \<Rightarrow> string \<Rightarrow> uint64 \<Rightarrow> ('s, string list) go" where
  "NetService_Discover S provides search =
     bnd (lift (of_result (ParseDuration_seconds search))) (\<lambda>searchTime.
     ns_Discover S provides (if searchTime = 0 then defaultSearchTime else searchTime))"

definition QueryPeer :: "('s, 'ss) NetService \<Rightarrow> string \<Rightarrow> ('s, Offer list) go" where
  "QueryPeer S who = (if ns_isBootnode S then fail errUnsupportedForBootnode else ns_Query S who)"

primrec query_peers :: "('s, 'ss) NetService \<Rightarrow> string list \<Rightarrow> ('s, (string \<times> Offer list) list) go" where
  "query_peers S [] = ret []"
| "query_peers S (p # ps) =
     bnd (attempt (ns_Query S p)) (\<lambda>r.
     bnd (query_peers S ps) (\<lambda>rest. ret (case r of
       Inl _ \<Rightarrow> rest
     | Inr os \<Rightarrow> if os \<noteq> [] then (p, os) # rest else rest)))"

definition QueryAll :: "('s, 'ss) NetService \<Rightarrow> string \<Rightarrow> uint64 \<Rightarrow> ('s, (string \<times> Offer list) list) go" where
  "QueryAll S provides search =
     (if ns_isBootnode S then fail errUnsupportedForBootnode
      else bnd (NetService_discover S provides search) (query_peers S))"

section \<open>Trading pairs\<close>

text \<open>One offer: a pair is made for the first offer of its asset, unless the token cannot be read.\<close>

definition pair_of_asset :: "('s, 'ss) NetService \<Rightarrow> EthAsset \<Rightarrow> ('s, Pair option) go" where
  "pair_of_asset S ea =
     (let pair = NewPair ea in
      if EthAsset_IsToken (PairEthAsset pair)
      then bnd (attempt (ns_ERC20Info S ea)) (\<lambda>r. case r of
             Inl _ \<Rightarrow> ret None
           | Inr tokenInfo \<Rightarrow> ret (Some (pair\<lparr>PairToken := tokenInfo\<rparr>)))
      else ret (Some (pair\<lparr>PairToken := (PairToken pair)\<lparr>Name := ''Ether'', Symbol := ''ETH'', TokenNumDecimals := 18\<rparr>,
                           Verified := True\<rparr>)))"

primrec add_offers :: "apd \<Rightarrow> ('s, 'ss) NetService \<Rightarrow> Offer list \<Rightarrow> (address \<rightharpoonup> Pair) \<Rightarrow> ('s, address \<rightharpoonup> Pair) go" where
  "add_offers A S [] pairs = ret pairs"
| "add_offers A S (off # os) pairs =
     bnd (case pairs (EthAsset off) of Some pair \<Rightarrow> ret (Some pair) | None \<Rightarrow> pair_of_asset S (EthAsset off)) (\<lambda>r.
     case r of
       None \<Rightarrow> add_offers A S os pairs
     | Some pair \<Rightarrow> bnd (lift (Pair_AddOffer A pair off)) (\<lambda>pair'. add_offers A S os (pairs(EthAsset off \<mapsto> pair'))))"

primrec add_peers :: "apd \<Rightarrow> ('s, 'ss) NetService \<Rightarrow> string list \<Rightarrow> (address \<rightharpoonup> Pair) \<Rightarrow> ('s, address \<rightharpoonup> Pair) go" where
  "add_peers A S [] pairs = ret pairs"
| "add_peers A S (p # ps) pairs =
     bnd (attempt (ns_Query S p)) (\<lambda>r. case r of
       Inl _ \<Rightarrow> add_peers A S ps pairs
     | Inr os \<Rightarrow> if os = [] then add_peers A S ps pairs else bnd (add_offers A S os pairs) (add_peers A S ps))"

definition pairs_array :: "Pair list \<Rightarrow> Pair list" where
  "pairs_array ps = foldl (\<lambda>acc p. if EthAsset_IsETH (PairEthAsset p) then p # acc else acc @ [p]) [] ps"

definition Pairs :: "apd \<Rightarrow> (address set \<Rightarrow> address list) \<Rightarrow> ('s, 'ss) NetService \<Rightarrow> uint64 \<Rightarrow> ('s, Pair list) go" where
  "Pairs A order S search =
     (if ns_isBootnode S then fail errUnsupportedForBootnode
      else bnd (NetService_discover S [] search) (\<lambda>peerIDs.
           bnd (add_peers A S peerIDs Map.empty) (\<lambda>pairs.
           ret (pairs_array (map (\<lambda>a. the (pairs a)) (order (dom pairs)))))))"

section \<open>Taking and making offers\<close>

definition takeOffer :: "('s, 'ss) NetService \<Rightarrow> string \<Rightarrow> hash \<Rightarrow> decimal \<Rightarrow> ('s, unit) go" where
  "takeOffer S makerPeerID offerID providesAmount =
     bnd (ns_Query S makerPeerID) (\<lambda>os. case List.find (\<lambda>maybeOffer. offerID = ID maybeOffer) os of
       None \<Rightarrow> fail errNoOfferWithID
     | Some off \<Rightarrow>
         bnd (ns_InitiateProtocol S makerPeerID providesAmount off) (\<lambda>swapState.
         bnd (lift (ns_SendKeysMessage S swapState)) (\<lambda>msg. case msg of
           SendKeys skm \<Rightarrow>
             bnd (attempt (ns_Initiate S makerPeerID
               (SendKeys (skm\<lparr>SK_OfferID := offerID, SK_ProvidedAmount := Some providesAmount\<rparr>)) swapState)) (\<lambda>r. case r of
               Inr _ \<Rightarrow> ret ()
             | Inl _ \<Rightarrow> bnd (attempt (ns_Exit S swapState)) (\<lambda>err. case err of
                 Inl e \<Rightarrow> fail e
               | Inr _ \<Rightarrow> ret ()))
         | _ \<Rightarrow> panic ''interface conversion'')))"

definition NetService_TakeOffer :: "('s, 'ss) NetService \<Rightarrow> string \<Rightarrow> hash \<Rightarrow> decimal \<Rightarrow> ('s, unit) go" where
  "NetService_TakeOffer S makerPeerID offerID providesAmount =
     (if ns_isBootnode S then fail errUnsupportedForBootnode else takeOffer S makerPeerID offerID providesAmount)"

record MakeOfferRequest =
  MR_MinAmount :: decimal
  MR_MaxAmount :: decimal
  MR_ExchangeRate :: ExchangeRate
  MR_EthAsset :: EthAsset
  MR_UseRelayer :: bool

text \<open>The answer is the peer and the identifier of the offer; the nonce of the new offer is an argument.\<close>

definition makeOffer :: "lib \<Rightarrow> apd \<Rightarrow> uint64 \<Rightarrow> ('s, 'ss) NetService \<Rightarrow> MakeOfferRequest \<Rightarrow> ('s, string \<times> hash) go" where
  "makeOffer L A n S req =
     bnd (lift (NewOffer L A n ProvidesXMR (MR_MinAmount req) (MR_MaxAmount req) (MR_ExchangeRate req) (MR_EthAsset req))) (\<lambda>off.
     andthen (ns_MakeOffer S off (MR_UseRelayer req)) (ret (ns_PeerID S, ID off)))"

definition NetService_MakeOffer ::
    "lib \<Rightarrow> apd \<Rightarrow> uint64 \<Rightarrow> ('s, 'ss) NetService \<Rightarrow> MakeOfferRequest \<Rightarrow> ('s, string \<times> hash) go" where
  "NetService_MakeOffer L A n S req =
     (if ns_isBootnode S then fail errUnsupportedForBootnode else makeOffer L A n S req)"

section \<open>What the methods answer\<close>

text \<open>Once the peer has the offer and the taker's side of the swap is set up, the answer of \<open>takeOffer\<close> to a failed
  initiation is the answer of \<open>Exit\<close>: the error of the initiation is overwritten.\<close>

lemma takeOffer_failed:
  assumes "ns_Query S who s = (Ok os, s1)" and "List.find (\<lambda>off. i = ID off) os = Some off"
    and "ns_InitiateProtocol S who amt off s1 = (Ok st, s2)" and "ns_SendKeysMessage S st = Ok (SendKeys skm)"
    and "ns_Initiate S who (SendKeys (skm\<lparr>SK_OfferID := i, SK_ProvidedAmount := Some amt\<rparr>)) st s2 = (Err e, s3)"
  shows "takeOffer S who i amt s = ns_Exit S st s3"
  using assms
  by (simp add: takeOffer_def bnd_def lift_def attempt_def ret_def fail_def split: prod.splits outcome.splits)

text \<open>Leaving a swap that still waits for the keys of the maker gives no error.\<close>

lemma reply_kept:
  "keeps (\<lambda>s. reply s = None) (query f)" "keeps (\<lambda>s. reply s = None) (on_mgr g)" "keeps (\<lambda>s. reply s = None) (set_ts h)"
  by (auto simp: keeps_def query_def on_mgr_def set_ts_def modify_def split: prod.splits)

lemma exit_deferred_reply: "keeps (\<lambda>s. reply s = None) (taker_exit_deferred B)"
  unfolding taker_exit_deferred_def close_done_def get_ts_def ignore_err_def recovery_def case_prod_beta
  by (intro keeps_rules reply_kept)

lemma abort_pushed: "fst (PushNewStatus i CompletedAbort m) \<noteq> Err e"
  by (auto simp: PushNewStatus_def getStatusChan_def chan_send_def DeleteStatusChan_def bnd_def lift_def modify_def
      split: option.splits)

lemma exit_body_no_error:
  assumes "t_nextExpectedEvent (ts s) = EventKeysReceivedType" and "reply s = None"
  shows "wp (taker_exit_body B) (\<lambda>r s'. (\<forall>e. r \<noteq> Err e) \<and> reply s' = None) s"
proof -
  have "wp (PushNewStatus i CompletedAbort) (\<lambda>r _. \<forall>e. r \<noteq> Err e) m" for i and m :: "'b manager"
    using abort_pushed [of i m] by (cases "PushNewStatus i CompletedAbort m") (simp add: wp_def)
  with assms show ?thesis
    by (simp add: taker_exit_body_def taker_clearNextExpectedEvent_def taker_updateStatus_def updateStatus_def get_ts_def set_ts_def
        set_info_def wp_rules)
qed

lemma exit_no_error:
  assumes "t_nextExpectedEvent (ts s) = EventKeysReceivedType" and "reply s = None"
  shows "wp (taker_exit B) (\<lambda>r s'. (\<forall>e. r \<noteq> Err e) \<and> reply s' = None) s"
proof -
  from exit_body_no_error [OF assms, of B] obtain r s1 where
    r: "taker_exit_body B s = (r, s1)" "\<forall>e. r \<noteq> Err e" "reply s1 = None"
    by (auto simp: wp_def split: prod.splits)
  obtain r2 s2 where d: "taker_exit_deferred B s1 = (r2, s2)" by force
  with keepsD [OF exit_deferred_reply d] r(3) have "reply s2 = None" by simp
  with r d show ?thesis
    by (cases r; cases r2) (simp_all add: wp_def taker_exit_def deferred_def)
qed

lemma Exit_no_error:
  assumes "t_nextExpectedEvent (ts s) = EventKeysReceivedType"
  shows "fst (taker_Exit B s) \<noteq> Err e"
proof -
  let ?s = "s\<lparr>reply := None\<rparr>"
  from assms have "wp (taker_exit B) (\<lambda>r s'. (\<forall>e. r \<noteq> Err e) \<and> reply s' = None) ?s"
    by (intro exit_no_error) simp_all
  then obtain r s1 where r: "taker_exit B ?s = (r, s1)" "\<forall>e. r \<noteq> Err e" "reply s1 = None"
    by (auto simp: wp_def split: prod.splits)
  then show ?thesis
    by (cases r) (simp_all add: taker_Exit_def taker_deliver_def taker_handleEvent_def bnd_def modify_def get_ts_def gets_def deferred_def
        attempt_def ret_def close_errCh_def)
qed

text \<open>The pair of an asset is stored under that asset.\<close>

definition pairs_keyed :: "(address \<rightharpoonup> Pair) \<Rightarrow> bool" where
  "pairs_keyed pairs \<longleftrightarrow> (\<forall>a p. pairs a = Some p \<longrightarrow> PairEthAsset p = a)"

lemma pair_of_asset_Ok: "pair_of_asset S a s = (Ok (Some p), s') \<Longrightarrow> PairEthAsset p = a"
  by (auto simp: pair_of_asset_def NewPair_def Let_def run_Ok attempt_Ok split: if_splits)

lemma Pair_AddOffer_Ok: "Pair_AddOffer A p off = Ok p' \<Longrightarrow> PairEthAsset p' = PairEthAsset p"
  by (cases "MaxAmount off"; cases "of_result (apd_Add A MaxCoinPrecision (ReportedLiquidityXMR p) (the (MaxAmount off)))")
    (auto simp: Pair_AddOffer_def)

lemma add_offers_keyed:
  "add_offers A S os pairs s = (Ok pairs', s') \<Longrightarrow> pairs_keyed pairs \<Longrightarrow> pairs_keyed pairs'"
proof (induction os arbitrary: pairs s)
  case Nil
  then show ?case by (simp add: run_Ok)
next
  case (Cons off os)
  from Cons.prems(1) obtain r s1 where
    r: "(case pairs (EthAsset off) of Some p \<Rightarrow> ret (Some p) | None \<Rightarrow> pair_of_asset S (EthAsset off)) s = (Ok r, s1)"
    and rest: "(case r of None \<Rightarrow> add_offers A S os pairs
      | Some p \<Rightarrow> bnd (lift (Pair_AddOffer A p off)) (\<lambda>p'. add_offers A S os (pairs(EthAsset off \<mapsto> p')))) s1 = (Ok pairs', s')"
    by (auto simp: run_Ok)
  show ?case
  proof (cases r)
    case None
    with rest Cons.IH Cons.prems(2) show ?thesis by simp
  next
    case (Some p)
    with r Cons.prems(2) have "PairEthAsset p = EthAsset off"
      by (auto simp: pairs_keyed_def run_Ok pair_of_asset_Ok split: option.splits)
    moreover from rest Some obtain p' where p': "Pair_AddOffer A p off = Ok p'"
      and run: "add_offers A S os (pairs(EthAsset off \<mapsto> p')) s1 = (Ok pairs', s')"
      by (auto simp: run_Ok)
    ultimately have "pairs_keyed (pairs(EthAsset off \<mapsto> p'))"
      using Cons.prems(2) by (auto simp: pairs_keyed_def Pair_AddOffer_Ok)
    with Cons.IH run show ?thesis by blast
  qed
qed

lemma add_peers_keyed:
  "add_peers A S ps pairs s = (Ok pairs', s') \<Longrightarrow> pairs_keyed pairs \<Longrightarrow> pairs_keyed pairs'"
proof (induction ps arbitrary: pairs s)
  case Nil
  then show ?case by (simp add: run_Ok)
next
  case (Cons p ps)
  from Cons.prems(1) obtain r :: "goerr + Offer list" and s1 where
    run: "(case r of Inl _ \<Rightarrow> add_peers A S ps pairs
      | Inr os \<Rightarrow> if os = [] then add_peers A S ps pairs else bnd (add_offers A S os pairs) (add_peers A S ps)) s1 = (Ok pairs', s')"
    by (auto simp: run_Ok)
  show ?case
  proof (cases "\<exists>os. r = Inr os \<and> os \<noteq> []")
    case True
    with run obtain os pairs1 s2 where added: "add_offers A S os pairs s1 = (Ok pairs1, s2)"
      and rest: "add_peers A S ps pairs1 s2 = (Ok pairs', s')"
      by (auto simp: run_Ok)
    show ?thesis by (rule Cons.IH [OF rest add_offers_keyed [OF added Cons.prems(2)]])
  next
    case False
    with run have "add_peers A S ps pairs s1 = (Ok pairs', s')" by (auto split: sum.splits if_splits)
    then show ?thesis by (rule Cons.IH [OF _ Cons.prems(2)])
  qed
qed

lemma pairs_array_eq:
  "pairs_array ps = rev (filter (\<lambda>p. EthAsset_IsETH (PairEthAsset p)) ps) @ filter (\<lambda>p. \<not> EthAsset_IsETH (PairEthAsset p)) ps"
  by (induction ps rule: rev_induct) (auto simp: pairs_array_def)

lemma in_set_tl: "x \<in> set (tl xs) \<Longrightarrow> x \<in> set xs"
  by (cases xs) simp_all

lemma pairs_array_distinct:
  assumes "distinct (map PairEthAsset qs)"
  shows "distinct (map PairEthAsset (pairs_array qs)) \<and> (\<forall>p\<in>set (tl (pairs_array qs)). \<not> EthAsset_IsETH (PairEthAsset p))"
proof -
  let ?eth = "filter (\<lambda>p. EthAsset_IsETH (PairEthAsset p)) qs"
  have "length ?eth \<le> 1"
  proof (rule ccontr)
    assume "\<not> length ?eth \<le> 1"
    moreover from assms have "distinct (map PairEthAsset ?eth)" by (rule distinct_map_filter)
    moreover have "set (map PairEthAsset ?eth) \<subseteq> {EthAssetETH}" by (auto simp: EthAsset_IsETH_def)
    ultimately show False
      using card_mono [of "{EthAssetETH}" "set (map PairEthAsset ?eth)"] distinct_card [of "map PairEthAsset ?eth"] by simp
  qed
  then have "?eth = [] \<or> (\<exists>p. ?eth = [p])" by (cases ?eth) auto
  with assms show ?thesis
    by (auto simp: pairs_array_eq distinct_map_filter rev_map [symmetric] filter_empty_conv dest: in_set_tl)
qed

text \<open>The pairs listed are of different assets, and the pair of ether is the first.\<close>

lemma Pairs_listed:
  assumes run: "Pairs A order S n s = (Ok ps, s')" and order: "\<And>X. distinct (order X) \<and> set (order X) \<subseteq> X"
  shows "distinct (map PairEthAsset ps) \<and> (\<forall>p\<in>set (tl ps). \<not> EthAsset_IsETH (PairEthAsset p))"
proof -
  from run obtain peers s1 pairs s2 where "add_peers A S peers Map.empty s1 = (Ok pairs, s2)"
    and ps: "ps = pairs_array (map (\<lambda>a. the (pairs a)) (order (dom pairs)))"
    by (auto simp: Pairs_def run_Ok fail_def split: if_splits)
  then have keyed: "pairs_keyed pairs" using add_peers_keyed by (force simp: pairs_keyed_def)
  let ?qs = "map (\<lambda>a. the (pairs a)) (order (dom pairs))"
  from keyed order [of "dom pairs"] have assets: "map PairEthAsset ?qs = order (dom pairs)"
    by (auto simp: pairs_keyed_def intro!: map_idI)
  then have dist: "distinct (map PairEthAsset ?qs)" using order by simp
  show ?thesis unfolding ps by (rule pairs_array_distinct [OF dist])
qed

text \<open>C26: taking an offer never reports that the initiation with the maker failed. Once the peer has the offer and the taker's
  side of the swap is set up, the swap waits for the maker's keys; when \<open>Initiate\<close> then fails, with whatever error,
  \<open>takeOffer\<close> returns what the taker's \<open>Exit\<close> returns, and \<open>Exit\<close> of such a swap returns no error.\<close>

theorem failed_initiation_unreported:
  fixes s3 :: "('w, 'k, 'z) taker_scheme"
  assumes "ns_Query S who s = (Ok os, s1)" and "List.find (\<lambda>off. i = ID off) os = Some off"
    and "ns_InitiateProtocol S who amt off s1 = (Ok st, s2)" and "ns_SendKeysMessage S st = Ok (SendKeys skm)"
    and "ns_Initiate S who (SendKeys (skm\<lparr>SK_OfferID := i, SK_ProvidedAmount := Some amt\<rparr>)) st s2 = (Err e, s3)"
    and "t_nextExpectedEvent (ts s3) = EventKeysReceivedType" and "ns_Exit S st = taker_Exit B"
  shows "takeOffer S who i amt s = taker_Exit B s3 \<and> fst (takeOffer S who i amt s) \<noteq> Err e'"
  using takeOffer_failed [OF assms(1-5)] Exit_no_error [OF assms(6)] assms(7) by simp

definition demo_listed :: Offer where
  "demo_listed = \<lparr>OfferVersion = CurOfferVersion, ID = 7, Provides = ProvidesXMR, MinAmount = None, MaxAmount = None,
     ExchangeRate = None, EthAsset = EthAssetETH, OfferNonce = 0\<rparr>"

definition demo_sent_keys :: SendKeysMessage where
  "demo_sent_keys = \<lparr>SK_OfferID = 0, SK_ProvidedAmount = None, SK_PublicSpendKey = Some (PubSpendKey (PublicKeyPair_of demo_keys demo_pair)),
     SK_PrivateViewKey = Some (ViewKey demo_pair), SK_DLEqProof = [9], SK_Secp256k1PublicKey = Some demo_secp, SK_EthAddress = 0\<rparr>"

lemma demo_started_keys:
  "taker_SendKeysMessage demo_started = Ok (SendKeys demo_sent_keys)" "t_nextExpectedEvent demo_started = EventKeysReceivedType"
  by (simp_all add: taker_SendKeysMessage_def demo_started_def demo_sent_keys_def)

definition demo_service :: "((unit, memstore) taker, taker_swap) NetService" where
  "demo_service = \<lparr>ns_isBootnode = False, ns_PeerID = ''taker'', ns_Discover = (\<lambda>_ _. ret [''maker'']),
     ns_Query = (\<lambda>_. ret [demo_listed]),
     ns_Initiate = (\<lambda>_ _ _. fail (Errorf ''failed to dial'')),
     ns_InitiateProtocol = (\<lambda>_ _ _ _. (Ok demo_started, start_taker demo_started (demo_daemon\<lparr>mgr := demo_started_mgr\<rparr>))),
     ns_SendKeysMessage = taker_SendKeysMessage, ns_Exit = (\<lambda>_. taker_Exit demo_taker),
     ns_MakeOffer = (\<lambda>_ b. ret (NewOfferExtra b)), ns_ERC20Info = (\<lambda>a. ret (NewERC20TokenInfo a 6 ''USD Coin'' ''USDC''))\<rparr>"

theorem failed_initiation_unreported_witness:
  "takeOffer demo_service ''maker'' 7 (demo_whole 6 (- 1)) (start_taker demo_started demo_daemon) =
     taker_Exit demo_taker (start_taker demo_started (demo_daemon\<lparr>mgr := demo_started_mgr\<rparr>)) \<and>
   fst (takeOffer demo_service ''maker'' 7 (demo_whole 6 (- 1)) (start_taker demo_started demo_daemon)) \<noteq> Err (Errorf ''failed to dial'')"
  by (rule failed_initiation_unreported [where off = demo_listed and skm = demo_sent_keys and os = "[demo_listed]" and st = demo_started])
    (simp_all add: demo_service_def ret_def fail_def demo_started_keys start_taker_def daemon.defs demo_listed_def)

end
