(* ===== verification/Spec2Isabelle.thy ===== *)
theory Spec2Isabelle
  imports Taker_Safety Maker_Safety Vault_Properties Monero_Base58 Eth_Waiting Relay_Claims Net_Host Monero_Wallet Rpc_Swap Rpc_Net
begin

text \<open>
  A verification development of a daemon for atomic swaps between ether (or an ERC20 token) and Monero, and of the
  contracts it and its vault extension use. Paths below are relative to \<open>src/\<close>.

  \<^bold>\<open>The program.\<close> Two daemons swap. The \<^emph>\<open>maker\<close> offers XMR; the \<^emph>\<open>taker\<close> pays with ETH. They exchange keys
  over a peer-to-peer stream; the taker locks its ETH in the contract \<open>SwapCreator\<close>, the maker checks the lock and
  sends XMR to an address whose key is the sum of a key of each; the taker sets the contract ready, the maker
  claims the ETH and thereby publishes its key, and the taker sweeps the XMR with the sum. If this stops half
  way, the taker refunds and thereby publishes its own key, with which the maker gets its XMR back. A maker
  without ETH for gas has its claim sent by a \<^emph>\<open>relayer\<close>. Every step is first written to a database, from which a
  restarted daemon resumes. Apart from the swaps, \<open>VaultManager\<close> lets providers of collateral mint and burn
  the token \<open>wsXMR\<close>.

  \<^bold>\<open>The vocabulary.\<close>

  \<^item> \<open>Go_Prelude\<close>: a Go function with effects is a function \<open>('s, 'a) go\<close> from a state to an outcome and a state. An
    outcome is \<open>Ok\<close>, \<open>Err\<close> (a returned error), \<open>Panic\<close> or \<open>Block\<close> (it waits forever, or its fuel is used up). \<open>bnd\<close> is the
    usual check of an error, \<open>attempt\<close> the inspection of one, \<open>deferred\<close> a deferred call. The weakest preconditions
    \<open>wp\<close>, the invariants \<open>keeps\<close> and the inversion rules \<open>run_Ok\<close> carry the proofs about handlers.
  \<^item> \<open>Solidity_Prelude\<close>: contract calls return an error, which undoes their effects, or a new state; the checked
    arithmetic of 256-bit words.
  \<^item> \<open>Store\<close>, \<open>Apd\<close>: the key-value store and the JSON codecs, and the decimal library, as records of operations with
    laws, and a concrete instance of each.

  \<^bold>\<open>The theories and the code they model.\<close>

  \<^item> \<open>Coins\<close>: \<open>coins/\<close>, amounts and exchange rates. \<open>Offer_Types\<close>: assets, hashes, offers and pairs of
    \<open>common/types/\<close>. \<open>Swap_Status\<close>: \<open>common/types/status.go\<close>.
  \<^item> \<open>Mcrypto\<close>: keys, key sums and addresses of \<open>crypto/\<close>, \<open>dleq/\<close> and the key exchange of \<open>protocol/\<close>. \<open>Monero_Base58\<close>: the text of an address,
    \<open>crypto/monero/base58.go\<close> and \<open>address_marshal.go\<close>.
  \<^item> \<open>Swap_Info\<close>, \<open>Swap_Manager\<close>: \<open>protocol/swap/\<close>, with the infos of swaps in a heap (the code shares pointers to them) and
    the status channels as bounded buffers. \<open>Offer_Manager\<close>: \<open>protocol/xmrmaker/offers/\<close>. \<open>Database\<close>: \<open>db/\<close>.
  \<^item> \<open>Swap_Creator\<close>: \<open>ethereum/contracts/SwapCreator.sol\<close>, a record of its storage, the balances and the log, and one
    definition per function. \<open>Eth_Contracts\<close>: what the Go code computes of the contract (identifiers, secrets, logs).
  \<^item> \<open>Eth_Client\<close>, \<open>Eth_Waiting\<close>: \<open>ethereum/extethclient/\<close>, \<open>ethereum/block/\<close>, \<open>ethereum/watcher/\<close>.
  \<^item> \<open>Monero_Wallet\<close>: \<open>monero/wallet_client.go\<close> and \<open>monero/utils.go\<close>.
  \<^item> \<open>Swap_Backend\<close>, \<open>Swap_Invariants\<close>: \<open>protocol/backend/\<close>, \<open>protocol/txsender/\<close>, the messages. The state of a daemon holds
    the world outside, the manager and its database, and a ghost \<open>trace\<close> of what it did to the outside together
    with the database at that moment.
  \<^item> \<open>Xmr_Taker\<close>, \<open>Taker_Instance\<close>, \<open>Xmr_Maker\<close>, \<open>Maker_Instance\<close>: \<open>protocol/xmrtaker/\<close> and \<open>protocol/xmrmaker/\<close>, every event and
    message handler, the routines, start and restart. \<open>Relayer\<close>: \<open>relayer/\<close>.
  \<^item> \<open>Net_Host\<close>: \<open>net/\<close> and \<open>net/message/\<close>. \<open>Rpc_Swap\<close>: \<open>rpc/swap.go\<close> and \<open>pricefeed/\<close>. \<open>Rpc_Net\<close>: \<open>rpc/net.go\<close>.
  \<^item> \<open>Wsxmr_Token\<close>, \<open>Vault_Manager\<close>: \<open>ethereum/contracts/wsXMR.sol\<close> and \<open>VaultManager.sol\<close> with the library contracts
    they inherit.
  \<^item> \<open>Demo_Backend\<close>: one concrete instance of all interfaces, on which hypotheses are shown to hold together.

  \<^bold>\<open>What is shown.\<close>

  \<^item> The swap contract (\<open>Swap_Creator\<close>): the stages of a swap, at most one of claim and refund, solvency, which party can
    act when, and that what is logged reveals a valid secret.
  \<^item> The taker (\<open>Taker_Safety\<close>) and the maker (\<open>Maker_Safety\<close>): over every sequence of events, messages and steps of
    the routines, from the start of a swap, ETH is sent only with the data to refund it stored, and XMR only after
    the lock was checked. They interpret the locales \<open>taker_invariant\<close> and \<open>maker_invariant\<close>, which extend
    \<open>daemon_invariant\<close> and \<open>world_invariant\<close>: an invariant kept by the primitive effects is kept by every handler.
  \<^item> Persistence (\<open>Swap_Manager\<close>, \<open>Offer_Manager\<close>, \<open>Database\<close>): the managers rely on the locales \<open>swap_database\<close> and
    \<open>offer_database\<close>, which the tables of \<open>Database\<close> interpret; what survives a restart, and that recovery data is
    read back as written.
  \<^item> Agreement of the sides (\<open>Eth_Contracts\<close>, \<open>Mcrypto\<close>, \<open>Relay_Claims\<close>, \<open>Rpc_Swap\<close>): Go and Solidity compute the same
    identifiers; key sums have the address the parties computed; a secret survives the way through a log; a
    claim signed for a relayer passes the relayer's checks and the contract's; a manual claim or refund sends
    what the contract accepts.
  \<^item> Waiting (\<open>Eth_Waiting\<close>, \<open>Monero_Wallet\<close>): bounds for the loops, and that no log and no wallet process is lost.
  \<^item> The network (\<open>Net_Host\<close>, \<open>Rpc_Net\<close>): encoding, closing of streams, one swap per offer, and what the caller is
    told of an initiation that failed.
  \<^item> The vaults (\<open>Vault_Safety\<close>, \<open>Vault_Requests\<close>, \<open>Vault_Prices\<close>, \<open>Vault_Properties\<close>): solvency, backing of the supply and the
    paths of requests under arbitrary re-entrant calls, through the locales \<open>open_invariant\<close> and
    \<open>storage_invariant\<close>; bounds of the price arithmetic. \<open>Wsxmr_Token\<close> refines a specification on naturals.

  \<^bold>\<open>Bounds and fuel.\<close> Loops that end are recursive on their data. The others take a number of rounds and block when
  it is used up: \<open>wait_block\<close> (ticks of its timer), \<open>EventFilter_Start\<close>, the event watchers, \<open>poll_receipt\<close>,
  \<open>read_loop\<close> (messages of a stream), \<open>wait_blocks\<close> and \<open>receipt_loop\<close>. Safety holds for every number. That they return is
  proved where it is claimed: the 360 attempts of \<open>wait_receipt\<close> are those of the code, so it is total; a wallet
  transfer returns for every number above the number of sleeps per block and the height of its last
  confirmation. A choice between channels is a list of arrivals, quantified in the theorems; calls that a receiver
  of a payment makes are the list \<open>react\<close>, also arbitrary.

  \<^bold>\<open>Parameters.\<close> Third-party code is an argument: the Ethereum node and generated bindings (\<open>node\<close>), go-ethereum's hashing
  and encoding, monero-wallet-rpc, the operating system, libp2p, JSON, the decimal and curve arithmetic, the
  EVM's hash and precompile, Pyth, Chainlink and token contracts. What a theorem needs of them is a named
  hypothesis (such as \<open>chaindb_laws\<close>, \<open>standard_tokens\<close>, \<open>base58_laws\<close>, \<open>live_chain\<close>), and its witness gives an instance.

  \<^bold>\<open>Not modelled.\<close>

  \<^item> Code generated by abigen and mockgen, except the decoding of the \<open>New\<close> event; interfaces without code.
  \<^item> The HTTP, JSON-RPC and websocket server and its client, and the services of \<open>rpc/\<close> that pass a call on
    (\<open>personal.go\<close>, \<open>database.go\<close>, \<open>daemon.go\<close>); of \<open>rpc/swap.go\<close>, \<open>Cancel\<close>, which works on the states of both parties.
  \<^item> Start-up, flags and wiring (\<open>cmd/\<close>, \<open>daemon/\<close>, \<open>cliutil/\<close>, \<open>bootnode/\<close>), deployment scripts, test support, and the
    web front end: input and output around the operations above.
  \<^item> The generation of random keys and the discrete-log equality proof system, which are in libraries; their
    results are arguments.
  \<^item> Goroutines run as steps between which others can happen, and an operation under a lock is one step: data races
    inside an operation are out of scope. The reader that \<open>nextStreamMessage\<close> leaves behind is not followed.
  \<^item> Log output, metrics and the texts of formatted errors beyond their format.
\<close>

end
